(* ===== verification/RN_Prelude.thy ===== *)
theory RN_Prelude
  imports Main "HOL-Library.Word"
begin

unbundle bit_operations_syntax

text \<open>
  Shared vocabulary of the development: the Go types the components use (byte slices, fixed-size
  arrays, the wrap-around of \<open>int64\<close>), the pieces of Go's \<open>strings\<close>, \<open>strconv\<close>,
  \<open>fmt\<close> and \<open>encoding/hex\<close> packages the sources call, results of fallible calls as sums,
  SQL tables as lists of rows, and the generic lemmas on all of these.  The collections
  \<open>row_simps\<close> and \<open>go_simps\<close> carry the component proofs.
\<close>

named_theorems go_simps "unfolding rules for the Go library functions"
named_theorems row_simps "laws of lookups and updates on tables of rows"

section \<open>Bytes and fixed-size arrays\<close>

type_synonym byte = "8 word"
type_synonym bytes = "byte list"

text \<open>
  \<open>var a [n]byte; copy(a[:], src)\<close>: the first \<open>n\<close> bytes of the source, zero-padded, since a
  fresh Go array is zeroed and \<open>copy\<close> stops at the shorter of the two.
\<close>

definition copy_arr :: "nat \<Rightarrow> bytes \<Rightarrow> bytes" where
  "copy_arr n src = take n src @ replicate (n - length src) 0"

lemma length_copy_arr [simp]: "length (copy_arr n src) = n"
  by (simp add: copy_arr_def)

lemma copy_arr_id [simp]: "length src = n \<Longrightarrow> copy_arr n src = src"
  by (simp add: copy_arr_def)

lemma copy_arr_prefix: "n \<le> length src \<Longrightarrow> copy_arr n src = take n src"
  by (simp add: copy_arr_def)

section \<open>Results of calls\<close>

text \<open>
  What a Go call that returns an \<open>error\<close> does: return normally, return the error, or panic
  (a nil dereference, an index out of range).
\<close>

datatype ('e, 'a) go_result = Ok 'a | Err 'e | Panic

text \<open>The log lines print \<open>s[:8]\<close>, which panics on a string shorter than eight bytes: \<open>None\<close>.\<close>

definition slice8 :: "string \<Rightarrow> unit option" where
  "slice8 s = (if length s < 8 then None else Some ())"

fun is_ok :: "('e, 'a) go_result \<Rightarrow> bool" where
  "is_ok (Ok _) = True"
| "is_ok _ = False"

lemma is_ok_iff: "is_ok r \<longleftrightarrow> (\<exists>a. r = Ok a)"
  by (cases r) auto

section \<open>Machine integers\<close>

text \<open>The value an \<open>int64\<close> holds after an arithmetic result \<open>i\<close> is stored in it.\<close>

definition to_int64 :: "int \<Rightarrow> int" where
  "to_int64 i = (i + 2 ^ 63) mod 2 ^ 64 - 2 ^ 63"

lemma to_int64_id [simp]: "- (2 ^ 63) \<le> i \<Longrightarrow> i < 2 ^ 63 \<Longrightarrow> to_int64 i = i"
  by (simp add: to_int64_def)

lemma to_int64_range: "- (2 ^ 63) \<le> to_int64 i \<and> to_int64 i < 2 ^ 63"
proof -
  have "0 \<le> (i + 2 ^ 63) mod 2 ^ 64" and "(i + 2 ^ 63) mod 2 ^ 64 < (2 ^ 64 :: int)"
    by simp_all
  then show ?thesis by (simp add: to_int64_def)
qed

section \<open>Strings\<close>

text \<open>\<open>strings.HasPrefix\<close> and \<open>strings.HasSuffix\<close>.\<close>

fun HasPrefix :: "string \<Rightarrow> string \<Rightarrow> bool" where
  "HasPrefix s [] = True"
| "HasPrefix [] (p # ps) = False"
| "HasPrefix (c # cs) (p # ps) = (c = p \<and> HasPrefix cs ps)"

definition HasSuffix :: "string \<Rightarrow> string \<Rightarrow> bool" where
  "HasSuffix s p = HasPrefix (rev s) (rev p)"

lemma HasPrefix_iff: "HasPrefix s p \<longleftrightarrow> take (length p) s = p"
  by (induction s p rule: HasPrefix.induct) auto

lemma HasPrefix_append [simp]: "HasPrefix (p @ s) p"
  by (simp add: HasPrefix_iff)

lemma HasSuffix_append [simp]: "HasSuffix (s @ p) p"
  by (simp add: HasSuffix_def)

text \<open>\<open>strings.Split(s, sep)\<close> for a one-character separator: never empty.\<close>

fun Split :: "string \<Rightarrow> char \<Rightarrow> string list" where
  "Split [] sep = [[]]"
| "Split (c # cs) sep =
     (if c = sep then [] # Split cs sep
      else case Split cs sep of [] \<Rightarrow> [[c]] | w # ws \<Rightarrow> (c # w) # ws)"

lemma Split_nonempty [simp]: "Split s sep \<noteq> []"
  by (induction s) (auto split: list.splits)

lemma Split_no_sep: "sep \<notin> set s \<Longrightarrow> Split s sep = [s]"
  by (induction s) auto

lemma hd_Split: "hd (Split s sep) = takeWhile (\<lambda>c. c \<noteq> sep) s"
proof (induction s)
  case (Cons c cs)
  then show ?case by (cases "Split cs sep") auto
qed simp

lemma Split_append_sep:
  "sep \<notin> set a \<Longrightarrow> Split (a @ sep # b) sep = a # Split b sep"
  by (induction a) auto

lemma Split_Cons_append:
  "Split s sep = w # ws \<Longrightarrow> ws \<noteq> [] \<Longrightarrow> \<exists>t. s = w @ sep # t \<and> Split t sep = ws"
proof (induction s arbitrary: w)
  case (Cons c cs)
  show ?case
  proof (cases "c = sep")
    case True
    with Cons.prems show ?thesis by auto
  next
    case False
    then obtain v where v: "Split cs sep = v # ws" "w = c # v"
      using Cons.prems Split_nonempty [of cs sep] by (cases "Split cs sep") auto
    with Cons.IH [of v] Cons.prems(2) show ?thesis by auto
  qed
qed auto

text \<open>\<open>fmt.Sprintf("%d", n)\<close> for a non-negative number and for an integer.\<close>

definition digit_char :: "nat \<Rightarrow> char" where
  "digit_char d = char_of (48 + d)"

fun itoa_nat :: "nat \<Rightarrow> string" where
  "itoa_nat n = (if n < 10 then [digit_char n] else itoa_nat (n div 10) @ [digit_char (n mod 10)])"

declare itoa_nat.simps [simp del]

definition itoa :: "int \<Rightarrow> string" where
  "itoa i = (if i < 0 then CHR ''-'' # itoa_nat (nat (- i)) else itoa_nat (nat i))"

text \<open>
  \<open>strconv.Atoi\<close> and \<open>big.Int.SetString(s, 10)\<close> accept an optional sign and at least one
  decimal digit (underscores are accepted in base 0 only).
\<close>

definition digit_val :: "char \<Rightarrow> nat option" where
  "digit_val c = (let k = of_char c :: nat in if 48 \<le> k \<and> k \<le> 57 then Some (k - 48) else None)"

fun dec_val :: "nat \<Rightarrow> string \<Rightarrow> nat option" where
  "dec_val acc [] = Some acc"
| "dec_val acc (c # cs) = (case digit_val c of None \<Rightarrow> None | Some d \<Rightarrow> dec_val (10 * acc + d) cs)"

definition parse_nat :: "string \<Rightarrow> nat option" where
  "parse_nat s = (if s = [] then None else dec_val 0 s)"

definition parse_int :: "string \<Rightarrow> int option" where
  "parse_int s =
     (case s of
        [] \<Rightarrow> None
      | c # cs \<Rightarrow>
          if c = CHR ''-'' then map_option (\<lambda>n. - int n) (parse_nat cs)
          else if c = CHR ''+'' then map_option int (parse_nat cs)
          else map_option int (parse_nat s))"

lemma digit_val_digit_char: "d < 10 \<Longrightarrow> digit_val (digit_char d) = Some d"
  by (simp add: digit_val_def digit_char_def)

lemma digit_char_not_sign: "d < 10 \<Longrightarrow> digit_char d \<noteq> CHR ''-'' \<and> digit_char d \<noteq> CHR ''+''"
proof -
  assume "d < 10"
  then have "of_char (digit_char d) = (48 + d :: nat)" by (simp add: digit_char_def)
  moreover have "of_char (CHR ''-'') = (45 :: nat)" and "of_char (CHR ''+'') = (43 :: nat)"
    by simp_all
  ultimately show ?thesis by auto
qed

lemma dec_val_append:
  "dec_val acc (xs @ ys) = (case dec_val acc xs of None \<Rightarrow> None | Some a \<Rightarrow> dec_val a ys)"
  by (induction xs arbitrary: acc) (auto split: option.splits)

lemma dec_val_itoa_nat: "dec_val 0 (itoa_nat n) = Some n"
proof (induction n rule: itoa_nat.induct)
  case (1 n)
  show ?case
  proof (cases "n < 10")
    case True
    then show ?thesis by (simp add: itoa_nat.simps [of n] digit_val_digit_char)
  next
    case False
    with 1 show ?thesis
      by (simp add: itoa_nat.simps [of n] dec_val_append digit_val_digit_char)
  qed
qed

lemma itoa_nat_Cons: "\<exists>d cs. itoa_nat n = digit_char d # cs \<and> d < 10"
proof (induction n rule: itoa_nat.induct)
  case (1 n)
  then show ?case by (cases "n < 10") (auto simp: itoa_nat.simps [of n])
qed

lemma parse_nat_itoa_nat [simp]: "parse_nat (itoa_nat n) = Some n"
  using itoa_nat_Cons [of n] by (auto simp: parse_nat_def dec_val_itoa_nat)

lemma parse_int_itoa [simp]: "parse_int (itoa i) = Some i"
proof (cases "i < 0")
  case True
  then show ?thesis by (simp add: itoa_def parse_int_def)
next
  case False
  obtain d cs where d: "itoa_nat (nat i) = digit_char d # cs" "d < 10"
    using itoa_nat_Cons by blast
  have "parse_int (itoa_nat (nat i)) = map_option int (parse_nat (itoa_nat (nat i)))"
    using digit_char_not_sign [OF d(2)] unfolding d(1) parse_int_def by simp
  with False show ?thesis by (simp add: itoa_def)
qed

lemma itoa_inject: "itoa i = itoa j \<longleftrightarrow> i = j"
  using parse_int_itoa by (metis option.inject)

section \<open>SQL tables\<close>

text \<open>
  A table is the list of its rows in rowid order.  \<open>SELECT ... LIMIT 1\<close> on a key is the first
  matching row, \<open>UPDATE ... SET ... WHERE\<close> rewrites every matching row in place and
  \<open>DELETE ... WHERE\<close> drops them.
\<close>

definition sql_first :: "('r \<Rightarrow> bool) \<Rightarrow> 'r list \<Rightarrow> 'r option" where
  "sql_first p rows = find p rows"

definition sql_update :: "('r \<Rightarrow> bool) \<Rightarrow> ('r \<Rightarrow> 'r) \<Rightarrow> 'r list \<Rightarrow> 'r list" where
  "sql_update p f rows = map (\<lambda>r. if p r then f r else r) rows"

definition sql_delete :: "('r \<Rightarrow> bool) \<Rightarrow> 'r list \<Rightarrow> 'r list" where
  "sql_delete p rows = filter (\<lambda>r. \<not> p r) rows"

lemma sql_first_Nil [simp, row_simps]: "sql_first p [] = None"
  by (simp add: sql_first_def)

lemma sql_first_Cons [simp, row_simps]:
  "sql_first p (r # rows) = (if p r then Some r else sql_first p rows)"
  by (simp add: sql_first_def)

lemma sql_first_append [row_simps]:
  "sql_first p (xs @ ys) = (case sql_first p xs of None \<Rightarrow> sql_first p ys | Some r \<Rightarrow> Some r)"
  by (induction xs) auto

lemma sql_first_SomeD: "sql_first p rows = Some r \<Longrightarrow> p r \<and> r \<in> set rows"
  by (induction rows) (auto split: if_splits)

lemma sql_first_None_iff: "sql_first p rows = None \<longleftrightarrow> (\<forall>r\<in>set rows. \<not> p r)"
  by (induction rows) auto

lemma sql_first_unique:
  "distinct (map k rows) \<Longrightarrow> r \<in> set rows \<Longrightarrow> sql_first (\<lambda>r'. k r' = k r) rows = Some r"
  by (induction rows) force+

lemma sql_update_Nil [simp, row_simps]: "sql_update p f [] = []"
  by (simp add: sql_update_def)

lemma sql_update_Cons [simp, row_simps]:
  "sql_update p f (r # rows) = (if p r then f r else r) # sql_update p f rows"
  by (simp add: sql_update_def)

lemma length_sql_update [simp]: "length (sql_update p f rows) = length rows"
  by (simp add: sql_update_def)

lemma map_sql_update:
  "(\<And>r. p r \<Longrightarrow> g (f r) = g r) \<Longrightarrow> map g (sql_update p f rows) = map g rows"
  by (simp add: sql_update_def)

lemma image_sql_update [simp]:
  "(\<And>r. p r \<Longrightarrow> g (f r) = g r) \<Longrightarrow> g ` set (sql_update p f rows) = g ` set rows"
  by (metis list.set_map map_sql_update)

lemma set_sql_update: "set (sql_update p f rows) = (\<lambda>r. if p r then f r else r) ` set rows"
  by (simp add: sql_update_def)

lemma sql_update_noop: "(\<And>r. r \<in> set rows \<Longrightarrow> \<not> p r) \<Longrightarrow> sql_update p f rows = rows"
  by (induction rows) auto

lemma sql_first_update:
  "(\<And>r. p r \<Longrightarrow> q (f r) = q r) \<Longrightarrow>
   sql_first q (sql_update p f rows) = map_option (\<lambda>r. if p r then f r else r) (sql_first q rows)"
  by (induction rows) auto

lemma sql_first_delete:
  "sql_first q (sql_delete p rows) = sql_first (\<lambda>r. q r \<and> \<not> p r) rows"
  by (induction rows) (auto simp: sql_delete_def)

text \<open>
  \<open>INSERT ... ON CONFLICT(key) DO UPDATE SET\<close> of all other columns: the new row takes the place of
  the one with its key, or is appended.
\<close>

definition sql_upsert :: "('r \<Rightarrow> 'k) \<Rightarrow> 'r \<Rightarrow> 'r list \<Rightarrow> 'r list" where
  "sql_upsert key row rows =
     (if key row \<in> key ` set rows then sql_update (\<lambda>r. key r = key row) (\<lambda>_. row) rows else rows @ [row])"

lemma keys_upsert: "distinct (map key rows) \<Longrightarrow> distinct (map key (sql_upsert key row rows))"
proof (cases "key row \<in> key ` set rows")
  case True
  have "map key (sql_update (\<lambda>r. key r = key row) (\<lambda>_. row) rows) = map key rows" by (rule map_sql_update) simp
  moreover assume "distinct (map key rows)"
  ultimately show ?thesis using True by (simp add: sql_upsert_def)
qed (simp add: sql_upsert_def)

lemma distinct_sql_delete [simp]: "distinct (map g rows) \<Longrightarrow> distinct (map g (sql_delete p rows))"
  by (simp add: sql_delete_def distinct_map_filter)

lemma list_all_sql_delete [simp]: "list_all q rows \<Longrightarrow> list_all q (sql_delete p rows)"
  by (simp add: sql_delete_def list_all_iff)

lemma image_sql_delete: "g ` set (sql_delete (\<lambda>r. g r = k) rows) = g ` set rows - {k}"
  by (auto simp: sql_delete_def)

lemma list_all_sql_update:
  "list_all q rows \<Longrightarrow> (\<And>r. r \<in> set rows \<Longrightarrow> p r \<Longrightarrow> q r \<Longrightarrow> q (f r)) \<Longrightarrow> list_all q (sql_update p f rows)"
  by (auto simp: list_all_iff set_sql_update)

lemma list_all_sql_upsert: "list_all q rows \<Longrightarrow> q row \<Longrightarrow> list_all q (sql_upsert key row rows)"
  by (auto simp: sql_upsert_def intro: list_all_sql_update)

text \<open>\<open>LIMIT ? OFFSET ?\<close>: a negative limit is no limit, a negative offset none.\<close>

definition sql_page :: "int \<Rightarrow> int \<Rightarrow> 'r list \<Rightarrow> 'r list" where
  "sql_page limit offset rows =
     (let rest = drop (nat offset) rows in if limit < 0 then rest else take (nat limit) rest)"

section \<open>Statements\<close>

datatype db_fault = NoFault | ExecFails | LastInsertIdFails

record conn =
  fault :: db_fault
  fk_on :: bool

definition good_conn :: conn where
  "good_conn = \<lparr>fault = NoFault, fk_on = True\<rparr>"

datatype db_error =
  DriverError | UniqueViolation | CheckViolation | NotNullViolation | ForeignKeyViolation
| LastIdError | UnknownPaymentStatus string | NoRows

section \<open>Tables whose rows carry a status\<close>

text \<open>
  The node's payments, invoices and jobs are all kept the same way: a table keyed by an id whose
  rows carry a status, advanced by \<open>UPDATE ... SET status = ?, <timestamp> = ? WHERE id = ?\<close>.
  The locale states what such a table relies on; the components interpret it on their rows.
\<close>

definition set_status :: "('r \<Rightarrow> 'k) \<Rightarrow> ('s \<Rightarrow> int \<Rightarrow> 'r \<Rightarrow> 'r) \<Rightarrow> 'k \<Rightarrow> 's \<Rightarrow> int \<Rightarrow> 'r list \<Rightarrow> 'r list" where
  "set_status key mark k s now rows = sql_update (\<lambda>r. key r = k) (mark s now) rows"

definition row_at :: "('r \<Rightarrow> 'k) \<Rightarrow> 'k \<Rightarrow> 'r list \<Rightarrow> 'r option" where
  "row_at key k rows = sql_first (\<lambda>r. key r = k) rows"

lemma row_at_SomeD: "row_at key k rows = Some r \<Longrightarrow> key r = k \<and> r \<in> set rows"
  by (auto simp: row_at_def dest: sql_first_SomeD)

lemma row_at_None_iff: "row_at key k rows = None \<longleftrightarrow> k \<notin> key ` set rows"
  by (auto simp: row_at_def sql_first_None_iff)

lemma row_at_append_new:
  "key r = k \<Longrightarrow> k \<notin> key ` set rows \<Longrightarrow> row_at key k (rows @ [r]) = Some r"
  by (simp add: row_at_def sql_first_append flip: row_at_None_iff)

lemma row_at_append_old:
  "key r \<noteq> k \<Longrightarrow> row_at key k (rows @ [r]) = row_at key k rows"
  by (simp add: row_at_def sql_first_append split: option.splits)

lemma row_at_upsert:
  "row_at key k (sql_upsert key row rows) = (if k = key row then Some row else row_at key k rows)"
proof (cases "key row \<in> key ` set rows")
  case True
  have "k = key row \<Longrightarrow> row_at key k (sql_update (\<lambda>r. key r = key row) (\<lambda>_. row) rows) = Some row"
    using True by (induction rows) (auto simp: row_at_def)
  moreover have "k \<noteq> key row \<Longrightarrow> row_at key k (sql_update (\<lambda>r. key r = key row) (\<lambda>_. row) rows) = row_at key k rows"
    by (induction rows) (auto simp: row_at_def)
  ultimately show ?thesis using True by (simp add: sql_upsert_def)
next
  case False
  then show ?thesis by (auto simp: sql_upsert_def row_at_append_new row_at_append_old)
qed

lemma row_at_update_proj:
  assumes "\<And>r. p r \<Longrightarrow> key (f r) = key r" and "\<And>r. p r \<Longrightarrow> g (f r) = g r"
  shows "map_option g (row_at key k (sql_update p f rows)) = map_option g (row_at key k rows)"
  using assms by (induction rows) (auto simp: row_at_def)

locale status_table =
  fixes key :: "'r \<Rightarrow> 'k"
    and status :: "'r \<Rightarrow> 's"
    and mark :: "'s \<Rightarrow> int \<Rightarrow> 'r \<Rightarrow> 'r"
  assumes key_mark: "key (mark s now r) = key r"
    and status_mark: "status (mark s now r) = s"
begin

lemma row_at_set_same:
  "row_at key k (set_status key mark k s now rows) = map_option (mark s now) (row_at key k rows)"
  unfolding row_at_def set_status_def
  by (subst sql_first_update)
    (auto simp: key_mark map_option_case dest: sql_first_SomeD split: option.splits)

lemma row_at_set_other:
  assumes "k' \<noteq> k"
  shows "row_at key k' (set_status key mark k s now rows) = row_at key k' rows"
  unfolding row_at_def set_status_def using assms
  by (subst sql_first_update)
    (auto simp: key_mark map_option_case dest: sql_first_SomeD split: option.splits)

lemma status_at_set:
  "map_option status (row_at key k' (set_status key mark k s now rows)) =
     (if k' = k then map_option (\<lambda>_. s) (row_at key k rows)
      else map_option status (row_at key k' rows))"
  by (cases "k' = k")
    (simp_all add: row_at_set_same row_at_set_other option.map_comp o_def status_mark)

lemma keys_set: "map key (set_status key mark k s now rows) = map key rows"
  unfolding set_status_def by (rule map_sql_update) (simp add: key_mark)

lemma set_missing: "k \<notin> key ` set rows \<Longrightarrow> set_status key mark k s now rows = rows"
  unfolding set_status_def by (rule sql_update_noop) auto

lemma statuses_set:
  "status ` set (set_status key mark k s now rows) \<subseteq> insert s (status ` set rows)"
  by (auto simp: set_status_def set_sql_update status_mark)

end

end
