(* ===== verification/Crypto_Prims.thy ===== *)
theory Crypto_Prims
  imports RN_Prelude
begin

text \<open>
  The cryptographic primitives and the key derivations (\<open>internal/crypto/key_derivation.go\<close>, the
  curve conversions of \<open>chat_crypto_manager.go\<close>).  X25519, HKDF-SHA256, NaCl secretbox, Ed25519
  and SHA-512 come from libraries: they are the fields of a record \<open>prims\<close> that every definition
  takes, and what the code relies on are the named predicates below.  Fixed-size arrays are byte
  lists of that length; randomness is an argument, \<open>None\<close> when the source fails.
\<close>

section \<open>Primitives\<close>

record prims =
  x25519 :: "bytes \<Rightarrow> bytes \<Rightarrow> bytes option"
  base_mult :: "bytes \<Rightarrow> bytes"
  hkdf :: "bytes \<Rightarrow> bytes \<Rightarrow> string \<Rightarrow> nat \<Rightarrow> bytes option"
  box_seal :: "bytes \<Rightarrow> bytes \<Rightarrow> bytes \<Rightarrow> bytes"
  box_open :: "bytes \<Rightarrow> bytes \<Rightarrow> bytes \<Rightarrow> bytes option"
  ed_sign :: "bytes \<Rightarrow> bytes \<Rightarrow> bytes"
  ed_verify :: "bytes \<Rightarrow> bytes \<Rightarrow> bytes \<Rightarrow> bool"
  sha512 :: "bytes \<Rightarrow> bytes"

text \<open>A sealed box opens under its nonce and key; HKDF yields the requested number of bytes; X25519 commutes.\<close>

definition box_correct :: "prims \<Rightarrow> bool" where
  "box_correct P \<longleftrightarrow> (\<forall>m n k. box_open P (box_seal P m n k) n k = Some m)"

definition hkdf_total :: "prims \<Rightarrow> bool" where
  "hkdf_total P \<longleftrightarrow> (\<forall>s salt info n. n \<le> 255 * 32 \<longrightarrow> (\<exists>out. hkdf P s salt info n = Some out \<and> length out = n))"

definition dh_commutes :: "prims \<Rightarrow> bool" where
  "dh_commutes P \<longleftrightarrow> (\<forall>a b. x25519 P a (base_mult P b) = x25519 P b (base_mult P a))
     \<and> (\<forall>a. length (base_mult P a) = 32)"

text \<open>X25519 fails on points of small order only, which no public key of a private key is.\<close>

definition dh_total :: "prims \<Rightarrow> bool" where
  "dh_total P \<longleftrightarrow> (\<forall>a b. x25519 P a (base_mult P b) \<noteq> None)"

lemma dh_agree:
  assumes "dh_commutes P" and "dh_total P"
  obtains d where "x25519 P a (base_mult P b) = Some d" "x25519 P b (base_mult P a) = Some d"
proof -
  have "x25519 P a (base_mult P b) = x25519 P b (base_mult P a)" using assms(1) unfolding dh_commutes_def by blast
  moreover have "x25519 P a (base_mult P b) \<noteq> None" using assms(2) unfolding dh_total_def by blast
  ultimately show thesis using that by fastforce
qed

definition ed_correct :: "prims \<Rightarrow> bytes \<Rightarrow> bytes \<Rightarrow> bool" where
  "ed_correct P sk pk \<longleftrightarrow> (\<forall>m. ed_verify P pk m (ed_sign P sk m))"

section \<open>Key derivation\<close>

definition DeriveRootKey :: "prims \<Rightarrow> bytes \<Rightarrow> bytes \<Rightarrow> (bytes \<times> bytes) option" where
  "DeriveRootKey P currentRootKey dhOutput =
     map_option (\<lambda>output. (copy_arr 32 (take 32 output), copy_arr 32 (drop 32 output)))
       (hkdf P dhOutput currentRootKey ''RemoteNetworkChatRootKey'' 64)"

definition DeriveChainKey :: "prims \<Rightarrow> bytes \<Rightarrow> bytes option" where
  "DeriveChainKey P currentChainKey = hkdf P currentChainKey [] ''RemoteNetworkChatChainKey'' 32"

definition DeriveMessageKey :: "prims \<Rightarrow> bytes \<Rightarrow> (bytes \<times> bytes) option" where
  "DeriveMessageKey P currentChainKey =
     (case hkdf P currentChainKey [] ''RemoteNetworkChatMessageKey'' 32 of
        None \<Rightarrow> None
      | Some messageKey \<Rightarrow>
          (case DeriveChainKey P currentChainKey of
             None \<Rightarrow> None
           | Some nextChainKey \<Rightarrow> Some (messageKey, nextChainKey)))"

definition DeriveMasterEncryptionKey :: "prims \<Rightarrow> bytes \<Rightarrow> bytes option" where
  "DeriveMasterEncryptionKey P nodePrivateKey = hkdf P nodePrivateKey [] ''RemoteNetworkChatMasterKey'' 32"

definition DeriveSenderKey :: "prims \<Rightarrow> (string \<Rightarrow> bytes) \<Rightarrow> string \<Rightarrow> bytes \<Rightarrow> bytes option" where
  "DeriveSenderKey P utf8 groupID memberPrivateKey =
     hkdf P memberPrivateKey (utf8 groupID) ''RemoteNetworkChatSenderKey'' 32"

text \<open>A receiver that passes a nil pointer gets nothing back; the model returns the cleared array.\<close>

definition ZeroKey :: "bytes option \<Rightarrow> bytes option" where
  "ZeroKey key = map_option (\<lambda>k. replicate (length k) 0) key"

lemma DeriveMessageKey_total:
  assumes "hkdf_total P"
  obtains mk ck where "DeriveMessageKey P c = Some (mk, ck)" "length mk = 32" "length ck = 32"
proof -
  have "\<exists>k. hkdf P c [] info 32 = Some k \<and> length k = 32" for info
    using assms by (simp add: hkdf_total_def)
  then obtain mk ck where "hkdf P c [] ''RemoteNetworkChatMessageKey'' 32 = Some mk" "length mk = 32"
    "hkdf P c [] ''RemoteNetworkChatChainKey'' 32 = Some ck" "length ck = 32" by blast
  then show thesis using that by (simp add: DeriveMessageKey_def DeriveChainKey_def)
qed

lemma DeriveRootKey_total:
  assumes "hkdf_total P"
  obtains rk ck where "DeriveRootKey P root dh = Some (rk, ck)" "length ck = 32"
proof -
  have "\<exists>out. hkdf P dh root ''RemoteNetworkChatRootKey'' 64 = Some out" using assms [unfolded hkdf_total_def, rule_format, of 64 dh root "''RemoteNetworkChatRootKey''"] by auto
  then show thesis using that by (auto simp: DeriveRootKey_def)
qed

section \<open>Curve conversions\<close>

definition reverseBytes :: "bytes \<Rightarrow> bytes" where
  "reverseBytes b = map (\<lambda>i. b ! (length b - 1 - i)) [0 ..< length b]"

lemma reverseBytes_rev [simp]: "reverseBytes b = rev b"
  by (rule nth_equalityI) (auto simp: reverseBytes_def rev_nth)

text \<open>\<open>big.Int.SetBytes\<close> and \<open>Bytes\<close> are big-endian, the latter without leading zeros.\<close>

fun le_val :: "bytes \<Rightarrow> int" where
  "le_val [] = 0"
| "le_val (b # bs) = uint b + 256 * le_val bs"

definition SetBytes :: "bytes \<Rightarrow> int" where
  "SetBytes bs = le_val (rev bs)"

function le_bytes :: "int \<Rightarrow> bytes" where
  "le_bytes n = (if n \<le> 0 then [] else word_of_int (n mod 256) # le_bytes (n div 256))"
  by pat_completeness auto
termination
  by (relation "measure nat") auto

declare le_bytes.simps [simp del]

lemma le_bytes_0 [simp]: "le_bytes 0 = []"
  by (simp add: le_bytes.simps)

definition Bytes :: "int \<Rightarrow> bytes" where
  "Bytes n = rev (le_bytes n)"

text \<open>\<open>big.Int.ModInverse\<close>: \<open>None\<close> when the number and the modulus are not coprime.\<close>

definition ModInverse :: "int \<Rightarrow> int \<Rightarrow> int option" where
  "ModInverse g n =
     (if gcd g n = 1 then Some (fst (bezw (nat (g mod n)) (nat n)) mod n) else None)"

definition p25519 :: int where
  "p25519 = 2 ^ 255 - 19"

datatype key_error = InvalidPublicKeySize | InvalidPrivateKeySize | InvalidPoint

definition ed25519PublicKeyToCurve25519 :: "bytes \<Rightarrow> key_error + bytes" where
  "ed25519PublicKeyToCurve25519 ed25519Pub =
     (if length ed25519Pub \<noteq> 32 then Inl InvalidPublicKeySize
      else
        let yBytes = ed25519Pub[31 := ed25519Pub ! 31 AND 0x7F];
            y = SetBytes (reverseBytes yBytes);
            numerator = (1 + y) mod p25519;
            denominator = (1 - y) mod p25519
        in case ModInverse denominator p25519 of
             None \<Rightarrow> Inl InvalidPoint
           | Some denominatorInv \<Rightarrow>
               let u = (numerator * denominatorInv) mod p25519;
                   uBytes = Bytes u;
                   uPadded = replicate (32 - length uBytes) 0 @ uBytes
               in Inr (copy_arr 32 (reverseBytes uPadded)))"

definition clamp :: "bytes \<Rightarrow> bytes" where
  "clamp k = k[0 := k ! 0 AND 248, 31 := (k ! 31 AND 127) OR 64]"

definition ed25519PrivateKeyToCurve25519 :: "prims \<Rightarrow> bytes \<Rightarrow> key_error + bytes" where
  "ed25519PrivateKeyToCurve25519 P ed25519Priv =
     (if length ed25519Priv \<noteq> 64 then Inl InvalidPrivateKeySize
      else Inr (clamp (copy_arr 32 (take 32 (sha512 P (take 32 ed25519Priv))))))"

text \<open>
  The two conversions of one identity agree: the X25519 public key of the converted private key is
  the converted public key.
\<close>

definition identity :: "prims \<Rightarrow> bytes \<Rightarrow> bytes \<Rightarrow> bool" where
  "identity P sk pk \<longleftrightarrow> ed_correct P sk pk
     \<and> (\<exists>x. ed25519PrivateKeyToCurve25519 P sk = Inr x \<and> ed25519PublicKeyToCurve25519 pk = Inr (base_mult P x))"

section \<open>The conversion computes the birational map\<close>

lemma le_val_append: "le_val (xs @ ys) = le_val xs + 256 ^ length xs * le_val ys"
  by (induction xs) (auto simp: algebra_simps)

lemma le_val_zeros [simp]: "le_val (replicate n 0) = 0"
  by (induction n) auto

lemma le_val_nonneg: "0 \<le> le_val bs"
  by (induction bs) auto

lemma le_val_le_bytes: "0 \<le> n \<Longrightarrow> le_val (le_bytes n) = n"
proof (induction n rule: le_bytes.induct)
  case (1 n)
  have "uint (word_of_int (n mod 256) :: 8 word) = n mod 256" by (simp add: uint_word_of_int)
  with 1 show ?case by (cases "n \<le> 0") (auto simp: le_bytes.simps [of n])
qed

lemma length_le_bytes: "n < 256 ^ k \<Longrightarrow> length (le_bytes n) \<le> k"
proof (induction n arbitrary: k rule: le_bytes.induct)
  case (1 n)
  show ?case
  proof (cases "n \<le> 0")
    case True
    then show ?thesis by (simp add: le_bytes.simps [of n])
  next
    case False
    then obtain j where k: "k = Suc j" using 1(2) by (cases k) auto
    have "n div 256 < 256 ^ j" using 1(2) k by (simp add: div_less_iff_less_mult mult.commute)
    with 1(1) False k show ?thesis by (simp add: le_bytes.simps [of n])
  qed
qed

lemma ModInverse_mult:
  assumes "ModInverse g n = Some x" and "1 < n"
  shows "(g * x) mod n = 1 \<and> 0 \<le> x \<and> x < n"
proof -
  let ?g = "nat (g mod n)" and ?n = "nat n"
  have pos: "0 < n" using assms(2) by simp
  have gn: "gcd g n = 1" and x: "x = fst (bezw ?g ?n) mod n"
    using assms(1) by (auto simp: ModInverse_def split: if_splits)
  have ig: "int ?g = g mod n" "int ?n = n" using pos by simp_all
  have "int (gcd ?g ?n) = gcd (g mod n) n" using ig by (metis gcd_int_int_eq)
  also have "\<dots> = 1" using gn by (metis gcd.commute gcd_red_int)
  finally have "fst (bezw ?g ?n) * (g mod n) + snd (bezw ?g ?n) * n = 1"
    using bezw_aux [of ?g ?n] ig by simp
  then have "(fst (bezw ?g ?n) * (g mod n) + snd (bezw ?g ?n) * n) mod n = 1 mod n" by simp
  then have "(fst (bezw ?g ?n) * (g mod n)) mod n = 1 mod n" by simp
  then have "(fst (bezw ?g ?n) * g) mod n = 1" using assms(2) by (simp add: mod_mult_right_eq)
  then show ?thesis using x pos by (simp add: mod_mult_right_eq mult.commute)
qed

text \<open>
    The public-key conversion is the map \<open>u = (1 + y) / (1 - y)\<close> of the Montgomery curve: a
  32-byte key with \<open>y\<close> the encoded coordinate without its sign bit is converted to the 32-byte
  little-endian encoding of a reduced \<open>u\<close> with \<open>u (1 - y) = 1 + y\<close> modulo \<open>2 ^ 255 - 19\<close>.
\<close>

theorem ed25519_conversion_birational:
  assumes "ed25519PublicKeyToCurve25519 pk = Inr out" and "y = le_val (pk[31 := pk ! 31 AND 0x7F])"
  shows "length pk = 32 \<and> length out = 32 \<and> 0 \<le> le_val out \<and> le_val out < p25519
     \<and> (le_val out * (1 - y)) mod p25519 = (1 + y) mod p25519"
proof -
  let ?num = "(1 + y) mod p25519" and ?den = "(1 - y) mod p25519"
  have p: "1 < p25519" "p25519 < 256 ^ 32" by (simp_all add: p25519_def)
  have len: "length pk = 32" using assms(1) by (auto simp: ed25519PublicKeyToCurve25519_def split: if_splits)
  have y: "SetBytes (reverseBytes (pk[31 := pk ! 31 AND 0x7F])) = y" using assms(2) by (simp add: SetBytes_def)
  obtain inv where inv: "ModInverse ?den p25519 = Some inv"
    and out: "out = copy_arr 32 (rev (replicate (32 - length (Bytes ((?num * inv) mod p25519))) 0
                 @ Bytes ((?num * inv) mod p25519)))"
    using assms(1) len y by (auto simp: ed25519PublicKeyToCurve25519_def Let_def split: option.splits)
  let ?u = "(?num * inv) mod p25519"
  have u: "0 \<le> ?u" "?u < p25519" using p by simp_all
  have "length (le_bytes ?u) \<le> 32" using u p by (intro length_le_bytes) linarith
  then have o: "out = le_bytes ?u @ replicate (32 - length (le_bytes ?u)) 0"
    using out by (simp add: Bytes_def)
  then have v: "le_val out = ?u" using u(1) by (simp add: le_val_append le_val_le_bytes)
  have "(?u * ?den) mod p25519 = ((?num * inv) * ?den) mod p25519" by (rule mod_mult_left_eq)
  also have "(?num * inv) * ?den = ?num * (?den * inv)" by (simp only: ac_simps)
  also have "(?num * (?den * inv)) mod p25519 = (?num * ((?den * inv) mod p25519)) mod p25519"
    by (rule mod_mult_right_eq [symmetric])
  also have "\<dots> = (1 + y) mod p25519" using ModInverse_mult [OF inv p(1)] by simp
  finally have "(?u * (1 - y)) mod p25519 = (1 + y) mod p25519" by (simp only: mod_mult_right_eq)
  moreover have "length out = 32" using o \<open>length (le_bytes ?u) \<le> 32\<close> by simp
  ultimately show ?thesis using len v u by simp
qed

theorem ed25519_conversion_birational_witness:
  "\<exists>out. ed25519PublicKeyToCurve25519 (replicate 32 0) = Inr out \<and> length out = 32 \<and> le_val out mod p25519 = 1 mod p25519"
proof -
  have z: "(replicate 32 0)[31 := replicate 32 0 ! 31 AND 0x7F] = (replicate 32 0 :: bytes)"
    by (rule nth_equalityI) (auto simp: nth_list_update)
  have "\<exists>out. ed25519PublicKeyToCurve25519 (replicate 32 0) = Inr out"
    unfolding ed25519PublicKeyToCurve25519_def z
    by (simp add: SetBytes_def ModInverse_def p25519_def Let_def)
  then obtain out where out: "ed25519PublicKeyToCurve25519 (replicate 32 0) = Inr out" by blast
  show ?thesis using ed25519_conversion_birational [OF out, of 0] out z by simp
qed

section \<open>An instance of the primitives\<close>

text \<open>
  A concrete instance that satisfies every law above; it has no secrecy and only shows that the laws
  can hold together, and that a key pair is an identity.
\<close>

definition toy_mask :: bytes where
  "toy_mask = 1 # replicate 30 0 @ [64]"

definition xor_bytes :: "bytes \<Rightarrow> bytes \<Rightarrow> bytes" where
  "xor_bytes a b = map2 (XOR) a b"

definition toy_prims :: prims where
  "toy_prims =
     \<lparr>x25519 = \<lambda>a b. Some (xor_bytes (copy_arr 32 a) b),
      base_mult = \<lambda>a. xor_bytes (copy_arr 32 a) toy_mask,
      hkdf = \<lambda>s salt info n. Some (copy_arr n (of_nat (length info) # s @ salt)),
      box_seal = \<lambda>m n k. n @ k @ m,
      box_open = \<lambda>c n k. if take (length n + length k) c = n @ k then Some (drop (length n + length k) c) else None,
      ed_sign = \<lambda>sk m. copy_arr 64 m,
      ed_verify = \<lambda>pk m s. s = copy_arr 64 m,
      sha512 = \<lambda>s. replicate 64 0\<rparr>"

definition toy_sk :: bytes where
  "toy_sk = replicate 64 0"

definition toy_pk :: bytes where
  "toy_pk = replicate 32 0"

lemma toy_box: "box_correct toy_prims"
  by (simp add: box_correct_def toy_prims_def)

lemma toy_hkdf: "hkdf_total toy_prims"
  by (simp add: hkdf_total_def toy_prims_def)

lemma toy_ed: "ed_correct toy_prims sk pk"
  by (simp add: ed_correct_def toy_prims_def)

lemma toy_dh_total: "dh_total toy_prims"
  by (simp add: dh_total_def toy_prims_def)

lemma toy_dh: "dh_commutes toy_prims"
proof -
  have "xor_bytes (copy_arr 32 a) (xor_bytes (copy_arr 32 b) toy_mask)
      = xor_bytes (copy_arr 32 b) (xor_bytes (copy_arr 32 a) toy_mask)" for a b
    by (rule nth_equalityI) (auto simp: xor_bytes_def toy_mask_def xor.left_commute)
  then show ?thesis by (simp add: dh_commutes_def toy_prims_def xor_bytes_def toy_mask_def)
qed

lemma toy_identity: "identity toy_prims toy_sk toy_pk"
proof -
  have z: "(replicate 32 0)[31 := replicate 32 0 ! 31 AND 0x7F] = (replicate 32 0 :: bytes)"
    by (rule nth_equalityI) (auto simp: nth_list_update)
  have m: "(1 :: int) mod p25519 = 1" by (simp add: p25519_def)
  have "fst (bezw 1 n) = 1" if "1 < n" for n
    using that by (simp add: bezw.simps [of "Suc 0" n] bezw.simps [of n "Suc 0"] bezw_0)
  from this [of "nat p25519"] m have i: "ModInverse 1 p25519 = Some 1"
    by (simp add: ModInverse_def p25519_def)
  have b: "le_bytes 1 = [1]" by (subst le_bytes.simps) simp
  have pk: "ed25519PublicKeyToCurve25519 toy_pk = Inr (1 # replicate 31 0)"
    unfolding toy_pk_def ed25519PublicKeyToCurve25519_def z
    by (simp add: SetBytes_def i m b Let_def Bytes_def)
  have sk: "ed25519PrivateKeyToCurve25519 toy_prims toy_sk = Inr (replicate 31 0 @ [64])"
    by (simp add: ed25519PrivateKeyToCurve25519_def toy_sk_def toy_prims_def clamp_def copy_arr_def numeral_eq_Suc)
  have "base_mult toy_prims (replicate 31 0 @ [64]) = 1 # replicate 31 0"
    by (simp add: toy_prims_def xor_bytes_def toy_mask_def copy_arr_def numeral_eq_Suc)
  with pk sk toy_ed show ?thesis by (simp add: identity_def)
qed

end
