(* ===== verification/Secure_Channel.thy ===== *)
theory Secure_Channel
  imports Crypto_Prims
begin

text \<open>
  The contract of a one-way encrypted channel over an untrusted transport: what the chat layer
  relies on from the ratchet of a conversation and from the sender key of a group member.  The
  transport keeps messages in flight in the order they were sent and may deliver or lose them; a run
  lists what became of each payload that was delivered or could not be sent.  A
  \<^emph>\<open>lossy\<close> channel decrypts what is delivered in order, a \<^emph>\<open>reordering\<close> one whatever is delivered.
\<close>

datatype 'p chan_op = Send 'p | Deliver nat | Drop nat

fun run_chan ::
  "('s \<Rightarrow> 'p \<Rightarrow> ('m \<times> 's) option) \<Rightarrow> ('r \<Rightarrow> 'm \<Rightarrow> 'p option \<times> 'r) \<Rightarrow> 'p chan_op list \<Rightarrow> 's \<Rightarrow> 'r
     \<Rightarrow> ('p \<times> 'm) list \<Rightarrow> ('p \<times> 'p option) list" where
  "run_chan send recv [] s r q = []"
| "run_chan send recv (Send p # ops) s r q =
     (case send s p of
        None \<Rightarrow> (p, None) # run_chan send recv ops s r q
      | Some (m, s') \<Rightarrow> run_chan send recv ops s' r (q @ [(p, m)]))"
| "run_chan send recv (Deliver i # ops) s r q =
     (if i < length q then
        (case recv r (snd (q ! i)) of
           (res, r') \<Rightarrow> (fst (q ! i), res) # run_chan send recv ops s r' (take i q @ drop (Suc i) q))
      else run_chan send recv ops s r q)"
| "run_chan send recv (Drop i # ops) s r q =
     run_chan send recv ops s r (take i q @ drop (Suc i) q)"

text \<open>Every payload of a run arrived as it was sent.\<close>

definition all_delivered :: "('p \<times> 'p option) list \<Rightarrow> bool" where
  "all_delivered out = list_all (\<lambda>(p, res). res = Some p) out"

lemma all_delivered_iff: "all_delivered out \<longleftrightarrow> (\<forall>(p, res)\<in>set out. res = Some p)"
  by (simp add: all_delivered_def list_all_iff)

text \<open>The schedules in which messages are delivered in the order they were sent.\<close>

fun in_order :: "'p chan_op \<Rightarrow> bool" where
  "in_order (Deliver i) = (i = 0)"
| "in_order _ = True"

locale lossy_channel =
  fixes send :: "'s \<Rightarrow> 'p \<Rightarrow> ('m \<times> 's) option"
    and recv :: "'r \<Rightarrow> 'm \<Rightarrow> 'p option \<times> 'r"
    and synced :: "'s \<Rightarrow> 'r \<Rightarrow> ('p \<times> 'm) list \<Rightarrow> bool"
  assumes send_total: "synced s r q \<Longrightarrow> send s p \<noteq> None"
    and send_synced: "synced s r q \<Longrightarrow> send s p = Some (m, s') \<Longrightarrow> synced s' r (q @ [(p, m)])"
    and recv_first: "synced s r ((p, m) # q) \<Longrightarrow> \<exists>r'. recv r m = (Some p, r') \<and> synced s r' q"
    and drop_synced: "synced s r (q1 @ x # q2) \<Longrightarrow> synced s r (q1 @ q2)"
begin

lemma drop_at: "synced s r q \<Longrightarrow> synced s r (take i q @ drop (Suc i) q)"
  using drop_synced [of s r "take i q" "q ! i" "drop (Suc i) q"]
  by (cases "i < length q") (auto simp: Cons_nth_drop_Suc)

lemma run_in_order:
  "synced s r q \<Longrightarrow> \<forall>opr\<in>set ops. in_order opr \<Longrightarrow>
   \<forall>(p, res)\<in>set (run_chan send recv ops s r q). res = Some p"
proof (induction ops arbitrary: s r q)
  case (Cons opr ops)
  show ?case
  proof (cases opr)
    case (Send p)
    from send_total [OF Cons.prems(1), of p] obtain m s' where "send s p = Some (m, s')" by auto
    with Cons.IH [OF send_synced [OF Cons.prems(1) this]] Cons.prems(2) Send show ?thesis by simp
  next
    case (Deliver i)
    with Cons.prems have i: "i = 0" by simp
    show ?thesis
    proof (cases q)
      case Nil
      with Cons Deliver i show ?thesis by simp
    next
      case (Cons x q')
      with Cons.prems(1) obtain r' where "recv r (snd x) = (Some (fst x), r')" "synced s r' q'"
        using recv_first [of s r "fst x" "snd x" q'] by auto
      with Cons.IH [of s r' q'] Cons.prems(2) Cons Deliver i show ?thesis by auto
    qed
  next
    case (Drop i)
    with Cons.IH [OF drop_at [OF Cons.prems(1)]] Cons.prems(2) show ?thesis by simp
  qed
qed simp

end

locale reordering_channel =
  fixes send :: "'s \<Rightarrow> 'p \<Rightarrow> ('m \<times> 's) option"
    and recv :: "'r \<Rightarrow> 'm \<Rightarrow> 'p option \<times> 'r"
    and synced :: "'s \<Rightarrow> 'r \<Rightarrow> ('p \<times> 'm) list \<Rightarrow> bool"
  assumes send_total: "synced s r q \<Longrightarrow> send s p \<noteq> None"
    and send_synced: "synced s r q \<Longrightarrow> send s p = Some (m, s') \<Longrightarrow> synced s' r (q @ [(p, m)])"
    and recv_any: "synced s r (q1 @ (p, m) # q2) \<Longrightarrow> \<exists>r'. recv r m = (Some p, r') \<and> synced s r' (q1 @ q2)"
    and drop_synced: "synced s r (q1 @ x # q2) \<Longrightarrow> synced s r (q1 @ q2)"

sublocale reordering_channel \<subseteq> fifo: lossy_channel
proof
  show "\<exists>r'. recv r m = (Some p, r') \<and> synced s r' q" if "synced s r ((p, m) # q)" for s r p m q
    using recv_any [of s r "[]" p m q] that by simp
qed (fact send_total send_synced drop_synced)+

context reordering_channel
begin

lemma run_any_order:
  "synced s r q \<Longrightarrow> \<forall>(p, res)\<in>set (run_chan send recv ops s r q). res = Some p"
proof (induction ops arbitrary: s r q)
  case (Cons opr ops)
  show ?case
  proof (cases opr)
    case (Send p)
    from send_total [OF Cons.prems, of p] obtain m s' where "send s p = Some (m, s')" by auto
    with Cons.IH [OF send_synced [OF Cons.prems this]] Send show ?thesis by simp
  next
    case (Deliver i)
    show ?thesis
    proof (cases "i < length q")
      case True
      then have "q = take i q @ (fst (q ! i), snd (q ! i)) # drop (Suc i) q"
        by (simp add: Cons_nth_drop_Suc)
      with Cons.prems obtain r' where "recv r (snd (q ! i)) = (Some (fst (q ! i)), r')"
        "synced s r' (take i q @ drop (Suc i) q)"
        using recv_any [of s r "take i q" "fst (q ! i)" "snd (q ! i)" "drop (Suc i) q"] by metis
      with Cons.IH True Deliver show ?thesis by fastforce
    next
      case False
      with Cons Deliver show ?thesis by simp
    qed
  next
    case (Drop i)
    with Cons.IH [OF fifo.drop_at [OF Cons.prems]] show ?thesis by simp
  qed
qed simp

end

end
