(* ===== verification/Double_Ratchet.thy ===== *)
theory Double_Ratchet
  imports Secure_Channel "HOL-Library.AList"
begin

text \<open>
  The ratchet of a two-party conversation (\<open>internal/crypto/double_ratchet.go\<close>): its state, the
  initialisation of both roles, encryption, decryption with skipped keys, the Diffie-Hellman ratchet
  step and the cleanup of skipped keys.  Operations return the state they leave, also on an error,
  because the code updates it in place.  Message counters are Go \<open>int\<close>s, modelled as unbounded.
\<close>

section \<open>State\<close>

record DoubleRatchet =
  DHRatchetPrivKey :: bytes
  DHRatchetPubKey :: bytes
  RemoteDHPubKey :: bytes
  RootKey :: bytes
  SendChainKey :: bytes
  RecvChainKey :: bytes
  SendMessageNum :: int
  RecvMessageNum :: int
  SkippedKeys :: "(int \<times> bytes) list"

definition zero_key :: bytes where
  "zero_key = replicate 32 0"

datatype ratchet_error =
  RandFailed | DeriveFailed | DHFailed | RootDerivationFailed | DecryptionFailed
| DecryptionFailedSkipped | SkippedKeyNotFound

section \<open>Operations\<close>

definition fresh_ratchet :: "prims \<Rightarrow> bytes \<Rightarrow> bytes \<Rightarrow> bytes \<Rightarrow> DoubleRatchet" where
  "fresh_ratchet P priv remote root =
     \<lparr>DHRatchetPrivKey = priv, DHRatchetPubKey = base_mult P priv, RemoteDHPubKey = remote,
      RootKey = root, SendChainKey = zero_key, RecvChainKey = zero_key,
      SendMessageNum = 0, RecvMessageNum = 0, SkippedKeys = []\<rparr>"

definition NewDoubleRatchet :: "prims \<Rightarrow> bytes option \<Rightarrow> bytes \<Rightarrow> bytes \<Rightarrow> ratchet_error + DoubleRatchet" where
  "NewDoubleRatchet P rnd sharedSecret remoteDHPubKey =
     (case rnd of
        None \<Rightarrow> Inl RandFailed
      | Some priv \<Rightarrow> Inr (fresh_ratchet P priv remoteDHPubKey sharedSecret))"

definition NewDoubleRatchetReceiver :: "prims \<Rightarrow> bytes option \<Rightarrow> bytes \<Rightarrow> ratchet_error + DoubleRatchet" where
  "NewDoubleRatchetReceiver P rnd sharedSecret =
     (case rnd of
        None \<Rightarrow> Inl RandFailed
      | Some priv \<Rightarrow> Inr (fresh_ratchet P priv zero_key sharedSecret))"

definition Encrypt ::
  "prims \<Rightarrow> bytes option \<Rightarrow> bytes \<Rightarrow> DoubleRatchet \<Rightarrow> (ratchet_error + bytes \<times> bytes) \<times> DoubleRatchet" where
  "Encrypt P rnd plaintext dr =
     (case DeriveMessageKey P (SendChainKey dr) of
        None \<Rightarrow> (Inl DeriveFailed, dr)
      | Some (messageKey, nextChainKey) \<Rightarrow>
          (case rnd of
             None \<Rightarrow> (Inl RandFailed, dr)
           | Some nonce \<Rightarrow>
               (Inr (box_seal P plaintext nonce messageKey, nonce),
                dr\<lparr>SendChainKey := nextChainKey, SendMessageNum := SendMessageNum dr + 1\<rparr>)))"

text \<open>\<open>rnd\<close> is the new private key.\<close>

definition performDHRatchet ::
  "prims \<Rightarrow> bytes option \<Rightarrow> bytes \<Rightarrow> DoubleRatchet \<Rightarrow> (ratchet_error option) \<times> DoubleRatchet" where
  "performDHRatchet P rnd newRemoteDHPubKey dr =
     (let dr1 = dr\<lparr>RemoteDHPubKey := newRemoteDHPubKey\<rparr>
      in case x25519 P (DHRatchetPrivKey dr1) (RemoteDHPubKey dr1) of
           None \<Rightarrow> (Some DHFailed, dr1)
         | Some dhOutput \<Rightarrow>
             (case DeriveRootKey P (RootKey dr1) (copy_arr 32 dhOutput) of
                None \<Rightarrow> (Some RootDerivationFailed, dr1)
              | Some (newRootKey, recvChainKey) \<Rightarrow>
                  let dr2 = dr1\<lparr>RootKey := newRootKey, RecvChainKey := recvChainKey, RecvMessageNum := 0\<rparr>
                  in case rnd of
                       None \<Rightarrow> (Some RandFailed, dr2)
                     | Some priv \<Rightarrow>
                         let dr3 = dr2\<lparr>DHRatchetPrivKey := priv, DHRatchetPubKey := base_mult P priv\<rparr>
                         in case x25519 P priv (RemoteDHPubKey dr3) of
                              None \<Rightarrow> (Some DHFailed, dr3)
                            | Some dhOutput2 \<Rightarrow>
                                (case DeriveRootKey P (RootKey dr3) (copy_arr 32 dhOutput2) of
                                   None \<Rightarrow> (Some RootDerivationFailed, dr3)
                                 | Some (newRootKey2, sendChainKey) \<Rightarrow>
                                     (None, dr3\<lparr>RootKey := newRootKey2, SendChainKey := sendChainKey,
                                                SendMessageNum := 0\<rparr>))))"

text \<open>The loop that skips ahead, one step per missing message.\<close>

fun skip_ahead :: "prims \<Rightarrow> nat \<Rightarrow> DoubleRatchet \<Rightarrow> (ratchet_error option) \<times> DoubleRatchet" where
  "skip_ahead P 0 dr = (None, dr)"
| "skip_ahead P (Suc k) dr =
     (case DeriveMessageKey P (RecvChainKey dr) of
        None \<Rightarrow> (Some DeriveFailed, dr)
      | Some (messageKey, nextChainKey) \<Rightarrow>
          skip_ahead P k (dr\<lparr>SkippedKeys := AList.update (RecvMessageNum dr) messageKey (SkippedKeys dr),
                             RecvChainKey := nextChainKey, RecvMessageNum := RecvMessageNum dr + 1\<rparr>))"

definition decrypt_current ::
  "prims \<Rightarrow> bytes \<Rightarrow> bytes \<Rightarrow> DoubleRatchet \<Rightarrow> (ratchet_error + bytes) \<times> DoubleRatchet" where
  "decrypt_current P ciphertext nonce dr =
     (case DeriveMessageKey P (RecvChainKey dr) of
        None \<Rightarrow> (Inl DeriveFailed, dr)
      | Some (messageKey, nextChainKey) \<Rightarrow>
          (case box_open P ciphertext nonce messageKey of
             None \<Rightarrow> (Inl DecryptionFailed, dr)
           | Some plaintext \<Rightarrow>
               (Inr plaintext, dr\<lparr>RecvChainKey := nextChainKey, RecvMessageNum := RecvMessageNum dr + 1\<rparr>)))"

text \<open>The part of \<open>Decrypt\<close> after the Diffie-Hellman check.\<close>

definition decrypt_chain ::
  "prims \<Rightarrow> bytes \<Rightarrow> bytes \<Rightarrow> int \<Rightarrow> DoubleRatchet \<Rightarrow> (ratchet_error + bytes) \<times> DoubleRatchet" where
  "decrypt_chain P ciphertext nonce messageNum dr =
     (if messageNum < RecvMessageNum dr then
        (case map_of (SkippedKeys dr) messageNum of
           Some messageKey \<Rightarrow>
             (case box_open P ciphertext nonce messageKey of
                None \<Rightarrow> (Inl DecryptionFailedSkipped, dr)
              | Some plaintext \<Rightarrow>
                  (Inr plaintext, dr\<lparr>SkippedKeys := AList.delete messageNum (SkippedKeys dr)\<rparr>))
         | None \<Rightarrow> (Inl SkippedKeyNotFound, dr))
      else
        (case skip_ahead P (nat (messageNum - RecvMessageNum dr)) dr of
           (Some e, dr') \<Rightarrow> (Inl e, dr')
         | (None, dr') \<Rightarrow> decrypt_current P ciphertext nonce dr'))"

definition Decrypt ::
  "prims \<Rightarrow> bytes option \<Rightarrow> bytes \<Rightarrow> bytes \<Rightarrow> int \<Rightarrow> bytes \<Rightarrow> DoubleRatchet
     \<Rightarrow> (ratchet_error + bytes) \<times> DoubleRatchet" where
  "Decrypt P rnd ciphertext nonce messageNum senderDHPubKey dr =
     (if senderDHPubKey \<noteq> RemoteDHPubKey dr then
        (case performDHRatchet P rnd senderDHPubKey dr of
           (Some e, dr') \<Rightarrow> (Inl e, dr')
         | (None, dr') \<Rightarrow> decrypt_chain P ciphertext nonce messageNum dr')
      else decrypt_chain P ciphertext nonce messageNum dr)"

definition initializeSenderChains :: "prims \<Rightarrow> bytes \<Rightarrow> DoubleRatchet \<Rightarrow> (ratchet_error option) \<times> DoubleRatchet" where
  "initializeSenderChains P remoteDHPubKey dr =
     (let dr1 = dr\<lparr>RemoteDHPubKey := remoteDHPubKey\<rparr>
      in case x25519 P (DHRatchetPrivKey dr1) remoteDHPubKey of
           None \<Rightarrow> (Some DHFailed, dr1)
         | Some dhOutput \<Rightarrow>
             (case DeriveRootKey P (RootKey dr1) (copy_arr 32 dhOutput) of
                None \<Rightarrow> (Some RootDerivationFailed, dr1)
              | Some (newRootKey, chainKey) \<Rightarrow>
                  (None, dr1\<lparr>RootKey := newRootKey, SendChainKey := chainKey, SendMessageNum := 0,
                             RecvChainKey := chainKey, RecvMessageNum := 0\<rparr>)))"

definition initializeReceiverChains :: "prims \<Rightarrow> bytes \<Rightarrow> DoubleRatchet \<Rightarrow> (ratchet_error option) \<times> DoubleRatchet" where
  "initializeReceiverChains P remoteDHPubKey dr =
     (let dr1 = dr\<lparr>RemoteDHPubKey := remoteDHPubKey\<rparr>
      in case x25519 P (DHRatchetPrivKey dr1) remoteDHPubKey of
           None \<Rightarrow> (Some DHFailed, dr1)
         | Some dhOutput \<Rightarrow>
             (case DeriveRootKey P (RootKey dr1) (copy_arr 32 dhOutput) of
                None \<Rightarrow> (Some RootDerivationFailed, dr1)
              | Some (newRootKey, chainKey) \<Rightarrow>
                  (None, dr1\<lparr>RootKey := newRootKey, RecvChainKey := chainKey, RecvMessageNum := 0,
                             SendChainKey := chainKey, SendMessageNum := 0\<rparr>)))"

definition CleanupOldSkippedKeys :: "int \<Rightarrow> DoubleRatchet \<Rightarrow> DoubleRatchet" where
  "CleanupOldSkippedKeys maxSkip dr =
     (if int (length (SkippedKeys dr)) \<le> maxSkip then dr
      else let minKeepNum = RecvMessageNum dr - maxSkip
           in dr\<lparr>SkippedKeys := filter (\<lambda>(msgNum, _). \<not> msgNum < minKeepNum) (SkippedKeys dr)\<rparr>)"

section \<open>Chains\<close>

text \<open>The chain key and the message key of position \<open>n\<close> of a chain.\<close>

fun chain_at :: "prims \<Rightarrow> bytes \<Rightarrow> nat \<Rightarrow> bytes" where
  "chain_at P c 0 = c"
| "chain_at P c (Suc n) = snd (the (DeriveMessageKey P (chain_at P c n)))"

declare chain_at.simps(2) [simp del]

definition key_at :: "prims \<Rightarrow> bytes \<Rightarrow> nat \<Rightarrow> bytes" where
  "key_at P c n = fst (the (DeriveMessageKey P (chain_at P c n)))"

lemma DeriveMessageKey_chain:
  "hkdf_total P \<Longrightarrow> DeriveMessageKey P (chain_at P c n) = Some (key_at P c n, chain_at P c (Suc n))"
  using DeriveMessageKey_total [of P "chain_at P c n"] by (fastforce simp: key_at_def chain_at.simps(2))

lemma skip_ahead_chain:
  assumes "hkdf_total P" and "RecvChainKey dr = chain_at P c n" and "RecvMessageNum dr = int n"
  shows "\<exists>dr'. skip_ahead P k dr = (None, dr') \<and> RecvChainKey dr' = chain_at P c (n + k)
     \<and> RecvMessageNum dr' = int (n + k) \<and> RemoteDHPubKey dr' = RemoteDHPubKey dr
     \<and> map_of (SkippedKeys dr') = (\<lambda>i. if int n \<le> i \<and> i < int (n + k) then Some (key_at P c (nat i))
                                      else map_of (SkippedKeys dr) i)
     \<and> SendChainKey dr' = SendChainKey dr \<and> SendMessageNum dr' = SendMessageNum dr
     \<and> DHRatchetPubKey dr' = DHRatchetPubKey dr"
  using assms(2,3)
proof (induction k arbitrary: dr n)
  case (Suc k)
  let ?dr = "dr\<lparr>SkippedKeys := AList.update (int n) (key_at P c n) (SkippedKeys dr),
                RecvChainKey := chain_at P c (Suc n), RecvMessageNum := int (Suc n)\<rparr>"
  have s: "skip_ahead P (Suc k) dr = skip_ahead P k ?dr"
    using DeriveMessageKey_chain [OF assms(1), of c n] Suc.prems by (simp add: add.commute)
  from Suc.IH [of ?dr "Suc n"] obtain dr' where
    d: "skip_ahead P k ?dr = (None, dr')" "RecvChainKey dr' = chain_at P c (Suc n + k)"
    "RecvMessageNum dr' = int (Suc n + k)" "RemoteDHPubKey dr' = RemoteDHPubKey dr"
    "map_of (SkippedKeys dr') = (\<lambda>i. if int (Suc n) \<le> i \<and> i < int (Suc n + k) then Some (key_at P c (nat i))
        else map_of (SkippedKeys ?dr) i)"
    "SendChainKey dr' = SendChainKey dr" "SendMessageNum dr' = SendMessageNum dr"
    "DHRatchetPubKey dr' = DHRatchetPubKey dr"
    by auto
  have "map_of (SkippedKeys dr') = (\<lambda>i. if int n \<le> i \<and> i < int (n + Suc k) then Some (key_at P c (nat i))
                                      else map_of (SkippedKeys dr) i)"
    unfolding d(5) by (auto simp: fun_eq_iff update_conv')
  with s d show ?case by simp
qed (auto simp: fun_eq_iff)

section \<open>One direction of a conversation as a channel\<close>

type_synonym dr_payload = "bytes \<times> bytes"
type_synonym dr_message = "bytes \<times> bytes \<times> int \<times> bytes"

text \<open>
  What a conversation sends for a plaintext and a nonce, and what it makes of a message: the
  ciphertext, the nonce, the number of the message in its chain and the sender's current key.
\<close>

definition dr_send :: "prims \<Rightarrow> DoubleRatchet \<Rightarrow> dr_payload \<Rightarrow> (dr_message \<times> DoubleRatchet) option" where
  "dr_send P s p =
     (case Encrypt P (Some (snd p)) (fst p) s of
        (Inl _, _) \<Rightarrow> None
      | (Inr (ct, nonce), s') \<Rightarrow> Some ((ct, nonce, SendMessageNum s' - 1, DHRatchetPubKey s'), s'))"

definition dr_recv :: "prims \<Rightarrow> DoubleRatchet \<Rightarrow> dr_message \<Rightarrow> dr_payload option \<times> DoubleRatchet" where
  "dr_recv P r m =
     (case m of (ct, nonce, k, pk) \<Rightarrow>
        (case Decrypt P None ct nonce k pk r of
           (Inl _, r') \<Rightarrow> (None, r')
         | (Inr pt, r') \<Rightarrow> (Some (pt, nonce), r')))"

definition in_flight :: "prims \<Rightarrow> bytes \<Rightarrow> bytes \<Rightarrow> nat \<Rightarrow> nat \<Rightarrow> (int \<rightharpoonup> bytes) \<Rightarrow> dr_payload \<times> dr_message \<Rightarrow> bool" where
  "in_flight P c pk m n skipped x \<longleftrightarrow>
     (case x of ((pt, nonce), (ct, nonce', k, pk')) \<Rightarrow>
        nonce' = nonce \<and> pk' = pk
        \<and> (\<exists>i. k = int i \<and> i < m \<and> ct = box_seal P pt nonce (key_at P c i)
             \<and> (i < n \<longrightarrow> skipped (int i) = Some (key_at P c i))))"

definition msg_num :: "dr_payload \<times> dr_message \<Rightarrow> int" where
  "msg_num x = (case x of (_, (_, _, k, _)) \<Rightarrow> k)"

text \<open>
  Sender and receiver are synchronised on a chain: the sender is \<open>m\<close> steps into it, the receiver
  \<open>n \<le> m\<close>, and every message still in flight was sealed with the key of its number, which the
  receiver either has not reached or has kept.
\<close>

definition dr_synced :: "prims \<Rightarrow> DoubleRatchet \<Rightarrow> DoubleRatchet \<Rightarrow> (dr_payload \<times> dr_message) list \<Rightarrow> bool" where
  "dr_synced P s r q \<longleftrightarrow> box_correct P \<and> hkdf_total P \<and>
     (\<exists>c m n. SendChainKey s = chain_at P c m \<and> SendMessageNum s = int m
        \<and> RecvChainKey r = chain_at P c n \<and> RecvMessageNum r = int n \<and> n \<le> m
        \<and> RemoteDHPubKey r = DHRatchetPubKey s \<and> distinct (map msg_num q)
        \<and> (\<forall>x\<in>set q. in_flight P c (DHRatchetPubKey s) m n (map_of (SkippedKeys r)) x))"

lemma dr_send_total: "dr_synced P s r q \<Longrightarrow> dr_send P s p \<noteq> None"
  using DeriveMessageKey_total [of P "SendChainKey s"] by (fastforce simp: dr_synced_def dr_send_def Encrypt_def)

lemma dr_send_synced:
  assumes "dr_synced P s r q" and "dr_send P s p = Some (msg, s')"
  shows "dr_synced P s' r (q @ [(p, msg)])"
proof -
  obtain c m n where I: "box_correct P" "hkdf_total P" "SendChainKey s = chain_at P c m" "SendMessageNum s = int m"
    "RecvChainKey r = chain_at P c n" "RecvMessageNum r = int n" "n \<le> m" "RemoteDHPubKey r = DHRatchetPubKey s"
    "distinct (map msg_num q)" "\<forall>x\<in>set q. in_flight P c (DHRatchetPubKey s) m n (map_of (SkippedKeys r)) x"
    using assms(1) by (auto simp: dr_synced_def)
  have e: "msg = (box_seal P (fst p) (snd p) (key_at P c m), snd p, int m, DHRatchetPubKey s)"
    "s' = s\<lparr>SendChainKey := chain_at P c (Suc m), SendMessageNum := int (Suc m)\<rparr>"
    using assms(2) DeriveMessageKey_chain [OF I(2), of c m] I(3,4)
    by (auto simp: dr_send_def Encrypt_def)
  have old: "\<forall>x\<in>set q. in_flight P c (DHRatchetPubKey s) (Suc m) n (map_of (SkippedKeys r)) x \<and> msg_num x < int m"
    using I(10) by (fastforce simp: in_flight_def msg_num_def)
  have new: "in_flight P c (DHRatchetPubKey s) (Suc m) n (map_of (SkippedKeys r)) (p, msg)" "msg_num (p, msg) = int m"
    using e I(7) by (cases p; simp add: in_flight_def msg_num_def)+
  have "distinct (map msg_num (q @ [(p, msg)]))" using I(9) old new(2) by auto
  then show ?thesis unfolding dr_synced_def using I e old new(1)
    by (intro conjI exI [of _ c] exI [of _ "Suc m"] exI [of _ n]) auto
qed

lemma dr_drop_synced: "dr_synced P s r (q1 @ x # q2) \<Longrightarrow> dr_synced P s r (q1 @ q2)"
  unfolding dr_synced_def by auto

lemma in_flight_weaken:
  "in_flight P c pk m n sk x \<Longrightarrow> (\<And>i. msg_num x = int i \<Longrightarrow> i < n' \<Longrightarrow> (i < n \<longrightarrow> sk (int i) = Some (key_at P c i)) \<Longrightarrow>
     sk' (int i) = Some (key_at P c i)) \<Longrightarrow> in_flight P c pk m n' sk' x"
  by (auto simp: in_flight_def msg_num_def)

lemma dr_recv_synced:
  assumes "dr_synced P s r (q1 @ (p, msg) # q2)"
  shows "\<exists>r'. dr_recv P r msg = (Some p, r') \<and> dr_synced P s r' (q1 @ q2)"
proof -
  obtain c m n where I: "box_correct P" "hkdf_total P" "SendChainKey s = chain_at P c m" "SendMessageNum s = int m"
    "RecvChainKey r = chain_at P c n" "RecvMessageNum r = int n" "n \<le> m" "RemoteDHPubKey r = DHRatchetPubKey s"
    "distinct (map msg_num (q1 @ (p, msg) # q2))"
    "\<forall>x\<in>set (q1 @ (p, msg) # q2). in_flight P c (DHRatchetPubKey s) m n (map_of (SkippedKeys r)) x"
    using assms by (auto simp: dr_synced_def)
  obtain pt nonce where p: "p = (pt, nonce)" by (cases p)
  have "in_flight P c (DHRatchetPubKey s) m n (map_of (SkippedKeys r)) (p, msg)" using I(10) by simp
  then obtain i where msg: "msg = (box_seal P pt nonce (key_at P c i), nonce, int i, DHRatchetPubKey s)"
    and i: "i < m" and sk: "i < n \<longrightarrow> map_of (SkippedKeys r) (int i) = Some (key_at P c i)"
    unfolding p by (auto simp: in_flight_def split: prod.splits)
  have op: "box_open P (box_seal P pt nonce (key_at P c i)) nonce (key_at P c i) = Some pt"
    using I(1) by (simp add: box_correct_def)
  have num: "msg_num (p, msg) = int i" by (simp add: msg msg_num_def)
  have rest1: "distinct (map msg_num (q1 @ q2))" and "int i \<notin> msg_num ` set (q1 @ q2)"
    using I(9) num by auto
  then have rest2: "\<forall>x\<in>set (q1 @ q2). msg_num x \<noteq> int i" by (metis image_eqI)
  show ?thesis
  proof (cases "i < n")
    case True
    let ?r = "r\<lparr>SkippedKeys := AList.delete (int i) (SkippedKeys r)\<rparr>"
    have "dr_recv P r msg = (Some p, ?r)"
      using True sk op I(6,8) by (simp add: dr_recv_def Decrypt_def decrypt_chain_def msg p)
    moreover have "\<forall>x\<in>set (q1 @ q2). in_flight P c (DHRatchetPubKey s) m n (map_of (SkippedKeys ?r)) x"
    proof
      fix x assume "x \<in> set (q1 @ q2)"
      then have x: "in_flight P c (DHRatchetPubKey s) m n (map_of (SkippedKeys r)) x" and ne: "msg_num x \<noteq> int i"
        using I(10) rest2 by auto
      show "in_flight P c (DHRatchetPubKey s) m n (map_of (SkippedKeys ?r)) x"
        by (rule in_flight_weaken [OF x]) (use ne in \<open>simp add: delete_conv'\<close>)
    qed
    then have "dr_synced P s ?r (q1 @ q2)"
      unfolding dr_synced_def using I rest1
      by (intro conjI exI [of _ c] exI [of _ m] exI [of _ n]) auto
    ultimately show ?thesis by blast
  next
    case False
    from skip_ahead_chain [OF I(2,5,6), of "i - n"] obtain r1 where r1: "skip_ahead P (i - n) r = (None, r1)"
      "RecvChainKey r1 = chain_at P c i" "RecvMessageNum r1 = int i" "RemoteDHPubKey r1 = RemoteDHPubKey r"
      "map_of (SkippedKeys r1) = (\<lambda>j. if int n \<le> j \<and> j < int i then Some (key_at P c (nat j)) else map_of (SkippedKeys r) j)"
      using False by auto
    let ?r = "r1\<lparr>RecvChainKey := chain_at P c (Suc i), RecvMessageNum := int (Suc i)\<rparr>"
    have "nat (int i - int n) = i - n" using False by simp
    then have "dr_recv P r msg = (Some p, ?r)"
      using False r1 op I(6,8) DeriveMessageKey_chain [OF I(2), of c i]
      by (simp add: dr_recv_def Decrypt_def decrypt_chain_def decrypt_current_def msg p add.commute)
    moreover have "\<forall>x\<in>set (q1 @ q2). in_flight P c (DHRatchetPubKey s) m (Suc i) (map_of (SkippedKeys ?r)) x"
    proof
      fix x assume "x \<in> set (q1 @ q2)"
      then have x: "in_flight P c (DHRatchetPubKey s) m n (map_of (SkippedKeys r)) x" and ne: "msg_num x \<noteq> int i"
        using I(10) rest2 by auto
      show "in_flight P c (DHRatchetPubKey s) m (Suc i) (map_of (SkippedKeys ?r)) x"
        by (rule in_flight_weaken [OF x]) (use ne False in \<open>auto simp: r1(5) less_Suc_eq\<close>)
    qed
    then have "dr_synced P s ?r (q1 @ q2)"
      unfolding dr_synced_def using I rest1 r1 i
      by (intro conjI exI [of _ c] exI [of _ m] exI [of _ "Suc i"]) auto
    ultimately show ?thesis by blast
  qed
qed

interpretation dr: reordering_channel "dr_send P" "dr_recv P" "dr_synced P" for P
  by unfold_locales (fact dr_send_total dr_send_synced dr_recv_synced dr_drop_synced)+

section \<open>Both directions of a conversation\<close>

text \<open>One operation on the channel from \<open>s\<close> to \<open>r\<close>, and a schedule of operations in both directions.\<close>

definition dr_step ::
  "prims \<Rightarrow> dr_payload chan_op \<Rightarrow> DoubleRatchet \<Rightarrow> DoubleRatchet \<Rightarrow> (dr_payload \<times> dr_message) list
     \<Rightarrow> (dr_payload \<times> dr_payload option) list \<times> DoubleRatchet \<times> DoubleRatchet \<times> (dr_payload \<times> dr_message) list" where
  "dr_step P opr s r q =
     (case opr of
        Send p \<Rightarrow> (case dr_send P s p of None \<Rightarrow> ([(p, None)], s, r, q) | Some (m, s') \<Rightarrow> ([], s', r, q @ [(p, m)]))
      | Deliver i \<Rightarrow>
          if i < length q then
            (case dr_recv P r (snd (q ! i)) of
               (res, r') \<Rightarrow> ([(fst (q ! i), res)], s, r', take i q @ drop (Suc i) q))
          else ([], s, r, q)
      | Drop i \<Rightarrow> ([], s, r, take i q @ drop (Suc i) q))"

fun run_duplex ::
  "prims \<Rightarrow> (bool \<times> dr_payload chan_op) list \<Rightarrow> DoubleRatchet \<Rightarrow> DoubleRatchet
     \<Rightarrow> (dr_payload \<times> dr_message) list \<Rightarrow> (dr_payload \<times> dr_message) list \<Rightarrow> (dr_payload \<times> dr_payload option) list" where
  "run_duplex P [] a b qab qba = []"
| "run_duplex P ((True, opr) # ops) a b qab qba =
     (case dr_step P opr a b qab of (out, a', b', qab') \<Rightarrow> out @ run_duplex P ops a' b' qab' qba)"
| "run_duplex P ((False, opr) # ops) a b qab qba =
     (case dr_step P opr b a qba of (out, b', a', qba') \<Rightarrow> out @ run_duplex P ops a' b' qab qba')"

abbreviation same_sending :: "DoubleRatchet \<Rightarrow> DoubleRatchet \<Rightarrow> bool" where
  "same_sending r' r \<equiv> SendChainKey r' = SendChainKey r \<and> SendMessageNum r' = SendMessageNum r
     \<and> DHRatchetPubKey r' = DHRatchetPubKey r"

lemma skip_ahead_sending: "skip_ahead P k r = (e, r') \<Longrightarrow> same_sending r' r \<and> RemoteDHPubKey r' = RemoteDHPubKey r"
  by (induction P k r rule: skip_ahead.induct) (auto split: option.splits)

lemma decrypt_chain_sending:
  "decrypt_chain P ct nonce k r = (res, r') \<Longrightarrow> same_sending r' r \<and> RemoteDHPubKey r' = RemoteDHPubKey r"
  unfolding decrypt_chain_def decrypt_current_def
  using skip_ahead_sending [of P "nat (k - RecvMessageNum r)" r]
  by (auto split: if_splits option.splits prod.splits)

lemma dr_synced_frame:
  assumes "dr_synced P s r q" and "same_sending s' s"
    and "RecvChainKey r' = RecvChainKey r" and "RecvMessageNum r' = RecvMessageNum r"
    and "RemoteDHPubKey r' = RemoteDHPubKey r" and "SkippedKeys r' = SkippedKeys r"
  shows "dr_synced P s' r' q"
  using assms unfolding dr_synced_def by simp

lemma dr_send_receiving:
  assumes "dr_send P s p = Some (m, s')" and "dr_synced P b s q"
  shows "dr_synced P b s' q"
  by (rule dr_synced_frame [OF assms(2)])
    (use assms(1) in \<open>auto simp: dr_send_def Encrypt_def split: option.splits\<close>)

lemma dr_recv_sending:
  assumes "dr_synced P s r q" and "x \<in> set q" and "dr_recv P r (snd x) = (res, r')" and "dr_synced P r s q2"
  shows "dr_synced P r' s q2"
proof -
  obtain pt nonce ct nonce' k pk where x: "x = ((pt, nonce), (ct, nonce', k, pk))" by (metis prod.exhaust)
  have "pk = RemoteDHPubKey r" using assms(1,2) by (auto simp: dr_synced_def in_flight_def x)
  then obtain d where "decrypt_chain P ct nonce' k r = (d, r')"
    using assms(3) by (auto simp: dr_recv_def Decrypt_def x split: prod.splits sum.splits)
  from decrypt_chain_sending [OF this] show ?thesis by (intro dr_synced_frame [OF assms(4)]) simp_all
qed

lemma dr_step_synced:
  assumes "dr_synced P s r q" and "dr_synced P r s q2" and "dr_step P opr s r q = (out, s', r', q')"
  shows "dr_synced P s' r' q' \<and> dr_synced P r' s' q2 \<and> (\<forall>(p, res)\<in>set out. res = Some p)"
proof (cases opr)
  case (Send p)
  with assms dr_send_total [OF assms(1), of p] show ?thesis
    by (auto simp: dr_step_def split: option.splits intro: dr_send_synced dr_send_receiving)
next
  case (Deliver i)
  show ?thesis
  proof (cases "i < length q")
    case True
    then have q: "q = take i q @ (fst (q ! i), snd (q ! i)) # drop (Suc i) q" by (simp add: Cons_nth_drop_Suc)
    obtain r1 where r1: "dr_recv P r (snd (q ! i)) = (Some (fst (q ! i)), r1)" "dr_synced P s r1 (take i q @ drop (Suc i) q)"
      using dr_recv_synced [of P s r "take i q" "fst (q ! i)" "snd (q ! i)" "drop (Suc i) q"] assms(1) q by metis
    have "dr_synced P r1 s q2" using dr_recv_sending [OF assms(1) nth_mem [OF True] r1(1) assms(2)] .
    with r1 assms(3) True Deliver show ?thesis by (auto simp: dr_step_def)
  qed (use assms Deliver in \<open>auto simp: dr_step_def\<close>)
next
  case (Drop i)
  with assms dr.fifo.drop_at [OF assms(1), of i] show ?thesis by (auto simp: dr_step_def)
qed

lemma run_duplex_delivers:
  "dr_synced P a b qab \<Longrightarrow> dr_synced P b a qba \<Longrightarrow> \<forall>(p, res)\<in>set (run_duplex P ops a b qab qba). res = Some p"
proof (induction ops arbitrary: a b qab qba)
  case (Cons x ops)
  show ?case
  proof (cases "fst x")
    case True
    then obtain opr where x: "x = (True, opr)" by (cases x) auto
    obtain out a' b' q' where s: "dr_step P opr a b qab = (out, a', b', q')" by (metis prod.exhaust)
    from dr_step_synced [OF Cons.prems s] Cons.IH [of a' b' q' qba] s x show ?thesis by auto
  next
    case False
    then obtain opr where x: "x = (False, opr)" by (cases x) auto
    obtain out a' b' q' where s: "dr_step P opr b a qba = (out, b', a', q')" by (metis prod.exhaust)
    from dr_step_synced [OF Cons.prems(2,1) s] Cons.IH [of a' b' qab q'] s x show ?thesis by auto
  qed
qed simp

lemma run_duplex_all_delivered:
  "dr_synced P a b qab \<Longrightarrow> dr_synced P b a qba \<Longrightarrow> all_delivered (run_duplex P ops a b qab qba)"
  by (simp add: all_delivered_iff run_duplex_delivers)

section \<open>Replay\<close>

definition wf_ratchet :: "DoubleRatchet \<Rightarrow> bool" where
  "wf_ratchet r \<longleftrightarrow> dom (map_of (SkippedKeys r)) \<subseteq> {..< RecvMessageNum r}"

lemma wf_ratchet_iff: "wf_ratchet r \<longleftrightarrow> (\<forall>k mk. map_of (SkippedKeys r) k = Some mk \<longrightarrow> k < RecvMessageNum r)"
  by (auto simp: wf_ratchet_def)

lemma skip_ahead_wf:
  "skip_ahead P k r = (e, r') \<Longrightarrow> wf_ratchet r \<Longrightarrow> wf_ratchet r' \<and> (e = None \<longrightarrow> RecvMessageNum r' = RecvMessageNum r + int k)"
proof (induction P k r rule: skip_ahead.induct)
  case (2 P k dr)
  show ?case
  proof (cases "DeriveMessageKey P (RecvChainKey dr)")
    case (Some x)
    obtain mk ck where x: "x = (mk, ck)" by (cases x)
    let ?dr = "dr\<lparr>SkippedKeys := AList.update (RecvMessageNum dr) mk (SkippedKeys dr),
                  RecvChainKey := ck, RecvMessageNum := RecvMessageNum dr + 1\<rparr>"
    have "wf_ratchet ?dr" using 2(3) by (auto simp: wf_ratchet_iff update_conv')
    with 2 Some x show ?thesis by auto
  qed (use 2 in auto)
qed auto

lemma decrypt_chain_wf:
  assumes "decrypt_chain P ct nonce k r = (res, r')" and "wf_ratchet r"
  shows "wf_ratchet r' \<and> (\<forall>pt. res = Inr pt \<longrightarrow> k < RecvMessageNum r' \<and> map_of (SkippedKeys r') k = None)"
proof (cases "k < RecvMessageNum r")
  case True
  with assms show ?thesis
    by (auto simp: decrypt_chain_def wf_ratchet_iff delete_conv' split: option.splits if_splits)
next
  case False
  obtain e r1 where s: "skip_ahead P (nat (k - RecvMessageNum r)) r = (e, r1)" by fastforce
  from skip_ahead_wf [OF s assms(2)] have w: "wf_ratchet r1" "e = None \<longrightarrow> RecvMessageNum r1 = k"
    using False by auto
  then have "e = None \<Longrightarrow> map_of (SkippedKeys r1) k = None"
    by (fastforce simp: wf_ratchet_iff)
  moreover have "wf_ratchet (r1\<lparr>RecvChainKey := ck, RecvMessageNum := RecvMessageNum r1 + 1\<rparr>)" for ck
    using w(1) by (force simp: wf_ratchet_iff)
  ultimately show ?thesis using w s assms False
    by (cases e) (auto simp: decrypt_chain_def decrypt_current_def split: option.splits)
qed

lemma fresh_wf: "wf_ratchet (fresh_ratchet P priv remote root)"
  by (simp add: fresh_ratchet_def wf_ratchet_iff)

lemma initialize_wf:
  "wf_ratchet dr \<Longrightarrow> SkippedKeys dr = [] \<Longrightarrow> initializeSenderChains P pk dr = (e, dr') \<Longrightarrow> wf_ratchet dr'"
  "wf_ratchet dr \<Longrightarrow> SkippedKeys dr = [] \<Longrightarrow> initializeReceiverChains P pk dr = (e, dr') \<Longrightarrow> wf_ratchet dr'"
  by (auto simp: initializeSenderChains_def initializeReceiverChains_def wf_ratchet_iff Let_def split: option.splits)

lemma Encrypt_wf: "wf_ratchet dr \<Longrightarrow> Encrypt P rnd pt dr = (res, dr') \<Longrightarrow> wf_ratchet dr'"
  by (auto simp: Encrypt_def wf_ratchet_iff split: option.splits)

text \<open>
  C12. A message is accepted once.  When a ratchet whose kept keys all lie behind its receive counter
  decrypts a message under the current key of the other side, the same message number is refused from
  then on, whatever ciphertext and nonce come with it, and the refusal leaves the state as it is.  The
  invariant is kept by the decryption.
\<close>

theorem Decrypt_no_replay:
  assumes "wf_ratchet r" and "Decrypt P rnd ct nonce k (RemoteDHPubKey r) r = (Inr pt, r')"
  shows "wf_ratchet r' \<and> Decrypt P rnd' ct' nonce' k (RemoteDHPubKey r) r' = (Inl SkippedKeyNotFound, r')"
proof -
  from assms(2) have d: "decrypt_chain P ct nonce k r = (Inr pt, r')" by (simp add: Decrypt_def)
  have "RemoteDHPubKey r' = RemoteDHPubKey r" using decrypt_chain_sending [OF d] by blast
  with decrypt_chain_wf [OF d assms(1)] show ?thesis by (simp add: Decrypt_def decrypt_chain_def)
qed

definition sample_ratchet :: DoubleRatchet where
  "sample_ratchet = fresh_ratchet toy_prims [] zero_key zero_key"

theorem Decrypt_no_replay_witness:
  "\<exists>r'. Decrypt toy_prims None (box_seal toy_prims [1] [2] (key_at toy_prims zero_key 0)) [2] 0 zero_key sample_ratchet
          = (Inr [1], r')
     \<and> Decrypt toy_prims None [7] [8] 0 zero_key r' = (Inl SkippedKeyNotFound, r')"
proof -
  have r: "RemoteDHPubKey sample_ratchet = zero_key" by (simp add: sample_ratchet_def fresh_ratchet_def)
  have "\<exists>r'. Decrypt toy_prims None (box_seal toy_prims [1] [2] (key_at toy_prims zero_key 0)) [2] 0 zero_key sample_ratchet
          = (Inr [1], r')"
    by (simp add: Decrypt_def sample_ratchet_def fresh_ratchet_def decrypt_chain_def decrypt_current_def key_at_def
        DeriveMessageKey_def DeriveChainKey_def toy_prims_def)
  then obtain r' where d: "Decrypt toy_prims None (box_seal toy_prims [1] [2] (key_at toy_prims zero_key 0)) [2] 0
      (RemoteDHPubKey sample_ratchet) sample_ratchet = (Inr [1], r')" by (auto simp: r)
  have "wf_ratchet sample_ratchet" unfolding sample_ratchet_def by (rule fresh_wf)
  from Decrypt_no_replay [OF this d, of None "[7]" "[8]"] d r show ?thesis by auto
qed

section \<open>Shared chains\<close>

lemma initializeSenderChains_shared:
  "initializeSenderChains P pk dr = (None, a) \<Longrightarrow>
     RecvChainKey a = SendChainKey a \<and> SendMessageNum a = 0 \<and> RecvMessageNum a = 0"
  by (auto simp: initializeSenderChains_def Let_def split: option.splits)

text \<open>
   The two directions of a conversation use one chain: after the key exchange a message the
  initiator sent, given back to her as a message of the other side (with the number it was sent under
  and the other side's public key), decrypts on her own ratchet.
\<close>

theorem own_message_reflects:
  assumes "box_correct P" and "initializeSenderChains P pk dr = (None, a)"
    and "Encrypt P (Some nonce) pt a = (Inr (ct, n), a')"
  shows "\<exists>a''. Decrypt P rnd ct n (SendMessageNum a' - 1) pk a' = (Inr pt, a'')"
proof -
  have s: "RecvChainKey a = SendChainKey a" "SendMessageNum a = 0" "RecvMessageNum a = 0" "RemoteDHPubKey a = pk"
    using assms(2) initializeSenderChains_shared [OF assms(2)]
    by (auto simp: initializeSenderChains_def Let_def split: option.splits)
  from assms(3) obtain mk ck where "DeriveMessageKey P (SendChainKey a) = Some (mk, ck)" "ct = box_seal P pt nonce mk"
    "n = nonce" "a' = a\<lparr>SendChainKey := ck, SendMessageNum := SendMessageNum a + 1\<rparr>"
    by (auto simp: Encrypt_def split: option.splits)
  with s assms(1) show ?thesis
    by (simp add: Decrypt_def decrypt_chain_def decrypt_current_def box_correct_def)
qed

theorem own_message_reflects_witness:
  "\<exists>a ct n a' a''. initializeSenderChains toy_prims (base_mult toy_prims []) sample_ratchet = (None, a)
     \<and> Encrypt toy_prims (Some [2]) [1] a = (Inr (ct, n), a')
     \<and> Decrypt toy_prims None ct n (SendMessageNum a' - 1) (base_mult toy_prims []) a' = (Inr [1], a'')"
proof -
  obtain a where a: "initializeSenderChains toy_prims (base_mult toy_prims []) sample_ratchet = (None, a)"
    by (simp add: initializeSenderChains_def toy_prims_def DeriveRootKey_def Let_def)
  obtain ct n a' where e: "Encrypt toy_prims (Some [2]) [1] a = (Inr (ct, n), a')"
    by (simp add: Encrypt_def DeriveMessageKey_def DeriveChainKey_def toy_prims_def)
  from own_message_reflects [OF toy_box a e, of None] a e show ?thesis by auto
qed

end
