(* ===== verification/Sender_Keys.thy ===== *)
theory Sender_Keys
  imports Double_Ratchet
begin

text \<open>
  The sender keys of a group conversation (\<open>internal/crypto/sender_keys.go\<close>): every member has a
  chain of their own, which the others hold as well and only ever move forward.  The map of sender
  keys holds pointers that the code updates in place; nothing else holds those pointers, so the model
  stores the updated value.  Operations return the state they leave on an error too.
\<close>

section \<open>State\<close>

record SenderKey =
  sk_ChainKey :: bytes
  sk_SigningKey :: bytes
  sk_MessageNumber :: int

record GroupSenderKeys =
  GroupID :: string
  SenderKeys :: "string \<rightharpoonup> SenderKey"
  OurPeerID :: string
  OurSigningKey :: bytes

datatype group_error =
  ChainKeyRandFailed | OurSenderKeyNotFound | GroupDeriveFailed | NonceRandFailed | SignFailed
| InvalidSignatureLength | SenderKeyNotFound string | AdvanceFailed | GroupDecryptionFailed
| MessageNumberMismatch int int

section \<open>Operations\<close>

definition NewSenderKey :: "bytes option \<Rightarrow> bytes \<Rightarrow> group_error + SenderKey" where
  "NewSenderKey rnd signingKey =
     (case rnd of
        None \<Rightarrow> Inl ChainKeyRandFailed
      | Some ck \<Rightarrow> Inr \<lparr>sk_ChainKey = ck, sk_SigningKey = signingKey, sk_MessageNumber = 0\<rparr>)"

definition NewGroupSenderKeys :: "bytes option \<Rightarrow> string \<Rightarrow> string \<Rightarrow> bytes \<Rightarrow> group_error + GroupSenderKeys" where
  "NewGroupSenderKeys rnd groupID ourPeerID ourSigningKey =
     (case NewSenderKey rnd ourSigningKey of
        Inl e \<Rightarrow> Inl e
      | Inr ourSenderKey \<Rightarrow>
          Inr \<lparr>GroupID = groupID, SenderKeys = [ourPeerID \<mapsto> ourSenderKey], OurPeerID = ourPeerID,
               OurSigningKey = ourSigningKey\<rparr>)"

definition NewGroupSenderKeysWithExistingKey ::
  "string \<Rightarrow> string \<Rightarrow> bytes \<Rightarrow> bytes \<Rightarrow> int \<Rightarrow> GroupSenderKeys" where
  "NewGroupSenderKeysWithExistingKey groupID peerID signingKey chainKey messageNumber =
     \<lparr>GroupID = groupID,
      SenderKeys = [peerID \<mapsto> \<lparr>sk_ChainKey = chainKey, sk_SigningKey = signingKey, sk_MessageNumber = messageNumber\<rparr>],
      OurPeerID = peerID, OurSigningKey = signingKey\<rparr>"

text \<open>The signature is 64 random bytes, and verification looks at its length.\<close>

definition signMessage :: "bytes option \<Rightarrow> bytes \<Rightarrow> bytes \<Rightarrow> group_error + bytes" where
  "signMessage rnd msg signingKey = (case rnd of None \<Rightarrow> Inl SignFailed | Some s \<Rightarrow> Inr (copy_arr 64 s))"

definition verifyMessageSignature :: "bytes \<Rightarrow> bytes \<Rightarrow> bytes \<Rightarrow> group_error option" where
  "verifyMessageSignature msg signature publicKey =
     (if length signature \<noteq> 64 then Some InvalidSignatureLength else None)"

definition EncryptGroupMessage ::
  "prims \<Rightarrow> bytes option \<Rightarrow> bytes option \<Rightarrow> bytes \<Rightarrow> GroupSenderKeys
     \<Rightarrow> (group_error + bytes \<times> bytes \<times> int \<times> bytes) \<times> GroupSenderKeys" where
  "EncryptGroupMessage P rnd sigrnd plaintext gsk =
     (case SenderKeys gsk (OurPeerID gsk) of
        None \<Rightarrow> (Inl OurSenderKeyNotFound, gsk)
      | Some ourSenderKey \<Rightarrow>
          (case DeriveMessageKey P (sk_ChainKey ourSenderKey) of
             None \<Rightarrow> (Inl GroupDeriveFailed, gsk)
           | Some (messageKey, nextChainKey) \<Rightarrow>
               (case rnd of
                  None \<Rightarrow> (Inl NonceRandFailed, gsk)
                | Some nonce \<Rightarrow>
                    let ciphertext = box_seal P plaintext nonce messageKey;
                        messageNumber = sk_MessageNumber ourSenderKey;
                        gsk' = gsk\<lparr>SenderKeys := (SenderKeys gsk)(OurPeerID gsk \<mapsto>
                                 ourSenderKey\<lparr>sk_ChainKey := nextChainKey, sk_MessageNumber := messageNumber + 1\<rparr>)\<rparr>
                    in case signMessage sigrnd ciphertext (OurSigningKey gsk) of
                         Inl e \<Rightarrow> (Inl e, gsk')
                       | Inr signature \<Rightarrow> (Inr (ciphertext, nonce, messageNumber, signature), gsk'))))"

text \<open>The loop that moves a chain forward: the keys it passes are not kept.\<close>

fun advance_chain :: "prims \<Rightarrow> nat \<Rightarrow> SenderKey \<Rightarrow> (group_error option) \<times> SenderKey" where
  "advance_chain P 0 sk = (None, sk)"
| "advance_chain P (Suc k) sk =
     (case DeriveMessageKey P (sk_ChainKey sk) of
        None \<Rightarrow> (Some AdvanceFailed, sk)
      | Some (_, nextChainKey) \<Rightarrow>
          advance_chain P k (sk\<lparr>sk_ChainKey := nextChainKey, sk_MessageNumber := sk_MessageNumber sk + 1\<rparr>))"

definition decrypt_with ::
  "prims \<Rightarrow> bytes \<Rightarrow> bytes \<Rightarrow> int \<Rightarrow> SenderKey \<Rightarrow> (group_error + bytes) \<times> SenderKey" where
  "decrypt_with P ciphertext nonce messageNumber senderKey =
     (case advance_chain P (nat (messageNumber - sk_MessageNumber senderKey)) senderKey of
        (Some e, sk) \<Rightarrow> (Inl e, sk)
      | (None, sk) \<Rightarrow>
          if sk_MessageNumber sk = messageNumber then
            (case DeriveMessageKey P (sk_ChainKey sk) of
               None \<Rightarrow> (Inl GroupDeriveFailed, sk)
             | Some (messageKey, nextChainKey) \<Rightarrow>
                 (case box_open P ciphertext nonce messageKey of
                    None \<Rightarrow> (Inl GroupDecryptionFailed, sk)
                  | Some plaintext \<Rightarrow>
                      (Inr plaintext, sk\<lparr>sk_ChainKey := nextChainKey, sk_MessageNumber := sk_MessageNumber sk + 1\<rparr>)))
          else (Inl (MessageNumberMismatch (sk_MessageNumber sk) messageNumber), sk))"

definition DecryptGroupMessage ::
  "prims \<Rightarrow> string \<Rightarrow> bytes \<Rightarrow> bytes \<Rightarrow> int \<Rightarrow> bytes \<Rightarrow> bytes \<Rightarrow> GroupSenderKeys
     \<Rightarrow> (group_error + bytes) \<times> GroupSenderKeys" where
  "DecryptGroupMessage P senderPeerID ciphertext nonce messageNumber signature senderPublicKey gsk =
     (case verifyMessageSignature ciphertext signature senderPublicKey of
        Some e \<Rightarrow> (Inl e, gsk)
      | None \<Rightarrow>
          (case SenderKeys gsk senderPeerID of
             None \<Rightarrow> (Inl (SenderKeyNotFound senderPeerID), gsk)
           | Some senderKey \<Rightarrow>
               (case decrypt_with P ciphertext nonce messageNumber senderKey of
                  (res, sk) \<Rightarrow> (res, gsk\<lparr>SenderKeys := (SenderKeys gsk)(senderPeerID \<mapsto> sk)\<rparr>))))"

definition AddSenderKey :: "string \<Rightarrow> bytes \<Rightarrow> int \<Rightarrow> GroupSenderKeys \<Rightarrow> GroupSenderKeys" where
  "AddSenderKey peerID chainKey messageNumber gsk =
     gsk\<lparr>SenderKeys := (SenderKeys gsk)(peerID \<mapsto>
           \<lparr>sk_ChainKey = chainKey, sk_SigningKey = [], sk_MessageNumber = messageNumber\<rparr>)\<rparr>"

definition RemoveSenderKey :: "string \<Rightarrow> GroupSenderKeys \<Rightarrow> GroupSenderKeys" where
  "RemoveSenderKey peerID gsk =
     (case SenderKeys gsk peerID of
        None \<Rightarrow> gsk
      | Some _ \<Rightarrow> gsk\<lparr>SenderKeys := (SenderKeys gsk)(peerID := None)\<rparr>)"

definition GetOurSenderKeyState :: "GroupSenderKeys \<Rightarrow> group_error + bytes \<times> int" where
  "GetOurSenderKeyState gsk =
     (case SenderKeys gsk (OurPeerID gsk) of
        None \<Rightarrow> Inl OurSenderKeyNotFound
      | Some sk \<Rightarrow> Inr (sk_ChainKey sk, sk_MessageNumber sk))"

section \<open>A member's messages as a channel\<close>

lemma advance_chain_at:
  assumes "hkdf_total P"
  shows "sk_ChainKey sk = chain_at P c n \<Longrightarrow> sk_MessageNumber sk = b + int n \<Longrightarrow>
     \<exists>sk'. advance_chain P k sk = (None, sk') \<and> sk_ChainKey sk' = chain_at P c (n + k)
       \<and> sk_MessageNumber sk' = b + int (n + k)"
proof (induction k arbitrary: sk n)
  case (Suc k)
  let ?sk = "sk\<lparr>sk_ChainKey := chain_at P c (Suc n), sk_MessageNumber := sk_MessageNumber sk + 1\<rparr>"
  have "advance_chain P (Suc k) sk = advance_chain P k ?sk"
    using DeriveMessageKey_chain [OF assms, of c n] Suc.prems by simp
  with Suc.IH [of ?sk "Suc n"] Suc.prems show ?case by auto
qed simp

type_synonym gk_message = "bytes \<times> bytes \<times> int \<times> bytes"

text \<open>A payload is a plaintext with the random nonce it is sent with; \<open>sigs\<close> draws the signature bytes.\<close>

definition gk_send ::
  "prims \<Rightarrow> (bytes \<Rightarrow> bytes) \<Rightarrow> GroupSenderKeys \<Rightarrow> bytes \<times> bytes \<Rightarrow> (gk_message \<times> GroupSenderKeys) option" where
  "gk_send P sigs s p =
     (case EncryptGroupMessage P (Some (snd p)) (Some (sigs (snd p))) (fst p) s of
        (Inl _, _) \<Rightarrow> None
      | (Inr m, s') \<Rightarrow> Some (m, s'))"

definition gk_recv ::
  "prims \<Rightarrow> string \<Rightarrow> bytes \<Rightarrow> GroupSenderKeys \<Rightarrow> gk_message \<Rightarrow> (bytes \<times> bytes) option \<times> GroupSenderKeys" where
  "gk_recv P sender pk r m =
     (case m of (ct, nonce, k, sig) \<Rightarrow>
        (case DecryptGroupMessage P sender ct nonce k sig pk r of
           (Inl _, r') \<Rightarrow> (None, r')
         | (Inr pt, r') \<Rightarrow> (Some (pt, nonce), r')))"

definition gk_flight :: "prims \<Rightarrow> bytes \<Rightarrow> int \<Rightarrow> nat \<Rightarrow> nat \<Rightarrow> (bytes \<times> bytes) \<times> gk_message \<Rightarrow> bool" where
  "gk_flight P c b m n x \<longleftrightarrow>
     (case x of ((pt, nonce), (ct, nonce', k, sig)) \<Rightarrow>
        nonce' = nonce \<and> length sig = 64
        \<and> (\<exists>i\<ge>n. i < m \<and> k = b + int i \<and> ct = box_seal P pt nonce (key_at P c i)))"

definition gk_num :: "(bytes \<times> bytes) \<times> gk_message \<Rightarrow> int" where
  "gk_num x = (case x of (_, (_, _, k, _)) \<Rightarrow> k)"

text \<open>
  The sender is \<open>m\<close> steps into a chain and the receiver's copy of it \<open>n \<le> m\<close>; the messages in flight
  are in the order they were sent and none lies behind the receiver's copy.
\<close>

definition gk_synced ::
  "prims \<Rightarrow> string \<Rightarrow> GroupSenderKeys \<Rightarrow> GroupSenderKeys \<Rightarrow> ((bytes \<times> bytes) \<times> gk_message) list \<Rightarrow> bool" where
  "gk_synced P sender s r q \<longleftrightarrow> box_correct P \<and> hkdf_total P \<and> OurPeerID s = sender \<and>
     (\<exists>c b m n ks kr. SenderKeys s sender = Some ks \<and> sk_ChainKey ks = chain_at P c m \<and> sk_MessageNumber ks = b + int m
        \<and> SenderKeys r sender = Some kr \<and> sk_ChainKey kr = chain_at P c n \<and> sk_MessageNumber kr = b + int n
        \<and> n \<le> m \<and> sorted_wrt (<) (map gk_num q) \<and> (\<forall>x\<in>set q. gk_flight P c b m n x))"

lemma gk_send_total: "gk_synced P sender s r q \<Longrightarrow> gk_send P sigs s p \<noteq> None"
  unfolding gk_synced_def
  by (elim conjE exE) (auto simp: gk_send_def EncryptGroupMessage_def signMessage_def Let_def DeriveMessageKey_chain)

lemma gk_send_synced:
  assumes "gk_synced P sender s r q" and "gk_send P sigs s p = Some (msg, s')"
  shows "gk_synced P sender s' r (q @ [(p, msg)])"
proof -
  obtain c b m n ks kr where I: "box_correct P" "hkdf_total P" "OurPeerID s = sender" "SenderKeys s sender = Some ks"
    "sk_ChainKey ks = chain_at P c m" "sk_MessageNumber ks = b + int m" "SenderKeys r sender = Some kr"
    "sk_ChainKey kr = chain_at P c n" "sk_MessageNumber kr = b + int n" "n \<le> m" "sorted_wrt (<) (map gk_num q)"
    "\<forall>x\<in>set q. gk_flight P c b m n x"
    using assms(1) by (auto simp: gk_synced_def)
  let ?ks = "ks\<lparr>sk_ChainKey := chain_at P c (Suc m), sk_MessageNumber := b + int (Suc m)\<rparr>"
  have e: "msg = (box_seal P (fst p) (snd p) (key_at P c m), snd p, b + int m, copy_arr 64 (sigs (snd p)))"
    "s' = s\<lparr>SenderKeys := (SenderKeys s)(sender \<mapsto> ?ks)\<rparr>"
    using assms(2) I(3-6) DeriveMessageKey_chain [OF I(2), of c m]
    by (auto simp: gk_send_def EncryptGroupMessage_def signMessage_def Let_def ac_simps)
  have old: "\<forall>x\<in>set q. gk_flight P c b (Suc m) n x \<and> gk_num x < b + int m"
    using I(12) by (fastforce simp: gk_flight_def gk_num_def)
  have new: "gk_flight P c b (Suc m) n (p, msg)" "gk_num (p, msg) = b + int m"
    using e I(10) by (cases p; auto simp: gk_flight_def gk_num_def)+
  have "sorted_wrt (<) (map gk_num (q @ [(p, msg)]))"
    using I(11) old new(2) by (auto simp: sorted_wrt_append)
  then show ?thesis unfolding gk_synced_def using I e old new(1)
    by (intro conjI exI [of _ c] exI [of _ b] exI [of _ "Suc m"] exI [of _ n] exI [of _ ?ks] exI [of _ kr]) auto
qed

lemma gk_drop_synced: "gk_synced P sender s r (q1 @ x # q2) \<Longrightarrow> gk_synced P sender s r (q1 @ q2)"
  unfolding gk_synced_def
  by (elim conjE exE, intro conjI, assumption+, intro exI conjI, assumption+) (auto simp: sorted_wrt_append)

lemma gk_recv_synced:
  assumes "gk_synced P sender s r ((p, msg) # q)"
  shows "\<exists>r'. gk_recv P sender pk r msg = (Some p, r') \<and> gk_synced P sender s r' q"
proof -
  obtain c b m n ks kr where I: "box_correct P" "hkdf_total P" "OurPeerID s = sender" "SenderKeys s sender = Some ks"
    "sk_ChainKey ks = chain_at P c m" "sk_MessageNumber ks = b + int m" "SenderKeys r sender = Some kr"
    "sk_ChainKey kr = chain_at P c n" "sk_MessageNumber kr = b + int n" "n \<le> m"
    "sorted_wrt (<) (map gk_num ((p, msg) # q))" "\<forall>x\<in>set ((p, msg) # q). gk_flight P c b m n x"
    using assms by (auto simp: gk_synced_def)
  obtain pt nonce where p: "p = (pt, nonce)" by (cases p)
  have "gk_flight P c b m n (p, msg)" using I(12) by simp
  then obtain i sig where msg: "msg = (box_seal P pt nonce (key_at P c i), nonce, b + int i, sig)"
    and i: "n \<le> i" "i < m" "length sig = 64"
    unfolding p by (auto simp: gk_flight_def split: prod.splits)
  have op: "box_open P (box_seal P pt nonce (key_at P c i)) nonce (key_at P c i) = Some pt"
    using I(1) by (simp add: box_correct_def)
  from advance_chain_at [OF I(2,8,9), of "i - n"] i obtain k1 where
    k1: "advance_chain P (i - n) kr = (None, k1)" "sk_ChainKey k1 = chain_at P c i" "sk_MessageNumber k1 = b + int i" by auto
  let ?k = "k1\<lparr>sk_ChainKey := chain_at P c (Suc i), sk_MessageNumber := b + int (Suc i)\<rparr>"
  let ?r = "r\<lparr>SenderKeys := (SenderKeys r)(sender \<mapsto> ?k)\<rparr>"
  have "nat (b + int i - (b + int n)) = i - n" using i by simp
  then have "decrypt_with P (box_seal P pt nonce (key_at P c i)) nonce (b + int i) kr = (Inr pt, ?k)"
    using I(9) k1 DeriveMessageKey_chain [OF I(2), of c i] op by (simp add: decrypt_with_def add.commute)
  then have "gk_recv P sender pk r msg = (Some p, ?r)"
    using I(7) i(3) by (simp add: gk_recv_def DecryptGroupMessage_def verifyMessageSignature_def msg p)
  moreover have "gk_flight P c b m (Suc i) x" if "x \<in> set q" for x
  proof -
    have "b + int i < gk_num x" using I(11) that by (auto simp: gk_num_def msg)
    moreover have "gk_flight P c b m n x" using I(12) that by simp
    ultimately show ?thesis by (fastforce simp: gk_flight_def gk_num_def)
  qed
  then have "gk_synced P sender s ?r q" unfolding gk_synced_def using I i
    by (intro conjI exI [of _ c] exI [of _ b] exI [of _ m] exI [of _ "Suc i"] exI [of _ ks] exI [of _ ?k]) auto
  ultimately show ?thesis by blast
qed

interpretation gk: lossy_channel "gk_send P sigs" "gk_recv P sender pk" "gk_synced P sender" for P sigs sender pk
  by unfold_locales (fact gk_send_total gk_send_synced gk_recv_synced gk_drop_synced)+

section \<open>What the receivers of a group get\<close>

text \<open>
  C13. A member that stores the sender key state another member distributes decrypts every message
  that is then delivered to it in the order it was sent, whatever else is lost on the way.
\<close>

theorem group_messages_in_order:
  assumes "box_correct P" and "hkdf_total P" and "GetOurSenderKeyState s = Inr (ck, n)"
    and "\<forall>opr\<in>set ops. in_order opr"
  shows "all_delivered (run_chan (gk_send P sigs) (gk_recv P (OurPeerID s) pk) ops s
           (AddSenderKey (OurPeerID s) ck n r) [])"
proof -
  obtain ks where "SenderKeys s (OurPeerID s) = Some ks" "sk_ChainKey ks = ck" "sk_MessageNumber ks = n"
    using assms(3) by (auto simp: GetOurSenderKeyState_def split: option.splits)
  then have "gk_synced P (OurPeerID s) s (AddSenderKey (OurPeerID s) ck n r) []"
    unfolding gk_synced_def AddSenderKey_def using assms(1,2)
    by (intro conjI exI [of _ ck] exI [of _ n] exI [of _ "0::nat"] exI [of _ ks]
        exI [of _ "\<lparr>sk_ChainKey = ck, sk_SigningKey = [], sk_MessageNumber = n\<rparr>"]) auto
  from gk.run_in_order [OF this assms(4)] show ?thesis by (simp add: all_delivered_iff)
qed

definition sample_group :: GroupSenderKeys where
  "sample_group = NewGroupSenderKeysWithExistingKey ''g'' ''alice'' [] zero_key 0"

definition sample_member :: GroupSenderKeys where
  "sample_member = AddSenderKey ''alice'' zero_key 0 (NewGroupSenderKeysWithExistingKey ''g'' ''bob'' [] zero_key 0)"

theorem group_messages_in_order_witness:
  "all_delivered (run_chan (gk_send toy_prims (\<lambda>n. n)) (gk_recv toy_prims ''alice'' [])
      [Send ([1], [5]), Send ([2], [6]), Send ([3], [7]), Deliver 0, Drop 0, Deliver 0] sample_group sample_member [])"
  using group_messages_in_order [OF toy_box toy_hkdf, of sample_group zero_key 0
      "[Send ([1], [5]), Send ([2], [6]), Send ([3], [7]), Deliver 0, Drop 0, Deliver 0]" "\<lambda>n. n" "[]"
      "NewGroupSenderKeysWithExistingKey ''g'' ''bob'' [] zero_key 0"]
  by (simp add: sample_member_def sample_group_def NewGroupSenderKeysWithExistingKey_def GetOurSenderKeyState_def)

lemma late_message_mismatch:
  assumes "SenderKeys r sender = Some k" and "j < sk_MessageNumber k" and "length sig = 64"
  shows "fst (DecryptGroupMessage P sender ct nonce j sig pk r) = Inl (MessageNumberMismatch (sk_MessageNumber k) j)"
  using assms by (simp add: DecryptGroupMessage_def verifyMessageSignature_def decrypt_with_def)

lemma decrypt_with_number:
  "decrypt_with P ct nonce j k = (Inr pt, k') \<Longrightarrow> sk_MessageNumber k' = j + 1"
  by (auto simp: decrypt_with_def split: prod.splits option.splits if_splits)

text \<open>
  C14. Accepted group messages have increasing numbers.  Once a message of a sender has been decrypted,
  every message of that sender with the same or a smaller number is refused with a number mismatch: the
  message itself is not accepted twice, and a message overtaken on the way is lost.
\<close>

theorem group_message_numbers_increase:
  assumes "DecryptGroupMessage P sender ct nonce k sig pk r = (Inr pt, r')" and "j \<le> k" and "length sig' = 64"
  shows "fst (DecryptGroupMessage P sender ct' nonce' j sig' pk' r') = Inl (MessageNumberMismatch (k + 1) j)"
proof -
  obtain kr kr' where "SenderKeys r sender = Some kr" "decrypt_with P ct nonce k kr = (Inr pt, kr')"
    "r' = r\<lparr>SenderKeys := (SenderKeys r)(sender \<mapsto> kr')\<rparr>"
    using assms(1) by (auto simp: DecryptGroupMessage_def split: option.splits prod.splits)
  with decrypt_with_number [of P ct nonce k kr pt kr'] late_message_mismatch [of r' sender kr' j sig'] assms(2,3)
  show ?thesis by simp
qed

theorem group_message_numbers_increase_witness:
  "\<exists>pt r'. DecryptGroupMessage toy_prims ''alice'' (box_seal toy_prims [1] [5] (key_at toy_prims zero_key 1)) [5] 1
             (replicate 64 0) [] sample_member = (Inr pt, r')
     \<and> fst (DecryptGroupMessage toy_prims ''alice'' [] [] 0 (replicate 64 0) [] r') = Inl (MessageNumberMismatch 2 0)"
proof -
  have "\<exists>r'. DecryptGroupMessage toy_prims ''alice'' (box_seal toy_prims [1] [5] (key_at toy_prims zero_key 1)) [5] 1
             (replicate 64 0) [] sample_member = (Inr [1], r')"
    by (simp add: DecryptGroupMessage_def verifyMessageSignature_def decrypt_with_def sample_member_def AddSenderKey_def
        NewGroupSenderKeysWithExistingKey_def key_at_def chain_at.simps DeriveMessageKey_def DeriveChainKey_def toy_prims_def)
  then obtain r' where d: "DecryptGroupMessage toy_prims ''alice'' (box_seal toy_prims [1] [5] (key_at toy_prims zero_key 1)) [5] 1
             (replicate 64 0) [] sample_member = (Inr [1], r')" by blast
  from group_message_numbers_increase [OF d, of 0 "replicate 64 0" "[]" "[]" "[]"] d show ?thesis by auto
qed

text \<open>
   A message number is believed before anything is authenticated: any 64 bytes pass as a signature,
  so a ciphertext that does not open, sent under a number ahead of the chain, moves the receiver's copy
  of that sender's chain to the claimed number, and every genuine message below it is refused from then on.
\<close>

theorem forged_number_advances_chain:
  assumes "hkdf_total P" and "SenderKeys r sender = Some kr" and "sk_MessageNumber kr \<le> k" and "length sig = 64"
    and "box_open P ct nonce (key_at P (sk_ChainKey kr) (nat (k - sk_MessageNumber kr))) = None"
  shows "\<exists>r'. DecryptGroupMessage P sender ct nonce k sig pk r = (Inl GroupDecryptionFailed, r')
     \<and> (\<forall>j ct' nonce' sig' pk'. j < k \<longrightarrow> length sig' = 64 \<longrightarrow>
          fst (DecryptGroupMessage P sender ct' nonce' j sig' pk' r') = Inl (MessageNumberMismatch k j))"
proof -
  let ?d = "nat (k - sk_MessageNumber kr)"
  from advance_chain_at [OF assms(1), of kr "sk_ChainKey kr" 0 "sk_MessageNumber kr" ?d] assms(3) obtain k1 where
    k1: "advance_chain P ?d kr = (None, k1)" "sk_ChainKey k1 = chain_at P (sk_ChainKey kr) ?d" "sk_MessageNumber k1 = k"
    by auto
  let ?r = "r\<lparr>SenderKeys := (SenderKeys r)(sender \<mapsto> k1)\<rparr>"
  have "decrypt_with P ct nonce k kr = (Inl GroupDecryptionFailed, k1)"
    using k1 DeriveMessageKey_chain [OF assms(1), of "sk_ChainKey kr" ?d] assms(5) by (simp add: decrypt_with_def)
  then have "DecryptGroupMessage P sender ct nonce k sig pk r = (Inl GroupDecryptionFailed, ?r)"
    using assms(2,4) by (simp add: DecryptGroupMessage_def verifyMessageSignature_def)
  moreover have "SenderKeys ?r sender = Some k1" by simp
  ultimately show ?thesis using late_message_mismatch [of ?r sender k1] k1(3) by blast
qed

theorem forged_number_advances_chain_witness:
  "\<exists>r'. DecryptGroupMessage toy_prims ''alice'' [] [5] 9 (replicate 64 0) [] sample_member = (Inl GroupDecryptionFailed, r')
     \<and> fst (DecryptGroupMessage toy_prims ''alice'' [] [] 0 (replicate 64 0) [] r') = Inl (MessageNumberMismatch 9 0)"
proof -
  obtain kr where kr: "SenderKeys sample_member ''alice'' = Some kr" "sk_MessageNumber kr = 0"
    by (simp add: sample_member_def AddSenderKey_def)
  have "box_open toy_prims [] [5] key = None" for key by (simp add: toy_prims_def)
  then show ?thesis
    using forged_number_advances_chain [OF toy_hkdf kr(1), of 9 "replicate 64 0" "[]" "[5]" "[]"] kr(2) by fastforce
qed

end
