(* ===== verification/Chat_Crypto.thy ===== *)
theory Chat_Crypto
  imports Sender_Keys
begin

text \<open>
  The crypto manager of the chat (\<open>internal/crypto/chat_crypto_manager.go\<close>): the key exchange that
  sets up a ratchet on both sides, encryption and decryption of conversations and groups, and the
  encryption of ratchets and keys for the database under the master key.  Its maps hold pointers that
  operations update in place, so the model stores the updated value under the same key.  A panic of
  \<open>ed25519.Verify\<close> on a public key of the wrong size is the result \<open>Panic\<close>.
\<close>

section \<open>State\<close>

record KeyPair =
  PublicKey :: bytes
  PrivateKey :: bytes

record ChatCryptoManager =
  keyPair :: KeyPair
  ratchets :: "string \<rightharpoonup> DoubleRatchet"
  groupKeys :: "string \<rightharpoonup> GroupSenderKeys"
  masterKey :: bytes

datatype chat_error =
  MasterKeyFailed | ConvertRemoteFailed key_error | ConvertOurFailed key_error | ExchangeDHFailed
| CreateRatchetFailed ratchet_error | SignatureVerificationFailed | RatchetNotFound
| InitSenderFailed ratchet_error | InitReceiverFailed ratchet_error | RatchetFailed ratchet_error
| StorageNonceFailed | StorageOpenFailed | StorageSizeInvalid
| GroupKeysNotFound | GroupFailed group_error | PeerSenderKeyNotFound string

type_synonym 'a chat_result = "(chat_error, 'a) go_result"

definition NewChatCryptoManager :: "prims \<Rightarrow> KeyPair \<Rightarrow> ChatCryptoManager chat_result" where
  "NewChatCryptoManager P kp =
     (if length (PrivateKey kp) < 32 then Panic
      else case DeriveMasterEncryptionKey P (take 32 (PrivateKey kp)) of
             None \<Rightarrow> Err MasterKeyFailed
           | Some mk \<Rightarrow> Ok \<lparr>keyPair = kp, ratchets = Map.empty, groupKeys = Map.empty, masterKey = mk\<rparr>)"

section \<open>Key exchange\<close>

definition InitiateKeyExchange ::
  "prims \<Rightarrow> bytes option \<Rightarrow> string \<Rightarrow> bytes \<Rightarrow> ChatCryptoManager \<Rightarrow> (bytes \<times> bytes) chat_result \<times> ChatCryptoManager" where
  "InitiateKeyExchange P rnd conversationID remotePeerEd25519PubKey ccm =
     (case ed25519PublicKeyToCurve25519 remotePeerEd25519PubKey of
        Inl e \<Rightarrow> (Err (ConvertRemoteFailed e), ccm)
      | Inr remoteX25519PubKey \<Rightarrow>
          (case ed25519PrivateKeyToCurve25519 P (PrivateKey (keyPair ccm)) of
             Inl e \<Rightarrow> (Err (ConvertOurFailed e), ccm)
           | Inr ourX25519PrivKey \<Rightarrow>
               (case x25519 P ourX25519PrivKey remoteX25519PubKey of
                  None \<Rightarrow> (Err ExchangeDHFailed, ccm)
                | Some sharedSecret \<Rightarrow>
                    (case NewDoubleRatchet P rnd (copy_arr 32 sharedSecret) remoteX25519PubKey of
                       Inl e \<Rightarrow> (Err (CreateRatchetFailed e), ccm)
                     | Inr dr \<Rightarrow>
                         (Ok (DHRatchetPubKey dr, ed_sign P (PrivateKey (keyPair ccm)) (DHRatchetPubKey dr)),
                          ccm\<lparr>ratchets := (ratchets ccm)(conversationID \<mapsto> dr)\<rparr>)))))"

text \<open>\<open>ed25519.Verify\<close> panics on a public key that is not 32 bytes long.\<close>

definition verify_signature :: "prims \<Rightarrow> bytes \<Rightarrow> bytes \<Rightarrow> bytes \<Rightarrow> unit chat_result" where
  "verify_signature P pk msg sig =
     (if length pk \<noteq> 32 then Panic
      else if ed_verify P pk msg sig then Ok () else Err SignatureVerificationFailed)"

definition CompleteKeyExchange ::
  "prims \<Rightarrow> string \<Rightarrow> bytes \<Rightarrow> bytes \<Rightarrow> bytes \<Rightarrow> ChatCryptoManager \<Rightarrow> unit chat_result \<times> ChatCryptoManager" where
  "CompleteKeyExchange P conversationID remotePeerEd25519PubKey remoteEphemeralPubKey signature ccm =
     (case verify_signature P remotePeerEd25519PubKey remoteEphemeralPubKey signature of
        Panic \<Rightarrow> (Panic, ccm)
      | Err e \<Rightarrow> (Err e, ccm)
      | Ok _ \<Rightarrow>
          (case ratchets ccm conversationID of
             None \<Rightarrow> (Err RatchetNotFound, ccm)
           | Some dr \<Rightarrow>
               (case initializeSenderChains P remoteEphemeralPubKey dr of
                  (Some e, dr') \<Rightarrow> (Err (InitSenderFailed e), ccm\<lparr>ratchets := (ratchets ccm)(conversationID \<mapsto> dr')\<rparr>)
                | (None, dr') \<Rightarrow> (Ok (), ccm\<lparr>ratchets := (ratchets ccm)(conversationID \<mapsto> dr')\<rparr>))))"

definition AcceptKeyExchange ::
  "prims \<Rightarrow> bytes option \<Rightarrow> string \<Rightarrow> bytes \<Rightarrow> bytes \<Rightarrow> bytes \<Rightarrow> ChatCryptoManager
     \<Rightarrow> (bytes \<times> bytes) chat_result \<times> ChatCryptoManager" where
  "AcceptKeyExchange P rnd conversationID remotePeerEd25519PubKey remoteEphemeralPubKey signature ccm =
     (case verify_signature P remotePeerEd25519PubKey remoteEphemeralPubKey signature of
        Panic \<Rightarrow> (Panic, ccm)
      | Err e \<Rightarrow> (Err e, ccm)
      | Ok _ \<Rightarrow>
          (case ed25519PrivateKeyToCurve25519 P (PrivateKey (keyPair ccm)) of
             Inl e \<Rightarrow> (Err (ConvertOurFailed e), ccm)
           | Inr ourX25519PrivKey \<Rightarrow>
               (case ed25519PublicKeyToCurve25519 remotePeerEd25519PubKey of
                  Inl e \<Rightarrow> (Err (ConvertRemoteFailed e), ccm)
                | Inr remoteX25519PubKey \<Rightarrow>
                    (case x25519 P ourX25519PrivKey remoteX25519PubKey of
                       None \<Rightarrow> (Err ExchangeDHFailed, ccm)
                     | Some sharedSecret \<Rightarrow>
                         (case NewDoubleRatchetReceiver P rnd (copy_arr 32 sharedSecret) of
                            Inl e \<Rightarrow> (Err (CreateRatchetFailed e), ccm)
                          | Inr dr \<Rightarrow>
                              (case initializeReceiverChains P remoteEphemeralPubKey
                                      (dr\<lparr>RemoteDHPubKey := remoteEphemeralPubKey\<rparr>) of
                                 (Some e, _) \<Rightarrow> (Err (InitReceiverFailed e), ccm)
                               | (None, dr') \<Rightarrow>
                                   (Ok (DHRatchetPubKey dr', ed_sign P (PrivateKey (keyPair ccm)) (DHRatchetPubKey dr')),
                                    ccm\<lparr>ratchets := (ratchets ccm)(conversationID \<mapsto> dr')\<rparr>)))))))"

section \<open>Conversations\<close>

definition Encrypt1on1Message ::
  "prims \<Rightarrow> bytes option \<Rightarrow> string \<Rightarrow> bytes \<Rightarrow> ChatCryptoManager
     \<Rightarrow> (bytes \<times> bytes \<times> int \<times> bytes) chat_result \<times> ChatCryptoManager" where
  "Encrypt1on1Message P rnd conversationID plaintext ccm =
     (case ratchets ccm conversationID of
        None \<Rightarrow> (Err RatchetNotFound, ccm)
      | Some dr \<Rightarrow>
          (case Encrypt P rnd plaintext dr of
             (Inl e, dr') \<Rightarrow> (Err (RatchetFailed e), ccm\<lparr>ratchets := (ratchets ccm)(conversationID \<mapsto> dr')\<rparr>)
           | (Inr (ciphertext, nonce), dr') \<Rightarrow>
               (Ok (ciphertext, nonce, SendMessageNum dr' - 1, DHRatchetPubKey dr'),
                ccm\<lparr>ratchets := (ratchets ccm)(conversationID \<mapsto> dr')\<rparr>)))"

definition Decrypt1on1Message ::
  "prims \<Rightarrow> bytes option \<Rightarrow> string \<Rightarrow> bytes \<Rightarrow> bytes \<Rightarrow> int \<Rightarrow> bytes \<Rightarrow> ChatCryptoManager
     \<Rightarrow> bytes chat_result \<times> ChatCryptoManager" where
  "Decrypt1on1Message P rnd conversationID ciphertext nonce messageNum senderDHPubKey ccm =
     (case ratchets ccm conversationID of
        None \<Rightarrow> (Err RatchetNotFound, ccm)
      | Some dr \<Rightarrow>
          (case Decrypt P rnd ciphertext nonce messageNum senderDHPubKey dr of
             (res, dr') \<Rightarrow>
               (case res of Inl e \<Rightarrow> Err (RatchetFailed e) | Inr plaintext \<Rightarrow> Ok plaintext,
                ccm\<lparr>ratchets := (ratchets ccm)(conversationID \<mapsto> dr')\<rparr>)))"

definition GetRatchet :: "string \<Rightarrow> ChatCryptoManager \<Rightarrow> chat_error + DoubleRatchet" where
  "GetRatchet conversationID ccm =
     (case ratchets ccm conversationID of None \<Rightarrow> Inl RatchetNotFound | Some dr \<Rightarrow> Inr dr)"

definition SetRatchet :: "string \<Rightarrow> DoubleRatchet \<Rightarrow> ChatCryptoManager \<Rightarrow> ChatCryptoManager" where
  "SetRatchet conversationID dr ccm = ccm\<lparr>ratchets := (ratchets ccm)(conversationID \<mapsto> dr)\<rparr>"

section \<open>Storage\<close>

definition seal_for_storage :: "prims \<Rightarrow> bytes option \<Rightarrow> bytes \<Rightarrow> ChatCryptoManager \<Rightarrow> chat_error + bytes \<times> bytes" where
  "seal_for_storage P rnd plaintext ccm =
     (case rnd of
        None \<Rightarrow> Inl StorageNonceFailed
      | Some nonce \<Rightarrow> Inr (box_seal P plaintext nonce (masterKey ccm), nonce))"

definition EncryptRatchetForStorage ::
  "prims \<Rightarrow> bytes option \<Rightarrow> DoubleRatchet \<Rightarrow> ChatCryptoManager \<Rightarrow> chat_error + bytes \<times> bytes" where
  "EncryptRatchetForStorage P rnd dr ccm =
     seal_for_storage P rnd
       (DHRatchetPrivKey dr @ DHRatchetPubKey dr @ RemoteDHPubKey dr @ RootKey dr @ SendChainKey dr @ RecvChainKey dr) ccm"

definition field32 :: "nat \<Rightarrow> bytes \<Rightarrow> bytes" where
  "field32 offset plaintext = copy_arr 32 (take 32 (drop offset plaintext))"

definition DecryptRatchetFromStorage ::
  "prims \<Rightarrow> bytes \<Rightarrow> bytes \<Rightarrow> ChatCryptoManager \<Rightarrow> chat_error + DoubleRatchet" where
  "DecryptRatchetFromStorage P ciphertext nonce ccm =
     (case box_open P ciphertext nonce (masterKey ccm) of
        None \<Rightarrow> Inl StorageOpenFailed
      | Some plaintext \<Rightarrow>
          if length plaintext < 192 then Inl StorageSizeInvalid
          else Inr \<lparr>DHRatchetPrivKey = field32 0 plaintext, DHRatchetPubKey = field32 32 plaintext,
                    RemoteDHPubKey = field32 64 plaintext, RootKey = field32 96 plaintext,
                    SendChainKey = field32 128 plaintext, RecvChainKey = field32 160 plaintext,
                    SendMessageNum = 0, RecvMessageNum = 0, SkippedKeys = []\<rparr>)"

definition EncryptMessageKeyForStorage ::
  "prims \<Rightarrow> bytes option \<Rightarrow> bytes \<Rightarrow> ChatCryptoManager \<Rightarrow> chat_error + bytes \<times> bytes" where
  "EncryptMessageKeyForStorage P rnd messageKey ccm = seal_for_storage P rnd messageKey ccm"

definition open_key :: "prims \<Rightarrow> bytes \<Rightarrow> bytes \<Rightarrow> ChatCryptoManager \<Rightarrow> chat_error + bytes" where
  "open_key P ciphertext nonce ccm =
     (case box_open P ciphertext nonce (masterKey ccm) of
        None \<Rightarrow> Inl StorageOpenFailed
      | Some plaintext \<Rightarrow>
          if length plaintext \<noteq> 32 then Inl StorageSizeInvalid else Inr (copy_arr 32 plaintext))"

definition DecryptMessageKeyFromStorage :: "prims \<Rightarrow> bytes \<Rightarrow> bytes \<Rightarrow> ChatCryptoManager \<Rightarrow> chat_error + bytes" where
  "DecryptMessageKeyFromStorage P ciphertext nonce ccm = open_key P ciphertext nonce ccm"

definition EncryptSenderKeyForStorage ::
  "prims \<Rightarrow> bytes option \<Rightarrow> bytes \<Rightarrow> ChatCryptoManager \<Rightarrow> chat_error + bytes \<times> bytes" where
  "EncryptSenderKeyForStorage P rnd chainKey ccm = seal_for_storage P rnd chainKey ccm"

definition DecryptSenderKeyFromStorage :: "prims \<Rightarrow> bytes \<Rightarrow> bytes \<Rightarrow> ChatCryptoManager \<Rightarrow> chat_error + bytes" where
  "DecryptSenderKeyFromStorage P ciphertext nonce ccm = open_key P ciphertext nonce ccm"

section \<open>Groups\<close>

definition CreateGroupSenderKeys ::
  "bytes option \<Rightarrow> string \<Rightarrow> string \<Rightarrow> ChatCryptoManager \<Rightarrow> (chat_error option) \<times> ChatCryptoManager" where
  "CreateGroupSenderKeys rnd groupID ourPeerID ccm =
     (case NewGroupSenderKeys rnd groupID ourPeerID (PrivateKey (keyPair ccm)) of
        Inl e \<Rightarrow> (Some (GroupFailed e), ccm)
      | Inr gsk \<Rightarrow> (None, ccm\<lparr>groupKeys := (groupKeys ccm)(groupID \<mapsto> gsk)\<rparr>))"

definition ccm_EncryptGroupMessage ::
  "prims \<Rightarrow> bytes option \<Rightarrow> bytes option \<Rightarrow> string \<Rightarrow> bytes \<Rightarrow> ChatCryptoManager
     \<Rightarrow> (chat_error + bytes \<times> bytes \<times> int \<times> bytes) \<times> ChatCryptoManager" where
  "ccm_EncryptGroupMessage P rnd sigrnd groupID plaintext ccm =
     (case groupKeys ccm groupID of
        None \<Rightarrow> (Inl GroupKeysNotFound, ccm)
      | Some gsk \<Rightarrow>
          (case EncryptGroupMessage P rnd sigrnd plaintext gsk of
             (res, gsk') \<Rightarrow>
               (case res of Inl e \<Rightarrow> Inl (GroupFailed e) | Inr x \<Rightarrow> Inr x,
                ccm\<lparr>groupKeys := (groupKeys ccm)(groupID \<mapsto> gsk')\<rparr>)))"

definition ccm_DecryptGroupMessage ::
  "prims \<Rightarrow> string \<Rightarrow> string \<Rightarrow> bytes \<Rightarrow> bytes \<Rightarrow> int \<Rightarrow> bytes \<Rightarrow> bytes \<Rightarrow> ChatCryptoManager
     \<Rightarrow> (chat_error + bytes) \<times> ChatCryptoManager" where
  "ccm_DecryptGroupMessage P groupID senderPeerID ciphertext nonce messageNum signature senderPublicKey ccm =
     (case groupKeys ccm groupID of
        None \<Rightarrow> (Inl GroupKeysNotFound, ccm)
      | Some gsk \<Rightarrow>
          (case DecryptGroupMessage P senderPeerID ciphertext nonce messageNum signature senderPublicKey gsk of
             (res, gsk') \<Rightarrow>
               (case res of Inl e \<Rightarrow> Inl (GroupFailed e) | Inr x \<Rightarrow> Inr x,
                ccm\<lparr>groupKeys := (groupKeys ccm)(groupID \<mapsto> gsk')\<rparr>)))"

definition AddGroupSenderKey ::
  "string \<Rightarrow> string \<Rightarrow> bytes \<Rightarrow> int \<Rightarrow> ChatCryptoManager \<Rightarrow> (chat_error option) \<times> ChatCryptoManager" where
  "AddGroupSenderKey groupID senderPeerID chainKey messageNumber ccm =
     (case groupKeys ccm groupID of
        None \<Rightarrow> (Some GroupKeysNotFound, ccm)
      | Some gsk \<Rightarrow>
          (None, ccm\<lparr>groupKeys := (groupKeys ccm)(groupID \<mapsto> AddSenderKey senderPeerID chainKey messageNumber gsk)\<rparr>))"

definition ccm_GetOurSenderKeyState :: "string \<Rightarrow> ChatCryptoManager \<Rightarrow> chat_error + bytes \<times> int" where
  "ccm_GetOurSenderKeyState groupID ccm =
     (case groupKeys ccm groupID of
        None \<Rightarrow> Inl GroupKeysNotFound
      | Some gsk \<Rightarrow> (case GetOurSenderKeyState gsk of Inl e \<Rightarrow> Inl (GroupFailed e) | Inr x \<Rightarrow> Inr x))"

definition GetSenderKeyState :: "string \<Rightarrow> string \<Rightarrow> ChatCryptoManager \<Rightarrow> chat_error + bytes \<times> int" where
  "GetSenderKeyState groupID peerID ccm =
     (case groupKeys ccm groupID of
        None \<Rightarrow> Inl GroupKeysNotFound
      | Some gsk \<Rightarrow>
          (case SenderKeys gsk peerID of
             None \<Rightarrow> Inl (PeerSenderKeyNotFound peerID)
           | Some senderKey \<Rightarrow> Inr (sk_ChainKey senderKey, sk_MessageNumber senderKey)))"

definition HasGroupSenderKeys :: "string \<Rightarrow> ChatCryptoManager \<Rightarrow> bool" where
  "HasGroupSenderKeys groupID ccm \<longleftrightarrow> groupKeys ccm groupID \<noteq> None"

definition LoadGroupSenderKey ::
  "string \<Rightarrow> string \<Rightarrow> bytes \<Rightarrow> int \<Rightarrow> bool \<Rightarrow> ChatCryptoManager \<Rightarrow> ChatCryptoManager" where
  "LoadGroupSenderKey groupID senderPeerID chainKey messageNumber isOurKey ccm =
     (let priv = PrivateKey (keyPair ccm);
          gsk' =
            (case groupKeys ccm groupID of
               None \<Rightarrow> NewGroupSenderKeysWithExistingKey groupID senderPeerID (if isOurKey then priv else []) chainKey messageNumber
             | Some gsk \<Rightarrow>
                 if isOurKey then
                   gsk\<lparr>OurPeerID := senderPeerID, OurSigningKey := priv,
                       SenderKeys := (SenderKeys gsk)(senderPeerID \<mapsto>
                         \<lparr>sk_ChainKey = chainKey, sk_SigningKey = priv, sk_MessageNumber = messageNumber\<rparr>)\<rparr>
                 else
                   gsk\<lparr>SenderKeys := (SenderKeys gsk)(senderPeerID \<mapsto>
                         \<lparr>sk_ChainKey = chainKey, sk_SigningKey = [], sk_MessageNumber = messageNumber\<rparr>)\<rparr>)
      in ccm\<lparr>groupKeys := (groupKeys ccm)(groupID \<mapsto> gsk')\<rparr>)"

section \<open>The key exchange sets up a conversation\<close>

lemma fresh_ratchet_simps [simp]:
  "DHRatchetPrivKey (fresh_ratchet P priv remote root) = priv"
  "DHRatchetPubKey (fresh_ratchet P priv remote root) = base_mult P priv"
  "RootKey (fresh_ratchet P priv remote root) = root"
  "SkippedKeys (fresh_ratchet P priv remote root) = []"
  by (simp_all add: fresh_ratchet_def)

lemma identity_size: "identity P sk pk \<Longrightarrow> length pk = 32"
  by (auto simp: identity_def ed25519PublicKeyToCurve25519_def split: if_splits)

lemma identity_verifies: "identity P sk pk \<Longrightarrow> verify_signature P pk m (ed_sign P sk m) = Ok ()"
  using identity_size [of P sk pk] by (simp add: verify_signature_def identity_def ed_correct_def)

text \<open>Two fresh ratchets with one root key, initialised with each other's public key, are synchronised.\<close>

lemma initialize_synced:
  assumes "box_correct P" "hkdf_total P" "dh_commutes P" "dh_total P"
  obtains a b where
    "initializeSenderChains P (base_mult P rb) (fresh_ratchet P ra x root) = (None, a)"
    "initializeReceiverChains P (base_mult P ra) ((fresh_ratchet P rb y root)\<lparr>RemoteDHPubKey := base_mult P ra\<rparr>) = (None, b)"
    "DHRatchetPubKey b = base_mult P rb" "dr_synced P a b []" "dr_synced P b a []"
proof -
  obtain d where d: "x25519 P ra (base_mult P rb) = Some d" "x25519 P rb (base_mult P ra) = Some d"
    by (rule dh_agree [OF assms(3,4)])
  obtain rk ck where "DeriveRootKey P root (copy_arr 32 d) = Some (rk, ck)" by (rule DeriveRootKey_total [OF assms(2)])
  with d have i: "\<exists>a. initializeSenderChains P (base_mult P rb) (fresh_ratchet P ra x root) = (None, a)
      \<and> SendChainKey a = chain_at P ck 0 \<and> RecvChainKey a = chain_at P ck 0 \<and> SendMessageNum a = int 0
      \<and> RecvMessageNum a = int 0 \<and> RemoteDHPubKey a = base_mult P rb \<and> DHRatchetPubKey a = base_mult P ra"
    "\<exists>b. initializeReceiverChains P (base_mult P ra) ((fresh_ratchet P rb y root)\<lparr>RemoteDHPubKey := base_mult P ra\<rparr>) = (None, b)
      \<and> SendChainKey b = chain_at P ck 0 \<and> RecvChainKey b = chain_at P ck 0 \<and> SendMessageNum b = int 0
      \<and> RecvMessageNum b = int 0 \<and> RemoteDHPubKey b = base_mult P ra \<and> DHRatchetPubKey b = base_mult P rb"
    by (simp_all add: initializeSenderChains_def initializeReceiverChains_def Let_def)
  have syn: "dr_synced P u v []" if "SendChainKey u = chain_at P ck 0" "RecvChainKey v = chain_at P ck 0"
    "SendMessageNum u = int 0" "RecvMessageNum v = int 0" "RemoteDHPubKey v = DHRatchetPubKey u" for u v
    unfolding dr_synced_def using assms(1,2) that
    by (intro conjI exI [of _ ck] exI [of _ "0::nat"]) auto
  from i obtain a b where
    "initializeSenderChains P (base_mult P rb) (fresh_ratchet P ra x root) = (None, a)"
    "initializeReceiverChains P (base_mult P ra) ((fresh_ratchet P rb y root)\<lparr>RemoteDHPubKey := base_mult P ra\<rparr>) = (None, b)"
    "DHRatchetPubKey b = base_mult P rb" "dr_synced P a b []" "dr_synced P b a []"
    using syn by metis
  then show thesis by (rule that)
qed

text \<open>
  C11. Between two honest identities the key exchange succeeds in all three steps, and the ratchets it
  leaves carry a conversation: for every schedule of messages in both directions, with any of them
  delayed, reordered or lost, every message can be sent, and every message that is delivered decrypts to
  what was sent.
\<close>

theorem key_exchange_carries_conversation:
  assumes "box_correct P" "hkdf_total P" "dh_commutes P" "dh_total P"
    and "identity P (PrivateKey (keyPair A)) pkA" and "identity P (PrivateKey (keyPair B)) pkB"
  shows "\<exists>ephA sigA A1 ephB sigB B1 A2 a b.
     InitiateKeyExchange P (Some ra) conv pkB A = (Ok (ephA, sigA), A1)
     \<and> AcceptKeyExchange P (Some rb) conv pkA ephA sigA B = (Ok (ephB, sigB), B1)
     \<and> CompleteKeyExchange P conv pkB ephB sigB A1 = (Ok (), A2)
     \<and> ratchets A2 conv = Some a \<and> ratchets B1 conv = Some b
     \<and> (\<forall>ops. all_delivered (run_duplex P ops a b [] []))"
proof -
  let ?skA = "PrivateKey (keyPair A)" and ?skB = "PrivateKey (keyPair B)"
  obtain xa where xa: "ed25519PrivateKeyToCurve25519 P ?skA = Inr xa" "ed25519PublicKeyToCurve25519 pkA = Inr (base_mult P xa)"
    using assms(5) by (auto simp: identity_def)
  obtain xb where xb: "ed25519PrivateKeyToCurve25519 P ?skB = Inr xb" "ed25519PublicKeyToCurve25519 pkB = Inr (base_mult P xb)"
    using assms(6) by (auto simp: identity_def)
  obtain ss where ss: "x25519 P xa (base_mult P xb) = Some ss" "x25519 P xb (base_mult P xa) = Some ss"
    by (rule dh_agree [OF assms(3,4)])
  obtain a b where init:
    "initializeSenderChains P (base_mult P rb) (fresh_ratchet P ra (base_mult P xb) (copy_arr 32 ss)) = (None, a)"
    "initializeReceiverChains P (base_mult P ra) ((fresh_ratchet P rb zero_key (copy_arr 32 ss))\<lparr>RemoteDHPubKey := base_mult P ra\<rparr>) = (None, b)"
    "DHRatchetPubKey b = base_mult P rb" and syn: "dr_synced P a b []" "dr_synced P b a []"
    by (rule initialize_synced [OF assms(1-4)])
  let ?A1 = "A\<lparr>ratchets := (ratchets A)(conv \<mapsto> fresh_ratchet P ra (base_mult P xb) (copy_arr 32 ss))\<rparr>"
  have 1: "InitiateKeyExchange P (Some ra) conv pkB A = (Ok (base_mult P ra, ed_sign P ?skA (base_mult P ra)), ?A1)"
    using xa xb ss by (simp add: InitiateKeyExchange_def NewDoubleRatchet_def)
  have 2: "AcceptKeyExchange P (Some rb) conv pkA (base_mult P ra) (ed_sign P ?skA (base_mult P ra)) B
      = (Ok (base_mult P rb, ed_sign P ?skB (base_mult P rb)), B\<lparr>ratchets := (ratchets B)(conv \<mapsto> b)\<rparr>)"
    using xa xb ss init identity_verifies [OF assms(5)] by (simp add: AcceptKeyExchange_def NewDoubleRatchetReceiver_def)
  have 3: "CompleteKeyExchange P conv pkB (base_mult P rb) (ed_sign P ?skB (base_mult P rb)) ?A1
      = (Ok (), ?A1\<lparr>ratchets := (ratchets ?A1)(conv \<mapsto> a)\<rparr>)"
    using init identity_verifies [OF assms(6)] by (simp add: CompleteKeyExchange_def)
  show ?thesis
    by (intro exI conjI allI, rule 1, rule 2, rule 3, simp, simp, rule run_duplex_all_delivered [OF syn])
qed

definition sample_manager :: ChatCryptoManager where
  "sample_manager = \<lparr>keyPair = \<lparr>PublicKey = toy_pk, PrivateKey = toy_sk\<rparr>, ratchets = Map.empty, groupKeys = Map.empty,
                     masterKey = zero_key\<rparr>"

theorem key_exchange_carries_conversation_witness:
  "\<exists>ephA sigA A1 ephB sigB B1 A2 a b.
     InitiateKeyExchange toy_prims (Some [1]) ''c'' toy_pk sample_manager = (Ok (ephA, sigA), A1)
     \<and> AcceptKeyExchange toy_prims (Some [2]) ''c'' toy_pk ephA sigA sample_manager = (Ok (ephB, sigB), B1)
     \<and> CompleteKeyExchange toy_prims ''c'' toy_pk ephB sigB A1 = (Ok (), A2)
     \<and> ratchets A2 ''c'' = Some a \<and> ratchets B1 ''c'' = Some b
     \<and> (\<forall>ops. all_delivered (run_duplex toy_prims ops a b [] []))"
proof -
  have i: "identity toy_prims (PrivateKey (keyPair sample_manager)) toy_pk"
    using toy_identity by (simp add: sample_manager_def)
  show ?thesis by (rule key_exchange_carries_conversation [OF toy_box toy_hkdf toy_dh toy_dh_total i i])
qed

end
