(* ===== verification/Chat_Store.thy ===== *)
theory Chat_Store
  imports RN_Prelude
begin

text \<open>
  The chat tables (\<open>internal/database/chat_conversations.go\<close>, \<open>chat_messages.go\<close>, \<open>chat_groups.go\<close>
  and \<open>chat_ratchet_state.go\<close>): rows, the constraints of the schemas, and every statement.  A
  statement takes the \<open>conn\<close> it runs on; only a connection that enforces foreign keys refuses a child
  row without its conversation and deletes the children of a conversation with it.  Rows that tie in
  an \<open>ORDER BY\<close> keep their insertion order.  Days are 86400 seconds.
\<close>

section \<open>Rows\<close>

record ChatConversation =
  conv_ConversationID :: string
  ConversationType :: string
  conv_PeerID :: string
  GroupName :: string
  conv_CreatedAt :: int
  conv_UpdatedAt :: int
  LastMessageAt :: int
  UnreadCount :: int

record ChatMessage =
  MessageID :: string
  cm_ConversationID :: string
  cm_SenderPeerID :: string
  EncryptedContent :: bytes
  cm_Nonce :: bytes
  cm_MessageNumber :: int
  cm_Timestamp :: int
  cm_Status :: string
  SentAt :: int
  DeliveredAt :: int
  ReadAt :: int
  DecryptedContent :: string

record ChatGroupMember =
  gm_ConversationID :: string
  gm_PeerID :: string
  JoinedAt :: int
  IsAdmin :: bool
  LeftAt :: int

record ChatSenderKey =
  csk_ConversationID :: string
  csk_SenderPeerID :: string
  EncryptedChainKey :: bytes
  csk_Nonce :: bytes
  csk_MessageNumber :: int
  csk_UpdatedAt :: int

record ChatRatchetState =
  rs_ConversationID :: string
  EncryptedState :: bytes
  rs_Nonce :: bytes
  rs_SendMessageNum :: int
  rs_RecvMessageNum :: int
  rs_RemoteDHPubKey :: bytes
  KeyExchangeComplete :: bool
  rs_UpdatedAt :: int

record ChatSkippedKey =
  sk_ConversationID :: string
  skk_MessageNumber :: int
  EncryptedKey :: bytes
  skk_Nonce :: bytes
  skk_CreatedAt :: int

record chat_db =
  conversations :: "ChatConversation list"
  messages :: "ChatMessage list"
  group_members :: "ChatGroupMember list"
  sender_keys :: "ChatSenderKey list"
  ratchet_states :: "ChatRatchetState list"
  skipped_keys :: "ChatSkippedKey list"

abbreviation msg_key :: "ChatMessage \<Rightarrow> string" where
  "msg_key \<equiv> MessageID"

definition member_key :: "ChatGroupMember \<Rightarrow> string \<times> string" where
  "member_key m = (gm_ConversationID m, gm_PeerID m)"

definition sender_key_key :: "ChatSenderKey \<Rightarrow> string \<times> string" where
  "sender_key_key k = (csk_ConversationID k, csk_SenderPeerID k)"

definition skipped_key_key :: "ChatSkippedKey \<Rightarrow> string \<times> int" where
  "skipped_key_key k = (sk_ConversationID k, skk_MessageNumber k)"

definition has_conversation :: "chat_db \<Rightarrow> string \<Rightarrow> bool" where
  "has_conversation db cid \<longleftrightarrow> cid \<in> conv_ConversationID ` set (conversations db)"

text \<open>A child row of a conversation that a connection with foreign keys refuses.\<close>

definition orphan :: "conn \<Rightarrow> chat_db \<Rightarrow> string \<Rightarrow> bool" where
  "orphan c db cid \<longleftrightarrow> fk_on c \<and> \<not> has_conversation db cid"

section \<open>Conversations\<close>

text \<open>\<open>nullString\<close> stores the empty string as \<open>NULL\<close>, which the check of the schema tests.\<close>

definition conversation_check :: "ChatConversation \<Rightarrow> bool" where
  "conversation_check v \<longleftrightarrow>
     ConversationType v = ''1on1'' \<and> conv_PeerID v \<noteq> [] \<and> GroupName v = []
     \<or> ConversationType v = ''group'' \<and> conv_PeerID v = [] \<and> GroupName v \<noteq> []"

definition CreateConversation :: "conn \<Rightarrow> int \<Rightarrow> ChatConversation \<Rightarrow> chat_db \<Rightarrow> (db_error option) \<times> chat_db" where
  "CreateConversation c now v db =
     (if fault c = ExecFails then (Some DriverError, db)
      else if \<not> conversation_check v then (Some CheckViolation, db)
      else if has_conversation db (conv_ConversationID v) then (Some UniqueViolation, db)
      else (None, db\<lparr>conversations := conversations db @ [v\<lparr>conv_CreatedAt := now, conv_UpdatedAt := now\<rparr>]\<rparr>))"

definition GetConversation :: "conn \<Rightarrow> string \<Rightarrow> chat_db \<Rightarrow> db_error + ChatConversation option" where
  "GetConversation c cid db =
     (if fault c = ExecFails then Inl DriverError else Inr (row_at conv_ConversationID cid (conversations db)))"

definition GetConversationByPeerID :: "conn \<Rightarrow> string \<Rightarrow> chat_db \<Rightarrow> db_error + ChatConversation option" where
  "GetConversationByPeerID c peerID db =
     (if fault c = ExecFails then Inl DriverError
      else Inr (sql_first (\<lambda>v. ConversationType v = ''1on1'' \<and> conv_PeerID v = peerID \<and> peerID \<noteq> []) (conversations db)))"

definition GetLastMessageForConversation :: "conn \<Rightarrow> string \<Rightarrow> chat_db \<Rightarrow> db_error + ChatMessage option" where
  "GetLastMessageForConversation c cid db =
     (if fault c = ExecFails then Inl DriverError
      else Inr (case sort_key (\<lambda>m. - cm_Timestamp m) (filter (\<lambda>m. cm_ConversationID m = cid) (messages db)) of
                  [] \<Rightarrow> None | m # _ \<Rightarrow> Some m))"

text \<open>The listing: a failing query for a last message leaves it out; \<open>cs\<close> are the connections of those queries.\<close>

definition ListConversations ::
  "conn \<Rightarrow> (nat \<Rightarrow> conn) \<Rightarrow> int \<Rightarrow> int \<Rightarrow> chat_db \<Rightarrow> db_error + (ChatConversation \<times> ChatMessage option) list" where
  "ListConversations c cs limit offset db =
     (if fault c = ExecFails then Inl DriverError
      else Inr (map (\<lambda>(i, v). (v, case GetLastMessageForConversation (cs i) (conv_ConversationID v) db of
                                    Inl _ \<Rightarrow> None | Inr m \<Rightarrow> m))
                 (enumerate 0 (sql_page limit offset (sort_key (\<lambda>v. - conv_UpdatedAt v) (conversations db))))))"

definition UpdateConversation :: "conn \<Rightarrow> int \<Rightarrow> ChatConversation \<Rightarrow> chat_db \<Rightarrow> (db_error option) \<times> chat_db" where
  "UpdateConversation c now v db =
     (if fault c = ExecFails then (Some DriverError, db)
      else if has_conversation db (conv_ConversationID v) \<and> \<not> conversation_check v then (Some CheckViolation, db)
      else (None, db\<lparr>conversations :=
              sql_update (\<lambda>r. conv_ConversationID r = conv_ConversationID v)
                (\<lambda>r. r\<lparr>ConversationType := ConversationType v, conv_PeerID := conv_PeerID v, GroupName := GroupName v,
                       conv_UpdatedAt := now, LastMessageAt := LastMessageAt v, UnreadCount := UnreadCount v\<rparr>)
                (conversations db)\<rparr>))"

definition IncrementUnreadCount :: "conn \<Rightarrow> int \<Rightarrow> string \<Rightarrow> chat_db \<Rightarrow> (db_error option) \<times> chat_db" where
  "IncrementUnreadCount c now cid db =
     (if fault c = ExecFails then (Some DriverError, db)
      else (None, db\<lparr>conversations :=
              sql_update (\<lambda>r. conv_ConversationID r = cid)
                (\<lambda>r. r\<lparr>UnreadCount := UnreadCount r + 1, conv_UpdatedAt := now\<rparr>) (conversations db)\<rparr>))"

definition ResetUnreadCount :: "conn \<Rightarrow> int \<Rightarrow> string \<Rightarrow> chat_db \<Rightarrow> (db_error option) \<times> chat_db" where
  "ResetUnreadCount c now cid db =
     (if fault c = ExecFails then (Some DriverError, db)
      else (None, db\<lparr>conversations :=
              sql_update (\<lambda>r. conv_ConversationID r = cid)
                (\<lambda>r. r\<lparr>UnreadCount := 0, conv_UpdatedAt := now\<rparr>) (conversations db)\<rparr>))"

definition DeleteConversation :: "conn \<Rightarrow> string \<Rightarrow> chat_db \<Rightarrow> (db_error option) \<times> chat_db" where
  "DeleteConversation c cid db =
     (if fault c = ExecFails then (Some DriverError, db)
      else let db' = db\<lparr>conversations := sql_delete (\<lambda>r. conv_ConversationID r = cid) (conversations db)\<rparr>
           in (None,
               if fk_on c \<and> has_conversation db cid then
                 db'\<lparr>messages := sql_delete (\<lambda>r. cm_ConversationID r = cid) (messages db),
                     group_members := sql_delete (\<lambda>r. gm_ConversationID r = cid) (group_members db),
                     sender_keys := sql_delete (\<lambda>r. csk_ConversationID r = cid) (sender_keys db),
                     ratchet_states := sql_delete (\<lambda>r. rs_ConversationID r = cid) (ratchet_states db),
                     skipped_keys := sql_delete (\<lambda>r. sk_ConversationID r = cid) (skipped_keys db)\<rparr>
               else db'))"

section \<open>Messages\<close>

definition message_statuses :: "string list" where
  "message_statuses = [''created'', ''sent'', ''delivered'', ''read'', ''failed'']"

text \<open>The insertion and the update of the conversation are two statements; a failing update leaves the message stored.\<close>

definition StoreMessage ::
  "conn \<Rightarrow> conn \<Rightarrow> int \<Rightarrow> ChatMessage \<Rightarrow> chat_db \<Rightarrow> (db_error option) \<times> chat_db" where
  "StoreMessage c1 c2 now msg db =
     (if fault c1 = ExecFails then (Some DriverError, db)
      else if cm_Status msg \<notin> set message_statuses then (Some CheckViolation, db)
      else if MessageID msg \<in> MessageID ` set (messages db) then (Some UniqueViolation, db)
      else if orphan c1 db (cm_ConversationID msg) then (Some ForeignKeyViolation, db)
      else let db1 = db\<lparr>messages := messages db @ [msg]\<rparr>
           in if fault c2 = ExecFails then (Some DriverError, db1)
              else (None, db1\<lparr>conversations :=
                      sql_update (\<lambda>r. conv_ConversationID r = cm_ConversationID msg)
                        (\<lambda>r. r\<lparr>LastMessageAt := cm_Timestamp msg, conv_UpdatedAt := now\<rparr>) (conversations db1)\<rparr>))"

definition GetMessage :: "conn \<Rightarrow> string \<Rightarrow> chat_db \<Rightarrow> db_error + ChatMessage option" where
  "GetMessage c mid db = (if fault c = ExecFails then Inl DriverError else Inr (row_at MessageID mid (messages db)))"

definition ListMessages :: "conn \<Rightarrow> string \<Rightarrow> int \<Rightarrow> int \<Rightarrow> chat_db \<Rightarrow> db_error + ChatMessage list" where
  "ListMessages c cid limit offset db =
     (if fault c = ExecFails then Inl DriverError
      else Inr (sql_page limit offset
                  (sort_key (\<lambda>m. - cm_Timestamp m) (filter (\<lambda>m. cm_ConversationID m = cid) (messages db)))))"

definition mark_message :: "string \<Rightarrow> int \<Rightarrow> ChatMessage \<Rightarrow> ChatMessage" where
  "mark_message status now m =
     (if status = ''sent'' then m\<lparr>cm_Status := status, SentAt := now\<rparr>
      else if status = ''delivered'' then m\<lparr>cm_Status := status, DeliveredAt := now\<rparr>
      else if status = ''read'' then m\<lparr>cm_Status := status, ReadAt := now\<rparr>
      else m\<lparr>cm_Status := status\<rparr>)"

definition UpdateMessageStatus :: "conn \<Rightarrow> int \<Rightarrow> string \<Rightarrow> string \<Rightarrow> chat_db \<Rightarrow> (db_error option) \<times> chat_db" where
  "UpdateMessageStatus c now mid status db =
     (if fault c = ExecFails then (Some DriverError, db)
      else if status \<notin> set message_statuses \<and> mid \<in> MessageID ` set (messages db) then (Some CheckViolation, db)
      else (None, db\<lparr>messages := set_status MessageID mark_message mid status now (messages db)\<rparr>))"

definition db_MarkMessageAsRead :: "conn \<Rightarrow> int \<Rightarrow> string \<Rightarrow> chat_db \<Rightarrow> (db_error option) \<times> chat_db" where
  "db_MarkMessageAsRead c now mid db = UpdateMessageStatus c now mid ''read'' db"

definition MarkConversationMessagesAsRead ::
  "conn \<Rightarrow> conn \<Rightarrow> int \<Rightarrow> string \<Rightarrow> chat_db \<Rightarrow> (db_error option) \<times> chat_db" where
  "MarkConversationMessagesAsRead c1 c2 now cid db =
     (if fault c1 = ExecFails then (Some DriverError, db)
      else ResetUnreadCount c2 now cid
             (db\<lparr>messages := sql_update (\<lambda>m. cm_ConversationID m = cid \<and> cm_Status m \<noteq> ''read'')
                    (\<lambda>m. m\<lparr>cm_Status := ''read'', ReadAt := now\<rparr>) (messages db)\<rparr>))"

definition GetPendingMessages :: "conn \<Rightarrow> chat_db \<Rightarrow> db_error + ChatMessage list" where
  "GetPendingMessages c db =
     (if fault c = ExecFails then Inl DriverError
      else Inr (map (\<lambda>m. m\<lparr>DecryptedContent := []\<rparr>)
                 (sort_key cm_Timestamp (filter (\<lambda>m. cm_Status m = ''created'') (messages db)))))"

definition DeleteMessage :: "conn \<Rightarrow> string \<Rightarrow> chat_db \<Rightarrow> (db_error option) \<times> chat_db" where
  "DeleteMessage c mid db =
     (if fault c = ExecFails then (Some DriverError, db)
      else (None, db\<lparr>messages := sql_delete (\<lambda>m. MessageID m = mid) (messages db)\<rparr>))"

definition DeleteConversationMessages :: "conn \<Rightarrow> string \<Rightarrow> chat_db \<Rightarrow> (db_error option) \<times> chat_db" where
  "DeleteConversationMessages c cid db =
     (if fault c = ExecFails then (Some DriverError, db)
      else (None, db\<lparr>messages := sql_delete (\<lambda>m. cm_ConversationID m = cid) (messages db)\<rparr>))"

definition CleanupExpiredChatMessages :: "conn \<Rightarrow> int \<Rightarrow> int \<Rightarrow> chat_db \<Rightarrow> (db_error + int) \<times> chat_db" where
  "CleanupExpiredChatMessages c now ttlDays db =
     (let cutoffTime = now - 86400 * ttlDays
      in if fault c = ExecFails then (Inl DriverError, db)
         else (Inr (int (length (filter (\<lambda>m. cm_Timestamp m < cutoffTime) (messages db)))),
               db\<lparr>messages := sql_delete (\<lambda>m. cm_Timestamp m < cutoffTime) (messages db)\<rparr>))"

section \<open>Groups\<close>

definition AddGroupMember :: "conn \<Rightarrow> int \<Rightarrow> ChatGroupMember \<Rightarrow> chat_db \<Rightarrow> (db_error option) \<times> chat_db" where
  "AddGroupMember c now m db =
     (if fault c = ExecFails then (Some DriverError, db)
      else if member_key m \<in> member_key ` set (group_members db) then (Some UniqueViolation, db)
      else if orphan c db (gm_ConversationID m) then (Some ForeignKeyViolation, db)
      else (None, db\<lparr>group_members := group_members db @ [m\<lparr>JoinedAt := now\<rparr>]\<rparr>))"

definition GetGroupMembers :: "conn \<Rightarrow> string \<Rightarrow> chat_db \<Rightarrow> db_error + ChatGroupMember list" where
  "GetGroupMembers c cid db =
     (if fault c = ExecFails then Inl DriverError
      else Inr (sort_key JoinedAt (filter (\<lambda>m. gm_ConversationID m = cid \<and> LeftAt m = 0) (group_members db))))"

definition IsGroupMember :: "conn \<Rightarrow> string \<Rightarrow> string \<Rightarrow> chat_db \<Rightarrow> db_error + bool" where
  "IsGroupMember c cid peerID db =
     (if fault c = ExecFails then Inl DriverError
      else Inr (0 < length (filter (\<lambda>m. gm_ConversationID m = cid \<and> gm_PeerID m = peerID \<and> LeftAt m = 0) (group_members db))))"

definition RemoveGroupMember :: "conn \<Rightarrow> int \<Rightarrow> string \<Rightarrow> string \<Rightarrow> chat_db \<Rightarrow> (db_error option) \<times> chat_db" where
  "RemoveGroupMember c now cid peerID db =
     (if fault c = ExecFails then (Some DriverError, db)
      else (None, db\<lparr>group_members :=
              sql_update (\<lambda>m. gm_ConversationID m = cid \<and> gm_PeerID m = peerID \<and> LeftAt m = 0)
                (\<lambda>m. m\<lparr>LeftAt := now\<rparr>) (group_members db)\<rparr>))"

text \<open>The signing key column is not used by the code that reads a sender key; it is left out of the row.\<close>

definition StoreSenderKey :: "conn \<Rightarrow> int \<Rightarrow> ChatSenderKey \<Rightarrow> chat_db \<Rightarrow> (db_error option) \<times> chat_db" where
  "StoreSenderKey c now k db =
     (if fault c = ExecFails then (Some DriverError, db)
      else if orphan c db (csk_ConversationID k) then (Some ForeignKeyViolation, db)
      else (None, db\<lparr>sender_keys := sql_upsert sender_key_key (k\<lparr>csk_UpdatedAt := now\<rparr>) (sender_keys db)\<rparr>))"

definition GetSenderKey :: "conn \<Rightarrow> string \<Rightarrow> string \<Rightarrow> chat_db \<Rightarrow> db_error + ChatSenderKey option" where
  "GetSenderKey c cid peerID db =
     (if fault c = ExecFails then Inl DriverError else Inr (row_at sender_key_key (cid, peerID) (sender_keys db)))"

definition GetAllSenderKeys :: "conn \<Rightarrow> string \<Rightarrow> chat_db \<Rightarrow> db_error + ChatSenderKey list" where
  "GetAllSenderKeys c cid db =
     (if fault c = ExecFails then Inl DriverError else Inr (filter (\<lambda>k. csk_ConversationID k = cid) (sender_keys db)))"

definition DeleteSenderKey :: "conn \<Rightarrow> string \<Rightarrow> string \<Rightarrow> chat_db \<Rightarrow> (db_error option) \<times> chat_db" where
  "DeleteSenderKey c cid peerID db =
     (if fault c = ExecFails then (Some DriverError, db)
      else (None, db\<lparr>sender_keys := sql_delete (\<lambda>k. sender_key_key k = (cid, peerID)) (sender_keys db)\<rparr>))"

definition DeleteSenderKeysForGroup :: "conn \<Rightarrow> string \<Rightarrow> chat_db \<Rightarrow> (db_error option) \<times> chat_db" where
  "DeleteSenderKeysForGroup c cid db =
     (if fault c = ExecFails then (Some DriverError, db)
      else (None, db\<lparr>sender_keys := sql_delete (\<lambda>k. csk_ConversationID k = cid) (sender_keys db)\<rparr>))"

section \<open>Ratchet states and skipped keys\<close>

definition StoreRatchetState :: "conn \<Rightarrow> int \<Rightarrow> ChatRatchetState \<Rightarrow> chat_db \<Rightarrow> (db_error option) \<times> chat_db" where
  "StoreRatchetState c now s db =
     (if fault c = ExecFails then (Some DriverError, db)
      else if orphan c db (rs_ConversationID s) then (Some ForeignKeyViolation, db)
      else (None, db\<lparr>ratchet_states := sql_upsert rs_ConversationID (s\<lparr>rs_UpdatedAt := now\<rparr>) (ratchet_states db)\<rparr>))"

definition GetRatchetState :: "conn \<Rightarrow> string \<Rightarrow> chat_db \<Rightarrow> db_error + ChatRatchetState option" where
  "GetRatchetState c cid db =
     (if fault c = ExecFails then Inl DriverError else Inr (row_at rs_ConversationID cid (ratchet_states db)))"

definition HasRatchetState :: "conn \<Rightarrow> string \<Rightarrow> chat_db \<Rightarrow> db_error + bool" where
  "HasRatchetState c cid db =
     (if fault c = ExecFails then Inl DriverError
      else Inr (0 < length (filter (\<lambda>s. rs_ConversationID s = cid) (ratchet_states db))))"

definition IsKeyExchangeComplete :: "conn \<Rightarrow> string \<Rightarrow> chat_db \<Rightarrow> db_error + bool" where
  "IsKeyExchangeComplete c cid db =
     (if fault c = ExecFails then Inl DriverError
      else Inr (case row_at rs_ConversationID cid (ratchet_states db) of
                  None \<Rightarrow> False | Some s \<Rightarrow> KeyExchangeComplete s))"

definition DeleteRatchetState :: "conn \<Rightarrow> string \<Rightarrow> chat_db \<Rightarrow> (db_error option) \<times> chat_db" where
  "DeleteRatchetState c cid db =
     (if fault c = ExecFails then (Some DriverError, db)
      else (None, db\<lparr>ratchet_states := sql_delete (\<lambda>s. rs_ConversationID s = cid) (ratchet_states db)\<rparr>))"

definition StoreSkippedKey :: "conn \<Rightarrow> int \<Rightarrow> ChatSkippedKey \<Rightarrow> chat_db \<Rightarrow> (db_error option) \<times> chat_db" where
  "StoreSkippedKey c now k db =
     (if fault c = ExecFails then (Some DriverError, db)
      else if orphan c db (sk_ConversationID k) then (Some ForeignKeyViolation, db)
      else (None, db\<lparr>skipped_keys := sql_upsert skipped_key_key (k\<lparr>skk_CreatedAt := now\<rparr>) (skipped_keys db)\<rparr>))"

definition GetSkippedKey :: "conn \<Rightarrow> string \<Rightarrow> int \<Rightarrow> chat_db \<Rightarrow> db_error + ChatSkippedKey option" where
  "GetSkippedKey c cid n db =
     (if fault c = ExecFails then Inl DriverError else Inr (row_at skipped_key_key (cid, n) (skipped_keys db)))"

definition GetAllSkippedKeys :: "conn \<Rightarrow> string \<Rightarrow> chat_db \<Rightarrow> db_error + ChatSkippedKey list" where
  "GetAllSkippedKeys c cid db =
     (if fault c = ExecFails then Inl DriverError
      else Inr (sort_key skk_MessageNumber (filter (\<lambda>k. sk_ConversationID k = cid) (skipped_keys db))))"

definition DeleteSkippedKey :: "conn \<Rightarrow> string \<Rightarrow> int \<Rightarrow> chat_db \<Rightarrow> (db_error option) \<times> chat_db" where
  "DeleteSkippedKey c cid n db =
     (if fault c = ExecFails then (Some DriverError, db)
      else (None, db\<lparr>skipped_keys := sql_delete (\<lambda>k. skipped_key_key k = (cid, n)) (skipped_keys db)\<rparr>))"

definition DeleteAllSkippedKeysForConversation :: "conn \<Rightarrow> string \<Rightarrow> chat_db \<Rightarrow> (db_error option) \<times> chat_db" where
  "DeleteAllSkippedKeysForConversation c cid db =
     (if fault c = ExecFails then (Some DriverError, db)
      else (None, db\<lparr>skipped_keys := sql_delete (\<lambda>k. sk_ConversationID k = cid) (skipped_keys db)\<rparr>))"

definition db_CleanupOldSkippedKeys :: "conn \<Rightarrow> int \<Rightarrow> chat_db \<Rightarrow> (db_error + int) \<times> chat_db" where
  "db_CleanupOldSkippedKeys c now db =
     (let cutoffTime = now - 86400 * 7
      in if fault c = ExecFails then (Inl DriverError, db)
         else (Inr (int (length (filter (\<lambda>k. skk_CreatedAt k < cutoffTime) (skipped_keys db)))),
               db\<lparr>skipped_keys := sql_delete (\<lambda>k. skk_CreatedAt k < cutoffTime) (skipped_keys db)\<rparr>))"

interpretation msgs: status_table MessageID cm_Status mark_message
  by unfold_locales (auto simp: mark_message_def)

section \<open>Invariants\<close>

text \<open>
  The keys of the schema are unique and, for a database only written through connections that
  enforce foreign keys, no row of a conversation is without it.
\<close>

definition wf_chat :: "chat_db \<Rightarrow> bool" where
  "wf_chat db \<longleftrightarrow>
     distinct (map conv_ConversationID (conversations db)) \<and> distinct (map MessageID (messages db))
     \<and> distinct (map member_key (group_members db)) \<and> distinct (map sender_key_key (sender_keys db))
     \<and> distinct (map rs_ConversationID (ratchet_states db)) \<and> distinct (map skipped_key_key (skipped_keys db))
     \<and> list_all conversation_check (conversations db) \<and> list_all (\<lambda>m. cm_Status m \<in> set message_statuses) (messages db)"

definition no_orphans :: "chat_db \<Rightarrow> bool" where
  "no_orphans db \<longleftrightarrow>
     list_all (\<lambda>m. has_conversation db (cm_ConversationID m)) (messages db)
     \<and> list_all (\<lambda>m. has_conversation db (gm_ConversationID m)) (group_members db)
     \<and> list_all (\<lambda>k. has_conversation db (csk_ConversationID k)) (sender_keys db)
     \<and> list_all (\<lambda>s. has_conversation db (rs_ConversationID s)) (ratchet_states db)
     \<and> list_all (\<lambda>k. has_conversation db (sk_ConversationID k)) (skipped_keys db)"

text \<open>One writing statement, on a connection.\<close>

inductive chat_write :: "conn \<Rightarrow> chat_db \<Rightarrow> chat_db \<Rightarrow> bool" where
  "chat_write c db (snd (CreateConversation c now v db))"
| "chat_write c db (snd (UpdateConversation c now v db))"
| "chat_write c db (snd (IncrementUnreadCount c now cid db))"
| "chat_write c db (snd (ResetUnreadCount c now cid db))"
| "chat_write c db (snd (DeleteConversation c cid db))"
| "chat_write c db (snd (StoreMessage c c2 now msg db))"
| "chat_write c db (snd (UpdateMessageStatus c now mid status db))"
| "chat_write c db (snd (MarkConversationMessagesAsRead c c2 now cid db))"
| "chat_write c db (snd (DeleteMessage c mid db))"
| "chat_write c db (snd (DeleteConversationMessages c cid db))"
| "chat_write c db (snd (CleanupExpiredChatMessages c now ttl db))"
| "chat_write c db (snd (AddGroupMember c now m db))"
| "chat_write c db (snd (RemoveGroupMember c now cid peer db))"
| "chat_write c db (snd (StoreSenderKey c now sk db))"
| "chat_write c db (snd (DeleteSenderKey c cid peer db))"
| "chat_write c db (snd (DeleteSenderKeysForGroup c cid db))"
| "chat_write c db (snd (StoreRatchetState c now rs db))"
| "chat_write c db (snd (DeleteRatchetState c cid db))"
| "chat_write c db (snd (StoreSkippedKey c now kk db))"
| "chat_write c db (snd (DeleteSkippedKey c cid n db))"
| "chat_write c db (snd (DeleteAllSkippedKeysForConversation c cid db))"
| "chat_write c db (snd (db_CleanupOldSkippedKeys c now db))"

lemmas chat_stmt_defs =
  CreateConversation_def UpdateConversation_def IncrementUnreadCount_def ResetUnreadCount_def DeleteConversation_def
  StoreMessage_def UpdateMessageStatus_def MarkConversationMessagesAsRead_def DeleteMessage_def
  DeleteConversationMessages_def CleanupExpiredChatMessages_def AddGroupMember_def RemoveGroupMember_def
  StoreSenderKey_def DeleteSenderKey_def DeleteSenderKeysForGroup_def StoreRatchetState_def DeleteRatchetState_def
  StoreSkippedKey_def DeleteSkippedKey_def DeleteAllSkippedKeysForConversation_def db_CleanupOldSkippedKeys_def

lemma keys_kept:
  "map conv_ConversationID (sql_update p (\<lambda>r. r\<lparr>ConversationType := a, conv_PeerID := b, GroupName := d,
      conv_UpdatedAt := e, LastMessageAt := f, UnreadCount := g\<rparr>) vs) = map conv_ConversationID vs"
  "map conv_ConversationID (sql_update p (\<lambda>r. r\<lparr>UnreadCount := h r, conv_UpdatedAt := e\<rparr>) vs) = map conv_ConversationID vs"
  "map conv_ConversationID (sql_update p (\<lambda>r. r\<lparr>LastMessageAt := e, conv_UpdatedAt := f\<rparr>) vs) = map conv_ConversationID vs"
  "map MessageID (sql_update pm (\<lambda>m. m\<lparr>cm_Status := st, ReadAt := e\<rparr>) ms) = map MessageID ms"
  "map member_key (sql_update pg (\<lambda>m. m\<lparr>LeftAt := e\<rparr>) gs) = map member_key gs"
  by (rule map_sql_update, simp add: member_key_def)+

lemma has_conversation_keys:
  "map conv_ConversationID (conversations db') = map conv_ConversationID (conversations db)
     \<Longrightarrow> has_conversation db' = has_conversation db"
  by (rule ext) (metis has_conversation_def list.set_map)

lemma conversations_checked:
  "list_all conversation_check vs \<Longrightarrow> list_all conversation_check (sql_update p (\<lambda>r. r\<lparr>UnreadCount := h r, conv_UpdatedAt := e\<rparr>) vs)"
  "list_all conversation_check vs \<Longrightarrow> list_all conversation_check (sql_update p (\<lambda>r. r\<lparr>LastMessageAt := f, conv_UpdatedAt := e\<rparr>) vs)"
  by (rule list_all_sql_update, assumption, simp add: conversation_check_def)+

lemma conversation_replaced:
  assumes "list_all conversation_check vs"
    and "conv_ConversationID v \<in> conv_ConversationID ` set vs \<Longrightarrow> conversation_check v"
  shows "list_all conversation_check (sql_update (\<lambda>r. conv_ConversationID r = conv_ConversationID v)
       (\<lambda>r. r\<lparr>ConversationType := ConversationType v, conv_PeerID := conv_PeerID v,
       GroupName := GroupName v, conv_UpdatedAt := e, LastMessageAt := f, UnreadCount := g\<rparr>) vs)"
  using assms(1)
proof (rule list_all_sql_update)
  fix r assume "r \<in> set vs" "conv_ConversationID r = conv_ConversationID v"
  then have "conversation_check v" using assms(2) by (metis image_eqI)
  then show "conversation_check (r\<lparr>ConversationType := ConversationType v, conv_PeerID := conv_PeerID v,
      GroupName := GroupName v, conv_UpdatedAt := e, LastMessageAt := f, UnreadCount := g\<rparr>)"
    by (simp add: conversation_check_def)
qed

lemma conversation_check_times [simp]:
  "conversation_check (v\<lparr>conv_CreatedAt := a, conv_UpdatedAt := b\<rparr>) = conversation_check v"
  by (simp add: conversation_check_def)

lemma messages_checked:
  "list_all (\<lambda>m. cm_Status m \<in> S) ms \<Longrightarrow> st \<in> S \<Longrightarrow>
     list_all (\<lambda>m. cm_Status m \<in> S) (sql_update p (\<lambda>m. m\<lparr>cm_Status := st, ReadAt := e\<rparr>) ms)"
  "list_all (\<lambda>m. cm_Status m \<in> S) ms \<Longrightarrow> st \<in> S \<Longrightarrow>
     list_all (\<lambda>m. cm_Status m \<in> S) (set_status MessageID mark_message mid st now ms)"
  unfolding set_status_def
  by (rule list_all_sql_update, assumption, simp add: msgs.status_mark)+

lemma read_is_status [simp]: "''read'' \<in> set message_statuses"
  by (simp add: message_statuses_def)

lemma chat_write_wf: "chat_write c db db' \<Longrightarrow> wf_chat db \<Longrightarrow> wf_chat db'"
  by (erule chat_write.cases)
    (auto simp: wf_chat_def chat_stmt_defs Let_def keys_kept keys_upsert has_conversation_def msgs.keys_set member_key_def
       msgs.set_missing intro!: conversations_checked conversation_replaced messages_checked)

lemma status_keeps_conversation [simp]: "cm_ConversationID (mark_message st now m) = cm_ConversationID m"
  by (simp add: mark_message_def)

lemma child_delete:
  "list_all (\<lambda>r. g r \<in> S) rows \<Longrightarrow> list_all (\<lambda>r. g r \<in> S \<and> g r \<noteq> k) (sql_delete (\<lambda>r. g r = k) rows)"
  by (auto simp: list_all_iff sql_delete_def)

lemma chat_write_no_orphans:
  "chat_write c db db' \<Longrightarrow> fk_on c \<Longrightarrow> no_orphans db \<Longrightarrow> no_orphans db'"
  by (erule chat_write.cases)
    (auto simp: no_orphans_def chat_stmt_defs Let_def has_conversation_def orphan_def set_status_def
       image_sql_delete child_delete intro!: list_all_sql_upsert list_all_sql_update elim: list.pred_mono_strong)

section \<open>Histories of the tables\<close>

definition empty_chat :: chat_db where
  "empty_chat = \<lparr>conversations = [], messages = [], group_members = [], sender_keys = [], ratchet_states = [], skipped_keys = []\<rparr>"

text \<open>The databases that writing statements on connections with property \<open>Q\<close> lead to from the empty one.\<close>

inductive chat_history :: "(conn \<Rightarrow> bool) \<Rightarrow> chat_db \<Rightarrow> bool" for Q where
  history_start: "chat_history Q empty_chat"
| history_write: "chat_history Q db \<Longrightarrow> Q c \<Longrightarrow> chat_write c db db' \<Longrightarrow> chat_history Q db'"

lemma empty_chat_ok: "wf_chat empty_chat" "no_orphans empty_chat"
  by (simp_all add: empty_chat_def wf_chat_def no_orphans_def)

lemma history_wf: "chat_history Q db \<Longrightarrow> wf_chat db"
  by (induction rule: chat_history.induct) (auto intro: empty_chat_ok chat_write_wf)

lemma history_no_orphans: "chat_history Q db \<Longrightarrow> (\<And>c. Q c \<Longrightarrow> fk_on c) \<Longrightarrow> no_orphans db"
  by (induction rule: chat_history.induct) (auto intro: empty_chat_ok chat_write_no_orphans)

definition stray_member :: ChatGroupMember where
  "stray_member = \<lparr>gm_ConversationID = ''group-1'', gm_PeerID = ''bob-peer-id'', JoinedAt = 0, IsAdmin = False, LeftAt = 0\<rparr>"

lemma stray_member_added:
  "\<not> fk_on c \<Longrightarrow> fault c \<noteq> ExecFails \<Longrightarrow> \<not> no_orphans (snd (AddGroupMember c now stray_member empty_chat))"
  by (simp add: AddGroupMember_def empty_chat_def orphan_def no_orphans_def has_conversation_def stray_member_def)

text \<open>
  C18. Whatever writing statements have run, on whatever connections and with whatever driver faults,
  every key of the chat schema is unique, every conversation is a complete one-to-one or group
  conversation, and every message has a known status.  If all connections enforce foreign keys, no
  message, member, sender key, ratchet state or skipped key is without its conversation; connections
  that do not enforce them (the pragma is set on one connection of the pool) do let such rows in.
\<close>

theorem chat_tables_invariant:
  assumes "chat_history Q db"
  shows "wf_chat db \<and> ((\<forall>c. Q c \<longrightarrow> fk_on c) \<longrightarrow> no_orphans db)
     \<and> (\<forall>c. Q c \<and> \<not> fk_on c \<and> fault c \<noteq> ExecFails \<longrightarrow> (\<exists>db'. chat_history Q db' \<and> \<not> no_orphans db'))"
proof (intro conjI allI impI)
  show "wf_chat db" by (rule history_wf [OF assms])
  show "no_orphans db" if "\<forall>c. Q c \<longrightarrow> fk_on c" using history_no_orphans [OF assms] that by blast
  show "\<exists>db'. chat_history Q db' \<and> \<not> no_orphans db'" if "Q c \<and> \<not> fk_on c \<and> fault c \<noteq> ExecFails" for c
    using that stray_member_added [of c 0] chat_write.intros(12) history_start history_write by metis
qed

theorem chat_tables_invariant_witness:
  "wf_chat (snd (CreateConversation good_conn 7 \<lparr>conv_ConversationID = ''group-1'', ConversationType = ''group'', conv_PeerID = [],
       GroupName = ''friends'', conv_CreatedAt = 0, conv_UpdatedAt = 0, LastMessageAt = 0, UnreadCount = 0\<rparr> empty_chat))
   \<and> (\<exists>db'. chat_history (\<lambda>c. \<not> fk_on c) db' \<and> \<not> no_orphans db')"
proof -
  have "chat_history fk_on (snd (CreateConversation good_conn now v empty_chat))" for now v
    by (rule history_write [OF history_start, of _ good_conn]) (simp_all add: good_conn_def chat_write.intros)
  moreover have "\<not> fk_on (good_conn\<lparr>fk_on := False\<rparr>) \<and> fault (good_conn\<lparr>fk_on := False\<rparr>) \<noteq> ExecFails"
    by (simp add: good_conn_def)
  ultimately show ?thesis
    using chat_tables_invariant [of fk_on] chat_tables_invariant [OF history_start, of "\<lambda>c. \<not> fk_on c"] by blast
qed

end
