(* ===== verification/Chat_Handlers.thy ===== *)
theory Chat_Handlers
  imports Chat_Crypto Chat_Store "HOL-Library.Monad_Syntax"
begin

text \<open>
  The handlers of conversations (\<open>internal/p2p/chat_handler.go\<close> and the ratchet persistence of
  \<open>chat_message_handler.go\<close>): the state of a node is its tables, its crypto manager and the queues of
  group traffic that arrived early.  A handler gets the parsed message (\<open>None\<close> when the JSON does not
  parse), the peer it came from, the clock, one connection per statement (\<open>cs 0, cs 1, ...\<close> in program
  order) and one result of the random source per call (\<open>rs 0, rs 1, ...\<close>).  Logging is left out except
  that a slice \<open>s[:8]\<close> of a string shorter than eight bytes panics: \<open>None\<close> is a panic.  Events for the
  user interface are not modelled; messages to other peers are appended to the outbox.
\<close>

section \<open>Messages and state\<close>

record ChatKeyExchangeData =
  kx_ConversationID :: string
  kx_FromPeerID :: string
  kx_ToPeerID :: string
  kx_EphemeralPubKey :: bytes
  kx_IdentitySignature :: bytes
  kx_Timestamp :: int

record ChatMessageData =
  md_MessageID :: string
  md_ConversationID :: string
  md_SenderPeerID :: string
  md_EncryptedContent :: bytes
  md_Nonce :: bytes
  md_MessageNumber :: int
  md_DHPubKey :: bytes
  md_Timestamp :: int

record ChatGroupCreateData =
  gc_ConversationID :: string
  gc_GroupName :: string
  gc_CreatorPeerID :: string
  gc_MemberPeerIDs :: "string list"

record ChatGroupMessageData =
  gmd_MessageID :: string
  gmd_ConversationID :: string
  gmd_SenderPeerID :: string
  gmd_EncryptedContent :: bytes
  gmd_Nonce :: bytes
  gmd_MessageNumber :: int
  gmd_Signature :: bytes
  gmd_Timestamp :: int

record ChatSenderKeyDistributionData =
  sd_ConversationID :: string
  sd_SenderPeerID :: string
  sd_ChainKey :: bytes
  sd_MessageNumber :: int

record PendingSenderKey =
  psk_SenderPeerID :: string
  psk_ChainKey :: bytes
  psk_MessageNumber :: int

datatype out_msg =
  DeliveryConfirmation string string
| ReadReceipt string string
| SenderKeyDistribution ChatSenderKeyDistributionData
| GroupCreate ChatGroupCreateData
| GroupInvite string string

record chat_node =
  peerID :: string
  chat_tables :: chat_db
  cryptoManager :: ChatCryptoManager
  pendingSenderKeys :: "string \<Rightarrow> PendingSenderKey list"
  pendingGroupMessages :: "string \<Rightarrow> (ChatGroupMessageData \<times> string) list"
  outbox :: "(string \<times> out_msg) list"

type_synonym conns = "nat \<Rightarrow> conn"
type_synonym rands = "nat \<Rightarrow> bytes option"

section \<open>Ratchets in the database\<close>

datatype ratchet_io_error =
  RatchetMissing | EncryptStateFailed | StoreStateFailed db_error | GetStateFailed db_error | StateNotFound | DecryptStateFailed

fun save_skipped ::
  "prims \<Rightarrow> rands \<Rightarrow> conns \<Rightarrow> int \<Rightarrow> string \<Rightarrow> ChatCryptoManager \<Rightarrow> nat \<Rightarrow> (int \<times> bytes) list \<Rightarrow> chat_db \<Rightarrow> chat_db" where
  "save_skipped P rs cs now cid ccm i [] db = db"
| "save_skipped P rs cs now cid ccm i ((messageNum, messageKey) # ks) db =
     save_skipped P rs cs now cid ccm (Suc i) ks
       (case EncryptMessageKeyForStorage P (rs i) messageKey ccm of
          Inl _ \<Rightarrow> db
        | Inr (encryptedKey, keyNonce) \<Rightarrow>
            snd (StoreSkippedKey (cs i) now
              \<lparr>sk_ConversationID = cid, skk_MessageNumber = messageNum, EncryptedKey = encryptedKey,
               skk_Nonce = keyNonce, skk_CreatedAt = 0\<rparr> db))"

text \<open>The iteration over the skipped keys follows the list; their numbers are distinct, so the order does not matter.\<close>

definition saveRatchetStateComplete ::
  "prims \<Rightarrow> rands \<Rightarrow> conns \<Rightarrow> int \<Rightarrow> string \<Rightarrow> bool \<Rightarrow> chat_node \<Rightarrow> (ratchet_io_error option) \<times> chat_node" where
  "saveRatchetStateComplete P rs cs now cid keyExchangeComplete node =
     (case GetRatchet cid (cryptoManager node) of
        Inl _ \<Rightarrow> (Some RatchetMissing, node)
      | Inr ratchet \<Rightarrow>
          (case EncryptRatchetForStorage P (rs 0) ratchet (cryptoManager node) of
             Inl _ \<Rightarrow> (Some EncryptStateFailed, node)
           | Inr (encryptedState, nonce) \<Rightarrow>
               (case StoreRatchetState (cs 0) now
                       \<lparr>rs_ConversationID = cid, EncryptedState = encryptedState, rs_Nonce = nonce,
                        rs_SendMessageNum = SendMessageNum ratchet, rs_RecvMessageNum = RecvMessageNum ratchet,
                        rs_RemoteDHPubKey = RemoteDHPubKey ratchet, KeyExchangeComplete = keyExchangeComplete,
                        rs_UpdatedAt = 0\<rparr> (chat_tables node) of
                  (Some e, db) \<Rightarrow> (Some (StoreStateFailed e), node\<lparr>chat_tables := db\<rparr>)
                | (None, db) \<Rightarrow>
                    let db1 = snd (DeleteAllSkippedKeysForConversation (cs 1) cid db);
                        db2 = save_skipped P (\<lambda>i. rs (Suc i)) (\<lambda>i. cs (i + 2)) now cid (cryptoManager node) 0
                                (SkippedKeys ratchet) db1
                    in (None, node\<lparr>chat_tables := db2\<rparr>))))"

text \<open>The receiving side saves with the flag cleared, the sending side with the flag the table has.\<close>

definition ch_saveRatchetState ::
  "prims \<Rightarrow> rands \<Rightarrow> conns \<Rightarrow> int \<Rightarrow> string \<Rightarrow> chat_node \<Rightarrow> (ratchet_io_error option) \<times> chat_node" where
  "ch_saveRatchetState P rs cs now cid node = saveRatchetStateComplete P rs cs now cid False node"

definition cmh_saveRatchetState ::
  "prims \<Rightarrow> rands \<Rightarrow> conns \<Rightarrow> int \<Rightarrow> string \<Rightarrow> chat_node \<Rightarrow> (ratchet_io_error option) \<times> chat_node" where
  "cmh_saveRatchetState P rs cs now cid node =
     (case GetRatchet cid (cryptoManager node) of
        Inl _ \<Rightarrow> (Some RatchetMissing, node)
      | Inr _ \<Rightarrow>
          let keyExchangeComplete =
                (case GetRatchetState (cs 0) cid (chat_tables node) of
                   Inr (Some s) \<Rightarrow> KeyExchangeComplete s | _ \<Rightarrow> False)
          in saveRatchetStateComplete P rs (\<lambda>i. cs (Suc i)) now cid keyExchangeComplete node)"

fun load_skipped :: "prims \<Rightarrow> ChatCryptoManager \<Rightarrow> ChatSkippedKey list \<Rightarrow> DoubleRatchet \<Rightarrow> DoubleRatchet" where
  "load_skipped P ccm [] r = r"
| "load_skipped P ccm (sk # sks) r =
     load_skipped P ccm sks
       (case DecryptMessageKeyFromStorage P (EncryptedKey sk) (copy_arr 24 (skk_Nonce sk)) ccm of
          Inl _ \<Rightarrow> r
        | Inr messageKey \<Rightarrow> r\<lparr>SkippedKeys := AList.update (skk_MessageNumber sk) messageKey (SkippedKeys r)\<rparr>)"

definition loadRatchetState ::
  "prims \<Rightarrow> conns \<Rightarrow> string \<Rightarrow> chat_node \<Rightarrow> ((ratchet_io_error option) \<times> chat_node) option" where
  "loadRatchetState P cs cid node =
     (case GetRatchet cid (cryptoManager node) of
        Inr _ \<Rightarrow> Some (None, node)
      | Inl _ \<Rightarrow>
          (case GetRatchetState (cs 0) cid (chat_tables node) of
             Inl e \<Rightarrow> Some (Some (GetStateFailed e), node)
           | Inr None \<Rightarrow> Some (Some StateNotFound, node)
           | Inr (Some state) \<Rightarrow>
               (case DecryptRatchetFromStorage P (EncryptedState state) (copy_arr 24 (rs_Nonce state)) (cryptoManager node) of
                  Inl _ \<Rightarrow> Some (Some DecryptStateFailed, node)
                | Inr ratchet \<Rightarrow>
                    let r1 = ratchet\<lparr>SendMessageNum := rs_SendMessageNum state, RecvMessageNum := rs_RecvMessageNum state\<rparr>
                    in case GetAllSkippedKeys (cs 1) cid (chat_tables node) of
                         Inl _ \<Rightarrow> Some (None, node\<lparr>cryptoManager := SetRatchet cid r1 (cryptoManager node)\<rparr>)
                       | Inr sks \<Rightarrow> do {
                           slice8 cid;
                           Some (None, node\<lparr>cryptoManager :=
                                   SetRatchet cid (load_skipped P (cryptoManager node) sks r1) (cryptoManager node)\<rparr>)
                         })))"

text \<open>A restart keeps the tables and the identity, and loses the ratchets and group keys in memory.\<close>

definition restarted :: "chat_node \<Rightarrow> chat_node" where
  "restarted node =
     node\<lparr>cryptoManager := (cryptoManager node)\<lparr>ratchets := Map.empty, groupKeys := Map.empty\<rparr>,
          pendingSenderKeys := (\<lambda>_. []), pendingGroupMessages := (\<lambda>_. [])\<rparr>"

section \<open>A ratchet survives a restart\<close>

text \<open>Go's arrays and maps as the model represents them: keys of 32 bytes, one skipped key per number.\<close>

definition wf_arrays :: "DoubleRatchet \<Rightarrow> bool" where
  "wf_arrays r \<longleftrightarrow> length (DHRatchetPrivKey r) = 32 \<and> length (DHRatchetPubKey r) = 32 \<and> length (RemoteDHPubKey r) = 32
     \<and> length (RootKey r) = 32 \<and> length (SendChainKey r) = 32 \<and> length (RecvChainKey r) = 32
     \<and> distinct (map fst (SkippedKeys r)) \<and> list_all (\<lambda>(_, k). length k = 32) (SkippedKeys r)"

definition skipped_row :: "prims \<Rightarrow> rands \<Rightarrow> int \<Rightarrow> string \<Rightarrow> bytes \<Rightarrow> nat \<times> int \<times> bytes \<Rightarrow> ChatSkippedKey" where
  "skipped_row P rs now cid mk x =
     (case x of (i, n, k) \<Rightarrow>
        \<lparr>sk_ConversationID = cid, skk_MessageNumber = n, EncryptedKey = box_seal P k (the (rs i)) mk,
         skk_Nonce = the (rs i), skk_CreatedAt = now\<rparr>)"

lemma save_skipped_appends:
  assumes "\<forall>i. rs i \<noteq> None" and "\<forall>i. fault (cs i) = NoFault"
  shows "distinct (map fst ks) \<Longrightarrow> (\<And>n. n \<in> fst ` set ks \<Longrightarrow> (cid, n) \<notin> skipped_key_key ` set (skipped_keys db)) \<Longrightarrow>
    has_conversation db cid \<Longrightarrow>
    save_skipped P rs cs now cid ccm i ks db
      = db\<lparr>skipped_keys := skipped_keys db @ map (skipped_row P rs now cid (masterKey ccm)) (enumerate i ks)\<rparr>"
proof (induction ks arbitrary: i db)
  case (Cons x ks)
  obtain n k where x: "x = (n, k)" by (cases x)
  obtain nonce where r: "rs i = Some nonce" using assms(1) by blast
  let ?row = "skipped_row P rs now cid (masterKey ccm) (i, n, k)"
  let ?db = "db\<lparr>skipped_keys := skipped_keys db @ [?row]\<rparr>"
  have new: "skipped_key_key ?row \<notin> skipped_key_key ` set (skipped_keys db)"
    using Cons.prems(2) [of n] by (simp add: x skipped_row_def skipped_key_key_def)
  have fc: "fault (cs i) \<noteq> ExecFails" using assms(2) by simp
  have row: "\<lparr>sk_ConversationID = cid, skk_MessageNumber = n, EncryptedKey = box_seal P k nonce (masterKey ccm),
       skk_Nonce = nonce, skk_CreatedAt = now\<rparr> = ?row" by (simp add: skipped_row_def r)
  have "snd (StoreSkippedKey (cs i) now
      \<lparr>sk_ConversationID = cid, skk_MessageNumber = n, EncryptedKey = box_seal P k nonce (masterKey ccm),
       skk_Nonce = nonce, skk_CreatedAt = 0\<rparr> db) = ?db"
    using new fc Cons.prems(3) by (simp add: StoreSkippedKey_def orphan_def row sql_upsert_def)
  then have step: "save_skipped P rs cs now cid ccm i (x # ks) db = save_skipped P rs cs now cid ccm (Suc i) ks ?db"
    by (simp add: x r EncryptMessageKeyForStorage_def seal_for_storage_def)
  have "save_skipped P rs cs now cid ccm (Suc i) ks ?db
      = ?db\<lparr>skipped_keys := skipped_keys ?db @ map (skipped_row P rs now cid (masterKey ccm)) (enumerate (Suc i) ks)\<rparr>"
  proof (rule Cons.IH)
    show "distinct (map fst ks)" using Cons.prems(1) by simp
    show "has_conversation ?db cid" using Cons.prems(3) by (simp add: has_conversation_def)
    fix m assume m: "m \<in> fst ` set ks"
    then have "m \<noteq> n" using Cons.prems(1) by (auto simp: x)
    moreover have "(cid, m) \<notin> skipped_key_key ` set (skipped_keys db)" using Cons.prems(2) [of m] m by simp
    ultimately show "(cid, m) \<notin> skipped_key_key ` set (skipped_keys ?db)"
      by (auto simp: skipped_row_def skipped_key_key_def)
  qed
  with step show ?case by (simp add: x)
qed simp

lemma load_skipped_updates:
  assumes "\<forall>sk\<in>set sks. DecryptMessageKeyFromStorage P (EncryptedKey sk) (copy_arr 24 (skk_Nonce sk)) ccm = Inr (f sk)"
    and "distinct (map skk_MessageNumber sks)"
  shows "\<exists>sk. load_skipped P ccm sks r = r\<lparr>SkippedKeys := sk\<rparr>
     \<and> map_of sk = map_of (SkippedKeys r) ++ map_of (map (\<lambda>s. (skk_MessageNumber s, f s)) sks)"
  using assms
proof (induction sks arbitrary: r)
  case Nil
  show ?case by (auto intro: exI [of _ "SkippedKeys r"])
next
  case (Cons s sks)
  let ?r = "r\<lparr>SkippedKeys := AList.update (skk_MessageNumber s) (f s) (SkippedKeys r)\<rparr>"
  have 1: "load_skipped P ccm (s # sks) r = load_skipped P ccm sks ?r" using Cons.prems(1) by simp
  obtain sk where 2: "load_skipped P ccm sks ?r = ?r\<lparr>SkippedKeys := sk\<rparr>"
    "map_of sk = map_of (SkippedKeys ?r) ++ map_of (map (\<lambda>s. (skk_MessageNumber s, f s)) sks)"
    using Cons.IH [of ?r] Cons.prems by auto
  have "map_of (map (\<lambda>s. (skk_MessageNumber s, f s)) sks) (skk_MessageNumber s) = None"
    using Cons.prems(2) by (force simp: map_of_eq_None_iff)
  then have 3: "map_of (SkippedKeys ?r) ++ map_of (map (\<lambda>s. (skk_MessageNumber s, f s)) sks)
      = map_of (SkippedKeys r) ++ map_of (map (\<lambda>s. (skk_MessageNumber s, f s)) (s # sks))"
    by (auto simp: fun_eq_iff map_add_def update_conv' split: option.splits)
  have "load_skipped P ccm (s # sks) r = r\<lparr>SkippedKeys := sk\<rparr>" unfolding 1 2(1) by simp
  with 2(2) [unfolded 3] show ?case by blast
qed

lemma field32_concat:
  assumes "length a = 32" "length b = 32" "length c = 32" "length d = 32" "length e = 32" "length f = 32"
  shows "field32 0 (a @ b @ c @ d @ e @ f) = a" "field32 32 (a @ b @ c @ d @ e @ f) = b"
    "field32 64 (a @ b @ c @ d @ e @ f) = c" "field32 96 (a @ b @ c @ d @ e @ f) = d"
    "field32 128 (a @ b @ c @ d @ e @ f) = e" "field32 160 (a @ b @ c @ d @ e @ f) = f"
  using assms by (simp_all add: field32_def)

lemma DecryptRatchet_Encrypted:
  assumes "box_correct P" and "wf_arrays r" and "EncryptRatchetForStorage P rnd r ccm = Inr (ct, nonce)"
  shows "DecryptRatchetFromStorage P ct nonce ccm = Inr (r\<lparr>SendMessageNum := 0, RecvMessageNum := 0, SkippedKeys := []\<rparr>)"
  using assms
  by (auto simp: EncryptRatchetForStorage_def seal_for_storage_def DecryptRatchetFromStorage_def box_correct_def
      wf_arrays_def field32_concat split: option.splits)

lemma open_row:
  assumes "box_correct P" and "length k = 32" and "\<exists>n. rs i = Some n \<and> length n = 24"
  shows "DecryptMessageKeyFromStorage P (EncryptedKey (skipped_row P rs now cid (masterKey ccm) (i, n, k)))
     (copy_arr 24 (skk_Nonce (skipped_row P rs now cid (masterKey ccm) (i, n, k)))) ccm = Inr k"
  using assms by (auto simp: skipped_row_def DecryptMessageKeyFromStorage_def open_key_def box_correct_def)

text \<open>The rows written for a ratchet's skipped keys restore them, in whatever order they are read.\<close>

lemma skipped_rows_restore:
  fixes ks :: "(int \<times> bytes) list"
  assumes "box_correct P" and "\<forall>i. \<exists>n. rs i = Some n \<and> length n = 24"
    and "distinct (map fst ks)" and "list_all (\<lambda>(_, k). length k = 32) ks" and "SkippedKeys r = []"
    and "rows = map (skipped_row P rs now cid (masterKey ccm)) (enumerate 0 ks)"
  shows "\<exists>sk. load_skipped P ccm (sort_key skk_MessageNumber rows) r = r\<lparr>SkippedKeys := sk\<rparr> \<and> map_of sk = map_of ks"
proof -
  define f where "f s = projr (DecryptMessageKeyFromStorage P (EncryptedKey s) (copy_arr 24 (skk_Nonce s)) ccm)" for s :: ChatSkippedKey
  let ?g = "\<lambda>s. (skk_MessageNumber s, f s)"
  have op: "DecryptMessageKeyFromStorage P (EncryptedKey (skipped_row P rs now cid (masterKey ccm) (i, n, k)))
     (copy_arr 24 (skk_Nonce (skipped_row P rs now cid (masterKey ccm) (i, n, k)))) ccm = Inr k" if "(n, k) \<in> set ks" for i n k
    using assms(1,2,4) that by (intro open_row) (auto simp: list_all_iff)
  have ks: "map snd (enumerate 0 ks) = ks" by simp
  have mem: "(i, n, k) \<in> set (enumerate 0 ks) \<Longrightarrow> (n, k) \<in> set ks" for i n k
    using in_set_enumerate_eq [of "(i, n, k)" 0 ks] nth_mem [of i ks] by auto
  have num: "skk_MessageNumber (skipped_row P rs now cid (masterKey ccm) (i, n, k)) = n" for i n k
    by (simp add: skipped_row_def)
  have "map ?g rows = map snd (enumerate 0 ks)"
    unfolding assms(6) map_map by (rule map_cong [OF refl]) (auto simp: f_def op num dest!: mem)
  then have g: "map ?g rows = ks" using ks by simp
  have d: "distinct (map skk_MessageNumber rows)" using assms(3) unfolding g [symmetric] by (simp add: comp_def)
  have ok: "\<forall>s\<in>set rows. DecryptMessageKeyFromStorage P (EncryptedKey s) (copy_arr 24 (skk_Nonce s)) ccm = Inr (f s)"
    unfolding assms(6) f_def by (auto dest!: mem simp: op)
  have "distinct (map fst (map ?g (sort_key skk_MessageNumber rows)))" "distinct (map fst ks)"
    using d assms(3) by (simp_all add: comp_def distinct_map)
  moreover have "set (map ?g (sort_key skk_MessageNumber rows)) = set ks" using arg_cong [OF g, of set] by simp
  ultimately have "map_of (map ?g (sort_key skk_MessageNumber rows)) = map_of ks" by (simp add: map_of_inject_set)
  with load_skipped_updates [of "sort_key skk_MessageNumber rows" P ccm f r] ok d assms(5)
  show ?thesis by (auto simp: distinct_map)
qed

text \<open>
  C16. A ratchet survives a restart: saving it into working tables and loading it in a node that has
  lost its memory gives back all six keys, both counters and exactly the skipped message keys.
\<close>

theorem ratchet_survives_restart:
  assumes "box_correct P" and "ratchets (cryptoManager node) cid = Some r" and "wf_arrays r"
    and "has_conversation (chat_tables node) cid" and "8 \<le> length cid"
    and "\<forall>i. \<exists>n. rs i = Some n \<and> length n = 24" and "\<forall>i. fault (cs i) = NoFault" and "\<forall>i. fault (cs' i) = NoFault"
  shows "\<exists>node1 node2 sk. saveRatchetStateComplete P rs cs now cid kc node = (None, node1)
     \<and> loadRatchetState P cs' cid (restarted node1) = Some (None, node2)
     \<and> ratchets (cryptoManager node2) cid = Some (r\<lparr>SkippedKeys := sk\<rparr>) \<and> map_of sk = map_of (SkippedKeys r)"
proof -
  let ?ccm = "cryptoManager node" and ?db = "chat_tables node"
  obtain nonce where n: "rs 0 = Some nonce" "length nonce = 24" using assms(6) by blast
  obtain ct where e: "EncryptRatchetForStorage P (rs 0) r ?ccm = Inr (ct, nonce)"
    by (simp add: EncryptRatchetForStorage_def seal_for_storage_def n)
  define st where "st = \<lparr>rs_ConversationID = cid, EncryptedState = ct, rs_Nonce = nonce,
     rs_SendMessageNum = SendMessageNum r, rs_RecvMessageNum = RecvMessageNum r,
     rs_RemoteDHPubKey = RemoteDHPubKey r, KeyExchangeComplete = kc, rs_UpdatedAt = now\<rparr>"
  define db1 where "db1 = ?db\<lparr>ratchet_states := sql_upsert rs_ConversationID st (ratchet_states ?db),
     skipped_keys := sql_delete (\<lambda>k. sk_ConversationID k = cid) (skipped_keys ?db)\<rparr>"
  define rows where "rows = map (skipped_row P (\<lambda>i. rs (Suc i)) now cid (masterKey ?ccm)) (enumerate 0 (SkippedKeys r))"
  define db2 where "db2 = db1\<lparr>skipped_keys := skipped_keys db1 @ rows\<rparr>"
  have "save_skipped P (\<lambda>i. rs (Suc i)) (\<lambda>i. cs (i + 2)) now cid ?ccm 0 (SkippedKeys r) db1 = db2"
    unfolding db2_def rows_def using assms(3,4,6,7)
    by (intro save_skipped_appends) (fastforce simp: wf_arrays_def db1_def sql_delete_def skipped_key_key_def has_conversation_def)+
  then have save: "saveRatchetStateComplete P rs cs now cid kc node = (None, node\<lparr>chat_tables := db2\<rparr>)"
    using assms(2,4,7) e
    by (simp add: saveRatchetStateComplete_def GetRatchet_def StoreRatchetState_def orphan_def
        DeleteAllSkippedKeysForConversation_def Let_def st_def db1_def)
  let ?ccm' = "?ccm\<lparr>ratchets := Map.empty, groupKeys := Map.empty\<rparr>"
  let ?r0 = "r\<lparr>SendMessageNum := 0, RecvMessageNum := 0, SkippedKeys := []\<rparr>"
  have get: "GetRatchetState (cs' 0) cid db2 = Inr (Some st)"
    using assms(8) row_at_upsert [of rs_ConversationID cid st]
    by (simp add: GetRatchetState_def db2_def db1_def st_def)
  have dec: "DecryptRatchetFromStorage P ct nonce ?ccm' = Inr ?r0"
    using DecryptRatchet_Encrypted [OF assms(1,3) e] by (simp add: DecryptRatchetFromStorage_def)
  have rows_cid: "filter (\<lambda>k. sk_ConversationID k = cid) (skipped_keys db2) = rows"
    by (auto simp: db2_def db1_def rows_def sql_delete_def skipped_row_def filter_empty_conv filter_id_conv)
  let ?r1 = "?r0\<lparr>SendMessageNum := SendMessageNum r, RecvMessageNum := RecvMessageNum r\<rparr>"
  obtain sk where sk: "load_skipped P ?ccm' (sort_key skk_MessageNumber rows) ?r1 = ?r1\<lparr>SkippedKeys := sk\<rparr>"
    "map_of sk = map_of (SkippedKeys r)"
    using skipped_rows_restore [OF assms(1), of "\<lambda>i. rs (Suc i)" "SkippedKeys r" ?r1 rows now cid ?ccm'] assms(3,6)
    by (auto simp: rows_def wf_arrays_def)
  have "loadRatchetState P cs' cid (restarted (node\<lparr>chat_tables := db2\<rparr>))
      = Some (None, (restarted (node\<lparr>chat_tables := db2\<rparr>))\<lparr>cryptoManager := SetRatchet cid (?r1\<lparr>SkippedKeys := sk\<rparr>) ?ccm'\<rparr>)"
    using get dec n(2) assms(5,8) sk(1)
    by (simp add: loadRatchetState_def restarted_def GetRatchet_def st_def GetAllSkippedKeys_def rows_cid slice8_def)
  moreover have "?r1\<lparr>SkippedKeys := sk\<rparr> = r\<lparr>SkippedKeys := sk\<rparr>" by simp
  ultimately show ?thesis using save sk(2) by (auto simp: SetRatchet_def)
qed

definition sample_conversation :: ChatConversation where
  "sample_conversation =
     \<lparr>conv_ConversationID = ''conversation-1'', ConversationType = ''1on1'', conv_PeerID = ''bob-peer-id'', GroupName = [],
      conv_CreatedAt = 0, conv_UpdatedAt = 0, LastMessageAt = 0, UnreadCount = 0\<rparr>"

definition sample_chat_db :: chat_db where
  "sample_chat_db =
     \<lparr>conversations = [sample_conversation], messages = [], group_members = [], sender_keys = [], ratchet_states = [],
      skipped_keys = []\<rparr>"

definition sample_stored :: DoubleRatchet where
  "sample_stored =
     \<lparr>DHRatchetPrivKey = replicate 32 1, DHRatchetPubKey = replicate 32 2, RemoteDHPubKey = replicate 32 3,
      RootKey = replicate 32 4, SendChainKey = replicate 32 5, RecvChainKey = replicate 32 6,
      SendMessageNum = 7, RecvMessageNum = 9, SkippedKeys = [(8, replicate 32 8), (3, replicate 32 9)]\<rparr>"

definition sample_node :: chat_node where
  "sample_node =
     \<lparr>peerID = ''alice-peer-id'', chat_tables = sample_chat_db,
      cryptoManager = sample_manager\<lparr>ratchets := [''conversation-1'' \<mapsto> sample_stored]\<rparr>,
      pendingSenderKeys = (\<lambda>_. []), pendingGroupMessages = (\<lambda>_. []), outbox = []\<rparr>"

theorem ratchet_survives_restart_witness:
  "\<exists>node1 node2 sk.
     saveRatchetStateComplete toy_prims (\<lambda>i. Some (replicate 24 (of_nat i))) (\<lambda>_. good_conn) 5 ''conversation-1'' True sample_node
       = (None, node1)
     \<and> loadRatchetState toy_prims (\<lambda>_. good_conn) ''conversation-1'' (restarted node1) = Some (None, node2)
     \<and> ratchets (cryptoManager node2) ''conversation-1'' = Some (sample_stored\<lparr>SkippedKeys := sk\<rparr>)
     \<and> map_of sk = map_of (SkippedKeys sample_stored)"
  by (rule ratchet_survives_restart [OF toy_box])
    (simp_all add: sample_node_def sample_chat_db_def sample_conversation_def has_conversation_def wf_arrays_def
      sample_stored_def good_conn_def)

section \<open>Key exchange messages\<close>

text \<open>The reply of a key exchange is an acknowledgement with the same fields.\<close>

definition HandleChatKeyExchange ::
  "prims \<Rightarrow> rands \<Rightarrow> conns \<Rightarrow> int \<Rightarrow> ChatKeyExchangeData option \<Rightarrow> string \<Rightarrow> bytes \<Rightarrow> chat_node
     \<Rightarrow> (ChatKeyExchangeData option \<times> chat_node) option" where
  "HandleChatKeyExchange P rs cs now msg remotePeerID remotePeerPubKey node = do {
     slice8 remotePeerID;
     (case msg of
        None \<Rightarrow> Some (None, node)
      | Some d \<Rightarrow>
          if kx_ToPeerID d \<noteq> peerID node then do { slice8 (kx_ToPeerID d); slice8 (peerID node); Some (None, node) }
          else if kx_FromPeerID d \<noteq> remotePeerID then Some (None, node)
          else if now - kx_Timestamp d > 5 * 60 then Some (None, node)
          else if length (kx_EphemeralPubKey d) \<noteq> 32 then Some (None, node)
          else
            (case AcceptKeyExchange P (rs 0) (kx_ConversationID d) remotePeerPubKey (kx_EphemeralPubKey d)
                    (kx_IdentitySignature d) (cryptoManager node) of
               (Panic, _) \<Rightarrow> None
             | (Err _, ccm) \<Rightarrow> Some (None, node\<lparr>cryptoManager := ccm\<rparr>)
             | (Ok (ourEphemeralPubKey, ourSignature), ccm) \<Rightarrow>
                 let node1 = node\<lparr>cryptoManager := ccm\<rparr>
                 in case GetConversation (cs 0) (kx_ConversationID d) (chat_tables node1) of
                      Inl _ \<Rightarrow> Some (None, node1)
                    | Inr conv \<Rightarrow> do {
                        (failed, node2) \<leftarrow>
                          (case conv of
                             Some _ \<Rightarrow> Some (False, node1)
                           | None \<Rightarrow>
                               (case CreateConversation (cs 1) now
                                       \<lparr>conv_ConversationID = kx_ConversationID d, ConversationType = ''1on1'',
                                        conv_PeerID = remotePeerID, GroupName = [], conv_CreatedAt = 0, conv_UpdatedAt = 0,
                                        LastMessageAt = 0, UnreadCount = 0\<rparr> (chat_tables node1) of
                                  (Some _, db) \<Rightarrow> Some (True, node1\<lparr>chat_tables := db\<rparr>)
                                | (None, db) \<Rightarrow> do { slice8 (kx_ConversationID d); Some (False, node1\<lparr>chat_tables := db\<rparr>) }));
                        if failed then Some (None, node2)
                        else
                          let node3 = snd (saveRatchetStateComplete P (\<lambda>i. rs (Suc i)) (\<lambda>i. cs (i + 2)) now
                                             (kx_ConversationID d) True node2)
                          in Some (Some \<lparr>kx_ConversationID = kx_ConversationID d, kx_FromPeerID = peerID node,
                                         kx_ToPeerID = remotePeerID, kx_EphemeralPubKey = ourEphemeralPubKey,
                                         kx_IdentitySignature = ourSignature, kx_Timestamp = now\<rparr>, node3)
                      })) }"

text \<open>The tail shared by the acknowledgement handlers: \<open>HandleKeyExchangeAck\<close> and the two senders save under their own id.\<close>

definition complete_and_save ::
  "prims \<Rightarrow> rands \<Rightarrow> conns \<Rightarrow> int \<Rightarrow> string \<Rightarrow> ChatKeyExchangeData \<Rightarrow> bytes \<Rightarrow> chat_node \<Rightarrow> (bool \<times> chat_node) option" where
  "complete_and_save P rs cs now savedID d remotePeerPubKey node =
     (case CompleteKeyExchange P (kx_ConversationID d) remotePeerPubKey (kx_EphemeralPubKey d) (kx_IdentitySignature d)
             (cryptoManager node) of
        (Panic, _) \<Rightarrow> None
      | (Err _, ccm) \<Rightarrow> Some (False, node\<lparr>cryptoManager := ccm\<rparr>)
      | (Ok _, ccm) \<Rightarrow>
          Some (True, snd (saveRatchetStateComplete P rs cs now savedID True (node\<lparr>cryptoManager := ccm\<rparr>))))"

definition HandleChatKeyExchangeAck ::
  "prims \<Rightarrow> rands \<Rightarrow> conns \<Rightarrow> int \<Rightarrow> ChatKeyExchangeData option \<Rightarrow> string \<Rightarrow> bytes \<Rightarrow> chat_node \<Rightarrow> chat_node option" where
  "HandleChatKeyExchangeAck P rs cs now msg remotePeerID remotePeerPubKey node = do {
     slice8 remotePeerID;
     (case msg of
        None \<Rightarrow> Some node
      | Some d \<Rightarrow>
          if kx_ToPeerID d \<noteq> peerID node \<or> kx_FromPeerID d \<noteq> remotePeerID \<or> length (kx_EphemeralPubKey d) \<noteq> 32
          then Some node
          else map_option snd (complete_and_save P rs cs now (kx_ConversationID d) d remotePeerPubKey node)) }"

datatype ack_error = AckParseFailed | AckNotForUs | AckSenderMismatch | AckNoPublicKey | AckKeySize | AckCompleteFailed

definition HandleKeyExchangeAck ::
  "prims \<Rightarrow> rands \<Rightarrow> conns \<Rightarrow> int \<Rightarrow> string \<Rightarrow> string \<Rightarrow> ChatKeyExchangeData option \<Rightarrow> (string \<Rightarrow> bytes option) \<Rightarrow> chat_node
     \<Rightarrow> ((ack_error option) \<times> chat_node) option" where
  "HandleKeyExchangeAck P rs cs now conversationID toPeerID ack known_key node =
     (case ack of
        None \<Rightarrow> Some (Some AckParseFailed, node)
      | Some d \<Rightarrow>
          if kx_ToPeerID d \<noteq> peerID node then Some (Some AckNotForUs, node)
          else if kx_FromPeerID d \<noteq> toPeerID then Some (Some AckSenderMismatch, node)
          else
            (case known_key toPeerID of
               None \<Rightarrow> Some (Some AckNoPublicKey, node)
             | Some pk \<Rightarrow>
                 if pk = [] then Some (Some AckNoPublicKey, node)
                 else if length (kx_EphemeralPubKey d) \<noteq> 32 then Some (Some AckKeySize, node)
                 else do {
                   (ok, node') \<leftarrow> complete_and_save P rs cs now conversationID d pk node;
                   if ok then do { slice8 toPeerID; Some (None, node') } else Some (Some AckCompleteFailed, node')
                 }))"

section \<open>Messages of conversations\<close>

definition go_string :: "bytes \<Rightarrow> string" where
  "go_string b = map (\<lambda>w. char_of (unat w)) b"

definition go_bytes :: "string \<Rightarrow> bytes" where
  "go_bytes s = map of_char s"

lemma unat_of_char: "unat (of_char c :: 8 word) = of_char c"
proof -
  have "(of_char c :: 8 word) = of_nat (of_char c)" by (rule of_nat_of_char [symmetric])
  moreover have "(of_char c :: nat) < 256" by simp
  ultimately show ?thesis by (simp only: unat_of_nat) simp
qed

lemma go_string_bytes [simp]: "go_string (go_bytes s) = s"
  by (induction s) (auto simp: go_string_def go_bytes_def unat_of_char)

definition received_row :: "int \<Rightarrow> ChatMessageData \<Rightarrow> bytes \<Rightarrow> ChatMessage" where
  "received_row now d plaintext =
     \<lparr>MessageID = md_MessageID d, cm_ConversationID = md_ConversationID d, cm_SenderPeerID = md_SenderPeerID d,
      EncryptedContent = md_EncryptedContent d, cm_Nonce = md_Nonce d, cm_MessageNumber = md_MessageNumber d,
      cm_Timestamp = md_Timestamp d, cm_Status = ''delivered'', SentAt = 0, DeliveredAt = now, ReadAt = 0,
      DecryptedContent = go_string plaintext\<rparr>"

text \<open>\<open>cs\<close> are the connections of loading (two) and saving the ratchet, \<open>ds\<close> of storing the message and of the unread counter.\<close>

definition HandleChatMessage ::
  "prims \<Rightarrow> rands \<Rightarrow> conns \<Rightarrow> conns \<Rightarrow> int \<Rightarrow> ChatMessageData option \<Rightarrow> string \<Rightarrow> chat_node \<Rightarrow> chat_node option" where
  "HandleChatMessage P rs cs ds now msg remotePeerID node = do {
     slice8 remotePeerID;
     (case msg of
        None \<Rightarrow> Some node
      | Some d \<Rightarrow>
          if md_SenderPeerID d \<noteq> remotePeerID then Some node
          else do {
            (e, node1) \<leftarrow> loadRatchetState P cs (md_ConversationID d) node;
            if e \<noteq> None \<or> length (md_Nonce d) \<noteq> 24 \<or> length (md_DHPubKey d) \<noteq> 32 then Some node1
            else
              (case Decrypt1on1Message P (rs 0) (md_ConversationID d) (md_EncryptedContent d) (md_Nonce d)
                      (md_MessageNumber d) (md_DHPubKey d) (cryptoManager node1) of
                 (Ok plaintext, ccm) \<Rightarrow>
                   let node2 = snd (ch_saveRatchetState P (\<lambda>i. rs (Suc i)) (\<lambda>i. cs (i + 2)) now (md_ConversationID d)
                                      (node1\<lparr>cryptoManager := ccm\<rparr>))
                   in (case StoreMessage (ds 0) (ds 1) now (received_row now d plaintext) (chat_tables node2) of
                         (Some _, db) \<Rightarrow> Some (node2\<lparr>chat_tables := db\<rparr>)
                       | (None, db) \<Rightarrow> do {
                           slice8 (md_MessageID d);
                           slice8 (md_ConversationID d);
                           Some (node2\<lparr>chat_tables := snd (IncrementUnreadCount (ds 2) now (md_ConversationID d) db),
                                       outbox := outbox node2 @
                                         [(remotePeerID, DeliveryConfirmation (md_MessageID d) (md_ConversationID d))]\<rparr>)
                         })
               | (_, ccm) \<Rightarrow> do { slice8 (md_MessageID d); Some (node1\<lparr>cryptoManager := ccm\<rparr>) })
          }) }"

text \<open>A confirmation or receipt: the status of the named message is set, whoever sent it.\<close>

definition handle_status ::
  "string \<Rightarrow> conn \<Rightarrow> int \<Rightarrow> (string \<times> string) option \<Rightarrow> string \<Rightarrow> chat_node \<Rightarrow> chat_node option" where
  "handle_status status c now msg remotePeerID node = do {
     slice8 remotePeerID;
     (case msg of
        None \<Rightarrow> Some node
      | Some (messageID, conversationID) \<Rightarrow>
          (case UpdateMessageStatus c now messageID status (chat_tables node) of
             (Some _, db) \<Rightarrow> Some (node\<lparr>chat_tables := db\<rparr>)
           | (None, db) \<Rightarrow> do { slice8 messageID; Some (node\<lparr>chat_tables := db\<rparr>) })) }"

definition HandleChatDeliveryConfirmation ::
  "conn \<Rightarrow> int \<Rightarrow> (string \<times> string) option \<Rightarrow> string \<Rightarrow> chat_node \<Rightarrow> chat_node option" where
  "HandleChatDeliveryConfirmation c now msg remotePeerID node = handle_status ''delivered'' c now msg remotePeerID node"

definition HandleChatReadReceipt ::
  "conn \<Rightarrow> int \<Rightarrow> (string \<times> string) option \<Rightarrow> string \<Rightarrow> chat_node \<Rightarrow> chat_node option" where
  "HandleChatReadReceipt c now msg remotePeerID node = handle_status ''read'' c now msg remotePeerID node"

section \<open>Sending\<close>

datatype send_error =
  CheckRatchetFailed db_error | KeyExchangeRequired | LoadFailed ratchet_io_error | EncryptFailed chat_error
| SaveFailed ratchet_io_error | StoreFailed db_error | SendFailed

text \<open>
  The outcome of one attempt to reach the peer: stored for an offline public peer, delivered on a
  direct connection, handed to a relay, or failed.
\<close>

datatype attempt = Queued | Direct | Relayed | AttemptFailed

fun attempt_status :: "attempt \<Rightarrow> string option" where
  "attempt_status Queued = Some ''sent''"
| "attempt_status Direct = Some ''delivered''"
| "attempt_status Relayed = Some ''sent''"
| "attempt_status AttemptFailed = None"

text \<open>The retry loop: the status of the first successful attempt among \<open>maxRetries + 1\<close>.\<close>

fun send_loop :: "attempt list \<Rightarrow> string option" where
  "send_loop [] = None"
| "send_loop (a # as) = (case attempt_status a of Some s \<Rightarrow> Some s | None \<Rightarrow> send_loop as)"

definition sent_row :: "string \<Rightarrow> string \<Rightarrow> string \<Rightarrow> int \<Rightarrow> string \<Rightarrow> bytes \<Rightarrow> bytes \<Rightarrow> int \<Rightarrow> ChatMessage" where
  "sent_row messageID cid us now content ciphertext nonce messageNum =
     \<lparr>MessageID = messageID, cm_ConversationID = cid, cm_SenderPeerID = us, EncryptedContent = ciphertext, cm_Nonce = nonce,
      cm_MessageNumber = messageNum, cm_Timestamp = now, cm_Status = ''created'', SentAt = 0, DeliveredAt = 0, ReadAt = 0,
      DecryptedContent = content\<rparr>"

text \<open>
  The result carries the message that goes out, when it gets that far; \<open>attempts\<close> are the outcomes of
  the attempts and \<open>maxRetries\<close> is the handler's setting.
\<close>

definition SendChatMessageWithRetry ::
  "prims \<Rightarrow> rands \<Rightarrow> conns \<Rightarrow> conns \<Rightarrow> int \<Rightarrow> nat \<Rightarrow> attempt list \<Rightarrow> string \<Rightarrow> string \<Rightarrow> string \<Rightarrow> chat_node
     \<Rightarrow> ((send_error + string) \<times> ChatMessageData option \<times> chat_node) option" where
  "SendChatMessageWithRetry P rs cs ds now maxRetries attempts messageID cid content node =
     (case HasRatchetState (ds 0) cid (chat_tables node) of
        Inl e \<Rightarrow> Some (Inl (CheckRatchetFailed e), None, node)
      | Inr False \<Rightarrow> Some (Inl KeyExchangeRequired, None, node)
      | Inr True \<Rightarrow> do {
          (e, node1) \<leftarrow> loadRatchetState P cs cid node;
          (case e of
             Some e \<Rightarrow> Some (Inl (LoadFailed e), None, node1)
           | None \<Rightarrow>
               (case Encrypt1on1Message P (rs 0) cid (go_bytes content) (cryptoManager node1) of
                  (Ok (ciphertext, nonce, messageNum, dhPubKey), ccm) \<Rightarrow>
                    (case cmh_saveRatchetState P (\<lambda>i. rs (Suc i)) (\<lambda>i. cs (i + 2)) now cid (node1\<lparr>cryptoManager := ccm\<rparr>) of
                       (Some e, node2) \<Rightarrow> Some (Inl (SaveFailed e), None, node2)
                     | (None, node2) \<Rightarrow>
                         (case StoreMessage (ds 1) (ds 2) now
                                 (sent_row messageID cid (peerID node) now content ciphertext nonce messageNum)
                                 (chat_tables node2) of
                            (Some e, db) \<Rightarrow> Some (Inl (StoreFailed e), None, node2\<lparr>chat_tables := db\<rparr>)
                          | (None, db) \<Rightarrow>
                              let d = \<lparr>md_MessageID = messageID, md_ConversationID = cid, md_SenderPeerID = peerID node,
                                       md_EncryptedContent = ciphertext, md_Nonce = nonce, md_MessageNumber = messageNum,
                                       md_DHPubKey = dhPubKey, md_Timestamp = now\<rparr>
                              in case send_loop (take (Suc maxRetries) attempts) of
                                   Some status \<Rightarrow>
                                     Some (Inr messageID, Some d,
                                       node2\<lparr>chat_tables := snd (UpdateMessageStatus (ds 3) now messageID status db)\<rparr>)
                                 | None \<Rightarrow>
                                     Some (Inl SendFailed, Some d,
                                       node2\<lparr>chat_tables := snd (UpdateMessageStatus (ds 3) now messageID ''failed'' db)\<rparr>)))
                | (Err e, ccm) \<Rightarrow> Some (Inl (EncryptFailed e), None, node1\<lparr>cryptoManager := ccm\<rparr>)
                | (Panic, _) \<Rightarrow> None))
        })"

datatype kx_error = InitiateFailed chat_error | KxSaveFailed ratchet_io_error | KxSendFailed

text \<open>
  The sender of a key exchange; \<open>exchange\<close> is what sending the message did to the node (an
  acknowledgement on the same stream completes the exchange) and whether an attempt succeeded.
\<close>

definition cmh_InitiateKeyExchange ::
  "prims \<Rightarrow> rands \<Rightarrow> conns \<Rightarrow> int \<Rightarrow> (ChatKeyExchangeData \<Rightarrow> chat_node \<Rightarrow> bool \<times> chat_node) \<Rightarrow> string \<Rightarrow> string \<Rightarrow> bytes \<Rightarrow> chat_node
     \<Rightarrow> ((kx_error option) \<times> chat_node) option" where
  "cmh_InitiateKeyExchange P rs cs now exchange cid toPeerID remotePeerPubKey node = do {
     slice8 toPeerID;
     (case InitiateKeyExchange P (rs 0) cid remotePeerPubKey (cryptoManager node) of
        (Ok (ephemeralPubKey, signature), ccm) \<Rightarrow>
          (case cmh_saveRatchetState P (\<lambda>i. rs (Suc i)) cs now cid (node\<lparr>cryptoManager := ccm\<rparr>) of
             (Some e, node1) \<Rightarrow> Some (Some (KxSaveFailed e), node1)
           | (None, node1) \<Rightarrow> do {
               slice8 cid;
               (case exchange \<lparr>kx_ConversationID = cid, kx_FromPeerID = peerID node, kx_ToPeerID = toPeerID,
                               kx_EphemeralPubKey = ephemeralPubKey, kx_IdentitySignature = signature, kx_Timestamp = now\<rparr> node1 of
                  (True, node2) \<Rightarrow> Some (None, node2)
                | (False, node2) \<Rightarrow> Some (Some KxSendFailed, node2))
             })
      | (Err e, ccm) \<Rightarrow> Some (Some (InitiateFailed e), node\<lparr>cryptoManager := ccm\<rparr>)
      | (Panic, _) \<Rightarrow> None) }"

section \<open>An unfinished key exchange\<close>

lemma cmh_save_ccm: "cmh_saveRatchetState P rs cs now cid node = (e, node') \<Longrightarrow>
    cryptoManager node' = cryptoManager node \<and> peerID node' = peerID node"
  by (auto simp: cmh_saveRatchetState_def saveRatchetStateComplete_def Let_def split: sum.splits option.splits prod.splits)

lemma load_in_memory: "ratchets (cryptoManager node) cid = Some r \<Longrightarrow> loadRatchetState P cs cid node = Some (None, node)"
  by (simp add: loadRatchetState_def GetRatchet_def)

lemma SendChat_encrypts:
  assumes "ratchets (cryptoManager node) cid = Some r"
    and "SendChatMessageWithRetry P rs cs ds now mr as mid cid content node = Some (res, Some d, node')"
  shows "\<exists>nonce ct r'. rs 0 = Some nonce \<and> Encrypt P (Some nonce) (go_bytes content) r = (Inr (ct, nonce), r')
     \<and> d = \<lparr>md_MessageID = mid, md_ConversationID = cid, md_SenderPeerID = peerID node, md_EncryptedContent = ct,
            md_Nonce = nonce, md_MessageNumber = SendMessageNum r' - 1, md_DHPubKey = DHRatchetPubKey r', md_Timestamp = now\<rparr>"
  using assms(2)
  by (auto simp: SendChatMessageWithRetry_def load_in_memory [OF assms(1)] Encrypt1on1Message_def assms(1) Encrypt_def
      split: sum.splits bool.splits option.splits prod.splits dest!: cmh_save_ccm simp: Let_def)

lemma save_skipped_frame:
  "messages (save_skipped P rs cs now cid ccm i ks db) = messages db
   \<and> conversations (save_skipped P rs cs now cid ccm i ks db) = conversations db"
  by (induction P rs cs now cid ccm i ks db rule: save_skipped.induct)
    (auto simp: StoreSkippedKey_def split: sum.splits prod.splits)

lemma save_succeeds:
  assumes "ratchets (cryptoManager node) cid = Some r" and "has_conversation (chat_tables node) cid"
    and "rs 0 \<noteq> None" and "fault (cs 0) = NoFault"
  shows "\<exists>node'. saveRatchetStateComplete P rs cs now cid kc node = (None, node')
     \<and> messages (chat_tables node') = messages (chat_tables node)
     \<and> conversations (chat_tables node') = conversations (chat_tables node)"
  using assms
  by (auto simp: saveRatchetStateComplete_def GetRatchet_def EncryptRatchetForStorage_def seal_for_storage_def
      StoreRatchetState_def orphan_def has_conversation_def DeleteAllSkippedKeysForConversation_def Let_def save_skipped_frame)

lemma StoreMessage_ok:
  assumes "fault c1 = NoFault" "fault c2 = NoFault" "cm_Status m \<in> set message_statuses"
    and "MessageID m \<notin> MessageID ` set (messages db)" and "has_conversation db (cm_ConversationID m)"
  shows "\<exists>db'. StoreMessage c1 c2 now m db = (None, db') \<and> messages db' = messages db @ [m]"
  using assms by (simp add: StoreMessage_def orphan_def Let_def)

text \<open>With working tables and randomness the sending handler gets the message out, whatever the attempts bring.\<close>

lemma SendChat_goes_out:
  assumes "hkdf_total P" and "ratchets (cryptoManager node) cid = Some r" and "has_conversation (chat_tables node) cid"
    and "cid \<in> rs_ConversationID ` set (ratchet_states (chat_tables node))"
    and "mid \<notin> MessageID ` set (messages (chat_tables node))"
    and "\<forall>i. rs i \<noteq> None" and "\<forall>i. fault (cs i) = NoFault" and "\<forall>i. fault (ds i) = NoFault"
  shows "\<exists>res d node'. SendChatMessageWithRetry P rs cs ds now mr as mid cid content node = Some (res, Some d, node')"
proof -
  obtain mk ck where mk: "DeriveMessageKey P (SendChainKey r) = Some (mk, ck)" by (rule DeriveMessageKey_total [OF assms(1)])
  obtain nonce where n: "rs 0 = Some nonce" using assms(6) by blast
  let ?r = "r\<lparr>SendChainKey := ck, SendMessageNum := SendMessageNum r + 1\<rparr>"
  let ?node = "node\<lparr>cryptoManager := (cryptoManager node)\<lparr>ratchets := (ratchets (cryptoManager node))(cid \<mapsto> ?r)\<rparr>\<rparr>"
  have enc: "Encrypt1on1Message P (rs 0) cid (go_bytes content) (cryptoManager node)
      = (Ok (box_seal P (go_bytes content) nonce mk, nonce, SendMessageNum r, DHRatchetPubKey r), cryptoManager ?node)"
    using assms(2) mk n by (simp add: Encrypt1on1Message_def Encrypt_def)
  have "\<exists>node2. cmh_saveRatchetState P (\<lambda>i. rs (Suc i)) (\<lambda>i. cs (i + 2)) now cid ?node = (None, node2)
      \<and> messages (chat_tables node2) = messages (chat_tables node) \<and> conversations (chat_tables node2) = conversations (chat_tables node)"
    using save_succeeds [of ?node cid ?r "\<lambda>i. rs (Suc i)" "\<lambda>i. cs (Suc i + 2)"] assms(3,6,7)
    by (auto simp: cmh_saveRatchetState_def GetRatchet_def Let_def)
  then obtain node2 where s: "cmh_saveRatchetState P (\<lambda>i. rs (Suc i)) (\<lambda>i. cs (i + 2)) now cid ?node = (None, node2)"
    "messages (chat_tables node2) = messages (chat_tables node)" "conversations (chat_tables node2) = conversations (chat_tables node)"
    by blast
  let ?row = "sent_row mid cid (peerID node) now content (box_seal P (go_bytes content) nonce mk) nonce (SendMessageNum r)"
  obtain db where "StoreMessage (ds 1) (ds 2) now ?row (chat_tables node2) = (None, db)"
    using StoreMessage_ok [of "ds 1" "ds 2" ?row "chat_tables node2" now] assms(3,5,8) s(2,3)
    by (auto simp: sent_row_def message_statuses_def has_conversation_def)
  moreover have "HasRatchetState (ds 0) cid (chat_tables node) = Inr True"
    using assms(4,8) by (auto simp: HasRatchetState_def filter_empty_conv)
  ultimately show ?thesis using enc s(1) assms(2)
    by (simp add: SendChatMessageWithRetry_def load_in_memory Let_def split: option.splits)
qed

text \<open>
   A key exchange that was started but not answered leaves a ratchet whose sending chain is all
  zeros, and the send path only asks whether a ratchet exists: the next message of the conversation is
  sealed under the first key of the zero chain, which everyone can compute.
\<close>

theorem unfinished_exchange_uses_zero_key:
  assumes "box_correct P" and "hkdf_total P"
    and "cmh_InitiateKeyExchange P rs cs now (\<lambda>d n. (False, n)) cid toPeer pk node = Some (Some KxSendFailed, node1)"
    and "SendChatMessageWithRetry P rs' cs' ds now' mr as mid cid content node1 = Some (res, Some d, node2)"
  shows "box_open P (md_EncryptedContent d) (md_Nonce d) (key_at P zero_key 0) = Some (go_bytes content)"
proof -
  obtain r where r: "ratchets (cryptoManager node1) cid = Some r" "SendChainKey r = zero_key"
    using assms(3)
    by (auto simp: cmh_InitiateKeyExchange_def InitiateKeyExchange_def NewDoubleRatchet_def fresh_ratchet_def
        split: sum.splits option.splits prod.splits bind_splits go_result.splits dest!: cmh_save_ccm)
  from SendChat_encrypts [OF r(1) assms(4)] obtain nonce ct r' where
    "Encrypt P (Some nonce) (go_bytes content) r = (Inr (ct, nonce), r')" "md_EncryptedContent d = ct" "md_Nonce d = nonce"
    by auto
  moreover have "DeriveMessageKey P zero_key = Some (key_at P zero_key 0, chain_at P zero_key (Suc 0))"
    using DeriveMessageKey_chain [OF assms(2), of zero_key 0] by simp
  ultimately have "md_EncryptedContent d = box_seal P (go_bytes content) (md_Nonce d) (key_at P zero_key 0)"
    using r(2) by (auto simp: Encrypt_def)
  with assms(1) show ?thesis by (simp add: box_correct_def)
qed

definition fresh_node :: chat_node where
  "fresh_node = sample_node\<lparr>cryptoManager := sample_manager\<rparr>"

abbreviation sample_rands :: rands where
  "sample_rands \<equiv> \<lambda>i. Some (replicate 24 (of_nat i))"

theorem unfinished_exchange_uses_zero_key_witness:
  "\<exists>node1 res d node2.
     cmh_InitiateKeyExchange toy_prims sample_rands (\<lambda>_. good_conn) 5 (\<lambda>d n. (False, n)) ''conversation-1'' ''bob-peer-id'' toy_pk
       fresh_node = Some (Some KxSendFailed, node1)
     \<and> SendChatMessageWithRetry toy_prims sample_rands (\<lambda>_. good_conn) (\<lambda>_. good_conn) 9 3 [Direct] ''message-1'' ''conversation-1''
         ''secret'' node1 = Some (res, Some d, node2)
     \<and> box_open toy_prims (md_EncryptedContent d) (md_Nonce d) (key_at toy_prims zero_key 0) = Some (go_bytes ''secret'')"
proof -
  obtain x where x: "ed25519PrivateKeyToCurve25519 toy_prims toy_sk = Inr x" "ed25519PublicKeyToCurve25519 toy_pk = Inr (base_mult toy_prims x)"
    using toy_identity by (auto simp: identity_def)
  obtain ss where ss: "x25519 toy_prims x (base_mult toy_prims x) = Some ss" by (simp add: toy_prims_def)
  obtain node1 where 1: "cmh_InitiateKeyExchange toy_prims sample_rands (\<lambda>_. good_conn) 5 (\<lambda>d n. (False, n)) ''conversation-1''
      ''bob-peer-id'' toy_pk fresh_node = Some (Some KxSendFailed, node1)" "ratchet_states (chat_tables node1) \<noteq> []"
    "\<exists>r. ratchets (cryptoManager node1) ''conversation-1'' = Some r \<and> SkippedKeys r = []" "conversations (chat_tables node1) = [sample_conversation]"
    "messages (chat_tables node1) = []" "rs_ConversationID (hd (ratchet_states (chat_tables node1))) = ''conversation-1''"
    "masterKey (cryptoManager node1) = zero_key"
    using x ss
    by (simp add: cmh_InitiateKeyExchange_def slice8_def fresh_node_def sample_node_def sample_manager_def InitiateKeyExchange_def
        NewDoubleRatchet_def cmh_saveRatchetState_def GetRatchet_def saveRatchetStateComplete_def EncryptRatchetForStorage_def
        seal_for_storage_def StoreRatchetState_def good_conn_def orphan_def has_conversation_def sample_chat_db_def
        sample_conversation_def GetRatchetState_def DeleteAllSkippedKeysForConversation_def sql_upsert_def)
  obtain r where r: "ratchets (cryptoManager node1) ''conversation-1'' = Some r" "SkippedKeys r = []" using 1(3) by blast
  have "\<exists>res d node2. SendChatMessageWithRetry toy_prims sample_rands (\<lambda>_. good_conn) (\<lambda>_. good_conn) 9 3 [Direct] ''message-1''
      ''conversation-1'' ''secret'' node1 = Some (res, Some d, node2)"
    by (rule SendChat_goes_out [OF toy_hkdf r(1)])
      (use 1 in \<open>cases "ratchet_states (chat_tables node1)"; simp add: good_conn_def has_conversation_def sample_conversation_def\<close>)+
  with unfinished_exchange_uses_zero_key [OF toy_box toy_hkdf 1(1)] 1(1) show ?thesis by blast
qed

section \<open>From one user to the other\<close>

lemma ch_save_frame:
  assumes "ch_saveRatchetState P rs cs now cid node = (e, node')"
  shows "messages (chat_tables node') = messages (chat_tables node)
     \<and> conversations (chat_tables node') = conversations (chat_tables node) \<and> outbox node' = outbox node"
  using assms save_skipped_frame
  by (auto simp: ch_saveRatchetState_def saveRatchetStateComplete_def Let_def StoreRatchetState_def
      DeleteAllSkippedKeysForConversation_def split: sum.splits option.splits prod.splits if_splits)

lemma Increment_messages [simp]: "messages (snd (IncrementUnreadCount c now cid db)) = messages db"
  by (simp add: IncrementUnreadCount_def)



section \<open>What any peer can do\<close>

text \<open>
   Any peer can take over a conversation: a key exchange that names an existing conversation with
  somebody else is accepted, the ratchet of the conversation is replaced by one shared with the new
  peer, and the conversation keeps naming the old one.
\<close>

theorem key_exchange_takes_over_conversation:
  assumes "hkdf_total P" and "dh_total P" and "identity P skM pkM"
    and "identity P (PrivateKey (keyPair (cryptoManager node))) pkN"
    and "row_at conv_ConversationID cid (conversations (chat_tables node)) = Some conv" and "conv_PeerID conv \<noteq> peerM"
    and "8 \<le> length peerM" and "fault (cs 0) = NoFault" and "length (base_mult P m) = 32"
    and "d = \<lparr>kx_ConversationID = cid, kx_FromPeerID = peerM, kx_ToPeerID = peerID node, kx_EphemeralPubKey = base_mult P m,
              kx_IdentitySignature = ed_sign P skM (base_mult P m), kx_Timestamp = now\<rparr>"
  shows "\<exists>ack node' r. HandleChatKeyExchange P (\<lambda>_. Some rnd) cs now (Some d) peerM pkM node = Some (Some ack, node')
     \<and> ratchets (cryptoManager node') cid = Some r \<and> RemoteDHPubKey r = base_mult P m
     \<and> row_at conv_ConversationID cid (conversations (chat_tables node')) = Some conv"
proof -
  obtain xm where xm: "ed25519PublicKeyToCurve25519 pkM = Inr (base_mult P xm)" using assms(3) by (auto simp: identity_def)
  obtain xn where xn: "ed25519PrivateKeyToCurve25519 P (PrivateKey (keyPair (cryptoManager node))) = Inr xn"
    using assms(4) by (auto simp: identity_def)
  have dh: "x25519 P p (base_mult P q) \<noteq> None" for p q using assms(2) unfolding dh_total_def by blast
  obtain ss where ss: "x25519 P xn (base_mult P xm) = Some ss" using dh [of xn xm] by auto
  obtain o2 where o2: "x25519 P rnd (base_mult P m) = Some o2" using dh [of rnd m] by auto
  obtain rk ck where "DeriveRootKey P (copy_arr 32 ss) (copy_arr 32 o2) = Some (rk, ck)" by (rule DeriveRootKey_total [OF assms(1)])
  with o2 obtain r where r: "initializeReceiverChains P (base_mult P m)
      ((fresh_ratchet P rnd zero_key (copy_arr 32 ss))\<lparr>RemoteDHPubKey := base_mult P m\<rparr>) = (None, r)" "RemoteDHPubKey r = base_mult P m"
    by (simp add: initializeReceiverChains_def Let_def)
  let ?ccm = "(cryptoManager node)\<lparr>ratchets := (ratchets (cryptoManager node))(cid \<mapsto> r)\<rparr>"
  obtain eph sig where acc: "AcceptKeyExchange P (Some rnd) cid pkM (base_mult P m) (ed_sign P skM (base_mult P m)) (cryptoManager node)
      = (Ok (eph, sig), ?ccm)"
    using identity_verifies [OF assms(3)] xn xm ss r(1) by (simp add: AcceptKeyExchange_def NewDoubleRatchetReceiver_def)
  obtain e node3 where sv: "saveRatchetStateComplete P (\<lambda>i. Some rnd) (\<lambda>i. cs (i + 2)) now cid True (node\<lparr>cryptoManager := ?ccm\<rparr>)
      = (e, node3)" by fastforce
  have n3: "cryptoManager node3 = ?ccm" "conversations (chat_tables node3) = conversations (chat_tables node)"
    using sv save_skipped_frame
    by (auto simp: saveRatchetStateComplete_def Let_def StoreRatchetState_def DeleteAllSkippedKeysForConversation_def
        split: sum.splits option.splits prod.splits if_splits)
  have "\<exists>ack. HandleChatKeyExchange P (\<lambda>_. Some rnd) cs now (Some d) peerM pkM node = Some (Some ack, node3)"
    using assms(5,7-10) acc sv by (simp add: HandleChatKeyExchange_def slice8_def GetConversation_def)
  with n3 r(2) assms(5) show ?thesis by auto
qed

definition mallory_exchange :: ChatKeyExchangeData where
  "mallory_exchange =
     \<lparr>kx_ConversationID = ''conversation-1'', kx_FromPeerID = ''mallory-id'', kx_ToPeerID = ''alice-peer-id'',
      kx_EphemeralPubKey = base_mult toy_prims [7], kx_IdentitySignature = ed_sign toy_prims toy_sk (base_mult toy_prims [7]),
      kx_Timestamp = 100\<rparr>"

theorem key_exchange_takes_over_conversation_witness:
  "\<exists>ack node' r. HandleChatKeyExchange toy_prims (\<lambda>_. Some [9]) (\<lambda>_. good_conn) 100 (Some mallory_exchange) ''mallory-id'' toy_pk
       sample_node = Some (Some ack, node')
     \<and> ratchets (cryptoManager node') ''conversation-1'' = Some r \<and> RemoteDHPubKey r = base_mult toy_prims [7]
     \<and> row_at conv_ConversationID ''conversation-1'' (conversations (chat_tables node')) = Some sample_conversation"
  by (rule key_exchange_takes_over_conversation [OF toy_hkdf toy_dh_total toy_identity, where pkN = toy_pk])
    (use toy_identity toy_dh in \<open>simp_all add: sample_node_def sample_manager_def sample_chat_db_def sample_conversation_def
       row_at_def good_conn_def mallory_exchange_def dh_commutes_def\<close>)

text \<open>
   A key exchange can crash the node: with a recipient field shorter than eight bytes the warning
  about a wrong recipient slices out of range, and from a peer whose public key is not known (an empty
  key) the signature check panics.
\<close>

theorem key_exchange_crashes_node:
  assumes "8 \<le> length remote"
  shows "(length (kx_ToPeerID d) < 8 \<and> kx_ToPeerID d \<noteq> peerID node \<longrightarrow>
            HandleChatKeyExchange P rs cs now (Some d) remote pk node = None)
     \<and> (kx_ToPeerID d = peerID node \<and> kx_FromPeerID d = remote \<and> now - kx_Timestamp d \<le> 300 \<and> length (kx_EphemeralPubKey d) = 32
          \<longrightarrow> HandleChatKeyExchange P rs cs now (Some d) remote [] node = None)"
  using assms by (simp add: HandleChatKeyExchange_def slice8_def AcceptKeyExchange_def verify_signature_def)

theorem key_exchange_crashes_node_witness:
  "HandleChatKeyExchange toy_prims (\<lambda>_. None) (\<lambda>_. good_conn) 100 (Some (mallory_exchange\<lparr>kx_ToPeerID := ''x''\<rparr>)) ''mallory-id''
      toy_pk sample_node = None
   \<and> HandleChatKeyExchange toy_prims (\<lambda>_. None) (\<lambda>_. good_conn) 100 (Some mallory_exchange) ''mallory-id'' [] sample_node = None"
  using key_exchange_crashes_node [of "''mallory-id''" "mallory_exchange\<lparr>kx_ToPeerID := ''x''\<rparr>" sample_node]
    key_exchange_crashes_node [of "''mallory-id''" mallory_exchange sample_node] toy_dh
  by (simp add: mallory_exchange_def sample_node_def dh_commutes_def)

end
