(* ===== verification/Chat_Groups.thy ===== *)
theory Chat_Groups
  imports Chat_Handlers
begin

text \<open>
  Group chat: the group handlers of \<open>internal/p2p/chat_handler.go\<close>, the group sender of
  \<open>chat_message_handler.go\<close> and the operations of \<open>internal/chat/chat_manager.go\<close>, over the node of
  \<open>Chat_Handlers\<close>.  \<open>known_key\<close> is the public key of a known peer; sending to another peer either
  works or not, which the arguments say.
\<close>

section \<open>Persisting sender keys\<close>

datatype persist_error = StateUnknown | KeyEncryptFailed | KeyStoreFailed db_error

definition store_key ::
  "prims \<Rightarrow> bytes option \<Rightarrow> conn \<Rightarrow> int \<Rightarrow> string \<Rightarrow> string \<Rightarrow> bytes \<Rightarrow> int \<Rightarrow> chat_node \<Rightarrow> (persist_error option) \<times> chat_node" where
  "store_key P rnd c now groupID sender chainKey messageNumber node =
     (case EncryptSenderKeyForStorage P rnd chainKey (cryptoManager node) of
        Inl _ \<Rightarrow> (Some KeyEncryptFailed, node)
      | Inr (encryptedChainKey, nonce) \<Rightarrow>
          (case StoreSenderKey c now
                  \<lparr>csk_ConversationID = groupID, csk_SenderPeerID = sender, EncryptedChainKey = encryptedChainKey,
                   csk_Nonce = nonce, csk_MessageNumber = messageNumber, csk_UpdatedAt = 0\<rparr> (chat_tables node) of
             (Some e, db) \<Rightarrow> (Some (KeyStoreFailed e), node\<lparr>chat_tables := db\<rparr>)
           | (None, db) \<Rightarrow> (None, node\<lparr>chat_tables := db\<rparr>)))"

definition PersistSenderKeyState ::
  "prims \<Rightarrow> bytes option \<Rightarrow> conn \<Rightarrow> int \<Rightarrow> string \<Rightarrow> string \<Rightarrow> chat_node \<Rightarrow> (persist_error option) \<times> chat_node" where
  "PersistSenderKeyState P rnd c now groupID sender node =
     (case GetSenderKeyState groupID sender (cryptoManager node) of
        Inl _ \<Rightarrow> (Some StateUnknown, node)
      | Inr (chainKey, messageNumber) \<Rightarrow> store_key P rnd c now groupID sender chainKey messageNumber node)"

definition persistOurSenderKeyState ::
  "prims \<Rightarrow> bytes option \<Rightarrow> conn \<Rightarrow> int \<Rightarrow> string \<Rightarrow> chat_node \<Rightarrow> (persist_error option) \<times> chat_node" where
  "persistOurSenderKeyState P rnd c now groupID node =
     (case ccm_GetOurSenderKeyState groupID (cryptoManager node) of
        Inl _ \<Rightarrow> (Some StateUnknown, node)
      | Inr (chainKey, messageNumber) \<Rightarrow> store_key P rnd c now groupID (peerID node) chainKey messageNumber node)"

text \<open>Loading the stored keys of a group; a key that does not decrypt is skipped after a warning.\<close>

fun load_keys ::
  "prims \<Rightarrow> string \<Rightarrow> string \<Rightarrow> ChatSenderKey list \<Rightarrow> ChatCryptoManager \<Rightarrow> ChatCryptoManager option" where
  "load_keys P us groupID [] ccm = Some ccm"
| "load_keys P us groupID (k # ks) ccm =
     (case DecryptSenderKeyFromStorage P (EncryptedChainKey k) (copy_arr 24 (csk_Nonce k)) ccm of
        Inl _ \<Rightarrow> do { slice8 (csk_SenderPeerID k); load_keys P us groupID ks ccm }
      | Inr chainKey \<Rightarrow>
          load_keys P us groupID ks
            (LoadGroupSenderKey groupID (csk_SenderPeerID k) chainKey (csk_MessageNumber k) (csk_SenderPeerID k = us) ccm))"

section \<open>Receiving\<close>

definition group_row :: "int \<Rightarrow> ChatGroupMessageData \<Rightarrow> bytes \<Rightarrow> ChatMessage" where
  "group_row now d plaintext =
     \<lparr>MessageID = gmd_MessageID d, cm_ConversationID = gmd_ConversationID d, cm_SenderPeerID = gmd_SenderPeerID d,
      EncryptedContent = gmd_EncryptedContent d, cm_Nonce = gmd_Nonce d, cm_MessageNumber = gmd_MessageNumber d,
      cm_Timestamp = gmd_Timestamp d, cm_Status = ''delivered'', SentAt = 0, DeliveredAt = now, ReadAt = 0,
      DecryptedContent = go_string plaintext\<rparr>"

definition decrypt_and_store ::
  "prims \<Rightarrow> (string \<Rightarrow> bytes option) \<Rightarrow> rands \<Rightarrow> conns \<Rightarrow> int \<Rightarrow> ChatGroupMessageData \<Rightarrow> string \<Rightarrow> chat_node \<Rightarrow> chat_node option" where
  "decrypt_and_store P known_key rs cs now d remotePeerID node =
     (case known_key remotePeerID of
        None \<Rightarrow> Some node
      | Some pk \<Rightarrow>
          if pk = [] \<or> length (gmd_Nonce d) \<noteq> 24 then Some node
          else
            (case ccm_DecryptGroupMessage P (gmd_ConversationID d) (gmd_SenderPeerID d) (gmd_EncryptedContent d) (gmd_Nonce d)
                    (gmd_MessageNumber d) (gmd_Signature d) pk (cryptoManager node) of
               (Inl _, ccm) \<Rightarrow> do { slice8 (gmd_MessageID d); Some (node\<lparr>cryptoManager := ccm\<rparr>) }
             | (Inr plaintext, ccm) \<Rightarrow>
                 let node1 = snd (PersistSenderKeyState P (rs 0) (cs 2) now (gmd_ConversationID d) (gmd_SenderPeerID d)
                                    (node\<lparr>cryptoManager := ccm\<rparr>))
                 in (case StoreMessage (cs 3) (cs 4) now (group_row now d plaintext) (chat_tables node1) of
                       (Some _, db) \<Rightarrow> Some (node1\<lparr>chat_tables := db\<rparr>)
                     | (None, db) \<Rightarrow> do {
                         slice8 (gmd_MessageID d);
                         slice8 (gmd_ConversationID d);
                         Some (node1\<lparr>chat_tables := snd (IncrementUnreadCount (cs 5) now (gmd_ConversationID d) db),
                                     outbox := outbox node1 @
                                       [(remotePeerID, DeliveryConfirmation (gmd_MessageID d) (gmd_ConversationID d))]\<rparr>)
                       })))"

definition HandleChatGroupMessage ::
  "prims \<Rightarrow> (string \<Rightarrow> bytes option) \<Rightarrow> rands \<Rightarrow> conns \<Rightarrow> int \<Rightarrow> ChatGroupMessageData option \<Rightarrow> string \<Rightarrow> chat_node \<Rightarrow> chat_node option" where
  "HandleChatGroupMessage P known_key rs cs now msg remotePeerID node = do {
     slice8 remotePeerID;
     (case msg of
        None \<Rightarrow> Some node
      | Some d \<Rightarrow>
          if gmd_SenderPeerID d \<noteq> remotePeerID then Some node
          else
            (case IsGroupMember (cs 0) (gmd_ConversationID d) (peerID node) (chat_tables node) of
               Inl _ \<Rightarrow> Some node
             | Inr False \<Rightarrow> do {
                 slice8 (gmd_ConversationID d);
                 Some (node\<lparr>pendingGroupMessages := (pendingGroupMessages node)(gmd_ConversationID d :=
                              pendingGroupMessages node (gmd_ConversationID d) @ [(d, remotePeerID)])\<rparr>)
               }
             | Inr True \<Rightarrow>
                 if HasGroupSenderKeys (gmd_ConversationID d) (cryptoManager node)
                 then decrypt_and_store P known_key rs cs now d remotePeerID node
                 else
                   (case GetAllSenderKeys (cs 1) (gmd_ConversationID d) (chat_tables node) of
                      Inl _ \<Rightarrow> Some node
                    | Inr allKeys \<Rightarrow> do {
                        ccm \<leftarrow> load_keys P (peerID node) (gmd_ConversationID d) allKeys (cryptoManager node);
                        decrypt_and_store P known_key rs cs now d remotePeerID (node\<lparr>cryptoManager := ccm\<rparr>)
                      }))) }"

definition HandleChatSenderKeyDistribution ::
  "prims \<Rightarrow> bytes option \<Rightarrow> conns \<Rightarrow> int \<Rightarrow> ChatSenderKeyDistributionData option \<Rightarrow> string \<Rightarrow> chat_node \<Rightarrow> chat_node option" where
  "HandleChatSenderKeyDistribution P rnd cs now msg remotePeerID node = do {
     slice8 remotePeerID;
     (case msg of
        None \<Rightarrow> Some node
      | Some d \<Rightarrow>
          if sd_SenderPeerID d \<noteq> remotePeerID \<or> length (sd_ChainKey d) \<noteq> 32 then Some node
          else
            (case IsGroupMember (cs 0) (sd_ConversationID d) (peerID node) (chat_tables node) of
               Inl _ \<Rightarrow> Some node
             | Inr False \<Rightarrow> do {
                 slice8 (sd_ConversationID d);
                 Some (node\<lparr>pendingSenderKeys := (pendingSenderKeys node)(sd_ConversationID d :=
                              pendingSenderKeys node (sd_ConversationID d) @
                                [\<lparr>psk_SenderPeerID = sd_SenderPeerID d, psk_ChainKey = sd_ChainKey d,
                                  psk_MessageNumber = sd_MessageNumber d\<rparr>])\<rparr>)
               }
             | Inr True \<Rightarrow>
                 (case AddGroupSenderKey (sd_ConversationID d) (sd_SenderPeerID d) (sd_ChainKey d) (sd_MessageNumber d)
                         (cryptoManager node) of
                    (Some _, ccm) \<Rightarrow> Some (node\<lparr>cryptoManager := ccm\<rparr>)
                  | (None, ccm) \<Rightarrow> do {
                      slice8 (sd_ConversationID d);
                      Some (snd (store_key P rnd (cs 1) now (sd_ConversationID d) (sd_SenderPeerID d) (sd_ChainKey d)
                                   (sd_MessageNumber d) (node\<lparr>cryptoManager := ccm\<rparr>)))
                    }))) }"

section \<open>Joining a group\<close>

fun add_members :: "conns \<Rightarrow> int \<Rightarrow> string \<Rightarrow> string \<Rightarrow> nat \<Rightarrow> string list \<Rightarrow> chat_db \<Rightarrow> chat_db option" where
  "add_members cs now groupID admin i [] db = Some db"
| "add_members cs now groupID admin i (m # ms) db =
     (case AddGroupMember (cs i) now
             \<lparr>gm_ConversationID = groupID, gm_PeerID = m, JoinedAt = 0, IsAdmin = (m = admin), LeftAt = 0\<rparr> db of
        (Some _, db') \<Rightarrow> do { slice8 m; add_members cs now groupID admin (Suc i) ms db' }
      | (None, db') \<Rightarrow> add_members cs now groupID admin (Suc i) ms db')"

fun process_keys ::
  "prims \<Rightarrow> rands \<Rightarrow> conns \<Rightarrow> int \<Rightarrow> string \<Rightarrow> nat \<Rightarrow> PendingSenderKey list \<Rightarrow> chat_node \<Rightarrow> chat_node option" where
  "process_keys P rs cs now groupID i [] node = Some node"
| "process_keys P rs cs now groupID i (p # ps) node =
     (case AddGroupSenderKey groupID (psk_SenderPeerID p) (psk_ChainKey p) (psk_MessageNumber p) (cryptoManager node) of
        (Some _, ccm) \<Rightarrow> do {
          slice8 (psk_SenderPeerID p);
          process_keys P rs cs now groupID (Suc i) ps (node\<lparr>cryptoManager := ccm\<rparr>)
        }
      | (None, ccm) \<Rightarrow>
          (case store_key P (rs i) (cs i) now groupID (psk_SenderPeerID p) (psk_ChainKey p) (psk_MessageNumber p)
                  (node\<lparr>cryptoManager := ccm\<rparr>) of
             (Some _, node') \<Rightarrow> process_keys P rs cs now groupID (Suc i) ps node'
           | (None, node') \<Rightarrow> do {
               slice8 (psk_SenderPeerID p);
               process_keys P rs cs now groupID (Suc i) ps node'
             }))"

definition processPendingSenderKeys ::
  "prims \<Rightarrow> rands \<Rightarrow> conns \<Rightarrow> int \<Rightarrow> string \<Rightarrow> chat_node \<Rightarrow> chat_node option" where
  "processPendingSenderKeys P rs cs now groupID node =
     (let pending = pendingSenderKeys node groupID
      in if pending = [] then Some node
         else do {
           slice8 groupID;
           process_keys P rs cs now groupID 0 pending
             (node\<lparr>pendingSenderKeys := (pendingSenderKeys node)(groupID := [])\<rparr>)
         })"

text \<open>The \<open>i\<close>-th pending message is handled with the random values \<open>rss i\<close> and the connections \<open>css i\<close>.\<close>

fun process_messages ::
  "prims \<Rightarrow> (string \<Rightarrow> bytes option) \<Rightarrow> (nat \<Rightarrow> rands) \<Rightarrow> (nat \<Rightarrow> conns) \<Rightarrow> int \<Rightarrow> nat \<Rightarrow> (ChatGroupMessageData \<times> string) list
     \<Rightarrow> chat_node \<Rightarrow> chat_node option" where
  "process_messages P known_key rss css now i [] node = Some node"
| "process_messages P known_key rss css now i ((d, remote) # ms) node = do {
     node' \<leftarrow> HandleChatGroupMessage P known_key (rss i) (css i) now (Some d) remote node;
     process_messages P known_key rss css now (Suc i) ms node' }"

definition processPendingGroupMessages ::
  "prims \<Rightarrow> (string \<Rightarrow> bytes option) \<Rightarrow> (nat \<Rightarrow> rands) \<Rightarrow> (nat \<Rightarrow> conns) \<Rightarrow> int \<Rightarrow> string \<Rightarrow> chat_node \<Rightarrow> chat_node option" where
  "processPendingGroupMessages P known_key rss css now groupID node =
     (let pending = pendingGroupMessages node groupID
      in if pending = [] then Some node
         else do {
           slice8 groupID;
           process_messages P known_key rss css now 0 pending
             (node\<lparr>pendingGroupMessages := (pendingGroupMessages node)(groupID := [])\<rparr>)
         })"

text \<open>
  The creation message.  \<open>kr\<close> draws the chain key, \<open>nr\<close> the nonce of its storage; \<open>c0\<close> runs the
  insertion of the conversation, \<open>c1\<close> that of our key, \<open>cs\<close> those of the members; \<open>prs, pcs\<close> serve the
  pending keys and \<open>rss, css\<close> the pending messages.
\<close>

definition HandleChatGroupCreate ::
  "prims \<Rightarrow> (string \<Rightarrow> bytes option) \<Rightarrow> bytes option \<Rightarrow> bytes option \<Rightarrow> conn \<Rightarrow> conn \<Rightarrow> conns \<Rightarrow> rands \<Rightarrow> conns
     \<Rightarrow> (nat \<Rightarrow> rands) \<Rightarrow> (nat \<Rightarrow> conns) \<Rightarrow> int \<Rightarrow> ChatGroupCreateData option \<Rightarrow> string \<Rightarrow> chat_node \<Rightarrow> chat_node option" where
  "HandleChatGroupCreate P known_key kr nr c0 c1 cs prs pcs rss css now msg remotePeerID node = do {
     slice8 remotePeerID;
     (case msg of
        None \<Rightarrow> Some node
      | Some g \<Rightarrow>
          if gc_CreatorPeerID g \<noteq> remotePeerID \<or> peerID node \<notin> set (gc_MemberPeerIDs g) then Some node
          else
            (case CreateConversation c0 now
                    \<lparr>conv_ConversationID = gc_ConversationID g, ConversationType = ''group'', conv_PeerID = [],
                     GroupName = gc_GroupName g, conv_CreatedAt = 0, conv_UpdatedAt = 0, LastMessageAt = 0, UnreadCount = 0\<rparr>
                    (chat_tables node) of
               (Some _, db) \<Rightarrow> Some (node\<lparr>chat_tables := db\<rparr>)
             | (None, db) \<Rightarrow> do {
                 db1 \<leftarrow> add_members cs now (gc_ConversationID g) (gc_CreatorPeerID g) 0 (gc_MemberPeerIDs g) db;
                 let node1 = node\<lparr>chat_tables := db1\<rparr>;
                 (case CreateGroupSenderKeys kr (gc_ConversationID g) (peerID node) (cryptoManager node1) of
                    (Some _, ccm) \<Rightarrow> Some (node1\<lparr>cryptoManager := ccm\<rparr>)
                  | (None, ccm) \<Rightarrow>
                      let node2 = node1\<lparr>cryptoManager := ccm\<rparr>
                      in (case ccm_GetOurSenderKeyState (gc_ConversationID g) ccm of
                            Inl _ \<Rightarrow> Some node2
                          | Inr (chainKey, messageNum) \<Rightarrow>
                              (case store_key P nr c1 now (gc_ConversationID g) (peerID node) chainKey messageNum node2 of
                                 (Some KeyEncryptFailed, node3) \<Rightarrow> Some node3
                               | (_, node3) \<Rightarrow> do {
                                   slice8 (gc_ConversationID g);
                                   let others = filter (\<lambda>m. m \<noteq> peerID node) (gc_MemberPeerIDs g);
                                   (if list_all (\<lambda>m. slice8 m \<noteq> None) others then Some () else None);
                                   let node4 = node3\<lparr>outbox := outbox node3 @
                                         map (\<lambda>m. (m, SenderKeyDistribution
                                           \<lparr>sd_ConversationID = gc_ConversationID g, sd_SenderPeerID = peerID node,
                                            sd_ChainKey = chainKey, sd_MessageNumber = messageNum\<rparr>)) others\<rparr>;
                                   node5 \<leftarrow> processPendingSenderKeys P prs pcs now (gc_ConversationID g) node4;
                                   processPendingGroupMessages P known_key rss css now (gc_ConversationID g) node5
                                 })))
               })) }"

section \<open>Sending to a group\<close>

datatype group_send_error =
  MembersFailed db_error | NoMembers | GroupEncryptFailed chat_error | GroupStoreFailed db_error | NoMemberReached

text \<open>\<open>reached\<close> says which members a copy could be sent to.\<close>

definition SendGroupMessageWithRetry ::
  "prims \<Rightarrow> rands \<Rightarrow> conns \<Rightarrow> int \<Rightarrow> (string \<Rightarrow> bool) \<Rightarrow> string \<Rightarrow> string \<Rightarrow> string \<Rightarrow> chat_node
     \<Rightarrow> (group_send_error + string) \<times> ChatGroupMessageData option \<times> chat_node" where
  "SendGroupMessageWithRetry P rs cs now reached messageID groupID content node =
     (case GetGroupMembers (cs 0) groupID (chat_tables node) of
        Inl e \<Rightarrow> (Inl (MembersFailed e), None, node)
      | Inr members \<Rightarrow>
          if members = [] then (Inl NoMembers, None, node)
          else
            (case ccm_EncryptGroupMessage P (rs 0) (rs 1) groupID (go_bytes content) (cryptoManager node) of
               (Inl e, ccm) \<Rightarrow> (Inl (GroupEncryptFailed e), None, node\<lparr>cryptoManager := ccm\<rparr>)
             | (Inr (ciphertext, nonce, messageNum, signature), ccm) \<Rightarrow>
                 let node1 = snd (persistOurSenderKeyState P (rs 2) (cs 1) now groupID (node\<lparr>cryptoManager := ccm\<rparr>))
                 in (case StoreMessage (cs 2) (cs 3) now
                            (sent_row messageID groupID (peerID node) now content ciphertext nonce messageNum) (chat_tables node1) of
                       (Some e, db) \<Rightarrow> (Inl (GroupStoreFailed e), None, node1\<lparr>chat_tables := db\<rparr>)
                     | (None, db) \<Rightarrow>
                         let d = \<lparr>gmd_MessageID = messageID, gmd_ConversationID = groupID, gmd_SenderPeerID = peerID node,
                                  gmd_EncryptedContent = ciphertext, gmd_Nonce = nonce, gmd_MessageNumber = messageNum,
                                  gmd_Signature = signature, gmd_Timestamp = now\<rparr>;
                             successes = filter (\<lambda>m. gm_PeerID m \<noteq> peerID node \<and> reached (gm_PeerID m)) members;
                             status = (if successes = [] then ''failed'' else ''sent'');
                             node2 = node1\<lparr>chat_tables := snd (UpdateMessageStatus (cs 4) now messageID status db)\<rparr>
                         in (if successes = [] then Inl NoMemberReached else Inr messageID, Some d, node2))))"

section \<open>Manager\<close>

datatype manager_error =
  LookupFailed db_error | NotFound | NotAGroup | PeerUnavailable | ExchangeFailed kx_error | ExchangeTimeout
| MessageFailed send_error | GroupMessageFailed group_send_error | SenderKeysMissing | SenderKeyUnreadable
| CreateFailed db_error | NotAMember | AlreadyMember | TooFewMembers | KeysFailed | AlreadyExchanged

definition CreateOrGetConversation ::
  "conns \<Rightarrow> int \<Rightarrow> string \<Rightarrow> string \<Rightarrow> chat_node \<Rightarrow> ((manager_error + string) \<times> chat_node) option" where
  "CreateOrGetConversation cs now newID peer node =
     (case GetConversationByPeerID (cs 0) peer (chat_tables node) of
        Inl e \<Rightarrow> Some (Inl (LookupFailed e), node)
      | Inr (Some conv) \<Rightarrow> Some (Inr (conv_ConversationID conv), node)
      | Inr None \<Rightarrow>
          (case CreateConversation (cs 1) now
                  \<lparr>conv_ConversationID = newID, ConversationType = ''1on1'', conv_PeerID = peer, GroupName = [],
                   conv_CreatedAt = 0, conv_UpdatedAt = 0, LastMessageAt = 0, UnreadCount = 0\<rparr> (chat_tables node) of
             (Some e, db) \<Rightarrow> Some (Inl (CreateFailed e), node\<lparr>chat_tables := db\<rparr>)
           | (None, db) \<Rightarrow> do { slice8 newID; slice8 peer; Some (Inr newID, node\<lparr>chat_tables := db\<rparr>) }))"

text \<open>The sender keys of a group are loaded from the tables when the node does not have them: ours must be there.\<close>

definition ensure_group_keys ::
  "prims \<Rightarrow> conns \<Rightarrow> string \<Rightarrow> chat_node \<Rightarrow> ((manager_error option) \<times> chat_node) option" where
  "ensure_group_keys P cs groupID node =
     (if HasGroupSenderKeys groupID (cryptoManager node) then Some (None, node)
      else case GetSenderKey (cs 0) groupID (peerID node) (chat_tables node) of
             Inl e \<Rightarrow> Some (Some (LookupFailed e), node)
           | Inr None \<Rightarrow> do { slice8 groupID; Some (Some SenderKeysMissing, node) }
           | Inr (Some k) \<Rightarrow>
               (case DecryptSenderKeyFromStorage P (EncryptedChainKey k) (copy_arr 24 (csk_Nonce k)) (cryptoManager node) of
                  Inl _ \<Rightarrow> Some (Some SenderKeyUnreadable, node)
                | Inr chainKey \<Rightarrow> do {
                    slice8 groupID;
                    let ccm = LoadGroupSenderKey groupID (peerID node) chainKey (csk_MessageNumber k) True (cryptoManager node);
                    (case GetAllSenderKeys (cs 1) groupID (chat_tables node) of
                       Inl _ \<Rightarrow> Some (None, node\<lparr>cryptoManager := ccm\<rparr>)
                     | Inr ks \<Rightarrow> do {
                         ccm' \<leftarrow> load_keys P (peerID node) groupID (filter (\<lambda>k. csk_SenderPeerID k \<noteq> peerID node) ks) ccm;
                         Some (None, node\<lparr>cryptoManager := ccm'\<rparr>)
                       })
                  }))"

definition SendGroupMessage ::
  "prims \<Rightarrow> rands \<Rightarrow> conns \<Rightarrow> conns \<Rightarrow> int \<Rightarrow> (string \<Rightarrow> bool) \<Rightarrow> string \<Rightarrow> string \<Rightarrow> string \<Rightarrow> chat_node
     \<Rightarrow> ((manager_error + string) \<times> ChatGroupMessageData option \<times> chat_node) option" where
  "SendGroupMessage P rs cs ds now reached messageID groupID content node =
     (case GetConversation (cs 0) groupID (chat_tables node) of
        Inl e \<Rightarrow> Some (Inl (LookupFailed e), None, node)
      | Inr None \<Rightarrow> Some (Inl NotFound, None, node)
      | Inr (Some conv) \<Rightarrow>
          if ConversationType conv \<noteq> ''group'' then Some (Inl NotAGroup, None, node)
          else do {
            (e, node1) \<leftarrow> ensure_group_keys P (\<lambda>i. cs (Suc i)) groupID node;
            (case e of
               Some e \<Rightarrow> Some (Inl e, None, node1)
             | None \<Rightarrow>
                 (case SendGroupMessageWithRetry P rs ds now reached messageID groupID content node1 of
                    (Inl e, d, node2) \<Rightarrow> Some (Inl (GroupMessageFailed e), d, node2)
                  | (Inr m, d, node2) \<Rightarrow> do { slice8 m; slice8 groupID; Some (Inr m, d, node2) }))
          })"

text \<open>
  Waiting for the acknowledgement: \<open>polls\<close> are the states of the node the ticks find, in order, before
  the timeout; a failing query is another tick.
\<close>

fun await_exchange :: "(nat \<Rightarrow> conn) \<Rightarrow> string \<Rightarrow> nat \<Rightarrow> chat_node list \<Rightarrow> chat_node option" where
  "await_exchange cs cid i [] = None"
| "await_exchange cs cid i (node # nodes) =
     (case IsKeyExchangeComplete (cs i) cid (chat_tables node) of
        Inr True \<Rightarrow> Some node
      | _ \<Rightarrow> await_exchange cs cid (Suc i) nodes)"

definition send_1on1 ::
  "prims \<Rightarrow> rands \<Rightarrow> conns \<Rightarrow> conns \<Rightarrow> conns \<Rightarrow> int \<Rightarrow> nat \<Rightarrow> attempt list \<Rightarrow> (ChatKeyExchangeData \<Rightarrow> chat_node \<Rightarrow> bool \<times> chat_node)
     \<Rightarrow> (chat_node \<Rightarrow> chat_node list) \<Rightarrow> (string \<Rightarrow> bytes option) \<Rightarrow> string \<Rightarrow> string \<Rightarrow> string \<Rightarrow> string \<Rightarrow> chat_node
     \<Rightarrow> ((manager_error + string) \<times> ChatMessageData option \<times> chat_node) option" where
  "send_1on1 P rs cs ds es now maxRetries attempts exchange polls known_key messageID cid peer content node =
     (case HasRatchetState (ds 1) cid (chat_tables node) of
        Inl e \<Rightarrow> Some (Inl (LookupFailed e), None, node)
      | Inr hasRatchet \<Rightarrow> do {
          (e, node1) \<leftarrow>
            (if hasRatchet then Some (None, node)
             else do {
               slice8 peer;
               (case known_key peer of
                  None \<Rightarrow> Some (Some PeerUnavailable, node)
                | Some pk \<Rightarrow> do {
                    (e, n) \<leftarrow> cmh_InitiateKeyExchange P (\<lambda>i. rs (i + 100)) es now exchange cid peer pk node;
                    (case e of
                       Some e \<Rightarrow> Some (Some (ExchangeFailed e), n)
                     | None \<Rightarrow>
                         (case await_exchange (\<lambda>i. ds (i + 10)) cid 0 (polls n) of
                            None \<Rightarrow> Some (Some ExchangeTimeout, n)
                          | Some n' \<Rightarrow> Some (None, n')))
                  })
             });
          (case e of
             Some e \<Rightarrow> Some (Inl e, None, node1)
           | None \<Rightarrow> do {
               (r, d, node2) \<leftarrow> SendChatMessageWithRetry P rs cs (\<lambda>i. ds (i + 2)) now maxRetries attempts messageID cid content node1;
               (case r of
                  Inl e \<Rightarrow> Some (Inl (MessageFailed e), d, node2)
                | Inr m \<Rightarrow> do { slice8 m; slice8 cid; Some (Inr m, d, node2) })
             })
        })"

text \<open>\<open>SendMessage\<close> routes by the type of the conversation; the message that goes out is the second component.\<close>

definition SendMessage ::
  "prims \<Rightarrow> rands \<Rightarrow> conns \<Rightarrow> conns \<Rightarrow> conns \<Rightarrow> int \<Rightarrow> nat \<Rightarrow> attempt list \<Rightarrow> (ChatKeyExchangeData \<Rightarrow> chat_node \<Rightarrow> bool \<times> chat_node)
     \<Rightarrow> (chat_node \<Rightarrow> chat_node list) \<Rightarrow> (string \<Rightarrow> bytes option) \<Rightarrow> (string \<Rightarrow> bool) \<Rightarrow> string \<Rightarrow> string \<Rightarrow> string \<Rightarrow> chat_node
     \<Rightarrow> ((manager_error + string) \<times> (ChatMessageData + ChatGroupMessageData) option \<times> chat_node) option" where
  "SendMessage P rs cs ds es now maxRetries attempts exchange polls known_key reached messageID cid content node =
     (case GetConversation (ds 0) cid (chat_tables node) of
        Inl e \<Rightarrow> Some (Inl (LookupFailed e), None, node)
      | Inr None \<Rightarrow> Some (Inl NotFound, None, node)
      | Inr (Some conv) \<Rightarrow>
          if ConversationType conv = ''group''
          then map_option (\<lambda>(r, d, n). (r, map_option Inr d, n)) (SendGroupMessage P rs cs es now reached messageID cid content node)
          else map_option (\<lambda>(r, d, n). (r, map_option Inl d, n))
                 (send_1on1 P rs cs ds es now maxRetries attempts exchange polls known_key messageID cid (conv_PeerID conv) content node))"

definition cm_InitiateKeyExchange ::
  "prims \<Rightarrow> rands \<Rightarrow> conns \<Rightarrow> conns \<Rightarrow> int \<Rightarrow> (ChatKeyExchangeData \<Rightarrow> chat_node \<Rightarrow> bool \<times> chat_node) \<Rightarrow> (string \<Rightarrow> bytes option)
     \<Rightarrow> string \<Rightarrow> string \<Rightarrow> chat_node \<Rightarrow> ((manager_error option) \<times> chat_node) option" where
  "cm_InitiateKeyExchange P rs cs es now exchange known_key newID peer node = do {
     (r, node1) \<leftarrow> CreateOrGetConversation cs now newID peer node;
     (case r of
        Inl e \<Rightarrow> Some (Some e, node1)
      | Inr cid \<Rightarrow>
          (case HasRatchetState (cs 2) cid (chat_tables node1) of
             Inl e \<Rightarrow> Some (Some (LookupFailed e), node1)
           | Inr True \<Rightarrow> Some (Some AlreadyExchanged, node1)
           | Inr False \<Rightarrow>
               (case known_key peer of
                  None \<Rightarrow> Some (Some PeerUnavailable, node1)
                | Some pk \<Rightarrow> do {
                    (e, node2) \<leftarrow> cmh_InitiateKeyExchange P rs es now exchange cid peer pk node1;
                    Some (map_option ExchangeFailed e, node2)
                  }))) }"

text \<open>
  The creator of a group: the group, its members, our sender key, then the announcements to every
  other member and our key to every other member.  \<open>kr\<close> draws the chain key and \<open>nr\<close> the nonce of its
  storage.
\<close>

definition CreateGroup ::
  "prims \<Rightarrow> bytes option \<Rightarrow> bytes option \<Rightarrow> conn \<Rightarrow> conn \<Rightarrow> conns \<Rightarrow> conn \<Rightarrow> int \<Rightarrow> string \<Rightarrow> string \<Rightarrow> string list \<Rightarrow> chat_node
     \<Rightarrow> ((manager_error + string) \<times> chat_node) option" where
  "CreateGroup P kr nr c0 c1 cs c2 now newID groupName members node =
     (let us = peerID node;
          others = filter (\<lambda>m. m \<noteq> us) members
      in if length others < 2 then Some (Inl TooFewMembers, node)
         else
           (case CreateConversation c0 now
                   \<lparr>conv_ConversationID = newID, ConversationType = ''group'', conv_PeerID = [], GroupName = groupName,
                    conv_CreatedAt = 0, conv_UpdatedAt = 0, LastMessageAt = 0, UnreadCount = 0\<rparr> (chat_tables node) of
              (Some e, db) \<Rightarrow> Some (Inl (CreateFailed e), node\<lparr>chat_tables := db\<rparr>)
            | (None, db) \<Rightarrow>
                (case AddGroupMember c1 now
                        \<lparr>gm_ConversationID = newID, gm_PeerID = us, JoinedAt = 0, IsAdmin = True, LeftAt = 0\<rparr> db of
                   (Some e, db1) \<Rightarrow> Some (Inl (CreateFailed e), node\<lparr>chat_tables := db1\<rparr>)
                 | (None, db1) \<Rightarrow> do {
                     db2 \<leftarrow> add_members cs now newID us 0 others db1;
                     let node1 = node\<lparr>chat_tables := db2\<rparr>;
                     (case CreateGroupSenderKeys kr newID us (cryptoManager node1) of
                        (Some _, ccm) \<Rightarrow> Some (Inl KeysFailed, node1\<lparr>cryptoManager := ccm\<rparr>)
                      | (None, ccm) \<Rightarrow>
                          let node2 = node1\<lparr>cryptoManager := ccm\<rparr>
                          in (case ccm_GetOurSenderKeyState newID ccm of
                                Inl _ \<Rightarrow> Some (Inl KeysFailed, node2)
                              | Inr (chainKey, messageNum) \<Rightarrow>
                                  (case store_key P nr c2 now newID us chainKey messageNum node2 of
                                     (Some KeyEncryptFailed, node3) \<Rightarrow> Some (Inl KeysFailed, node3)
                                   | (_, node3) \<Rightarrow> do {
                                       slice8 newID;
                                       (if list_all (\<lambda>m. slice8 m \<noteq> None) others then Some () else None);
                                       Some (Inr newID, node3\<lparr>outbox := outbox node3
                                         @ map (\<lambda>m. (m, GroupCreate
                                             \<lparr>gc_ConversationID = newID, gc_GroupName = groupName, gc_CreatorPeerID = us,
                                              gc_MemberPeerIDs = us # others\<rparr>)) others
                                         @ map (\<lambda>m. (m, SenderKeyDistribution
                                             \<lparr>sd_ConversationID = newID, sd_SenderPeerID = us, sd_ChainKey = chainKey,
                                              sd_MessageNumber = messageNum\<rparr>)) others\<rparr>)
                                     })))
                   })))"

text \<open>
  Read receipts go to the sender of a message: \<open>direct\<close> and \<open>relayed\<close> say which peers a message
  reaches, and only the relay path logs the peer.
\<close>

definition SendReadReceipt ::
  "(string \<Rightarrow> bool) \<Rightarrow> (string \<Rightarrow> bool) \<Rightarrow> string \<Rightarrow> string \<Rightarrow> string \<Rightarrow> chat_node \<Rightarrow> (bool \<times> chat_node) option" where
  "SendReadReceipt direct relayed toPeerID messageID cid node =
     (let sent = node\<lparr>outbox := outbox node @ [(toPeerID, ReadReceipt messageID cid)]\<rparr>
      in if direct toPeerID then Some (True, sent)
         else do {
           slice8 toPeerID;
           Some (if relayed toPeerID then (True, sent) else (False, node))
         })"

definition MarkMessageAsRead ::
  "conns \<Rightarrow> int \<Rightarrow> (string \<Rightarrow> bool) \<Rightarrow> (string \<Rightarrow> bool) \<Rightarrow> string \<Rightarrow> chat_node \<Rightarrow> ((manager_error option) \<times> chat_node) option" where
  "MarkMessageAsRead cs now direct relayed messageID node =
     (case GetMessage (cs 0) messageID (chat_tables node) of
        Inl e \<Rightarrow> Some (Some (LookupFailed e), node)
      | Inr None \<Rightarrow> Some (Some NotFound, node)
      | Inr (Some msg) \<Rightarrow>
          (case db_MarkMessageAsRead (cs 1) now messageID (chat_tables node) of
             (Some e, db) \<Rightarrow> Some (Some (CreateFailed e), node\<lparr>chat_tables := db\<rparr>)
           | (None, db) \<Rightarrow>
               let node1 = node\<lparr>chat_tables := db\<rparr>
               in if cm_SenderPeerID msg = peerID node then Some (None, node1)
                  else do {
                    (_, node2) \<leftarrow> SendReadReceipt direct relayed (cm_SenderPeerID msg) messageID (cm_ConversationID msg) node1;
                    Some (None, node2)
                  }))"

fun send_receipts ::
  "(string \<Rightarrow> bool) \<Rightarrow> (string \<Rightarrow> bool) \<Rightarrow> string \<Rightarrow> ChatMessage list \<Rightarrow> chat_node \<Rightarrow> chat_node option" where
  "send_receipts direct relayed cid [] node = Some node"
| "send_receipts direct relayed cid (m # ms) node =
     (if cm_Status m \<noteq> ''read'' \<and> cm_SenderPeerID m \<noteq> peerID node then do {
        (ok, node') \<leftarrow> SendReadReceipt direct relayed (cm_SenderPeerID m) (MessageID m) cid node;
        (if ok then Some () else slice8 (MessageID m));
        send_receipts direct relayed cid ms node'
      }
      else send_receipts direct relayed cid ms node)"

definition MarkConversationAsRead ::
  "conns \<Rightarrow> int \<Rightarrow> (string \<Rightarrow> bool) \<Rightarrow> (string \<Rightarrow> bool) \<Rightarrow> string \<Rightarrow> chat_node \<Rightarrow> ((manager_error option) \<times> chat_node) option" where
  "MarkConversationAsRead cs now direct relayed cid node =
     (case ListMessages (cs 0) cid 1000 0 (chat_tables node) of
        Inl e \<Rightarrow> Some (Some (LookupFailed e), node)
      | Inr ms \<Rightarrow> do {
          node1 \<leftarrow> send_receipts direct relayed cid ms node;
          (case MarkConversationMessagesAsRead (cs 1) (cs 2) now cid (chat_tables node1) of
             (e, db) \<Rightarrow> Some (map_option CreateFailed e, node1\<lparr>chat_tables := db\<rparr>))
        })"

definition cm_DeleteConversation :: "conn \<Rightarrow> string \<Rightarrow> chat_node \<Rightarrow> ((manager_error option) \<times> chat_node) option" where
  "cm_DeleteConversation c cid node =
     (case DeleteConversation c cid (chat_tables node) of
        (Some e, db) \<Rightarrow> Some (Some (CreateFailed e), node\<lparr>chat_tables := db\<rparr>)
      | (None, db) \<Rightarrow> do { slice8 cid; Some (None, node\<lparr>chat_tables := db\<rparr>) })"

definition InviteToGroup ::
  "conns \<Rightarrow> int \<Rightarrow> string \<Rightarrow> string \<Rightarrow> chat_node \<Rightarrow> ((manager_error option) \<times> chat_node) option" where
  "InviteToGroup cs now groupID peer node =
     (case GetConversation (cs 0) groupID (chat_tables node) of
        Inl e \<Rightarrow> Some (Some (LookupFailed e), node)
      | Inr None \<Rightarrow> Some (Some NotFound, node)
      | Inr (Some conv) \<Rightarrow>
          if ConversationType conv \<noteq> ''group'' then Some (Some NotAGroup, node)
          else
            (case IsGroupMember (cs 1) groupID (peerID node) (chat_tables node) of
               Inl e \<Rightarrow> Some (Some (LookupFailed e), node)
             | Inr False \<Rightarrow> Some (Some NotAMember, node)
             | Inr True \<Rightarrow>
                 (case IsGroupMember (cs 2) groupID peer (chat_tables node) of
                    Inl e \<Rightarrow> Some (Some (LookupFailed e), node)
                  | Inr True \<Rightarrow> Some (Some AlreadyMember, node)
                  | Inr False \<Rightarrow>
                      (case AddGroupMember (cs 3) now
                              \<lparr>gm_ConversationID = groupID, gm_PeerID = peer, JoinedAt = 0, IsAdmin = False, LeftAt = 0\<rparr>
                              (chat_tables node) of
                         (Some e, db) \<Rightarrow> Some (Some (CreateFailed e), node\<lparr>chat_tables := db\<rparr>)
                       | (None, db) \<Rightarrow> do {
                           slice8 peer;
                           slice8 groupID;
                           Some (None, node\<lparr>chat_tables := db, outbox := outbox node @ [(peer, GroupInvite groupID (GroupName conv))]\<rparr>)
                         }))))"

definition LeaveGroup :: "conns \<Rightarrow> int \<Rightarrow> string \<Rightarrow> chat_node \<Rightarrow> ((manager_error option) \<times> chat_node) option" where
  "LeaveGroup cs now groupID node =
     (case GetConversation (cs 0) groupID (chat_tables node) of
        Inl e \<Rightarrow> Some (Some (LookupFailed e), node)
      | Inr None \<Rightarrow> Some (Some NotFound, node)
      | Inr (Some conv) \<Rightarrow>
          if ConversationType conv \<noteq> ''group'' then Some (Some NotAGroup, node)
          else
            (case IsGroupMember (cs 1) groupID (peerID node) (chat_tables node) of
               Inl e \<Rightarrow> Some (Some (LookupFailed e), node)
             | Inr False \<Rightarrow> Some (Some NotAMember, node)
             | Inr True \<Rightarrow>
                 (case RemoveGroupMember (cs 2) now groupID (peerID node) (chat_tables node) of
                    (Some e, db) \<Rightarrow> Some (Some (CreateFailed e), node\<lparr>chat_tables := db\<rparr>)
                  | (None, db) \<Rightarrow> do {
                      slice8 groupID;
                      Some (None, node\<lparr>chat_tables := snd (DeleteSenderKeysForGroup (cs 3) groupID db)\<rparr>)
                    })))"

definition runCleanup :: "conns \<Rightarrow> int \<Rightarrow> int \<Rightarrow> chat_node \<Rightarrow> chat_node" where
  "runCleanup cs now ttlDays node =
     node\<lparr>chat_tables := snd (db_CleanupOldSkippedKeys (cs 1) now
            (snd (CleanupExpiredChatMessages (cs 0) now ttlDays (chat_tables node))))\<rparr>"

definition GetUnreadCount :: "conn \<Rightarrow> conns \<Rightarrow> chat_node \<Rightarrow> db_error + int" where
  "GetUnreadCount c cs node =
     (case ListConversations c cs 1000 0 (chat_tables node) of
        Inl e \<Rightarrow> Inl e
      | Inr vs \<Rightarrow> Inr (sum_list (map (UnreadCount \<circ> fst) vs)))"

end
