(* ===== verification/Group_Delivery.thy ===== *)
theory Group_Delivery
  imports Chat_Groups
begin

text \<open>
  What a group delivers: a message sealed under a distributed sender key is stored by the members that
  hold the key, also when the key and the message arrive before the announcement of the group; who may
  post; and what leaving a group does.
\<close>

section \<open>Frames\<close>

lemma store_key_frame:
  "store_key P rnd c now gid sender ck n node = (e, node') \<Longrightarrow>
     cryptoManager node' = cryptoManager node \<and> peerID node' = peerID node \<and> outbox node' = outbox node
     \<and> pendingSenderKeys node' = pendingSenderKeys node \<and> pendingGroupMessages node' = pendingGroupMessages node
     \<and> conversations (chat_tables node') = conversations (chat_tables node)
     \<and> messages (chat_tables node') = messages (chat_tables node)
     \<and> group_members (chat_tables node') = group_members (chat_tables node)"
  by (auto simp: store_key_def StoreSenderKey_def split: sum.splits prod.splits option.splits if_splits)

lemma Persist_frame:
  "PersistSenderKeyState P rnd c now gid sender node = (e, node') \<Longrightarrow>
     peerID node' = peerID node \<and> conversations (chat_tables node') = conversations (chat_tables node)
     \<and> messages (chat_tables node') = messages (chat_tables node)"
  by (auto simp: PersistSenderKeyState_def split: sum.splits prod.splits dest: store_key_frame)

lemma has_conversation_cong:
  "conversations db' = conversations db \<Longrightarrow> has_conversation db' cid = has_conversation db cid"
  by (simp add: has_conversation_def)

section \<open>Opening a group message\<close>

text \<open>A message the holder of the sender key \<open>(ck, n)\<close> of peer \<open>sender\<close> seals, as it arrives.\<close>

definition sealed_with ::
  "prims \<Rightarrow> bytes \<Rightarrow> int \<Rightarrow> string \<Rightarrow> string \<Rightarrow> ChatGroupMessageData \<Rightarrow> bool" where
  "sealed_with P ck n sender content d \<longleftrightarrow>
     (\<exists>mk next. DeriveMessageKey P ck = Some (mk, next)
        \<and> gmd_EncryptedContent d = box_seal P (go_bytes content) (gmd_Nonce d) mk)
     \<and> gmd_MessageNumber d = n \<and> length (gmd_Signature d) = 64 \<and> length (gmd_Nonce d) = 24
     \<and> gmd_SenderPeerID d = sender"

lemma sealed_message_opens:
  assumes "box_correct P" and "sealed_with P ck n sender content d"
    and "SenderKeys gsk sender = Some k" and "sk_ChainKey k = ck" and "sk_MessageNumber k = n"
  shows "\<exists>gsk'. DecryptGroupMessage P sender (gmd_EncryptedContent d) (gmd_Nonce d) (gmd_MessageNumber d) (gmd_Signature d) pk gsk
      = (Inr (go_bytes content), gsk')"
  using assms by (auto simp: sealed_with_def DecryptGroupMessage_def verifyMessageSignature_def decrypt_with_def box_correct_def)

definition working :: "conns \<Rightarrow> bool" where
  "working cs \<longleftrightarrow> (\<forall>i. fault (cs i) = NoFault)"

lemma decrypt_and_store_ok:
  assumes "box_correct P" and "sealed_with P ck n sender content d" and "groupKeys (cryptoManager node) gid = Some gsk"
    and "SenderKeys gsk sender = Some k" and "sk_ChainKey k = ck" and "sk_MessageNumber k = n"
    and "known_key sender = Some pk" and "pk \<noteq> []" and "working cs"
    and "gmd_ConversationID d = gid" and "has_conversation (chat_tables node) gid"
    and "gmd_MessageID d \<notin> MessageID ` set (messages (chat_tables node))"
    and "8 \<le> length (gmd_MessageID d)" and "8 \<le> length gid"
  shows "\<exists>node'. decrypt_and_store P known_key rs cs now d sender node = Some node'
     \<and> messages (chat_tables node') = messages (chat_tables node) @ [group_row now d (go_bytes content)]"
proof -
  obtain gsk' where dec: "DecryptGroupMessage P sender (gmd_EncryptedContent d) (gmd_Nonce d) (gmd_MessageNumber d)
      (gmd_Signature d) pk gsk = (Inr (go_bytes content), gsk')"
    using sealed_message_opens [OF assms(1,2,4-6)] by blast
  let ?node = "node\<lparr>cryptoManager := (cryptoManager node)\<lparr>groupKeys := (groupKeys (cryptoManager node))(gid \<mapsto> gsk')\<rparr>\<rparr>"
  obtain e node1 where p: "PersistSenderKeyState P (rs 0) (cs 2) now gid sender ?node = (e, node1)" by fastforce
  have n1: "conversations (chat_tables node1) = conversations (chat_tables node)" "messages (chat_tables node1) = messages (chat_tables node)"
    using Persist_frame [OF p] by simp_all
  have "\<exists>db. StoreMessage (cs 3) (cs 4) now (group_row now d (go_bytes content)) (chat_tables node1) = (None, db)
      \<and> messages db = messages (chat_tables node1) @ [group_row now d (go_bytes content)]"
    using assms(9-12) n1 by (intro StoreMessage_ok) (auto simp: working_def group_row_def message_statuses_def has_conversation_def)
  then obtain db where "StoreMessage (cs 3) (cs 4) now (group_row now d (go_bytes content)) (chat_tables node1) = (None, db)"
      "messages db = messages (chat_tables node1) @ [group_row now d (go_bytes content)]" by blast
  moreover have "messages (snd (IncrementUnreadCount c t gid db)) = messages db" for c t by (simp add: IncrementUnreadCount_def)
  moreover have "gmd_SenderPeerID d = sender" "length (gmd_Nonce d) = 24" using assms(2) by (simp_all add: sealed_with_def)
  ultimately show ?thesis using assms(3,7,8,10,13,14) dec p n1
    by (simp add: decrypt_and_store_def ccm_DecryptGroupMessage_def Let_def slice8_def)
qed

lemma HandleChatGroupMessage_ok:
  assumes "box_correct P" and "sealed_with P ck n sender content d" and "groupKeys (cryptoManager node) gid = Some gsk"
    and "SenderKeys gsk sender = Some k" and "sk_ChainKey k = ck" and "sk_MessageNumber k = n"
    and "known_key sender = Some pk" and "pk \<noteq> []" and "working cs"
    and "gmd_ConversationID d = gid" and "has_conversation (chat_tables node) gid"
    and "gmd_MessageID d \<notin> MessageID ` set (messages (chat_tables node))"
    and "8 \<le> length (gmd_MessageID d)" and "8 \<le> length gid" and "8 \<le> length sender"
    and "IsGroupMember (cs 0) gid (peerID node) (chat_tables node) = Inr True"
  shows "\<exists>node'. HandleChatGroupMessage P known_key rs cs now (Some d) sender node = Some node'
     \<and> messages (chat_tables node') = messages (chat_tables node) @ [group_row now d (go_bytes content)]"
proof -
  have "gmd_SenderPeerID d = sender" using assms(2) by (simp add: sealed_with_def)
  with decrypt_and_store_ok [where known_key = known_key, OF assms(1-14)] assms(3,10,15,16) show ?thesis
    by (simp add: HandleChatGroupMessage_def slice8_def HasGroupSenderKeys_def)
qed

lemma SenderKey_distribution_ok:
  assumes "IsGroupMember (cs 0) (sd_ConversationID d) (peerID node) (chat_tables node) = Inr True"
    and "groupKeys (cryptoManager node) (sd_ConversationID d) = Some gsk"
    and "length (sd_ChainKey d) = 32" and "8 \<le> length (sd_ConversationID d)" and "8 \<le> length (sd_SenderPeerID d)"
  shows "\<exists>node'. HandleChatSenderKeyDistribution P rnd cs now (Some d) (sd_SenderPeerID d) node = Some node'
     \<and> groupKeys (cryptoManager node') (sd_ConversationID d)
         = Some (AddSenderKey (sd_SenderPeerID d) (sd_ChainKey d) (sd_MessageNumber d) gsk)
     \<and> peerID node' = peerID node \<and> conversations (chat_tables node') = conversations (chat_tables node)
     \<and> messages (chat_tables node') = messages (chat_tables node)
     \<and> group_members (chat_tables node') = group_members (chat_tables node)"
proof -
  let ?ccm = "(cryptoManager node)\<lparr>groupKeys := (groupKeys (cryptoManager node))(sd_ConversationID d \<mapsto>
      AddSenderKey (sd_SenderPeerID d) (sd_ChainKey d) (sd_MessageNumber d) gsk)\<rparr>"
  obtain e node' where k: "store_key P rnd (cs 1) now (sd_ConversationID d) (sd_SenderPeerID d) (sd_ChainKey d) (sd_MessageNumber d)
      (node\<lparr>cryptoManager := ?ccm\<rparr>) = (e, node')" by fastforce
  then have "HandleChatSenderKeyDistribution P rnd cs now (Some d) (sd_SenderPeerID d) node = Some node'"
    using assms by (simp add: HandleChatSenderKeyDistribution_def slice8_def AddGroupSenderKey_def)
  with store_key_frame [OF k] show ?thesis by simp
qed

lemma AddSenderKey_same:
  "SenderKeys (AddSenderKey p ck n gsk) p = Some \<lparr>sk_ChainKey = ck, sk_SigningKey = [], sk_MessageNumber = n\<rparr>"
  by (simp add: AddSenderKey_def)

lemma group_row_stored:
  "mid = gmd_MessageID d \<Longrightarrow> mid \<notin> MessageID ` set ms \<Longrightarrow>
     \<exists>row. row_at MessageID mid (ms @ [group_row now d (go_bytes content)]) = Some row
       \<and> DecryptedContent row = content \<and> cm_SenderPeerID row = gmd_SenderPeerID d \<and> cm_ConversationID row = gmd_ConversationID d"
  by (auto simp: row_at_append_new group_row_def)

text \<open>
   A group message is decrypted and stored by every member that got the sender key first: after the
  distribution of the key \<open>(ck, n)\<close> a message sealed under it arrives in the group with its content and
  its sender.  Nothing asks whether the sender is a member: it holds for any peer that knows the group's
  identifier.
\<close>

theorem group_message_from_any_peer:
  assumes "box_correct P" and "sealed_with P (sd_ChainKey k) (sd_MessageNumber k) (sd_SenderPeerID k) content d"
    and "gmd_ConversationID d = sd_ConversationID k" and "length (sd_ChainKey k) = 32"
    and "8 \<le> length (sd_ConversationID k)" and "8 \<le> length (sd_SenderPeerID k)" and "8 \<le> length (gmd_MessageID d)"
    and "known_key (sd_SenderPeerID k) = Some pk" and "pk \<noteq> []" and "working cs" and "working cs'"
    and "IsGroupMember good_conn (sd_ConversationID k) (peerID node) (chat_tables node) = Inr True"
    and "HasGroupSenderKeys (sd_ConversationID k) (cryptoManager node)"
    and "has_conversation (chat_tables node) (sd_ConversationID k)"
    and "gmd_MessageID d \<notin> MessageID ` set (messages (chat_tables node))"
  shows "\<exists>node1 node2 row.
     HandleChatSenderKeyDistribution P rnd cs now (Some k) (sd_SenderPeerID k) node = Some node1
     \<and> HandleChatGroupMessage P known_key rs cs' now' (Some d) (sd_SenderPeerID k) node1 = Some node2
     \<and> row_at MessageID (gmd_MessageID d) (messages (chat_tables node2)) = Some row
     \<and> DecryptedContent row = content \<and> cm_SenderPeerID row = sd_SenderPeerID k \<and> cm_ConversationID row = sd_ConversationID k"
proof -
  obtain gsk where g: "groupKeys (cryptoManager node) (sd_ConversationID k) = Some gsk"
    using assms(13) by (auto simp: HasGroupSenderKeys_def)
  have mem: "IsGroupMember (cs 0) (sd_ConversationID k) (peerID node) (chat_tables node) = Inr True"
    using assms(10,12) by (simp add: IsGroupMember_def working_def good_conn_def)
  from SenderKey_distribution_ok [where P = P and rnd = rnd and now = now and cs = cs, OF mem g assms(4-6)] obtain node1 where
    n1: "HandleChatSenderKeyDistribution P rnd cs now (Some k) (sd_SenderPeerID k) node = Some node1"
      "groupKeys (cryptoManager node1) (sd_ConversationID k)
         = Some (AddSenderKey (sd_SenderPeerID k) (sd_ChainKey k) (sd_MessageNumber k) gsk)"
      "peerID node1 = peerID node" "conversations (chat_tables node1) = conversations (chat_tables node)"
      "messages (chat_tables node1) = messages (chat_tables node)"
      "group_members (chat_tables node1) = group_members (chat_tables node)" by blast
  have "IsGroupMember (cs' 0) (sd_ConversationID k) (peerID node1) (chat_tables node1) = Inr True"
    using assms(11,12) n1(3,6) by (simp add: IsGroupMember_def working_def good_conn_def)
  with HandleChatGroupMessage_ok [where known_key = known_key and cs = cs' and rs = rs and now = now' and pk = pk,
      OF assms(1,2) n1(2) AddSenderKey_same]
    n1 assms has_conversation_cong [OF n1(4)]
  obtain node2 where "HandleChatGroupMessage P known_key rs cs' now' (Some d) (sd_SenderPeerID k) node1 = Some node2"
      "messages (chat_tables node2) = messages (chat_tables node) @ [group_row now' d (go_bytes content)]"
    by auto
  moreover have "gmd_SenderPeerID d = sd_SenderPeerID k" using assms(2) by (simp add: sealed_with_def)
  ultimately show ?thesis
    using n1(1) group_row_stored [OF refl assms(15), of now' content] assms(3) by metis
qed

definition sample_group_row :: ChatConversation where
  "sample_group_row =
     \<lparr>conv_ConversationID = ''group-11'', ConversationType = ''group'', conv_PeerID = [], GroupName = ''friends'',
      conv_CreatedAt = 0, conv_UpdatedAt = 0, LastMessageAt = 0, UnreadCount = 0\<rparr>"

definition sample_member_row :: "string \<Rightarrow> ChatGroupMember" where
  "sample_member_row peer =
     \<lparr>gm_ConversationID = ''group-11'', gm_PeerID = peer, JoinedAt = 1, IsAdmin = False, LeftAt = 0\<rparr>"

definition group_node :: chat_node where
  "group_node = sample_node\<lparr>
     chat_tables := sample_chat_db\<lparr>conversations := [sample_group_row],
       group_members := [sample_member_row ''alice-peer-id'', sample_member_row ''bob-peer-id'']\<rparr>,
     cryptoManager := sample_manager\<lparr>groupKeys := [''group-11'' \<mapsto>
       NewGroupSenderKeysWithExistingKey ''group-11'' ''alice-peer-id'' [] zero_key 0]\<rparr>\<rparr>"

definition mallory_key :: ChatSenderKeyDistributionData where
  "mallory_key = \<lparr>sd_ConversationID = ''group-11'', sd_SenderPeerID = ''mallory-id'', sd_ChainKey = zero_key, sd_MessageNumber = 0\<rparr>"

definition mallory_message :: ChatGroupMessageData where
  "mallory_message =
     \<lparr>gmd_MessageID = ''message-9'', gmd_ConversationID = ''group-11'', gmd_SenderPeerID = ''mallory-id'',
      gmd_EncryptedContent = box_seal toy_prims (go_bytes ''spam'') (replicate 24 0) (key_at toy_prims zero_key 0),
      gmd_Nonce = replicate 24 0, gmd_MessageNumber = 0, gmd_Signature = replicate 64 0, gmd_Timestamp = 5\<rparr>"

lemma mallory_sealed: "sealed_with toy_prims (sd_ChainKey mallory_key) 0 ''mallory-id'' ''spam'' mallory_message"
  using DeriveMessageKey_chain [OF toy_hkdf, of zero_key 0]
  by (simp add: sealed_with_def mallory_message_def mallory_key_def)

theorem group_message_from_any_peer_witness:
  "IsGroupMember good_conn ''group-11'' ''mallory-id'' (chat_tables group_node) = Inr False
   \<and> (\<exists>node1 node2 row.
     HandleChatSenderKeyDistribution toy_prims None (\<lambda>_. good_conn) 6 (Some mallory_key) ''mallory-id'' group_node = Some node1
     \<and> HandleChatGroupMessage toy_prims (\<lambda>_. Some toy_pk) (\<lambda>_. None) (\<lambda>_. good_conn) 7 (Some mallory_message) ''mallory-id'' node1
         = Some node2
     \<and> row_at MessageID ''message-9'' (messages (chat_tables node2)) = Some row
     \<and> DecryptedContent row = ''spam'' \<and> cm_SenderPeerID row = ''mallory-id'' \<and> cm_ConversationID row = ''group-11'')"
proof
  show "IsGroupMember good_conn ''group-11'' ''mallory-id'' (chat_tables group_node) = Inr False"
    by (simp add: IsGroupMember_def group_node_def good_conn_def sample_member_row_def)
  have pk: "toy_pk \<noteq> []" by (simp add: toy_pk_def)
  show "\<exists>node1 node2 row.
     HandleChatSenderKeyDistribution toy_prims None (\<lambda>_. good_conn) 6 (Some mallory_key) ''mallory-id'' group_node = Some node1
     \<and> HandleChatGroupMessage toy_prims (\<lambda>_. Some toy_pk) (\<lambda>_. None) (\<lambda>_. good_conn) 7 (Some mallory_message) ''mallory-id'' node1
         = Some node2
     \<and> row_at MessageID ''message-9'' (messages (chat_tables node2)) = Some row
     \<and> DecryptedContent row = ''spam'' \<and> cm_SenderPeerID row = ''mallory-id'' \<and> cm_ConversationID row = ''group-11''"
    using group_message_from_any_peer [where known_key = "\<lambda>_. Some toy_pk" and cs = "\<lambda>_. good_conn" and cs' = "\<lambda>_. good_conn"
        and k = mallory_key and d = mallory_message and node = group_node and now = 6 and now' = 7 and rnd = None
        and rs = "\<lambda>_. None", OF toy_box] mallory_sealed pk
    by (auto simp: working_def good_conn_def IsGroupMember_def HasGroupSenderKeys_def has_conversation_def group_node_def
        mallory_key_def mallory_message_def sample_member_row_def sample_node_def sample_chat_db_def sample_group_row_def zero_key_def)
qed

section \<open>Traffic that arrives before the group\<close>

definition members_active :: "string \<Rightarrow> chat_db \<Rightarrow> bool" where
  "members_active gid db \<longleftrightarrow> list_all (\<lambda>r. gm_ConversationID r = gid \<longrightarrow> LeftAt r = 0) (group_members db)"

lemma IsGroupMember_iff:
  "fault c \<noteq> ExecFails \<Longrightarrow> IsGroupMember c gid p db =
     Inr (\<exists>r\<in>set (group_members db). member_key r = (gid, p) \<and> LeftAt r = 0)"
  by (auto simp: IsGroupMember_def member_key_def filter_empty_conv)

lemma AddGroupMember_active:
  assumes "AddGroupMember c now r db = (e, db1)" and "fault c = NoFault" and "LeftAt r = 0"
    and "has_conversation db (gm_ConversationID r)" and "members_active (gm_ConversationID r) db"
  shows "conversations db1 = conversations db" "messages db1 = messages db" "set (group_members db) \<subseteq> set (group_members db1)"
    "members_active (gm_ConversationID r) db1" "\<exists>r'\<in>set (group_members db1). member_key r' = member_key r \<and> LeftAt r' = 0"
proof -
  show "conversations db1 = conversations db" "messages db1 = messages db" "set (group_members db) \<subseteq> set (group_members db1)"
    "members_active (gm_ConversationID r) db1"
    using assms by (auto simp: AddGroupMember_def orphan_def members_active_def split: if_splits)
  show "\<exists>r'\<in>set (group_members db1). member_key r' = member_key r \<and> LeftAt r' = 0"
  proof (cases "member_key r \<in> member_key ` set (group_members db)")
    case True
    then obtain r' where "r' \<in> set (group_members db)" "member_key r' = member_key r" by auto
    with True assms show ?thesis by (auto simp: AddGroupMember_def members_active_def list_all_iff member_key_def)
  next
    case False
    with assms(1-4) have "db1 = db\<lparr>group_members := group_members db @ [r\<lparr>JoinedAt := now\<rparr>]\<rparr>"
      by (simp add: AddGroupMember_def orphan_def)
    with assms(3) show ?thesis by (simp add: member_key_def)
  qed
qed

lemma add_members_ok:
  assumes "working cs"
  shows "list_all (\<lambda>m. 8 \<le> length m) ms \<Longrightarrow> has_conversation db gid \<Longrightarrow> members_active gid db \<Longrightarrow>
     \<exists>db'. add_members cs now gid admin i ms db = Some db' \<and> conversations db' = conversations db \<and> messages db' = messages db
       \<and> set (group_members db) \<subseteq> set (group_members db') \<and> (\<forall>m\<in>set ms. \<exists>r\<in>set (group_members db'). member_key r = (gid, m) \<and> LeftAt r = 0)"
proof (induction ms arbitrary: db i)
  case (Cons m ms)
  let ?row = "\<lparr>gm_ConversationID = gid, gm_PeerID = m, JoinedAt = 0, IsAdmin = (m = admin), LeftAt = 0\<rparr>"
  obtain e db1 where add: "AddGroupMember (cs i) now ?row db = (e, db1)" by fastforce
  have db1: "conversations db1 = conversations db" "messages db1 = messages db" "set (group_members db) \<subseteq> set (group_members db1)"
      "members_active gid db1" "\<exists>r\<in>set (group_members db1). member_key r = (gid, m) \<and> LeftAt r = 0"
    using AddGroupMember_active [OF add] Cons.prems(2,3) assms by (simp_all add: working_def member_key_def)
  have "has_conversation db1 gid" using Cons.prems(2) has_conversation_cong [OF db1(1)] by simp
  with Cons.IH [of db1 "Suc i"] Cons.prems(1) db1(4) obtain db2 where
    db2: "add_members cs now gid admin (Suc i) ms db1 = Some db2" "conversations db2 = conversations db1" "messages db2 = messages db1"
      "set (group_members db1) \<subseteq> set (group_members db2)" "\<forall>m\<in>set ms. \<exists>r\<in>set (group_members db2). member_key r = (gid, m) \<and> LeftAt r = 0"
    by auto
  moreover have "add_members cs now gid admin i (m # ms) db = Some db2"
    using add db2(1) Cons.prems(1) by (simp add: slice8_def split: option.splits)
  moreover have "\<exists>r\<in>set (group_members db2). member_key r = (gid, m) \<and> LeftAt r = 0" using db1(5) db2(4) by blast
  ultimately show ?case using db1(1-3) by auto
qed simp

text \<open>What the announcement of a group does before it turns to the traffic that arrived early.\<close>

lemma HandleChatGroupCreate_joins:
  assumes "gc_CreatorPeerID g = remote" and "peerID node \<in> set (gc_MemberPeerIDs g)" and "gc_GroupName g \<noteq> []"
    and "\<not> has_conversation (chat_tables node) gid" and "gc_ConversationID g = gid"
    and "list_all (\<lambda>r. gm_ConversationID r \<noteq> gid) (group_members (chat_tables node))"
    and "list_all (\<lambda>m. 8 \<le> length m) (remote # gid # gc_MemberPeerIDs g)"
    and "fault ca = NoFault" and "working cs"
  shows "\<exists>node4 gsk. HandleChatGroupCreate P known_key (Some kr) (Some nr) ca cb cs prs pcs rss css now (Some g) remote node
        = processPendingSenderKeys P prs pcs now gid node4 \<bind> processPendingGroupMessages P known_key rss css now gid
     \<and> groupKeys (cryptoManager node4) gid = Some gsk \<and> has_conversation (chat_tables node4) gid \<and> peerID node4 = peerID node
     \<and> messages (chat_tables node4) = messages (chat_tables node)
     \<and> pendingSenderKeys node4 = pendingSenderKeys node \<and> pendingGroupMessages node4 = pendingGroupMessages node
     \<and> (\<exists>r\<in>set (group_members (chat_tables node4)). member_key r = (gid, peerID node) \<and> LeftAt r = 0)"
proof -
  let ?v = "\<lparr>conv_ConversationID = gid, ConversationType = ''group'', conv_PeerID = [], GroupName = gc_GroupName g,
      conv_CreatedAt = 0, conv_UpdatedAt = 0, LastMessageAt = 0, UnreadCount = 0\<rparr>"
  let ?db = "(chat_tables node)\<lparr>conversations := conversations (chat_tables node) @ [?v\<lparr>conv_CreatedAt := now, conv_UpdatedAt := now\<rparr>]\<rparr>"
  have cr: "CreateConversation ca now ?v (chat_tables node) = (None, ?db)"
    using assms(3,4,8) by (simp add: CreateConversation_def conversation_check_def)
  have "list_all (\<lambda>r. gm_ConversationID r = gid \<longrightarrow> LeftAt r = 0) (group_members (chat_tables node))"
    using assms(6) by (auto simp: list_all_iff)
  then have "has_conversation ?db gid" "members_active gid ?db"
    by (simp_all add: has_conversation_def members_active_def)
  with add_members_ok [OF assms(9), of "gc_MemberPeerIDs g" ?db gid now remote 0] assms(7) obtain db1 where
    db1: "add_members cs now gid remote 0 (gc_MemberPeerIDs g) ?db = Some db1" "conversations db1 = conversations ?db"
      "messages db1 = messages (chat_tables node)"
      "\<forall>m\<in>set (gc_MemberPeerIDs g). \<exists>r\<in>set (group_members db1). member_key r = (gid, m) \<and> LeftAt r = 0"
    by auto
  obtain gsk where gsk: "NewGroupSenderKeys (Some kr) gid (peerID node) (PrivateKey (keyPair (cryptoManager node))) = Inr gsk"
      "GetOurSenderKeyState gsk = Inr (kr, 0)"
    by (simp add: NewGroupSenderKeys_def NewSenderKey_def GetOurSenderKeyState_def)
  let ?node2 = "node\<lparr>chat_tables := db1, cryptoManager := (cryptoManager node)\<lparr>groupKeys := (groupKeys (cryptoManager node))(gid \<mapsto> gsk)\<rparr>\<rparr>"
  obtain e node3 where k: "store_key P (Some nr) cb now gid (peerID node) kr 0 ?node2 = (e, node3)" by fastforce
  then have e: "e \<noteq> Some KeyEncryptFailed"
    by (auto simp: store_key_def EncryptSenderKeyForStorage_def seal_for_storage_def split: option.splits prod.splits)
  have hc: "has_conversation (chat_tables node3) gid"
    using store_key_frame [OF k] db1(2) by (simp add: has_conversation_def)
  have sl: "list_all (\<lambda>m. slice8 m \<noteq> None) (filter q (gc_MemberPeerIDs g))" for q
    using assms(7) by (auto simp: list_all_iff slice8_def)
  let ?out = "map (\<lambda>m. (m, SenderKeyDistribution \<lparr>sd_ConversationID = gid, sd_SenderPeerID = peerID node, sd_ChainKey = kr,
      sd_MessageNumber = 0\<rparr>)) (filter (\<lambda>m. m \<noteq> peerID node) (gc_MemberPeerIDs g))"
  have "HandleChatGroupCreate P known_key (Some kr) (Some nr) ca cb cs prs pcs rss css now (Some g) remote node
      = processPendingSenderKeys P prs pcs now gid (node3\<lparr>outbox := outbox node3 @ ?out\<rparr>)
          \<bind> processPendingGroupMessages P known_key rss css now gid"
    using assms(1,2,5,7) cr db1(1) gsk k e sl
    by (auto simp: HandleChatGroupCreate_def slice8_def CreateGroupSenderKeys_def ccm_GetOurSenderKeyState_def Let_def
        split: option.splits persist_error.splits)
  with store_key_frame [OF k] hc db1(3,4) assms(2) show ?thesis
    by (intro exI [of _ "node3\<lparr>outbox := outbox node3 @ ?out\<rparr>"] exI [of _ gsk]) auto
qed

lemma early_traffic_queued:
  assumes "IsGroupMember (cs 0) gid (peerID node) (chat_tables node) = Inr False" and "8 \<le> length gid" and "8 \<le> length remote"
  shows "sd_ConversationID k = gid \<Longrightarrow> sd_SenderPeerID k = remote \<Longrightarrow> length (sd_ChainKey k) = 32 \<Longrightarrow>
      HandleChatSenderKeyDistribution P rnd cs now (Some k) remote node = Some (node\<lparr>pendingSenderKeys :=
        (pendingSenderKeys node)(gid := pendingSenderKeys node gid
           @ [\<lparr>psk_SenderPeerID = remote, psk_ChainKey = sd_ChainKey k, psk_MessageNumber = sd_MessageNumber k\<rparr>])\<rparr>)"
    "gmd_ConversationID d = gid \<Longrightarrow> gmd_SenderPeerID d = remote \<Longrightarrow>
      HandleChatGroupMessage P known_key rs cs now (Some d) remote node = Some (node\<lparr>pendingGroupMessages :=
        (pendingGroupMessages node)(gid := pendingGroupMessages node gid @ [(d, remote)])\<rparr>)"
  using assms by (auto simp: HandleChatSenderKeyDistribution_def HandleChatGroupMessage_def slice8_def)

lemma pending_key_processed:
  assumes "pendingSenderKeys node gid = [\<lparr>psk_SenderPeerID = remote, psk_ChainKey = ck, psk_MessageNumber = n\<rparr>]"
    and "groupKeys (cryptoManager node) gid = Some gsk" and "8 \<le> length gid" and "8 \<le> length remote"
  shows "\<exists>node'. processPendingSenderKeys P rs cs now gid node = Some node'
     \<and> groupKeys (cryptoManager node') gid = Some (AddSenderKey remote ck n gsk) \<and> peerID node' = peerID node
     \<and> pendingGroupMessages node' = pendingGroupMessages node \<and> conversations (chat_tables node') = conversations (chat_tables node)
     \<and> messages (chat_tables node') = messages (chat_tables node) \<and> group_members (chat_tables node') = group_members (chat_tables node)"
proof -
  let ?node = "node\<lparr>pendingSenderKeys := (pendingSenderKeys node)(gid := []),
      cryptoManager := (cryptoManager node)\<lparr>groupKeys := (groupKeys (cryptoManager node))(gid \<mapsto> AddSenderKey remote ck n gsk)\<rparr>\<rparr>"
  obtain e node' where k: "store_key P (rs 0) (cs 0) now gid remote ck n ?node = (e, node')" by fastforce
  have "processPendingSenderKeys P rs cs now gid node = Some node'"
    using assms k by (simp add: processPendingSenderKeys_def slice8_def AddGroupSenderKey_def Let_def split: option.splits)
  with store_key_frame [OF k] show ?thesis by simp
qed

text \<open>
  C17. The order in which a group's traffic arrives does not matter: a sender key and a message under it
  that come before the announcement of the group are kept, and the announcement that makes the node a
  member stores the message, with its content and sender.
\<close>

theorem early_group_traffic_delivered:
  assumes "box_correct P" and "sealed_with P (sd_ChainKey k) (sd_MessageNumber k) (sd_SenderPeerID k) content d"
    and "gmd_ConversationID d = sd_ConversationID k" and "gc_ConversationID g = sd_ConversationID k"
    and "length (sd_ChainKey k) = 32" and "known_key (sd_SenderPeerID k) = Some pk" and "pk \<noteq> []"
    and "list_all (\<lambda>m. 8 \<le> length m) (gmd_MessageID d # sd_SenderPeerID k # gc_CreatorPeerID g # sd_ConversationID k # gc_MemberPeerIDs g)"
    and "peerID node \<in> set (gc_MemberPeerIDs g)" and "gc_GroupName g \<noteq> []"
    and "\<not> has_conversation (chat_tables node) (sd_ConversationID k)"
    and "list_all (\<lambda>r. gm_ConversationID r \<noteq> sd_ConversationID k) (group_members (chat_tables node))"
    and "pendingSenderKeys node (sd_ConversationID k) = []" and "pendingGroupMessages node (sd_ConversationID k) = []"
    and "gmd_MessageID d \<notin> MessageID ` set (messages (chat_tables node))"
    and "working ds" and "working es" and "working cs" and "working (css 0)" and "fault ca = NoFault"
  shows "\<exists>node1 node2 node3 row.
     HandleChatSenderKeyDistribution P rnd ds now (Some k) (sd_SenderPeerID k) node = Some node1
     \<and> HandleChatGroupMessage P known_key rs es now (Some d) (sd_SenderPeerID k) node1 = Some node2
     \<and> HandleChatGroupCreate P known_key (Some kr) (Some nr) ca cb cs prs pcs rss css now (Some g) (gc_CreatorPeerID g) node2 = Some node3
     \<and> row_at MessageID (gmd_MessageID d) (messages (chat_tables node3)) = Some row
     \<and> DecryptedContent row = content \<and> cm_SenderPeerID row = sd_SenderPeerID k \<and> cm_ConversationID row = sd_ConversationID k"
proof -
  let ?gid = "sd_ConversationID k" and ?from = "sd_SenderPeerID k"
  have len: "8 \<le> length ?gid" "8 \<le> length ?from" "8 \<le> length (gmd_MessageID d)" using assms(8) by simp_all
  have sender: "gmd_SenderPeerID d = ?from" using assms(2) by (simp add: sealed_with_def)
  have out: "IsGroupMember c ?gid (peerID node) (chat_tables node) = Inr False" if "fault c = NoFault" for c
    using assms(12) that by (auto simp: IsGroupMember_iff member_key_def list_all_iff)
  let ?psk = "\<lparr>psk_SenderPeerID = ?from, psk_ChainKey = sd_ChainKey k, psk_MessageNumber = sd_MessageNumber k\<rparr>"
  let ?node1 = "node\<lparr>pendingSenderKeys := (pendingSenderKeys node)(?gid := [?psk])\<rparr>"
  let ?node2 = "?node1\<lparr>pendingGroupMessages := (pendingGroupMessages node)(?gid := [(d, ?from)])\<rparr>"
  have 1: "HandleChatSenderKeyDistribution P rnd ds now (Some k) ?from node = Some ?node1"
    using early_traffic_queued(1) [of ds ?gid node ?from k P rnd now] out len assms(5,13,16) by (simp add: working_def)
  have 2: "HandleChatGroupMessage P known_key rs es now (Some d) ?from ?node1 = Some ?node2"
    using early_traffic_queued(2) [of es ?gid ?node1 ?from d P known_key rs now] out len assms(3,14,17) sender by (simp add: working_def)
  define N where "N = ?node2"
  have N: "peerID N = peerID node" "chat_tables N = chat_tables node" by (simp_all add: N_def)
  have "list_all (\<lambda>m. 8 \<le> length m) (gc_CreatorPeerID g # ?gid # gc_MemberPeerIDs g)" using assms(8) by simp
  from HandleChatGroupCreate_joins [where node = N, OF refl _ assms(10) _ assms(4) _ this assms(20,18)] N assms(9,11,12)
  obtain node4 gsk where 4: "HandleChatGroupCreate P known_key (Some kr) (Some nr) ca cb cs prs pcs rss css now (Some g) (gc_CreatorPeerID g) N
        = processPendingSenderKeys P prs pcs now ?gid node4 \<bind> processPendingGroupMessages P known_key rss css now ?gid"
      "groupKeys (cryptoManager node4) ?gid = Some gsk" "has_conversation (chat_tables node4) ?gid" "peerID node4 = peerID node"
      "messages (chat_tables node4) = messages (chat_tables node)" "pendingSenderKeys node4 = pendingSenderKeys N"
      "pendingGroupMessages node4 = pendingGroupMessages N"
      "\<exists>r\<in>set (group_members (chat_tables node4)). member_key r = (?gid, peerID node) \<and> LeftAt r = 0"
    by metis
  have 6: "pendingSenderKeys node4 ?gid = [?psk]" using 4(6) by (simp add: N_def)
  obtain node5 where 5: "processPendingSenderKeys P prs pcs now ?gid node4 = Some node5"
      "groupKeys (cryptoManager node5) ?gid = Some (AddSenderKey ?from (sd_ChainKey k) (sd_MessageNumber k) gsk)"
      "peerID node5 = peerID node4" "pendingGroupMessages node5 = pendingGroupMessages node4"
      "conversations (chat_tables node5) = conversations (chat_tables node4)"
      "messages (chat_tables node5) = messages (chat_tables node4)" "group_members (chat_tables node5) = group_members (chat_tables node4)"
    using pending_key_processed [OF 6 4(2) len(1,2)] by blast
  let ?node6 = "node5\<lparr>pendingGroupMessages := (pendingGroupMessages node5)(?gid := [])\<rparr>"
  have gk: "groupKeys (cryptoManager ?node6) ?gid = Some (AddSenderKey ?from (sd_ChainKey k) (sd_MessageNumber k) gsk)"
    using 5(2) by simp
  have "IsGroupMember (css 0 0) ?gid (peerID ?node6) (chat_tables ?node6) = Inr True"
    using 4(4,8) 5(3,7) assms(19) by (simp add: IsGroupMember_iff working_def)
  with HandleChatGroupMessage_ok [where known_key = known_key and cs = "css 0" and rs = "rss 0" and now = now and pk = pk
      and node = ?node6 and gid = ?gid, OF assms(1,2) gk AddSenderKey_same]
    4(3,5) 5 assms(3,6,7,15,19) len has_conversation_cong [OF 5(5)]
  obtain node7 where 7: "HandleChatGroupMessage P known_key (rss 0) (css 0) now (Some d) ?from ?node6 = Some node7"
      "messages (chat_tables node7) = messages (chat_tables node) @ [group_row now d (go_bytes content)]" by auto
  have "processPendingGroupMessages P known_key rss css now ?gid node5 = Some node7"
    using 4(7) 5(4) 7(1) len(1) by (simp add: N_def processPendingGroupMessages_def slice8_def Let_def)
  with 4(1) 5(1) have 3: "HandleChatGroupCreate P known_key (Some kr) (Some nr) ca cb cs prs pcs rss css now (Some g)
      (gc_CreatorPeerID g) N = Some node7" by simp
  from group_row_stored [OF refl assms(15), of now content] 7(2) sender assms(3) obtain row where
    "row_at MessageID (gmd_MessageID d) (messages (chat_tables node7)) = Some row" "DecryptedContent row = content"
    "cm_SenderPeerID row = ?from" "cm_ConversationID row = ?gid" by auto
  with 1 2 3 show ?thesis unfolding N_def by blast
qed

definition sample_creation :: ChatGroupCreateData where
  "sample_creation = \<lparr>gc_ConversationID = ''group-11'', gc_GroupName = ''friends'', gc_CreatorPeerID = ''bob-peer-id'',
     gc_MemberPeerIDs = [''bob-peer-id'', ''alice-peer-id'', ''mallory-id'']\<rparr>"

theorem early_group_traffic_delivered_witness:
  "\<exists>node1 node2 node3 row.
     HandleChatSenderKeyDistribution toy_prims None (\<lambda>_. good_conn) 6 (Some mallory_key) ''mallory-id'' sample_node = Some node1
     \<and> HandleChatGroupMessage toy_prims (\<lambda>_. Some toy_pk) (\<lambda>_. None) (\<lambda>_. good_conn) 6 (Some mallory_message) ''mallory-id'' node1
         = Some node2
     \<and> HandleChatGroupCreate toy_prims (\<lambda>_. Some toy_pk) (Some zero_key) (Some [1]) good_conn good_conn (\<lambda>_. good_conn) (\<lambda>_. None)
         (\<lambda>_. good_conn) (\<lambda>_ _. None) (\<lambda>_ _. good_conn) 6 (Some sample_creation) ''bob-peer-id'' node2 = Some node3
     \<and> row_at MessageID ''message-9'' (messages (chat_tables node3)) = Some row
     \<and> DecryptedContent row = ''spam'' \<and> cm_SenderPeerID row = ''mallory-id'' \<and> cm_ConversationID row = ''group-11''"
  using early_group_traffic_delivered [where known_key = "\<lambda>_. Some toy_pk" and cs = "\<lambda>_. good_conn" and ds = "\<lambda>_. good_conn"
      and es = "\<lambda>_. good_conn" and css = "\<lambda>_ _. good_conn" and k = mallory_key and d = mallory_message and node = sample_node
      and now = 6 and rnd = None and rs = "\<lambda>_. None" and g = sample_creation and kr = zero_key and nr = "[1]" and prs = "\<lambda>_. None"
      and rss = "\<lambda>_ _. None" and ca = good_conn and cb = good_conn and pcs = "\<lambda>_. good_conn", OF toy_box] mallory_sealed
  by (auto simp: working_def good_conn_def has_conversation_def mallory_key_def mallory_message_def sample_node_def
      sample_chat_db_def sample_conversation_def sample_creation_def zero_key_def toy_pk_def)

section \<open>Leaving\<close>

lemma LeaveGroup_effect:
  assumes "LeaveGroup cs now gid node = Some (None, node')"
  shows "\<exists>r\<in>set (group_members (chat_tables node)). member_key r = (gid, peerID node) \<and> LeftAt r = 0"
    "group_members (chat_tables node') = sql_update (\<lambda>m. gm_ConversationID m = gid \<and> gm_PeerID m = peerID node \<and> LeftAt m = 0)
       (\<lambda>m. m\<lparr>LeftAt := now\<rparr>) (group_members (chat_tables node))"
    "peerID node' = peerID node" "cryptoManager node' = cryptoManager node"
    "conversations (chat_tables node') = conversations (chat_tables node)"
    "messages (chat_tables node') = messages (chat_tables node)"
    "\<exists>conv. row_at conv_ConversationID gid (conversations (chat_tables node)) = Some conv \<and> ConversationType conv = ''group''"
  using assms
  by (auto simp: LeaveGroup_def GetConversation_def IsGroupMember_def RemoveGroupMember_def DeleteSenderKeysForGroup_def member_key_def
      filter_empty_conv split: if_splits option.splits sum.splits bool.splits prod.splits bind_splits)

lemma left_not_member:
  assumes "now \<noteq> 0" and "fault c \<noteq> ExecFails"
    and "group_members db' = sql_update (\<lambda>m. gm_ConversationID m = gid \<and> gm_PeerID m = p \<and> LeftAt m = 0)
       (\<lambda>m. m\<lparr>LeftAt := now\<rparr>) rows"
  shows "IsGroupMember c gid p db' = Inr False"
proof -
  have "filter (\<lambda>m. gm_ConversationID m = gid \<and> gm_PeerID m = p \<and> LeftAt m = 0) (group_members db') = []"
    unfolding assms(3) using assms(1) by (induction rows) simp_all
  then show ?thesis using assms(2) by (simp add: IsGroupMember_def)
qed

lemma nonmember_gets_nothing:
  assumes "IsGroupMember (cs 0) (gmd_ConversationID d) (peerID node) (chat_tables node) = Inr False"
    and "HandleChatGroupMessage P known_key rs cs now (Some d) remote node = Some node'"
  shows "chat_tables node' = chat_tables node"
  using assms by (auto simp: HandleChatGroupMessage_def split: if_splits bind_splits)

lemma group_exists_refuses_creation:
  assumes "has_conversation (chat_tables node) (gc_ConversationID g)"
    and "HandleChatGroupCreate P known_key kr nr ca cb cs prs pcs rss css now (Some g) remote node = Some node'"
  shows "chat_tables node' = chat_tables node"
proof -
  have "fst (CreateConversation ca now v (chat_tables node)) \<noteq> None \<and> snd (CreateConversation ca now v (chat_tables node)) = chat_tables node"
    if "conv_ConversationID v = gc_ConversationID g" for v
    using assms(1) that by (simp add: CreateConversation_def)
  then obtain e where "CreateConversation ca now
      \<lparr>conv_ConversationID = gc_ConversationID g, ConversationType = ''group'', conv_PeerID = [], GroupName = gc_GroupName g,
       conv_CreatedAt = 0, conv_UpdatedAt = 0, LastMessageAt = 0, UnreadCount = 0\<rparr> (chat_tables node) = (Some e, chat_tables node)"
    by (metis ChatConversation.select_convs(1) option.exhaust_sel prod.collapse)
  with assms(2) show ?thesis by (auto simp: HandleChatGroupCreate_def split: if_splits bind_splits)
qed

text \<open>
   Leaving a group is final and only half done: from then on the node is not a member, stores no
  message of the group, ignores a new announcement of it and cannot be added again (the membership row
  stays, and the key of the table is group and peer); but the sender keys of the group stay in memory,
  so that a later message to the group is still encrypted and sent.
\<close>

theorem leaving_is_final:
  assumes "LeaveGroup cs now gid node = Some (None, node')" and "now \<noteq> 0" and "fault c \<noteq> ExecFails"
  shows "IsGroupMember c gid (peerID node) (chat_tables node') = Inr False
     \<and> (\<forall>r t. member_key r = (gid, peerID node) \<longrightarrow>
          AddGroupMember c t r (chat_tables node') = (Some UniqueViolation, chat_tables node'))
     \<and> (\<forall>d P known_key rs t remote node''. gmd_ConversationID d = gid
          \<and> HandleChatGroupMessage P known_key rs (\<lambda>_. c) t (Some d) remote node' = Some node'' \<longrightarrow>
            chat_tables node'' = chat_tables node')
     \<and> (\<forall>g P known_key kr nr ca cb ds prs pcs rss css t remote node''. gc_ConversationID g = gid
          \<and> HandleChatGroupCreate P known_key kr nr ca cb ds prs pcs rss css t (Some g) remote node' = Some node'' \<longrightarrow>
            chat_tables node'' = chat_tables node')
     \<and> cryptoManager node' = cryptoManager node"
proof -
  note eff = LeaveGroup_effect [OF assms(1)]
  have out: "IsGroupMember c gid (peerID node) (chat_tables node') = Inr False"
    by (rule left_not_member [OF assms(2,3) eff(2)])
  have "(gid, peerID node) \<in> member_key ` set (group_members (chat_tables node'))"
    using eff(1) unfolding eff(2) by (subst image_sql_update) (auto simp: member_key_def)
  then have add: "AddGroupMember c t r (chat_tables node') = (Some UniqueViolation, chat_tables node')"
    if "member_key r = (gid, peerID node)" for r t
    using that assms(3) by (simp add: AddGroupMember_def)
  have conv: "has_conversation (chat_tables node') gid"
    using eff(5,7) by (auto simp: has_conversation_def dest!: row_at_SomeD)
  show ?thesis
  proof (intro conjI allI impI, goal_cases)
    case (3 d P known_key rs t remote node'')
    with out eff(3) show ?case by (auto intro: nonmember_gets_nothing [of "\<lambda>_. c" d node' P known_key rs t remote])
  next
    case (4 g P known_key kr nr ca cb ds prs pcs rss css t remote node'')
    with conv show ?case by (auto intro: group_exists_refuses_creation)
  qed (rule out add eff(4); assumption)+
qed

theorem leaving_is_final_witness:
  "\<exists>node'. LeaveGroup (\<lambda>_. good_conn) 9 ''group-11'' group_node = Some (None, node')
     \<and> IsGroupMember good_conn ''group-11'' ''alice-peer-id'' (chat_tables node') = Inr False
     \<and> AddGroupMember good_conn 10 (sample_member_row ''alice-peer-id'') (chat_tables node') = (Some UniqueViolation, chat_tables node')
     \<and> HasGroupSenderKeys ''group-11'' (cryptoManager node')"
proof -
  have "\<exists>node'. LeaveGroup (\<lambda>_. good_conn) 9 ''group-11'' group_node = Some (None, node')"
    by (simp add: LeaveGroup_def GetConversation_def IsGroupMember_def RemoveGroupMember_def slice8_def good_conn_def group_node_def
        sample_member_row_def sample_node_def sample_group_row_def sample_chat_db_def row_at_def)
  then obtain node' where l: "LeaveGroup (\<lambda>_. good_conn) 9 ''group-11'' group_node = Some (None, node')" by blast
  have "peerID group_node = ''alice-peer-id''" "groupKeys (cryptoManager group_node) ''group-11'' \<noteq> None"
    "member_key (sample_member_row ''alice-peer-id'') = (''group-11'', ''alice-peer-id'')" "fault good_conn \<noteq> ExecFails"
    by (simp_all add: group_node_def sample_node_def sample_member_row_def member_key_def good_conn_def)
  with leaving_is_final [OF l, of good_conn] l show ?thesis by (auto simp: HasGroupSenderKeys_def)
qed

end
