(* ===== verification/Go_Float.thy ===== *)
theory Go_Float
  imports Complex_Main RN_Prelude
begin

text \<open>
  Go's \<open>float64\<close> as the payment code uses it: IEEE 754 binary64 values (the two zeros are
  identified, which no comparison, product or conversion used here can tell apart), the ordered
  comparisons, in which \<open>NaN\<close> is neither smaller than, equal to nor greater than anything,
  multiplication rounded to nearest-even, and the truncating conversion to \<open>uint64\<close>.  The main
  results are that rounding is monotone and that it fixes every integer below \<open>2 ^ 53\<close>.
\<close>

datatype float64 = NaN | PInf | NInf | Fin rat

section \<open>Comparisons\<close>

fun flt :: "float64 \<Rightarrow> float64 \<Rightarrow> bool" where
  "flt NaN y = False"
| "flt x NaN = False"
| "flt (Fin a) (Fin b) = (a < b)"
| "flt (Fin a) PInf = True"
| "flt (Fin a) NInf = False"
| "flt NInf y = (y \<noteq> NInf)"
| "flt PInf y = False"

fun feq :: "float64 \<Rightarrow> float64 \<Rightarrow> bool" where
  "feq NaN y = False"
| "feq x NaN = False"
| "feq x y = (x = y)"

definition fle :: "float64 \<Rightarrow> float64 \<Rightarrow> bool" where
  "fle x y = (flt x y \<or> feq x y)"

lemma flt_NaN [simp]: "flt x NaN = False" by (cases x) auto
lemma feq_NaN [simp]: "feq x NaN = False" by (cases x) auto
lemma fle_NaN [simp]: "fle x NaN = False" "fle NaN x = False" by (simp_all add: fle_def)
lemma fle_Fin [simp]: "fle (Fin a) (Fin b) = (a \<le> b)" by (auto simp: fle_def)

lemma flt_irrefl [simp]: "\<not> flt x x" by (cases x) auto

lemma flt_trans: "flt x y \<Longrightarrow> flt y z \<Longrightarrow> flt x z"
  by (cases x; cases y; cases z) auto

lemma not_flt_fle: "x \<noteq> NaN \<Longrightarrow> y \<noteq> NaN \<Longrightarrow> \<not> flt x y \<longleftrightarrow> fle y x"
  by (cases x; cases y) (auto simp: fle_def)

lemma fle_zero_flt: "fle (Fin 0) f \<Longrightarrow> flt (Fin (- 1)) f"
  by (cases f) (auto simp: fle_def)

section \<open>Rounding to nearest, ties to even\<close>

function ilog2 :: "int \<Rightarrow> nat" where
  "ilog2 n = (if n < 2 then 0 else Suc (ilog2 (n div 2)))"
  by pat_completeness auto
termination
  by (relation "measure nat") auto

declare ilog2.simps [simp del]

definition pow2 :: "int \<Rightarrow> rat" where
  "pow2 e = (if 0 \<le> e then 2 ^ nat e else 1 / 2 ^ nat (- e))"

text \<open>The binary exponent of a non-zero rational: the \<open>e\<close> with \<open>2 ^ e \<le> \<bar>r\<bar> < 2 ^ (e + 1)\<close>.\<close>

definition rat_exp :: "rat \<Rightarrow> int" where
  "rat_exp r =
     (case quotient_of \<bar>r\<bar> of (n, d) \<Rightarrow>
        let e = int (ilog2 n) - int (ilog2 d)
        in if \<bar>r\<bar> < pow2 e then e - 1 else e)"

definition round_half_even :: "rat \<Rightarrow> int" where
  "round_half_even x =
     (let f = \<lfloor>x\<rfloor>; t = x - of_int f
      in if t < 1 / 2 then f else if 1 / 2 < t then f + 1 else if even f then f else f + 1)"

text \<open>The exponent of the unit in the last place: 53 bits of precision, subnormals below \<open>2 ^ -1022\<close>.\<close>

definition ulp_exp :: "rat \<Rightarrow> int" where
  "ulp_exp r = max (rat_exp r - 52) (- 1074)"

definition round_val :: "rat \<Rightarrow> rat" where
  "round_val r =
     (if r = 0 then 0 else of_int (round_half_even (r / pow2 (ulp_exp r))) * pow2 (ulp_exp r))"

definition overflow_bound :: rat where
  "overflow_bound = 2 ^ 1024"

definition round64 :: "rat \<Rightarrow> float64" where
  "round64 r =
     (let v = round_val r
      in if overflow_bound \<le> v then PInf else if v \<le> - overflow_bound then NInf else Fin v)"

fun fmul :: "float64 \<Rightarrow> float64 \<Rightarrow> float64" where
  "fmul NaN y = NaN"
| "fmul x NaN = NaN"
| "fmul (Fin a) (Fin b) = round64 (a * b)"
| "fmul (Fin a) PInf = (if a = 0 then NaN else if 0 < a then PInf else NInf)"
| "fmul (Fin a) NInf = (if a = 0 then NaN else if 0 < a then NInf else PInf)"
| "fmul PInf (Fin b) = (if b = 0 then NaN else if 0 < b then PInf else NInf)"
| "fmul NInf (Fin b) = (if b = 0 then NaN else if 0 < b then NInf else PInf)"
| "fmul PInf PInf = PInf"
| "fmul NInf NInf = PInf"
| "fmul PInf NInf = NInf"
| "fmul NInf PInf = NInf"

text \<open>
  \<open>uint64(f)\<close> truncates toward zero.  The language leaves a result that does not fit to the
  implementation, which is the argument \<open>oor\<close>.
\<close>

definition go_uint64 :: "(float64 \<Rightarrow> int) \<Rightarrow> float64 \<Rightarrow> int" where
  "go_uint64 oor f =
     (case f of
        Fin a \<Rightarrow> if - 1 < a \<and> a < 2 ^ 64 then max 0 \<lfloor>a\<rfloor> else oor f
      | _ \<Rightarrow> oor f)"

section \<open>Powers of two and exponents\<close>

lemma pow2_pos [simp]: "0 < pow2 e"
  by (simp add: pow2_def)

lemma pow2_nonneg [simp]: "0 \<le> pow2 e"
  by (simp add: less_imp_le)

lemma pow2_neq_0 [simp]: "pow2 e \<noteq> 0"
  using pow2_pos [of e] by linarith

lemma pow2_Suc: "pow2 (e + 1) = 2 * pow2 e"
proof (cases "0 \<le> e")
  case True
  then have "nat (e + 1) = Suc (nat e)" by simp
  with True show ?thesis by (simp add: pow2_def)
next
  case False
  then have "nat (- e) = Suc (nat (- (e + 1)))" by simp
  with False show ?thesis by (auto simp: pow2_def field_simps)
qed

lemma pow2_add_nat: "pow2 (e + int n) = 2 ^ n * pow2 e"
proof (induction n)
  case (Suc n)
  have "pow2 (e + int (Suc n)) = pow2 ((e + int n) + 1)" by (simp add: algebra_simps)
  with Suc show ?case by (simp add: pow2_Suc)
qed simp

lemma pow2_mono: "a \<le> b \<Longrightarrow> pow2 a \<le> pow2 b"
proof -
  assume "a \<le> b"
  then have "b = a + int (nat (b - a))" by simp
  then have "pow2 b = 2 ^ nat (b - a) * pow2 a" by (metis pow2_add_nat)
  moreover have "1 \<le> (2 :: rat) ^ nat (b - a)" by simp
  ultimately show ?thesis
    by (metis mult_1 mult_right_mono pow2_nonneg)
qed

lemma ilog2_bounds: "0 < n \<Longrightarrow> 2 ^ ilog2 n \<le> n \<and> n < 2 * 2 ^ ilog2 n"
proof (induction n rule: ilog2.induct)
  case (1 n)
  show ?case
  proof (cases "n < 2")
    case True
    with 1 show ?thesis by (auto simp: ilog2.simps [of n])
  next
    case False
    with "1.IH" have "2 ^ ilog2 (n div 2) \<le> n div 2 \<and> n div 2 < 2 * 2 ^ ilog2 (n div 2)"
      by simp
    with False show ?thesis by (simp add: ilog2.simps [of n]) linarith
  qed
qed


lemma pow2_less_mono: "a < b \<Longrightarrow> pow2 a < pow2 b"
proof -
  assume "a < b"
  have "pow2 a < pow2 (a + 1)" by (simp add: pow2_Suc)
  also have "\<dots> \<le> pow2 b" using \<open>a < b\<close> by (intro pow2_mono) simp
  finally show ?thesis .
qed

lemma pow2_diff: "pow2 (int a - int b) = 2 ^ a / 2 ^ b"
proof -
  have "2 ^ b * pow2 (int a - int b) = pow2 (int a)"
    using pow2_add_nat [of "int a - int b" b] by simp
  then show ?thesis by (simp add: pow2_def field_simps)
qed

lemma pow2_ratio: "b \<le> a \<Longrightarrow> pow2 a / pow2 b = of_int (2 ^ nat (a - b))"
proof -
  assume "b \<le> a"
  then have "pow2 a = 2 ^ nat (a - b) * pow2 b"
    using pow2_add_nat [of b "nat (a - b)"] by simp
  then show ?thesis by simp
qed

lemma ilog2_rat:
  assumes "0 < n"
  shows "(2 :: rat) ^ ilog2 n \<le> of_int n" and "(of_int n :: rat) < 2 * 2 ^ ilog2 n"
proof -
  have b: "2 ^ ilog2 n \<le> n" "n < 2 * 2 ^ ilog2 n"
    using ilog2_bounds [of n] assms by auto
  from b(1) have "(of_int (2 ^ ilog2 n) :: rat) \<le> of_int n"
    by (simp only: of_int_le_iff)
  then show "(2 :: rat) ^ ilog2 n \<le> of_int n" by simp
  from b(2) have "(of_int n :: rat) < of_int (2 * 2 ^ ilog2 n)"
    by (simp only: of_int_less_iff)
  then show "(of_int n :: rat) < 2 * 2 ^ ilog2 n" by simp
qed

lemma rat_exp_bounds:
  assumes "r \<noteq> 0"
  shows "pow2 (rat_exp r) \<le> \<bar>r\<bar> \<and> \<bar>r\<bar> < pow2 (rat_exp r + 1)"
proof -
  obtain n d where q: "quotient_of \<bar>r\<bar> = (n, d)" by force
  then have d: "0 < d" and r: "\<bar>r\<bar> = of_int n / of_int d"
    by (auto simp: quotient_of_denom_pos quotient_of_div)
  from assms have "0 < \<bar>r\<bar>" by simp
  with r d have n: "0 < n" by (simp add: zero_less_divide_iff)
  let ?e = "int (ilog2 n) - int (ilog2 d)"
  let ?A = "(2 :: rat) ^ ilog2 n" and ?B = "(2 :: rat) ^ ilog2 d"
  let ?n = "of_int n :: rat" and ?d = "of_int d :: rat"
  have nq: "?A \<le> ?n" "?n < 2 * ?A" and dq: "?B \<le> ?d" "?d < 2 * ?B"
    using ilog2_rat [OF n] ilog2_rat [OF d] by auto
  have pos: "0 < ?A" "0 < ?B" "0 < ?d" using d by simp_all
  have "?n * ?B < 2 * ?A * ?B" using nq pos by simp
  also have "\<dots> \<le> 2 * ?A * ?d" using dq pos by simp
  finally have "?n / ?d < 2 * (?A / ?B)" using pos by (simp add: field_simps)
  then have up: "\<bar>r\<bar> < pow2 (?e + 1)" unfolding r pow2_Suc pow2_diff .
  have "?A * ?d < ?A * (2 * ?B)" using dq pos by simp
  also have "\<dots> \<le> ?n * (2 * ?B)" using nq pos by simp
  finally have lo: "pow2 (?e - 1) \<le> \<bar>r\<bar>"
    using pos pow2_Suc [of "?e - 1"] by (simp add: r pow2_diff field_simps)
  show ?thesis
    using up lo by (auto simp: rat_exp_def q Let_def not_less)
qed

lemma rat_exp_mono: "r \<noteq> 0 \<Longrightarrow> \<bar>r\<bar> \<le> \<bar>s\<bar> \<Longrightarrow> rat_exp r \<le> rat_exp s"
proof (rule ccontr)
  assume r: "r \<noteq> 0" and le: "\<bar>r\<bar> \<le> \<bar>s\<bar>" and "\<not> rat_exp r \<le> rat_exp s"
  then have "rat_exp s + 1 \<le> rat_exp r" by simp
  then have "pow2 (rat_exp s + 1) \<le> pow2 (rat_exp r)" by (rule pow2_mono)
  also have "\<dots> \<le> \<bar>r\<bar>" using rat_exp_bounds [OF r] by simp
  also have "\<dots> \<le> \<bar>s\<bar>" by (rule le)
  also have "\<dots> < pow2 (rat_exp s + 1)" using rat_exp_bounds [of s] r le by auto
  finally show False by simp
qed

section \<open>Rounding is monotone and exact on small integers\<close>

lemma round_half_even_cases: "round_half_even x = \<lfloor>x\<rfloor> \<or> round_half_even x = \<lfloor>x\<rfloor> + 1"
  by (auto simp: round_half_even_def Let_def)

lemma round_half_even_of_int [simp]: "round_half_even (of_int k) = k"
  by (simp add: round_half_even_def)

lemma round_half_even_mono:
  assumes "x \<le> y"
  shows "round_half_even x \<le> round_half_even y"
proof (cases "\<lfloor>x\<rfloor> = \<lfloor>y\<rfloor>")
  case True
  with assms show ?thesis by (auto simp: round_half_even_def Let_def)
next
  case False
  with assms have "\<lfloor>x\<rfloor> + 1 \<le> \<lfloor>y\<rfloor>" using floor_mono [OF assms] by simp
  then show ?thesis
    using round_half_even_cases [of x] round_half_even_cases [of y] by linarith
qed

lemma round_half_even_error: "\<bar>of_int (round_half_even x) - x\<bar> \<le> 1 / 2"
proof -
  have "x < of_int \<lfloor>x\<rfloor> + 1" using floor_correct [of x] by simp
  then show ?thesis
    using of_int_floor_le [of x]
    by (auto simp: round_half_even_def Let_def abs_if simp del: of_int_floor_le)
qed

lemma round_val_nonneg:
  assumes "0 \<le> r"
  shows "0 \<le> round_val r"
proof -
  have "round_half_even (of_int 0) \<le> round_half_even (r / pow2 (ulp_exp r))"
    using assms by (intro round_half_even_mono) simp
  then show ?thesis unfolding round_half_even_of_int by (simp add: round_val_def)
qed

lemma round_val_mono:
  assumes "0 \<le> a" and "a \<le> b"
  shows "round_val a \<le> round_val b"
proof (cases "a = 0")
  case True
  with assms show ?thesis using round_val_nonneg [of b] by (simp add: round_val_def)
next
  case False
  with assms have pos: "0 < a" "0 < b" by auto
  let ?qa = "ulp_exp a" and ?qb = "ulp_exp b" and ?E = "rat_exp b"
  have ab: "rat_exp a \<le> ?E" using rat_exp_mono [of a b] pos assms by simp
  show ?thesis
  proof (cases "?qa = ?qb")
    case True
    have "a / pow2 ?qa \<le> b / pow2 ?qa" using assms by (simp add: divide_right_mono)
    then have "round_half_even (a / pow2 ?qa) \<le> round_half_even (b / pow2 ?qa)"
      by (rule round_half_even_mono)
    with True pos show ?thesis by (simp add: round_val_def)
  next
    case False
    with ab have q: "?qb = ?E - 52" "?qa \<le> ?E" "rat_exp a < ?E"
      by (auto simp: ulp_exp_def max_def split: if_splits)
    have "a \<le> pow2 ?E"
      using rat_exp_bounds [of a] pos pow2_mono [of "rat_exp a + 1" ?E] q by simp
    then have "a / pow2 ?qa \<le> of_int (2 ^ nat (?E - ?qa))"
      using pow2_ratio [OF q(2)] by (metis divide_right_mono pow2_nonneg)
    then have "round_half_even (a / pow2 ?qa) \<le> 2 ^ nat (?E - ?qa)"
      by (metis round_half_even_mono round_half_even_of_int)
    then have "(of_int (round_half_even (a / pow2 ?qa)) :: rat) \<le> pow2 ?E / pow2 ?qa"
      using pow2_ratio [OF q(2)] by (metis of_int_le_iff)
    then have A: "round_val a \<le> pow2 ?E" using pos by (simp add: round_val_def pos_le_divide_eq)
    have "pow2 ?E \<le> b" using rat_exp_bounds [of b] pos by simp
    then have "of_int (2 ^ nat (?E - ?qb)) \<le> b / pow2 ?qb"
      using pow2_ratio [of ?qb ?E] q(1) by (metis diff_le_eq divide_right_mono le_add_same_cancel1
          pow2_nonneg zero_le_numeral)
    then have "2 ^ nat (?E - ?qb) \<le> round_half_even (b / pow2 ?qb)"
      by (metis round_half_even_mono round_half_even_of_int)
    then have "pow2 ?E / pow2 ?qb \<le> (of_int (round_half_even (b / pow2 ?qb)) :: rat)"
      using pow2_ratio [of ?qb ?E] q(1) by (metis diff_le_eq le_add_same_cancel1 of_int_le_iff zero_le_numeral)
    then have "pow2 ?E \<le> round_val b" using pos by (simp add: round_val_def pos_divide_le_eq)
    with A show ?thesis by simp
  qed
qed

lemma round_val_of_nat:
  assumes "n < 2 ^ 53"
  shows "round_val (of_nat n) = of_nat n"
proof (cases "n = 0")
  case False
  then have n: "(of_nat n :: rat) \<noteq> 0" by simp
  have "rat_exp (of_nat n) \<le> 52"
  proof (rule ccontr)
    assume "\<not> rat_exp (of_nat n) \<le> 52"
    then have "pow2 53 \<le> pow2 (rat_exp (of_nat n))" by (intro pow2_mono) simp
    also have "\<dots> \<le> of_nat n" using rat_exp_bounds [OF n] by simp
    finally have "(of_nat (2 ^ 53) :: rat) \<le> of_nat n" by (simp add: pow2_def)
    then have "2 ^ 53 \<le> n" by (simp only: of_nat_le_iff)
    with assms show False by simp
  qed
  then have q: "ulp_exp (of_nat n) \<le> 0" by (simp add: ulp_exp_def)
  have "of_nat n / pow2 (ulp_exp (of_nat n)) = of_int (int n * 2 ^ nat (- ulp_exp (of_nat n)))"
    using pow2_ratio [OF q] by (simp add: pow2_def divide_inverse split: if_splits)
  then have "round_val (of_nat n)
      = of_int (int n * 2 ^ nat (- ulp_exp (of_nat n))) * pow2 (ulp_exp (of_nat n))"
    by (simp only: round_val_def round_half_even_of_int n if_False)
  also have "\<dots> = of_nat n * (of_int (2 ^ nat (- ulp_exp (of_nat n))) * pow2 (ulp_exp (of_nat n)))"
    by simp
  also have "of_int (2 ^ nat (- ulp_exp (of_nat n))) * pow2 (ulp_exp (of_nat n)) = pow2 0"
    using pow2_ratio [OF q] by (simp add: field_simps)
  finally show ?thesis by (simp add: pow2_def)
qed (simp add: round_val_def)

text \<open>Evaluation of a concrete rounding, given the exponent.\<close>

lemma rat_exp_at: "pow2 e \<le> r \<Longrightarrow> r < pow2 (e + 1) \<Longrightarrow> rat_exp r = e"
proof -
  assume lo: "pow2 e \<le> r" and up: "r < pow2 (e + 1)"
  then have r: "0 < r" using pow2_pos [of e] by linarith
  then have b: "pow2 (rat_exp r) \<le> r" "r < pow2 (rat_exp r + 1)" using rat_exp_bounds [of r] by auto
  have "\<not> e + 1 \<le> rat_exp r" using pow2_mono [of "e + 1" "rat_exp r"] b up by linarith
  moreover have "\<not> rat_exp r + 1 \<le> e" using pow2_mono [of "rat_exp r + 1" e] b lo by linarith
  ultimately show ?thesis by simp
qed

lemma round_half_even_eq:
  assumes "\<bar>x - of_int m\<bar> < 1 / 2"
  shows "round_half_even x = m"
proof -
  have "\<bar>of_int (round_half_even x) - of_int m\<bar> < (1 :: rat)"
    using round_half_even_error [of x] assms by linarith
  then have "\<bar>round_half_even x - m\<bar> < 1" by linarith
  then show ?thesis by simp
qed

lemma round64_at:
  assumes "pow2 e \<le> r" and "r < pow2 (e + 1)" and e: "- 1022 \<le> e" "e < 1023"
    and m: "round_half_even (r / pow2 (e - 52)) = m"
  shows "round64 r = Fin (of_int m * pow2 (e - 52))"
proof -
  have r: "r \<noteq> 0" "0 \<le> r" using assms(1) pow2_pos [of e] by linarith+
  have "ulp_exp r = e - 52" using rat_exp_at [OF assms(1,2)] e by (simp add: ulp_exp_def)
  with r m have v: "round_val r = of_int m * pow2 (e - 52)" by (simp add: round_val_def)
  let ?k = "2 ^ nat (e + 1 - (e - 52)) :: int"
  have ratio: "pow2 (e + 1) / pow2 (e - 52) = of_int ?k" by (rule pow2_ratio) simp
  have "r / pow2 (e - 52) \<le> pow2 (e + 1) / pow2 (e - 52)"
    using assms(2) by (simp add: divide_right_mono)
  then have "r / pow2 (e - 52) \<le> of_int ?k" by (simp only: ratio)
  then have "m \<le> ?k"
    using round_half_even_mono [of "r / pow2 (e - 52)" "of_int ?k"] m
    by (simp only: round_half_even_of_int)
  then have "(of_int m :: rat) \<le> of_int ?k" by (simp only: of_int_le_iff)
  then have "of_int m * pow2 (e - 52) \<le> of_int ?k * pow2 (e - 52)"
    by (rule mult_right_mono) simp
  also have "of_int ?k * pow2 (e - 52) = pow2 (e + 1)"
    by (simp only: ratio [symmetric]) simp
  also have "\<dots> < pow2 1024" using e by (intro pow2_less_mono) simp
  finally have "of_int m * pow2 (e - 52) < overflow_bound" by (simp add: overflow_bound_def pow2_def)
  moreover have "- overflow_bound < of_int m * pow2 (e - 52)"
    using round_val_nonneg [OF r(2)] v by (simp add: overflow_bound_def less_le_trans [of _ 0])
  ultimately show ?thesis by (simp add: round64_def v)
qed

lemma fmul_mono:
  assumes "0 \<le> a" and "a \<le> b" and "0 \<le> k"
  shows "fle (fmul (Fin a) (Fin k)) (fmul (Fin b) (Fin k))"
proof -
  have "round_val (a * k) \<le> round_val (b * k)" and "0 \<le> round_val (a * k)"
    using assms by (auto intro: round_val_mono round_val_nonneg mult_right_mono)
  then show ?thesis by (auto simp: round64_def Let_def fle_def)
qed

lemma go_uint64_mono:
  assumes "fle x y" and "fle (Fin 0) x" and "flt y (Fin (2 ^ 64))"
  shows "go_uint64 oor x \<le> go_uint64 oor y"
proof -
  obtain a b where "x = Fin a" "y = Fin b"
    using assms by (cases x; cases y) (auto simp: fle_def)
  with assms show ?thesis by (auto simp: go_uint64_def intro: max.mono floor_mono)
qed

lemma go_uint64_bound:
  assumes "flt (Fin (- 1)) f" and "flt f (Fin (2 ^ 64))"
  shows "0 \<le> go_uint64 oor f \<and> go_uint64 oor f < 2 ^ 64"
proof -
  obtain a where f: "f = Fin a" and a: "- 1 < a" "a < of_int (2 ^ 64)"
    using assms by (cases f) auto
  from a(2) have "\<lfloor>a\<rfloor> < 2 ^ 64" by (simp only: floor_less_iff)
  with a f show ?thesis by (simp add: go_uint64_def)
qed

end
