(* ===== verification/Configs.thy ===== *)
theory Configs
  imports Go_Float
begin

text \<open>
  The configuration manager (\<open>internal/utils/configs.go\<close>): the parser of the configuration file,
  the typed accessors with their defaults and range checks, the runtime setter and the writer that
  persists the map.  A file system is a map from paths to contents; texts are ASCII, so that
  \<open>strings.TrimSpace\<close> and \<open>strings.ToLower\<close> act on single characters.  Float parsing and printing
  (\<open>strconv.ParseFloat\<close>, the verb \<open>%g\<close>) and the result of converting an out-of-range float to an
  integer, which the Go specification leaves to the implementation, are arguments.  The order in
  which a \<open>range\<close> over a Go map visits the keys is an argument as well.
\<close>

section \<open>Text helpers of the standard library\<close>

definition is_space :: "char \<Rightarrow> bool" where
  "is_space c = (c \<in> {CHR '' '', CHR 0x09, CHR 0x0A, CHR 0x0B, CHR 0x0C, CHR 0x0D})"

definition TrimSpace :: "string \<Rightarrow> string" where
  "TrimSpace s = rev (dropWhile is_space (rev (dropWhile is_space s)))"

definition lower_char :: "char \<Rightarrow> char" where
  "lower_char c = (let k = of_char c :: nat in if 65 \<le> k \<and> k \<le> 90 then char_of (k + 32) else c)"

definition ToLower :: "string \<Rightarrow> string" where
  "ToLower s = map lower_char s"

definition TrimSuffix :: "string \<Rightarrow> string \<Rightarrow> string" where
  "TrimSuffix s suf = (if HasSuffix s suf then take (length s - length suf) s else s)"

fun Join :: "string list \<Rightarrow> string \<Rightarrow> string" where
  "Join [] sep = []"
| "Join [x] sep = x"
| "Join (x # y # zs) sep = x @ sep @ Join (y # zs) sep"

text \<open>\<open>strconv.Atoi\<close> and \<open>strconv.ParseInt(s, 10, 64)\<close>: a value outside \<open>int64\<close> is an error.\<close>

definition ParseInt64 :: "string \<Rightarrow> int option" where
  "ParseInt64 s =
     (case parse_int s of None \<Rightarrow> None
      | Some v \<Rightarrow> if - (2 ^ 63) \<le> v \<and> v < 2 ^ 63 then Some v else None)"

text \<open>The parts of the Go runtime whose results the model takes as given.\<close>

record go_float_lib =
  ParseFloat :: "string \<Rightarrow> float64 option"
  FormatG :: "float64 \<Rightarrow> string"
  FormatF :: "float64 \<Rightarrow> string"
  oor_int64 :: "float64 \<Rightarrow> int"
  oor_uint64 :: "float64 \<Rightarrow> int"

definition go_int64 :: "(float64 \<Rightarrow> int) \<Rightarrow> float64 \<Rightarrow> int" where
  "go_int64 oor f =
     (case f of
        Fin a \<Rightarrow> let t = (if 0 \<le> a then \<lfloor>a\<rfloor> else \<lceil>a\<rceil>)
                 in if - (2 ^ 63) \<le> t \<and> t < 2 ^ 63 then t else oor f
      | _ \<Rightarrow> oor f)"

section \<open>The manager\<close>

type_synonym Config = "string \<rightharpoonup> string"
type_synonym files = "string \<rightharpoonup> string"

record ConfigManager =
  configsPath :: string
  configs :: Config

datatype config_error = InvalidPath string | OpenFailed string | OpenForWritingFailed string

section \<open>Reading the file\<close>

fun split_eq :: "string \<Rightarrow> (string \<times> string) option" where
  "split_eq [] = None"
| "split_eq (c # cs) =
     (if c = CHR ''='' then Some ([], cs)
      else map_option (\<lambda>(k, v). (c # k, v)) (split_eq cs))"

definition config_line :: "Config \<Rightarrow> string \<Rightarrow> Config" where
  "config_line config line =
     (case split_eq line of
        None \<Rightarrow> config
      | Some (k, v) \<Rightarrow>
          let key = TrimSpace k
          in if 0 < length key then config(key \<mapsto> TrimSpace v) else config)"

text \<open>\<open>ReadString\<close> yields the lines of the file, the last one (possibly empty) with \<open>io.EOF\<close>.\<close>

definition readConfigs :: "files \<Rightarrow> string \<Rightarrow> config_error + Config" where
  "readConfigs fs path =
     (let config = [''file'' \<mapsto> path]
      in if length path = 0 then Inl (InvalidPath path)
         else case fs path of
                None \<Rightarrow> Inl (OpenFailed path)
              | Some text \<Rightarrow> Inr (foldl config_line config (Split text (CHR 0x0A))))"

definition ReloadConfig :: "files \<Rightarrow> string \<Rightarrow> ConfigManager \<Rightarrow> (config_error option) \<times> ConfigManager" where
  "ReloadConfig fs path cm =
     (case readConfigs fs path of
        Inl e \<Rightarrow> (Some e, cm)
      | Inr new \<Rightarrow> (None, cm\<lparr>configs := new\<rparr>))"

section \<open>Typed accessors\<close>

definition GetConfig :: "ConfigManager \<Rightarrow> string \<Rightarrow> string option" where
  "GetConfig cm key = configs cm key"

definition GetConfigWithDefault :: "ConfigManager \<Rightarrow> string \<Rightarrow> string \<Rightarrow> string" where
  "GetConfigWithDefault cm key defaultValue =
     (case GetConfig cm key of Some value \<Rightarrow> value | None \<Rightarrow> defaultValue)"

definition GetConfigInt :: "ConfigManager \<Rightarrow> string \<Rightarrow> int \<Rightarrow> int \<Rightarrow> int \<Rightarrow> int" where
  "GetConfigInt cm key defaultValue mn mx =
     (case ParseInt64 (GetConfigWithDefault cm key (itoa defaultValue)) of
        None \<Rightarrow> defaultValue
      | Some value \<Rightarrow> if value < mn \<or> value > mx then defaultValue else value)"

definition GetConfigInt64 :: "ConfigManager \<Rightarrow> string \<Rightarrow> int \<Rightarrow> int \<Rightarrow> int \<Rightarrow> int" where
  "GetConfigInt64 cm key defaultValue mn mx =
     (case ParseInt64 (GetConfigWithDefault cm key (itoa defaultValue)) of
        None \<Rightarrow> defaultValue
      | Some value \<Rightarrow> if value < mn \<or> value > mx then defaultValue else value)"

definition GetConfigFloat64 ::
  "go_float_lib \<Rightarrow> ConfigManager \<Rightarrow> string \<Rightarrow> float64 \<Rightarrow> float64 \<Rightarrow> float64 \<Rightarrow> float64" where
  "GetConfigFloat64 lib cm key defaultValue mn mx =
     (case ParseFloat lib (GetConfigWithDefault cm key (FormatG lib defaultValue)) of
        None \<Rightarrow> defaultValue
      | Some value \<Rightarrow> if flt value mn \<or> flt mx value then defaultValue else value)"

definition multipliers :: "string \<rightharpoonup> nat" where
  "multipliers = [''b'' \<mapsto> 1, ''kb'' \<mapsto> 1024, ''mb'' \<mapsto> 1024 * 1024, ''gb'' \<mapsto> 1024 * 1024 * 1024]"

fun parse_units :: "go_float_lib \<Rightarrow> string \<Rightarrow> string list \<Rightarrow> int option" where
  "parse_units lib s [] = None"
| "parse_units lib s (suffix # rest) =
     (case multipliers suffix of
        None \<Rightarrow> parse_units lib s rest
      | Some m \<Rightarrow>
          if HasSuffix s suffix then
            (case ParseFloat lib (TrimSuffix s suffix) of
               Some num \<Rightarrow> Some (go_int64 (oor_int64 lib) (fmul num (Fin (of_nat m))))
             | None \<Rightarrow> parse_units lib s rest)
          else parse_units lib s rest)"

definition GetConfigBytes ::
  "go_float_lib \<Rightarrow> string list \<Rightarrow> ConfigManager \<Rightarrow> string \<Rightarrow> int \<Rightarrow> int" where
  "GetConfigBytes lib range_order cm key defaultValue =
     (let valueStr = GetConfigWithDefault cm key (itoa defaultValue)
      in case ParseInt64 valueStr of
           Some value \<Rightarrow> value
         | None \<Rightarrow>
             (case parse_units lib (ToLower (TrimSpace valueStr)) range_order of
                Some v \<Rightarrow> v | None \<Rightarrow> defaultValue))"

text \<open>\<open>GetTopics\<close>, \<open>GetBootstrapNodes\<close> and \<open>GetConfigSlice\<close> have one body.\<close>

definition GetConfigSlice :: "ConfigManager \<Rightarrow> string \<Rightarrow> string list \<Rightarrow> string list" where
  "GetConfigSlice cm key defaultValues =
     (let valueStr = GetConfigWithDefault cm key (Join defaultValues '', '')
      in if valueStr = [] then defaultValues
         else let values = filter (\<lambda>v. v \<noteq> []) (map TrimSpace (Split valueStr (CHR '','')))
              in if values = [] then defaultValues else values)"

definition GetTopics :: "ConfigManager \<Rightarrow> string \<Rightarrow> string list \<Rightarrow> string list" where
  "GetTopics cm key defaultTopics =
     (let topicsStr = GetConfigWithDefault cm key (Join defaultTopics '', '')
      in if topicsStr = [] then defaultTopics
         else let topics = filter (\<lambda>v. v \<noteq> []) (map TrimSpace (Split topicsStr (CHR '','')))
              in if topics = [] then defaultTopics else topics)"

definition GetBootstrapNodes :: "ConfigManager \<Rightarrow> string \<Rightarrow> string list \<Rightarrow> string list" where
  "GetBootstrapNodes cm key defaultNodes =
     (let nodesStr = GetConfigWithDefault cm key (Join defaultNodes '', '')
      in if nodesStr = [] then defaultNodes
         else let nodes = filter (\<lambda>v. v \<noteq> []) (map TrimSpace (Split nodesStr (CHR '','')))
              in if nodes = [] then defaultNodes else nodes)"

definition FormatBool :: "bool \<Rightarrow> string" where
  "FormatBool b = (if b then ''true'' else ''false'')"

definition GetConfigBool :: "ConfigManager \<Rightarrow> string \<Rightarrow> bool \<Rightarrow> bool" where
  "GetConfigBool cm key defaultValue =
     (let valueStr = ToLower (TrimSpace (GetConfigWithDefault cm key (FormatBool defaultValue)))
      in if valueStr \<in> {''true'', ''yes'', ''1'', ''on'', ''enabled''} then True
         else if valueStr \<in> {''false'', ''no'', ''0'', ''off'', ''disabled''} then False
         else defaultValue)"

section \<open>Setting and saving\<close>

text \<open>The dynamic type of the \<open>interface{}\<close> argument; other types carry their \<open>%v\<close> text.\<close>

datatype go_any = GString string | GBool bool | GInt int | GInt64 int | GFloat64 float64 | GOther string

definition SetConfig :: "go_float_lib \<Rightarrow> string \<Rightarrow> go_any \<Rightarrow> ConfigManager \<Rightarrow> ConfigManager" where
  "SetConfig lib key value cm =
     (let strValue =
        (case value of
           GString v \<Rightarrow> v
         | GBool v \<Rightarrow> FormatBool v
         | GInt v \<Rightarrow> itoa v
         | GInt64 v \<Rightarrow> itoa v
         | GFloat64 v \<Rightarrow> FormatF lib v
         | GOther v \<Rightarrow> v)
      in cm\<lparr>configs := (configs cm)(key \<mapsto> strValue)\<rparr>)"

abbreviation newline :: string where
  "newline \<equiv> [CHR 0x0A]"

definition kv_line :: "string \<Rightarrow> string \<Rightarrow> string" where
  "kv_line key value = key @ '' = '' @ value @ newline"

text \<open>One line of the original file: the text written for it and the key it accounts for.\<close>

definition save_line :: "Config \<Rightarrow> string \<Rightarrow> string \<times> string option" where
  "save_line cfg line =
     (let t = TrimSpace line
      in if HasPrefix t ''['' \<and> HasSuffix t '']'' then (line @ newline, None)
         else if t = [] \<or> HasPrefix t ''#'' then (line @ newline, None)
         else case split_eq line of
                None \<Rightarrow> (line @ newline, None)
              | Some (k, _) \<Rightarrow>
                  let key = TrimSpace k
                  in if 0 < length key then
                       (case cfg key of
                          Some value \<Rightarrow> (kv_line key value, Some key)
                        | None \<Rightarrow> (line @ newline, None))
                     else (line @ newline, None))"

text \<open>\<open>bufio.Scanner\<close>: the lines without their terminator, no empty last line, a final \<open>\r\<close> dropped.\<close>

definition drop_cr :: "string \<Rightarrow> string" where
  "drop_cr s = (if s \<noteq> [] \<and> last s = CHR 0x0D then butlast s else s)"

definition scan_lines :: "string \<Rightarrow> string list" where
  "scan_lines text =
     (let ls = Split text (CHR 0x0A)
      in map drop_cr (if last ls = [] then butlast ls else ls))"

definition save_new :: "Config \<Rightarrow> string list \<Rightarrow> string list \<Rightarrow> string" where
  "save_new cfg written ks =
     (let fresh = filter (\<lambda>k. k \<notin> set written \<and> k \<noteq> ''file'') ks
      in if fresh = [] then []
         else newline @ ''# Auto-generated settings'' @ newline
              @ concat (map (\<lambda>k. kv_line k (the (cfg k))) fresh))"

text \<open>
  \<open>SaveConfig\<close>: opening for writing with \<open>O_TRUNC\<close> empties the file before it is opened for
  reading, so the lines scanned are those of the emptied file.  \<open>ks\<close> is the order in which the
  \<open>range\<close> over the map visits the keys.
\<close>

definition SaveConfig :: "string list \<Rightarrow> files \<Rightarrow> ConfigManager \<Rightarrow> (config_error option) \<times> files" where
  "SaveConfig ks fs cm =
     (case fs (configsPath cm) of
        None \<Rightarrow> (Some (OpenForWritingFailed (configsPath cm)), fs)
      | Some _ \<Rightarrow>
          let fs1 = fs(configsPath cm \<mapsto> []);
              outs = map (save_line (configs cm)) (scan_lines (the (fs1 (configsPath cm))));
              written = List.map_filter snd outs;
              text = concat (map fst outs) @ save_new (configs cm) written ks
          in (None, fs1(configsPath cm \<mapsto> text)))"

section \<open>Trimming and lines\<close>

lemma TrimSpace_Nil [simp]: "TrimSpace [] = []"
  by (simp add: TrimSpace_def)

lemma TrimSpace_space_front [simp]: "is_space c \<Longrightarrow> TrimSpace (c # s) = TrimSpace s"
  by (simp add: TrimSpace_def)

lemma TrimSpace_space_back [simp]: "is_space c \<Longrightarrow> TrimSpace (s @ [c]) = TrimSpace s"
proof -
  assume c: "is_space c"
  show ?thesis
  proof (cases "\<forall>x\<in>set s. is_space x")
    case True
    with c have "\<forall>x\<in>set (s @ [c]). is_space x" by simp
    with True have "dropWhile is_space (s @ [c]) = []" and "dropWhile is_space s = []"
      by (simp_all only: dropWhile_eq_Nil_conv)
    then show ?thesis by (simp only: TrimSpace_def)
  next
    case False
    then have "dropWhile is_space (s @ [c]) = dropWhile is_space s @ [c]"
      by (metis dropWhile_append1)
    with c show ?thesis by (simp add: TrimSpace_def)
  qed
qed

lemma is_space_blank [simp]: "is_space (CHR '' '')"
  by (simp add: is_space_def)

lemma set_dropWhile_subset: "set (dropWhile P xs) \<subseteq> set xs"
  by (auto dest: set_dropWhileD)

lemma set_TrimSpace: "set (TrimSpace s) \<subseteq> set s"
  unfolding TrimSpace_def using set_dropWhile_subset by (metis set_rev subset_trans)

lemma TrimSpace_hd: "TrimSpace s = c # cs \<Longrightarrow> \<not> is_space c"
proof -
  assume "TrimSpace s = c # cs"
  then have d: "dropWhile is_space (rev (dropWhile is_space s)) = rev cs @ [c]"
    unfolding TrimSpace_def by (metis rev.simps(2) rev_rev_ident)
  obtain p where "rev (dropWhile is_space s) = p @ rev cs @ [c]"
    using takeWhile_dropWhile_id [of is_space "rev (dropWhile is_space s)"] d by metis
  then have "dropWhile is_space s = c # cs @ rev p" by (metis append.assoc append_Cons append_Nil rev_append rev_rev_ident rev_singleton_conv)
  then show ?thesis by (metis hd_dropWhile list.distinct(1) list.sel(1))
qed

lemma TrimSpace_last: "TrimSpace s \<noteq> [] \<Longrightarrow> \<not> is_space (last (TrimSpace s))"
  unfolding TrimSpace_def by (metis hd_dropWhile last_rev rev_is_Nil_conv)

lemma TrimSpace_fixed:
  "s = [] \<or> (\<not> is_space (hd s) \<and> \<not> is_space (last s)) \<Longrightarrow> TrimSpace s = s"
proof -
  assume a: "s = [] \<or> (\<not> is_space (hd s) \<and> \<not> is_space (last s))"
  then have "dropWhile is_space s = s" and "dropWhile is_space (rev s) = rev s"
    by (auto simp: dropWhile_eq_self_iff hd_rev)
  then show ?thesis by (simp add: TrimSpace_def)
qed

lemma TrimSpace_idem [simp]: "TrimSpace (TrimSpace s) = TrimSpace s"
proof (cases "TrimSpace s")
  case (Cons c cs)
  then show ?thesis
    using TrimSpace_hd [OF Cons] TrimSpace_last [of s] by (intro TrimSpace_fixed) simp
qed simp

lemma split_eq_SomeD: "split_eq s = Some (k, v) \<Longrightarrow> s = k @ CHR ''='' # v \<and> CHR ''='' \<notin> set k"
  by (induction s arbitrary: k) (auto split: if_splits)

lemma split_eq_append: "CHR ''='' \<notin> set k \<Longrightarrow> split_eq (k @ CHR ''='' # v) = Some (k, v)"
  by (induction k) auto

lemma split_eq_none: "CHR ''='' \<notin> set s \<Longrightarrow> split_eq s = None"
  by (induction s) auto

section \<open>Well-formed configurations\<close>

text \<open>
  What every entry read from a file satisfies, and what an entry must satisfy to survive being
  written: a key is non-empty, trimmed and free of the separator, and neither part has a line break.
\<close>

definition clean_entry :: "string \<Rightarrow> string \<Rightarrow> bool" where
  "clean_entry k v \<longleftrightarrow> k \<noteq> [] \<and> TrimSpace k = k \<and> CHR ''='' \<notin> set k \<and> CHR 0x0A \<notin> set k
     \<and> TrimSpace v = v \<and> CHR 0x0A \<notin> set v"

definition wf_config :: "Config \<Rightarrow> bool" where
  "wf_config cfg \<longleftrightarrow> (\<forall>k v. cfg k = Some v \<longrightarrow> k \<noteq> ''file'' \<longrightarrow> clean_entry k v)"

lemma clean_entryI:
  assumes "split_eq line = Some (k, v)" and "CHR 0x0A \<notin> set line" and "TrimSpace k \<noteq> []"
  shows "clean_entry (TrimSpace k) (TrimSpace v)"
  using split_eq_SomeD [OF assms(1)] assms(2,3) set_TrimSpace [of k] set_TrimSpace [of v]
  by (auto simp: clean_entry_def)

lemma config_line_wf:
  "wf_config cfg \<Longrightarrow> CHR 0x0A \<notin> set line \<Longrightarrow> wf_config (config_line cfg line)"
  unfolding config_line_def wf_config_def
  by (auto simp: Let_def clean_entryI split: option.splits)

lemma config_lines_wf:
  "wf_config cfg \<Longrightarrow> (\<And>l. l \<in> set ls \<Longrightarrow> CHR 0x0A \<notin> set l) \<Longrightarrow> wf_config (foldl config_line cfg ls)"
  by (induction ls arbitrary: cfg) (auto intro: config_line_wf)

lemma Split_no_sep_inside: "l \<in> set (Split s sep) \<Longrightarrow> sep \<notin> set l"
  by (induction s arbitrary: l) (auto split: if_splits list.splits)

lemma config_line_kv:
  assumes "clean_entry k v"
  shows "config_line cfg (k @ '' = '' @ v) = cfg(k \<mapsto> v)"
proof -
  have "split_eq (k @ '' = '' @ v) = Some (k @ '' '', CHR '' '' # v)"
    using assms split_eq_append [of "k @ '' ''" "CHR '' '' # v"] by (simp add: clean_entry_def)
  with assms show ?thesis by (simp add: config_line_def clean_entry_def)
qed

lemma Split_kv_line:
  "clean_entry k v \<Longrightarrow> Split (kv_line k v @ rest) (CHR 0x0A) = (k @ '' = '' @ v) # Split rest (CHR 0x0A)"
  using Split_append_sep [of "CHR 0x0A" "k @ '' = '' @ v" rest]
  by (simp add: kv_line_def clean_entry_def)

lemma foldl_kv_lines:
  assumes "\<And>k. k \<in> set ks \<Longrightarrow> clean_entry k (the (cfg k))"
  shows "foldl config_line c0 (Split (concat (map (\<lambda>k. kv_line k (the (cfg k))) ks)) (CHR 0x0A))
       = (\<lambda>k. if k \<in> set ks then Some (the (cfg k)) else c0 k)"
  using assms
proof (induction ks arbitrary: c0)
  case Nil
  then show ?case by (simp add: config_line_def)
next
  case (Cons k ks)
  then show ?case by (auto simp: Split_kv_line config_line_kv [simplified] fun_eq_iff)
qed

lemma scan_lines_Nil [simp]: "scan_lines [] = []"
  by (simp add: scan_lines_def)

lemma SaveConfig_text:
  assumes "fs (configsPath cm) = Some old"
  shows "SaveConfig ks fs cm = (None, fs(configsPath cm \<mapsto> save_new (configs cm) [] ks))"
  using assms by (simp add: SaveConfig_def map_filter_simps)

lemma read_save_new:
  assumes wf: "wf_config cfg" and ks: "set ks = dom cfg"
  shows "foldl config_line [''file'' \<mapsto> path] (Split (save_new cfg [] ks) (CHR 0x0A))
       = cfg(''file'' \<mapsto> path)"
proof (cases "filter (\<lambda>k. k \<noteq> ''file'') ks = []")
  case True
  then have "\<forall>k\<in>set ks. k = ''file''" by (simp only: filter_empty_conv) simp
  then have "cfg k = None" if "k \<noteq> ''file''" for k
    using that ks by (auto simp: dom_def)
  then have "cfg(''file'' \<mapsto> path) = [''file'' \<mapsto> path]" by (simp add: fun_eq_iff)
  with True show ?thesis by (simp add: save_new_def config_line_def)
next
  case False
  let ?fresh = "filter (\<lambda>k. k \<noteq> ''file'') ks"
  let ?head = "''# Auto-generated settings''"
  have clean: "clean_entry k (the (cfg k))" if "k \<in> set ?fresh" for k
    using that wf ks by (auto simp: wf_config_def dom_def)
  have "Split (save_new cfg [] ks) (CHR 0x0A) = [] # ?head
      # Split (concat (map (\<lambda>k. kv_line k (the (cfg k))) ?fresh)) (CHR 0x0A)"
    using False Split_append_sep [of "CHR 0x0A" ?head] by (simp add: save_new_def)
  then have "foldl config_line [''file'' \<mapsto> path] (Split (save_new cfg [] ks) (CHR 0x0A))
      = (\<lambda>k. if k \<in> set ?fresh then Some (the (cfg k)) else [''file'' \<mapsto> path] k)"
    using foldl_kv_lines [of ?fresh cfg "[''file'' \<mapsto> path]", OF clean]
    by (simp add: config_line_def)
  also have "\<dots> = cfg(''file'' \<mapsto> path)" using ks by (auto simp: fun_eq_iff dom_def)
  finally show ?thesis .
qed

section \<open>Properties\<close>

lemma readConfigs_wf:
  assumes "readConfigs fs path = Inr cfg"
  shows "wf_config cfg"
proof -
  obtain t where cfg: "cfg = foldl config_line [''file'' \<mapsto> path] (Split t (CHR 0x0A))"
    using assms by (auto simp: readConfigs_def split: if_splits option.splits)
  have "wf_config [''file'' \<mapsto> path]" by (simp add: wf_config_def)
  then show ?thesis unfolding cfg by (rule config_lines_wf) (rule Split_no_sep_inside)
qed

text \<open>
  C9.  Saving and reloading is lossless for every configuration a file can produce: whatever the
  order in which the map is visited, a successful \<open>SaveConfig\<close> followed by \<open>readConfigs\<close> on the
  same path gives the map back (with the path under the key \<open>file\<close>).
\<close>

theorem save_then_reload:
  assumes "configsPath cm \<noteq> []" and "fs (configsPath cm) \<noteq> None"
    and "wf_config (configs cm)" and "set ks = dom (configs cm)"
  shows "\<exists>fs'. SaveConfig ks fs cm = (None, fs')
     \<and> readConfigs fs' (configsPath cm) = Inr ((configs cm)(''file'' \<mapsto> configsPath cm))"
  using assms read_save_new [OF assms(3,4)] by (auto simp: SaveConfig_text readConfigs_def)

theorem save_then_reload_witness:
  "\<exists>fs'. SaveConfig [''a''] [''c'' \<mapsto> ''# note''] \<lparr>configsPath = ''c'', configs = [''a'' \<mapsto> ''1'']\<rparr> = (None, fs')
     \<and> readConfigs fs' ''c'' = Inr [''a'' \<mapsto> ''1'', ''file'' \<mapsto> ''c'']"
proof -
  have "wf_config [''a'' \<mapsto> ''1'']"
    by (auto simp: wf_config_def clean_entry_def TrimSpace_def is_space_def split: if_splits)
  then show ?thesis
    using save_then_reload [of "\<lparr>configsPath = ''c'', configs = [''a'' \<mapsto> ''1'']\<rparr>"
        "[''c'' \<mapsto> ''# note'']" "[''a'']"] by simp
qed

text \<open>
  C10.  A bounded integer setting can never leave its range: if the built-in default is inside the
  bounds then so is the value \<open>GetConfigInt\<close> returns, whatever text the file holds; and a value
  inside the bounds set at run time is read back exactly.
\<close>

theorem GetConfigInt_bounds_roundtrip:
  assumes "mn \<le> d" and "d \<le> mx" and "mn \<le> v" and "v \<le> mx" and "- (2 ^ 63) \<le> v" and "v < 2 ^ 63"
  shows "mn \<le> GetConfigInt cm key d mn mx \<and> GetConfigInt cm key d mn mx \<le> mx
     \<and> GetConfigInt (SetConfig lib key (GInt v) cm) key d mn mx = v"
  using assms
  by (auto simp: GetConfigInt_def SetConfig_def GetConfigWithDefault_def GetConfig_def ParseInt64_def
      split: option.splits)

theorem GetConfigInt_bounds_roundtrip_witness:
  "0 \<le> GetConfigInt \<lparr>configsPath = ''c'', configs = [''k'' \<mapsto> ''99'']\<rparr> ''k'' 3 0 10
   \<and> GetConfigInt (SetConfig \<lparr>ParseFloat = \<lambda>_. None, FormatG = \<lambda>_. [], FormatF = \<lambda>_. [],
        oor_int64 = \<lambda>_. 0, oor_uint64 = \<lambda>_. 0\<rparr> ''k'' (GInt 7)
        \<lparr>configsPath = ''c'', configs = [''k'' \<mapsto> ''99'']\<rparr>) ''k'' 3 0 10 = 7"
  using GetConfigInt_bounds_roundtrip [of 0 3 10 7 "\<lparr>configsPath = ''c'', configs = [''k'' \<mapsto> ''99'']\<rparr>" "''k''"]
  by simp

text \<open>
  A byte-size setting is found by the last letters of its text.  Every suffix the map lists ends in
  \<open>b\<close>, so several can match one text; since no number ends in \<open>k\<close>, \<open>m\<close> or \<open>g\<close>, at most one of the
  matching suffixes leaves a number in front of it.
\<close>

definition numbers_end_well :: "go_float_lib \<Rightarrow> bool" where
  "numbers_end_well lib \<longleftrightarrow>
     (\<forall>s. s \<noteq> [] \<longrightarrow> last s \<in> {CHR ''k'', CHR ''m'', CHR ''g''} \<longrightarrow> ParseFloat lib s = None)"

definition unit_value :: "go_float_lib \<Rightarrow> string \<Rightarrow> string \<Rightarrow> int option" where
  "unit_value lib s suffix =
     (case multipliers suffix of
        None \<Rightarrow> None
      | Some m \<Rightarrow>
          if HasSuffix s suffix
          then map_option (\<lambda>num. go_int64 (oor_int64 lib) (fmul num (Fin (of_nat m))))
                 (ParseFloat lib (TrimSuffix s suffix))
          else None)"

lemma parse_units_first:
  "parse_units lib s order = (case List.map_filter (unit_value lib s) order of [] \<Rightarrow> None | v # _ \<Rightarrow> Some v)"
  by (induction order) (auto simp: unit_value_def map_filter_simps split: option.splits)

lemma first_of_one_value:
  assumes "set xs = set ys" and "\<And>x y. x \<in> set xs \<Longrightarrow> y \<in> set xs \<Longrightarrow> x = y"
  shows "(case xs of [] \<Rightarrow> None | v # _ \<Rightarrow> Some v) = (case ys of [] \<Rightarrow> None | v # _ \<Rightarrow> Some v)"
proof (cases xs)
  case Nil
  with assms(1) show ?thesis by simp
next
  case (Cons a as)
  with assms(1) obtain b bs where ys: "ys = b # bs" by (cases ys) auto
  then have "b \<in> set xs" and "a \<in> set xs" using assms(1) Cons by auto
  with assms(2) have "a = b" by blast
  with Cons ys show ?thesis by simp
qed

lemma HasSuffix_iff: "HasSuffix s p \<longleftrightarrow> (\<exists>t. s = t @ p)"
proof
  assume "HasSuffix s p"
  then have "rev s = rev p @ drop (length p) (rev s)"
    by (metis HasSuffix_def HasPrefix_iff append_take_drop_id length_rev)
  then have "s = rev (drop (length p) (rev s)) @ p" by (metis rev_append rev_rev_ident)
  then show "\<exists>t. s = t @ p" by blast
qed auto

lemma TrimSuffix_append [simp]: "TrimSuffix (t @ p) p = t"
  by (simp add: TrimSuffix_def)

lemma multipliers_cases: "multipliers u = Some m \<Longrightarrow> u \<in> {''b'', ''kb'', ''mb'', ''gb''}"
  by (auto simp: multipliers_def split: if_splits)

lemma unit_value_SomeD:
  "unit_value lib s u = Some x \<Longrightarrow> u \<in> {''b'', ''kb'', ''mb'', ''gb''} \<and> (\<exists>t. s = t @ u)"
  unfolding unit_value_def HasSuffix_iff
  using multipliers_cases [of u] by (cases "multipliers u") (auto split: if_splits)

lemma unit_value_unique:
  assumes lib: "numbers_end_well lib" and u: "unit_value lib s u = Some x" and w: "unit_value lib s w = Some y"
  shows "u = w"
proof -
  have b: "unit_value lib s (c # ''b'') = None"
    if z: "unit_value lib s ''b'' = Some z" and c: "c \<in> {CHR ''k'', CHR ''m'', CHR ''g''}" for c z
  proof (rule ccontr)
    assume "unit_value lib s (c # ''b'') \<noteq> None"
    then obtain t where t: "s = (t @ [c]) @ ''b''"
      using c by (auto simp: unit_value_def HasSuffix_iff split: option.splits if_splits)
    then have "TrimSuffix s ''b'' = t @ [c]" by (simp only: TrimSuffix_append)
    then have "ParseFloat lib (TrimSuffix s ''b'') = None"
      using lib c by (auto simp: numbers_end_well_def)
    with z show False by (simp add: unit_value_def split: option.splits if_splits)
  qed
  obtain t where t: "s = t @ u" and U: "u \<in> {''b'', ''kb'', ''mb'', ''gb''}"
    using unit_value_SomeD [OF u] by blast
  obtain t' where t': "s = t' @ w" and W: "w \<in> {''b'', ''kb'', ''mb'', ''gb''}"
    using unit_value_SomeD [OF w] by blast
  have nb: "\<And>v z x'. unit_value lib s ''b'' = Some z \<Longrightarrow> unit_value lib s v = Some x' \<Longrightarrow>
      v \<in> {''b'', ''kb'', ''mb'', ''gb''} \<Longrightarrow> v = ''b''"
    using b by (metis insert_iff empty_iff option.distinct(1))
  have "u = ''b'' \<longleftrightarrow> w = ''b''" using nb u w U W by metis
  then have "length u = length w" using U W by auto
  with t t' show ?thesis by simp
qed

text \<open>
    The byte-size accessor is deterministic although it ranges over a Go map, whose order
  changes from run to run: all visiting orders of the unit table give the same result.
\<close>

theorem GetConfigBytes_order_independent:
  assumes "numbers_end_well lib" and "set order1 = set order2"
  shows "GetConfigBytes lib order1 cm key d = GetConfigBytes lib order2 cm key d"
proof -
  have "parse_units lib s order1 = parse_units lib s order2" for s
  proof -
    let ?f = "unit_value lib s"
    have same: "set (List.map_filter ?f order1) = set (List.map_filter ?f order2)"
      using assms(2) by (simp add: map_filter_def)
    have one: "x = y" if "x \<in> set (List.map_filter ?f order1)" "y \<in> set (List.map_filter ?f order1)" for x y
      using that unit_value_unique [OF assms(1)] by (fastforce simp: map_filter_def)
    show ?thesis unfolding parse_units_first
      by (rule first_of_one_value [OF same]) (use one in blast)
  qed
  then show ?thesis by (simp add: GetConfigBytes_def Let_def split: option.split)
qed

definition decimal_lib :: go_float_lib where
  "decimal_lib = \<lparr>ParseFloat = \<lambda>s. map_option (\<lambda>n. round64 (of_nat n)) (parse_nat s), FormatG = \<lambda>_. ''0'',
     FormatF = \<lambda>_. ''0'', oor_int64 = \<lambda>_. 0, oor_uint64 = \<lambda>_. 0\<rparr>"

lemma dec_val_last: "s \<noteq> [] \<Longrightarrow> digit_val (last s) = None \<Longrightarrow> dec_val acc s = None"
  by (induction s arbitrary: acc) (auto split: if_splits option.splits)

lemma decimal_lib_ends_well: "numbers_end_well decimal_lib"
proof -
  have "digit_val CHR ''k'' = None" "digit_val CHR ''m'' = None" "digit_val CHR ''g'' = None"
    by (simp_all add: digit_val_def)
  then show ?thesis
    by (auto simp: numbers_end_well_def decimal_lib_def parse_nat_def intro: dec_val_last)
qed

theorem GetConfigBytes_order_independent_witness:
  "GetConfigBytes decimal_lib [''b'', ''kb'', ''mb'', ''gb''] \<lparr>configsPath = ''c'', configs = [''k'' \<mapsto> ''64KB'']\<rparr> ''k'' 5
   = GetConfigBytes decimal_lib [''gb'', ''mb'', ''kb'', ''b''] \<lparr>configsPath = ''c'', configs = [''k'' \<mapsto> ''64KB'']\<rparr> ''k'' 5"
  by (rule GetConfigBytes_order_independent [OF decimal_lib_ends_well]) auto

text \<open>
    The range check of \<open>GetConfigFloat64\<close> is written with two strict comparisons, both false on
  \<open>NaN\<close>: apart from the default, the result is a value inside the bounds or \<open>NaN\<close>, and a setting
  whose text parses as \<open>NaN\<close> does get through.
\<close>

theorem GetConfigFloat64_range:
  assumes "mn \<noteq> NaN" and "mx \<noteq> NaN"
  shows "(GetConfigFloat64 lib cm key d mn mx \<in> {d, NaN}
           \<or> fle mn (GetConfigFloat64 lib cm key d mn mx) \<and> fle (GetConfigFloat64 lib cm key d mn mx) mx)
     \<and> (\<forall>t. configs cm key = Some t \<and> ParseFloat lib t = Some NaN
            \<longrightarrow> GetConfigFloat64 lib cm key d mn mx = NaN)"
  using assms
  by (auto simp: GetConfigFloat64_def GetConfigWithDefault_def GetConfig_def not_flt_fle
      split: option.splits)

theorem GetConfigFloat64_range_witness:
  "GetConfigFloat64 (decimal_lib\<lparr>ParseFloat := \<lambda>s. if s = ''NaN'' then Some NaN else None\<rparr>)
     \<lparr>configsPath = ''c'', configs = [''k'' \<mapsto> ''NaN'']\<rparr> ''k'' (Fin 1) (Fin 0) (Fin 5) = NaN"
  using GetConfigFloat64_range [of "Fin 0" "Fin 5"
      "decimal_lib\<lparr>ParseFloat := \<lambda>s. if s = ''NaN'' then Some NaN else None\<rparr>"
      "\<lparr>configsPath = ''c'', configs = [''k'' \<mapsto> ''NaN'']\<rparr>" "''k''" "Fin 1"]
  by simp

text \<open>
    The comments and the layout of the file are not preserved: what \<open>SaveConfig\<close> leaves on disk
  does not depend on what the file held before.
\<close>

theorem SaveConfig_forgets_file:
  assumes "fs1 (configsPath cm) \<noteq> None" and "fs2 (configsPath cm) \<noteq> None"
  shows "snd (SaveConfig ks fs1 cm) (configsPath cm) = snd (SaveConfig ks fs2 cm) (configsPath cm)
     \<and> scan_lines (the ((fs1(configsPath cm \<mapsto> [])) (configsPath cm))) = []"
  using assms by (auto simp: SaveConfig_text)

theorem SaveConfig_forgets_file_witness:
  "snd (SaveConfig [''a''] [''c'' \<mapsto> ''# note''] \<lparr>configsPath = ''c'', configs = [''a'' \<mapsto> ''1'']\<rparr>) ''c''
   = snd (SaveConfig [''a''] [''c'' \<mapsto> ''[x]''] \<lparr>configsPath = ''c'', configs = [''a'' \<mapsto> ''1'']\<rparr>) ''c''"
  using SaveConfig_forgets_file [of "[''c'' \<mapsto> ''# note'']" "\<lparr>configsPath = ''c'', configs = [''a'' \<mapsto> ''1'']\<rparr>"
      "[''c'' \<mapsto> ''[x]'']" "[''a'']"] by simp

end
