(* ===== verification/Payment_Networks.thy ===== *)
theory Payment_Networks
  imports Configs
begin

text \<open>
  Payment networks and wallets (\<open>internal/payment/eip712.go\<close>, \<open>solana_spl.go\<close>, the selection part
  of \<open>wallet_manager.go\<close>, the network lists of \<open>invoice_manager.go\<close> and the network check of
  \<open>internal/core/job_manager.go\<close>): CAIP-2 identifiers, their Solana aliases, the token tables, the
  two notions of a network matching an accepted list, and the choice of a wallet.  A Go map is the
  list of its entries in the order a \<open>range\<close> visits them.
\<close>

section \<open>CAIP-2 identifiers\<close>

definition solana_main :: string where
  "solana_main = ''solana:5eykt4UsFv8P8NJdTREpY1vzqKqZKvdp''"

definition solana_dev :: string where
  "solana_dev = ''solana:EtWTRABZaYq6iMfeYKouRu166VU2xqa1''"

definition solana_test :: string where
  "solana_test = ''solana:4uhcVJyU9pJkvQyS88uRDiswHXSCkY3z''"

lemmas solana_ids = solana_main_def solana_dev_def solana_test_def

definition NormalizeSolanaNetwork :: "string \<Rightarrow> string" where
  "NormalizeSolanaNetwork network =
     (if network \<in> {''solana:mainnet-beta'', ''solana:mainnet''} then solana_main
      else if network = ''solana:devnet'' then solana_dev
      else if network = ''solana:testnet'' then solana_test
      else network)"

definition IsSolanaNetwork :: "string \<Rightarrow> bool" where
  "IsSolanaNetwork network \<longleftrightarrow>
     network \<in> {''solana:mainnet-beta'', ''solana:mainnet'', ''solana:devnet'', ''solana:testnet'',
                solana_main, solana_dev, solana_test}"

text \<open>The endpoints are constants of the Solana client library.\<close>

record solana_rpc =
  MainNetBeta_RPC :: string
  DevNet_RPC :: string
  TestNet_RPC :: string

definition GetSolanaRPCEndpoint :: "solana_rpc \<Rightarrow> string \<Rightarrow> string" where
  "GetSolanaRPCEndpoint rpc network =
     (if network = solana_main then MainNetBeta_RPC rpc
      else if network = solana_dev then DevNet_RPC rpc
      else if network = solana_test then TestNet_RPC rpc
      else if network \<in> {''solana:mainnet-beta'', ''solana:mainnet''} then MainNetBeta_RPC rpc
      else if network = ''solana:devnet'' then DevNet_RPC rpc
      else if network = ''solana:testnet'' then TestNet_RPC rpc
      else DevNet_RPC rpc)"

datatype network_error = InvalidNetworkFormat string | InvalidChainID string

definition GetChainIDFromNetwork :: "string \<Rightarrow> network_error + int" where
  "GetChainIDFromNetwork network =
     (if length network < 8 \<or> take 7 network \<noteq> ''eip155:'' then Inl (InvalidNetworkFormat network)
      else let chainIDStr = drop 7 network
           in case parse_int chainIDStr of
                None \<Rightarrow> Inl (InvalidChainID chainIDStr)
              | Some chainID \<Rightarrow> Inr (to_int64 chainID))"

definition isValidNetwork :: "string \<Rightarrow> bool" where
  "isValidNetwork network =
     (let parts = Split network (CHR '':'')
      in if HasPrefix network ''eip155:'' \<and> length parts = 2 then parse_int (parts ! 1) \<noteq> None
         else if HasPrefix network ''solana:'' \<and> length parts = 2 then parts ! 1 \<noteq> []
         else False)"

section \<open>Token tables\<close>

definition GetTokenContractAddress :: "string \<Rightarrow> string \<Rightarrow> string" where
  "GetTokenContractAddress networkID currency =
     (let tokenContractsFallback =
        [''eip155:84532'' \<mapsto> [''USDC'' \<mapsto> ''0x036CbD53842c5426634e7929541eC2318f3dCF7e''],
         ''eip155:8453'' \<mapsto> [''USDC'' \<mapsto> ''0x833589fCD6eDb6E08f4c7C32D4f71b54bdA02913''],
         ''eip155:11155111'' \<mapsto> [''USDC'' \<mapsto> ''0x1c7D4B196Cb0C7B01d743Fbc6116a902379C7238''],
         ''eip155:1'' \<mapsto> [''USDC'' \<mapsto> ''0xA0b86991c6218b36c1d19D4a2e9Eb0cE3606eB48''],
         solana_main \<mapsto> [''USDC'' \<mapsto> ''EPjFWdd5AufqSSqeM2qN1xzybapC8G4wEGGkZwyTDt1v''],
         solana_dev \<mapsto> [''USDC'' \<mapsto> ''4zMMC9srt5Ri5X14GAgXhaHii3GnPAEERYPJgZJDncDU''],
         ''solana:mainnet-beta'' \<mapsto> [''USDC'' \<mapsto> ''EPjFWdd5AufqSSqeM2qN1xzybapC8G4wEGGkZwyTDt1v''],
         ''solana:devnet'' \<mapsto> [''USDC'' \<mapsto> ''4zMMC9srt5Ri5X14GAgXhaHii3GnPAEERYPJgZJDncDU'']]
      in case tokenContractsFallback networkID of
           None \<Rightarrow> []
         | Some networkTokens \<Rightarrow>
             (case networkTokens currency of None \<Rightarrow> [] | Some contract \<Rightarrow> contract))"

text \<open>
  The configuration argument is an \<open>interface{}\<close> that is asked for a method \<open>GetConfigString\<close>;
  \<open>cfg\<close> is that method when the dynamic type has it.
\<close>

type_synonym config_string = "(string \<Rightarrow> string \<Rightarrow> string) option"

definition GetTokenContractAddressFromConfig :: "config_string \<Rightarrow> string \<Rightarrow> string \<Rightarrow> string" where
  "GetTokenContractAddressFromConfig cfg networkID currency =
     (let networkConfigMap =
        [''eip155:84532'' \<mapsto> ''base_sepolia'', ''eip155:8453'' \<mapsto> ''base'',
         ''eip155:11155111'' \<mapsto> ''ethereum_sepolia'', ''eip155:1'' \<mapsto> ''ethereum'',
         solana_main \<mapsto> ''solana'', solana_dev \<mapsto> ''solana_devnet'',
         ''solana:mainnet-beta'' \<mapsto> ''solana'', ''solana:devnet'' \<mapsto> ''solana_devnet'']
      in case networkConfigMap networkID of
           None \<Rightarrow> GetTokenContractAddress networkID currency
         | Some networkSuffix \<Rightarrow>
             (let configKey = ''token_'' @ currency @ ''_'' @ networkSuffix;
                  value = (case cfg of None \<Rightarrow> [] | Some get \<Rightarrow> get configKey [])
              in if value \<noteq> [] then value else GetTokenContractAddress networkID currency))"

definition GetTokenEIP712Parameters :: "string \<Rightarrow> string \<Rightarrow> string \<times> string" where
  "GetTokenEIP712Parameters networkID currency =
     (let tokenParamsFallback =
        [''eip155:84532'' \<mapsto> [''USDC'' \<mapsto> (''USDC'', ''2'')], ''eip155:8453'' \<mapsto> [''USDC'' \<mapsto> (''USDC'', ''2'')],
         ''eip155:11155111'' \<mapsto> [''USDC'' \<mapsto> (''USDC'', ''2'')], ''eip155:1'' \<mapsto> [''USDC'' \<mapsto> (''USDC'', ''2'')]]
      in case tokenParamsFallback networkID of
           None \<Rightarrow> (''USDC'', ''2'')
         | Some networkTokens \<Rightarrow>
             (case networkTokens currency of None \<Rightarrow> (''USDC'', ''2'') | Some params \<Rightarrow> params))"

definition GetTokenEIP712ParametersFromConfig :: "config_string \<Rightarrow> string \<Rightarrow> string \<Rightarrow> string \<times> string" where
  "GetTokenEIP712ParametersFromConfig cfg networkID currency =
     (let networkConfigMap =
        [''eip155:84532'' \<mapsto> ''base_sepolia'', ''eip155:8453'' \<mapsto> ''base'',
         ''eip155:11155111'' \<mapsto> ''ethereum_sepolia'', ''eip155:1'' \<mapsto> ''ethereum'']
      in case networkConfigMap networkID of
           None \<Rightarrow> GetTokenEIP712Parameters networkID currency
         | Some networkSuffix \<Rightarrow>
             (let nameKey = ''token_'' @ currency @ ''_'' @ networkSuffix @ ''_name'';
                  versionKey = ''token_'' @ currency @ ''_'' @ networkSuffix @ ''_version''
              in case cfg of
                   None \<Rightarrow> GetTokenEIP712Parameters networkID currency
                 | Some get \<Rightarrow>
                     if get nameKey [] \<noteq> [] \<and> get versionKey [] \<noteq> []
                     then (get nameKey [], get versionKey [])
                     else GetTokenEIP712Parameters networkID currency))"

text \<open>
  The node's configuration manager has no method of that name (its accessors are those of theory
  \<open>Configs\<close>), so the lookups made with it always use the built-in tables.
\<close>

definition manager_GetConfigString :: "ConfigManager \<Rightarrow> config_string" where
  "manager_GetConfigString cm = None"

section \<open>Matching networks\<close>

fun isNetworkInList :: "string \<Rightarrow> string list \<Rightarrow> bool" where
  "isNetworkInList walletNetwork [] = False"
| "isNetworkInList walletNetwork (accepted # rest) =
     (let networkPrefix = Split walletNetwork (CHR '':'') ! 0 @ '':''
      in if walletNetwork = accepted then True
         else if HasPrefix accepted networkPrefix \<and> HasSuffix accepted '':*'' then True
         else if HasPrefix accepted networkPrefix then True
         else isNetworkInList walletNetwork rest)"

definition networkMatches :: "string \<Rightarrow> string \<Rightarrow> bool" where
  "networkMatches paymentNetwork acceptedNetwork =
     (let normalizedPayment = NormalizeSolanaNetwork paymentNetwork;
          normalizedAccepted = NormalizeSolanaNetwork acceptedNetwork;
          parts = Split normalizedAccepted (CHR '':'');
          paymentParts = Split normalizedPayment (CHR '':'')
      in if normalizedPayment = normalizedAccepted then True
         else if length parts = 2 \<and> length paymentParts = 2 \<and> parts ! 0 = paymentParts ! 0
              then parts ! 1 = ''*''
         else False)"

definition isNetworkAccepted :: "string \<Rightarrow> string list \<Rightarrow> bool" where
  "isNetworkAccepted paymentNetwork acceptedNetworks =
     (if acceptedNetworks = [] then True
      else list_ex (networkMatches paymentNetwork) acceptedNetworks)"

section \<open>Wallets\<close>

record Wallet =
  WalletID :: string
  WNetwork :: string
  WAddress :: string
  WPrivateKey :: bytes
  WCreatedAt :: int

text \<open>
  The wallet manager: the wallets in memory, and the default wallet id kept in the settings table
  (\<open>None\<close> for a manager without a database; the inner \<open>None\<close> for a failing query).
\<close>

record WalletManager =
  wallets :: "(string \<times> Wallet) list"
  dbDefault :: "string option option"

datatype wallet_error =
  ErrWalletNotFound | NoWalletsAvailable | NoCompatibleWallet "string list"
| NoDatabaseSupport | WalletMissing string | DefaultWalletDbFailed

definition GetWalletAddress :: "WalletManager \<Rightarrow> string \<Rightarrow> wallet_error + (string \<times> string)" where
  "GetWalletAddress wm walletID =
     (case map_of (wallets wm) walletID of
        None \<Rightarrow> Inl ErrWalletNotFound
      | Some w \<Rightarrow> Inr (WAddress w, WNetwork w))"

definition HasCompatibleWallet :: "WalletManager \<Rightarrow> string list \<Rightarrow> bool" where
  "HasCompatibleWallet wm acceptedNetworks =
     (if acceptedNetworks = [] then True
      else list_ex (\<lambda>(_, w). isNetworkInList (WNetwork w) acceptedNetworks) (wallets wm))"

fun first_matching :: "string list \<Rightarrow> (string \<times> Wallet) list \<Rightarrow> (Wallet \<times> string) option" where
  "first_matching acceptedNetworks [] = None"
| "first_matching acceptedNetworks ((walletID, w) # rest) =
     (if isNetworkInList (WNetwork w) acceptedNetworks then Some (w, walletID)
      else first_matching acceptedNetworks rest)"

text \<open>
  The debug trace slices the first eight bytes of every address before any wallet is chosen, which
  panics on a shorter address.
\<close>

definition SelectBestWallet ::
  "WalletManager \<Rightarrow> string list \<Rightarrow> string \<Rightarrow> (wallet_error, Wallet \<times> string) go_result" where
  "SelectBestWallet wm acceptedNetworks defaultWalletID =
     (let dflt = (if defaultWalletID = [] then
                    (case dbDefault wm of Some (Some d) \<Rightarrow> d | _ \<Rightarrow> defaultWalletID)
                  else defaultWalletID)
      in if list_ex (\<lambda>(_, w). length (WAddress w) < 8) (wallets wm) then Panic
         else if acceptedNetworks = [] then
           (case (if dflt \<noteq> [] then map_of (wallets wm) dflt else None) of
              Some w \<Rightarrow> Ok (w, dflt)
            | None \<Rightarrow>
                (case wallets wm of
                   (walletID, w) # _ \<Rightarrow> Ok (w, walletID)
                 | [] \<Rightarrow> Err NoWalletsAvailable))
         else
           (case (if dflt \<noteq> [] then map_of (wallets wm) dflt else None) of
              Some w \<Rightarrow>
                if isNetworkInList (WNetwork w) acceptedNetworks then Ok (w, dflt)
                else (case first_matching acceptedNetworks (wallets wm) of
                        Some r \<Rightarrow> Ok r | None \<Rightarrow> Err (NoCompatibleWallet acceptedNetworks))
            | None \<Rightarrow>
                (case first_matching acceptedNetworks (wallets wm) of
                   Some r \<Rightarrow> Ok r | None \<Rightarrow> Err (NoCompatibleWallet acceptedNetworks))))"

text \<open>\<open>set_ok\<close> says whether the write of the setting succeeds.\<close>

definition setAsDefaultIfFirst :: "bool \<Rightarrow> string \<Rightarrow> WalletManager \<Rightarrow> (wallet_error option) \<times> WalletManager" where
  "setAsDefaultIfFirst set_ok walletID wm =
     (case dbDefault wm of
        None \<Rightarrow> (None, wm)
      | Some None \<Rightarrow> (Some DefaultWalletDbFailed, wm)
      | Some (Some currentDefault) \<Rightarrow>
          if currentDefault = [] then
            (if set_ok then (None, wm\<lparr>dbDefault := Some (Some walletID)\<rparr>)
             else (Some DefaultWalletDbFailed, wm))
          else (None, wm))"

definition SetDefaultWallet :: "bool \<Rightarrow> string \<Rightarrow> WalletManager \<Rightarrow> (wallet_error option) \<times> WalletManager" where
  "SetDefaultWallet set_ok walletID wm =
     (case dbDefault wm of
        None \<Rightarrow> (Some NoDatabaseSupport, wm)
      | Some _ \<Rightarrow>
          if map_of (wallets wm) walletID = None then (Some (WalletMissing walletID), wm)
          else if set_ok then (None, wm\<lparr>dbDefault := Some (Some walletID)\<rparr>)
          else (Some DefaultWalletDbFailed, wm))"

section \<open>Networks offered for invoices\<close>

record AllowedNetwork =
  CAIP2 :: string
  DisplayName :: string

definition getAppSupportedNetworks :: "string list" where
  "getAppSupportedNetworks =
     [''eip155:8453'', ''eip155:84532'', ''eip155:1'', ''eip155:11155111'', ''eip155:137'', ''eip155:80002'',
      ''eip155:43114'', ''eip155:43113'', solana_main, solana_dev, solana_test]"

definition displayNames :: "string \<rightharpoonup> string" where
  "displayNames =
     [''eip155:8453'' \<mapsto> ''Base Mainnet'', ''eip155:84532'' \<mapsto> ''Base Sepolia'',
      ''eip155:1'' \<mapsto> ''Ethereum Mainnet'', ''eip155:11155111'' \<mapsto> ''Ethereum Sepolia'',
      ''eip155:137'' \<mapsto> ''Polygon Mainnet'', ''eip155:80002'' \<mapsto> ''Polygon Amoy'',
      ''eip155:43114'' \<mapsto> ''Avalanche C-Chain'', ''eip155:43113'' \<mapsto> ''Avalanche Fuji'',
      solana_main \<mapsto> ''Solana Mainnet'', solana_dev \<mapsto> ''Solana Devnet'', solana_test \<mapsto> ''Solana Testnet'']"

definition getAllNetworksWithLabels :: "string list \<Rightarrow> AllowedNetwork list" where
  "getAllNetworksWithLabels networks =
     map (\<lambda>network. \<lparr>CAIP2 = network,
            DisplayName = (case displayNames network of None \<Rightarrow> network | Some d \<Rightarrow> d)\<rparr>) networks"

text \<open>
  \<open>supported\<close> is the outcome of the facilitator query: the networks of its \<open>kinds\<close>, or \<open>None\<close> on
  an error; \<open>range_order\<close> is the order in which the set of the application's networks is visited.
\<close>

definition GetAllowedNetworks ::
  "(string list \<Rightarrow> string list) \<Rightarrow> (string list) option \<Rightarrow> AllowedNetwork list" where
  "GetAllowedNetworks range_order supported =
     (case supported of
        None \<Rightarrow> getAllNetworksWithLabels (range_order getAppSupportedNetworks)
      | Some kinds \<Rightarrow>
          let facilitatorNetworks = map NormalizeSolanaNetwork (filter (\<lambda>n. n \<noteq> []) kinds)
          in getAllNetworksWithLabels
               (filter (\<lambda>n. n \<in> set facilitatorNetworks) (range_order getAppSupportedNetworks)))"

section \<open>Lemmas on identifiers\<close>

lemma Normalize_cases:
  "NormalizeSolanaNetwork n = n
   \<or> HasPrefix n ''solana:'' \<and> NormalizeSolanaNetwork n \<in> {solana_main, solana_dev, solana_test}"
  by (auto simp: NormalizeSolanaNetwork_def)

lemma Normalize_idem [simp]: "NormalizeSolanaNetwork (NormalizeSolanaNetwork n) = NormalizeSolanaNetwork n"
  by (simp add: NormalizeSolanaNetwork_def solana_ids)

lemma Normalize_prefix: "HasPrefix (NormalizeSolanaNetwork n) ''solana:'' = HasPrefix n ''solana:''"
  by (auto simp: NormalizeSolanaNetwork_def solana_ids)

lemma solana_prefix_parts: "HasPrefix n ''solana:'' \<Longrightarrow> Split n (CHR '':'') ! 0 = ''solana''"
proof -
  assume "HasPrefix n ''solana:''"
  then have "take 7 n = ''solana:''" by (simp add: HasPrefix_iff eval_nat_numeral)
  then have "n = ''solana:'' @ drop 7 n" using append_take_drop_id [of 7 n] by simp
  then obtain t where "n = ''solana'' @ CHR '':'' # t" by simp
  then show ?thesis using Split_append_sep [of "CHR '':''" "''solana''" t] by simp
qed

lemma isNetworkInList_iff:
  "isNetworkInList n acc \<longleftrightarrow>
     (\<exists>a\<in>set acc. n = a \<or> HasPrefix a (Split n (CHR '':'') ! 0 @ '':''))"
  by (induction acc) (auto simp: Let_def)

lemma Split_two:
  assumes "Split s (CHR '':'') = [x, y]"
  shows "s = x @ '':'' @ y"
proof -
  obtain t where t: "s = x @ CHR '':'' # t" "Split t (CHR '':'') = [y]"
    using Split_Cons_append [OF assms] by auto
  have "CHR '':'' \<notin> set t"
  proof
    assume "CHR '':'' \<in> set t"
    then obtain u v where "t = u @ CHR '':'' # v" "CHR '':'' \<notin> set u"
      by (metis split_list_first)
    with t(2) show False using Split_append_sep [of "CHR '':''" u v] by simp
  qed
  with t show ?thesis by (simp add: Split_no_sep)
qed

lemma length2_Split: "length (Split s (CHR '':'')) = 2 \<Longrightarrow>
    s = Split s (CHR '':'') ! 0 @ '':'' @ Split s (CHR '':'') ! 1"
proof -
  assume "length (Split s (CHR '':'')) = 2"
  then obtain x y where xy: "Split s (CHR '':'') = [x, y]"
    by (auto simp: numeral_2_eq_2 length_Suc_conv)
  then show ?thesis using Split_two [OF xy] by simp
qed

lemma networkMatches_same_family:
  assumes "networkMatches p a" and "p \<noteq> a"
  shows "HasPrefix a (Split p (CHR '':'') ! 0 @ '':'')"
proof (cases "NormalizeSolanaNetwork p = p \<and> NormalizeSolanaNetwork a = a")
  case True
  with assms have l: "length (Split a (CHR '':'')) = 2" "Split a (CHR '':'') ! 0 = Split p (CHR '':'') ! 0"
    by (auto simp: networkMatches_def Let_def split: if_splits)
  from length2_Split [OF l(1)] l(2) show ?thesis
    by (metis HasPrefix_append append.assoc)
next
  case False
  have "HasPrefix p ''solana:'' \<and> HasPrefix a ''solana:''"
  proof (cases "NormalizeSolanaNetwork p = NormalizeSolanaNetwork a")
    case True
    with False Normalize_cases [of p] Normalize_cases [of a] Normalize_prefix [of p] Normalize_prefix [of a]
    show ?thesis by auto
  next
    case ne: False
    let ?p = "NormalizeSolanaNetwork p" and ?a = "NormalizeSolanaNetwork a"
    from assms(1) ne have l: "length (Split ?a (CHR '':'')) = 2" "length (Split ?p (CHR '':'')) = 2"
      "Split ?a (CHR '':'') ! 0 = Split ?p (CHR '':'') ! 0"
      by (auto simp: networkMatches_def Let_def split: if_splits)
    have "HasPrefix ?p (Split ?p (CHR '':'') ! 0 @ '':'')" "HasPrefix ?a (Split ?p (CHR '':'') ! 0 @ '':'')"
      using length2_Split [OF l(1)] length2_Split [OF l(2)] l(3)
      by (metis HasPrefix_append append.assoc)+
    moreover have "Split ?p (CHR '':'') ! 0 = ''solana''"
      using False Normalize_cases [of p] Normalize_cases [of a] l(3)
        solana_prefix_parts [of ?p] solana_prefix_parts [of ?a]
      by (auto simp: Normalize_prefix)
    ultimately show ?thesis using Normalize_prefix [of p] Normalize_prefix [of a] by simp
  qed
  then show ?thesis by (simp add: solana_prefix_parts)
qed

lemma first_matching_SomeD:
  "first_matching acc ws = Some (w, i) \<Longrightarrow> (i, w) \<in> set ws \<and> isNetworkInList (WNetwork w) acc"
  by (induction acc ws rule: first_matching.induct) (auto split: if_splits)

lemma first_matching_None_iff:
  "first_matching acc ws = None \<longleftrightarrow> (\<forall>(i, w)\<in>set ws. \<not> isNetworkInList (WNetwork w) acc)"
  by (induction acc ws rule: first_matching.induct) auto

section \<open>Properties\<close>

text \<open>
    The wallet chosen for a payment is one the manager holds and one whose network the payee's
  list admits; the caller's wallet wins whenever it qualifies; and a wallet is found exactly when
  there is a compatible one, so the choice never fails spuriously.
\<close>

theorem SelectBestWallet_correct:
  assumes "\<forall>(i, w)\<in>set (wallets wm). 8 \<le> length (WAddress w)"
  shows "(\<forall>w i. SelectBestWallet wm acc d = Ok (w, i) \<longrightarrow>
            (i, w) \<in> set (wallets wm) \<and> (acc = [] \<or> isNetworkInList (WNetwork w) acc))
     \<and> (\<forall>w. d \<noteq> [] \<and> map_of (wallets wm) d = Some w \<and> (acc = [] \<or> isNetworkInList (WNetwork w) acc)
            \<longrightarrow> SelectBestWallet wm acc d = Ok (w, d))
     \<and> (is_ok (SelectBestWallet wm acc d) \<longleftrightarrow> wallets wm \<noteq> [] \<and> HasCompatibleWallet wm acc)"
proof -
  have np: "\<not> list_ex (\<lambda>(_, w). length (WAddress w) < 8) (wallets wm)"
    using assms by (auto simp: list_ex_iff)
  have sound: "(i, w) \<in> set (wallets wm) \<and> (acc = [] \<or> isNetworkInList (WNetwork w) acc)"
    if "SelectBestWallet wm acc d = Ok (w, i)" for w i
    using that np unfolding SelectBestWallet_def Let_def
    by (auto split: if_splits option.splits list.splits
        dest: map_of_SomeD first_matching_SomeD)
  have dflt: "SelectBestWallet wm acc d = Ok (w, d)"
    if "d \<noteq> []" "map_of (wallets wm) d = Some w" "acc = [] \<or> isNetworkInList (WNetwork w) acc" for w
    using that np by (auto simp: SelectBestWallet_def)
  have "is_ok (SelectBestWallet wm acc d)" if ws: "wallets wm \<noteq> []" and c: "HasCompatibleWallet wm acc"
  proof (cases "acc = []")
    case True
    with ws np show ?thesis
      unfolding SelectBestWallet_def Let_def
      by (auto split: list.splits option.splits if_splits simp: neq_Nil_conv)
  next
    case False
    with c obtain r where "first_matching acc (wallets wm) = Some r"
      by (cases "first_matching acc (wallets wm)")
        (auto simp: HasCompatibleWallet_def list_ex_iff first_matching_None_iff)
    with False np show ?thesis
      unfolding SelectBestWallet_def Let_def by (auto split: option.splits if_splits)
  qed
  moreover have "wallets wm \<noteq> [] \<and> HasCompatibleWallet wm acc" if "is_ok (SelectBestWallet wm acc d)"
    using that sound
    by (fastforce simp: is_ok_iff HasCompatibleWallet_def list_ex_iff)
  ultimately show ?thesis using sound dflt by blast
qed

text \<open>
    Payer and payee judge networks by different rules.  Every wallet whose network the executor
  accepts (\<open>networkMatches\<close>) is one the payer may select (\<open>isNetworkInList\<close>), but the payer also
  selects any wallet of the same family: a Base Sepolia wallet for a service that accepts only
  Base, which the executor then refuses.
\<close>

theorem wallet_selection_covers_acceptance:
  "(isNetworkAccepted p acc \<longrightarrow> acc = [] \<or> isNetworkInList p acc)
   \<and> isNetworkInList ''eip155:84532'' [''eip155:8453'']
   \<and> \<not> isNetworkAccepted ''eip155:84532'' [''eip155:8453'']"
proof (intro conjI impI)
  assume "isNetworkAccepted p acc"
  then show "acc = [] \<or> isNetworkInList p acc"
    using networkMatches_same_family [of p]
    by (auto simp: isNetworkAccepted_def list_ex_iff isNetworkInList_iff split: if_splits)
next
  show "isNetworkInList ''eip155:84532'' [''eip155:8453'']" by simp
next
  show "\<not> isNetworkAccepted ''eip155:84532'' [''eip155:8453'']"
    by (simp add: isNetworkAccepted_def networkMatches_def NormalizeSolanaNetwork_def)
qed

theorem wallet_selection_covers_acceptance_witness:
  "isNetworkInList ''solana:devnet'' [''eip155:*'', ''solana:*'']"
proof -
  have "isNetworkAccepted ''solana:devnet'' [''eip155:*'', ''solana:*'']"
    by (simp add: isNetworkAccepted_def networkMatches_def NormalizeSolanaNetwork_def solana_ids)
  then show ?thesis
    using wallet_selection_covers_acceptance [of "''solana:devnet''" "[''eip155:*'', ''solana:*'']"]
    by blast
qed

theorem SelectBestWallet_correct_witness:
  "\<exists>wm w i. wallets wm \<noteq> [] \<and> SelectBestWallet wm [''eip155:1''] [] = Ok (w, i) \<and> (i, w) \<in> set (wallets wm)
     \<and> WNetwork w = ''eip155:1''"
proof -
  let ?w = "\<lparr>WalletID = ''b'', WNetwork = ''eip155:1'', WAddress = ''0x12345678'', WPrivateKey = [], WCreatedAt = 0\<rparr>"
  let ?v = "\<lparr>WalletID = ''a'', WNetwork = ''solana:devnet'', WAddress = ''9x12345678'', WPrivateKey = [], WCreatedAt = 0\<rparr>"
  let ?wm = "\<lparr>wallets = [(''a'', ?v), (''b'', ?w)], dbDefault = Some (Some ''a'')\<rparr>"
  have c: "is_ok (SelectBestWallet ?wm [''eip155:1''] [])"
    using SelectBestWallet_correct [of ?wm "[''eip155:1'']" "[]"] by (simp add: HasCompatibleWallet_def)
  then have "SelectBestWallet ?wm [''eip155:1''] [] = Ok (?w, ''b'')"
    by (simp add: SelectBestWallet_def)
  then show ?thesis by (intro exI [of _ ?wm] exI [of _ ?w] exI [of _ "''b''"]) simp
qed

lemma itoa_nonempty [simp]: "itoa i \<noteq> []"
  using itoa_nat_Cons by (metis itoa_def list.distinct(1))

text \<open>
    Every EVM network a wallet can be created for has a chain id that the payment code can
  extract, and a network named by a chain number below \<open>2 ^ 63\<close> yields that number.
\<close>

theorem valid_network_has_chain_id:
  "(isValidNetwork network \<and> HasPrefix network ''eip155:'' \<longrightarrow> (\<exists>i. GetChainIDFromNetwork network = Inr i))
   \<and> (0 \<le> n \<and> n < 2 ^ 63 \<longrightarrow> GetChainIDFromNetwork (''eip155:'' @ itoa n) = Inr n)"
proof (intro conjI impI; elim conjE)
  assume v: "isValidNetwork network" and p: "HasPrefix network ''eip155:''"
  have l: "length (Split network (CHR '':'')) = 2"
    using v by (auto simp: isValidNetwork_def Let_def split: if_splits)
  have "take 7 network = ''eip155:''" using p by (simp add: HasPrefix_iff eval_nat_numeral)
  then have n: "network = ''eip155'' @ CHR '':'' # drop 7 network"
    using append_take_drop_id [of 7 network] by simp
  then have s: "Split network (CHR '':'') = ''eip155'' # Split (drop 7 network) (CHR '':'')"
    using Split_append_sep [of "CHR '':''" "''eip155''" "drop 7 network"] by simp
  then have "network = ''eip155'' @ '':'' @ Split network (CHR '':'') ! 1"
    using length2_Split [OF l] by simp
  then have "''eip155:'' @ Split network (CHR '':'') ! 1 = ''eip155:'' @ drop 7 network"
    using n by simp
  then have "Split network (CHR '':'') ! 1 = drop 7 network" by (simp only: same_append_eq)
  then have pi: "parse_int (drop 7 network) \<noteq> None"
    using v p l by (auto simp: isValidNetwork_def Let_def split: if_splits)
  then have "drop 7 network \<noteq> []" by (auto simp: parse_int_def)
  with pi \<open>take 7 network = ''eip155:''\<close> show "\<exists>i. GetChainIDFromNetwork network = Inr i"
    by (auto simp: GetChainIDFromNetwork_def Let_def)
next
  assume "0 \<le> n" and "n < 2 ^ 63"
  moreover have "0 < length (itoa n)" by simp
  ultimately show "GetChainIDFromNetwork (''eip155:'' @ itoa n) = Inr n"
    by (simp add: GetChainIDFromNetwork_def)
qed

theorem valid_network_has_chain_id_witness:
  "isValidNetwork ''eip155:8453'' \<and> (\<exists>i. GetChainIDFromNetwork ''eip155:8453'' = Inr i)
   \<and> GetChainIDFromNetwork (''eip155:'' @ itoa 8453) = Inr 8453"
proof -
  have v: "isValidNetwork ''eip155:8453''"
    by (simp add: isValidNetwork_def parse_int_def parse_nat_def digit_val_def)
  with valid_network_has_chain_id [of "''eip155:8453''" 8453] show ?thesis by simp
qed

text \<open>
    Solana aliases are interchangeable with the full identifiers for the RPC endpoint, and for
  the token tables too except for the alias \<open>solana:mainnet\<close>: it is normalised and recognised as a
  Solana network, but neither token table lists it, so the asset of such a payment is empty while
  that of the identifier it stands for is not.
\<close>

theorem solana_alias_agreement:
  "GetSolanaRPCEndpoint rpc (NormalizeSolanaNetwork n) = GetSolanaRPCEndpoint rpc n
   \<and> IsSolanaNetwork (NormalizeSolanaNetwork n) = IsSolanaNetwork n
   \<and> (n \<noteq> ''solana:mainnet'' \<longrightarrow>
        GetTokenContractAddressFromConfig (manager_GetConfigString cm) (NormalizeSolanaNetwork n) c
        = GetTokenContractAddressFromConfig (manager_GetConfigString cm) n c)
   \<and> IsSolanaNetwork ''solana:mainnet''
   \<and> GetTokenContractAddressFromConfig (manager_GetConfigString cm) ''solana:mainnet'' ''USDC'' = []
   \<and> GetTokenContractAddressFromConfig (manager_GetConfigString cm) (NormalizeSolanaNetwork ''solana:mainnet'') ''USDC'' \<noteq> []"
proof (intro conjI impI)
  show "GetSolanaRPCEndpoint rpc (NormalizeSolanaNetwork n) = GetSolanaRPCEndpoint rpc n"
    by (simp add: GetSolanaRPCEndpoint_def NormalizeSolanaNetwork_def solana_ids)
  show "IsSolanaNetwork (NormalizeSolanaNetwork n) = IsSolanaNetwork n"
    by (simp add: IsSolanaNetwork_def NormalizeSolanaNetwork_def solana_ids)
  show "GetTokenContractAddressFromConfig (manager_GetConfigString cm) (NormalizeSolanaNetwork n) c
        = GetTokenContractAddressFromConfig (manager_GetConfigString cm) n c" if "n \<noteq> ''solana:mainnet''"
    using that
    by (simp add: GetTokenContractAddressFromConfig_def GetTokenContractAddress_def
        NormalizeSolanaNetwork_def manager_GetConfigString_def solana_ids)
qed (simp_all add: GetTokenContractAddressFromConfig_def GetTokenContractAddress_def IsSolanaNetwork_def
      NormalizeSolanaNetwork_def manager_GetConfigString_def solana_ids)

theorem solana_alias_agreement_witness:
  "GetTokenContractAddressFromConfig (manager_GetConfigString \<lparr>configsPath = ''c'', configs = Map.empty\<rparr>)
     (NormalizeSolanaNetwork ''solana:devnet'') ''USDC''
   = GetTokenContractAddressFromConfig (manager_GetConfigString \<lparr>configsPath = ''c'', configs = Map.empty\<rparr>)
     ''solana:devnet'' ''USDC''"
  using solana_alias_agreement [of "\<lparr>MainNetBeta_RPC = ''m'', DevNet_RPC = ''d'', TestNet_RPC = ''t''\<rparr>"
      "''solana:devnet''" "\<lparr>configsPath = ''c'', configs = Map.empty\<rparr>" "''USDC''"] by simp

text \<open>
    The networks offered for invoices never exceed what the application supports, are exactly
  the common ones when the facilitator answers, and never end up unlabelled.
\<close>

theorem GetAllowedNetworks_intersection:
  assumes "\<And>xs. set (ord xs) = set xs"
  shows "CAIP2 ` set (GetAllowedNetworks ord (Some kinds))
           = set getAppSupportedNetworks \<inter> NormalizeSolanaNetwork ` (set kinds - {[]})
     \<and> CAIP2 ` set (GetAllowedNetworks ord None) = set getAppSupportedNetworks
     \<and> (\<forall>a\<in>set (GetAllowedNetworks ord reply). displayNames (CAIP2 a) = Some (DisplayName a))"
proof -
  have lab: "\<forall>n\<in>set getAppSupportedNetworks. displayNames n \<noteq> None"
    by (simp add: getAppSupportedNetworks_def displayNames_def solana_ids)
  have "\<forall>a\<in>set (GetAllowedNetworks ord reply). displayNames (CAIP2 a) = Some (DisplayName a)"
    using lab assms
    by (auto simp: GetAllowedNetworks_def getAllNetworksWithLabels_def Let_def split: option.splits)
  moreover have "CAIP2 ` set (GetAllowedNetworks ord (Some kinds))
           = set getAppSupportedNetworks \<inter> NormalizeSolanaNetwork ` (set kinds - {[]})"
    using assms by (force simp: GetAllowedNetworks_def getAllNetworksWithLabels_def Let_def)
  moreover have "CAIP2 ` set (GetAllowedNetworks ord None) = set getAppSupportedNetworks"
    using assms by (force simp: GetAllowedNetworks_def getAllNetworksWithLabels_def)
  ultimately show ?thesis by blast
qed

theorem GetAllowedNetworks_intersection_witness:
  "CAIP2 ` set (GetAllowedNetworks rev (Some [''eip155:1'', ''solana:devnet'', ''x:1''])) = {''eip155:1'', solana_dev}"
  using GetAllowedNetworks_intersection [of rev "[''eip155:1'', ''solana:devnet'', ''x:1'']" None]
  by (auto simp: getAppSupportedNetworks_def NormalizeSolanaNetwork_def solana_ids)

end
