(* ===== verification/Payment_Store.thy ===== *)
theory Payment_Store
  imports Go_Float
begin

text \<open>
  The payment tables (\<open>internal/database/job_executions.go\<close> from \<open>CreateJobPayment\<close> on, and
  \<open>internal/database/payment_invoices.go\<close>): rows, insertions with the constraints of the schema,
  lookups and updates.  A JSON text column is modelled by the value it encodes.  Every statement
  takes a \<open>conn\<close>: whether the driver fails on it, and whether the pooled connection it runs on
  enforces foreign keys (the \<open>PRAGMA\<close> is issued once, on one of the ten connections of the pool).
  Clock readings are arguments, in Unix seconds.
\<close>

section \<open>JSON values\<close>

datatype json = JNull | JBool bool | JNum float64 | JStr string | JArr "json list" | JObj "(string \<times> json) list"

type_synonym json_object = "(string \<times> json) list"

text \<open>\<open>json.Marshal\<close> rejects \<open>NaN\<close> and the infinities, which JSON cannot write.\<close>

fun json_encodable :: "json \<Rightarrow> bool" where
  "json_encodable JNull = True"
| "json_encodable (JBool b) = True"
| "json_encodable (JNum f) = (case f of Fin _ \<Rightarrow> True | _ \<Rightarrow> False)"
| "json_encodable (JStr s) = True"
| "json_encodable (JArr xs) = list_all json_encodable xs"
| "json_encodable (JObj kvs) = list_all (\<lambda>(_, v). json_encodable v) kvs"

definition json_string :: "json_object \<Rightarrow> string \<Rightarrow> string option" where
  "json_string kvs key = (case map_of kvs key of Some (JStr s) \<Rightarrow> Some s | _ \<Rightarrow> None)"

text \<open>SQLite's \<open>json_set(doc, '$.key', value)\<close>: an object gains or replaces the member, any other document is left alone.\<close>

definition json_set :: "json \<Rightarrow> string \<Rightarrow> json \<Rightarrow> json" where
  "json_set doc key value =
     (case doc of
        JObj kvs \<Rightarrow>
          if key \<in> fst ` set kvs then JObj (map (\<lambda>(k, v). (k, if k = key then value else v)) kvs)
          else JObj (kvs @ [(key, value)])
      | _ \<Rightarrow> doc)"

definition json_set_column :: "json option \<Rightarrow> string \<Rightarrow> json \<Rightarrow> json option" where
  "json_set_column col key value =
     Some (json_set (case col of None \<Rightarrow> JObj [] | Some doc \<Rightarrow> doc) key value)"

section \<open>Payments\<close>

record JobPayment =
  p_id :: int
  JobExecutionID :: "int option"
  p_WalletID :: string
  PaymentNetwork :: string
  PaymentSender :: string
  PaymentRecipient :: string
  PaymentAmount :: float64
  PaymentCurrency :: string
  PaymentNonce :: string
  p_PaymentSignature :: string
  PaymentTimestamp :: int
  PaymentMetadata :: "json_object option"
  p_TransactionID :: "string option"
  p_Status :: string
  p_VerifiedAt :: "int option"
  p_SettledAt :: "int option"
  p_RefundedAt :: "int option"
  p_CreatedAt :: int

text \<open>\<open>payment_seq\<close> is SQLite's \<open>AUTOINCREMENT\<close> counter; \<open>job_ids\<close> are the rows a payment may refer to.\<close>

record payment_db =
  job_payments :: "JobPayment list"
  payment_seq :: int
  job_ids :: "int list"

definition payment_statuses :: "string list" where
  "payment_statuses = [''pending'', ''verified'', ''settled'', ''refunded'', ''failed'']"

definition payment_violation :: "bool \<Rightarrow> payment_db \<Rightarrow> JobPayment \<Rightarrow> db_error option" where
  "payment_violation fk db p =
     (if PaymentAmount p = NaN then Some NotNullViolation
      else if p_Status p \<notin> set payment_statuses then Some CheckViolation
      else if PaymentNonce p \<in> PaymentNonce ` set (job_payments db) then Some UniqueViolation
      else if fk \<and> (case JobExecutionID p of None \<Rightarrow> False | Some j \<Rightarrow> j \<notin> set (job_ids db))
           then Some ForeignKeyViolation
      else None)"

definition CreateJobPayment :: "conn \<Rightarrow> int \<Rightarrow> JobPayment \<Rightarrow> payment_db \<Rightarrow> (db_error + int) \<times> payment_db" where
  "CreateJobPayment c now payment db =
     (if fault c = ExecFails then (Inl DriverError, db)
      else case payment_violation (fk_on c) db payment of
             Some e \<Rightarrow> (Inl e, db)
           | None \<Rightarrow>
               let i = payment_seq db + 1;
                   row = payment\<lparr>p_id := i, p_VerifiedAt := None, p_SettledAt := None,
                                 p_RefundedAt := None, p_CreatedAt := now\<rparr>;
                   db' = db\<lparr>job_payments := job_payments db @ [row], payment_seq := i\<rparr>
               in if fault c = LastInsertIdFails then (Inl LastIdError, db') else (Inr i, db'))"

text \<open>The lookups return no row without an error; \<open>conn\<close> can only fail them.\<close>

definition GetJobPayment :: "conn \<Rightarrow> int \<Rightarrow> payment_db \<Rightarrow> db_error + JobPayment option" where
  "GetJobPayment c paymentID db =
     (if fault c = ExecFails then Inl DriverError else Inr (row_at p_id paymentID (job_payments db)))"

definition GetJobPaymentByJobID :: "conn \<Rightarrow> int \<Rightarrow> payment_db \<Rightarrow> db_error + JobPayment option" where
  "GetJobPaymentByJobID c jobExecutionID db =
     (if fault c = ExecFails then Inl DriverError
      else Inr (row_at JobExecutionID (Some jobExecutionID) (job_payments db)))"

definition mark_payment :: "string \<Rightarrow> int \<Rightarrow> JobPayment \<Rightarrow> JobPayment" where
  "mark_payment status now p =
     (if status = ''verified'' then p\<lparr>p_Status := status, p_VerifiedAt := Some now\<rparr>
      else if status = ''settled'' then p\<lparr>p_Status := status, p_SettledAt := Some now\<rparr>
      else if status = ''refunded'' then p\<lparr>p_Status := status, p_RefundedAt := Some now\<rparr>
      else p\<lparr>p_Status := status\<rparr>)"

definition UpdateJobPaymentStatus ::
  "conn \<Rightarrow> int \<Rightarrow> int \<Rightarrow> string \<Rightarrow> payment_db \<Rightarrow> (db_error option) \<times> payment_db" where
  "UpdateJobPaymentStatus c now paymentID status db =
     (if status \<notin> {''verified'', ''settled'', ''refunded'', ''failed''}
      then (Some (UnknownPaymentStatus status), db)
      else if fault c = ExecFails then (Some DriverError, db)
      else (None, db\<lparr>job_payments := set_status p_id mark_payment paymentID status now (job_payments db)\<rparr>))"

definition UpdateJobPaymentExecutionID ::
  "conn \<Rightarrow> int \<Rightarrow> int \<Rightarrow> payment_db \<Rightarrow> (db_error option) \<times> payment_db" where
  "UpdateJobPaymentExecutionID c paymentID jobExecutionID db =
     (if fault c = ExecFails then (Some DriverError, db)
      else if fk_on c \<and> paymentID \<in> p_id ` set (job_payments db) \<and> jobExecutionID \<notin> set (job_ids db)
           then (Some ForeignKeyViolation, db)
      else (None, db\<lparr>job_payments :=
              sql_update (\<lambda>p. p_id p = paymentID) (\<lambda>p. p\<lparr>JobExecutionID := Some jobExecutionID\<rparr>)
                (job_payments db)\<rparr>))"

definition UpdateJobPaymentTransaction ::
  "conn \<Rightarrow> int \<Rightarrow> string \<Rightarrow> payment_db \<Rightarrow> (db_error option) \<times> payment_db" where
  "UpdateJobPaymentTransaction c paymentID transactionID db =
     (if fault c = ExecFails then (Some DriverError, db)
      else (None, db\<lparr>job_payments :=
              sql_update (\<lambda>p. p_id p = paymentID) (\<lambda>p. p\<lparr>p_TransactionID := Some transactionID\<rparr>)
                (job_payments db)\<rparr>))"

section \<open>Invoices\<close>

record PaymentInvoice =
  i_id :: int
  InvoiceID :: string
  FromPeerID :: string
  ToPeerID :: string
  FromWalletID :: string
  FromWalletAddress :: string
  ToWalletID :: string
  ToWalletAddress :: string
  i_Amount :: float64
  i_Currency :: string
  i_Network :: string
  i_Description :: string
  i_Status :: string
  i_PaymentSignature :: string
  i_TransactionID :: string
  i_PaymentID :: "int option"
  i_CreatedAt :: int
  ExpiresAt :: "int option"
  AcceptedAt :: "int option"
  RejectedAt :: "int option"
  i_SettledAt :: "int option"
  i_Metadata :: "json option"

record invoice_db =
  payment_invoices :: "PaymentInvoice list"
  invoice_seq :: int

text \<open>
  A missing text column reads back as the empty string, which is what the insertion leaves in the
  columns it does not list.  The metadata column holds the encoding of the map: an object, the text
  \<open>null\<close> for a nil map (\<open>None\<close> in memory), or SQL \<open>NULL\<close> (\<open>None\<close> in the table) when \<open>json.Marshal\<close> fails.
\<close>

definition CreatePaymentInvoice ::
  "conn \<Rightarrow> PaymentInvoice \<Rightarrow> invoice_db \<Rightarrow> (db_error option) \<times> invoice_db" where
  "CreatePaymentInvoice c invoice db =
     (if fault c = ExecFails then (Some DriverError, db)
      else if i_Amount invoice = NaN then (Some NotNullViolation, db)
      else if InvoiceID invoice \<in> InvoiceID ` set (payment_invoices db) then (Some UniqueViolation, db)
      else
        let i = invoice_seq db + 1;
            row = invoice\<lparr>i_id := i, i_PaymentSignature := [], i_TransactionID := [], i_PaymentID := None,
                    AcceptedAt := None, RejectedAt := None, i_SettledAt := None,
                    i_Metadata := (case i_Metadata invoice of
                       Some doc \<Rightarrow> if json_encodable doc then Some doc else None | None \<Rightarrow> Some JNull)\<rparr>
        in (None, db\<lparr>payment_invoices := payment_invoices db @ [row], invoice_seq := i\<rparr>))"

definition GetPaymentInvoice :: "conn \<Rightarrow> string \<Rightarrow> invoice_db \<Rightarrow> db_error + PaymentInvoice" where
  "GetPaymentInvoice c invoiceID db =
     (if fault c = ExecFails then Inl DriverError
      else case row_at InvoiceID invoiceID (payment_invoices db) of
             None \<Rightarrow> Inl NoRows | Some i \<Rightarrow> Inr i)"

text \<open>
  The listing: the peer's invoices, optionally of one status, newest first, cut to a page.  Rows with
  equal timestamps come in an order SQLite does not specify; the model keeps the table's order.
\<close>

definition ListPaymentInvoices ::
  "conn \<Rightarrow> string \<Rightarrow> string \<Rightarrow> int \<Rightarrow> int \<Rightarrow> invoice_db \<Rightarrow> db_error + PaymentInvoice list" where
  "ListPaymentInvoices c peerID status limit offset db =
     (if fault c = ExecFails then Inl DriverError
      else let mine = filter (\<lambda>i. (FromPeerID i = peerID \<or> ToPeerID i = peerID)
                                   \<and> (status = [] \<or> i_Status i = status)) (payment_invoices db);
               sorted = drop (nat offset) (sort_key (\<lambda>i. - i_CreatedAt i) mine);
               page = (if limit < 0 then sorted else take (nat limit) sorted)
           in Inr (map (\<lambda>i. i\<lparr>i_PaymentSignature := [], i_TransactionID := [], i_PaymentID := None,
                     AcceptedAt := None, RejectedAt := None, i_SettledAt := None, i_Metadata := None\<rparr>) page))"

definition mark_invoice :: "string \<Rightarrow> int \<Rightarrow> PaymentInvoice \<Rightarrow> PaymentInvoice" where
  "mark_invoice status now i =
     (if status = ''accepted'' then i\<lparr>i_Status := status, AcceptedAt := Some now\<rparr>
      else if status = ''rejected'' then i\<lparr>i_Status := status, RejectedAt := Some now\<rparr>
      else if status = ''settled'' then i\<lparr>i_Status := status, i_SettledAt := Some now\<rparr>
      else i\<lparr>i_Status := status\<rparr>)"

definition UpdatePaymentInvoiceStatus ::
  "conn \<Rightarrow> int \<Rightarrow> string \<Rightarrow> string \<Rightarrow> invoice_db \<Rightarrow> (db_error option) \<times> invoice_db" where
  "UpdatePaymentInvoiceStatus c now invoiceID status db =
     (if fault c = ExecFails then (Some DriverError, db)
      else (None, db\<lparr>payment_invoices :=
              set_status InvoiceID mark_invoice invoiceID status now (payment_invoices db)\<rparr>))"

definition UpdatePaymentInvoiceStatusWithReason ::
  "conn \<Rightarrow> int \<Rightarrow> string \<Rightarrow> string \<Rightarrow> string \<Rightarrow> invoice_db \<Rightarrow> (db_error option) \<times> invoice_db" where
  "UpdatePaymentInvoiceStatusWithReason c now invoiceID status reason db =
     (if status \<noteq> ''rejected'' then UpdatePaymentInvoiceStatus c now invoiceID status db
      else if reason = [] then UpdatePaymentInvoiceStatus c now invoiceID status db
      else if fault c = ExecFails then (Some DriverError, db)
      else (None, db\<lparr>payment_invoices :=
              sql_update (\<lambda>i. InvoiceID i = invoiceID)
                (\<lambda>i. i\<lparr>i_Status := status, RejectedAt := Some now,
                       i_Metadata := json_set_column (i_Metadata i) ''rejection_reason'' (JStr reason)\<rparr>)
                (payment_invoices db)\<rparr>))"

text \<open>\<open>payments\<close> are the ids the foreign key may refer to.\<close>

definition UpdatePaymentInvoiceAccepted ::
  "conn \<Rightarrow> int \<Rightarrow> int list \<Rightarrow> string \<Rightarrow> string \<Rightarrow> int \<Rightarrow> string \<Rightarrow> string \<Rightarrow> invoice_db
     \<Rightarrow> (db_error option) \<times> invoice_db" where
  "UpdatePaymentInvoiceAccepted c now payments invoiceID paymentSigJSON paymentID toWalletID toWalletAddress db =
     (if fault c = ExecFails then (Some DriverError, db)
      else if fk_on c \<and> invoiceID \<in> InvoiceID ` set (payment_invoices db) \<and> paymentID \<notin> set payments
           then (Some ForeignKeyViolation, db)
      else (None, db\<lparr>payment_invoices :=
              sql_update (\<lambda>i. InvoiceID i = invoiceID)
                (\<lambda>i. i\<lparr>i_Status := ''accepted'', i_PaymentSignature := paymentSigJSON,
                       i_PaymentID := Some paymentID, ToWalletID := toWalletID,
                       ToWalletAddress := toWalletAddress, AcceptedAt := Some now\<rparr>)
                (payment_invoices db)\<rparr>))"

definition is_expired :: "int \<Rightarrow> PaymentInvoice \<Rightarrow> bool" where
  "is_expired now i \<longleftrightarrow> i_Status i = ''pending'' \<and> (case ExpiresAt i of None \<Rightarrow> False | Some t \<Rightarrow> t < now)"

definition CleanupExpiredInvoices :: "conn \<Rightarrow> int \<Rightarrow> invoice_db \<Rightarrow> (db_error + nat) \<times> invoice_db" where
  "CleanupExpiredInvoices c now db =
     (if fault c = ExecFails then (Inl DriverError, db)
      else (Inr (length (filter (is_expired now) (payment_invoices db))),
            db\<lparr>payment_invoices :=
              sql_update (is_expired now) (\<lambda>i. i\<lparr>i_Status := ''expired''\<rparr>) (payment_invoices db)\<rparr>))"

definition MarkInvoiceFailed :: "conn \<Rightarrow> string \<Rightarrow> string \<Rightarrow> invoice_db \<Rightarrow> (db_error option) \<times> invoice_db" where
  "MarkInvoiceFailed c invoiceID reason db =
     (if fault c = ExecFails then (Some DriverError, db)
      else (None, db\<lparr>payment_invoices :=
              sql_update (\<lambda>i. InvoiceID i = invoiceID)
                (\<lambda>i. i\<lparr>i_Status := ''failed'',
                       i_Metadata := json_set_column (i_Metadata i) ''failure_reason'' (JStr reason)\<rparr>)
                (payment_invoices db)\<rparr>))"

definition DeletePaymentInvoice :: "conn \<Rightarrow> string \<Rightarrow> invoice_db \<Rightarrow> (db_error option) \<times> invoice_db" where
  "DeletePaymentInvoice c invoiceID db =
     (if fault c = ExecFails then (Some DriverError, db)
      else (None, db\<lparr>payment_invoices :=
              sql_delete (\<lambda>i. InvoiceID i = invoiceID) (payment_invoices db)\<rparr>))"

section \<open>The tables as status tables\<close>

interpretation pay: status_table p_id p_Status mark_payment
  by unfold_locales (auto simp: mark_payment_def)

interpretation inv: status_table InvoiceID i_Status mark_invoice
  by unfold_locales (auto simp: mark_invoice_def)

lemma mark_payment_fields [simp]:
  "p_id (mark_payment s now p) = p_id p" "p_Status (mark_payment s now p) = s"
  "PaymentNonce (mark_payment s now p) = PaymentNonce p"
  "PaymentAmount (mark_payment s now p) = PaymentAmount p"
  "p_TransactionID (mark_payment s now p) = p_TransactionID p"
  by (simp_all add: mark_payment_def)

lemma mark_invoice_fields [simp]:
  "InvoiceID (mark_invoice s now i) = InvoiceID i" "i_Status (mark_invoice s now i) = s"
  "i_Amount (mark_invoice s now i) = i_Amount i" "i_Metadata (mark_invoice s now i) = i_Metadata i"
  "i_PaymentID (mark_invoice s now i) = i_PaymentID i"
  by (simp_all add: mark_invoice_def)

section \<open>The payment table under every statement\<close>

text \<open>Every statement the payment code issues, from the state before to the state after it.\<close>

inductive payment_step :: "payment_db \<Rightarrow> payment_db \<Rightarrow> bool" where
  create: "CreateJobPayment c now p db = (r, db') \<Longrightarrow> payment_step db db'"
| status: "UpdateJobPaymentStatus c now i s db = (e, db') \<Longrightarrow> payment_step db db'"
| exec_id: "UpdateJobPaymentExecutionID c i j db = (e, db') \<Longrightarrow> payment_step db db'"
| transaction: "UpdateJobPaymentTransaction c i t db = (e, db') \<Longrightarrow> payment_step db db'"
| new_job: "payment_step db (db\<lparr>job_ids := j # job_ids db\<rparr>)"

inductive_cases payment_stepE: "payment_step db db'"

definition wf_payments :: "payment_db \<Rightarrow> bool" where
  "wf_payments db \<longleftrightarrow>
     distinct (map p_id (job_payments db)) \<and> distinct (map PaymentNonce (job_payments db))
     \<and> (\<forall>p\<in>set (job_payments db). 0 < p_id p \<and> p_id p \<le> payment_seq db
          \<and> p_Status p \<in> set payment_statuses \<and> PaymentAmount p \<noteq> NaN) \<and> 0 \<le> payment_seq db"

lemma CreateJobPayment_cases:
  assumes "CreateJobPayment c now p db = (r, db')"
  obtains "db' = db" "\<exists>e. r = Inl e"
  | row where "db' = db\<lparr>job_payments := job_payments db @ [row], payment_seq := payment_seq db + 1\<rparr>"
      "p_id row = payment_seq db + 1" "PaymentNonce row = PaymentNonce p" "p_Status row = p_Status p"
      "PaymentAmount row = PaymentAmount p" "p_TransactionID row = p_TransactionID p"
      "JobExecutionID row = JobExecutionID p" "payment_violation (fk_on c) db p = None"
      "r = Inl LastIdError \<or> r = Inr (payment_seq db + 1)"
  using assms by (auto simp: CreateJobPayment_def Let_def split: if_splits option.splits)

lemma wf_payments_map:
  assumes "wf_payments db"
    and "\<And>p. p_id (f p) = p_id p" "\<And>p. PaymentNonce (f p) = PaymentNonce p"
    and "\<And>p. PaymentAmount (f p) = PaymentAmount p"
    and "\<And>p. q p \<Longrightarrow> p_Status p \<in> set payment_statuses \<Longrightarrow> p_Status (f p) \<in> set payment_statuses"
  shows "wf_payments (db\<lparr>job_payments := sql_update q f (job_payments db)\<rparr>)"
proof -
  have "map p_id (sql_update q f (job_payments db)) = map p_id (job_payments db)"
    "map PaymentNonce (sql_update q f (job_payments db)) = map PaymentNonce (job_payments db)"
    using assms(2,3) by (auto intro: map_sql_update)
  with assms show ?thesis by (auto simp: wf_payments_def set_sql_update)
qed

lemma wf_payments_step: "payment_step db db' \<Longrightarrow> wf_payments db \<Longrightarrow> wf_payments db'"
proof (induction rule: payment_step.induct)
  case (create c now p db r db')
  from create.hyps show ?case
  proof (cases rule: CreateJobPayment_cases)
    case 1
    with create.prems show ?thesis by simp
  next
    case (2 row)
    then have "PaymentNonce p \<notin> PaymentNonce ` set (job_payments db)" "p_Status p \<in> set payment_statuses"
      "PaymentAmount p \<noteq> NaN"
      by (auto simp: payment_violation_def split: if_splits)
    with 2 create.prems show ?thesis by (force simp: wf_payments_def)
  qed
next
  case (status c now i s db e db')
  then show ?case
    by (auto simp: UpdateJobPaymentStatus_def set_status_def payment_statuses_def split: if_splits
        intro!: wf_payments_map)
next
  case (exec_id c i j db e db')
  then show ?case by (auto simp: UpdateJobPaymentExecutionID_def split: if_splits intro!: wf_payments_map)
next
  case (transaction c i t db e db')
  then show ?case by (auto simp: UpdateJobPaymentTransaction_def split: if_splits intro!: wf_payments_map)
next
  case (new_job db j)
  then show ?case by (simp add: wf_payments_def)
qed

definition empty_payments :: "int list \<Rightarrow> payment_db" where
  "empty_payments jobs = \<lparr>job_payments = [], payment_seq = 0, job_ids = jobs\<rparr>"

lemma wf_payments_empty [simp]: "wf_payments (empty_payments jobs)"
  by (simp add: wf_payments_def empty_payments_def)

lemma wf_payments_reachable: "payment_step\<^sup>*\<^sup>* (empty_payments jobs) db \<Longrightarrow> wf_payments db"
  by (induction rule: rtranclp_induct) (auto intro: wf_payments_step)

section \<open>Properties\<close>

text \<open>
  C5.  A payment authorisation can be spent once: in every table the statements of the payment code
  can produce, ids and nonces are unique; storing a payment whose nonce is already there fails and
  changes nothing; and a stored payment is what a lookup of the returned id finds.
\<close>

theorem payment_nonce_unique:
  assumes "payment_step\<^sup>*\<^sup>* (empty_payments jobs) db"
  shows "distinct (map PaymentNonce (job_payments db)) \<and> distinct (map p_id (job_payments db))
     \<and> (PaymentNonce p \<in> PaymentNonce ` set (job_payments db)
          \<longrightarrow> (\<exists>e. CreateJobPayment c now p db = (Inl e, db)))
     \<and> (\<forall>i db'. CreateJobPayment c now p db = (Inr i, db') \<longrightarrow>
          (\<exists>row. GetJobPayment good_conn i db' = Inr (Some row) \<and> PaymentNonce row = PaymentNonce p
              \<and> PaymentAmount row = PaymentAmount p \<and> p_Status row = p_Status p \<and> p_id row = i))"
proof -
  have wf: "wf_payments db" using assms by (rule wf_payments_reachable)
  have "\<exists>row. GetJobPayment good_conn i db' = Inr (Some row) \<and> PaymentNonce row = PaymentNonce p
              \<and> PaymentAmount row = PaymentAmount p \<and> p_Status row = p_Status p \<and> p_id row = i"
    if "CreateJobPayment c now p db = (Inr i, db')" for i db'
    using that
  proof (cases rule: CreateJobPayment_cases)
    case (2 row)
    then have i: "i = payment_seq db + 1" by simp
    have "i \<notin> p_id ` set (job_payments db)" using wf i by (force simp: wf_payments_def)
    with 2 i have "row_at p_id i (job_payments db') = Some row" by (auto intro: row_at_append_new)
    with 2 i show ?thesis by (auto simp: GetJobPayment_def good_conn_def)
  qed simp
  moreover have "\<exists>e. CreateJobPayment c now p db = (Inl e, db)"
    if "PaymentNonce p \<in> PaymentNonce ` set (job_payments db)"
    using that by (auto simp: CreateJobPayment_def payment_violation_def Let_def split: option.splits)
  ultimately show ?thesis using wf by (auto simp: wf_payments_def)
qed

definition sample_payment :: JobPayment where
  "sample_payment = \<lparr>p_id = 0, JobExecutionID = None, p_WalletID = ''0xA'', PaymentNetwork = ''eip155:8453'',
     PaymentSender = ''0xA'', PaymentRecipient = ''0xB'', PaymentAmount = Fin 5, PaymentCurrency = ''USDC'',
     PaymentNonce = ''n1'', p_PaymentSignature = ''0x00'', PaymentTimestamp = 1000, PaymentMetadata = None,
     p_TransactionID = Some ''0xt'', p_Status = ''verified'', p_VerifiedAt = None, p_SettledAt = None,
     p_RefundedAt = None, p_CreatedAt = 0\<rparr>"

definition sample_payments :: payment_db where
  "sample_payments = snd (CreateJobPayment good_conn 1000 sample_payment (empty_payments []))"

lemma sample_payments_reachable: "payment_step\<^sup>*\<^sup>* (empty_payments []) sample_payments"
  unfolding sample_payments_def by (metis create eq_snd_iff r_into_rtranclp)

theorem payment_nonce_unique_witness:
  "\<exists>e. CreateJobPayment good_conn 2000 sample_payment sample_payments = (Inl e, sample_payments)"
proof -
  have "PaymentNonce sample_payment \<in> PaymentNonce ` set (job_payments sample_payments)"
    by (simp add: sample_payments_def CreateJobPayment_def payment_violation_def empty_payments_def
        good_conn_def sample_payment_def payment_statuses_def)
  with payment_nonce_unique [OF sample_payments_reachable, of sample_payment good_conn 2000]
  show ?thesis by blast
qed

lemma json_set_column_null [simp]: "json_set_column (Some JNull) k v = Some JNull"
  by (simp add: json_set_column_def json_set_def)

lemma json_set_column_get:
  "\<exists>kvs'. json_set_column (Some (JObj kvs)) k (JStr v) = Some (JObj kvs') \<and> json_string kvs' k = Some v"
proof (cases "k \<in> fst ` set kvs")
  case True
  then have "map_of (map (\<lambda>(k', v'). (k', if k' = k then JStr v else v')) kvs) k = Some (JStr v)"
    by (induction kvs) auto
  with True show ?thesis by (simp add: json_set_column_def json_set_def json_string_def)
next
  case False
  then have "map_of kvs k = None" by (simp add: map_of_eq_None_iff)
  with False show ?thesis by (simp add: json_set_column_def json_set_def json_string_def map_add_def)
qed

text \<open>
    The expiry sweep marks exactly the pending invoices whose deadline has passed, leaves every
  other invoice and every field but the status alone, reports how many it marked, and finds nothing
  left to do when it is run again at the same time.
\<close>

theorem CleanupExpiredInvoices_exact:
  assumes "fault c \<noteq> ExecFails"
  shows "\<exists>db'. CleanupExpiredInvoices c now db
            = (Inr (length (filter (is_expired now) (payment_invoices db))), db')
     \<and> length (payment_invoices db') = length (payment_invoices db)
     \<and> (\<forall>k < length (payment_invoices db). payment_invoices db' ! k =
          (if is_expired now (payment_invoices db ! k)
           then (payment_invoices db ! k)\<lparr>i_Status := ''expired''\<rparr> else payment_invoices db ! k))
     \<and> CleanupExpiredInvoices c now db' = (Inr 0, db')"
proof -
  let ?rows = "sql_update (is_expired now) (\<lambda>i. i\<lparr>i_Status := ''expired''\<rparr>) (payment_invoices db)"
  have none: "\<not> is_expired now i" if "i \<in> set ?rows" for i
    using that by (auto simp: set_sql_update is_expired_def split: if_splits)
  then have "filter (is_expired now) ?rows = []" by (simp add: filter_empty_conv)
  moreover have "sql_update (is_expired now) (\<lambda>i. i\<lparr>i_Status := ''expired''\<rparr>) ?rows = ?rows"
    using none by (rule sql_update_noop)
  moreover have "length ?rows = length (payment_invoices db)" "k < length (payment_invoices db) \<Longrightarrow> ?rows ! k =
      (if is_expired now (payment_invoices db ! k) then (payment_invoices db ! k)\<lparr>i_Status := ''expired''\<rparr> else payment_invoices db ! k)" for k
    by (simp_all add: sql_update_def)
  ultimately show ?thesis
    using assms by (intro exI [of _ "db\<lparr>payment_invoices := ?rows\<rparr>"]) (simp add: CleanupExpiredInvoices_def)
qed

definition sample_invoice :: PaymentInvoice where
  "sample_invoice = \<lparr>i_id = 1, InvoiceID = ''inv1'', FromPeerID = ''P'', ToPeerID = ''Q'', FromWalletID = ''w'',
     FromWalletAddress = ''0xB'', ToWalletID = [], ToWalletAddress = [], i_Amount = Fin 5, i_Currency = ''USDC'',
     i_Network = ''eip155:8453'', i_Description = ''d'', i_Status = ''pending'', i_PaymentSignature = [],
     i_TransactionID = [], i_PaymentID = None, i_CreatedAt = 1000, ExpiresAt = Some 2000, AcceptedAt = None,
     RejectedAt = None, i_SettledAt = None, i_Metadata = None\<rparr>"

theorem CleanupExpiredInvoices_exact_witness:
  "\<exists>db'. CleanupExpiredInvoices good_conn 3000 \<lparr>payment_invoices = [sample_invoice], invoice_seq = 1\<rparr> = (Inr 1, db')
     \<and> CleanupExpiredInvoices good_conn 3000 db' = (Inr 0, db')"
  using CleanupExpiredInvoices_exact [of good_conn 3000 "\<lparr>payment_invoices = [sample_invoice], invoice_seq = 1\<rparr>"]
  by (auto simp: good_conn_def is_expired_def sample_invoice_def)

text \<open>
    A rejection is always recorded, but its reason only when the invoice was created with
  metadata: for a nil map the column holds the JSON text \<open>null\<close>, on which \<open>json_set\<close> has no member
  to set, so the reason is dropped without an error.
\<close>

theorem rejection_reason_recorded:
  assumes "fault c \<noteq> ExecFails" and "reason \<noteq> []"
    and "row_at InvoiceID iid (payment_invoices db) = Some i"
  shows "\<exists>db' i'. UpdatePaymentInvoiceStatusWithReason c now iid ''rejected'' reason db = (None, db')
     \<and> row_at InvoiceID iid (payment_invoices db') = Some i'
     \<and> i_Status i' = ''rejected'' \<and> RejectedAt i' = Some now
     \<and> (i_Metadata i = Some JNull \<longrightarrow> i_Metadata i' = Some JNull)
     \<and> (\<forall>kvs. i_Metadata i = Some (JObj kvs) \<longrightarrow>
          (\<exists>kvs'. i_Metadata i' = Some (JObj kvs') \<and> json_string kvs' ''rejection_reason'' = Some reason))"
proof -
  let ?upd = "\<lambda>i. i\<lparr>i_Status := ''rejected'', RejectedAt := Some now,
                 i_Metadata := json_set_column (i_Metadata i) ''rejection_reason'' (JStr reason)\<rparr>"
  have "InvoiceID i = iid" using row_at_SomeD [OF assms(3)] by simp
  then have "row_at InvoiceID iid (sql_update (\<lambda>i. InvoiceID i = iid) ?upd (payment_invoices db)) = Some (?upd i)"
    using assms(3) by (simp add: row_at_def sql_first_update)
  then show ?thesis
    using assms(1,2) json_set_column_get [of _ "''rejection_reason''" reason]
    by (intro exI [of _ "db\<lparr>payment_invoices := sql_update (\<lambda>i. InvoiceID i = iid) ?upd (payment_invoices db)\<rparr>"]
        exI [of _ "?upd i"]) (auto simp: UpdatePaymentInvoiceStatusWithReason_def)
qed

theorem rejection_reason_recorded_witness:
  "\<exists>db' i'. UpdatePaymentInvoiceStatusWithReason good_conn 3000 ''inv1'' ''rejected'' ''no''
       \<lparr>payment_invoices = [sample_invoice\<lparr>i_Metadata := Some JNull\<rparr>], invoice_seq = 1\<rparr> = (None, db')
     \<and> row_at InvoiceID ''inv1'' (payment_invoices db') = Some i' \<and> i_Status i' = ''rejected''
     \<and> i_Metadata i' = Some JNull"
proof -
  let ?i = "sample_invoice\<lparr>i_Metadata := Some JNull\<rparr>"
  have "row_at InvoiceID ''inv1'' [?i] = Some ?i" by (simp add: row_at_def sample_invoice_def)
  then show ?thesis
    using rejection_reason_recorded [of good_conn "''no''" "''inv1''"
        "\<lparr>payment_invoices = [?i], invoice_seq = 1\<rparr>" ?i 3000]
    by (auto simp: good_conn_def)
qed

end
