(* ===== verification/Payment_Signing.thy ===== *)
theory Payment_Signing
  imports Payment_Networks Payment_Store
begin

text \<open>
  Payment signatures (\<open>internal/payment/types.go\<close>, \<open>eip712.go\<close>, \<open>eip191.go\<close>): the signed record and
  the EIP-712 typed data it is signed as.  Keccak-256, \<open>HashStruct\<close> and the ECDSA signer belong to
  the go-ethereum library and are arguments; so is the answer to the question whether the sender is
  a contract, which the node asks an RPC server.
\<close>

section \<open>Records\<close>

record X402Domain =
  dName :: string
  dVersion :: string
  ChainId :: string
  VerifyingContract :: string

datatype SignatureFormat = NoFormat | SignatureFormatEIP191 | SignatureFormatEIP712

record PaymentSignature =
  Version :: string
  Network :: string
  Sender :: string
  Recipient :: string
  Amount :: float64
  Currency :: string
  Nonce :: string
  Signature :: string
  Timestamp :: int
  Metadata :: json_object
  SigFormat :: SignatureFormat
  EIP712Domain :: "X402Domain option"

text \<open>The typed data: the domain, the primary type and the message as strings.\<close>

record TypedData =
  PrimaryType :: string
  DomainName :: string
  DomainVersion :: string
  DomainChainId :: int
  DomainContract :: string
  msg_from :: string
  msg_to :: string
  msg_value :: string
  msg_validAfter :: string
  msg_validBefore :: string
  msg_nonce :: string

section \<open>Typed data\<close>

definition trunc_rat :: "rat \<Rightarrow> int" where
  "trunc_rat a = (if 0 \<le> a then \<lfloor>a\<rfloor> else \<lceil>a\<rceil>)"

text \<open>
  \<open>big.Float.SetFloat64\<close> panics on \<open>NaN\<close>; \<open>Int\<close> truncates a finite value and yields a nil pointer
  for an infinity, which the verb \<open>%d\<close> prints as \<open><nil>\<close>.
\<close>

definition big_int_text :: "float64 \<Rightarrow> string option" where
  "big_int_text f =
     (case f of NaN \<Rightarrow> None | Fin a \<Rightarrow> Some (itoa (trunc_rat a)) | _ \<Rightarrow> Some ''<nil>'')"

definition GetEIP712TypedData ::
  "(string \<Rightarrow> string) \<Rightarrow> PaymentSignature \<Rightarrow> int \<Rightarrow> string \<Rightarrow> string \<Rightarrow> string
     \<Rightarrow> (string, TypedData) go_result" where
  "GetEIP712TypedData keccak sig chainID tokenName tokenVersion verifyingContract =
     (let multiplier = (if Currency sig \<in> {''USDC'', ''USDT''} then 10 ^ 6
                        else if Currency sig = ''ETH'' then 10 ^ 18 else 10 ^ 6)
      in case big_int_text (fmul (Amount sig) (Fin multiplier)) of
           None \<Rightarrow> Panic
         | Some value \<Rightarrow>
             Ok \<lparr>PrimaryType = ''TransferWithAuthorization'', DomainName = tokenName,
                 DomainVersion = tokenVersion, DomainChainId = chainID, DomainContract = verifyingContract,
                 msg_from = Sender sig, msg_to = Recipient sig, msg_value = value,
                 msg_validAfter = itoa (to_int64 (Timestamp sig - 3600)),
                 msg_validBefore = itoa (to_int64 (Timestamp sig + 3600)),
                 msg_nonce = keccak (Nonce sig)\<rparr>)"

text \<open>The go-ethereum calls: the struct hashes of domain and message, Keccak-256 of bytes, the signer.\<close>

record eth_lib =
  HashDomain :: "TypedData \<Rightarrow> bytes option"
  HashMessage :: "TypedData \<Rightarrow> bytes option"
  Keccak256Hash :: "bytes \<Rightarrow> bytes"
  EcdsaSign :: "bytes \<Rightarrow> bytes \<Rightarrow> bytes option"

datatype sign_error =
  ChainIdError network_error | NoTokenContract string string | HashDomainFailed | HashMessageFailed | SignFailed

definition HashEIP712TypedData :: "eth_lib \<Rightarrow> TypedData \<Rightarrow> sign_error + bytes" where
  "HashEIP712TypedData eth td =
     (case HashDomain eth td of
        None \<Rightarrow> Inl HashDomainFailed
      | Some domainSeparator \<Rightarrow>
          (case HashMessage eth td of
             None \<Rightarrow> Inl HashMessageFailed
           | Some typedDataHash \<Rightarrow>
               Inr (Keccak256Hash eth ([0x19, 0x01] @ domainSeparator @ typedDataHash))))"

definition hex_digit :: "nat \<Rightarrow> char" where
  "hex_digit d = (if d < 10 then char_of (48 + d) else char_of (87 + d))"

fun hex_encode :: "bytes \<Rightarrow> string" where
  "hex_encode [] = []"
| "hex_encode (b # bs) = hex_digit (unat b div 16) # hex_digit (unat b mod 16) # hex_encode bs"

text \<open>
  The signer: it stores the domain in the signature before it signs, and an error later on leaves
  it there.  \<open>signature[64]\<close> panics on a short signature.
\<close>

definition SignEIP712WithConfigAndLogger ::
  "eth_lib \<Rightarrow> (string \<Rightarrow> string) \<Rightarrow> config_string option \<Rightarrow> bool \<Rightarrow> bytes \<Rightarrow> PaymentSignature
     \<Rightarrow> (sign_error, string) go_result \<times> PaymentSignature" where
  "SignEIP712WithConfigAndLogger eth keccak config isSmartContract privateKey sig =
     (case GetChainIDFromNetwork (Network sig) of
        Inl e \<Rightarrow> (Err (ChainIdError e), sig)
      | Inr chainID \<Rightarrow>
          let tokenContract =
                (case config of
                   Some cfg \<Rightarrow> GetTokenContractAddressFromConfig cfg (Network sig) (Currency sig)
                 | None \<Rightarrow> GetTokenContractAddress (Network sig) (Currency sig));
              (tokenName, tokenVersion) =
                (case config of
                   Some cfg \<Rightarrow> GetTokenEIP712ParametersFromConfig cfg (Network sig) (Currency sig)
                 | None \<Rightarrow> GetTokenEIP712Parameters (Network sig) (Currency sig))
          in if tokenContract = [] then (Err (NoTokenContract (Currency sig) (Network sig)), sig)
             else
               let sig' = sig\<lparr>EIP712Domain := Some \<lparr>dName = tokenName, dVersion = tokenVersion,
                              ChainId = itoa chainID, VerifyingContract = tokenContract\<rparr>\<rparr>
               in case GetEIP712TypedData keccak sig' chainID tokenName tokenVersion tokenContract of
                    Panic \<Rightarrow> (Panic, sig')
                  | Err _ \<Rightarrow> (Panic, sig')
                  | Ok td \<Rightarrow>
                      (case HashEIP712TypedData eth td of
                         Inl e \<Rightarrow> (Err e, sig')
                       | Inr hash \<Rightarrow>
                           (case EcdsaSign eth privateKey hash of
                              None \<Rightarrow> (Err SignFailed, sig')
                            | Some signature \<Rightarrow>
                                if length signature \<le> 64 then (Panic, sig')
                                else
                                  let adjusted = (if signature ! 64 < 27
                                                  then signature[64 := signature ! 64 + 27] else signature);
                                      final = (if isSmartContract then adjusted @ [0x01] else adjusted)
                                  in (Ok (''0x'' @ hex_encode final), sig'))))"

text \<open>The personal-message format: \<open>fmt6\<close> is the verb \<open>%.6f\<close>.\<close>

definition SignEIP191 ::
  "eth_lib \<Rightarrow> (float64 \<Rightarrow> string) \<Rightarrow> (string \<Rightarrow> bytes) \<Rightarrow> bytes \<Rightarrow> PaymentSignature \<Rightarrow> sign_error + string" where
  "SignEIP191 eth fmt6 utf8 privateKey sig =
     (let message = Network sig @ '':'' @ Sender sig @ '':'' @ Recipient sig @ '':'' @ fmt6 (Amount sig)
            @ '':'' @ Currency sig @ '':'' @ Nonce sig @ '':'' @ itoa (Timestamp sig)
      in case EcdsaSign eth privateKey (Keccak256Hash eth (utf8 message)) of
           None \<Rightarrow> Inl SignFailed
         | Some signature \<Rightarrow> Inr (''0x'' @ hex_encode signature))"

section \<open>Lemmas\<close>

lemma length_hex_encode [simp]: "length (hex_encode bs) = 2 * length bs"
  by (induction bs) auto

lemma hex_encode_append [simp]: "hex_encode (xs @ ys) = hex_encode xs @ hex_encode ys"
  by (induction xs) auto

lemma token_params_split:
  "(let (n, v) = f in g n v) = g (fst f) (snd f)"
  by (cases f) simp

text \<open>The multiplier of the signer is never negative, so a positive amount is never signed as a negative value.\<close>

lemma GetEIP712TypedData_Ok:
  assumes "GetEIP712TypedData k sig chain n v contract = Ok td"
  shows "msg_from td = Sender sig \<and> msg_to td = Recipient sig \<and> msg_nonce td = k (Nonce sig)
     \<and> msg_validAfter td = itoa (to_int64 (Timestamp sig - 3600))
     \<and> msg_validBefore td = itoa (to_int64 (Timestamp sig + 3600))
     \<and> DomainChainId td = chain \<and> DomainContract td = contract \<and> DomainName td = n \<and> DomainVersion td = v"
  using assms by (auto simp: GetEIP712TypedData_def Let_def split: option.splits)

lemma GetEIP712TypedData_not_Err: "GetEIP712TypedData k sig chain n v contract \<noteq> Err e"
  by (auto simp: GetEIP712TypedData_def Let_def split: option.splits)

text \<open>Resetting the stored domain does not change what is signed.\<close>

lemma GetEIP712TypedData_domain [simp]:
  "GetEIP712TypedData k (sig\<lparr>EIP712Domain := d\<rparr>) chain n v contract = GetEIP712TypedData k sig chain n v contract"
  by (simp add: GetEIP712TypedData_def Let_def cong: option.case_cong)

section \<open>Properties\<close>

text \<open>
    A signature made for an EVM network has the form the token contracts expect: if the ECDSA
  library returns 65 bytes ending in a recovery id 0 or 1, the text is \<open>0x\<close> and the 65 bytes with
  the last one shifted to 27 or 28, followed by one marker byte exactly when the sender is a
  contract; and the domain stored with it names the chain, the contract and the parameters that
  were signed.
\<close>

theorem SignEIP712_shape:
  assumes "SignEIP712WithConfigAndLogger eth k config isContract key sig = (Ok text, sig')"
    and "\<And>h s. EcdsaSign eth key h = Some s \<Longrightarrow> length s = 65 \<and> s ! 64 \<in> {0, 1}"
  shows "\<exists>rs v chain d. length rs = 64 \<and> v \<in> {27, 28}
     \<and> text = ''0x'' @ hex_encode (rs @ [v]) @ (if isContract then ''01'' else [])
     \<and> sig' = sig\<lparr>EIP712Domain := Some d\<rparr> \<and> GetChainIDFromNetwork (Network sig) = Inr chain
     \<and> ChainId d = itoa chain \<and> VerifyingContract d \<noteq> []
     \<and> (\<exists>td. GetEIP712TypedData k sig' chain (dName d) (dVersion d) (VerifyingContract d) = Ok td
           \<and> DomainName td = dName d \<and> DomainVersion td = dVersion d \<and> DomainContract td = VerifyingContract d)"
proof -
  let ?contract = "case config of Some cfg \<Rightarrow> GetTokenContractAddressFromConfig cfg (Network sig) (Currency sig)
                 | None \<Rightarrow> GetTokenContractAddress (Network sig) (Currency sig)"
  let ?params = "case config of Some cfg \<Rightarrow> GetTokenEIP712ParametersFromConfig cfg (Network sig) (Currency sig)
                 | None \<Rightarrow> GetTokenEIP712Parameters (Network sig) (Currency sig)"
  obtain n ver where nv: "?params = (n, ver)" by (cases ?params)
  obtain chain where ch: "GetChainIDFromNetwork (Network sig) = Inr chain"
    using assms(1) by (auto simp: SignEIP712WithConfigAndLogger_def split: sum.splits)
  let ?d = "\<lparr>dName = n, dVersion = ver, ChainId = itoa chain, VerifyingContract = ?contract\<rparr>"
  let ?sig = "sig\<lparr>EIP712Domain := Some ?d\<rparr>"
  note run = assms(1) [unfolded SignEIP712WithConfigAndLogger_def ch sum.case Let_def nv prod.case]
  from run obtain td where c: "?contract \<noteq> []" and td: "GetEIP712TypedData k ?sig chain n ver ?contract = Ok td"
    by (auto split: if_splits go_result.splits)
  from run c td obtain h s where s: "EcdsaSign eth key h = Some s" and sig': "sig' = ?sig"
    and tx: "text = ''0x'' @ hex_encode ((if s ! 64 < 27 then s[64 := s ! 64 + 27] else s)
                 @ (if isContract then [0x01] else []))"
    by (auto split: if_splits go_result.splits sum.splits option.splits)
  have len: "length s = 65" and rec: "s ! 64 \<in> {0, 1}" using assms(2) [OF s] by auto
  have "s = take 64 s @ [s ! 64]" using len by (simp add: take_Suc_conv_app_nth [symmetric])
  then have "s[64 := s ! 64 + 27] = take 64 s @ [s ! 64 + 27]"
    using len by (metis length_take list_update_length min.absorb2 numeral_le_iff semiring_norm(68,71,72,73))
  moreover have "s ! 64 < 27" using rec by auto
  moreover have "hex_encode [0x01 :: byte] = ''01''" by (simp add: hex_digit_def char_of_def bit_0)
  ultimately have "text = ''0x'' @ hex_encode (take 64 s @ [s ! 64 + 27]) @ (if isContract then ''01'' else [])"
    using tx by simp
  moreover have "s ! 64 + 27 \<in> {27, 28}" using rec by auto
  moreover have "DomainName td = n \<and> DomainVersion td = ver \<and> DomainContract td = ?contract"
    using GetEIP712TypedData_Ok [OF td] by simp
  ultimately show ?thesis using len ch c td sig'
    by (intro exI [of _ "take 64 s"] exI [of _ "s ! 64 + 27"] exI [of _ chain] exI [of _ ?d]) auto
qed

definition toy_eth :: eth_lib where
  "toy_eth = \<lparr>HashDomain = \<lambda>_. Some [], HashMessage = \<lambda>_. Some [], Keccak256Hash = \<lambda>b. take 32 b,
     EcdsaSign = \<lambda>_ _. Some (replicate 65 0)\<rparr>"

definition sample_sig :: PaymentSignature where
  "sample_sig = \<lparr>Version = ''1'', Network = ''eip155:8453'', Sender = ''0xA'', Recipient = ''0xB'', Amount = Fin 5,
     Currency = ''USDC'', Nonce = ''n1'', Signature = ''0x00'', Timestamp = 1700000000, Metadata = [],
     SigFormat = SignatureFormatEIP712, EIP712Domain = None\<rparr>"

lemma fmul_Fin_small:
  assumes "a * b = of_nat n" and "n < 2 ^ 53"
  shows "fmul (Fin a) (Fin b) = Fin (of_nat n)"
proof -
  have "(of_nat n :: rat) < of_nat (2 ^ 53)" using assms(2) by (simp only: of_nat_less_iff)
  also have "\<dots> < overflow_bound" by (simp add: overflow_bound_def)
  finally have "of_nat n < overflow_bound" .
  moreover have "- overflow_bound < of_nat n" by (simp add: overflow_bound_def less_le_trans [of _ 0])
  ultimately show ?thesis using assms round_val_of_nat [OF assms(2)] by (simp add: round64_def)
qed

theorem SignEIP712_shape_witness:
  "\<exists>text sig'. SignEIP712WithConfigAndLogger toy_eth id None True [] sample_sig = (Ok text, sig')
     \<and> (\<exists>rs v. length rs = 64 \<and> v \<in> {27, 28} \<and> text = ''0x'' @ hex_encode (rs @ [v]) @ ''01'')"
proof -
  have f: "round64 5000000 = Fin 5000000" using fmul_Fin_small [of 5 1000000 5000000] by simp
  have e: "length s = 65 \<and> s ! 64 \<in> {0, 1}" if "EcdsaSign toy_eth [] h = Some s" for h s
    using that by (auto simp: toy_eth_def)
  have p: "GetChainIDFromNetwork ''eip155:8453'' = Inr 8453"
    by (simp add: GetChainIDFromNetwork_def parse_int_def parse_nat_def digit_val_def)
  obtain t s where r: "SignEIP712WithConfigAndLogger toy_eth id None True [] sample_sig = (Ok t, s)"
    unfolding SignEIP712WithConfigAndLogger_def
    by (simp add: sample_sig_def p GetTokenContractAddress_def GetTokenEIP712Parameters_def
        GetEIP712TypedData_def big_int_text_def f HashEIP712TypedData_def toy_eth_def solana_ids Let_def)
  show ?thesis using SignEIP712_shape [OF r e] r by fastforce
qed

end
