(* ===== verification/X402_Client.thy ===== *)
theory X402_Client
  imports Configs Payment_Store
begin

text \<open>
  The client of the x402 payment facilitator (\<open>internal/payment/x402_client.go\<close> and the message
  types of \<open>types.go\<close>).  The network is an argument: what the HTTP exchange of each attempt ends
  in, and whether the context ends during the wait before it.  A response body is given by what
  \<open>json.Unmarshal\<close> makes of it (\<open>None\<close> when it fails).  Each operation returns its result together
  with the number of attempts made.  Errors are compared the way the code compares them: a sentinel
  wrapped by \<open>fmt.Errorf("%w: ...")\<close> is a new value, different from the sentinel itself.
\<close>

section \<open>Messages\<close>

record X402ResourceInfo =
  URL :: string
  rDescription :: string
  MimeType :: string

record PaymentRequirementsExtra =
  xName :: string
  xVersion :: string
  xFeePayer :: string

record FacilitatorPaymentRequirements =
  Scheme :: string
  rNetwork :: string
  Asset :: string
  rAmount :: string
  PayTo :: string
  MaxTimeoutSeconds :: int
  Extra :: PaymentRequirementsExtra

record X402Authorization =
  From :: string
  To :: string
  Value :: string
  ValidAfter :: string
  ValidBefore :: string
  aNonce :: string

datatype x402_payload =
  SolanaTransaction string
| EVMPayload string X402Authorization

record FacilitatorVerifyRequest =
  X402Version :: int
  Resource :: X402ResourceInfo
  Accepted :: FacilitatorPaymentRequirements
  Payload :: x402_payload
  PaymentRequirements :: FacilitatorPaymentRequirements

record FacilitatorRefundRequest =
  fTransactionID :: string
  RefundAmount :: float64
  fReason :: string

record FacilitatorResponse =
  IsValid :: bool
  Valid :: bool
  InvalidReason :: string
  fError :: string
  fStatus :: string

record FacilitatorSettleResponse =
  Success :: bool
  Transaction :: string
  sNetwork :: string
  ErrorReason :: string
  ErrorReasonDetail :: string

record SupportedKind =
  kScheme :: string
  kNetwork :: string
  kExtra :: "json_object option"

record FacilitatorSupportedResponse =
  Kinds :: "SupportedKind list"

record CreateTokenAccountResponse =
  tSuccess :: bool
  tTransaction :: string
  tError :: string

section \<open>The network\<close>

datatype 'r http_reply =
  BadRequest
| DoFails bool
| BodyFails
| Reply int "'r option"

datatype x402_error =
  ErrFacilitatorUnavailable
| ErrFacilitatorTimeout
| ErrFacilitatorRejected
| WrapRejected string
| MarshalFailed
| CreateRequestFailed
| RequestFailed
| ReadFailed
| ParseFailed
| HttpError int
| CtxErr
| SettlementFailed string string
| RefundFailed string
| NoFeePayer string
| TokenAccountFailed string

text \<open>Whether \<open>errors.Is(err, ErrFacilitatorRejected)\<close> would hold, which unwraps.\<close>

fun is_rejection :: "x402_error \<Rightarrow> bool" where
  "is_rejection ErrFacilitatorRejected = True"
| "is_rejection (WrapRejected _) = True"
| "is_rejection _ = False"

section \<open>The client\<close>

record X402Client =
  facilitatorURL :: string
  verifyEndpoint :: string
  settleEndpoint :: string
  refundEndpoint :: string
  timeout :: int
  maxRetries :: nat
  retryBackoff :: int

text \<open>Durations are in nanoseconds.\<close>

definition NewX402Client :: "ConfigManager \<Rightarrow> X402Client" where
  "NewX402Client config =
     \<lparr>facilitatorURL = GetConfigWithDefault config ''x402_facilitator_url'' ''https://www.x402.org/facilitator'',
      verifyEndpoint = GetConfigWithDefault config ''x402_verify_endpoint'' ''/verify'',
      settleEndpoint = GetConfigWithDefault config ''x402_settle_endpoint'' ''/settle'',
      refundEndpoint = GetConfigWithDefault config ''x402_refund_endpoint'' ''/refund'',
      timeout = to_int64 (GetConfigInt config ''x402_timeout_seconds'' 10 1 60 * 10 ^ 9),
      maxRetries = nat (GetConfigInt config ''x402_max_retries'' 3 0 10),
      retryBackoff = to_int64 (GetConfigInt config ''x402_retry_backoff_ms'' 1000 100 10000 * 10 ^ 6)\<rparr>"

definition backoff :: "X402Client \<Rightarrow> nat \<Rightarrow> int" where
  "backoff c attempt = to_int64 (retryBackoff c * 2 ^ (attempt - 1))"

definition sendRequest :: "bool \<Rightarrow> FacilitatorResponse http_reply \<Rightarrow> x402_error + FacilitatorResponse" where
  "sendRequest marshals reply =
     (if \<not> marshals then Inl MarshalFailed
      else case reply of
        BadRequest \<Rightarrow> Inl CreateRequestFailed
      | DoFails deadline \<Rightarrow> Inl (if deadline then ErrFacilitatorTimeout else ErrFacilitatorUnavailable)
      | BodyFails \<Rightarrow> Inl ReadFailed
      | Reply code body \<Rightarrow>
          if code \<ge> 500 then Inl ErrFacilitatorUnavailable
          else if code \<ge> 400 then
            (case body of
               Some resp \<Rightarrow> if fError resp \<noteq> [] then Inl (WrapRejected (fError resp))
                            else Inl (WrapRejected (''HTTP '' @ itoa code))
             | None \<Rightarrow> Inl (WrapRejected (''HTTP '' @ itoa code)))
          else (case body of None \<Rightarrow> Inl ParseFailed | Some resp \<Rightarrow> Inr resp))"

definition sendSettleRequest ::
  "FacilitatorSettleResponse http_reply \<Rightarrow> x402_error + FacilitatorSettleResponse" where
  "sendSettleRequest reply =
     (case reply of
        BadRequest \<Rightarrow> Inl CreateRequestFailed
      | DoFails deadline \<Rightarrow> Inl (if deadline then ErrFacilitatorTimeout else ErrFacilitatorUnavailable)
      | BodyFails \<Rightarrow> Inl ReadFailed
      | Reply code body \<Rightarrow>
          if code \<ge> 500 then Inl ErrFacilitatorUnavailable
          else if code \<ge> 400 then
            (case body of
               Some resp \<Rightarrow> if ErrorReason resp \<noteq> [] then Inl (WrapRejected (ErrorReason resp))
                            else Inl (WrapRejected (''HTTP '' @ itoa code))
             | None \<Rightarrow> Inl (WrapRejected (''HTTP '' @ itoa code)))
          else (case body of None \<Rightarrow> Inl ParseFailed | Some resp \<Rightarrow> Inr resp))"

text \<open>
  The retry loop the three operations share, from attempt number \<open>attempt\<close> with \<open>k\<close> attempts
  left: the wait before every attempt but the first can be cut short by the context, a response
  ends the loop through \<open>finish\<close>, an error equal to the sentinel \<open>ErrFacilitatorRejected\<close> ends it
  at once, any other error is kept as the last one.
\<close>

fun retry_loop ::
  "(nat \<Rightarrow> bool) \<Rightarrow> (nat \<Rightarrow> x402_error + 'r) \<Rightarrow> ('r \<Rightarrow> x402_error + 'a) \<Rightarrow> nat \<Rightarrow> nat \<Rightarrow> x402_error
     \<Rightarrow> (x402_error + 'a) \<times> nat" where
  "retry_loop ctx_done send finish 0 attempt lastErr = (Inl lastErr, attempt)"
| "retry_loop ctx_done send finish (Suc k) attempt lastErr =
     (if attempt > 0 \<and> ctx_done attempt then (Inl CtxErr, attempt)
      else case send attempt of
             Inr resp \<Rightarrow> (finish resp, Suc attempt)
           | Inl err \<Rightarrow>
               if err = ErrFacilitatorRejected then (Inl err, Suc attempt)
               else retry_loop ctx_done send finish k (Suc attempt) err)"

record 'r network =
  ctx_done :: "nat \<Rightarrow> bool"
  replies :: "nat \<Rightarrow> 'r http_reply"

text \<open>
  A verify or settle request has only string fields and always encodes; the last-error argument is
  never returned, since at least one attempt is made.
\<close>

definition VerifyPayment ::
  "X402Client \<Rightarrow> FacilitatorResponse network \<Rightarrow> FacilitatorVerifyRequest
     \<Rightarrow> (x402_error + FacilitatorResponse) \<times> nat" where
  "VerifyPayment c net req =
     (if facilitatorURL c = [] then (Inl ErrFacilitatorUnavailable, 0)
      else retry_loop (ctx_done net) (\<lambda>a. sendRequest True (replies net a)) Inr (maxRetries c + 1) 0
             ErrFacilitatorUnavailable)"

definition SettlePayment ::
  "X402Client \<Rightarrow> FacilitatorSettleResponse network \<Rightarrow> FacilitatorVerifyRequest
     \<Rightarrow> (x402_error + FacilitatorSettleResponse) \<times> nat" where
  "SettlePayment c net req =
     (if facilitatorURL c = [] then (Inl ErrFacilitatorUnavailable, 0)
      else retry_loop (ctx_done net) (\<lambda>a. sendSettleRequest (replies net a))
             (\<lambda>resp. if Success resp then Inr resp
                     else Inl (SettlementFailed (ErrorReason resp) (ErrorReasonDetail resp)))
             (maxRetries c + 1) 0 ErrFacilitatorUnavailable)"

text \<open>\<open>json.Marshal\<close> fails on a refund amount that JSON cannot write.\<close>

definition RefundPayment ::
  "X402Client \<Rightarrow> FacilitatorResponse network \<Rightarrow> string \<Rightarrow> float64 \<Rightarrow> string \<Rightarrow> (x402_error + unit) \<times> nat" where
  "RefundPayment c net transactionID refundAmount reason =
     (if facilitatorURL c = [] then (Inl ErrFacilitatorUnavailable, 0)
      else let req = \<lparr>fTransactionID = transactionID, RefundAmount = refundAmount, fReason = reason\<rparr>
           in retry_loop (ctx_done net)
                (\<lambda>a. sendRequest (json_encodable (JNum (RefundAmount req))) (replies net a))
                (\<lambda>resp. if fStatus resp = ''refunded'' \<or> Valid resp then Inr ()
                        else Inl (RefundFailed (fError resp)))
                (maxRetries c + 1) 0 ErrFacilitatorUnavailable)"

definition GetSupported ::
  "X402Client \<Rightarrow> FacilitatorSupportedResponse http_reply \<Rightarrow> x402_error + FacilitatorSupportedResponse" where
  "GetSupported c reply =
     (if facilitatorURL c = [] then Inl ErrFacilitatorUnavailable
      else case reply of
        BadRequest \<Rightarrow> Inl CreateRequestFailed
      | DoFails _ \<Rightarrow> Inl RequestFailed
      | BodyFails \<Rightarrow> Inl ReadFailed
      | Reply code body \<Rightarrow>
          if code \<noteq> 200 then Inl (HttpError code)
          else (case body of None \<Rightarrow> Inl ParseFailed | Some resp \<Rightarrow> Inr resp))"

fun find_fee_payer :: "string \<Rightarrow> SupportedKind list \<Rightarrow> string option" where
  "find_fee_payer network [] = None"
| "find_fee_payer network (kind # rest) =
     (if kNetwork kind = network then
        (case kExtra kind of
           None \<Rightarrow> find_fee_payer network rest
         | Some extra \<Rightarrow>
             (case json_string extra ''feePayer'' of
                Some fp \<Rightarrow> Some fp
              | None \<Rightarrow> find_fee_payer network rest))
      else find_fee_payer network rest)"

definition GetSolanaFeePayer ::
  "X402Client \<Rightarrow> FacilitatorSupportedResponse http_reply \<Rightarrow> string \<Rightarrow> x402_error + string" where
  "GetSolanaFeePayer c reply network =
     (case GetSupported c reply of
        Inl e \<Rightarrow> Inl e
      | Inr supported \<Rightarrow>
          (case find_fee_payer network (Kinds supported) of
             Some fp \<Rightarrow> Inr fp
           | None \<Rightarrow> Inl (NoFeePayer network)))"

definition CreateTokenAccount ::
  "X402Client \<Rightarrow> CreateTokenAccountResponse http_reply \<Rightarrow> x402_error + string" where
  "CreateTokenAccount c reply =
     (if facilitatorURL c = [] then Inl ErrFacilitatorUnavailable
      else case reply of
        BadRequest \<Rightarrow> Inl CreateRequestFailed
      | DoFails _ \<Rightarrow> Inl ErrFacilitatorUnavailable
      | BodyFails \<Rightarrow> Inl ReadFailed
      | Reply code body \<Rightarrow>
          if code \<ge> 400 then Inl (HttpError code)
          else (case body of
                  None \<Rightarrow> Inl ParseFailed
                | Some resp \<Rightarrow> if tSuccess resp then Inr (tTransaction resp)
                               else Inl (TokenAccountFailed (tError resp))))"

section \<open>The retry loop\<close>

lemma retry_attempts:
  "snd (retry_loop cd send fin k a e) \<le> a + k"
  by (induction cd send fin k a e rule: retry_loop.induct) (auto split: sum.splits)

lemma retry_attempts_ge:
  "a \<le> snd (retry_loop cd send fin k a e)"
  by (induction cd send fin k a e rule: retry_loop.induct) (auto split: sum.splits)

text \<open>The outcome of a loop whose attempts \<open>a, \<dots>, n - 1\<close> fail with errors other than the sentinel.\<close>

lemma retry_skip:
  assumes "\<And>i. a \<le> i \<Longrightarrow> i < a + m \<Longrightarrow> \<not> cd i \<and> (\<exists>err. send i = Inl err \<and> err \<noteq> ErrFacilitatorRejected)"
    and "m \<le> k"
  shows "\<exists>e'. retry_loop cd send fin k a e = retry_loop cd send fin (k - m) (a + m) e'
     \<and> (0 < m \<longrightarrow> send (a + m - 1) = Inl e')"
  using assms
proof (induction m arbitrary: a k e)
  case 0
  then show ?case by auto
next
  case (Suc m)
  then obtain k' where k: "k = Suc k'" by (cases k) auto
  obtain err where err: "send a = Inl err" "err \<noteq> ErrFacilitatorRejected" "\<not> cd a"
    using Suc.prems(1) [of a] by auto
  have "\<exists>e'. retry_loop cd send fin k' (Suc a) err = retry_loop cd send fin (k' - m) (Suc a + m) e'
      \<and> (0 < m \<longrightarrow> send (Suc a + m - 1) = Inl e')"
    using Suc.prems k by (intro Suc.IH) auto
  with err k show ?case by (cases "m = 0") auto
qed

text \<open>A successful loop ends on the response of its last attempt.\<close>

lemma retry_okD:
  assumes "retry_loop cd send fin k a e = (Inr x, n)"
  shows "\<exists>resp. a < n \<and> n \<le> a + k \<and> send (n - 1) = Inr resp \<and> fin resp = Inr x
     \<and> (\<forall>i. a \<le> i \<and> i < n - 1 \<longrightarrow> (\<exists>err. send i = Inl err))"
  using assms
proof (induction cd send fin k a e rule: retry_loop.induct)
  case (2 cd send fin k a e)
  show ?case
  proof (cases "send a")
    case (Inl err)
    then have "retry_loop cd send fin k (Suc a) err = (Inr x, n)" and "err \<noteq> ErrFacilitatorRejected"
      "\<not> (a > 0 \<and> cd a)"
      using 2(2) by (auto split: if_splits)
    then obtain resp where "Suc a < n" "n \<le> Suc a + k" "send (n - 1) = Inr resp" "fin resp = Inr x"
      "\<forall>i. Suc a \<le> i \<and> i < n - 1 \<longrightarrow> (\<exists>err. send i = Inl err)"
      using 2(1) [OF _ Inl] by auto
    with Inl show ?thesis by (metis Suc_leI le_neq_implies_less add_Suc_right add_Suc Suc_lessD)
  next
    case (Inr r)
    with 2(2) show ?thesis by (auto split: if_splits)
  qed
qed simp

lemma sendRequest_not_sentinel: "sendRequest m r \<noteq> Inl ErrFacilitatorRejected"
  by (auto simp: sendRequest_def split: http_reply.splits option.splits)

lemma sendSettleRequest_not_sentinel: "sendSettleRequest r \<noteq> Inl ErrFacilitatorRejected"
  by (auto simp: sendSettleRequest_def split: http_reply.splits option.splits)

section \<open>Properties\<close>

lemma GetConfigInt_in: "mn \<le> d \<Longrightarrow> d \<le> mx \<Longrightarrow> mn \<le> GetConfigInt cm k d mn mx \<and> GetConfigInt cm k d mn mx \<le> mx"
  by (auto simp: GetConfigInt_def split: option.splits)

lemma NewX402Client_maxRetries: "maxRetries (NewX402Client config) \<le> 10"
  using GetConfigInt_in [of 0 3 10 config "''x402_max_retries''"] by (simp add: NewX402Client_def nat_le_iff)

text \<open>
  C6.  A settlement reported as successful was confirmed by the facilitator: the last reply is the
  response returned, below HTTP 400 with its success flag set, every earlier attempt ended in an
  error, and no configuration makes the client ask more than eleven times.
\<close>

theorem SettlePayment_confirmed:
  assumes "c = NewX402Client config" and "SettlePayment c net req = (Inr resp, n)"
  shows "0 < n \<and> n \<le> 11
     \<and> (\<exists>code. replies net (n - 1) = Reply code (Some resp) \<and> code < 400) \<and> Success resp
     \<and> (\<forall>i < n - 1. \<exists>e. sendSettleRequest (replies net i) = Inl e)"
proof -
  have url: "facilitatorURL c \<noteq> []" using assms(2) by (auto simp: SettlePayment_def)
  let ?fin = "\<lambda>resp. if Success resp then Inr resp
                     else Inl (SettlementFailed (ErrorReason resp) (ErrorReasonDetail resp))"
  have "retry_loop (ctx_done net) (\<lambda>a. sendSettleRequest (replies net a)) ?fin (maxRetries c + 1) 0
      ErrFacilitatorUnavailable = (Inr resp, n)"
    using assms(2) url unfolding SettlePayment_def by simp
  from retry_okD [OF this] obtain r where r: "0 < n" "n \<le> maxRetries c + 1"
    "sendSettleRequest (replies net (n - 1)) = Inr r" "?fin r = Inr resp"
    "\<forall>i. i < n - 1 \<longrightarrow> (\<exists>err. sendSettleRequest (replies net i) = Inl err)"
    by auto
  then have "r = resp" "Success resp" by (auto split: if_splits)
  moreover have "\<exists>code. replies net (n - 1) = Reply code (Some r) \<and> code < 400"
    using r(3) unfolding sendSettleRequest_def
    by (cases "replies net (n - 1)") (auto split: if_splits option.splits)
  ultimately show ?thesis using r NewX402Client_maxRetries [of config] assms(1) by auto
qed

definition plain_client :: X402Client where
  "plain_client = NewX402Client \<lparr>configsPath = ''c'', configs = [''x402_max_retries'' \<mapsto> ''2'']\<rparr>"

lemma plain_client_simps [simp]:
  "facilitatorURL plain_client = ''https://www.x402.org/facilitator''" "maxRetries plain_client = 2"
  by (simp_all add: plain_client_def NewX402Client_def GetConfigWithDefault_def GetConfig_def GetConfigInt_def
      ParseInt64_def parse_int_def parse_nat_def digit_val_def)

theorem SettlePayment_confirmed_witness:
  "\<exists>net :: FacilitatorSettleResponse network. \<forall>req. \<exists>resp. SettlePayment plain_client net req = (Inr resp, 2)
     \<and> Success resp \<and> (\<exists>code. replies net 1 = Reply code (Some resp) \<and> code < 400)"
proof -
  let ?r = "\<lparr>Success = True, Transaction = ''0xt'', sNetwork = [], ErrorReason = [], ErrorReasonDetail = []\<rparr>"
  let ?net = "\<lparr>ctx_done = \<lambda>_. False, replies = \<lambda>a. if a = 0 then DoFails False else Reply 200 (Some ?r)\<rparr>"
  have run: "SettlePayment plain_client ?net req = (Inr ?r, 2)" for req
    by (simp add: SettlePayment_def sendSettleRequest_def eval_nat_numeral)
  have "\<exists>code. replies ?net 1 = Reply code (Some ?r) \<and> code < 400" for req :: FacilitatorVerifyRequest
    using SettlePayment_confirmed [of plain_client "\<lparr>configsPath = ''c'', configs = [''x402_max_retries'' \<mapsto> ''2'']\<rparr>"
        ?net req ?r 2] run [of req]
    by (simp add: plain_client_def)
  with run show ?thesis by (intro exI [of _ ?net]) auto
qed


definition sample_resp :: FacilitatorResponse where
  "sample_resp = \<lparr>IsValid = True, Valid = False, InvalidReason = [], fError = [], fStatus = []\<rparr>"

definition flaky_net :: "FacilitatorResponse network" where
  "flaky_net = \<lparr>ctx_done = \<lambda>_. False,
     replies = \<lambda>a. if a = 0 then Reply 503 None else if a = 1 then BodyFails else Reply 200 (Some sample_resp)\<rparr>"


text \<open>
    A client error is not retryable according to the comment on the check, but the check
  compares with the bare sentinel and every rejection is wrapped: a facilitator that answers every
  attempt with a 4xx status is asked the full number of times, and the error that comes back is a
  wrapped rejection.
\<close>

theorem rejections_are_retried:
  assumes "facilitatorURL c \<noteq> []" and "\<forall>j. \<not> ctx_done net j"
    and "\<forall>j. \<exists>code body. replies net j = Reply code body \<and> 400 \<le> code \<and> code < 500"
  shows "\<exists>e. VerifyPayment c net req = (Inl e, maxRetries c + 1) \<and> is_rejection e \<and> e \<noteq> ErrFacilitatorRejected"
proof -
  let ?send = "\<lambda>a. sendRequest True (replies net a)"
  have w: "\<exists>m. ?send a = Inl (WrapRejected m)" for a
    using assms(3) [rule_format, of a] by (auto simp: sendRequest_def split: option.splits)
  have "\<exists>e'. retry_loop (ctx_done net) ?send Inr (maxRetries c + 1) 0 ErrFacilitatorUnavailable
      = (Inl e', maxRetries c + 1) \<and> ?send (maxRetries c) = Inl e'"
    using retry_skip [of 0 "maxRetries c + 1" "ctx_done net" ?send "maxRetries c + 1" Inr ErrFacilitatorUnavailable]
      assms(2) w by force
  with w [of "maxRetries c"] assms(1) show ?thesis by (auto simp: VerifyPayment_def)
qed

theorem rejections_are_retried_witness:
  "\<forall>req. \<exists>e. VerifyPayment plain_client \<lparr>ctx_done = \<lambda>_. False, replies = \<lambda>_. Reply 422 None\<rparr> req = (Inl e, 3)"
  using rejections_are_retried [of plain_client "\<lparr>ctx_done = \<lambda>_. False, replies = \<lambda>_. Reply 422 None\<rparr>"]
  by (simp add: numeral_3_eq_3) blast

text \<open>
    The exponential backoff never wraps around: for every configuration and every retry the
  wait is exactly the base delay times a power of two, positive and below ninety minutes.
\<close>

theorem backoff_exact:
  assumes "c = NewX402Client config" and "0 < a" and "a \<le> maxRetries c"
  shows "backoff c a = GetConfigInt config ''x402_retry_backoff_ms'' 1000 100 10000 * 10 ^ 6 * 2 ^ (a - 1)
     \<and> 0 < backoff c a \<and> backoff c a < 90 * 60 * 10 ^ 9"
proof -
  let ?ms = "GetConfigInt config ''x402_retry_backoff_ms'' 1000 100 10000"
  have ms: "100 \<le> ?ms" "?ms \<le> 10000" using GetConfigInt_in [of 100 1000 10000] by auto
  have "a - 1 \<le> 9" using assms NewX402Client_maxRetries [of config] by simp
  then have p: "(2 :: int) ^ (a - 1) \<le> 2 ^ 9" by (intro power_increasing) auto
  have "?ms * 10 ^ 6 * 2 ^ (a - 1) \<le> 10000 * 10 ^ 6 * 2 ^ 9" using ms p by (intro mult_mono) auto
  moreover have "0 < ?ms * 10 ^ 6 * 2 ^ (a - 1)" using ms by simp
  moreover have "retryBackoff c = ?ms * 10 ^ 6" using assms(1) ms by (simp add: NewX402Client_def)
  ultimately show ?thesis by (simp add: backoff_def)
qed

theorem backoff_exact_witness:
  "0 < backoff plain_client 2 \<and> backoff plain_client 2 < 90 * 60 * 10 ^ 9"
  using backoff_exact [of plain_client "\<lparr>configsPath = ''c'', configs = [''x402_max_retries'' \<mapsto> ''2'']\<rparr>" 2]
  by (simp add: plain_client_def [symmetric])

end
