(* ===== verification/Escrow.thy ===== *)
theory Escrow
  imports Payment_Signing X402_Client
begin

text \<open>
  The escrow manager (\<open>internal/payment/escrow.go\<close>): creating an escrow from a signed payment,
  settling it and refunding it, the conversion of a payment to the facilitator's request and of an
  amount to the token's smallest unit.  The state is the payment table.  An operation takes the
  connections its statements run on, the network its facilitator calls meet and the clock, and
  returns its result, the table, and the calls made to the facilitator with what they ended in.
\<close>

section \<open>Errors and environment\<close>

datatype convert_error = MissingNetwork | ChainIdFailed network_error | NoTokenContractFor string string

datatype escrow_error =
  ErrPaymentRequired
| BelowMinimum float64 float64
| AmountNotPositive
| BelowRequired float64 float64
| ConvertFailed convert_error
| ErrPaymentVerificationFailed x402_error
| FacilitatorRejected string
| CreateRecordFailed db_error
| GetPaymentFailed db_error
| ErrEscrowNotFound
| ErrEscrowAlreadySettled
| ErrEscrowAlreadyRefunded
| ErrEscrowInvalidState string
| SettleFailed x402_error
| UpdateStatusFailed db_error
| NoTransactionID
| RefundCallFailed x402_error

record EscrowManager =
  lib :: go_float_lib
  keccak_hex :: "string \<Rightarrow> string"
  config :: ConfigManager
  x402Client :: X402Client

text \<open>A call to the facilitator that moves money, and whether the client saw it succeed.\<close>

datatype fac_call =
  SettleCall FacilitatorVerifyRequest bool
| RefundCall string float64 bool

fun moved :: "fac_call \<Rightarrow> bool" where
  "moved (SettleCall _ b) = b"
| "moved (RefundCall _ _ b) = b"

section \<open>Conversions\<close>

definition wei_multiplier :: "string \<Rightarrow> rat" where
  "wei_multiplier currency =
     (if currency = ''ETH'' then 10 ^ 18
      else if currency \<in> {''USDC'', ''USDT''} then 10 ^ 6
      else if currency = ''SOL'' then 10 ^ 9
      else 10 ^ 18)"

definition convertToWei :: "go_float_lib \<Rightarrow> float64 \<Rightarrow> string \<Rightarrow> string" where
  "convertToWei l amount currency =
     itoa (go_uint64 (oor_uint64 l) (fmul amount (Fin (wei_multiplier currency))))"

definition convertToX402Request ::
  "EscrowManager \<Rightarrow> PaymentSignature \<Rightarrow> float64 \<Rightarrow> int \<Rightarrow> convert_error + FacilitatorVerifyRequest" where
  "convertToX402Request em sig requiredAmount jobExecutionID =
     (if Network sig = [] then Inl MissingNetwork
      else
        let isSolanaNetwork = HasPrefix (Network sig) ''solana:'';
            networkID = (if isSolanaNetwork then NormalizeSolanaNetwork (Network sig) else Network sig);
            valueWei = convertToWei (lib em) (Amount sig) (Currency sig);
            requiredWei = convertToWei (lib em) requiredAmount (Currency sig);
            cfg = manager_GetConfigString (config em);
            tokenContract = GetTokenContractAddressFromConfig cfg (Network sig) (Currency sig);
            domain =
              (case EIP712Domain sig of
                 Some d \<Rightarrow> Inr (Some d)
               | None \<Rightarrow>
                   if isSolanaNetwork then Inr None
                   else (case GetChainIDFromNetwork (Network sig) of
                           Inl e \<Rightarrow> Inl (ChainIdFailed e)
                         | Inr chainID \<Rightarrow>
                             if tokenContract = [] then Inl (NoTokenContractFor (Currency sig) (Network sig))
                             else let (n, v) = GetTokenEIP712ParametersFromConfig cfg (Network sig) (Currency sig)
                                  in Inr (Some \<lparr>dName = n, dVersion = v, ChainId = itoa chainID,
                                                VerifyingContract = tokenContract\<rparr>)));
            payload =
              (if isSolanaNetwork then SolanaTransaction (Signature sig)
               else EVMPayload (Signature sig)
                      \<lparr>From = Sender sig, To = Recipient sig, Value = valueWei,
                       ValidAfter = itoa (to_int64 (Timestamp sig - 3600)),
                       ValidBefore = itoa (to_int64 (Timestamp sig + 3600)),
                       aNonce = keccak_hex em (Nonce sig)\<rparr>);
            (resourceURL, description) =
              (if jobExecutionID > 0 then
                 (''https://localhost:30069/api/jobs/'' @ itoa jobExecutionID @ ''/payment'',
                  ''Payment for job execution '' @ itoa jobExecutionID)
               else case json_string (Metadata sig) ''invoice_id'' of
                      Some invoiceID \<Rightarrow> (''https://localhost:30069/api/invoices/'' @ invoiceID,
                                         ''Payment for invoice '' @ invoiceID)
                    | None \<Rightarrow> (''https://localhost:30069/api/payment'', ''Payment for service''));
            feePayer =
              (if isSolanaNetwork then
                 (case json_string (Metadata sig) ''solana_fee_payer'' of Some fp \<Rightarrow> fp | None \<Rightarrow> [])
               else [])
        in case domain of
             Inl e \<Rightarrow> Inl e
           | Inr d \<Rightarrow>
               let reqs = \<lparr>Scheme = ''exact'', rNetwork = networkID, Asset = tokenContract, rAmount = requiredWei,
                           PayTo = Recipient sig, MaxTimeoutSeconds = 60,
                           Extra = \<lparr>xName = (case d of None \<Rightarrow> [] | Some d \<Rightarrow> dName d),
                                    xVersion = (case d of None \<Rightarrow> [] | Some d \<Rightarrow> dVersion d),
                                    xFeePayer = feePayer\<rparr>\<rparr>
               in Inr \<lparr>X402Version = 2,
                       Resource = \<lparr>URL = resourceURL, rDescription = description, MimeType = ''application/json''\<rparr>,
                       Accepted = reqs, Payload = payload, PaymentRequirements = reqs\<rparr>)"

section \<open>Creating an escrow\<close>

definition minPaymentAmount :: "EscrowManager \<Rightarrow> float64" where
  "minPaymentAmount em =
     GetConfigFloat64 (lib em) (config em) ''x402_min_payment_amount'' (round64 (1 / 100)) (Fin 0) (Fin 1000000)"

definition trackingID :: "EscrowManager \<Rightarrow> PaymentSignature \<Rightarrow> string" where
  "trackingID em sig = keccak_hex em (Signature sig @ '':'' @ Nonce sig @ '':'' @ itoa (Timestamp sig))"

definition escrow_row :: "EscrowManager \<Rightarrow> int \<Rightarrow> PaymentSignature \<Rightarrow> JobPayment" where
  "escrow_row em jobExecutionID sig =
     \<lparr>p_id = 0, JobExecutionID = (if jobExecutionID \<noteq> 0 then Some jobExecutionID else None),
      p_WalletID = Sender sig, PaymentNetwork = Network sig, PaymentSender = Sender sig,
      PaymentRecipient = Recipient sig, PaymentAmount = Amount sig, PaymentCurrency = Currency sig,
      PaymentNonce = Nonce sig, p_PaymentSignature = Signature sig, PaymentTimestamp = Timestamp sig,
      PaymentMetadata = (if Metadata sig \<noteq> [] \<and> json_encodable (JObj (Metadata sig))
                         then Some (Metadata sig) else None),
      p_TransactionID = Some (trackingID em sig), p_Status = ''verified'', p_VerifiedAt = None,
      p_SettledAt = None, p_RefundedAt = None, p_CreatedAt = 0\<rparr>"

text \<open>
  \<open>c_ins\<close> and \<open>c_upd\<close> are the connections of the insertion and of the status update, whose failure
  is only logged.
\<close>

definition CreateEscrow ::
  "EscrowManager \<Rightarrow> conn \<Rightarrow> conn \<Rightarrow> FacilitatorResponse network \<Rightarrow> int \<Rightarrow> int \<Rightarrow> PaymentSignature option \<Rightarrow> float64
     \<Rightarrow> payment_db \<Rightarrow> (escrow_error + int) \<times> payment_db" where
  "CreateEscrow em c_ins c_upd net now jobExecutionID paymentSig requiredAmount db =
     (case paymentSig of
        None \<Rightarrow> (Inl ErrPaymentRequired, db)
      | Some sig \<Rightarrow>
          if jobExecutionID > 0 \<and> Currency sig = ''USDC'' \<and> flt (Amount sig) (minPaymentAmount em)
          then (Inl (BelowMinimum (Amount sig) (minPaymentAmount em)), db)
          else if fle (Amount sig) (Fin 0) then (Inl AmountNotPositive, db)
          else if flt (Amount sig) requiredAmount then (Inl (BelowRequired (Amount sig) requiredAmount), db)
          else case convertToX402Request em sig requiredAmount jobExecutionID of
            Inl e \<Rightarrow> (Inl (ConvertFailed e), db)
          | Inr verifyReq \<Rightarrow>
              (case fst (VerifyPayment (x402Client em) net verifyReq) of
                 Inl e \<Rightarrow> (Inl (ErrPaymentVerificationFailed e), db)
               | Inr resp \<Rightarrow>
                   if \<not> (IsValid resp \<or> Valid resp) then
                     let errorMsg = (if InvalidReason resp \<noteq> [] then InvalidReason resp else fError resp)
                     in (Inl (FacilitatorRejected (if errorMsg = [] then ''payment verification failed'' else errorMsg)), db)
                   else case CreateJobPayment c_ins now (escrow_row em jobExecutionID sig) db of
                          (Inl e, db1) \<Rightarrow> (Inl (CreateRecordFailed e), db1)
                        | (Inr paymentID, db1) \<Rightarrow>
                            (Inr paymentID, snd (UpdateJobPaymentStatus c_upd now paymentID ''verified'' db1))))"

section \<open>Settling and refunding\<close>

text \<open>The checks both operations start with: the row, when its state admits the operation.\<close>

definition settle_read :: "conn \<Rightarrow> int \<Rightarrow> payment_db \<Rightarrow> escrow_error + JobPayment" where
  "settle_read c paymentID db =
     (case GetJobPayment c paymentID db of
        Inl e \<Rightarrow> Inl (GetPaymentFailed e)
      | Inr None \<Rightarrow> Inl ErrEscrowNotFound
      | Inr (Some payment) \<Rightarrow>
          if p_Status payment = ''settled'' then Inl ErrEscrowAlreadySettled
          else if p_Status payment = ''refunded'' then Inl ErrEscrowAlreadyRefunded
          else if p_Status payment \<noteq> ''verified'' \<and> p_Status payment \<noteq> ''pending''
               then Inl (ErrEscrowInvalidState (p_Status payment))
          else Inr payment)"

definition settlementAmount :: "JobPayment \<Rightarrow> float64 \<Rightarrow> float64" where
  "settlementAmount payment actualAmount =
     (if flt (Fin 0) actualAmount \<and> fle actualAmount (PaymentAmount payment)
      then actualAmount else PaymentAmount payment)"

definition stored_signature :: "JobPayment \<Rightarrow> float64 \<Rightarrow> PaymentSignature" where
  "stored_signature payment amount =
     \<lparr>Version = [], Network = PaymentNetwork payment, Sender = PaymentSender payment,
      Recipient = PaymentRecipient payment, Amount = amount, Currency = PaymentCurrency payment,
      Nonce = PaymentNonce payment, Signature = p_PaymentSignature payment,
      Timestamp = PaymentTimestamp payment,
      Metadata = (case PaymentMetadata payment of None \<Rightarrow> [] | Some m \<Rightarrow> m),
      SigFormat = NoFormat, EIP712Domain = None\<rparr>"

text \<open>
  The part of \<open>SettleEscrow\<close> after the checks.  The last log line dereferences the transaction id,
  which panics when the row has none and the facilitator returned none, after the table was updated.
\<close>

definition settle_send ::
  "EscrowManager \<Rightarrow> conn \<Rightarrow> FacilitatorSettleResponse network \<Rightarrow> int \<Rightarrow> int \<Rightarrow> JobPayment \<Rightarrow> float64 \<Rightarrow> payment_db
     \<Rightarrow> (escrow_error, unit) go_result \<times> payment_db \<times> fac_call list" where
  "settle_send em c net now paymentID payment actualAmount db =
     (let amount = settlementAmount payment actualAmount;
          jobExecID = (case JobExecutionID payment of None \<Rightarrow> 0 | Some j \<Rightarrow> j)
      in case convertToX402Request em (stored_signature payment amount) amount jobExecID of
           Inl e \<Rightarrow> (Err (ConvertFailed e), db, [])
         | Inr settleReq \<Rightarrow>
             (case fst (SettlePayment (x402Client em) net settleReq) of
                Inl e \<Rightarrow> (Err (SettleFailed e), db, [SettleCall settleReq False])
              | Inr settleResp \<Rightarrow>
                  (case UpdateJobPaymentStatus c now paymentID ''settled'' db of
                     (Some e, db') \<Rightarrow> (Err (UpdateStatusFailed e), db', [SettleCall settleReq True])
                   | (None, db') \<Rightarrow>
                       (if Transaction settleResp = [] \<and> p_TransactionID payment = None then Panic else Ok (),
                        db', [SettleCall settleReq True]))))"

definition SettleEscrow ::
  "EscrowManager \<Rightarrow> conn \<Rightarrow> conn \<Rightarrow> FacilitatorSettleResponse network \<Rightarrow> int \<Rightarrow> int \<Rightarrow> float64 \<Rightarrow> payment_db
     \<Rightarrow> (escrow_error, unit) go_result \<times> payment_db \<times> fac_call list" where
  "SettleEscrow em c_get c_upd net now paymentID actualAmount db =
     (case settle_read c_get paymentID db of
        Inl e \<Rightarrow> (Err e, db, [])
      | Inr payment \<Rightarrow> settle_send em c_upd net now paymentID payment actualAmount db)"

definition RefundEscrow ::
  "EscrowManager \<Rightarrow> conn \<Rightarrow> conn \<Rightarrow> FacilitatorResponse network \<Rightarrow> int \<Rightarrow> int \<Rightarrow> string \<Rightarrow> payment_db
     \<Rightarrow> (escrow_error, unit) go_result \<times> payment_db \<times> fac_call list" where
  "RefundEscrow em c_get c_upd net now paymentID reason db =
     (case GetJobPayment c_get paymentID db of
        Inl e \<Rightarrow> (Err (GetPaymentFailed e), db, [])
      | Inr None \<Rightarrow> (Err ErrEscrowNotFound, db, [])
      | Inr (Some payment) \<Rightarrow>
          if p_Status payment = ''refunded'' then (Err ErrEscrowAlreadyRefunded, db, [])
          else if p_Status payment = ''settled'' then (Err ErrEscrowAlreadySettled, db, [])
          else if p_Status payment \<noteq> ''verified'' \<and> p_Status payment \<noteq> ''pending''
               then (Err (ErrEscrowInvalidState (p_Status payment)), db, [])
          else case p_TransactionID payment of
            None \<Rightarrow> (Err NoTransactionID, db, [])
          | Some tx \<Rightarrow>
              if tx = [] then (Err NoTransactionID, db, [])
              else (case fst (RefundPayment (x402Client em) net tx (PaymentAmount payment) reason) of
                      Inl e \<Rightarrow> (Err (RefundCallFailed e), db, [RefundCall tx (PaymentAmount payment) False])
                    | Inr _ \<Rightarrow>
                        (case UpdateJobPaymentStatus c_upd now paymentID ''refunded'' db of
                           (Some e, db') \<Rightarrow> (Err (UpdateStatusFailed e), db', [RefundCall tx (PaymentAmount payment) True])
                         | (None, db') \<Rightarrow> (Ok (), db', [RefundCall tx (PaymentAmount payment) True]))))"

definition GetEscrowStatus :: "conn \<Rightarrow> int \<Rightarrow> payment_db \<Rightarrow> escrow_error + string" where
  "GetEscrowStatus c paymentID db =
     (case GetJobPayment c paymentID db of
        Inl e \<Rightarrow> Inl (GetPaymentFailed e)
      | Inr None \<Rightarrow> Inl ErrEscrowNotFound
      | Inr (Some payment) \<Rightarrow> Inr (p_Status payment))"

definition GetEscrowByJobID :: "conn \<Rightarrow> int \<Rightarrow> payment_db \<Rightarrow> db_error + JobPayment option" where
  "GetEscrowByJobID c jobExecutionID db = GetJobPaymentByJobID c jobExecutionID db"

section \<open>The request and what it commits to\<close>

lemma convertToX402Request_Inr:
  assumes "convertToX402Request em sig amt j = Inr req"
  shows "Network sig \<noteq> [] \<and> Accepted req = PaymentRequirements req
     \<and> rAmount (PaymentRequirements req) = convertToWei (lib em) amt (Currency sig)
     \<and> PayTo (PaymentRequirements req) = Recipient sig
     \<and> Payload req = (if HasPrefix (Network sig) ''solana:'' then SolanaTransaction (Signature sig)
         else EVMPayload (Signature sig)
           \<lparr>From = Sender sig, To = Recipient sig, Value = convertToWei (lib em) (Amount sig) (Currency sig),
            ValidAfter = itoa (to_int64 (Timestamp sig - 3600)),
            ValidBefore = itoa (to_int64 (Timestamp sig + 3600)), aNonce = keccak_hex em (Nonce sig)\<rparr>)"
  using assms unfolding convertToX402Request_def Let_def
  by (auto split: if_splits sum.splits prod.splits)

lemma settlementAmount_le:
  assumes "PaymentAmount p \<noteq> NaN"
  shows "fle (settlementAmount p a) (PaymentAmount p)"
  using assms by (cases "PaymentAmount p") (auto simp: settlementAmount_def fle_def)

lemma settlementAmount_pos:
  assumes "flt (Fin 0) (PaymentAmount p)"
  shows "flt (Fin 0) (settlementAmount p a)"
  using assms by (auto simp: settlementAmount_def)

section \<open>Effect of the operations on the table\<close>

definition status_of :: "payment_db \<Rightarrow> int \<Rightarrow> string option" where
  "status_of db i = map_option p_Status (row_at p_id i (job_payments db))"

lemma UpdateJobPaymentStatus_ok:
  "s \<in> {''verified'', ''settled'', ''refunded'', ''failed''} \<Longrightarrow> fault c \<noteq> ExecFails \<Longrightarrow>
   UpdateJobPaymentStatus c now i s db
     = (None, db\<lparr>job_payments := set_status p_id mark_payment i s now (job_payments db)\<rparr>)"
  by (simp add: UpdateJobPaymentStatus_def)

lemma status_of_set:
  "status_of (db\<lparr>job_payments := set_status p_id mark_payment i s now (job_payments db)\<rparr>) j
   = (if j = i then map_option (\<lambda>_. s) (status_of db i) else status_of db j)"
  using pay.status_at_set [of j i s now "job_payments db"]
  by (auto simp: status_of_def option.map_comp o_def)

lemma settle_read_Inr:
  assumes "settle_read c i db = Inr p"
  shows "row_at p_id i (job_payments db) = Some p \<and> p_Status p \<in> {''verified'', ''pending''}"
  using assms
  by (auto simp: settle_read_def GetJobPayment_def split: sum.splits option.splits if_splits)

text \<open>What one settlement or refund attempt does: nothing, a failed call, or a confirmed call and its status.\<close>

lemma settle_send_cases:
  assumes "settle_send em c net now i p a db = (r, db', calls)"
  obtains (quiet) "db' = db" "\<forall>k\<in>set calls. \<not> moved k" "\<exists>e. r = Err e"
  | (unsaved) "db' = db" "\<exists>req. calls = [SettleCall req True]" "fault c = ExecFails" "\<exists>e. r = Err e"
  | (settled) "db' = db\<lparr>job_payments := set_status p_id mark_payment i ''settled'' now (job_payments db)\<rparr>"
      "\<exists>req. calls = [SettleCall req True]" "fault c \<noteq> ExecFails"
      "r = Ok () \<or> r = Panic \<and> p_TransactionID p = None"
  using assms
  by (auto simp: settle_send_def Let_def UpdateJobPaymentStatus_def split: sum.splits if_splits)

lemma SettleEscrow_cases:
  assumes "SettleEscrow em cg c net now i a db = (r, db', calls)"
  obtains (quiet) "db' = db" "\<forall>k\<in>set calls. \<not> moved k" "\<exists>e. r = Err e"
  | (unsaved) "db' = db" "\<exists>req. calls = [SettleCall req True]" "fault c = ExecFails" "\<exists>e. r = Err e"
      "status_of db i \<in> {Some ''verified'', Some ''pending''}"
  | (settled) p where "db' = db\<lparr>job_payments := set_status p_id mark_payment i ''settled'' now (job_payments db)\<rparr>"
      "\<exists>req. calls = [SettleCall req True]" "fault c \<noteq> ExecFails"
      "row_at p_id i (job_payments db) = Some p" "p_Status p \<in> {''verified'', ''pending''}"
      "r = Ok () \<or> r = Panic \<and> p_TransactionID p = None"
proof (cases "settle_read cg i db")
  case (Inl e)
  with assms quiet show ?thesis by (auto simp: SettleEscrow_def)
next
  case (Inr p)
  then have "settle_send em c net now i p a db = (r, db', calls)" using assms by (simp add: SettleEscrow_def)
  then show ?thesis
    using settle_read_Inr [OF Inr] that
    by (cases rule: settle_send_cases) (auto simp: status_of_def)
qed

lemma RefundEscrow_cases:
  assumes "RefundEscrow em cg c net now i reason db = (r, db', calls)"
  obtains (quiet) "db' = db" "\<forall>k\<in>set calls. \<not> moved k" "\<exists>e. r = Err e"
  | (unsaved) "db' = db" "\<exists>t a. calls = [RefundCall t a True]" "fault c = ExecFails" "\<exists>e. r = Err e"
      "status_of db i \<in> {Some ''verified'', Some ''pending''}"
  | (refunded) p where "db' = db\<lparr>job_payments := set_status p_id mark_payment i ''refunded'' now (job_payments db)\<rparr>"
      "\<exists>t. calls = [RefundCall t (PaymentAmount p) True]" "fault c \<noteq> ExecFails"
      "row_at p_id i (job_payments db) = Some p" "p_Status p \<in> {''verified'', ''pending''}" "r = Ok ()"
  using assms
  by (auto simp: RefundEscrow_def GetJobPayment_def UpdateJobPaymentStatus_def status_of_def
      split: sum.splits option.splits if_splits)

lemma CreateEscrow_cases:
  assumes "CreateEscrow em ci cu net now j sg req db = (r, db')"
  obtains (failed) "db' = db" "\<exists>e. r = Inl e"
  | (lost) sig where "sg = Some sig" "CreateJobPayment ci now (escrow_row em j sig) db = (Inl LastIdError, db')"
      "\<exists>e. r = Inl e"
  | (created) sig i db1 where "sg = Some sig" "r = Inr i"
      "CreateJobPayment ci now (escrow_row em j sig) db = (Inr i, db1)"
      "db' = snd (UpdateJobPaymentStatus cu now i ''verified'' db1)"
      "\<not> fle (Amount sig) (Fin 0)" "\<not> flt (Amount sig) req"
      "\<exists>vr resp n. convertToX402Request em sig req j = Inr vr
         \<and> VerifyPayment (x402Client em) net vr = (Inr resp, n) \<and> (IsValid resp \<or> Valid resp)"
      "\<not> (j > 0 \<and> Currency sig = ''USDC'' \<and> flt (Amount sig) (minPaymentAmount em))"
proof (cases "\<exists>e. CreateEscrow em ci cu net now j sg req db = (Inl e, db)")
  case True
  with assms failed show ?thesis by auto
next
  case False
  then obtain sig where sig: "sg = Some sig" by (cases sg) (auto simp: CreateEscrow_def)
  note go = False [unfolded CreateEscrow_def sig option.case]
  have g1: "\<not> (j > 0 \<and> Currency sig = ''USDC'' \<and> flt (Amount sig) (minPaymentAmount em))"
    and g2: "\<not> fle (Amount sig) (Fin 0)" and g3: "\<not> flt (Amount sig) req"
    using go by (auto split: if_splits)
  obtain vr where vr: "convertToX402Request em sig req j = Inr vr"
    using go g1 g2 g3 by (cases "convertToX402Request em sig req j") auto
  obtain resp n where resp: "VerifyPayment (x402Client em) net vr = (Inr resp, n)"
    using go g1 g2 g3 vr
    by (cases "VerifyPayment (x402Client em) net vr"; cases "fst (VerifyPayment (x402Client em) net vr)") auto
  have valid: "IsValid resp \<or> Valid resp"
  proof (rule ccontr)
    assume "\<not> (IsValid resp \<or> Valid resp)"
    then have "\<exists>e. CreateEscrow em ci cu net now j sg req db = (Inl e, db)"
      using g1 g2 g3 vr resp by (simp add: CreateEscrow_def sig Let_def)
    with False show False by simp
  qed
  obtain q db1 where c: "CreateJobPayment ci now (escrow_row em j sig) db = (q, db1)" by fastforce
  have run: "(r, db') = (case q of Inl e \<Rightarrow> (Inl (CreateRecordFailed e), db1)
      | Inr i \<Rightarrow> (Inr i, snd (UpdateJobPaymentStatus cu now i ''verified'' db1)))"
    using assms g1 g2 g3 vr resp valid c by (auto simp: CreateEscrow_def sig split: sum.splits)
  show ?thesis
  proof (cases q)
    case (Inl e)
    then have "db1 \<noteq> db" using False run assms by auto
    then have "e = LastIdError" using c Inl by (auto elim: CreateJobPayment_cases)
    with Inl c run sig show ?thesis by (intro lost) auto
  next
    case (Inr i)
    with c run sig g1 g2 g3 vr resp valid show ?thesis by (intro created) auto
  qed
qed

section \<open>The escrow as a transition system\<close>

text \<open>
  The operations in any order and with any arguments, networks and clocks, and the trace of the
  money-moving calls made for each payment.  The status updates that follow a confirmed call do not
  fail (what happens when they do is the subject of a separate property).
\<close>

inductive escrow_step :: "EscrowManager \<Rightarrow> payment_db \<times> (int \<times> fac_call) list
    \<Rightarrow> payment_db \<times> (int \<times> fac_call) list \<Rightarrow> bool" for em where
  create: "CreateEscrow em ci cu net now j sg req db = (r, db') \<Longrightarrow> escrow_step em (db, tr) (db', tr)"
| settle: "SettleEscrow em cg cu net now i a db = (r, db', calls) \<Longrightarrow> fault cu \<noteq> ExecFails \<Longrightarrow>
    escrow_step em (db, tr) (db', tr @ map (Pair i) calls)"
| refund: "RefundEscrow em cg cu net' now i reason db = (r, db', calls) \<Longrightarrow> fault cu \<noteq> ExecFails \<Longrightarrow>
    escrow_step em (db, tr) (db', tr @ map (Pair i) calls)"
| link: "UpdateJobPaymentExecutionID c i j db = (e, db') \<Longrightarrow> escrow_step em (db, tr) (db', tr)"

definition moves :: "int \<Rightarrow> (int \<times> fac_call) list \<Rightarrow> nat" where
  "moves i tr = length (filter (\<lambda>(j, k). j = i \<and> moved k) tr)"

lemma moves_append [simp]: "moves i (tr @ tr') = moves i tr + moves i tr'"
  by (simp add: moves_def)

lemma moves_quiet: "\<forall>k\<in>set calls. \<not> moved k \<Longrightarrow> moves i (map (Pair j) calls) = 0"
  by (auto simp: moves_def filter_map o_def)

lemma moves_one: "moved k \<Longrightarrow> moves i (map (Pair j) [k]) = (if i = j then 1 else 0)"
  by (simp add: moves_def)

definition all_tracked :: "payment_db \<Rightarrow> bool" where
  "all_tracked db \<longleftrightarrow> None \<notin> set (map p_TransactionID (job_payments db))"

definition escrow_inv :: "payment_db \<Rightarrow> (int \<times> fac_call) list \<Rightarrow> bool" where
  "escrow_inv db tr \<longleftrightarrow> wf_payments db \<and> all_tracked db
     \<and> (\<forall>i. moves i tr = 0 \<or> moves i tr = 1 \<and> status_of db i \<in> {Some ''settled'', Some ''refunded''})"

lemma CreateJobPayment_keeps_rows:
  assumes "CreateJobPayment c now p db = (q, db1)" and "row_at p_id k (job_payments db) = Some r"
  shows "row_at p_id k (job_payments db1) = Some r"
  using assms by (auto elim!: CreateJobPayment_cases simp: row_at_def sql_first_append)

lemma status_update_other:
  assumes "k \<noteq> i"
  shows "status_of (snd (UpdateJobPaymentStatus c now i s db)) k = status_of db k"
  using assms by (auto simp: UpdateJobPaymentStatus_def status_of_set)

lemma CreateEscrow_keeps_status:
  assumes "CreateEscrow em ci cu net now j sg req db = (r, db')" and wf: "wf_payments db"
    and st: "status_of db k = Some s"
  shows "status_of db' k = Some s"
  using assms(1)
proof (cases rule: CreateEscrow_cases)
  case (created sig i db1)
  obtain row where row: "row_at p_id k (job_payments db) = Some row" "p_Status row = s"
    using st by (auto simp: status_of_def)
  have "k \<noteq> i" using created(3) row(1) wf
    by (auto elim!: CreateJobPayment_cases dest!: row_at_SomeD simp: wf_payments_def)
  then show ?thesis
    using CreateJobPayment_keeps_rows [OF created(3) row(1)] row(2) created(4)
    by (simp add: status_update_other) (simp add: status_of_def)
next
  case (lost sig)
  then show ?thesis using CreateJobPayment_keeps_rows st by (fastforce simp: status_of_def)
qed (use st in simp)

lemma wf_payments_UpdateStatus: "wf_payments db \<Longrightarrow> wf_payments (snd (UpdateJobPaymentStatus c now i s db))"
  using payment_step.status [of c now i s db] wf_payments_step by (metis prod.collapse)

lemma all_tracked_UpdateStatus [simp]:
  "all_tracked (snd (UpdateJobPaymentStatus c now i s db)) = all_tracked db"
proof -
  have "map p_TransactionID (set_status p_id mark_payment i s now rows) = map p_TransactionID rows" for rows s
    unfolding set_status_def by (rule map_sql_update) simp
  then show ?thesis by (simp add: UpdateJobPaymentStatus_def all_tracked_def del: set_map)
qed

lemma CreateJobPayment_tracked:
  assumes "CreateJobPayment c now p db = (q, db1)" and "p_TransactionID p \<noteq> None" and "all_tracked db"
  shows "all_tracked db1"
  using assms by (auto elim!: CreateJobPayment_cases simp: all_tracked_def)

lemma CreateEscrow_wf:
  assumes "CreateEscrow em ci cu net now j sg req db = (r, db')" and "wf_payments db" and "all_tracked db"
  shows "wf_payments db' \<and> all_tracked db'"
proof -
  have row: "wf_payments db1 \<and> all_tracked db1"
    if "CreateJobPayment ci now (escrow_row em j sig) db = (q, db1)" for sig q db1
    using wf_payments_step [OF payment_step.create [OF that] assms(2)]
      CreateJobPayment_tracked [OF that _ assms(3)] by (simp add: escrow_row_def)
  from assms(1) show ?thesis
  proof (cases rule: CreateEscrow_cases)
    case (created sig i db1)
    then show ?thesis using row [OF created(3)] wf_payments_UpdateStatus by simp
  next
    case (lost sig)
    from row [OF lost(2)] show ?thesis .
  qed (use assms in simp)
qed

lemma escrow_inv_moved:
  assumes inv: "escrow_inv db tr" and row: "row_at p_id i (job_payments db) = Some p"
    and open_p: "p_Status p \<in> {''verified'', ''pending''}" and s: "s \<in> {''settled'', ''refunded''}" and k: "moved k"
  shows "escrow_inv (db\<lparr>job_payments := set_status p_id mark_payment i s now (job_payments db)\<rparr>) (tr @ map (Pair i) [k])"
proof -
  have st: "status_of db i = Some (p_Status p)" using row by (simp add: status_of_def)
  then have m: "moves i tr = 0" using inv open_p by (fastforce simp: escrow_inv_def)
  let ?db = "db\<lparr>job_payments := set_status p_id mark_payment i s now (job_payments db)\<rparr>"
  have upd: "?db = snd (UpdateJobPaymentStatus good_conn now i s db)"
    using s by (auto simp: UpdateJobPaymentStatus_def good_conn_def)
  have "wf_payments ?db" unfolding upd using inv by (auto simp: escrow_inv_def intro: wf_payments_UpdateStatus)
  moreover have "all_tracked ?db" unfolding upd using inv by (simp add: escrow_inv_def)
  moreover have "moves j (tr @ map (Pair i) [k]) = 0 \<or> moves j (tr @ map (Pair i) [k]) = 1
      \<and> status_of ?db j \<in> {Some ''settled'', Some ''refunded''}" for j
    using inv m st s by (cases "j = i") (auto simp: escrow_inv_def status_of_set moves_one [OF k, simplified])
  ultimately show ?thesis unfolding escrow_inv_def by blast
qed

lemma escrow_inv_quiet:
  "escrow_inv db tr \<Longrightarrow> \<forall>k\<in>set calls. \<not> moved k \<Longrightarrow> escrow_inv db (tr @ map (Pair i) calls)"
  by (simp add: escrow_inv_def moves_quiet)

lemma escrow_inv_step:
  "escrow_step em x y \<Longrightarrow> escrow_inv (fst x) (snd x) \<Longrightarrow> escrow_inv (fst y) (snd y)"
proof (induction rule: escrow_step.induct)
  case (create ci cu net now j sg req db r db' tr)
  then have inv: "escrow_inv db tr" by simp
  then have "wf_payments db' \<and> all_tracked db'"
    using CreateEscrow_wf [OF create(1)] by (simp add: escrow_inv_def)
  moreover have "moves i tr = 0 \<or> moves i tr = 1 \<and> status_of db' i \<in> {Some ''settled'', Some ''refunded''}" for i
  proof -
    have "wf_payments db" and "moves i tr = 0 \<or> moves i tr = 1 \<and> status_of db i \<in> {Some ''settled'', Some ''refunded''}"
      using inv by (auto simp: escrow_inv_def)
    then show ?thesis using CreateEscrow_keeps_status [OF create(1)] by blast
  qed
  ultimately show ?case by (simp add: escrow_inv_def)
next
  case (settle cg cu net now i a db r db' calls tr)
  from settle(1) show ?case
  proof (cases rule: SettleEscrow_cases)
    case quiet
    with settle(3) show ?thesis by (auto intro: escrow_inv_quiet)
  next
    case unsaved
    with settle(2) show ?thesis by simp
  next
    case (settled p)
    then obtain req where "calls = [SettleCall req True]" by blast
    with settled escrow_inv_moved [of db tr i p "''settled''" "SettleCall req True" now] settle(3)
    show ?thesis by simp
  qed
next
  case (refund cg cu net' now i reason db r db' calls tr)
  from refund(1) show ?case
  proof (cases rule: RefundEscrow_cases)
    case quiet
    with refund(3) show ?thesis by (auto intro: escrow_inv_quiet)
  next
    case unsaved
    with refund(2) show ?thesis by simp
  next
    case (refunded p)
    then obtain t where "calls = [RefundCall t (PaymentAmount p) True]" by blast
    with refunded escrow_inv_moved [of db tr i p "''refunded''" "RefundCall t (PaymentAmount p) True" now] refund(3)
    show ?thesis by simp
  qed
next
  case (link c i j db e db' tr)
  have "wf_payments db'" using wf_payments_step [OF payment_step.exec_id [OF link(1)]] link(2)
    by (simp add: escrow_inv_def)
  moreover have "map p_TransactionID (job_payments db') = map p_TransactionID (job_payments db)"
    using link(1) by (auto simp: UpdateJobPaymentExecutionID_def sql_update_def split: if_splits)
  then have "all_tracked db'" using link(2) by (simp add: escrow_inv_def all_tracked_def del: set_map)
  moreover have "status_of db' k = status_of db k" for k
    using link(1)
    by (auto simp: UpdateJobPaymentExecutionID_def status_of_def split: if_splits intro!: row_at_update_proj)
  ultimately show ?case using link(2) by (simp add: escrow_inv_def)
qed

lemma escrow_inv_reachable:
  assumes "(escrow_step em)\<^sup>*\<^sup>* (empty_payments jobs, []) (db, tr)"
  shows "escrow_inv db tr"
  using assms
proof (induction "(db, tr)" arbitrary: db tr rule: rtranclp_induct)
  case base
  show ?case by (simp add: escrow_inv_def empty_payments_def wf_payments_def moves_def all_tracked_def)
next
  case (step y)
  then show ?case using escrow_inv_step [of em y] by (cases y) auto
qed

section \<open>Amounts\<close>

lemma go_uint64_Fin: "0 \<le> a \<Longrightarrow> a < 2 ^ 64 \<Longrightarrow> go_uint64 oor (Fin a) = \<lfloor>a\<rfloor>"
  by (simp add: go_uint64_def)

lemma wei_multiplier_nat: "\<exists>m. wei_multiplier c = of_nat m \<and> 0 < m"
  by (auto simp: wei_multiplier_def intro: exI [of _ "10 ^ 18"] exI [of _ "10 ^ 6"] exI [of _ "10 ^ 9"])

lemma convertToWei_whole:
  assumes "of_nat n * wei_multiplier c = of_nat k" and "k < 2 ^ 53"
  shows "convertToWei l (Fin (of_nat n)) c = itoa (int k)"
proof -
  have "fmul (Fin (of_nat n)) (Fin (wei_multiplier c)) = Fin (of_nat k)"
    using assms by (rule fmul_Fin_small)
  moreover have "(of_nat k :: rat) < of_nat (2 ^ 64)" using assms(2) by (subst of_nat_less_iff) simp
  ultimately show ?thesis by (simp add: convertToWei_def go_uint64_Fin)
qed

text \<open>The product of the float nearest to 1.001 and a million, and its truncation.\<close>

lemma milli_product: "fmul (round64 (1001 / 1000)) (Fin 1000000) = Fin (8598524526591999 / 8589934592)"
proof -
  have "round64 (1001 / 1000) = Fin (of_int 4508103226997866 * pow2 (0 - 52))"
    by (rule round64_at) (auto simp: pow2_def intro!: round_half_even_eq)
  then have a: "round64 (1001 / 1000) = Fin (4508103226997866 / 4503599627370496)"
    by (simp add: pow2_def)
  have "round64 (4508103226997866 / 4503599627370496 * 1000000) = Fin (of_int 8598524526591999 * pow2 (19 - 52))"
    by (rule round64_at) (auto simp: pow2_def intro!: round_half_even_eq)
  then show ?thesis unfolding a by (simp add: pow2_def)
qed

section \<open>A concrete escrow\<close>

definition sample_em :: EscrowManager where
  "sample_em = \<lparr>lib = decimal_lib, keccak_hex = (\<lambda>s. ''0x'' @ s),
     config = \<lparr>configsPath = ''c'', configs = Map.empty\<rparr>, x402Client = plain_client\<rparr>"

definition yes_net :: "FacilitatorResponse network" where
  "yes_net = \<lparr>ctx_done = \<lambda>_. False, replies = \<lambda>_. Reply 200 (Some (sample_resp\<lparr>fStatus := ''refunded''\<rparr>))\<rparr>"

definition settle_net :: "FacilitatorSettleResponse network" where
  "settle_net = \<lparr>ctx_done = \<lambda>_. False, replies = \<lambda>_. Reply 200 (Some
     \<lparr>Success = True, Transaction = ''0xt'', sNetwork = [], ErrorReason = [], ErrorReasonDetail = []\<rparr>)\<rparr>"

definition sample_db :: payment_db where
  "sample_db = \<lparr>job_payments = [(escrow_row sample_em 0 sample_sig)\<lparr>p_id := 1, p_VerifiedAt := Some 1000, p_CreatedAt := 1000\<rparr>],
     payment_seq = 1, job_ids = []\<rparr>"

lemma sample_convert: "a \<noteq> NaN \<Longrightarrow> \<exists>req. convertToX402Request sample_em (stored_signature (hd (job_payments sample_db)) a) a 0 = Inr req"
  by (simp add: convertToX402Request_def Let_def stored_signature_def sample_db_def escrow_row_def sample_sig_def
      GetChainIDFromNetwork_def parse_int_def parse_nat_def digit_val_def GetTokenContractAddressFromConfig_def
      GetTokenContractAddress_def GetTokenEIP712ParametersFromConfig_def GetTokenEIP712Parameters_def
      manager_GetConfigString_def solana_ids json_string_def)

lemma sample_verify: "VerifyPayment plain_client yes_net req = (Inr (sample_resp\<lparr>fStatus := ''refunded''\<rparr>), 1)"
  by (simp add: VerifyPayment_def yes_net_def sendRequest_def sample_resp_def numeral_3_eq_3)

lemma sample_settle: "\<exists>resp. SettlePayment plain_client settle_net req = (Inr resp, 1) \<and> Transaction resp \<noteq> []"
  by (simp add: SettlePayment_def settle_net_def sendSettleRequest_def numeral_3_eq_3)

lemma sample_create:
  "CreateEscrow sample_em good_conn good_conn yes_net 1000 0 (Some sample_sig) (Fin 5) (empty_payments []) = (Inr 1, sample_db)"
proof -
  have "\<exists>req. convertToX402Request sample_em sample_sig (Fin 5) 0 = Inr req"
    by (simp add: convertToX402Request_def Let_def sample_sig_def
      GetChainIDFromNetwork_def parse_int_def parse_nat_def digit_val_def GetTokenContractAddressFromConfig_def
      GetTokenContractAddress_def GetTokenEIP712ParametersFromConfig_def GetTokenEIP712Parameters_def
      manager_GetConfigString_def solana_ids json_string_def)
  then obtain req where req: "convertToX402Request sample_em sample_sig (Fin 5) 0 = Inr req" by blast
  have c: "x402Client sample_em = plain_client" by (simp add: sample_em_def)
  have a: "Amount sample_sig = Fin 5" by (simp add: sample_sig_def)
  define row where "row = escrow_row sample_em 0 sample_sig"
  have s: "PaymentAmount row = Fin 5" "p_Status row = ''verified''" "JobExecutionID row = None"
    "p_SettledAt row = None" "p_RefundedAt row = None"
    by (simp_all add: row_def escrow_row_def sample_sig_def)
  have "CreateJobPayment good_conn 1000 row (empty_payments []) =
      (Inr 1, \<lparr>job_payments = [row\<lparr>p_id := 1, p_VerifiedAt := None, p_CreatedAt := 1000\<rparr>],
               payment_seq = 1, job_ids = []\<rparr>)"
    using s by (cases row) (simp add: CreateJobPayment_def payment_violation_def good_conn_def payment_statuses_def
        empty_payments_def Let_def)
  with s show ?thesis
    by (cases row) (simp add: CreateEscrow_def req a c sample_verify sample_resp_def row_def [symmetric]
        UpdateJobPaymentStatus_def set_status_def mark_payment_def sample_db_def good_conn_def)
qed

lemma sample_reach: "(escrow_step em)\<^sup>*\<^sup>* (empty_payments [], []) (sample_db, [])" if "em = sample_em"
  using escrow_step.create [OF sample_create] that by (simp add: r_into_rtranclp)

lemma sample_SettleEscrow:
  assumes "a \<noteq> NaN"
  shows "\<exists>req. SettleEscrow sample_em good_conn cu settle_net 2000 1 a sample_db =
     (if fault cu = ExecFails then (Err (UpdateStatusFailed DriverError), sample_db, [SettleCall req True])
      else (Ok (), sample_db\<lparr>job_payments := set_status p_id mark_payment 1 ''settled'' 2000 (job_payments sample_db)\<rparr>,
            [SettleCall req True]))"
proof -
  let ?p = "hd (job_payments sample_db)"
  have r: "settle_read good_conn 1 sample_db = Inr ?p" and j: "JobExecutionID ?p = None"
    by (simp_all add: settle_read_def GetJobPayment_def good_conn_def sample_db_def row_at_def escrow_row_def)
  have "settlementAmount ?p a \<noteq> NaN"
    using assms by (simp add: settlementAmount_def sample_db_def escrow_row_def sample_sig_def)
  then obtain req where req: "convertToX402Request sample_em (stored_signature ?p (settlementAmount ?p a)) (settlementAmount ?p a) 0 = Inr req"
    using sample_convert by blast
  obtain resp where resp: "SettlePayment plain_client settle_net req = (Inr resp, 1)" "Transaction resp \<noteq> []"
    using sample_settle by blast
  have "x402Client sample_em = plain_client" by (simp add: sample_em_def)
  with r j req resp show ?thesis
    by (simp add: SettleEscrow_def settle_send_def UpdateJobPaymentStatus_def)
qed

text \<open>What a created escrow stands for.\<close>

lemma CreateEscrow_created:
  assumes "CreateEscrow em ci cu net now j sg req db = (Inr i, db')" and "wf_payments db" and "req \<noteq> NaN"
  shows "\<exists>sig row. sg = Some sig \<and> flt (Fin 0) (Amount sig) \<and> fle req (Amount sig)
     \<and> (\<exists>vr resp n. convertToX402Request em sig req j = Inr vr
          \<and> VerifyPayment (x402Client em) net vr = (Inr resp, n) \<and> (IsValid resp \<or> Valid resp))
     \<and> Nonce sig \<notin> PaymentNonce ` set (job_payments db)
     \<and> row_at p_id i (job_payments db) = None \<and> row_at p_id i (job_payments db') = Some row
     \<and> PaymentNonce row = Nonce sig \<and> PaymentAmount row = Amount sig \<and> p_Status row = ''verified''
     \<and> length (job_payments db') = length (job_payments db) + 1"
  using assms(1)
proof (cases rule: CreateEscrow_cases)
  case (created sig i' db1)
  then have i: "i' = i" by simp
  from created(3) obtain row where row: "db1 = db\<lparr>job_payments := job_payments db @ [row], payment_seq := payment_seq db + 1\<rparr>"
    "i = payment_seq db + 1" "p_id row = i" "PaymentNonce row = Nonce sig" "p_Status row = ''verified''"
    "PaymentAmount row = Amount sig" "payment_violation (fk_on ci) db (escrow_row em j sig) = None"
    unfolding i by (auto elim!: CreateJobPayment_cases simp: escrow_row_def)
  then have nn: "Amount sig \<noteq> NaN" "Nonce sig \<notin> PaymentNonce ` set (job_payments db)"
    by (auto simp: payment_violation_def escrow_row_def split: if_splits)
  have fresh: "i \<notin> p_id ` set (job_payments db)" using assms(2) row(2) by (force simp: wf_payments_def)
  then have at: "row_at p_id i (job_payments db1) = Some row" using row by (auto intro: row_at_append_new)
  have "\<exists>row'. row_at p_id i (job_payments db') = Some row' \<and> PaymentNonce row' = PaymentNonce row
      \<and> PaymentAmount row' = PaymentAmount row \<and> p_Status row' = ''verified''
      \<and> length (job_payments db') = length (job_payments db1)"
    using at row(5) created(4) pay.row_at_set_same [of i "''verified''" now "job_payments db1"]
    by (auto simp: UpdateJobPaymentStatus_def i set_status_def)
  then obtain row' where "row_at p_id i (job_payments db') = Some row'" "PaymentNonce row' = Nonce sig"
    "PaymentAmount row' = Amount sig" "p_Status row' = ''verified''"
    "length (job_payments db') = length (job_payments db) + 1"
    using row by auto
  moreover have "flt (Fin 0) (Amount sig)" "fle req (Amount sig)"
    using created(5,6) nn(1) assms(3) not_flt_fle [of "Amount sig" req] not_flt_fle [of "Fin 0" "Amount sig"] by auto
  ultimately show ?thesis using created(1,7) nn(2) fresh by (auto simp: row_at_None_iff)
qed auto

section \<open>Properties\<close>

text \<open>
  C1.  Money moves at most once per payment: in every history of escrow operations starting from an
  empty table, whatever the facilitator answers, each payment has at most one settlement or refund
  the facilitator confirmed, and once there is one its status says so.
\<close>

theorem escrow_moves_money_once:
  assumes "(escrow_step em)\<^sup>*\<^sup>* (empty_payments jobs, []) (db, tr)"
  shows "moves i tr \<le> 1 \<and> (moves i tr = 1 \<longrightarrow> status_of db i \<in> {Some ''settled'', Some ''refunded''})"
proof -
  have "moves i tr = 0 \<or> moves i tr = 1 \<and> status_of db i \<in> {Some ''settled'', Some ''refunded''}"
    using escrow_inv_reachable [OF assms] unfolding escrow_inv_def by blast
  then show ?thesis by auto
qed

theorem escrow_moves_money_once_witness:
  "\<exists>db req. (escrow_step sample_em)\<^sup>*\<^sup>* (empty_payments [], []) (db, [(1, SettleCall req True)])
     \<and> moves 1 [(1, SettleCall req True)] = 1 \<and> status_of db 1 \<in> {Some ''settled'', Some ''refunded''}"
proof -
  obtain req db where "SettleEscrow sample_em good_conn good_conn settle_net 2000 1 (Fin 5) sample_db
      = (Ok (), db, [SettleCall req True])"
    using sample_SettleEscrow [of "Fin 5" good_conn] by (auto simp: good_conn_def)
  from escrow_step.settle [OF this, of "[]"]
  have run: "(escrow_step sample_em)\<^sup>*\<^sup>* (empty_payments [], []) (db, [(1, SettleCall req True)])"
    using sample_reach [OF refl] by (auto simp: good_conn_def intro: rtranclp.rtrancl_into_rtrancl)
  moreover have "moves 1 [(1, SettleCall req True)] = 1" by (simp add: moves_def)
  ultimately show ?thesis using escrow_moves_money_once [OF run, of 1] by blast
qed

text \<open>
    The same history never makes \<open>SettleEscrow\<close> panic: a payment created through the escrow
  always has the tracking id the last log line dereferences.
\<close>

theorem settle_never_panics:
  assumes "(escrow_step em)\<^sup>*\<^sup>* (empty_payments jobs, []) (db, tr)"
  shows "fst (SettleEscrow em cg cu net now i a db) \<noteq> Panic"
proof
  assume p: "fst (SettleEscrow em cg cu net now i a db) = Panic"
  obtain r db' calls where run: "SettleEscrow em cg cu net now i a db = (r, db', calls)"
    by (cases "SettleEscrow em cg cu net now i a db")
  then show False
  proof (cases rule: SettleEscrow_cases)
    case (settled q)
    then have "p_TransactionID q = None" "q \<in> set (job_payments db)"
      using p run row_at_SomeD [of p_id i "job_payments db" q] by auto
    then show False using escrow_inv_reachable [OF assms] by (force simp: escrow_inv_def all_tracked_def)
  qed (use p run in auto)
qed

theorem settle_never_panics_witness:
  "fst (SettleEscrow sample_em good_conn good_conn settle_net 2000 1 (Fin 5) sample_db) \<noteq> Panic"
  by (rule settle_never_panics [OF sample_reach [OF refl]])



text \<open>
  C3.  A settlement never takes more than was paid and never pays anybody else: every settlement
  request sent for a stored payment asks for an amount between nothing and the paid one, in the
  payment's currency, to the payment's recipient.
\<close>

theorem settle_request_bounded:
  assumes "SettleEscrow em cg cu net now i a db = (r, db', calls)" and "SettleCall req b \<in> set calls"
    and "row_at p_id i (job_payments db) = Some p" and "flt (Fin 0) (PaymentAmount p)"
  shows "\<exists>amt. flt (Fin 0) amt \<and> fle amt (PaymentAmount p)
     \<and> rAmount (PaymentRequirements req) = convertToWei (lib em) amt (PaymentCurrency p)
     \<and> PayTo (PaymentRequirements req) = PaymentRecipient p
     \<and> (amt = a \<or> amt = PaymentAmount p)"
proof -
  obtain q where q: "settle_read cg i db = Inr q" "settle_send em cu net now i q a db = (r, db', calls)"
    using assms(1,2) by (auto simp: SettleEscrow_def split: sum.splits)
  then have qp: "q = p" using settle_read_Inr [OF q(1)] assms(3) by simp
  let ?amt = "settlementAmount p a"
  obtain j where "convertToX402Request em (stored_signature p ?amt) ?amt j = Inr req"
    using q(2) assms(2) unfolding qp settle_send_def Let_def
    by (auto split: sum.splits prod.splits option.splits)
  from convertToX402Request_Inr [OF this]
  have "rAmount (PaymentRequirements req) = convertToWei (lib em) ?amt (PaymentCurrency p)
     \<and> PayTo (PaymentRequirements req) = PaymentRecipient p" by (simp add: stored_signature_def)
  moreover have "PaymentAmount p \<noteq> NaN" using assms(4) by auto
  ultimately show ?thesis
    using settlementAmount_le [of p a] settlementAmount_pos [OF assms(4), of a]
    by (intro exI [of _ ?amt]) (auto simp: settlementAmount_def)
qed

theorem settle_request_bounded_witness:
  "\<exists>req amt. SettleCall req True \<in> set (snd (snd (SettleEscrow sample_em good_conn good_conn settle_net 2000 1 (Fin 3) sample_db)))
     \<and> rAmount (PaymentRequirements req) = convertToWei decimal_lib amt ''USDC'' \<and> fle amt (Fin 5)"
proof -
  let ?p = "hd (job_payments sample_db)"
  obtain req db where run: "SettleEscrow sample_em good_conn good_conn settle_net 2000 1 (Fin 3) sample_db
      = (Ok (), db, [SettleCall req True])"
    using sample_SettleEscrow [of "Fin 3" good_conn] by (auto simp: good_conn_def)
  have p: "row_at p_id 1 (job_payments sample_db) = Some ?p" "PaymentAmount ?p = Fin 5" "PaymentCurrency ?p = ''USDC''"
    "lib sample_em = decimal_lib"
    by (simp_all add: sample_db_def row_at_def escrow_row_def sample_sig_def sample_em_def)
  show ?thesis using settle_request_bounded [OF run _ p(1), of req True] run p by auto
qed

lemma typed_data_value:
  assumes "GetEIP712TypedData k sig chain n v contract = Ok td"
  shows "big_int_text (fmul (Amount sig) (Fin (if Currency sig \<in> {''USDC'', ''USDT''} then 10 ^ 6
           else if Currency sig = ''ETH'' then 10 ^ 18 else 10 ^ 6))) = Some (msg_value td)"
  using assms by (auto simp: GetEIP712TypedData_def Let_def split: option.splits)

lemma signed_value_agrees:
  assumes "GetEIP712TypedData k sig chain n v contract = Ok td"
    and "Currency sig \<in> {''USDC'', ''USDT'', ''ETH''}" and "0 \<le> x" and "x < 2 ^ 64"
    and "fmul (Amount sig) (Fin (wei_multiplier (Currency sig))) = Fin x"
  shows "convertToWei l (Amount sig) (Currency sig) = msg_value td"
proof -
  have "wei_multiplier (Currency sig) = (if Currency sig \<in> {''USDC'', ''USDT''} then 10 ^ 6
           else if Currency sig = ''ETH'' then 10 ^ 18 else 10 ^ 6)"
    using assms(2) by (auto simp: wei_multiplier_def)
  then have "msg_value td = itoa \<lfloor>x\<rfloor>"
    using typed_data_value [OF assms(1)] assms(3,5) by (simp add: big_int_text_def trunc_rat_def)
  then show ?thesis using assms by (simp add: convertToWei_def go_uint64_Fin)
qed

lemma signed_value_differs:
  assumes "GetEIP712TypedData k sig chain n v contract = Ok td"
    and c: "Currency sig \<notin> {''USDC'', ''USDT'', ''ETH'', ''SOL''}" and one: "Amount sig = Fin 1"
  shows "msg_value td = itoa (10 ^ 6) \<and> convertToWei l (Amount sig) (Currency sig) = itoa (10 ^ 18)"
proof -
  have "fmul (Fin 1) (Fin (of_nat (10 ^ 6))) = Fin (of_nat (10 ^ 6))" by (rule fmul_Fin_small) simp_all
  then have "msg_value td = itoa (10 ^ 6)"
    using typed_data_value [OF assms(1)] c one by (simp add: big_int_text_def trunc_rat_def)
  moreover have "round64 (10 ^ 18) = Fin (of_int 7812500000000000 * pow2 (59 - 52))"
    by (rule round64_at) (auto simp: pow2_def intro!: round_half_even_eq)
  then have "fmul (Fin 1) (Fin (10 ^ 18)) = Fin (10 ^ 18)" by (simp add: pow2_def)
  then have "convertToWei l (Amount sig) (Currency sig) = itoa (10 ^ 18)"
    using c one by (simp add: convertToWei_def wei_multiplier_def go_uint64_def)
  ultimately show ?thesis by blast
qed

text \<open>
  C4.  What the facilitator is asked to verify is what the payer signed: for the currencies both
  sides know the decimals of (USDC, USDT, ETH), the authorisation in the request and the EIP-712
  message carry the same value, parties, validity window and nonce, as long as the amount in
  smallest units fits 64 bits.  For any other currency the two sides scale differently: one whole
  token is signed as \<open>10 ^ 6\<close> units and submitted as \<open>10 ^ 18\<close>.
\<close>

theorem request_matches_signature:
  assumes "convertToX402Request em sig amt j = Inr req" and "\<not> HasPrefix (Network sig) ''solana:''"
    and "GetEIP712TypedData (keccak_hex em) sig chain n v contract = Ok td"
  shows "\<exists>auth. Payload req = EVMPayload (Signature sig) auth
     \<and> From auth = msg_from td \<and> To auth = msg_to td \<and> aNonce auth = msg_nonce td
     \<and> ValidAfter auth = msg_validAfter td \<and> ValidBefore auth = msg_validBefore td
     \<and> (\<forall>x. Currency sig \<in> {''USDC'', ''USDT'', ''ETH''} \<and> 0 \<le> x \<and> x < 2 ^ 64
            \<and> fmul (Amount sig) (Fin (wei_multiplier (Currency sig))) = Fin x \<longrightarrow> Value auth = msg_value td)
     \<and> (Currency sig \<notin> {''USDC'', ''USDT'', ''ETH'', ''SOL''} \<and> Amount sig = Fin 1 \<longrightarrow>
          msg_value td = itoa (10 ^ 6) \<and> Value auth = itoa (10 ^ 18))"
  using convertToX402Request_Inr [OF assms(1)] assms(2) GetEIP712TypedData_Ok [OF assms(3)]
    signed_value_agrees [OF assms(3)] signed_value_differs [OF assms(3)] by auto

theorem request_matches_signature_witness:
  "\<exists>req td auth. convertToX402Request sample_em sample_sig (Fin 5) 0 = Inr req
     \<and> GetEIP712TypedData (keccak_hex sample_em) sample_sig 8453 ''USDC'' ''2'' ''0x'' = Ok td
     \<and> Payload req = EVMPayload ''0x00'' auth \<and> Value auth = msg_value td"
proof -
  have "\<exists>req. convertToX402Request sample_em sample_sig (Fin 5) 0 = Inr req"
    by (simp add: convertToX402Request_def Let_def sample_sig_def
      GetChainIDFromNetwork_def parse_int_def parse_nat_def digit_val_def GetTokenContractAddressFromConfig_def
      GetTokenContractAddress_def GetTokenEIP712ParametersFromConfig_def GetTokenEIP712Parameters_def
      manager_GetConfigString_def solana_ids json_string_def)
  then obtain req where req: "convertToX402Request sample_em sample_sig (Fin 5) 0 = Inr req" by blast
  have f: "fmul (Fin 5) (Fin 1000000) = Fin 5000000" using fmul_Fin_small [of 5 1000000 5000000] by simp
  obtain td where td: "GetEIP712TypedData (keccak_hex sample_em) sample_sig 8453 ''USDC'' ''2'' ''0x'' = Ok td"
    using f by (simp add: GetEIP712TypedData_def sample_sig_def big_int_text_def)
  have "\<not> HasPrefix (Network sample_sig) ''solana:''" by (simp add: sample_sig_def)
  from request_matches_signature [OF req this td] obtain auth where
    pl: "Payload req = EVMPayload (Signature sample_sig) auth" and
    all: "\<forall>x. Currency sample_sig \<in> {''USDC'', ''USDT'', ''ETH''} \<and> 0 \<le> x \<and> x < 2 ^ 64
       \<and> fmul (Amount sample_sig) (Fin (wei_multiplier (Currency sample_sig))) = Fin x \<longrightarrow> Value auth = msg_value td"
    by blast
  have "Currency sample_sig = ''USDC''" "Amount sample_sig = Fin 5" "Signature sample_sig = ''0x00''"
    "wei_multiplier ''USDC'' = 1000000"
    by (simp_all add: sample_sig_def wei_multiplier_def)
  with all [rule_format, of 5000000] f have "Value auth = msg_value td" by simp
  with pl req td \<open>Signature sample_sig = ''0x00''\<close> show ?thesis by auto
qed

text \<open>
    Amounts are exact for whole tokens: any whole number of tokens whose count of smallest units
  stays below \<open>2 ^ 53\<close> is converted exactly.  Fractions are truncated after a binary multiplication,
  so 1.001 USDC, which is 1001000 units, is submitted as 1000999.
\<close>

theorem convertToWei_exact_and_truncated:
  "(of_nat n * wei_multiplier c = of_nat k \<and> k < 2 ^ 53 \<longrightarrow> convertToWei l (Fin (of_nat n)) c = itoa (int k))
   \<and> convertToWei l (round64 (1001 / 1000)) ''USDC'' = itoa 1000999"
proof -
  have "\<lfloor>8598524526591999 / 8589934592 :: rat\<rfloor> = 1000999" by (rule floor_unique) simp_all
  then have "convertToWei l (round64 (1001 / 1000)) ''USDC'' = itoa 1000999"
    using milli_product by (simp add: convertToWei_def wei_multiplier_def go_uint64_def)
  then show ?thesis using convertToWei_whole by blast
qed

theorem convertToWei_exact_and_truncated_witness:
  "convertToWei decimal_lib (Fin 5) ''USDC'' = itoa 5000000"
  using convertToWei_exact_and_truncated [of 5 "''USDC''" 5000000 decimal_lib] by (simp add: wei_multiplier_def)

text \<open>
    A larger payment is never converted to a smaller number of units, in any currency, as long
  as the results fit 64 bits.
\<close>

theorem convertToWei_mono:
  assumes "0 \<le> a" and "a \<le> b" and "flt (fmul (Fin b) (Fin (wei_multiplier c))) (Fin (2 ^ 64))"
  shows "\<exists>x y. convertToWei l (Fin a) c = itoa x \<and> convertToWei l (Fin b) c = itoa y \<and> 0 \<le> x \<and> x \<le> y \<and> y < 2 ^ 64"
proof -
  let ?f = "\<lambda>r. fmul (Fin r) (Fin (wei_multiplier c))"
  have m: "0 \<le> wei_multiplier c" using wei_multiplier_nat [of c] by auto
  have ab: "fle (?f a) (?f b)" using assms(1,2) m by (rule fmul_mono)
  have z: "?f 0 = Fin 0" using fmul_Fin_small [of 0 "wei_multiplier c" 0] by simp
  have "fle (?f 0) (?f a)" using fmul_mono [of 0 a "wei_multiplier c"] assms(1) m by blast
  then have a0: "fle (Fin 0) (?f a)" by (simp only: z)
  have b0: "fle (Fin 0) (?f b)" using fmul_mono [of 0 b "wei_multiplier c"] assms(1,2) m z by simp
  have "go_uint64 oor (?f a) \<le> go_uint64 oor (?f b)" for oor
    using ab a0 assms(3) by (rule go_uint64_mono)
  moreover have "flt (Fin (- 1)) (?f a)" using a0 by (rule fle_zero_flt)
  moreover have "flt (Fin (- 1)) (?f b)" using b0 by (rule fle_zero_flt)
  moreover have "flt (?f a) (Fin (2 ^ 64))" using ab assms(3) by (cases "?f a"; cases "?f b") (auto simp: fle_def)
  ultimately show ?thesis
    using go_uint64_bound [of "?f a" "oor_uint64 l"] go_uint64_bound [of "?f b" "oor_uint64 l"] assms(3)
    unfolding convertToWei_def by blast
qed

theorem convertToWei_mono_witness:
  "\<exists>x y. convertToWei decimal_lib (Fin 3) ''USDC'' = itoa x \<and> convertToWei decimal_lib (Fin 5) ''USDC'' = itoa y \<and> x \<le> y"
proof -
  have "fmul (Fin 5) (Fin (wei_multiplier ''USDC'')) = Fin 5000000"
    using fmul_Fin_small [of 5 1000000 5000000] by (simp add: wei_multiplier_def)
  then show ?thesis using convertToWei_mono [of 3 5 "''USDC''" decimal_lib] by auto
qed

text \<open>
  C8.  The payment of an escrow is not protected against what the previous history property leaves
  out.  If the status update after a confirmed settlement fails, the payment stays \<open>verified\<close> and a
  second \<open>SettleEscrow\<close> is confirmed again; and two concurrent settlements whose checks both run
  before either of them writes are both confirmed.
\<close>

theorem settle_twice_possible:
  "(\<exists>bad req req' db'. SettleEscrow sample_em good_conn bad settle_net 2000 1 (Fin 5) sample_db
        = (Err (UpdateStatusFailed DriverError), sample_db, [SettleCall req True])
      \<and> SettleEscrow sample_em good_conn good_conn settle_net 2000 1 (Fin 5) sample_db = (Ok (), db', [SettleCall req' True]))
   \<and> (\<exists>p db1 db2 req req'. settle_read good_conn 1 sample_db = Inr p
      \<and> settle_send sample_em good_conn settle_net 2000 1 p (Fin 5) sample_db = (Ok (), db1, [SettleCall req True])
      \<and> settle_send sample_em good_conn settle_net 2001 1 p (Fin 5) db1 = (Ok (), db2, [SettleCall req' True]))"
proof -
  let ?bad = "\<lparr>fault = ExecFails, fk_on = True\<rparr>"
  have cl: "x402Client sample_em = plain_client" by (simp add: sample_em_def)
  have fst_part: "\<exists>bad req req' db'. SettleEscrow sample_em good_conn bad settle_net 2000 1 (Fin 5) sample_db
        = (Err (UpdateStatusFailed DriverError), sample_db, [SettleCall req True])
      \<and> SettleEscrow sample_em good_conn good_conn settle_net 2000 1 (Fin 5) sample_db = (Ok (), db', [SettleCall req' True])"
    using sample_SettleEscrow [of "Fin 5" ?bad] sample_SettleEscrow [of "Fin 5" good_conn]
    by (intro exI [of _ ?bad]) (auto simp: good_conn_def)
  let ?p = "hd (job_payments sample_db)"
  have r: "settle_read good_conn 1 sample_db = Inr ?p" and j: "JobExecutionID ?p = None" "settlementAmount ?p (Fin 5) = Fin 5"
    by (simp_all add: settle_read_def GetJobPayment_def good_conn_def sample_db_def row_at_def escrow_row_def
        settlementAmount_def sample_sig_def)
  obtain req where req: "convertToX402Request sample_em (stored_signature ?p (Fin 5)) (Fin 5) 0 = Inr req"
    using sample_convert [of "Fin 5"] by blast
  obtain resp where resp: "SettlePayment plain_client settle_net req = (Inr resp, 1)" "Transaction resp \<noteq> []"
    using sample_settle by blast
  have "\<exists>db'. settle_send sample_em good_conn settle_net now 1 ?p (Fin 5) db = (Ok (), db', [SettleCall req True])" for now db
    using j req resp cl by (simp add: settle_send_def UpdateJobPaymentStatus_def good_conn_def)
  then show ?thesis using fst_part r by blast
qed

end
