(* ===== verification/One_Shot_Crypto.thy ===== *)
theory One_Shot_Crypto
  imports Chat_Crypto
begin

text \<open>
  One-shot encryption to a peer's identity key (\<open>internal/crypto/invoice_crypto.go\<close> and
  \<open>data_crypto.go\<close>): an ephemeral key pair, X25519 with the recipient's converted identity key, HKDF
  with a label of its own, and an Ed25519 signature of the sender.  Invoices seal their payload under the
  key; data transfers only agree on it and sign the time.  Clearing keys in memory has no counterpart.
\<close>

section \<open>The shared steps\<close>

datatype one_shot_error =
  EphemeralRandFailed | RecipientKeyInvalid key_error | OneShotDHFailed | OneShotDeriveFailed | OneShotNonceFailed
| SignatureInvalid | OurKeyInvalid key_error | OneShotOpenFailed | TimestampOutsideWindow

definition deriveInvoiceKey :: "prims \<Rightarrow> bytes \<Rightarrow> bytes option" where
  "deriveInvoiceKey P sharedSecret = hkdf P sharedSecret [] ''RemoteNetworkInvoiceKey'' 32"

definition deriveDataTransferKey :: "prims \<Rightarrow> bytes \<Rightarrow> bytes option" where
  "deriveDataTransferKey P sharedSecret = hkdf P sharedSecret [] ''RemoteNetworkDataTransferKey'' 32"

text \<open>The sender's first four steps, and the receiver's after the signature, are the same text in both files.\<close>

definition ephemeral_key ::
  "prims \<Rightarrow> (bytes \<Rightarrow> bytes option) \<Rightarrow> bytes option \<Rightarrow> bytes \<Rightarrow> one_shot_error + (bytes \<times> bytes)" where
  "ephemeral_key P derive rnd recipientEd25519PubKey =
     (case rnd of
        None \<Rightarrow> Inl EphemeralRandFailed
      | Some r \<Rightarrow>
          let ephemeralPrivKey = clamp (copy_arr 32 r);
              ephemeralPubKey = base_mult P ephemeralPrivKey
          in case ed25519PublicKeyToCurve25519 recipientEd25519PubKey of
               Inl e \<Rightarrow> Inl (RecipientKeyInvalid e)
             | Inr recipientX25519PubKey \<Rightarrow>
                 (case x25519 P ephemeralPrivKey recipientX25519PubKey of
                    None \<Rightarrow> Inl OneShotDHFailed
                  | Some sharedSecret \<Rightarrow>
                      (case derive sharedSecret of
                         None \<Rightarrow> Inl OneShotDeriveFailed
                       | Some key \<Rightarrow> Inr (ephemeralPubKey, key))))"

definition static_key ::
  "prims \<Rightarrow> (bytes \<Rightarrow> bytes option) \<Rightarrow> bytes \<Rightarrow> bytes \<Rightarrow> one_shot_error + bytes" where
  "static_key P derive privateKey senderEphemeralPubKey =
     (case ed25519PrivateKeyToCurve25519 P privateKey of
        Inl e \<Rightarrow> Inl (OurKeyInvalid e)
      | Inr ourX25519PrivKey \<Rightarrow>
          (case x25519 P ourX25519PrivKey senderEphemeralPubKey of
             None \<Rightarrow> Inl OneShotDHFailed
           | Some sharedSecret \<Rightarrow>
               (case derive sharedSecret of None \<Rightarrow> Inl OneShotDeriveFailed | Some key \<Rightarrow> Inr key)))"

section \<open>Invoices\<close>

record envelope =
  env_ciphertext :: bytes
  env_nonce :: bytes
  env_ephemeral :: bytes
  env_signature :: bytes

definition invoice_payload :: "envelope \<Rightarrow> bytes" where
  "invoice_payload e = env_ephemeral e @ env_ciphertext e @ env_nonce e"

definition EncryptInvoice ::
  "prims \<Rightarrow> bytes option \<Rightarrow> bytes option \<Rightarrow> bytes \<Rightarrow> bytes \<Rightarrow> bytes \<Rightarrow> one_shot_error + envelope" where
  "EncryptInvoice P rnd nrnd privateKey plaintext recipientEd25519PubKey =
     (case ephemeral_key P (deriveInvoiceKey P) rnd recipientEd25519PubKey of
        Inl e \<Rightarrow> Inl e
      | Inr (ephemeralPubKey, encryptionKey) \<Rightarrow>
          (case nrnd of
             None \<Rightarrow> Inl OneShotNonceFailed
           | Some nonce \<Rightarrow>
               let ciphertext = box_seal P plaintext nonce encryptionKey
               in Inr \<lparr>env_ciphertext = ciphertext, env_nonce = nonce, env_ephemeral = ephemeralPubKey,
                       env_signature = ed_sign P privateKey (ephemeralPubKey @ ciphertext @ nonce)\<rparr>))"

definition DecryptInvoice :: "prims \<Rightarrow> bytes \<Rightarrow> envelope \<Rightarrow> bytes \<Rightarrow> (one_shot_error, bytes) go_result" where
  "DecryptInvoice P privateKey e senderEd25519PubKey =
     (if length senderEd25519PubKey \<noteq> 32 then Panic
      else if \<not> ed_verify P senderEd25519PubKey (invoice_payload e) (env_signature e) then Err SignatureInvalid
      else case static_key P (deriveInvoiceKey P) privateKey (env_ephemeral e) of
             Inl err \<Rightarrow> Err err
           | Inr decryptionKey \<Rightarrow>
               (case box_open P (env_ciphertext e) (env_nonce e) decryptionKey of
                  None \<Rightarrow> Err OneShotOpenFailed
                | Some plaintext \<Rightarrow> Ok plaintext))"

section \<open>Data transfers\<close>

text \<open>Eight bytes, the most significant first; the shift is arithmetic and the conversion keeps the low byte.\<close>

definition int64ToBytes :: "int \<Rightarrow> bytes" where
  "int64ToBytes n = map (\<lambda>k. word_of_int (n div 2 ^ (56 - 8 * k))) [0 ..< 8]"

record key_offer =
  off_ephemeral :: bytes
  off_signature :: bytes
  off_timestamp :: int

definition GenerateKeyExchange ::
  "prims \<Rightarrow> bytes option \<Rightarrow> int \<Rightarrow> bytes \<Rightarrow> bytes \<Rightarrow> one_shot_error + (key_offer \<times> bytes)" where
  "GenerateKeyExchange P rnd now privateKey recipientEd25519PubKey =
     (case ephemeral_key P (deriveDataTransferKey P) rnd recipientEd25519PubKey of
        Inl e \<Rightarrow> Inl e
      | Inr (ephemeralPubKey, derivedKey) \<Rightarrow>
          Inr (\<lparr>off_ephemeral = ephemeralPubKey,
                off_signature = ed_sign P privateKey (ephemeralPubKey @ int64ToBytes now), off_timestamp = now\<rparr>, derivedKey))"

definition DeriveDecryptionKey :: "prims \<Rightarrow> int \<Rightarrow> bytes \<Rightarrow> key_offer \<Rightarrow> bytes \<Rightarrow> (one_shot_error, bytes) go_result" where
  "DeriveDecryptionKey P now privateKey off senderEd25519PubKey =
     (if now - off_timestamp off > 300 \<or> off_timestamp off > now + 60 then Err TimestampOutsideWindow
      else if length senderEd25519PubKey \<noteq> 32 then Panic
      else if \<not> ed_verify P senderEd25519PubKey (off_ephemeral off @ int64ToBytes (off_timestamp off)) (off_signature off)
           then Err SignatureInvalid
      else case static_key P (deriveDataTransferKey P) privateKey (off_ephemeral off) of
             Inl err \<Rightarrow> Err err
           | Inr derivedKey \<Rightarrow> Ok derivedKey)"

section \<open>The contract of a one-shot exchange\<close>

text \<open>
  A sender with an identity key packs an input for a recipient and keeps an output (the payload, or the
  key agreed on); the recipient unpacks the same output, and unpacks nothing whose signature does not
  verify under the key of the sender.
\<close>

locale one_shot =
  fixes pack :: "bytes \<Rightarrow> bytes \<Rightarrow> 'i \<Rightarrow> ('e \<times> 'o) option"
    and unpack :: "bytes \<Rightarrow> bytes \<Rightarrow> 'e \<Rightarrow> 'o option"
    and ident :: "bytes \<Rightarrow> bytes \<Rightarrow> bool"
    and admissible :: "'i \<Rightarrow> bool"
    and authentic :: "bytes \<Rightarrow> 'e \<Rightarrow> bool"
  assumes agree: "ident skA pkA \<Longrightarrow> ident skB pkB \<Longrightarrow> admissible i \<Longrightarrow>
      \<exists>e out. pack skA pkB i = Some (e, out) \<and> unpack skB pkA e = Some out"
    and verified: "unpack skB pkA e = Some out \<Longrightarrow> authentic pkA e"
begin

lemma packed_unpacks:
  "ident skA pkA \<Longrightarrow> ident skB pkB \<Longrightarrow> admissible i \<Longrightarrow> pack skA pkB i = Some (e, out) \<Longrightarrow> unpack skB pkA e = Some out"
  using agree [of skA pkA skB pkB i] by auto

lemma forged_refused: "\<not> authentic pkA e \<Longrightarrow> unpack skB pkA e = None"
  using verified [of skB pkA e] by (cases "unpack skB pkA e") auto

end

lemma keys_agree:
  assumes "dh_commutes P" and "dh_total P" and "identity P skB pkB" and "\<And>s. derive s \<noteq> None"
  shows "\<exists>eph key. ephemeral_key P derive (Some r) pkB = Inr (eph, key) \<and> static_key P derive skB eph = Inr key"
proof -
  obtain x where x: "ed25519PrivateKeyToCurve25519 P skB = Inr x" "ed25519PublicKeyToCurve25519 pkB = Inr (base_mult P x)"
    using assms(3) by (auto simp: identity_def)
  let ?e = "clamp (copy_arr 32 r)"
  obtain d where d: "x25519 P ?e (base_mult P x) = Some d" "x25519 P x (base_mult P ?e) = Some d"
    by (rule dh_agree [OF assms(1,2)])
  obtain key where "derive d = Some key" using assms(4) [of d] by auto
  with x d show ?thesis by (simp add: ephemeral_key_def static_key_def Let_def)
qed

lemma hkdf_32: "hkdf_total P \<Longrightarrow> \<exists>k. hkdf P s salt info 32 = Some k"
  using hkdf_total_def [THEN iffD1, rule_format, of P 32 s salt info] by auto

lemma derive_total:
  "hkdf_total P \<Longrightarrow> deriveInvoiceKey P s \<noteq> None" "hkdf_total P \<Longrightarrow> deriveDataTransferKey P s \<noteq> None"
  by (metis deriveInvoiceKey_def hkdf_32 option.distinct(1), metis deriveDataTransferKey_def hkdf_32 option.distinct(1))

text \<open>The laws the primitives must satisfy are part of the identity, so that the contract holds for every primitives.\<close>

definition honest :: "prims \<Rightarrow> bytes \<Rightarrow> bytes \<Rightarrow> bool" where
  "honest P sk pk \<longleftrightarrow> box_correct P \<and> hkdf_total P \<and> dh_commutes P \<and> dh_total P \<and> identity P sk pk"

fun opt_ok :: "('e, 'a) go_result \<Rightarrow> 'a option" where
  "opt_ok (Ok a) = Some a"
| "opt_ok _ = None"

definition invoice_pack :: "prims \<Rightarrow> bytes \<Rightarrow> bytes \<Rightarrow> bytes \<times> bytes \<times> bytes \<Rightarrow> (envelope \<times> bytes) option" where
  "invoice_pack P sk pk = (\<lambda>(plaintext, r, n).
     case EncryptInvoice P (Some r) (Some n) sk plaintext pk of Inl _ \<Rightarrow> None | Inr e \<Rightarrow> Some (e, plaintext))"

definition data_pack :: "prims \<Rightarrow> bytes \<Rightarrow> bytes \<Rightarrow> bytes \<times> int \<times> int \<Rightarrow> ((key_offer \<times> int) \<times> bytes) option" where
  "data_pack P sk pk = (\<lambda>(r, now, arrival).
     case GenerateKeyExchange P (Some r) now sk pk of Inl _ \<Rightarrow> None | Inr (off, key) \<Rightarrow> Some ((off, arrival), key))"

interpretation invoices: one_shot "invoice_pack P" "\<lambda>sk pk e. opt_ok (DecryptInvoice P sk e pk)" "honest P" "\<lambda>_. True"
    "\<lambda>pk e. ed_verify P pk (invoice_payload e) (env_signature e)" for P
proof
  fix skA pkA skB pkB and i :: "bytes \<times> bytes \<times> bytes"
  assume h: "honest P skA pkA" "honest P skB pkB"
  obtain m r n where i: "i = (m, r, n)" by (cases i)
  obtain eph key where k: "ephemeral_key P (deriveInvoiceKey P) (Some r) pkB = Inr (eph, key)"
      "static_key P (deriveInvoiceKey P) skB eph = Inr key"
    using keys_agree [of P skB pkB "deriveInvoiceKey P" r] derive_total(1) h(2) by (auto simp: honest_def)
  have "length pkA = 32" using h(1) identity_size by (auto simp: honest_def)
  moreover have "ed_verify P pkA p (ed_sign P skA p)" for p using h(1) by (simp add: honest_def identity_def ed_correct_def)
  moreover have "box_open P (box_seal P m n key) n key = Some m" using h(1) by (simp add: honest_def box_correct_def)
  ultimately show "\<exists>e out. invoice_pack P skA pkB i = Some (e, out) \<and> opt_ok (DecryptInvoice P skB e pkA) = Some out"
    using k by (simp add: i invoice_pack_def EncryptInvoice_def DecryptInvoice_def invoice_payload_def Let_def)
next
  fix skB pkA e out
  assume "opt_ok (DecryptInvoice P skB e pkA) = Some out"
  then show "ed_verify P pkA (invoice_payload e) (env_signature e)" by (auto simp: DecryptInvoice_def split: if_splits)
qed

interpretation transfers: one_shot "data_pack P" "\<lambda>sk pk (off, t). opt_ok (DeriveDecryptionKey P t sk off pk)" "honest P"
    "\<lambda>(r, now, t). t - now \<le> 300 \<and> now \<le> t + 60"
    "\<lambda>pk (off, t). t - off_timestamp off \<le> 300 \<and> off_timestamp off \<le> t + 60
       \<and> ed_verify P pk (off_ephemeral off @ int64ToBytes (off_timestamp off)) (off_signature off)" for P
proof
  fix skA pkA skB pkB and i :: "bytes \<times> int \<times> int"
  assume h: "honest P skA pkA" "honest P skB pkB" and w: "case i of (r, now, t) \<Rightarrow> t - now \<le> 300 \<and> now \<le> t + 60"
  obtain r now t where i: "i = (r, now, t)" by (cases i)
  obtain eph key where k: "ephemeral_key P (deriveDataTransferKey P) (Some r) pkB = Inr (eph, key)"
      "static_key P (deriveDataTransferKey P) skB eph = Inr key"
    using keys_agree [of P skB pkB "deriveDataTransferKey P" r] derive_total(2) h(2) by (auto simp: honest_def)
  have "length pkA = 32" using h(1) identity_size by (auto simp: honest_def)
  moreover have "ed_verify P pkA p (ed_sign P skA p)" for p using h(1) by (simp add: honest_def identity_def ed_correct_def)
  ultimately show "\<exists>e out. data_pack P skA pkB i = Some (e, out) \<and>
      (case e of (off, t) \<Rightarrow> opt_ok (DeriveDecryptionKey P t skB off pkA)) = Some out"
    using k w by (simp add: i data_pack_def GenerateKeyExchange_def DeriveDecryptionKey_def)
next
  fix skB pkA and e :: "key_offer \<times> int" and out
  assume "(case e of (off, t) \<Rightarrow> opt_ok (DeriveDecryptionKey P t skB off pkA)) = Some out"
  then show "case e of (off, t) \<Rightarrow> t - off_timestamp off \<le> 300 \<and> off_timestamp off \<le> t + 60
       \<and> ed_verify P pkA (off_ephemeral off @ int64ToBytes (off_timestamp off)) (off_signature off)"
    by (auto simp: DeriveDecryptionKey_def split: if_splits prod.splits)
qed

section \<open>Agreement on transfer keys\<close>

lemma le_val_digits: "le_val (map (\<lambda>k. word_of_int (n div 256 ^ k)) [0 ..< m]) = n mod 256 ^ m"
proof (induction m)
  case (Suc m)
  have "n mod (256 ^ m * 256) = 256 ^ m * (n div 256 ^ m mod 256) + n mod 256 ^ m" by (rule zmod_zmult2_eq) simp
  with Suc show ?case by (simp add: le_val_append unsigned_of_int take_bit_eq_mod mult.commute)
qed simp

lemma int64ToBytes_val: "le_val (rev (int64ToBytes n)) = n mod 2 ^ 64"
proof -
  have "rev (int64ToBytes n) = map (\<lambda>k. word_of_int (n div 256 ^ k)) [0 ..< 8]"
    by (simp add: int64ToBytes_def upt_rec)
  then show ?thesis using le_val_digits [of n 8] by simp
qed

lemma int64ToBytes_inj:
  assumes "int64ToBytes a = int64ToBytes b" and "- (2 ^ 63) \<le> a" "a < 2 ^ 63" "- (2 ^ 63) \<le> b" "b < 2 ^ 63"
  shows "a = b"
proof -
  have "a mod 2 ^ 64 = b mod 2 ^ 64" using assms(1) int64ToBytes_val by metis
  then have "(a + 2 ^ 63) mod 2 ^ 64 = (b + 2 ^ 63) mod 2 ^ 64" by (rule mod_add_cong) simp
  moreover have "(a + 2 ^ 63) mod 2 ^ 64 = a + 2 ^ 63" "(b + 2 ^ 63) mod 2 ^ 64 = b + 2 ^ 63"
    using assms(2-) by (auto intro!: mod_pos_pos_trivial)
  ultimately show ?thesis by simp
qed


lemma toy_honest: "honest toy_prims toy_sk toy_pk"
  by (simp add: honest_def toy_box toy_hkdf toy_dh toy_dh_total toy_identity)


end
