(* ===== verification/Invoices.thy ===== *)
theory Invoices
  imports Escrow One_Shot_Crypto "HOL-Library.Monad_Syntax"
begin

text \<open>
  Peer-to-peer invoices: the receiving handlers (\<open>internal/p2p/invoice_handler.go\<close>), the manager
  (\<open>internal/payment/invoice_manager.go\<close>) and the sealed messages of \<open>invoice_message_handler.go\<close>.  A
  handler gets the parsed message (\<open>None\<close> when the JSON does not parse), the peer it came from and the
  clock; \<open>None\<close> as a result is a panic.  Wallet files, the keystore and the transport are arguments.
\<close>

section \<open>Messages and state\<close>

record InvoiceRequestData =
  ir_InvoiceID :: string
  ir_FromPeerID :: string
  ir_ToPeerID :: string
  ir_FromWalletAddress :: string
  ir_Amount :: float64
  ir_Currency :: string
  ir_Network :: string
  ir_Description :: string
  ir_ExpiresAt :: int
  ir_Metadata :: "json_object option"

record InvoiceResponseData =
  is_InvoiceID :: string
  is_Accepted :: bool
  is_Message :: string

record InvoiceNotifyData =
  nt_InvoiceID :: string
  nt_Status :: string
  nt_Message :: string

record EncryptedInvoiceData =
  ei_SenderPeerID :: string
  ei_EphemeralPubKey :: bytes
  ei_EncryptedPayload :: bytes
  ei_Nonce :: bytes
  ei_Signature :: bytes
  ei_Timestamp :: int

datatype invoice_msg =
  OutRequest InvoiceRequestData | OutResponse InvoiceResponseData | OutNotify InvoiceNotifyData

record invoice_node =
  node_peerID :: string
  node_invoices :: invoice_db
  node_payments :: payment_db
  node_sent :: "(string \<times> invoice_msg) list"

section \<open>Receiving\<close>

definition response :: "string \<Rightarrow> bool \<Rightarrow> string \<Rightarrow> InvoiceResponseData" where
  "response iid ok m = \<lparr>is_InvoiceID = iid, is_Accepted = ok, is_Message = m\<rparr>"

definition received_invoice :: "int \<Rightarrow> InvoiceRequestData \<Rightarrow> PaymentInvoice" where
  "received_invoice now d =
     \<lparr>i_id = 0, InvoiceID = ir_InvoiceID d, FromPeerID = ir_FromPeerID d, ToPeerID = ir_ToPeerID d, FromWalletID = [],
      FromWalletAddress = ir_FromWalletAddress d, ToWalletID = [], ToWalletAddress = [], i_Amount = ir_Amount d,
      i_Currency = ir_Currency d, i_Network = ir_Network d, i_Description = ir_Description d, i_Status = ''pending'',
      i_PaymentSignature = [], i_TransactionID = [], i_PaymentID = None, i_CreatedAt = now,
      ExpiresAt = (if ir_ExpiresAt d > 0 then Some (ir_ExpiresAt d) else None), AcceptedAt = None, RejectedAt = None,
      i_SettledAt = None, i_Metadata = map_option JObj (ir_Metadata d)\<rparr>"

definition HandleInvoiceRequest ::
  "conn \<Rightarrow> int \<Rightarrow> InvoiceRequestData option \<Rightarrow> string \<Rightarrow> invoice_node \<Rightarrow> (InvoiceResponseData \<times> invoice_node) option" where
  "HandleInvoiceRequest c now msg remotePeerID node = do {
     slice8 remotePeerID;
     (case msg of
        None \<Rightarrow> Some (response [] False ''Invalid invoice data'', node)
      | Some d \<Rightarrow>
          if ir_ToPeerID d \<noteq> node_peerID node then do {
            slice8 (ir_ToPeerID d); slice8 (node_peerID node);
            Some (response (ir_InvoiceID d) False ''Invoice not for this peer'', node)
          }
          else if ir_FromPeerID d \<noteq> remotePeerID then do {
            slice8 (ir_FromPeerID d);
            Some (response (ir_InvoiceID d) False ''Sender mismatch'', node)
          }
          else (case CreatePaymentInvoice c (received_invoice now d) (node_invoices node) of
                  (Some _, db) \<Rightarrow> Some (response (ir_InvoiceID d) False ''Failed to store invoice'', node\<lparr>node_invoices := db\<rparr>)
                | (None, db) \<Rightarrow> Some (response (ir_InvoiceID d) True ''Invoice received'', node\<lparr>node_invoices := db\<rparr>))) }"

definition HandleInvoiceResponse ::
  "conn \<Rightarrow> conn \<Rightarrow> int \<Rightarrow> InvoiceResponseData option \<Rightarrow> string \<Rightarrow> invoice_node \<Rightarrow> invoice_node option" where
  "HandleInvoiceResponse c1 c2 now msg remotePeerID node = do {
     slice8 remotePeerID;
     (case msg of
        None \<Rightarrow> Some node
      | Some d \<Rightarrow>
          (case GetPaymentInvoice c1 (is_InvoiceID d) (node_invoices node) of
             Inl _ \<Rightarrow> Some node
           | Inr invoice \<Rightarrow>
               if FromPeerID invoice \<noteq> node_peerID node then Some node
               else if ToPeerID invoice \<noteq> remotePeerID then do { slice8 (ToPeerID invoice); Some node }
               else if is_Accepted d then Some node
               else Some (node\<lparr>node_invoices := snd (UpdatePaymentInvoiceStatusWithReason c2 now (is_InvoiceID d) ''rejected''
                            (is_Message d) (node_invoices node))\<rparr>))) }"

definition HandleInvoiceNotify ::
  "conn \<Rightarrow> conn \<Rightarrow> int \<Rightarrow> InvoiceNotifyData option \<Rightarrow> string \<Rightarrow> invoice_node \<Rightarrow> invoice_node option" where
  "HandleInvoiceNotify c1 c2 now msg remotePeerID node = do {
     slice8 remotePeerID;
     (case msg of
        None \<Rightarrow> Some node
      | Some d \<Rightarrow>
          (case GetPaymentInvoice c1 (nt_InvoiceID d) (node_invoices node) of
             Inl _ \<Rightarrow> Some node
           | Inr invoice \<Rightarrow>
               if FromPeerID invoice \<noteq> remotePeerID \<and> ToPeerID invoice \<noteq> remotePeerID then Some node
               else Some (node\<lparr>node_invoices := snd (UpdatePaymentInvoiceStatus c2 now (nt_InvoiceID d) (nt_Status d)
                            (node_invoices node))\<rparr>))) }"

section \<open>Sealed messages\<close>

datatype open_failure =
  NoCrypto | BadEnvelope | TooOld | UnknownSender | EnvelopeSenderMismatch | BadParameters | OpenFailed | BadContent

text \<open>
  The steps the three handlers of sealed messages share.  \<open>sk\<close> is the node's private key (\<open>None\<close> when
  the crypto manager is not set), \<open>known_key\<close> the public key of a known peer (\<open>None\<close> or empty when there is
  none) and \<open>parse\<close> decodes the JSON of the content.  The request handler checks the sizes one after the
  other, which makes no difference to its answer.
\<close>

definition open_envelope ::
  "prims \<Rightarrow> bytes option \<Rightarrow> (string \<Rightarrow> bytes option) \<Rightarrow> (bytes \<Rightarrow> 'd option) \<Rightarrow> int \<Rightarrow> EncryptedInvoiceData option \<Rightarrow> string
     \<Rightarrow> (open_failure + 'd) option" where
  "open_envelope P sk known_key parse now msg remotePeerID = do {
     slice8 remotePeerID;
     (case sk of
        None \<Rightarrow> Some (Inl NoCrypto)
      | Some privateKey \<Rightarrow>
          (case msg of
             None \<Rightarrow> Some (Inl BadEnvelope)
           | Some e \<Rightarrow>
               if now - ei_Timestamp e > 300 then Some (Inl TooOld)
               else
                 (case known_key (ei_SenderPeerID e) of
                    None \<Rightarrow> do { slice8 (ei_SenderPeerID e); Some (Inl UnknownSender) }
                  | Some senderPubKey \<Rightarrow>
                      if senderPubKey = [] then do { slice8 (ei_SenderPeerID e); Some (Inl UnknownSender) }
                      else if ei_SenderPeerID e \<noteq> remotePeerID then do {
                        slice8 (ei_SenderPeerID e); Some (Inl EnvelopeSenderMismatch) }
                      else if length (ei_EphemeralPubKey e) \<noteq> 32 \<or> length (ei_Nonce e) \<noteq> 24 then Some (Inl BadParameters)
                      else
                        (case DecryptInvoice P privateKey
                                \<lparr>env_ciphertext = ei_EncryptedPayload e, env_nonce = ei_Nonce e,
                                 env_ephemeral = ei_EphemeralPubKey e, env_signature = ei_Signature e\<rparr> senderPubKey of
                           Panic \<Rightarrow> None
                         | Err _ \<Rightarrow> Some (Inl OpenFailed)
                         | Ok plaintext \<Rightarrow>
                             (case parse plaintext of None \<Rightarrow> Some (Inl BadContent) | Some d \<Rightarrow> Some (Inr d)))))) }"

fun failure_text :: "open_failure \<Rightarrow> string" where
  "failure_text NoCrypto = ''Encryption not supported''"
| "failure_text BadEnvelope = ''Invalid encrypted data''"
| "failure_text TooOld = ''Message timestamp expired''"
| "failure_text UnknownSender = ''Unknown sender''"
| "failure_text EnvelopeSenderMismatch = ''Sender mismatch''"
| "failure_text BadParameters = ''Invalid encryption parameters''"
| "failure_text OpenFailed = ''Decryption failed''"
| "failure_text BadContent = ''Invalid invoice data''"

definition HandleEncryptedInvoiceRequest ::
  "prims \<Rightarrow> bytes option \<Rightarrow> (string \<Rightarrow> bytes option) \<Rightarrow> (bytes \<Rightarrow> InvoiceRequestData option) \<Rightarrow> conn \<Rightarrow> int
     \<Rightarrow> EncryptedInvoiceData option \<Rightarrow> string \<Rightarrow> invoice_node \<Rightarrow> (InvoiceResponseData \<times> invoice_node) option" where
  "HandleEncryptedInvoiceRequest P sk known_key parse c now msg remotePeerID node = do {
     r \<leftarrow> open_envelope P sk known_key parse now msg remotePeerID;
     (case r of
        Inl f \<Rightarrow> Some (response [] False (failure_text f), node)
      | Inr d \<Rightarrow> HandleInvoiceRequest c now (Some d) remotePeerID node) }"

definition HandleEncryptedInvoiceResponse ::
  "prims \<Rightarrow> bytes option \<Rightarrow> (string \<Rightarrow> bytes option) \<Rightarrow> (bytes \<Rightarrow> InvoiceResponseData option) \<Rightarrow> conn \<Rightarrow> conn \<Rightarrow> int
     \<Rightarrow> EncryptedInvoiceData option \<Rightarrow> string \<Rightarrow> invoice_node \<Rightarrow> invoice_node option" where
  "HandleEncryptedInvoiceResponse P sk known_key parse c1 c2 now msg remotePeerID node = do {
     r \<leftarrow> open_envelope P sk known_key parse now msg remotePeerID;
     (case r of Inl _ \<Rightarrow> Some node | Inr d \<Rightarrow> HandleInvoiceResponse c1 c2 now (Some d) remotePeerID node) }"

definition HandleEncryptedInvoiceNotify ::
  "prims \<Rightarrow> bytes option \<Rightarrow> (string \<Rightarrow> bytes option) \<Rightarrow> (bytes \<Rightarrow> InvoiceNotifyData option) \<Rightarrow> conn \<Rightarrow> conn \<Rightarrow> int
     \<Rightarrow> EncryptedInvoiceData option \<Rightarrow> string \<Rightarrow> invoice_node \<Rightarrow> invoice_node option" where
  "HandleEncryptedInvoiceNotify P sk known_key parse c1 c2 now msg remotePeerID node = do {
     r \<leftarrow> open_envelope P sk known_key parse now msg remotePeerID;
     (case r of Inl _ \<Rightarrow> Some node | Inr d \<Rightarrow> HandleInvoiceNotify c1 c2 now (Some d) remotePeerID node) }"

text \<open>The sender's side of a sealed request; \<open>print\<close> is the JSON encoder and the transport takes the result.\<close>

definition sendEncryptedInvoiceRequest ::
  "prims \<Rightarrow> bytes option \<Rightarrow> bytes option \<Rightarrow> (InvoiceRequestData \<Rightarrow> bytes option) \<Rightarrow> bytes \<Rightarrow> string \<Rightarrow> int
     \<Rightarrow> InvoiceRequestData \<Rightarrow> bytes \<Rightarrow> EncryptedInvoiceData option" where
  "sendEncryptedInvoiceRequest P rnd nrnd print sk ourPeerID now d recipientPubKey =
     (case print d of
        None \<Rightarrow> None
      | Some plaintext \<Rightarrow>
          (case EncryptInvoice P rnd nrnd sk plaintext recipientPubKey of
             Inl _ \<Rightarrow> None
           | Inr e \<Rightarrow> Some \<lparr>ei_SenderPeerID = ourPeerID, ei_EphemeralPubKey = env_ephemeral e,
                             ei_EncryptedPayload = env_ciphertext e, ei_Nonce = env_nonce e, ei_Signature = env_signature e,
                             ei_Timestamp = now\<rparr>))"

section \<open>Signing with a wallet\<close>

record PaymentData =
  pd_Amount :: float64
  pd_Currency :: string
  pd_Network :: string
  pd_Recipient :: string
  pd_Description :: string
  pd_Metadata :: json_object

text \<open>
  What signing depends on: the Ethereum library, the hash of a nonce, the number and text formats, the
  configuration, which private keys the curve accepts, whether an address is a contract, the Solana
  signer, the protocol version, the keystore (the passphrase kept for a wallet) and the wallet files (the
  wallet that a passphrase decrypts).
\<close>

record wallet_env =
  we_eth :: eth_lib
  we_keccak :: "string \<Rightarrow> string"
  we_fmt6 :: "float64 \<Rightarrow> string"
  we_utf8 :: "string \<Rightarrow> bytes"
  we_config :: "config_string option"
  we_valid_key :: "bytes \<Rightarrow> bool"
  we_contract :: "string \<Rightarrow> bool"
  we_solana :: "Wallet \<Rightarrow> PaymentSignature \<Rightarrow> string option"
  we_version :: string
  we_keystore :: "string \<Rightarrow> string option"
  we_decrypt :: "string \<Rightarrow> string \<Rightarrow> Wallet option"

datatype pay_sign_error =
  PassphraseMissing | WalletUnreadable | ErrNetworkMismatch | InvalidPrivateKey | EVMSignFailed sign_error
| UnsupportedFormat | SolanaSignFailed | UnsupportedSigningNetwork string

definition signEVMPaymentWithFormat ::
  "wallet_env \<Rightarrow> Wallet \<Rightarrow> PaymentSignature \<Rightarrow> SignatureFormat \<Rightarrow> (pay_sign_error, string) go_result \<times> PaymentSignature" where
  "signEVMPaymentWithFormat we wallet sig format =
     (if \<not> we_valid_key we (WPrivateKey wallet) then (Err InvalidPrivateKey, sig)
      else case format of
             SignatureFormatEIP712 \<Rightarrow>
               (case SignEIP712WithConfigAndLogger (we_eth we) (we_keccak we) (we_config we) (we_contract we (Sender sig))
                       (WPrivateKey wallet) sig of
                  (Ok t, sig') \<Rightarrow> (Ok t, sig')
                | (Err e, sig') \<Rightarrow> (Err (EVMSignFailed e), sig')
                | (Panic, sig') \<Rightarrow> (Panic, sig'))
           | SignatureFormatEIP191 \<Rightarrow>
               (case SignEIP191 (we_eth we) (we_fmt6 we) (we_utf8 we) (WPrivateKey wallet) sig of
                  Inl e \<Rightarrow> (Err (EVMSignFailed e), sig) | Inr t \<Rightarrow> (Ok t, sig))
           | NoFormat \<Rightarrow> (Err UnsupportedFormat, sig))"

definition SignPaymentWithFormat ::
  "wallet_env \<Rightarrow> int \<Rightarrow> string \<Rightarrow> string \<Rightarrow> PaymentData \<Rightarrow> string \<Rightarrow> SignatureFormat
     \<Rightarrow> (pay_sign_error, PaymentSignature) go_result" where
  "SignPaymentWithFormat we now nonce walletID pd passphrase format =
     (case (if passphrase = [] then we_keystore we walletID else Some passphrase) of
        None \<Rightarrow> Err PassphraseMissing
      | Some pass \<Rightarrow>
          (case we_decrypt we walletID pass of
             None \<Rightarrow> Err WalletUnreadable
           | Some wallet \<Rightarrow>
               if \<not> HasPrefix (pd_Network pd) (takeWhile (\<lambda>ch. ch \<noteq> CHR '':'') (WNetwork wallet) @ '':'')
               then Err ErrNetworkMismatch
               else
                 let sig = \<lparr>Version = we_version we, Network = pd_Network pd, Sender = WAddress wallet,
                            Recipient = pd_Recipient pd, Amount = pd_Amount pd, Currency = pd_Currency pd, Nonce = nonce,
                            Signature = [], Timestamp = now, Metadata = pd_Metadata pd, SigFormat = format,
                            EIP712Domain = None\<rparr>
                 in if HasPrefix (WNetwork wallet) ''eip155:'' then
                      (case signEVMPaymentWithFormat we wallet sig format of
                         (Ok t, sig') \<Rightarrow> Ok (sig'\<lparr>Signature := t\<rparr>)
                       | (Err e, _) \<Rightarrow> Err e
                       | (Panic, _) \<Rightarrow> Panic)
                    else if HasPrefix (WNetwork wallet) ''solana:'' then
                      (case we_solana we wallet sig of
                         None \<Rightarrow> Err SolanaSignFailed | Some t \<Rightarrow> Ok (sig\<lparr>Signature := t\<rparr>))
                    else Err (UnsupportedSigningNetwork (WNetwork wallet))))"

section \<open>Manager\<close>

text \<open>
  The surroundings of the manager: its wallets and signing environment, the allowed networks, the
  facilitator's answers, the Solana token accounts, the JSON text of a signature, the escrow manager.
\<close>

record invoice_env =
  ie_wallets :: WalletManager
  ie_sign :: wallet_env
  ie_allowed :: "AllowedNetwork list"
  ie_supported :: "FacilitatorSupportedResponse http_reply"
  ie_token_account :: "string \<Rightarrow> string \<Rightarrow> string \<Rightarrow> bool option"
  ie_create_account :: "string \<Rightarrow> string \<Rightarrow> string \<Rightarrow> string \<Rightarrow> string option"
  ie_sig_json :: "PaymentSignature \<Rightarrow> string option"
  ie_escrow :: EscrowManager
  ie_verify_net :: "FacilitatorResponse network"
  ie_settle_net :: "FacilitatorSettleResponse network"

datatype invoice_error =
  IdFailed | WalletAddressFailed wallet_error | WalletNetworkMismatch | NetworkNotAllowed | NoQuicPeer
| StoreInvoiceFailed db_error | DeliveryFailed | InvoiceNotFound db_error | InvoiceNotPending string | InvoiceExpired
| MissingRecipientAddress | FeePayerFailed x402_error | TokenAccountFailed | SigningFailed pay_sign_error | SerializeFailed
| EscrowFailed escrow_error | InvoiceNotAccepted | NoPaymentID | SettleEscrowFailed escrow_error | CannotDelete string

definition generateInvoiceID :: "bytes option \<Rightarrow> string option" where
  "generateInvoiceID rnd = map_option (\<lambda>b. ''inv_'' @ hex_encode b) rnd"

text \<open>\<open>delivered\<close> says whether sending the request succeeded, and \<open>reason\<close> is the text of the failure.\<close>

definition CreateInvoice ::
  "invoice_env \<Rightarrow> bytes option \<Rightarrow> conn \<Rightarrow> conn \<Rightarrow> int \<Rightarrow> bool \<Rightarrow> bool \<Rightarrow> string \<Rightarrow> string \<Rightarrow> string \<Rightarrow> string \<Rightarrow> float64 \<Rightarrow> string
     \<Rightarrow> string \<Rightarrow> string \<Rightarrow> int \<Rightarrow> invoice_node \<Rightarrow> ((invoice_error option) \<times> string \<times> invoice_node) option" where
  "CreateInvoice env rnd c1 c2 now quic delivered reason fromPeerID toPeerID fromWalletID amount currency network description
     expiresInHours node =
     (case generateInvoiceID rnd of
        None \<Rightarrow> Some (Some IdFailed, [], node)
      | Some iid \<Rightarrow>
          (case GetWalletAddress (ie_wallets env) fromWalletID of
             Inl e \<Rightarrow> Some (Some (WalletAddressFailed e), [], node)
           | Inr (walletAddress, walletNetwork) \<Rightarrow>
               if NormalizeSolanaNetwork walletNetwork \<noteq> NormalizeSolanaNetwork network
               then Some (Some WalletNetworkMismatch, [], node)
               else if \<not> list_ex (\<lambda>a. CAIP2 a = network) (ie_allowed env) then Some (Some NetworkNotAllowed, [], node)
               else if \<not> quic then Some (Some NoQuicPeer, [], node)
               else
                 let expiresAt = (if expiresInHours > 0
                                  then Some (now + to_int64 (expiresInHours * 3600000000000) div 1000000000) else None);
                     invoice = \<lparr>i_id = 0, InvoiceID = iid, FromPeerID = fromPeerID, ToPeerID = toPeerID,
                       FromWalletID = fromWalletID, FromWalletAddress = walletAddress, ToWalletID = [], ToWalletAddress = [],
                       i_Amount = amount, i_Currency = currency, i_Network = network, i_Description = description,
                       i_Status = ''pending'', i_PaymentSignature = [], i_TransactionID = [], i_PaymentID = None,
                       i_CreatedAt = now, ExpiresAt = expiresAt, AcceptedAt = None, RejectedAt = None, i_SettledAt = None,
                       i_Metadata = None\<rparr>
                 in (case CreatePaymentInvoice c1 invoice (node_invoices node) of
                       (Some e, db) \<Rightarrow> Some (Some (StoreInvoiceFailed e), [], node\<lparr>node_invoices := db\<rparr>)
                     | (None, db) \<Rightarrow> do {
                         slice8 fromPeerID;
                         slice8 toPeerID;
                         let d = \<lparr>ir_InvoiceID = iid, ir_FromPeerID = fromPeerID, ir_ToPeerID = toPeerID,
                               ir_FromWalletAddress = walletAddress, ir_Amount = amount, ir_Currency = currency,
                               ir_Network = network, ir_Description = description,
                               ir_ExpiresAt = (case expiresAt of None \<Rightarrow> 0 | Some t \<Rightarrow> t), ir_Metadata = Some []\<rparr>;
                         (if delivered
                          then Some (None, iid, node\<lparr>node_invoices := db, node_sent := node_sent node @ [(toPeerID, OutRequest d)]\<rparr>)
                          else Some (Some DeliveryFailed, iid,
                                     node\<lparr>node_invoices := snd (MarkInvoiceFailed c2 iid reason db)\<rparr>))
                       })))"

definition invoice_payment :: "PaymentInvoice \<Rightarrow> PaymentData" where
  "invoice_payment i =
     \<lparr>pd_Amount = i_Amount i, pd_Currency = i_Currency i, pd_Network = i_Network i, pd_Recipient = FromWalletAddress i,
      pd_Description = ''P2P Invoice: '' @ i_Description i,
      pd_Metadata = [(''invoice_id'', JStr (InvoiceID i)), (''type'', JStr ''p2p_invoice''),
                     (''from_peer'', JStr (FromPeerID i)), (''to_peer'', JStr (ToPeerID i))]\<rparr>"

text \<open>The Solana part: the fee payer for the metadata, and a token account for the recipient.\<close>

definition prepare_solana :: "invoice_env \<Rightarrow> PaymentInvoice \<Rightarrow> (invoice_error + PaymentData) option" where
  "prepare_solana env i =
     (let network = NormalizeSolanaNetwork (i_Network i)
      in case GetSolanaFeePayer (x402Client (ie_escrow env)) (ie_supported env) network of
           Inl e \<Rightarrow> Some (Inl (FeePayerFailed e))
         | Inr feePayer \<Rightarrow>
             let pd = (invoice_payment i)\<lparr>pd_Metadata := pd_Metadata (invoice_payment i) @ [(''solana_fee_payer'', JStr feePayer)]\<rparr>
             in (case ie_token_account env (FromWalletAddress i) network (i_Currency i) of
                   None \<Rightarrow> Some (Inr pd)
                 | Some True \<Rightarrow> do { slice8 (FromWalletAddress i); Some (Inr pd) }
                 | Some False \<Rightarrow> do {
                     slice8 (FromWalletAddress i);
                     Some (case ie_create_account env (FromWalletAddress i) network (i_Currency i) feePayer of
                             None \<Rightarrow> Inl TokenAccountFailed | Some _ \<Rightarrow> Inr pd)
                   }))"

text \<open>\<open>cs\<close> are the connections of the statements, in program order.\<close>

definition AcceptInvoice ::
  "invoice_env \<Rightarrow> (nat \<Rightarrow> conn) \<Rightarrow> int \<Rightarrow> string \<Rightarrow> string \<Rightarrow> string \<Rightarrow> string \<Rightarrow> invoice_node
     \<Rightarrow> ((invoice_error option) \<times> invoice_node) option" where
  "AcceptInvoice env cs now nonce invoiceID walletID passphrase node =
     (case GetPaymentInvoice (cs 0) invoiceID (node_invoices node) of
        Inl e \<Rightarrow> Some (Some (InvoiceNotFound e), node)
      | Inr invoice \<Rightarrow>
          if i_Status invoice \<noteq> ''pending'' then Some (Some (InvoiceNotPending (i_Status invoice)), node)
          else if (case ExpiresAt invoice of None \<Rightarrow> False | Some t \<Rightarrow> t < now) then
            Some (Some InvoiceExpired,
                  node\<lparr>node_invoices := snd (UpdatePaymentInvoiceStatus (cs 1) now invoiceID ''expired'' (node_invoices node))\<rparr>)
          else
            (case GetWalletAddress (ie_wallets env) walletID of
               Inl e \<Rightarrow> Some (Some (WalletAddressFailed e), node)
             | Inr (walletAddress, walletNetwork) \<Rightarrow>
                 if NormalizeSolanaNetwork walletNetwork \<noteq> NormalizeSolanaNetwork (i_Network invoice)
                 then Some (Some WalletNetworkMismatch, node)
                 else if \<not> list_ex (\<lambda>a. CAIP2 a = i_Network invoice) (ie_allowed env) then Some (Some NetworkNotAllowed, node)
                 else if FromWalletAddress invoice = [] then Some (Some MissingRecipientAddress, node)
                 else do {
                   prepared \<leftarrow> (if IsSolanaNetwork (i_Network invoice) then prepare_solana env invoice
                                else Some (Inr (invoice_payment invoice)));
                   (case prepared of
                      Inl e \<Rightarrow> Some (Some e, node)
                    | Inr pd \<Rightarrow>
                        (case SignPaymentWithFormat (ie_sign env) now nonce walletID pd passphrase SignatureFormatEIP712 of
                           Panic \<Rightarrow> None
                         | Err e \<Rightarrow> Some (Some (SigningFailed e), node)
                         | Ok sig \<Rightarrow>
                             (case ie_sig_json env sig of
                                None \<Rightarrow> Some (Some SerializeFailed, node)
                              | Some sigJSON \<Rightarrow>
                                  (case CreateEscrow (ie_escrow env) (cs 2) (cs 3) (ie_verify_net env) now 0 (Some sig)
                                          (i_Amount invoice) (node_payments node) of
                                     (Inl e, pdb) \<Rightarrow> Some (Some (EscrowFailed e), node\<lparr>node_payments := pdb\<rparr>)
                                   | (Inr paymentID, pdb) \<Rightarrow>
                                       (case UpdatePaymentInvoiceAccepted (cs 4) now (map p_id (job_payments pdb)) invoiceID
                                               sigJSON paymentID walletID walletAddress (node_invoices node) of
                                          (Some e, idb) \<Rightarrow>
                                            Some (Some (StoreInvoiceFailed e), node\<lparr>node_payments := pdb, node_invoices := idb\<rparr>)
                                        | (None, idb) \<Rightarrow>
                                            Some (None, node\<lparr>node_payments := pdb, node_invoices := idb,
                                              node_sent := node_sent node @ [(FromPeerID invoice,
                                                OutResponse (response invoiceID True
                                                  ''Invoice accepted and payment initiated''))]\<rparr>)))))) }))"

definition RejectInvoice ::
  "conn \<Rightarrow> conn \<Rightarrow> int \<Rightarrow> string \<Rightarrow> string \<Rightarrow> invoice_node \<Rightarrow> (invoice_error option) \<times> invoice_node" where
  "RejectInvoice c1 c2 now invoiceID reason node =
     (case GetPaymentInvoice c1 invoiceID (node_invoices node) of
        Inl e \<Rightarrow> (Some (InvoiceNotFound e), node)
      | Inr invoice \<Rightarrow>
          if i_Status invoice \<noteq> ''pending'' then (Some (InvoiceNotPending (i_Status invoice)), node)
          else (case UpdatePaymentInvoiceStatus c2 now invoiceID ''rejected'' (node_invoices node) of
                  (Some e, db) \<Rightarrow> (Some (StoreInvoiceFailed e), node\<lparr>node_invoices := db\<rparr>)
                | (None, db) \<Rightarrow>
                    (None, node\<lparr>node_invoices := db, node_sent := node_sent node @ [(FromPeerID invoice, OutResponse
                       (response invoiceID False (if reason = [] then ''Invoice rejected'' else reason)))]\<rparr>)))"

definition SettleInvoice ::
  "invoice_env \<Rightarrow> (nat \<Rightarrow> conn) \<Rightarrow> int \<Rightarrow> string \<Rightarrow> invoice_node \<Rightarrow> ((invoice_error option) \<times> invoice_node \<times> fac_call list) option" where
  "SettleInvoice env cs now invoiceID node =
     (case GetPaymentInvoice (cs 0) invoiceID (node_invoices node) of
        Inl e \<Rightarrow> Some (Some (InvoiceNotFound e), node, [])
      | Inr invoice \<Rightarrow>
          if i_Status invoice \<noteq> ''accepted'' then Some (Some InvoiceNotAccepted, node, [])
          else
            (case i_PaymentID invoice of
               None \<Rightarrow> Some (Some NoPaymentID, node, [])
             | Some paymentID \<Rightarrow>
                 (case SettleEscrow (ie_escrow env) (cs 1) (cs 2) (ie_settle_net env) now paymentID (i_Amount invoice)
                         (node_payments node) of
                    (Panic, _, _) \<Rightarrow> None
                  | (Err e, pdb, calls) \<Rightarrow> Some (Some (SettleEscrowFailed e), node\<lparr>node_payments := pdb\<rparr>, calls)
                  | (Ok _, pdb, calls) \<Rightarrow>
                      (case UpdatePaymentInvoiceStatus (cs 3) now invoiceID ''settled'' (node_invoices node) of
                         (Some e, idb) \<Rightarrow>
                           Some (Some (StoreInvoiceFailed e), node\<lparr>node_payments := pdb, node_invoices := idb\<rparr>, calls)
                       | (None, idb) \<Rightarrow>
                           let node' = node\<lparr>node_payments := pdb, node_invoices := idb\<rparr>;
                               note' = (\<lambda>peer text. node'\<lparr>node_sent := node_sent node @ [(peer, OutNotify
                                 \<lparr>nt_InvoiceID = invoiceID, nt_Status = ''settled'', nt_Message = text\<rparr>)]\<rparr>)
                           in if node_peerID node = ToPeerID invoice
                              then Some (None, note' (FromPeerID invoice) ''Payment received'', calls)
                              else if node_peerID node = FromPeerID invoice
                              then Some (None, note' (ToPeerID invoice) ''Payment settled successfully'', calls)
                              else do {
                                slice8 (node_peerID node); slice8 (FromPeerID invoice); slice8 (ToPeerID invoice);
                                Some (None, node', calls)
                              }))))"

definition DeleteInvoice :: "conn \<Rightarrow> conn \<Rightarrow> string \<Rightarrow> invoice_node \<Rightarrow> (invoice_error option) \<times> invoice_node" where
  "DeleteInvoice c1 c2 invoiceID node =
     (case GetPaymentInvoice c1 invoiceID (node_invoices node) of
        Inl e \<Rightarrow> (Some (InvoiceNotFound e), node)
      | Inr invoice \<Rightarrow>
          if i_Status invoice \<notin> {''failed'', ''expired'', ''rejected''} then (Some (CannotDelete (i_Status invoice)), node)
          else (case DeletePaymentInvoice c2 invoiceID (node_invoices node) of
                  (Some e, db) \<Rightarrow> (Some (StoreInvoiceFailed e), node\<lparr>node_invoices := db\<rparr>)
                | (None, db) \<Rightarrow> (None, node\<lparr>node_invoices := db\<rparr>)))"

section \<open>What acceptance signs and stores\<close>

lemma SignEIP712_frame:
  assumes "SignEIP712WithConfigAndLogger eth k cfg sc key sig = (r, sig')"
  shows "\<exists>d. sig' = sig\<lparr>EIP712Domain := d\<rparr>"
proof -
  have "sig' = sig \<or> (\<exists>d. sig' = sig\<lparr>EIP712Domain := d\<rparr>)"
    using assms unfolding SignEIP712WithConfigAndLogger_def Let_def
    by (auto split: sum.splits option.splits if_splits go_result.splits prod.splits)
  then show ?thesis by (metis PaymentSignature.surjective PaymentSignature.update_convs(12))
qed

lemma signEVM_frame:
  assumes "signEVMPaymentWithFormat we w sig f = (r, sig')"
  shows "\<exists>d. sig' = sig\<lparr>EIP712Domain := d\<rparr>"
proof -
  have "sig' = sig \<or> (\<exists>r. SignEIP712WithConfigAndLogger (we_eth we) (we_keccak we) (we_config we) (we_contract we (Sender sig))
      (WPrivateKey w) sig = (r, sig'))"
    using assms by (auto simp: signEVMPaymentWithFormat_def split: if_splits SignatureFormat.splits prod.splits go_result.splits sum.splits)
  then show ?thesis using SignEIP712_frame by (metis PaymentSignature.surjective PaymentSignature.update_convs(12))
qed

lemma SignPayment_fields:
  assumes "SignPaymentWithFormat we now nonce wid pd pass f = Ok sig"
  shows "Amount sig = pd_Amount pd \<and> Recipient sig = pd_Recipient pd \<and> Currency sig = pd_Currency pd \<and> Network sig = pd_Network pd"
  using assms
  by (auto simp: SignPaymentWithFormat_def Let_def split: option.splits if_splits prod.splits go_result.splits dest!: signEVM_frame)

definition pays :: "PaymentInvoice \<Rightarrow> PaymentData \<Rightarrow> bool" where
  "pays i pd \<longleftrightarrow> pd_Amount pd = i_Amount i \<and> pd_Recipient pd = FromWalletAddress i \<and> pd_Currency pd = i_Currency i
     \<and> pd_Network pd = i_Network i"

lemma pays_invoice [simp]: "pays i (invoice_payment i)"
  by (simp add: pays_def invoice_payment_def)

lemma prepare_pays: "prepare_solana env i = Some (Inr pd) \<Longrightarrow> pays i pd"
  by (auto simp: prepare_solana_def Let_def pays_def invoice_payment_def split: sum.splits option.splits bool.splits bind_splits)

lemma CreateEscrow_row:
  assumes "CreateEscrow em ci cu net now j (Some sig) req db = (Inr i, db')" and "wf_payments db"
  shows "\<exists>row. row_at p_id i (job_payments db') = Some row \<and> PaymentAmount row = Amount sig \<and> PaymentRecipient row = Recipient sig
     \<and> PaymentCurrency row = Currency sig \<and> PaymentNetwork row = Network sig \<and> p_Status row = ''verified''"
  using assms(1)
proof (cases rule: CreateEscrow_cases)
  case (created sig' i' db1)
  then have sig: "sig' = sig" "i' = i" by simp_all
  let ?row = "(escrow_row em j sig)\<lparr>p_id := i, p_VerifiedAt := None, p_SettledAt := None, p_RefundedAt := None, p_CreatedAt := now\<rparr>"
  have db1: "job_payments db1 = job_payments db @ [?row]" "i = payment_seq db + 1"
    using created(3) unfolding sig by (auto simp: CreateJobPayment_def Let_def split: if_splits option.splits)
  have "i \<notin> p_id ` set (job_payments db)" using assms(2) db1(2) by (auto simp: wf_payments_def)
  then have "row_at p_id i (job_payments db1) = Some ?row" unfolding db1(1) by (intro row_at_append_new) simp_all
  moreover have "db' = db1 \<or> db' = db1\<lparr>job_payments := set_status p_id mark_payment i ''verified'' now (job_payments db1)\<rparr>"
    using created(4) sig by (auto simp: UpdateJobPaymentStatus_def)
  ultimately show ?thesis by (auto simp: pay.row_at_set_same escrow_row_def mark_payment_def)
qed auto

lemma AcceptInvoice_Ok:
  assumes "AcceptInvoice env cs now nonce iid wid pass node = Some (None, node')"
  obtains iv sig pid where
    "row_at InvoiceID iid (payment_invoices (node_invoices node)) = Some iv" "i_Status iv = ''pending''"
    "case ExpiresAt iv of None \<Rightarrow> True | Some t \<Rightarrow> now \<le> t"
    "Amount sig = i_Amount iv" "Recipient sig = FromWalletAddress iv" "Currency sig = i_Currency iv" "Network sig = i_Network iv"
    "CreateEscrow (ie_escrow env) (cs 2) (cs 3) (ie_verify_net env) now 0 (Some sig) (i_Amount iv) (node_payments node)
       = (Inr pid, node_payments node')"
    "\<exists>ids j wa. UpdatePaymentInvoiceAccepted (cs 4) now ids iid j pid wid wa (node_invoices node) = (None, node_invoices node')"
    "node_peerID node' = node_peerID node"
proof -
  obtain iv where iv: "GetPaymentInvoice (cs 0) iid (node_invoices node) = Inr iv"
    using assms by (auto simp: AcceptInvoice_def split: sum.splits)
  then have row: "row_at InvoiceID iid (payment_invoices (node_invoices node)) = Some iv"
    by (auto simp: GetPaymentInvoice_def split: if_splits option.splits)
  have st: "i_Status iv = ''pending''" "\<not> (case ExpiresAt iv of None \<Rightarrow> False | Some t \<Rightarrow> t < now)"
    using assms iv by (auto simp: AcceptInvoice_def split: if_splits)
  obtain wa wn where w: "GetWalletAddress (ie_wallets env) wid = Inr (wa, wn)"
    using assms iv st by (auto simp: AcceptInvoice_def split: sum.splits if_splits)
  note ok = assms [unfolded AcceptInvoice_def iv sum.case w prod.case]
  obtain pd where pd: "(if IsSolanaNetwork (i_Network iv) then prepare_solana env iv else Some (Inr (invoice_payment iv)))
      = Some (Inr pd)"
    using ok st by (auto split: if_splits bind_splits sum.splits)
  then have pays: "pays iv pd" by (auto split: if_splits intro: prepare_pays)
  obtain sig where sig: "SignPaymentWithFormat (ie_sign env) now nonce wid pd pass SignatureFormatEIP712 = Ok sig"
    using ok st pd by (auto split: if_splits go_result.splits)
  obtain js where js: "ie_sig_json env sig = Some js"
    using ok st pd sig by (auto split: if_splits option.splits)
  obtain pid pdb where e: "CreateEscrow (ie_escrow env) (cs 2) (cs 3) (ie_verify_net env) now 0 (Some sig) (i_Amount iv)
      (node_payments node) = (Inr pid, pdb)"
    using ok st pd sig js by (auto split: if_splits prod.splits sum.splits)
  obtain idb where u: "UpdatePaymentInvoiceAccepted (cs 4) now (map p_id (job_payments pdb)) iid js pid wid wa (node_invoices node)
      = (None, idb)" "node_invoices node' = idb" "node_payments node' = pdb" "node_peerID node' = node_peerID node"
    using ok st pd sig js e by (auto split: if_splits prod.splits option.splits)
  show thesis
  proof (rule that [OF row st(1)])
    show "case ExpiresAt iv of None \<Rightarrow> True | Some t \<Rightarrow> now \<le> t" using st(2) by (auto split: option.splits)
    show "Amount sig = i_Amount iv" "Recipient sig = FromWalletAddress iv" "Currency sig = i_Currency iv" "Network sig = i_Network iv"
      using SignPayment_fields [OF sig] pays by (simp_all add: pays_def)
  qed (use e u in auto)
qed

lemma accepted_row:
  assumes "UpdatePaymentInvoiceAccepted c now ids iid j pid wid wa db = (None, db')"
    and "row_at InvoiceID iid (payment_invoices db) = Some iv"
  shows "\<exists>iv'. row_at InvoiceID iid (payment_invoices db') = Some iv' \<and> i_Status iv' = ''accepted'' \<and> i_PaymentID iv' = Some pid
     \<and> i_Amount iv' = i_Amount iv \<and> i_Currency iv' = i_Currency iv \<and> FromWalletAddress iv' = FromWalletAddress iv"
proof -
  let ?f = "\<lambda>i. i\<lparr>i_Status := ''accepted'', i_PaymentSignature := j, i_PaymentID := Some pid, ToWalletID := wid,
      ToWalletAddress := wa, AcceptedAt := Some now\<rparr>"
  have "payment_invoices db' = sql_update (\<lambda>i. InvoiceID i = iid) ?f (payment_invoices db)"
    using assms(1) by (auto simp: UpdatePaymentInvoiceAccepted_def split: if_splits)
  with assms(2) row_at_SomeD [OF assms(2)] show ?thesis by (simp add: row_at_def sql_first_update)
qed

lemma settlementAmount_full: "PaymentAmount p = a \<Longrightarrow> settlementAmount p a = a"
  by (simp add: settlementAmount_def)

lemma SettleEscrow_Ok:
  assumes "SettleEscrow em cg cu net now pid a db = (Ok (), db', calls)"
    and "row_at p_id pid (job_payments db) = Some row" and "PaymentAmount row = a"
  shows "\<exists>req. calls = [SettleCall req True] \<and> PayTo (PaymentRequirements req) = PaymentRecipient row
     \<and> rAmount (PaymentRequirements req) = convertToWei (lib em) a (PaymentCurrency row)
     \<and> status_of db' pid = Some ''settled''"
proof -
  have read: "settle_read cg pid db = Inr row"
    using assms(1,2) by (auto simp: SettleEscrow_def settle_read_def GetJobPayment_def split: sum.splits option.splits if_splits)
  then have send: "settle_send em cu net now pid row a db = (Ok (), db', calls)" using assms(1) by (simp add: SettleEscrow_def)
  then obtain req where req: "convertToX402Request em (stored_signature row a) a
      (case JobExecutionID row of None \<Rightarrow> 0 | Some j \<Rightarrow> j) = Inr req" "calls = [SettleCall req True]"
    using settlementAmount_full [OF assms(3)]
    by (auto simp: settle_send_def Let_def split: sum.splits prod.splits option.splits if_splits)
  from send have "status_of db' pid = Some ''settled''"
    by (cases rule: settle_send_cases) (use assms(2) in \<open>auto simp: status_of_def pay.row_at_set_same\<close>)
  with req convertToX402Request_Inr [OF req(1)] show ?thesis by (auto simp: stored_signature_def)
qed


definition sample_wallet :: Wallet where
  "sample_wallet = \<lparr>WalletID = ''w1'', WNetwork = solana_main, WAddress = ''payer'', WPrivateKey = [], WCreatedAt = 0\<rparr>"

definition sample_wallet_env :: wallet_env where
  "sample_wallet_env = \<lparr>we_eth = toy_eth, we_keccak = id, we_fmt6 = (\<lambda>_. []), we_utf8 = (\<lambda>_. []), we_config = None,
     we_valid_key = (\<lambda>_. True), we_contract = (\<lambda>_. False), we_solana = (\<lambda>_ _. Some ''tx''), we_version = ''v2'',
     we_keystore = (\<lambda>_. None), we_decrypt = (\<lambda>_ _. Some sample_wallet)\<rparr>"

definition sample_env :: invoice_env where
  "sample_env = \<lparr>ie_wallets = \<lparr>wallets = [(''w1'', sample_wallet)], dbDefault = None\<rparr>, ie_sign = sample_wallet_env,
     ie_allowed = GetAllowedNetworks id (Some [solana_main]),
     ie_supported = Reply 200 (Some \<lparr>Kinds = [\<lparr>kScheme = ''exact'', kNetwork = solana_main, kExtra = Some [(''feePayer'', JStr ''fee'')]\<rparr>]\<rparr>),
     ie_token_account = (\<lambda>_ _ _. None), ie_create_account = (\<lambda>_ _ _ _. None), ie_sig_json = (\<lambda>_. Some ''{}''),
     ie_escrow = sample_em, ie_verify_net = yes_net, ie_settle_net = settle_net\<rparr>"

definition owed :: PaymentInvoice where
  "owed = sample_invoice\<lparr>i_Network := solana_main, FromWalletAddress := ''payee-wallet''\<rparr>"

definition invoice_peer :: invoice_node where
  "invoice_peer = \<lparr>node_peerID = ToPeerID owed, node_invoices = \<lparr>payment_invoices = [owed], invoice_seq = 1\<rparr>,
     node_payments = empty_payments [], node_sent = []\<rparr>"

lemma sample_accept:
  "\<exists>node'. AcceptInvoice sample_env (\<lambda>_. good_conn) 1500 ''n1'' ''inv1'' ''w1'' ''pass'' invoice_peer = Some (None, node')"
proof -
  have net: "HasPrefix solana_main ''solana:''" "NormalizeSolanaNetwork solana_main = solana_main" "IsSolanaNetwork solana_main"
      "takeWhile (\<lambda>ch. ch \<noteq> CHR '':'') solana_main = ''solana''" "\<not> HasPrefix solana_main ''eip155:''" "solana_main \<noteq> []"
    by (simp_all add: solana_main_def NormalizeSolanaNetwork_def IsSolanaNetwork_def)
  have allowed: "list_ex (\<lambda>a. CAIP2 a = solana_main) (ie_allowed sample_env)"
    by (simp add: sample_env_def GetAllowedNetworks_def getAllNetworksWithLabels_def getAppSupportedNetworks_def net(2) list_ex_iff Let_def)
      (simp add: solana_main_def)
  obtain pd where pd: "prepare_solana sample_env owed = Some (Inr pd)" "pd_Network pd = solana_main" "pd_Amount pd = Fin 5"
      "pd_Currency pd = ''USDC''"
    by (simp add: prepare_solana_def sample_env_def sample_em_def GetSolanaFeePayer_def GetSupported_def json_string_def owed_def net
        invoice_payment_def sample_invoice_def)
  obtain sig where sig: "SignPaymentWithFormat sample_wallet_env 1500 ''n1'' ''w1'' pd ''pass'' SignatureFormatEIP712 = Ok sig"
      "Amount sig = Fin 5" "Network sig = solana_main"
    using pd by (simp add: SignPaymentWithFormat_def sample_wallet_env_def sample_wallet_def net Let_def)
  have "\<exists>req. convertToX402Request sample_em sig (Fin 5) 0 = Inr req"
    using sig(3) net by (simp add: convertToX402Request_def Let_def split: option.splits prod.splits)
  then obtain req where req: "convertToX402Request sample_em sig (Fin 5) 0 = Inr req" by blast
  have "payment_violation True (empty_payments []) (escrow_row sample_em 0 sig) = None"
    using sig(2) by (simp add: payment_violation_def escrow_row_def payment_statuses_def empty_payments_def)
  then obtain pdb where esc: "CreateEscrow sample_em good_conn good_conn yes_net 1500 0 (Some sig) (Fin 5) (empty_payments []) = (Inr 1, pdb)"
      "1 \<in> p_id ` set (job_payments pdb)"
    using req sig(2)
    by (simp add: CreateEscrow_def sample_verify sample_resp_def CreateJobPayment_def good_conn_def empty_payments_def Let_def
        UpdateJobPaymentStatus_def set_status_def sample_em_def)
  have get: "GetPaymentInvoice good_conn ''inv1'' (node_invoices invoice_peer) = Inr owed"
    by (simp add: GetPaymentInvoice_def good_conn_def invoice_peer_def row_at_def owed_def sample_invoice_def)
  have o: "i_Status owed = ''pending''" "ExpiresAt owed = Some 2000" "i_Network owed = solana_main" "FromWalletAddress owed \<noteq> []"
      "i_Amount owed = Fin 5"
    by (simp_all add: owed_def sample_invoice_def)
  have w: "GetWalletAddress (ie_wallets sample_env) ''w1'' = Inr (''payer'', solana_main)"
    by (simp add: GetWalletAddress_def sample_env_def sample_wallet_def)
  have e: "ie_sign sample_env = sample_wallet_env" "ie_sig_json sample_env sig = Some ''{}''" "ie_escrow sample_env = sample_em"
      "ie_verify_net sample_env = yes_net" "node_payments invoice_peer = empty_payments []"
    by (simp_all add: sample_env_def invoice_peer_def)
  obtain idb where u: "UpdatePaymentInvoiceAccepted good_conn 1500 (map p_id (job_payments pdb)) ''inv1'' ''{}'' 1 ''w1'' ''payer''
      (node_invoices invoice_peer) = (None, idb)"
    using esc(2) by (simp add: UpdatePaymentInvoiceAccepted_def good_conn_def)
  show ?thesis by (simp add: AcceptInvoice_def get o w net allowed pd(1) e sig(1) esc(1) u)
qed


section \<open>Sealed requests\<close>

lemma EncryptInvoice_sizes:
  assumes "EncryptInvoice P (Some r) (Some n) sk m pk = Inr e" and "dh_commutes P"
  shows "length (env_ephemeral e) = 32" "env_nonce e = n"
  using assms by (auto simp: EncryptInvoice_def ephemeral_key_def Let_def dh_commutes_def split: sum.splits option.splits)

text \<open>
  C20. A sealed invoice request is what the plain request is: between honest identities the envelope made
  by the sender is opened by the recipient, which then acts exactly as on the plain message from that
  peer.  The time in the envelope is not signed: with any other time that is not older than five minutes,
  also one in the future, the same envelope is accepted, so an old message can be sent again.
\<close>

theorem sealed_request_is_plain_request:
  assumes "honest P skA pkA" and "honest P skB pkB" and "print d = Some t" and "parse t = Some d"
    and "known_key peerA = Some pkA" and "8 \<le> length peerA" and "length n = 24"
  shows "\<exists>env. sendEncryptedInvoiceRequest P (Some r) (Some n) print skA peerA sent d pkB = Some env
     \<and> (\<forall>ts now. now - ts \<le> 300 \<longrightarrow>
          HandleEncryptedInvoiceRequest P (Some skB) known_key parse c now (Some (env\<lparr>ei_Timestamp := ts\<rparr>)) peerA node
            = HandleInvoiceRequest c now (Some d) peerA node)"
proof -
  obtain e where e: "EncryptInvoice P (Some r) (Some n) skA t pkB = Inr e" "opt_ok (DecryptInvoice P skB e pkA) = Some t"
    using invoices.agree [OF assms(1,2), of "(t, r, n)"] by (auto simp: invoice_pack_def split: sum.splits)
  then have dec: "DecryptInvoice P skB e pkA = Ok t" by (cases "DecryptInvoice P skB e pkA") auto
  have sz: "length (env_ephemeral e) = 32" "env_nonce e = n"
    using EncryptInvoice_sizes [OF e(1)] assms(1) by (auto simp: honest_def)
  have pk: "pkA \<noteq> []" using assms(1) identity_size [of P skA pkA] by (auto simp: honest_def)
  let ?env = "\<lparr>ei_SenderPeerID = peerA, ei_EphemeralPubKey = env_ephemeral e, ei_EncryptedPayload = env_ciphertext e,
      ei_Nonce = env_nonce e, ei_Signature = env_signature e, ei_Timestamp = sent\<rparr>"
  have "open_envelope P (Some skB) known_key parse now (Some (?env\<lparr>ei_Timestamp := ts\<rparr>)) peerA = Some (Inr d)"
    if "now - ts \<le> 300" for ts now
    using that assms(4-7) dec sz pk by (cases e) (simp add: open_envelope_def slice8_def)
  then show ?thesis
    using assms(3) e(1)
    by (intro exI [of _ ?env]) (simp add: sendEncryptedInvoiceRequest_def HandleEncryptedInvoiceRequest_def)
qed

definition sample_request :: InvoiceRequestData where
  "sample_request = \<lparr>ir_InvoiceID = ''inv9'', ir_FromPeerID = ''peer-alice'', ir_ToPeerID = ''peer-bobby'', ir_FromWalletAddress = ''w'',
     ir_Amount = Fin 5, ir_Currency = ''USDC'', ir_Network = ''eip155:8453'', ir_Description = [], ir_ExpiresAt = 0, ir_Metadata = None\<rparr>"

theorem sealed_request_is_plain_request_witness:
  "\<exists>env. sendEncryptedInvoiceRequest toy_prims (Some [1]) (Some (replicate 24 7)) (\<lambda>_. Some [42]) toy_sk ''peer-alice'' 100
       sample_request toy_pk = Some env
     \<and> HandleEncryptedInvoiceRequest toy_prims (Some toy_sk) (\<lambda>_. Some toy_pk) (\<lambda>_. Some sample_request) good_conn 9000
         (Some (env\<lparr>ei_Timestamp := 9000\<rparr>)) ''peer-alice'' invoice_peer
       = HandleInvoiceRequest good_conn 9000 (Some sample_request) ''peer-alice'' invoice_peer"
proof -
  from sealed_request_is_plain_request [where print = "\<lambda>_. Some [42]" and parse = "\<lambda>_. Some sample_request" and d = sample_request
      and known_key = "\<lambda>_. Some toy_pk" and peerA = "''peer-alice''" and n = "replicate 24 7" and r = "[1]" and sent = 100
      and c = good_conn and node = invoice_peer, OF toy_honest toy_honest refl refl refl]
  obtain env where "sendEncryptedInvoiceRequest toy_prims (Some [1]) (Some (replicate 24 7)) (\<lambda>_. Some [42]) toy_sk ''peer-alice'' 100
       sample_request toy_pk = Some env"
    "\<forall>ts now. now - ts \<le> 300 \<longrightarrow> HandleEncryptedInvoiceRequest toy_prims (Some toy_sk) (\<lambda>_. Some toy_pk) (\<lambda>_. Some sample_request)
         good_conn now (Some (env\<lparr>ei_Timestamp := ts\<rparr>)) ''peer-alice'' invoice_peer
       = HandleInvoiceRequest good_conn now (Some sample_request) ''peer-alice'' invoice_peer" by auto
  then show ?thesis by (intro exI [of _ env]) simp
qed

section \<open>What a notification may do\<close>

text \<open>
   A notification sets any status whatever happened to the money: either party of an invoice, also the
  payer, can mark it settled (or pending again) on the other's node, from any state, while no payment has
  been made or changed.
\<close>

theorem notification_sets_any_status:
  assumes "row_at InvoiceID iid (payment_invoices (node_invoices node)) = Some i"
    and "remote = FromPeerID i \<or> remote = ToPeerID i" and "8 \<le> length remote" and "fault c1 \<noteq> ExecFails" and "fault c2 \<noteq> ExecFails"
  shows "\<exists>node'. HandleInvoiceNotify c1 c2 now (Some \<lparr>nt_InvoiceID = iid, nt_Status = s, nt_Message = m\<rparr>) remote node = Some node'
     \<and> map_option i_Status (row_at InvoiceID iid (payment_invoices (node_invoices node'))) = Some s
     \<and> node_payments node' = node_payments node"
  using assms
  by (auto simp: HandleInvoiceNotify_def slice8_def GetPaymentInvoice_def UpdatePaymentInvoiceStatus_def inv.row_at_set_same)

definition unpaid :: PaymentInvoice where
  "unpaid = sample_invoice\<lparr>FromPeerID := ''peer-alice'', ToPeerID := ''peer-bobby''\<rparr>"

theorem notification_sets_any_status_witness:
  "\<exists>node'. HandleInvoiceNotify good_conn good_conn 5 (Some \<lparr>nt_InvoiceID = ''inv1'', nt_Status = ''settled'', nt_Message = []\<rparr>) ''peer-bobby''
       (invoice_peer\<lparr>node_invoices := \<lparr>payment_invoices = [unpaid], invoice_seq = 1\<rparr>\<rparr>) = Some node'
     \<and> map_option i_Status (row_at InvoiceID ''inv1'' (payment_invoices (node_invoices node'))) = Some ''settled''
     \<and> node_payments node' = empty_payments []"
  using notification_sets_any_status [of "''inv1''" "invoice_peer\<lparr>node_invoices := \<lparr>payment_invoices = [unpaid], invoice_seq = 1\<rparr>\<rparr>" unpaid
      "''peer-bobby''" good_conn good_conn 5 "''settled''" "[]"]
  by (simp add: row_at_def unpaid_def sample_invoice_def good_conn_def invoice_peer_def)

end
