(* ===== verification/Job_Store.thy ===== *)
theory Job_Store
  imports Payment_Store
begin

text \<open>
  The tables the job manager works on: job executions, their interfaces and interface peers
  (\<open>internal/database/job_executions.go\<close>), workflow executions and workflow jobs
  (\<open>internal/database/workflows.go\<close>), offered services and their interfaces (\<open>internal/database/services.go\<close>) and data transfers
  (\<open>internal/database/data_transfers.go\<close>).  Statements take the \<open>conn\<close> they run on as in the
  payment tables; \<open>CURRENT_TIMESTAMP\<close> and \<open>time.Now()\<close> are the argument \<open>now\<close>; a JSON column is
  the value it encodes.
\<close>

section \<open>Rows\<close>

record JobExecution =
  je_ID :: int
  je_WorkflowJobID :: int
  je_ServiceID :: int
  je_ExecutorPeerID :: string
  je_OrderingPeerID :: string
  je_RemoteJobExecutionID :: "int option"
  je_Status :: string
  je_Entrypoint :: "string list option"
  je_Commands :: "string list option"
  je_ExecutionConstraint :: string
  je_ConstraintDetail :: string
  je_StartReceived :: bool
  je_StartedAt :: "int option"
  je_EndedAt :: "int option"
  je_ErrorMessage :: string
  je_CreatedAt :: int
  je_UpdatedAt :: int

record JobInterface =
  ji_ID :: int
  ji_JobExecutionID :: int
  ji_InterfaceType :: string
  ji_Path :: string
  ji_CreatedAt :: int

record JobInterfacePeer =
  jip_ID :: int
  jip_JobInterfaceID :: int
  jip_PeerID :: string
  jip_PeerWorkflowJobID :: "int option"
  jip_PeerJobExecutionID :: "int option"
  jip_PeerPath :: string
  jip_PeerFileName :: "string option"
  jip_PeerMountFunction :: string
  jip_DutyAcknowledged :: bool
  jip_CreatedAt :: int

record WorkflowExecution =
  we_ID :: int
  we_WorkflowID :: int
  we_Status :: string
  we_Error :: string
  we_StartedAt :: int
  we_CompletedAt :: "int option"
  we_CreatedAt :: int
  we_UpdatedAt :: int

record WorkflowJob =
  wj_ID :: int
  wj_WorkflowExecutionID :: int
  wj_WorkflowID :: int
  wj_NodeID :: int
  wj_JobName :: string
  wj_ServiceID :: int
  wj_ExecutorPeerID :: string
  wj_RemoteJobExecutionID :: "int option"
  wj_Status :: string
  wj_Result :: "json_object option"
  wj_Error :: string
  wj_CreatedAt :: int
  wj_UpdatedAt :: int

record OfferedService =
  sv_ID :: int
  ServiceType :: string
  sv_Type :: string
  sv_Name :: string
  sv_Description :: string
  Endpoint :: string
  Capabilities :: json
  sv_Status :: string
  PricingAmount :: float64
  PricingType :: string
  PricingInterval :: int
  PricingUnit :: string
  Pricing :: float64
  AcceptedPaymentNetworks :: "string list"
  sv_CreatedAt :: int
  sv_UpdatedAt :: int

record ServiceInterface =
  si_ID :: int
  si_ServiceID :: int
  si_InterfaceType :: string
  si_Path :: string
  si_MountFunction :: string
  si_Description :: string
  si_CreatedAt :: int

record DataTransfer =
  dt_ID :: int
  dt_TransferID :: string
  dt_JobExecutionID :: int
  dt_SourcePeerID :: string
  dt_DestinationPeerID :: string
  dt_FilePath :: string
  dt_TotalChunks :: int
  dt_ChunkSize :: int
  dt_TotalBytes :: int
  dt_FileHash :: string
  dt_Encrypted :: bool
  ChunksSent :: "int list"
  ChunksReceived :: "int list"
  ChunksAcked :: "int list"
  BytesTransferred :: int
  dt_Status :: string
  Direction :: string
  LastActivity :: int
  LastCheckpoint :: int
  dt_ErrorMessage :: string
  dt_CreatedAt :: int
  dt_UpdatedAt :: int

text \<open>The \<open>_seq\<close> fields are the \<open>AUTOINCREMENT\<close> counters; the ids of the job table are the rows a payment may refer to.\<close>

record job_db =
  job_executions :: "JobExecution list"
  job_seq :: int
  job_interfaces :: "JobInterface list"
  iface_seq :: int
  job_interface_peers :: "JobInterfacePeer list"
  ifpeer_seq :: int
  workflow_ids :: "int list"
  workflow_executions :: "WorkflowExecution list"
  wexec_seq :: int
  workflow_jobs :: "WorkflowJob list"
  wjob_seq :: int
  services :: "OfferedService list"
  service_seq :: int
  service_interfaces :: "ServiceInterface list"
  siface_seq :: int
  data_transfers :: "DataTransfer list"
  transfer_seq :: int
  payments :: payment_db

section \<open>Job executions\<close>

definition job_statuses :: "string list" where
  "job_statuses = [''IDLE'', ''READY'', ''RUNNING'', ''COMPLETED'', ''ERRORED'', ''CANCELLED'']"

definition CreateJobExecution :: "conn \<Rightarrow> int \<Rightarrow> JobExecution \<Rightarrow> job_db \<Rightarrow> (db_error + JobExecution) \<times> job_db" where
  "CreateJobExecution c now job db =
     (if fault c = ExecFails then (Inl DriverError, db)
      else if je_Status job \<notin> set job_statuses \<or> je_ExecutionConstraint job \<notin> {''NONE'', ''INPUTS_READY''}
           then (Inl CheckViolation, db)
      else
        let i = job_seq db + 1;
            row = job\<lparr>je_ID := i, je_RemoteJobExecutionID := None, je_StartReceived := False,
                      je_StartedAt := None, je_EndedAt := None, je_ErrorMessage := [],
                      je_CreatedAt := now, je_UpdatedAt := now\<rparr>;
            db' = db\<lparr>job_executions := job_executions db @ [row], job_seq := i,
                     payments := (payments db)\<lparr>job_ids := i # job_ids (payments db)\<rparr>\<rparr>
        in if fault c = LastInsertIdFails then (Inl LastIdError, db')
           else (Inr (job\<lparr>je_ID := i, je_CreatedAt := now, je_UpdatedAt := now\<rparr>), db'))"

definition GetJobExecution :: "conn \<Rightarrow> int \<Rightarrow> job_db \<Rightarrow> db_error + JobExecution" where
  "GetJobExecution c i db =
     (if fault c = ExecFails then Inl DriverError
      else case row_at je_ID i (job_executions db) of None \<Rightarrow> Inl NoRows | Some job \<Rightarrow> Inr job)"

definition mark_job :: "string \<Rightarrow> string \<Rightarrow> int \<Rightarrow> JobExecution \<Rightarrow> JobExecution" where
  "mark_job errorMsg status now job =
     (if status = ''RUNNING'' then job\<lparr>je_Status := status, je_StartedAt := Some now, je_UpdatedAt := now\<rparr>
      else if status = ''COMPLETED'' then
        job\<lparr>je_Status := status, je_EndedAt := Some now, je_ErrorMessage := [], je_UpdatedAt := now\<rparr>
      else if status = ''ERRORED'' \<or> status = ''CANCELLED'' then
        job\<lparr>je_Status := status, je_EndedAt := Some now, je_ErrorMessage := errorMsg, je_UpdatedAt := now\<rparr>
      else job\<lparr>je_Status := status, je_ErrorMessage := errorMsg, je_UpdatedAt := now\<rparr>)"

text \<open>A check constraint can only fail on a row the statement updates.\<close>

definition UpdateJobStatus :: "conn \<Rightarrow> int \<Rightarrow> int \<Rightarrow> string \<Rightarrow> string \<Rightarrow> job_db \<Rightarrow> db_error option \<times> job_db" where
  "UpdateJobStatus c now i status errorMsg db =
     (if fault c = ExecFails then (Some DriverError, db)
      else if i \<in> je_ID ` set (job_executions db) \<and> status \<notin> set job_statuses then (Some CheckViolation, db)
      else (None, db\<lparr>job_executions := set_status je_ID (mark_job errorMsg) i status now (job_executions db)\<rparr>))"

definition UpdateRemoteJobExecutionID :: "conn \<Rightarrow> int \<Rightarrow> int \<Rightarrow> int \<Rightarrow> job_db \<Rightarrow> db_error option \<times> job_db" where
  "UpdateRemoteJobExecutionID c now localID remoteID db =
     (if fault c = ExecFails then (Some DriverError, db)
      else (None, db\<lparr>job_executions :=
              sql_update (\<lambda>j. je_ID j = localID)
                (\<lambda>j. j\<lparr>je_RemoteJobExecutionID := Some remoteID, je_UpdatedAt := now\<rparr>) (job_executions db)\<rparr>))"

definition MarkJobStartReceived :: "conn \<Rightarrow> int \<Rightarrow> int \<Rightarrow> job_db \<Rightarrow> db_error option \<times> job_db" where
  "MarkJobStartReceived c now i db =
     (if fault c = ExecFails then (Some DriverError, db)
      else (None, db\<lparr>job_executions :=
              sql_update (\<lambda>j. je_ID j = i) (\<lambda>j. j\<lparr>je_StartReceived := True, je_UpdatedAt := now\<rparr>)
                (job_executions db)\<rparr>))"

text \<open>Equal creation times leave the order to SQLite; the model keeps the table's.\<close>

definition GetJobsByStatus :: "conn \<Rightarrow> string \<Rightarrow> job_db \<Rightarrow> db_error + JobExecution list" where
  "GetJobsByStatus c status db =
     (if fault c = ExecFails then Inl DriverError
      else Inr (sort_key je_CreatedAt (filter (\<lambda>j. je_Status j = status) (job_executions db))))"

definition GetReadyJobs :: "conn \<Rightarrow> job_db \<Rightarrow> db_error + JobExecution list" where
  "GetReadyJobs c db =
     (if fault c = ExecFails then Inl DriverError
      else Inr (sort_key je_CreatedAt (filter (\<lambda>j. je_Status j = ''READY'') (job_executions db))))"

definition GetJobExecutionByWorkflowJobAndOrderingPeer ::
  "conn \<Rightarrow> int \<Rightarrow> string \<Rightarrow> job_db \<Rightarrow> db_error + JobExecution" where
  "GetJobExecutionByWorkflowJobAndOrderingPeer c workflowJobID orderingPeerID db =
     (if fault c = ExecFails then Inl DriverError
      else case sort_key (\<lambda>j. - je_CreatedAt j)
                  (filter (\<lambda>j. je_WorkflowJobID j = workflowJobID \<and> je_OrderingPeerID j = orderingPeerID)
                    (job_executions db)) of
             [] \<Rightarrow> Inl NoRows | job # _ \<Rightarrow> Inr job)"

definition GetJobExecutionsByWorkflowJob :: "conn \<Rightarrow> int \<Rightarrow> job_db \<Rightarrow> db_error + JobExecution list" where
  "GetJobExecutionsByWorkflowJob c workflowJobID db =
     (if fault c = ExecFails then Inl DriverError
      else Inr (sort_key je_CreatedAt
                 (filter (\<lambda>j. je_WorkflowJobID j = workflowJobID) (job_executions db))))"

text \<open>The join repeats a job once for every workflow job with its id, which the primary key keeps to one.\<close>

definition GetJobExecutionsByWorkflowID :: "conn \<Rightarrow> int \<Rightarrow> job_db \<Rightarrow> db_error + JobExecution list" where
  "GetJobExecutionsByWorkflowID c workflowID db =
     (if fault c = ExecFails then Inl DriverError
      else Inr (sort_key (\<lambda>j. - je_CreatedAt j)
                 (filter (\<lambda>j. \<exists>w\<in>set (workflow_jobs db). wj_ID w = je_WorkflowJobID j \<and> wj_WorkflowID w = workflowID)
                   (job_executions db))))"

section \<open>Interfaces of a job\<close>

definition interface_types :: "string list" where
  "interface_types = [''STDIN'', ''STDOUT'', ''STDERR'', ''LOGS'', ''MOUNT'']"

definition mount_functions :: "string list" where
  "mount_functions = [''INPUT'', ''OUTPUT'', ''BOTH'']"

definition CreateJobInterface :: "conn \<Rightarrow> int \<Rightarrow> JobInterface \<Rightarrow> job_db \<Rightarrow> (db_error + int) \<times> job_db" where
  "CreateJobInterface c now iface db =
     (if fault c = ExecFails then (Inl DriverError, db)
      else if ji_InterfaceType iface \<notin> set interface_types then (Inl CheckViolation, db)
      else if fk_on c \<and> ji_JobExecutionID iface \<notin> je_ID ` set (job_executions db)
           then (Inl ForeignKeyViolation, db)
      else
        let i = iface_seq db + 1;
            db' = db\<lparr>job_interfaces := job_interfaces db @ [iface\<lparr>ji_ID := i, ji_CreatedAt := now\<rparr>], iface_seq := i\<rparr>
        in if fault c = LastInsertIdFails then (Inl LastIdError, db') else (Inr i, db'))"

definition CreateJobInterfacePeer :: "conn \<Rightarrow> int \<Rightarrow> JobInterfacePeer \<Rightarrow> job_db \<Rightarrow> (db_error + int) \<times> job_db" where
  "CreateJobInterfacePeer c now peer db =
     (if fault c = ExecFails then (Inl DriverError, db)
      else if jip_PeerMountFunction peer \<notin> set mount_functions then (Inl CheckViolation, db)
      else if fk_on c \<and> jip_JobInterfaceID peer \<notin> ji_ID ` set (job_interfaces db)
           then (Inl ForeignKeyViolation, db)
      else
        let i = ifpeer_seq db + 1;
            db' = db\<lparr>job_interface_peers := job_interface_peers db @ [peer\<lparr>jip_ID := i, jip_CreatedAt := now\<rparr>],
                     ifpeer_seq := i\<rparr>
        in if fault c = LastInsertIdFails then (Inl LastIdError, db') else (Inr i, db'))"

definition GetJobInterfaces :: "conn \<Rightarrow> int \<Rightarrow> job_db \<Rightarrow> db_error + JobInterface list" where
  "GetJobInterfaces c jobExecutionID db =
     (if fault c = ExecFails then Inl DriverError
      else Inr (filter (\<lambda>f. ji_JobExecutionID f = jobExecutionID) (job_interfaces db)))"

definition GetJobInterfacePeers :: "conn \<Rightarrow> int \<Rightarrow> job_db \<Rightarrow> db_error + JobInterfacePeer list" where
  "GetJobInterfacePeers c jobInterfaceID db =
     (if fault c = ExecFails then Inl DriverError
      else Inr (filter (\<lambda>p. jip_JobInterfaceID p = jobInterfaceID) (job_interface_peers db)))"

text \<open>The log line after the statement prints \<open>peerID[:8]\<close> and panics on a short one.\<close>

definition UpdateJobInterfacePeerJobExecutionID ::
  "conn \<Rightarrow> int \<Rightarrow> string \<Rightarrow> int \<Rightarrow> int \<Rightarrow> job_db \<Rightarrow> (db_error, unit) go_result \<times> job_db" where
  "UpdateJobInterfacePeerJobExecutionID c jobExecutionID peerID peerJobExecutionID peerWorkflowJobID db =
     (if fault c = ExecFails then (Err DriverError, db)
      else (if slice8 peerID = None then Panic else Ok (), db\<lparr>job_interface_peers :=
              sql_update
                (\<lambda>p. (\<exists>f\<in>set (job_interfaces db). ji_ID f = jip_JobInterfaceID p \<and> ji_JobExecutionID f = jobExecutionID)
                     \<and> jip_PeerID p = peerID \<and> jip_PeerWorkflowJobID p = Some peerWorkflowJobID
                     \<and> jip_PeerMountFunction p = ''OUTPUT'')
                (\<lambda>p. p\<lparr>jip_PeerJobExecutionID := Some peerJobExecutionID\<rparr>) (job_interface_peers db)\<rparr>))"

definition MarkInterfacePeerAcknowledged :: "conn \<Rightarrow> int \<Rightarrow> job_db \<Rightarrow> db_error option \<times> job_db" where
  "MarkInterfacePeerAcknowledged c interfacePeerID db =
     (if fault c = ExecFails then (Some DriverError, db)
      else (None, db\<lparr>job_interface_peers :=
              sql_update (\<lambda>p. jip_ID p = interfacePeerID) (\<lambda>p. p\<lparr>jip_DutyAcknowledged := True\<rparr>)
                (job_interface_peers db)\<rparr>))"

text \<open>The loop over the interfaces; interface number \<open>k\<close> reads its peers on connection \<open>cs k\<close>.\<close>

fun acks_ready :: "(nat \<Rightarrow> conn) \<Rightarrow> nat \<Rightarrow> JobInterface list \<Rightarrow> job_db \<Rightarrow> db_error + bool" where
  "acks_ready cs k [] db = Inr True"
| "acks_ready cs k (f # fs) db =
     (if ji_InterfaceType f = ''STDIN'' then
        (case GetJobInterfacePeers (cs k) (ji_ID f) db of
           Inl e \<Rightarrow> Inl e
         | Inr peers \<Rightarrow>
             if list_ex (\<lambda>p. jip_PeerMountFunction p = ''OUTPUT'' \<and> \<not> jip_DutyAcknowledged p) peers
             then Inr False else acks_ready cs (Suc k) fs db)
      else acks_ready cs (Suc k) fs db)"

definition ValidateJobInputsReady :: "conn \<Rightarrow> (nat \<Rightarrow> conn) \<Rightarrow> int \<Rightarrow> job_db \<Rightarrow> db_error + bool" where
  "ValidateJobInputsReady c cs jobExecutionID db =
     (case GetJobInterfaces c jobExecutionID db of
        Inl e \<Rightarrow> Inl e | Inr interfaces \<Rightarrow> acks_ready cs 0 interfaces db)"

section \<open>Workflow executions and jobs\<close>

definition wexec_statuses :: "string list" where
  "wexec_statuses = [''PENDING'', ''RUNNING'', ''COMPLETED'', ''FAILED'', ''CANCELLED'']"

definition wjob_statuses :: "string list" where
  "wjob_statuses = [''PENDING'', ''RUNNING'', ''COMPLETED'', ''FAILED'', ''CANCELLED'', ''ERRORED'']"

definition CreateWorkflowExecution :: "conn \<Rightarrow> int \<Rightarrow> int \<Rightarrow> job_db \<Rightarrow> (db_error + WorkflowExecution) \<times> job_db" where
  "CreateWorkflowExecution c now workflowID db =
     (if fault c = ExecFails then (Inl DriverError, db)
      else if fk_on c \<and> workflowID \<notin> set (workflow_ids db) then (Inl ForeignKeyViolation, db)
      else
        let i = wexec_seq db + 1;
            row = \<lparr>we_ID = i, we_WorkflowID = workflowID, we_Status = ''PENDING'', we_Error = [],
                   we_StartedAt = now, we_CompletedAt = None, we_CreatedAt = now, we_UpdatedAt = now\<rparr>;
            db' = db\<lparr>workflow_executions := workflow_executions db @ [row], wexec_seq := i\<rparr>
        in if fault c = LastInsertIdFails then (Inl LastIdError, db') else (Inr row, db'))"

definition CreateWorkflowJob ::
  "conn \<Rightarrow> int \<Rightarrow> int \<Rightarrow> int \<Rightarrow> int \<Rightarrow> string \<Rightarrow> int \<Rightarrow> string \<Rightarrow> job_db \<Rightarrow> (db_error + WorkflowJob) \<times> job_db" where
  "CreateWorkflowJob c now executionID workflowID nodeID jobName serviceID executorPeerID db =
     (if fault c = ExecFails then (Inl DriverError, db)
      else if fk_on c \<and> (executionID \<notin> we_ID ` set (workflow_executions db) \<or> workflowID \<notin> set (workflow_ids db))
           then (Inl ForeignKeyViolation, db)
      else
        let i = wjob_seq db + 1;
            row = \<lparr>wj_ID = i, wj_WorkflowExecutionID = executionID, wj_WorkflowID = workflowID,
                   wj_NodeID = nodeID, wj_JobName = jobName, wj_ServiceID = serviceID,
                   wj_ExecutorPeerID = executorPeerID, wj_RemoteJobExecutionID = None,
                   wj_Status = ''PENDING'', wj_Result = None, wj_Error = [], wj_CreatedAt = now, wj_UpdatedAt = now\<rparr>;
            db' = db\<lparr>workflow_jobs := workflow_jobs db @ [row], wjob_seq := i\<rparr>
        in if fault c = LastInsertIdFails then (Inl LastIdError, db') else (Inr row, db'))"

definition mark_wjob :: "json_object option \<Rightarrow> string \<Rightarrow> string \<Rightarrow> int \<Rightarrow> WorkflowJob \<Rightarrow> WorkflowJob" where
  "mark_wjob res errorMsg status now w =
     w\<lparr>wj_Status := status, wj_Result := res, wj_Error := errorMsg, wj_UpdatedAt := now\<rparr>"

text \<open>Read the current status on \<open>c_get\<close>, keep a completed or errored job as it is, else update on \<open>c_upd\<close>.\<close>

datatype wjob_error = StatusLookup db_error | MarshalResult | StatusExec db_error

definition UpdateWorkflowJobStatus ::
  "conn \<Rightarrow> conn \<Rightarrow> int \<Rightarrow> int \<Rightarrow> string \<Rightarrow> json_object option \<Rightarrow> string \<Rightarrow> job_db \<Rightarrow> wjob_error option \<times> job_db" where
  "UpdateWorkflowJobStatus c_get c_upd now jobID status res errorMsg db =
     (if fault c_get = ExecFails then (Some (StatusLookup DriverError), db)
      else case row_at wj_ID jobID (workflow_jobs db) of
        None \<Rightarrow> (Some (StatusLookup NoRows), db)
      | Some w \<Rightarrow>
          if (wj_Status w = ''COMPLETED'' \<or> wj_Status w = ''ERRORED'') \<and> status \<noteq> wj_Status w then (None, db)
          else if (case res of None \<Rightarrow> False | Some r \<Rightarrow> \<not> json_encodable (JObj r)) then (Some MarshalResult, db)
          else if fault c_upd = ExecFails then (Some (StatusExec DriverError), db)
          else if status \<notin> set wjob_statuses then (Some (StatusExec CheckViolation), db)
          else (None, db\<lparr>workflow_jobs := set_status wj_ID (mark_wjob res errorMsg) jobID status now (workflow_jobs db)\<rparr>))"

definition GetWorkflowJobsByExecution :: "conn \<Rightarrow> int \<Rightarrow> job_db \<Rightarrow> db_error + WorkflowJob list" where
  "GetWorkflowJobsByExecution c executionID db =
     (if fault c = ExecFails then Inl DriverError
      else Inr (sort_key wj_CreatedAt
                 (filter (\<lambda>w. wj_WorkflowExecutionID w = executionID) (workflow_jobs db))))"

definition GetWorkflowJobByID :: "conn \<Rightarrow> int \<Rightarrow> job_db \<Rightarrow> db_error + WorkflowJob option" where
  "GetWorkflowJobByID c i db =
     (if fault c = ExecFails then Inl DriverError else Inr (row_at wj_ID i (workflow_jobs db)))"

definition mark_wexec :: "string \<Rightarrow> string \<Rightarrow> int \<Rightarrow> WorkflowExecution \<Rightarrow> WorkflowExecution" where
  "mark_wexec errorMsg status now e =
     (if status \<in> {''COMPLETED'', ''FAILED'', ''CANCELLED''} then
        e\<lparr>we_Status := status, we_Error := errorMsg, we_CompletedAt := Some now, we_UpdatedAt := now\<rparr>
      else e\<lparr>we_Status := status, we_Error := errorMsg, we_UpdatedAt := now\<rparr>)"

definition UpdateWorkflowExecutionStatus ::
  "conn \<Rightarrow> int \<Rightarrow> int \<Rightarrow> string \<Rightarrow> string \<Rightarrow> job_db \<Rightarrow> db_error option \<times> job_db" where
  "UpdateWorkflowExecutionStatus c now executionID status errorMsg db =
     (if fault c = ExecFails then (Some DriverError, db)
      else if executionID \<in> we_ID ` set (workflow_executions db) \<and> status \<notin> set wexec_statuses
           then (Some CheckViolation, db)
      else (None, db\<lparr>workflow_executions :=
              set_status we_ID (mark_wexec errorMsg) executionID status now (workflow_executions db)\<rparr>))"

definition UpdateWorkflowJobRemoteExecutionID :: "conn \<Rightarrow> int \<Rightarrow> int \<Rightarrow> int \<Rightarrow> job_db \<Rightarrow> db_error option \<times> job_db" where
  "UpdateWorkflowJobRemoteExecutionID c now workflowJobID remoteJobExecutionID db =
     (if fault c = ExecFails then (Some DriverError, db)
      else (None, db\<lparr>workflow_jobs :=
              sql_update (\<lambda>w. wj_ID w = workflowJobID)
                (\<lambda>w. w\<lparr>wj_RemoteJobExecutionID := Some remoteJobExecutionID, wj_UpdatedAt := now\<rparr>) (workflow_jobs db)\<rparr>))"

definition GetWorkflowExecutionsByWorkflowID :: "conn \<Rightarrow> int \<Rightarrow> job_db \<Rightarrow> db_error + WorkflowExecution list" where
  "GetWorkflowExecutionsByWorkflowID c workflowID db =
     (if fault c = ExecFails then Inl DriverError
      else Inr (sort_key (\<lambda>e. - we_CreatedAt e)
                 (filter (\<lambda>e. we_WorkflowID e = workflowID) (workflow_executions db))))"

definition GetWorkflowExecutionByID :: "conn \<Rightarrow> int \<Rightarrow> job_db \<Rightarrow> db_error + WorkflowExecution" where
  "GetWorkflowExecutionByID c executionID db =
     (if fault c = ExecFails then Inl DriverError
      else case row_at we_ID executionID (workflow_executions db) of None \<Rightarrow> Inl NoRows | Some e \<Rightarrow> Inr e)"

section \<open>Offered services\<close>

definition service_check :: "OfferedService \<Rightarrow> bool" where
  "service_check s \<longleftrightarrow>
     ServiceType s \<in> {''DATA'', ''DOCKER'', ''STANDALONE''} \<and> sv_Status s \<in> {''ACTIVE'', ''INACTIVE''}
     \<and> PricingType s \<in> {''ONE_TIME'', ''RECURRING''}
     \<and> PricingUnit s \<in> {''SECONDS'', ''MINUTES'', ''HOURS'', ''DAYS'', ''WEEKS'', ''MONTHS'', ''YEARS''}"

definition service_defaults :: "OfferedService \<Rightarrow> OfferedService" where
  "service_defaults s =
     s\<lparr>ServiceType := (if ServiceType s = [] then ''DATA'' else ServiceType s),
       sv_Status := (if sv_Status s = [] then ''ACTIVE'' else sv_Status s),
       PricingType := (if PricingType s = [] then ''ONE_TIME'' else PricingType s),
       PricingInterval := (if PricingInterval s = 0 then 1 else PricingInterval s),
       PricingUnit := (if PricingUnit s = [] then ''MONTHS'' else PricingUnit s)\<rparr>"

datatype service_error = MarshalFailed | ServiceDb db_error

definition AddService :: "conn \<Rightarrow> int \<Rightarrow> OfferedService \<Rightarrow> job_db \<Rightarrow> (service_error + OfferedService) \<times> job_db" where
  "AddService c now service db =
     (if \<not> json_encodable (Capabilities service) then (Inl MarshalFailed, db)
      else
        let s = service_defaults service
        in if fault c = ExecFails then (Inl (ServiceDb DriverError), db)
           else if \<not> service_check s then (Inl (ServiceDb CheckViolation), db)
           else
             let i = service_seq db + 1;
                 row = s\<lparr>sv_ID := i, sv_CreatedAt := now, sv_UpdatedAt := now\<rparr>;
                 db' = db\<lparr>services := services db @ [row], service_seq := i\<rparr>
             in if fault c = LastInsertIdFails then (Inl (ServiceDb LastIdError), db') else (Inr row, db'))"

text \<open>\<open>NaN\<close> is stored as \<open>NULL\<close>, which no reader can scan into its \<open>float64\<close>.\<close>

definition service_readable :: "OfferedService \<Rightarrow> bool" where
  "service_readable s \<longleftrightarrow> PricingAmount s \<noteq> NaN \<and> Pricing s \<noteq> NaN"

definition GetService :: "conn \<Rightarrow> int \<Rightarrow> job_db \<Rightarrow> db_error + OfferedService option" where
  "GetService c i db =
     (if fault c = ExecFails then Inl DriverError
      else case row_at sv_ID i (services db) of
             None \<Rightarrow> Inr None
           | Some s \<Rightarrow> if service_readable s then Inr (Some s) else Inl DriverError)"

definition GetAllServices :: "conn \<Rightarrow> job_db \<Rightarrow> db_error + OfferedService list" where
  "GetAllServices c db =
     (if fault c = ExecFails then Inl DriverError
      else Inr (filter service_readable (sort_key (\<lambda>s. - sv_CreatedAt s) (services db))))"

definition UpdateService :: "conn \<Rightarrow> int \<Rightarrow> OfferedService \<Rightarrow> job_db \<Rightarrow> service_error option \<times> job_db" where
  "UpdateService c now service db =
     (if \<not> json_encodable (Capabilities service) then (Some MarshalFailed, db)
      else if fault c = ExecFails then (Some (ServiceDb DriverError), db)
      else if sv_ID service \<notin> sv_ID ` set (services db) then (Some (ServiceDb NoRows), db)
      else if \<not> service_check service then (Some (ServiceDb CheckViolation), db)
      else (None, db\<lparr>services :=
              sql_update (\<lambda>s. sv_ID s = sv_ID service)
                (\<lambda>s. service\<lparr>sv_CreatedAt := sv_CreatedAt s, sv_UpdatedAt := now\<rparr>) (services db)\<rparr>))"

text \<open>The encrypted file the service's details name is removed first; only the tables are modelled, with the cascade to the interfaces.\<close>

definition DeleteService :: "conn \<Rightarrow> int \<Rightarrow> job_db \<Rightarrow> db_error option \<times> job_db" where
  "DeleteService c i db =
     (if fault c = ExecFails then (Some DriverError, db)
      else if i \<notin> sv_ID ` set (services db) then (Some NoRows, db)
      else (None, db\<lparr>services := sql_delete (\<lambda>s. sv_ID s = i) (services db),
                     service_interfaces :=
                       (if fk_on c then sql_delete (\<lambda>f. si_ServiceID f = i) (service_interfaces db)
                        else service_interfaces db)\<rparr>))"

definition UpdateServiceStatus :: "conn \<Rightarrow> int \<Rightarrow> int \<Rightarrow> string \<Rightarrow> job_db \<Rightarrow> db_error option \<times> job_db" where
  "UpdateServiceStatus c now i status db =
     (if fault c = ExecFails then (Some DriverError, db)
      else if i \<notin> sv_ID ` set (services db) then (Some NoRows, db)
      else if status \<notin> {''ACTIVE'', ''INACTIVE''} then (Some CheckViolation, db)
      else (None, db\<lparr>services :=
              sql_update (\<lambda>s. sv_ID s = i) (\<lambda>s. s\<lparr>sv_Status := status, sv_UpdatedAt := now\<rparr>) (services db)\<rparr>))"

definition UpdateServicePricing ::
  "conn \<Rightarrow> int \<Rightarrow> int \<Rightarrow> float64 \<Rightarrow> string \<Rightarrow> int \<Rightarrow> string \<Rightarrow> string list \<Rightarrow> job_db \<Rightarrow> db_error option \<times> job_db" where
  "UpdateServicePricing c now i pricingAmount pricingType pricingInterval pricingUnit acceptedPaymentNetworks db =
     (if fault c = ExecFails then (Some DriverError, db)
      else case row_at sv_ID i (services db) of
        None \<Rightarrow> (Some NoRows, db)
      | Some s \<Rightarrow>
          let upd = (\<lambda>s. s\<lparr>PricingAmount := pricingAmount, PricingType := pricingType,
                           PricingInterval := pricingInterval, PricingUnit := pricingUnit,
                           AcceptedPaymentNetworks := acceptedPaymentNetworks, sv_UpdatedAt := now\<rparr>)
          in if \<not> service_check (upd s) then (Some CheckViolation, db)
             else (None, db\<lparr>services := sql_update (\<lambda>s. sv_ID s = i) upd (services db)\<rparr>))"

definition AddServiceInterface :: "conn \<Rightarrow> int \<Rightarrow> ServiceInterface \<Rightarrow> job_db \<Rightarrow> (db_error + int) \<times> job_db" where
  "AddServiceInterface c now si db =
     (let mountFunction = (if si_InterfaceType si = ''MOUNT''
                           then (if si_MountFunction si = [] then ''BOTH'' else si_MountFunction si) else [])
      in if fault c = ExecFails then (Inl DriverError, db)
         else if si_InterfaceType si \<notin> set interface_types
              \<or> (si_InterfaceType si = ''MOUNT'' \<and> mountFunction \<notin> set mount_functions)
              then (Inl CheckViolation, db)
         else if fk_on c \<and> si_ServiceID si \<notin> sv_ID ` set (services db) then (Inl ForeignKeyViolation, db)
         else
           let i = siface_seq db + 1;
               row = si\<lparr>si_ID := i, si_MountFunction := mountFunction, si_CreatedAt := now\<rparr>;
               db' = db\<lparr>service_interfaces := service_interfaces db @ [row], siface_seq := i\<rparr>
           in if fault c = LastInsertIdFails then (Inl LastIdError, db') else (Inr i, db'))"

definition GetServiceInterfaces :: "conn \<Rightarrow> int \<Rightarrow> job_db \<Rightarrow> db_error + ServiceInterface list" where
  "GetServiceInterfaces c serviceID db =
     (if fault c = ExecFails then Inl DriverError
      else Inr (sort_key si_CreatedAt (filter (\<lambda>f. si_ServiceID f = serviceID) (service_interfaces db))))"

definition DeleteServiceInterface :: "conn \<Rightarrow> int \<Rightarrow> job_db \<Rightarrow> db_error option \<times> job_db" where
  "DeleteServiceInterface c i db =
     (if fault c = ExecFails then (Some DriverError, db)
      else if i \<notin> si_ID ` set (service_interfaces db) then (Some NoRows, db)
      else (None, db\<lparr>service_interfaces := sql_delete (\<lambda>f. si_ID f = i) (service_interfaces db)\<rparr>))"

definition DeleteServiceInterfaces :: "conn \<Rightarrow> int \<Rightarrow> job_db \<Rightarrow> db_error option \<times> job_db" where
  "DeleteServiceInterfaces c serviceID db =
     (if fault c = ExecFails then (Some DriverError, db)
      else (None, db\<lparr>service_interfaces := sql_delete (\<lambda>f. si_ServiceID f = serviceID) (service_interfaces db)\<rparr>))"

section \<open>Data transfers\<close>

definition CreateDataTransfer :: "conn \<Rightarrow> int \<Rightarrow> DataTransfer \<Rightarrow> job_db \<Rightarrow> (db_error + int) \<times> job_db" where
  "CreateDataTransfer c now transfer db =
     (if fault c = ExecFails then (Inl DriverError, db)
      else if dt_TransferID transfer \<in> dt_TransferID ` set (data_transfers db) then (Inl UniqueViolation, db)
      else
        let i = transfer_seq db + 1;
            row = transfer\<lparr>dt_ID := i, LastActivity := now, LastCheckpoint := now, dt_ErrorMessage := [],
                           dt_CreatedAt := now, dt_UpdatedAt := now\<rparr>;
            db' = db\<lparr>data_transfers := data_transfers db @ [row], transfer_seq := i\<rparr>
        in if fault c = LastInsertIdFails then (Inl LastIdError, db') else (Inr i, db'))"

text \<open>An \<open>UPDATE\<close> by transfer id; \<open>strict\<close> when the code reports an update of no row as an error.\<close>

definition update_transfer ::
  "bool \<Rightarrow> conn \<Rightarrow> string \<Rightarrow> (DataTransfer \<Rightarrow> DataTransfer) \<Rightarrow> job_db \<Rightarrow> db_error option \<times> job_db" where
  "update_transfer strict c transferID f db =
     (if fault c = ExecFails then (Some DriverError, db)
      else if strict \<and> transferID \<notin> dt_TransferID ` set (data_transfers db) then (Some NoRows, db)
      else (None, db\<lparr>data_transfers := sql_update (\<lambda>t. dt_TransferID t = transferID) f (data_transfers db)\<rparr>))"

definition UpdateTransferProgress ::
  "conn \<Rightarrow> int \<Rightarrow> string \<Rightarrow> int list \<Rightarrow> int list \<Rightarrow> int list \<Rightarrow> int \<Rightarrow> job_db \<Rightarrow> db_error option \<times> job_db" where
  "UpdateTransferProgress c now transferID chunksSent chunksReceived chunksAcked bytesTransferred =
     update_transfer True c transferID
       (\<lambda>t. t\<lparr>ChunksSent := chunksSent, ChunksReceived := chunksReceived, ChunksAcked := chunksAcked,
              BytesTransferred := bytesTransferred, LastActivity := now, dt_UpdatedAt := now\<rparr>)"

definition UpdateTransferCheckpoint :: "conn \<Rightarrow> int \<Rightarrow> string \<Rightarrow> job_db \<Rightarrow> db_error option \<times> job_db" where
  "UpdateTransferCheckpoint c now transferID =
     update_transfer False c transferID
       (\<lambda>t. t\<lparr>LastCheckpoint := now, LastActivity := now, dt_UpdatedAt := now\<rparr>)"

definition GetTransferByID :: "conn \<Rightarrow> string \<Rightarrow> job_db \<Rightarrow> db_error + DataTransfer" where
  "GetTransferByID c transferID db =
     (if fault c = ExecFails then Inl DriverError
      else case row_at dt_TransferID transferID (data_transfers db) of None \<Rightarrow> Inl NoRows | Some t \<Rightarrow> Inr t)"

definition GetActiveTransfers :: "conn \<Rightarrow> job_db \<Rightarrow> db_error + DataTransfer list" where
  "GetActiveTransfers c db =
     (if fault c = ExecFails then Inl DriverError
      else Inr (sort_key (\<lambda>t. - dt_CreatedAt t) (filter (\<lambda>t. dt_Status t = ''active'') (data_transfers db))))"

definition GetStalledTransfers :: "conn \<Rightarrow> int \<Rightarrow> int \<Rightarrow> job_db \<Rightarrow> db_error + DataTransfer list" where
  "GetStalledTransfers c now timeout db =
     (if fault c = ExecFails then Inl DriverError
      else Inr (sort_key LastActivity
                 (filter (\<lambda>t. dt_Status t = ''active'' \<and> LastActivity t < now - timeout) (data_transfers db))))"

definition HasPendingTransfersForJob :: "conn \<Rightarrow> int \<Rightarrow> job_db \<Rightarrow> db_error + bool" where
  "HasPendingTransfersForJob c jobExecutionID db =
     (if fault c = ExecFails then Inl DriverError
      else Inr (length (filter (\<lambda>t. dt_JobExecutionID t = jobExecutionID \<and> Direction t = ''incoming''
                                   \<and> dt_Status t \<in> {''active'', ''pending'', ''paused''}) (data_transfers db)) > 0))"

definition CompleteTransfer :: "conn \<Rightarrow> int \<Rightarrow> string \<Rightarrow> job_db \<Rightarrow> db_error option \<times> job_db" where
  "CompleteTransfer c now transferID =
     update_transfer True c transferID (\<lambda>t. t\<lparr>dt_Status := ''completed'', LastActivity := now, dt_UpdatedAt := now\<rparr>)"

definition FailTransfer :: "conn \<Rightarrow> int \<Rightarrow> string \<Rightarrow> string \<Rightarrow> job_db \<Rightarrow> db_error option \<times> job_db" where
  "FailTransfer c now transferID errorMessage =
     update_transfer True c transferID
       (\<lambda>t. t\<lparr>dt_Status := ''failed'', dt_ErrorMessage := errorMessage, LastActivity := now, dt_UpdatedAt := now\<rparr>)"

definition PauseTransfer :: "conn \<Rightarrow> int \<Rightarrow> string \<Rightarrow> job_db \<Rightarrow> db_error option \<times> job_db" where
  "PauseTransfer c now transferID =
     update_transfer False c transferID (\<lambda>t. t\<lparr>dt_Status := ''paused'', dt_UpdatedAt := now\<rparr>)"

definition ResumeTransfer :: "conn \<Rightarrow> int \<Rightarrow> string \<Rightarrow> job_db \<Rightarrow> db_error option \<times> job_db" where
  "ResumeTransfer c now transferID =
     update_transfer False c transferID (\<lambda>t. t\<lparr>dt_Status := ''active'', LastActivity := now, dt_UpdatedAt := now\<rparr>)"

definition DeleteTransfer :: "conn \<Rightarrow> string \<Rightarrow> job_db \<Rightarrow> db_error option \<times> job_db" where
  "DeleteTransfer c transferID db =
     (if fault c = ExecFails then (Some DriverError, db)
      else if transferID \<notin> dt_TransferID ` set (data_transfers db) then (Some NoRows, db)
      else (None, db\<lparr>data_transfers := sql_delete (\<lambda>t. dt_TransferID t = transferID) (data_transfers db)\<rparr>))"

section \<open>Well-formed tables\<close>

text \<open>
  What every table of the node has in common: its keys are its own, lie between one and the
  \<open>AUTOINCREMENT\<close> counter, and each row satisfies the table's check constraints.
\<close>

definition table_ok :: "('r \<Rightarrow> int) \<Rightarrow> int \<Rightarrow> ('r \<Rightarrow> bool) \<Rightarrow> 'r list \<Rightarrow> bool" where
  "table_ok key n q rows \<longleftrightarrow>
     0 \<le> n \<and> distinct (map key rows) \<and> list_all (\<lambda>r. 0 < key r \<and> key r \<le> n \<and> q r) rows"

lemma table_ok_Nil [simp]: "table_ok key 0 q []"
  by (simp add: table_ok_def)

lemma table_ok_insert: "table_ok key n q rows \<Longrightarrow> key r = n + 1 \<Longrightarrow> q r \<Longrightarrow> table_ok key (n + 1) q (rows @ [r])"
  by (fastforce simp: table_ok_def list_all_iff)

lemma table_ok_update:
  "table_ok key n q rows \<Longrightarrow> (\<And>r. p r \<Longrightarrow> key (f r) = key r) \<Longrightarrow> (\<And>r. r \<in> set rows \<Longrightarrow> p r \<Longrightarrow> q r \<Longrightarrow> q (f r))
     \<Longrightarrow> table_ok key n q (sql_update p f rows)"
  by (auto simp: table_ok_def map_sql_update intro: list_all_sql_update)

lemma table_ok_delete: "table_ok key n q rows \<Longrightarrow> table_ok key n q (sql_delete p rows)"
  by (simp add: table_ok_def)

lemma table_ok_set_status:
  "table_ok key n q rows \<Longrightarrow> (\<And>r. key (mark s now r) = key r) \<Longrightarrow> (\<And>r. r \<in> set rows \<Longrightarrow> key r = k \<Longrightarrow> q r \<Longrightarrow> q (mark s now r))
     \<Longrightarrow> table_ok key n q (set_status key mark k s now rows)"
  unfolding set_status_def by (rule table_ok_update) auto

definition job_row_ok :: "JobExecution \<Rightarrow> bool" where
  "job_row_ok j \<longleftrightarrow> je_Status j \<in> set job_statuses \<and> je_ExecutionConstraint j \<in> {''NONE'', ''INPUTS_READY''}"

definition wf_jobs :: "job_db \<Rightarrow> bool" where
  "wf_jobs db \<longleftrightarrow>
     table_ok je_ID (job_seq db) job_row_ok (job_executions db)
     \<and> table_ok ji_ID (iface_seq db) (\<lambda>f. ji_InterfaceType f \<in> set interface_types) (job_interfaces db)
     \<and> table_ok jip_ID (ifpeer_seq db) (\<lambda>p. jip_PeerMountFunction p \<in> set mount_functions) (job_interface_peers db)
     \<and> table_ok we_ID (wexec_seq db) (\<lambda>e. we_Status e \<in> set wexec_statuses) (workflow_executions db)
     \<and> table_ok wj_ID (wjob_seq db) (\<lambda>w. wj_Status w \<in> set wjob_statuses) (workflow_jobs db)
     \<and> table_ok sv_ID (service_seq db) service_check (services db)
     \<and> table_ok si_ID (siface_seq db) (\<lambda>f. si_InterfaceType f \<in> set interface_types) (service_interfaces db)
     \<and> table_ok dt_ID (transfer_seq db) (\<lambda>_. True) (data_transfers db)
     \<and> distinct (map dt_TransferID (data_transfers db))
     \<and> set (job_ids (payments db)) = je_ID ` set (job_executions db)"

section \<open>Every statement\<close>

text \<open>
  One statement of the job manager's tables: the database before and after it, whatever the
  connection does.  Payment statements change the payment rows only.
\<close>

inductive job_step :: "job_db \<Rightarrow> job_db \<Rightarrow> bool" where
  create_job: "job_step db (snd (CreateJobExecution c now j db))"
| job_status: "job_step db (snd (UpdateJobStatus c now i s e db))"
| remote_id: "job_step db (snd (UpdateRemoteJobExecutionID c now i r db))"
| start_received: "job_step db (snd (MarkJobStartReceived c now i db))"
| create_interface: "job_step db (snd (CreateJobInterface c now f db))"
| create_peer: "job_step db (snd (CreateJobInterfacePeer c now p db))"
| peer_job: "job_step db (snd (UpdateJobInterfacePeerJobExecutionID c i p x w db))"
| peer_ack: "job_step db (snd (MarkInterfacePeerAcknowledged c i db))"
| create_wexec: "job_step db (snd (CreateWorkflowExecution c now w db))"
| create_wjob: "job_step db (snd (CreateWorkflowJob c now ex w n nm sv pe db))"
| wjob_status: "job_step db (snd (UpdateWorkflowJobStatus c c' now i s res e db))"
| wexec_status: "job_step db (snd (UpdateWorkflowExecutionStatus c now i s e db))"
| wjob_remote: "job_step db (snd (UpdateWorkflowJobRemoteExecutionID c now i r db))"
| add_service: "job_step db (snd (AddService c now sv db))"
| update_service: "job_step db (snd (UpdateService c now sv db))"
| delete_service: "job_step db (snd (DeleteService c i db))"
| service_status: "job_step db (snd (UpdateServiceStatus c now i s db))"
| service_pricing: "job_step db (snd (UpdateServicePricing c now i a t n u ns db))"
| add_service_interface: "job_step db (snd (AddServiceInterface c now si db))"
| delete_service_interface: "job_step db (snd (DeleteServiceInterface c i db))"
| delete_service_interfaces: "job_step db (snd (DeleteServiceInterfaces c i db))"
| create_transfer: "job_step db (snd (CreateDataTransfer c now t db))"
| progress: "job_step db (snd (UpdateTransferProgress c now t cs cr ca b db))"
| checkpoint: "job_step db (snd (UpdateTransferCheckpoint c now t db))"
| complete: "job_step db (snd (CompleteTransfer c now t db))"
| fail: "job_step db (snd (FailTransfer c now t e db))"
| pause: "job_step db (snd (PauseTransfer c now t db))"
| resume: "job_step db (snd (ResumeTransfer c now t db))"
| delete_transfer: "job_step db (snd (DeleteTransfer c t db))"
| payment: "payment_step (payments db) ps \<Longrightarrow> job_ids ps = job_ids (payments db) \<Longrightarrow> job_step db (db\<lparr>payments := ps\<rparr>)"

lemma mark_job_fields [simp]:
  "je_ID (mark_job e s now j) = je_ID j" "je_Status (mark_job e s now j) = s"
  "je_ExecutionConstraint (mark_job e s now j) = je_ExecutionConstraint j"
  "je_WorkflowJobID (mark_job e s now j) = je_WorkflowJobID j" "je_ServiceID (mark_job e s now j) = je_ServiceID j"
  "je_ExecutorPeerID (mark_job e s now j) = je_ExecutorPeerID j"
  "je_OrderingPeerID (mark_job e s now j) = je_OrderingPeerID j"
  "je_StartReceived (mark_job e s now j) = je_StartReceived j"
  by (simp_all add: mark_job_def)

lemma mark_wjob_fields [simp]:
  "wj_ID (mark_wjob r e s now w) = wj_ID w" "wj_Status (mark_wjob r e s now w) = s"
  by (simp_all add: mark_wjob_def)

lemma mark_wexec_fields [simp]:
  "we_ID (mark_wexec e s now x) = we_ID x" "we_Status (mark_wexec e s now x) = s"
  by (simp_all add: mark_wexec_def)

interpretation jobs: status_table je_ID je_Status "mark_job e" for e by unfold_locales simp_all

interpretation wjobs: status_table wj_ID wj_Status "mark_wjob r e" for r e by unfold_locales simp_all

interpretation wexecs: status_table we_ID we_Status "mark_wexec e" for e by unfold_locales simp_all

lemmas job_statements =
  UpdateJobStatus_def UpdateRemoteJobExecutionID_def MarkJobStartReceived_def
  CreateJobInterface_def CreateJobInterfacePeer_def MarkInterfacePeerAcknowledged_def
  CreateWorkflowExecution_def CreateWorkflowJob_def UpdateWorkflowJobStatus_def UpdateWorkflowExecutionStatus_def
  UpdateWorkflowJobRemoteExecutionID_def AddService_def UpdateService_def DeleteService_def UpdateServiceStatus_def
  UpdateServicePricing_def AddServiceInterface_def DeleteServiceInterface_def DeleteServiceInterfaces_def

lemmas transfer_statements =
  UpdateTransferProgress_def UpdateTransferCheckpoint_def CompleteTransfer_def FailTransfer_def PauseTransfer_def
  ResumeTransfer_def update_transfer_def

text \<open>Replacing the rows of one table by well-formed ones.\<close>

lemma wf_jobs_updates:
  assumes "wf_jobs db"
  shows "table_ok je_ID (job_seq db) job_row_ok js \<Longrightarrow> map je_ID js = map je_ID (job_executions db)
           \<Longrightarrow> wf_jobs (db\<lparr>job_executions := js\<rparr>)"
    and "table_ok ji_ID n (\<lambda>f. ji_InterfaceType f \<in> set interface_types) fs
           \<Longrightarrow> wf_jobs (db\<lparr>job_interfaces := fs, iface_seq := n\<rparr>)"
    and "table_ok jip_ID n (\<lambda>p. jip_PeerMountFunction p \<in> set mount_functions) ps
           \<Longrightarrow> wf_jobs (db\<lparr>job_interface_peers := ps, ifpeer_seq := n\<rparr>)"
    and "table_ok jip_ID (ifpeer_seq db) (\<lambda>p. jip_PeerMountFunction p \<in> set mount_functions) ps
           \<Longrightarrow> wf_jobs (db\<lparr>job_interface_peers := ps\<rparr>)"
    and "table_ok we_ID n (\<lambda>e. we_Status e \<in> set wexec_statuses) es
           \<Longrightarrow> wf_jobs (db\<lparr>workflow_executions := es, wexec_seq := n\<rparr>)"
    and "table_ok we_ID (wexec_seq db) (\<lambda>e. we_Status e \<in> set wexec_statuses) es
           \<Longrightarrow> wf_jobs (db\<lparr>workflow_executions := es\<rparr>)"
    and "table_ok wj_ID n (\<lambda>w. wj_Status w \<in> set wjob_statuses) ws
           \<Longrightarrow> wf_jobs (db\<lparr>workflow_jobs := ws, wjob_seq := n\<rparr>)"
    and "table_ok wj_ID (wjob_seq db) (\<lambda>w. wj_Status w \<in> set wjob_statuses) ws
           \<Longrightarrow> wf_jobs (db\<lparr>workflow_jobs := ws\<rparr>)"
    and "table_ok sv_ID n service_check ss \<Longrightarrow> wf_jobs (db\<lparr>services := ss, service_seq := n\<rparr>)"
    and "table_ok sv_ID (service_seq db) service_check ss \<Longrightarrow> wf_jobs (db\<lparr>services := ss\<rparr>)"
    and "table_ok sv_ID (service_seq db) service_check ss
           \<Longrightarrow> table_ok si_ID (siface_seq db) (\<lambda>f. si_InterfaceType f \<in> set interface_types) sfs
           \<Longrightarrow> wf_jobs (db\<lparr>services := ss, service_interfaces := sfs\<rparr>)"
    and "table_ok si_ID n (\<lambda>f. si_InterfaceType f \<in> set interface_types) sfs
           \<Longrightarrow> wf_jobs (db\<lparr>service_interfaces := sfs, siface_seq := n\<rparr>)"
    and "table_ok si_ID (siface_seq db) (\<lambda>f. si_InterfaceType f \<in> set interface_types) sfs
           \<Longrightarrow> wf_jobs (db\<lparr>service_interfaces := sfs\<rparr>)"
    and "table_ok dt_ID n (\<lambda>_. True) ts \<Longrightarrow> distinct (map dt_TransferID ts)
           \<Longrightarrow> wf_jobs (db\<lparr>data_transfers := ts, transfer_seq := n\<rparr>)"
    and "table_ok dt_ID (transfer_seq db) (\<lambda>_. True) ts \<Longrightarrow> distinct (map dt_TransferID ts)
           \<Longrightarrow> wf_jobs (db\<lparr>data_transfers := ts\<rparr>)"
  using assms by (simp_all add: wf_jobs_def flip: set_map)

lemma wf_jobs_tables:
  assumes "wf_jobs db"
  shows "table_ok je_ID (job_seq db) job_row_ok (job_executions db)"
    and "table_ok ji_ID (iface_seq db) (\<lambda>f. ji_InterfaceType f \<in> set interface_types) (job_interfaces db)"
    and "table_ok jip_ID (ifpeer_seq db) (\<lambda>p. jip_PeerMountFunction p \<in> set mount_functions) (job_interface_peers db)"
    and "table_ok we_ID (wexec_seq db) (\<lambda>e. we_Status e \<in> set wexec_statuses) (workflow_executions db)"
    and "table_ok wj_ID (wjob_seq db) (\<lambda>w. wj_Status w \<in> set wjob_statuses) (workflow_jobs db)"
    and "table_ok sv_ID (service_seq db) service_check (services db)"
    and "table_ok si_ID (siface_seq db) (\<lambda>f. si_InterfaceType f \<in> set interface_types) (service_interfaces db)"
    and "table_ok dt_ID (transfer_seq db) (\<lambda>_. True) (data_transfers db)"
    and "distinct (map dt_TransferID (data_transfers db))"
  using assms by (simp_all add: wf_jobs_def)

lemmas wf_intros = wf_jobs_updates wf_jobs_tables table_ok_insert table_ok_update table_ok_delete table_ok_set_status

lemma wf_create_job: "wf_jobs db \<Longrightarrow> wf_jobs (snd (CreateJobExecution c now j db))"
  by (auto simp: wf_jobs_def CreateJobExecution_def Let_def job_row_ok_def intro!: table_ok_insert)

lemma wf_job_rows:
  assumes "wf_jobs db"
  shows "wf_jobs (snd (UpdateJobStatus c now i s e db))"
    and "wf_jobs (snd (UpdateRemoteJobExecutionID c now i r db))"
    and "wf_jobs (snd (MarkJobStartReceived c now i db))"
  using assms
  by (auto simp: UpdateJobStatus_def UpdateRemoteJobExecutionID_def MarkJobStartReceived_def
      job_row_ok_def map_sql_update jobs.keys_set intro!: wf_intros)

lemma wf_interfaces:
  assumes "wf_jobs db"
  shows "wf_jobs (snd (CreateJobInterface c now f db))" and "wf_jobs (snd (CreateJobInterfacePeer c now p db))"
    and "wf_jobs (snd (MarkInterfacePeerAcknowledged c i db))"
    and "wf_jobs (snd (UpdateJobInterfacePeerJobExecutionID c k q x w db))"
  using assms
  by (auto simp: CreateJobInterface_def CreateJobInterfacePeer_def MarkInterfacePeerAcknowledged_def
      UpdateJobInterfacePeerJobExecutionID_def Let_def intro!: wf_intros split: if_splits)

lemma pending_statuses [simp]: "''PENDING'' \<in> set wexec_statuses" "''PENDING'' \<in> set wjob_statuses"
  by (simp_all add: wexec_statuses_def wjob_statuses_def)

lemma wf_workflows:
  assumes "wf_jobs db"
  shows "wf_jobs (snd (CreateWorkflowExecution c now w db))"
    and "wf_jobs (snd (CreateWorkflowJob c now ex w n nm sv pe db))"
    and "wf_jobs (snd (UpdateWorkflowJobStatus c c' now i s res e db))"
    and "wf_jobs (snd (UpdateWorkflowExecutionStatus c now i s e db))"
    and "wf_jobs (snd (UpdateWorkflowJobRemoteExecutionID c now i r db))"
  using assms
  by (auto simp: CreateWorkflowExecution_def CreateWorkflowJob_def UpdateWorkflowJobStatus_def
      UpdateWorkflowExecutionStatus_def UpdateWorkflowJobRemoteExecutionID_def Let_def
      intro!: wf_intros split: option.splits)

lemma service_check_status:
  "service_check s \<Longrightarrow> st \<in> {''ACTIVE'', ''INACTIVE''} \<Longrightarrow> service_check (s\<lparr>sv_Status := st, sv_UpdatedAt := now\<rparr>)"
  by (simp add: service_check_def)

lemma service_check_times [simp]:
  "service_check (s\<lparr>sv_ID := i, sv_CreatedAt := t, sv_UpdatedAt := u\<rparr>) = service_check s"
  "service_check (s\<lparr>sv_CreatedAt := t, sv_UpdatedAt := u\<rparr>) = service_check s"
  "service_check (s\<lparr>sv_ID := i\<rparr>) = service_check s"
  by (simp_all add: service_check_def)

lemma service_check_pricing:
  "service_check r \<Longrightarrow>
   service_check (s\<lparr>PricingAmount := a, PricingType := t, PricingInterval := n, PricingUnit := u,
                    AcceptedPaymentNetworks := ns, sv_UpdatedAt := now\<rparr>) \<Longrightarrow>
   service_check (r\<lparr>PricingAmount := a, PricingType := t, PricingInterval := n, PricingUnit := u,
                    AcceptedPaymentNetworks := ns, sv_UpdatedAt := now\<rparr>)"
  by (simp add: service_check_def)

lemma wf_services:
  assumes "wf_jobs db"
  shows "wf_jobs (snd (AddService c now sv db))" and "wf_jobs (snd (UpdateService c now sv db))"
    and "wf_jobs (snd (DeleteService c i db))" and "wf_jobs (snd (UpdateServiceStatus c now i s db))"
    and "wf_jobs (snd (UpdateServicePricing c now i a t n u ns db))"
    and "wf_jobs (snd (AddServiceInterface c now si db))"
    and "wf_jobs (snd (DeleteServiceInterface c i db))" and "wf_jobs (snd (DeleteServiceInterfaces c i db))"
  subgoal using assms by (auto simp: AddService_def Let_def intro!: wf_intros)
  subgoal using assms by (auto simp: UpdateService_def intro!: wf_intros)
  subgoal using assms by (auto simp: DeleteService_def intro!: wf_intros)
  subgoal using assms by (auto simp: UpdateServiceStatus_def intro!: wf_intros service_check_status)
  subgoal using assms by (auto simp: UpdateServicePricing_def Let_def intro!: wf_intros split: option.splits elim!: service_check_pricing)
  subgoal using assms by (auto simp: AddServiceInterface_def Let_def intro!: wf_intros)
  subgoal using assms by (auto simp: DeleteServiceInterface_def intro!: wf_intros)
  subgoal using assms by (auto simp: DeleteServiceInterfaces_def intro!: wf_intros)
  done

lemma wf_transfers:
  assumes "wf_jobs db"
  shows "wf_jobs (snd (CreateDataTransfer c now t db))" and "wf_jobs (snd (DeleteTransfer c k db))"
    and "(\<And>r. dt_ID (f r) = dt_ID r) \<Longrightarrow> (\<And>r. dt_TransferID (f r) = dt_TransferID r)
           \<Longrightarrow> wf_jobs (snd (update_transfer strict c k f db))"
  using assms
  by (auto simp: CreateDataTransfer_def DeleteTransfer_def update_transfer_def Let_def map_sql_update wf_jobs_tables
      intro!: wf_intros)

lemma wf_job_step: "job_step db db' \<Longrightarrow> wf_jobs db \<Longrightarrow> wf_jobs db'"
proof (induction rule: job_step.induct)
  case (payment db ps)
  then show ?case by (simp add: wf_jobs_def)
qed (auto intro: wf_create_job wf_job_rows wf_interfaces wf_workflows wf_services wf_transfers
      simp: UpdateTransferProgress_def UpdateTransferCheckpoint_def CompleteTransfer_def FailTransfer_def
        PauseTransfer_def ResumeTransfer_def)

section \<open>Finished workflow jobs\<close>

definition wj_status :: "job_db \<Rightarrow> int \<Rightarrow> string option" where
  "wj_status db i = map_option wj_Status (row_at wj_ID i (workflow_jobs db))"

definition finished :: "string option \<Rightarrow> bool" where
  "finished s \<longleftrightarrow> s = Some ''COMPLETED'' \<or> s = Some ''ERRORED''"

lemma wj_status_cong: "workflow_jobs db = workflow_jobs db' \<Longrightarrow> wj_status db i = wj_status db' i"
  by (simp add: wj_status_def)

lemma row_at_append_Some: "row_at key k rows = Some r \<Longrightarrow> row_at key k (rows @ rs) = Some r"
  by (simp add: row_at_def sql_first_append)

lemma wj_status_create:
  "wj_status db i = Some s \<Longrightarrow> wj_status (snd (CreateWorkflowJob c now ex w n nm sv pe db)) i = Some s"
  by (auto simp: wj_status_def CreateWorkflowJob_def Let_def row_at_append_Some)

lemma wj_status_update:
  "wj_status (snd (UpdateWorkflowJobStatus c c' now k s res e db)) i =
     (if i = k \<and> fst (UpdateWorkflowJobStatus c c' now k s res e db) = None \<and> \<not> finished (wj_status db i)
      then Some s else wj_status db i)"
  by (auto simp: wj_status_def UpdateWorkflowJobStatus_def finished_def wjobs.status_at_set wjobs.row_at_set_same split: option.splits)

lemma wj_status_remote: "wj_status (snd (UpdateWorkflowJobRemoteExecutionID c now k r db)) i = wj_status db i"
  by (auto simp: wj_status_def UpdateWorkflowJobRemoteExecutionID_def intro!: row_at_update_proj)

lemma wj_status_frame:
  "workflow_jobs (snd (CreateJobExecution c now j db)) = workflow_jobs db"
  "workflow_jobs (snd (UpdateJobStatus c now i s e db)) = workflow_jobs db"
  "workflow_jobs (snd (UpdateRemoteJobExecutionID c now i r db)) = workflow_jobs db"
  "workflow_jobs (snd (MarkJobStartReceived c now i db)) = workflow_jobs db"
  "workflow_jobs (snd (CreateJobInterface c now f db)) = workflow_jobs db"
  "workflow_jobs (snd (CreateJobInterfacePeer c now p db)) = workflow_jobs db"
  "workflow_jobs (snd (MarkInterfacePeerAcknowledged c i db)) = workflow_jobs db"
  "workflow_jobs (snd (UpdateJobInterfacePeerJobExecutionID c i q x w db)) = workflow_jobs db"
  "workflow_jobs (snd (CreateWorkflowExecution c now w db)) = workflow_jobs db"
  "workflow_jobs (snd (UpdateWorkflowExecutionStatus c now i s e db)) = workflow_jobs db"
  "workflow_jobs (snd (AddService c now sv db)) = workflow_jobs db"
  "workflow_jobs (snd (UpdateService c now sv db)) = workflow_jobs db"
  "workflow_jobs (snd (DeleteService c i db)) = workflow_jobs db"
  "workflow_jobs (snd (UpdateServiceStatus c now i s db)) = workflow_jobs db"
  "workflow_jobs (snd (UpdateServicePricing c now i a t n u ns db)) = workflow_jobs db"
  "workflow_jobs (snd (AddServiceInterface c now si db)) = workflow_jobs db"
  "workflow_jobs (snd (DeleteServiceInterface c i db)) = workflow_jobs db"
  "workflow_jobs (snd (DeleteServiceInterfaces c i db)) = workflow_jobs db"
  "workflow_jobs (snd (CreateDataTransfer c now dt db)) = workflow_jobs db"
  "workflow_jobs (snd (DeleteTransfer c k db)) = workflow_jobs db"
  "workflow_jobs (snd (update_transfer strict c k g db)) = workflow_jobs db"
  by (auto simp: CreateJobExecution_def UpdateJobInterfacePeerJobExecutionID_def CreateDataTransfer_def DeleteTransfer_def
      update_transfer_def job_statements Let_def split: option.splits if_splits)

lemma finished_step: "job_step db db' \<Longrightarrow> finished (wj_status db i) \<Longrightarrow> wj_status db' i = wj_status db i"
proof (induction rule: job_step.induct)
  case (create_wjob db c now ex w n nm sv pe)
  then show ?case by (auto simp: finished_def wj_status_create)
next
  case (wjob_status db c c' now k s res e)
  then show ?case by (simp add: wj_status_update)
next
  case (wjob_remote db c now k r)
  then show ?case by (simp add: wj_status_remote)
qed (rule wj_status_cong, simp add: wj_status_frame UpdateTransferProgress_def
      UpdateTransferCheckpoint_def CompleteTransfer_def FailTransfer_def PauseTransfer_def ResumeTransfer_def)+

lemma finished_reachable:
  assumes "job_step\<^sup>*\<^sup>* db db'" and "finished (wj_status db i)"
  shows "wj_status db' i = wj_status db i"
  using assms by (induction rule: rtranclp_induct) (auto simp: finished_step)

definition empty_job_db :: job_db where
  "empty_job_db =
     \<lparr>job_executions = [], job_seq = 0, job_interfaces = [], iface_seq = 0, job_interface_peers = [], ifpeer_seq = 0,
      workflow_ids = [], workflow_executions = [], wexec_seq = 0, workflow_jobs = [], wjob_seq = 0, services = [],
      service_seq = 0, service_interfaces = [], siface_seq = 0, data_transfers = [], transfer_seq = 0,
      payments = \<lparr>job_payments = [], payment_seq = 0, job_ids = []\<rparr>\<rparr>"

lemma wf_jobs_reachable:
  assumes "job_step\<^sup>*\<^sup>* db db'" and "wf_jobs db"
  shows "wf_jobs db'"
  using assms by (induction rule: rtranclp_induct) (auto intro: wf_job_step)

section \<open>Properties\<close>


definition sample_wjobs :: job_db where
  "sample_wjobs =
     snd (UpdateWorkflowJobStatus good_conn good_conn 5 1 ''COMPLETED'' None []
       (snd (CreateWorkflowJob (good_conn\<lparr>fk_on := False\<rparr>) 4 1 1 7 ''job'' 3 ''executor'' empty_job_db)))"

lemma sample_wjobs_reachable: "job_step\<^sup>*\<^sup>* empty_job_db sample_wjobs"
  unfolding sample_wjobs_def by (blast intro: job_step.intros rtranclp.rtrancl_into_rtrancl rtranclp.rtrancl_refl)


end
