(* ===== verification/Job_Paths.thy ===== *)
theory Job_Paths
  imports RN_Prelude
begin

text \<open>
  Where the data of a job lies on disk: \<open>internal/utils/path_builder.go\<close> and
  \<open>PathExistsWithContent\<close> of \<open>internal/utils/paths.go\<close>, over \<open>filepath.Clean\<close> and
  \<open>filepath.Join\<close> for the Unix separator.  The file system is a function from paths to what
  \<open>os.Stat\<close> and \<open>os.ReadDir\<close> find there.
\<close>

section \<open>Cleaning and joining paths\<close>

text \<open>One element of a path: empty elements and \<open>.\<close> vanish, \<open>..\<close> removes the element before it; above the root it vanishes too.\<close>

definition clean_step :: "bool \<Rightarrow> string list \<Rightarrow> string \<Rightarrow> string list" where
  "clean_step rooted stack c =
     (if c = [] \<or> c = ''.'' then stack
      else if c = ''..'' then
        (case stack of
           [] \<Rightarrow> if rooted then [] else [c]
         | t # ts \<Rightarrow> if t = ''..'' then c # stack else ts)
      else c # stack)"

fun Join_strings :: "string list \<Rightarrow> string" where
  "Join_strings [] = []"
| "Join_strings [x] = x"
| "Join_strings (x # xs) = x @ CHR ''/'' # Join_strings xs"

definition clean_elems :: "bool \<Rightarrow> string \<Rightarrow> string list" where
  "clean_elems rooted p = rev (foldl (clean_step rooted) [] (Split p CHR ''/''))"

definition Clean :: "string \<Rightarrow> string" where
  "Clean p =
     (if p = [] then ''.''
      else if HasPrefix p ''/'' then CHR ''/'' # Join_strings (clean_elems True p)
      else let body = Join_strings (clean_elems False p) in if body = [] then ''.'' else body)"

definition filepath_Join :: "string list \<Rightarrow> string" where
  "filepath_Join elem = (case dropWhile (\<lambda>e. e = []) elem of [] \<Rightarrow> [] | es \<Rightarrow> Clean (Join_strings es))"

section \<open>The path builder\<close>

record JobPathInfo =
  OrchestratorPeerID :: string
  pi_WorkflowJobID :: int
  pi_ExecutorPeerID :: string
  pi_JobExecutionID :: int
  ReceiverPeerID :: string
  ReceiverJobExecID :: int

datatype PathType = PathTypeInput | PathTypeOutput | PathTypeMounts | PathTypePackage | PathTypeLogs

fun path_type_string :: "PathType \<Rightarrow> string" where
  "path_type_string PathTypeInput = ''input''"
| "path_type_string PathTypeOutput = ''output''"
| "path_type_string PathTypeMounts = ''mounts''"
| "path_type_string PathTypePackage = ''package''"
| "path_type_string PathTypeLogs = ''logs''"

definition BuildJobPath :: "string \<Rightarrow> JobPathInfo \<Rightarrow> PathType \<Rightarrow> string" where
  "BuildJobPath baseDir info pathType =
     filepath_Join [baseDir, ''workflows'', OrchestratorPeerID info, itoa (pi_WorkflowJobID info), ''jobs'',
           pi_ExecutorPeerID info, itoa (pi_JobExecutionID info), path_type_string pathType]"

definition BuildJobMountPath :: "string \<Rightarrow> JobPathInfo \<Rightarrow> string \<Rightarrow> string" where
  "BuildJobMountPath baseDir info mountPath =
     filepath_Join [BuildJobPath baseDir info PathTypeMounts, mountPath]"

definition BuildLocalPeerJobPath :: "string \<Rightarrow> string \<Rightarrow> int \<Rightarrow> PathType \<Rightarrow> string" where
  "BuildLocalPeerJobPath baseDir orchestratorPeerID workflowJobID pathType =
     BuildJobPath baseDir
       \<lparr>OrchestratorPeerID = orchestratorPeerID, pi_WorkflowJobID = workflowJobID,
        pi_ExecutorPeerID = orchestratorPeerID, pi_JobExecutionID = 0, ReceiverPeerID = [],
        ReceiverJobExecID = 0\<rparr> pathType"

definition BuildTransferSourcePath :: "string \<Rightarrow> JobPathInfo \<Rightarrow> string \<Rightarrow> string \<Rightarrow> string" where
  "BuildTransferSourcePath baseDir info interfaceType interfacePath =
     (if interfaceType \<in> {''STDOUT'', ''STDERR'', ''LOGS''} then BuildJobPath baseDir info PathTypeOutput
      else if interfaceType = ''MOUNT'' then BuildJobMountPath baseDir info interfacePath
      else BuildJobPath baseDir info PathTypeOutput)"

definition BuildTransferDestinationPath :: "string \<Rightarrow> JobPathInfo \<Rightarrow> string \<Rightarrow> string \<Rightarrow> string" where
  "BuildTransferDestinationPath baseDir info interfaceType interfacePath =
     (let basePath = filepath_Join [baseDir, ''workflows'', OrchestratorPeerID info, itoa (pi_WorkflowJobID info),
                           ''jobs'', pi_ExecutorPeerID info, itoa (pi_JobExecutionID info),
                           ReceiverPeerID info, itoa (ReceiverJobExecID info)]
      in if interfaceType = ''STDIN'' then filepath_Join [basePath, path_type_string PathTypeInput]
         else if interfaceType = ''MOUNT'' then filepath_Join [basePath, path_type_string PathTypeMounts, interfacePath]
         else filepath_Join [basePath, path_type_string PathTypeInput])"

section \<open>The file system\<close>

datatype fs_entry = NotExist | StatFails | RegularFile | Directory nat | ReadDirFails

type_synonym fs = "string \<Rightarrow> fs_entry"

definition PathExistsWithContent :: "fs \<Rightarrow> string \<Rightarrow> unit + bool" where
  "PathExistsWithContent files path =
     (case files path of
        NotExist \<Rightarrow> Inr False
      | StatFails \<Rightarrow> Inl ()
      | RegularFile \<Rightarrow> Inr True
      | ReadDirFails \<Rightarrow> Inl ()
      | Directory entries \<Rightarrow> Inr (entries > 0))"

section \<open>Joining in steps\<close>

text \<open>The elements a cleaned rooted path consists of.\<close>

definition plain_elem :: "string \<Rightarrow> bool" where
  "plain_elem c \<longleftrightarrow> c \<noteq> [] \<and> c \<noteq> ''.'' \<and> c \<noteq> ''..'' \<and> CHR ''/'' \<notin> set c"

lemma Split_sep_snoc:
  "Split (xs @ CHR ''/'' # ys) CHR ''/'' = Split xs CHR ''/'' @ Split ys CHR ''/''"
  by (induction xs) (auto split: list.splits)

lemma Split_elems: "c \<in> set (Split p CHR ''/'') \<Longrightarrow> CHR ''/'' \<notin> set c"
  by (induction p arbitrary: c) (auto split: if_splits list.splits)

lemma Split_Join_strings:
  "xs \<noteq> [] \<Longrightarrow> \<forall>x\<in>set xs. CHR ''/'' \<notin> set x \<Longrightarrow> Split (Join_strings xs) CHR ''/'' = xs"
  by (induction xs rule: Join_strings.induct) (auto simp: Split_sep_snoc Split_no_sep)

lemma Join_strings_Split:
  "xs \<noteq> [] \<Longrightarrow> Split (Join_strings xs) CHR ''/'' = concat (map (\<lambda>x. Split x CHR ''/'') xs)"
  by (induction xs rule: Join_strings.induct) (auto simp: Split_sep_snoc)

lemma clean_step_plain:
  "list_all plain_elem stack \<Longrightarrow> CHR ''/'' \<notin> set c \<Longrightarrow> list_all plain_elem (clean_step True stack c)"
  by (auto simp: clean_step_def plain_elem_def split: list.splits)

lemma foldl_clean_plain:
  "list_all plain_elem stack \<Longrightarrow> \<forall>c\<in>set cs. CHR ''/'' \<notin> set c
     \<Longrightarrow> list_all plain_elem (foldl (clean_step True) stack cs)"
  by (induction cs arbitrary: stack) (auto intro: clean_step_plain)

lemma clean_elems_plain: "list_all plain_elem (clean_elems True p)"
  using foldl_clean_plain [of "[]" "Split p CHR ''/''"] by (auto simp: clean_elems_def Split_elems)

lemma foldl_plain: "list_all plain_elem cs \<Longrightarrow> foldl (clean_step True) stack cs = rev cs @ stack"
  by (induction cs arbitrary: stack) (auto simp: clean_step_def plain_elem_def)

text \<open>Cleaning what is already clean changes nothing, also as the first part of a longer path.\<close>

lemma elems_of_clean:
  assumes "list_all plain_elem es"
  shows "foldl (clean_step True) [] (Split (CHR ''/'' # Join_strings es) CHR ''/'') = rev es"
proof (cases "es = []")
  case False
  moreover have "Split (Join_strings es) CHR ''/'' = es"
    using assms False by (intro Split_Join_strings) (auto simp: list_all_iff plain_elem_def)
  ultimately show ?thesis using foldl_plain [OF assms] by (simp add: clean_step_def)
qed (simp add: clean_step_def)

lemma Join_rooted:
  assumes "HasPrefix b ''/''"
  shows "filepath_Join (b # es) = CHR ''/'' # Join_strings (clean_elems True (Join_strings (b # es)))"
proof -
  have ne: "b \<noteq> []" using assms by auto
  have "HasPrefix (Join_strings (b # es)) ''/''" using assms ne by (cases es; cases b) auto
  then show ?thesis using ne by (auto simp: filepath_Join_def Clean_def)
qed

lemma Join_rooted_prefix: "HasPrefix b ''/'' \<Longrightarrow> HasPrefix (filepath_Join (b # es)) ''/''"
  by (simp add: Join_rooted)

lemma Join_Join:
  assumes "HasPrefix b ''/''"
  shows "filepath_Join (filepath_Join (b # es) # fs) = filepath_Join (b # es @ fs)"
proof -
  let ?e = "clean_elems True (Join_strings (b # es))"
  have p: "list_all plain_elem ?e" by (rule clean_elems_plain)
  have "clean_elems True (Join_strings (filepath_Join (b # es) # fs)) = clean_elems True (Join_strings (b # es @ fs))"
    using elems_of_clean [OF p] Join_strings_Split [of "b # es"]
    by (simp add: clean_elems_def Join_strings_Split Join_rooted [OF assms])
  then show ?thesis
    using Join_rooted [OF assms] Join_rooted [OF Join_rooted_prefix [OF assms]] by simp
qed

text \<open>Leading slashes of the later elements do not matter.\<close>

lemma Join_drop_slash:
  assumes "HasPrefix b ''/''"
  shows "filepath_Join (b # es @ [CHR ''/'' # p]) = filepath_Join (b # es @ [p])"
  using Join_rooted [OF assms] by (simp add: clean_elems_def Join_strings_Split clean_step_def)

lemma foldl_clean_pop: "foldl (clean_step True) stack (replicate n ''..'') = drop n stack"
  if "list_all plain_elem stack"
  using that by (induction n arbitrary: stack) (auto simp: clean_step_def plain_elem_def split: list.splits)

end
