(* ===== verification/Jobs.thy ===== *)
theory Jobs
  imports Job_Store Job_Paths Escrow
begin

text \<open>
  The job manager (\<open>internal/core/job_manager.go\<close>): accepting a job from a peer and taking its
  payment, starting it, deciding when its inputs and output destinations are ready, running it,
  settling or refunding the payment when it ends, cancelling it, and the status updates it sends and
  receives.  The state is the database and the fields of \<open>JobManager\<close> the code changes.  A call
  takes an environment: the clock, the connections its statements run on, the facilitator's replies,
  the file system and the texts of the driver's errors.  A call that panics returns \<open>Panic\<close> together with the state it left behind.
  Running a service (the data worker, a container, a process) enters as its outcome.
\<close>

section \<open>State and environment\<close>

record JobStatusUpdate =
  su_JobExecutionID :: int
  su_WorkflowJobID :: int
  su_Status :: string
  su_ErrorMessage :: string
  su_UpdatedAt :: int

record JobManager =
  peerID :: string
  escrowManager :: EscrowManager
  DataDir :: string
  jm_db :: job_db
  runningJobs :: "int set"
  statusUpdateChan :: "JobStatusUpdate list"

record job_env =
  e_now :: int
  e_conns :: "nat \<Rightarrow> conn"
  e_ifaces :: "nat \<Rightarrow> nat \<Rightarrow> conn"
  e_reads :: "nat \<Rightarrow> nat \<Rightarrow> conn"
  e_recheck :: "nat \<Rightarrow> conn"
  e_verify :: "FacilitatorResponse network"
  e_settle :: "FacilitatorSettleResponse network"
  e_refund :: "FacilitatorResponse network"
  e_files :: fs
  e_text :: "db_error \<Rightarrow> string"

section \<open>When a job may run\<close>

datatype ready_error = InterfacesFailed db_error | PeersFailed db_error | PathCheckFailed string

text \<open>Where the data an interface waits for is expected, on either side of the transfer.\<close>

definition job_path_info :: "JobExecution \<Rightarrow> JobPathInfo" where
  "job_path_info job =
     \<lparr>OrchestratorPeerID = je_OrderingPeerID job, pi_WorkflowJobID = je_WorkflowJobID job,
      pi_ExecutorPeerID = je_ExecutorPeerID job, pi_JobExecutionID = je_ID job, ReceiverPeerID = [], ReceiverJobExecID = 0\<rparr>"

definition input_path :: "string \<Rightarrow> JobExecution \<Rightarrow> JobInterface \<Rightarrow> JobInterfacePeer \<Rightarrow> string" where
  "input_path dataDir job iface peer =
     (let hierarchical =
            (case jip_PeerJobExecutionID peer of
               Some sender \<Rightarrow>
                 if sender > 0 \<and> jip_PeerID peer \<noteq> [] then
                   Some \<lparr>OrchestratorPeerID = je_OrderingPeerID job, pi_WorkflowJobID = je_WorkflowJobID job,
                         pi_ExecutorPeerID = jip_PeerID peer, pi_JobExecutionID = sender,
                         ReceiverPeerID = je_ExecutorPeerID job, ReceiverJobExecID = je_ID job\<rparr>
                 else None
             | None \<Rightarrow> None)
      in if ji_InterfaceType iface = ''STDIN'' then
           (case hierarchical of
              Some info \<Rightarrow> BuildTransferDestinationPath dataDir info ''STDIN'' []
            | None \<Rightarrow> BuildJobPath dataDir (job_path_info job) PathTypeInput)
         else
           (case hierarchical of
              Some info \<Rightarrow> BuildTransferDestinationPath dataDir info ''MOUNT'' (ji_Path iface)
            | None \<Rightarrow>
                if ji_Path iface \<noteq> [] then BuildJobMountPath dataDir (job_path_info job) (ji_Path iface)
                else BuildJobPath dataDir (job_path_info job) PathTypeInput))"

fun input_peers_ready ::
  "string \<Rightarrow> fs \<Rightarrow> JobExecution \<Rightarrow> JobInterface \<Rightarrow> JobInterfacePeer list \<Rightarrow> ready_error + bool" where
  "input_peers_ready dataDir files job iface [] = Inr True"
| "input_peers_ready dataDir files job iface (peer # peers) =
     (if jip_PeerMountFunction peer \<noteq> ''OUTPUT'' then input_peers_ready dataDir files job iface peers
      else let inputPath = input_path dataDir job iface peer
           in case PathExistsWithContent files inputPath of
                Inl _ \<Rightarrow> Inl (PathCheckFailed inputPath)
              | Inr False \<Rightarrow> Inr False
              | Inr True \<Rightarrow> input_peers_ready dataDir files job iface peers)"

fun input_ifaces_ready ::
  "string \<Rightarrow> fs \<Rightarrow> (nat \<Rightarrow> conn) \<Rightarrow> JobExecution \<Rightarrow> nat \<Rightarrow> JobInterface list \<Rightarrow> job_db \<Rightarrow> ready_error + bool" where
  "input_ifaces_ready dataDir files cs job k [] db = Inr True"
| "input_ifaces_ready dataDir files cs job k (iface # ifaces) db =
     (if ji_InterfaceType iface \<noteq> ''STDIN'' \<and> ji_InterfaceType iface \<noteq> ''MOUNT''
      then input_ifaces_ready dataDir files cs job (Suc k) ifaces db
      else case GetJobInterfacePeers (cs k) (ji_ID iface) db of
             Inl e \<Rightarrow> Inl (PeersFailed e)
           | Inr peers \<Rightarrow>
               (case input_peers_ready dataDir files job iface peers of
                  Inr True \<Rightarrow> input_ifaces_ready dataDir files cs job (Suc k) ifaces db
                | r \<Rightarrow> r))"

definition checkInputsReady :: "job_env \<Rightarrow> (nat \<Rightarrow> conn) \<Rightarrow> JobManager \<Rightarrow> JobExecution \<Rightarrow> ready_error + bool" where
  "checkInputsReady env cs jm job =
     (case HasPendingTransfersForJob (cs 0) (je_ID job) (jm_db jm) of
        Inr True \<Rightarrow> Inr False
      | _ \<Rightarrow>
          (case GetJobInterfaces (cs 1) (je_ID job) (jm_db jm) of
             Inl e \<Rightarrow> Inl (InterfacesFailed e)
           | Inr interfaces \<Rightarrow>
               if je_ExecutorPeerID job = peerID jm \<and> je_ExecutionConstraint job = ''INPUTS_READY'' \<and> interfaces = []
               then Inr False
               else input_ifaces_ready (DataDir jm) (e_files env) (\<lambda>k. cs (k + 2)) job 0 interfaces (jm_db jm)))"

text \<open>Peer \<open>m\<close> of interface \<open>k\<close> looks its workflow job up on connection \<open>css k m\<close>.\<close>

fun dest_peers_ready :: "string \<Rightarrow> (nat \<Rightarrow> conn) \<Rightarrow> nat \<Rightarrow> JobInterfacePeer list \<Rightarrow> job_db \<Rightarrow> bool" where
  "dest_peers_ready me cs m [] db = True"
| "dest_peers_ready me cs m (peer # peers) db =
     (if jip_PeerMountFunction peer \<noteq> ''INPUT'' \<or> jip_PeerID peer = me then dest_peers_ready me cs (Suc m) peers db
      else case (jip_PeerJobExecutionID peer, jip_PeerWorkflowJobID peer) of
             (None, Some w) \<Rightarrow>
               (case GetWorkflowJobByID (cs m) w db of
                  Inr (Some workflowJob) \<Rightarrow>
                    wj_RemoteJobExecutionID workflowJob \<noteq> None \<and> dest_peers_ready me cs (Suc m) peers db
                | _ \<Rightarrow> False)
           | _ \<Rightarrow> dest_peers_ready me cs (Suc m) peers db)"

fun dest_ifaces_ready ::
  "string \<Rightarrow> (nat \<Rightarrow> conn) \<Rightarrow> (nat \<Rightarrow> nat \<Rightarrow> conn) \<Rightarrow> nat \<Rightarrow> JobInterface list \<Rightarrow> job_db \<Rightarrow> ready_error + bool" where
  "dest_ifaces_ready me cs css k [] db = Inr True"
| "dest_ifaces_ready me cs css k (iface # ifaces) db =
     (if ji_InterfaceType iface \<notin> {''STDOUT'', ''STDERR'', ''LOGS'', ''MOUNT''}
      then dest_ifaces_ready me cs css (Suc k) ifaces db
      else case GetJobInterfacePeers (cs k) (ji_ID iface) db of
             Inl e \<Rightarrow> Inl (PeersFailed e)
           | Inr peers \<Rightarrow>
               if dest_peers_ready me (css k) 0 peers db then dest_ifaces_ready me cs css (Suc k) ifaces db
               else Inr False)"

definition checkOutputDestinationsReady ::
  "(nat \<Rightarrow> conn) \<Rightarrow> (nat \<Rightarrow> nat \<Rightarrow> conn) \<Rightarrow> JobManager \<Rightarrow> JobExecution \<Rightarrow> ready_error + bool" where
  "checkOutputDestinationsReady cs css jm job =
     (case GetJobInterfaces (cs 0) (je_ID job) (jm_db jm) of
        Inl e \<Rightarrow> Inl (InterfacesFailed e)
      | Inr interfaces \<Rightarrow> dest_ifaces_ready (peerID jm) (\<lambda>k. cs (Suc k)) css 0 interfaces (jm_db jm))"

section \<open>Interfaces\<close>

record InterfacePeer =
  ip_PeerID :: string
  ip_PeerWorkflowJobID :: "int option"
  ip_PeerJobExecutionID :: "int option"
  ip_PeerPath :: string
  ip_PeerFileName :: "string option"
  ip_PeerMountFunction :: string
  ip_DutyAcknowledged :: bool

record ReqInterface =
  ri_Type :: string
  ri_Path :: string
  InterfacePeers :: "InterfacePeer list"

definition interface_peer_row :: "int \<Rightarrow> int option \<Rightarrow> int option \<Rightarrow> InterfacePeer \<Rightarrow> JobInterfacePeer" where
  "interface_peer_row ifaceID workflowJobID jobExecutionID peer =
     \<lparr>jip_ID = 0, jip_JobInterfaceID = ifaceID, jip_PeerID = ip_PeerID peer, jip_PeerWorkflowJobID = workflowJobID,
      jip_PeerJobExecutionID = jobExecutionID, jip_PeerPath = ip_PeerPath peer, jip_PeerFileName = ip_PeerFileName peer,
      jip_PeerMountFunction = ip_PeerMountFunction peer, jip_DutyAcknowledged = ip_DutyAcknowledged peer, jip_CreatedAt = 0\<rparr>"

text \<open>
  The loop both creators share.  \<open>ids\<close> gives the workflow job and job execution ids a peer is
  recorded with.  A failed insertion is logged and skipped, of an interface with all its peers.
\<close>

fun create_peers ::
  "(nat \<Rightarrow> conn) \<Rightarrow> int \<Rightarrow> (InterfacePeer \<Rightarrow> int option \<times> int option) \<Rightarrow> int \<Rightarrow> nat \<Rightarrow> InterfacePeer list \<Rightarrow> job_db \<Rightarrow> job_db" where
  "create_peers cs now ids ifaceID m [] db = db"
| "create_peers cs now ids ifaceID m (peer # peers) db =
     create_peers cs now ids ifaceID (Suc m) peers
       (snd (CreateJobInterfacePeer (cs m) now (interface_peer_row ifaceID (fst (ids peer)) (snd (ids peer)) peer) db))"

fun create_interfaces ::
  "(nat \<Rightarrow> nat \<Rightarrow> conn) \<Rightarrow> int \<Rightarrow> (InterfacePeer \<Rightarrow> int option \<times> int option) \<Rightarrow> int \<Rightarrow> nat \<Rightarrow> ReqInterface list \<Rightarrow> job_db \<Rightarrow> job_db" where
  "create_interfaces css now ids jobID k [] db = db"
| "create_interfaces css now ids jobID k (iface # ifaces) db =
     (case CreateJobInterface (css k 0) now
             \<lparr>ji_ID = 0, ji_JobExecutionID = jobID, ji_InterfaceType = ri_Type iface, ji_Path = ri_Path iface, ji_CreatedAt = 0\<rparr> db of
        (Inl e, db1) \<Rightarrow> create_interfaces css now ids jobID (Suc k) ifaces db1
      | (Inr ifaceID, db1) \<Rightarrow>
          create_interfaces css now ids jobID (Suc k) ifaces
            (create_peers (\<lambda>m. css k (Suc m)) now ids ifaceID 0 (InterfacePeers iface) db1))"

text \<open>In \<open>SubmitJobWithOptions\<close> the map replaces a job execution id; in \<open>CreateJobInterfaces\<close> ids come from the maps only.\<close>

definition submit_ids :: "(int \<rightharpoonup> int) \<Rightarrow> InterfacePeer \<Rightarrow> int option \<times> int option" where
  "submit_ids nodeIDToJobIDMap peer =
     (ip_PeerWorkflowJobID peer,
      case ip_PeerWorkflowJobID peer of
        None \<Rightarrow> ip_PeerJobExecutionID peer
      | Some w \<Rightarrow> (case nodeIDToJobIDMap w of Some j \<Rightarrow> Some j | None \<Rightarrow> ip_PeerJobExecutionID peer))"

definition mapped_ids :: "(int \<rightharpoonup> int) \<Rightarrow> (int \<rightharpoonup> int) \<Rightarrow> InterfacePeer \<Rightarrow> int option \<times> int option" where
  "mapped_ids nodeIDToJobIDMap nodeIDToWorkflowJobIDMap peer =
     (case ip_PeerWorkflowJobID peer of
        None \<Rightarrow> (None, None)
      | Some w \<Rightarrow> (nodeIDToWorkflowJobIDMap w, nodeIDToJobIDMap w))"

definition set_job_status :: "job_env \<Rightarrow> conn \<Rightarrow> int \<Rightarrow> string \<Rightarrow> string \<Rightarrow> JobManager \<Rightarrow> JobManager" where
  "set_job_status env c jobID status msg jm =
     jm\<lparr>jm_db := snd (UpdateJobStatus c (e_now env) jobID status msg (jm_db jm))\<rparr>"

text \<open>
  The second pass of a two-phase submission.  The reads of the readiness checks use \<open>e_reads env 0\<close>
  (inputs), \<open>e_reads env 1\<close> and \<open>e_reads env (k + 2)\<close> (destinations); the status update uses \<open>e_conns env 9\<close>.
\<close>

definition CreateJobInterfaces ::
  "job_env \<Rightarrow> JobExecution \<Rightarrow> ReqInterface list \<Rightarrow> (int \<rightharpoonup> int) \<Rightarrow> (int \<rightharpoonup> int) \<Rightarrow> JobManager \<Rightarrow> JobManager" where
  "CreateJobInterfaces env job interfaces nodeIDToJobIDMap nodeIDToWorkflowJobIDMap jm =
     (let jm1 = jm\<lparr>jm_db := create_interfaces (e_ifaces env) (e_now env)
                  (mapped_ids nodeIDToJobIDMap nodeIDToWorkflowJobIDMap) (je_ID job) 0 interfaces (jm_db jm)\<rparr>;
          ready = set_job_status env (e_conns env 9) (je_ID job) ''READY'' []
      in if je_ExecutionConstraint job = ''INPUTS_READY'' then
           if je_ExecutorPeerID job = peerID jm then
             (case checkInputsReady env (e_reads env 0) jm1 job of Inr True \<Rightarrow> ready jm1 | _ \<Rightarrow> jm1)
           else ready jm1
         else
           (case checkOutputDestinationsReady (e_reads env 1) (\<lambda>k. e_reads env (k + 2)) jm1 job of
              Inr True \<Rightarrow> ready jm1 | _ \<Rightarrow> jm1))"

section \<open>Submitting a job\<close>

datatype sig_field = SigNil | SigTyped "PaymentSignature option" | SigJson json

record JobExecutionRequest =
  rq_WorkflowJobID :: int
  rq_ServiceID :: int
  rq_ExecutorPeerID :: string
  rq_Entrypoint :: "string list option"
  rq_Commands :: "string list option"
  rq_ExecutionConstraint :: string
  rq_Interfaces :: "ReqInterface list"
  rq_OrderingPeerID :: string
  rq_PaymentSignature :: sig_field

datatype submit_error = WorkflowJobLookup db_error | WorkflowJobNotFound int | ServiceNotOnExecutor int | CreateFailed db_error

fun submit_error_text :: "(db_error \<Rightarrow> string) \<Rightarrow> submit_error \<Rightarrow> string" where
  "submit_error_text txt (WorkflowJobLookup e) = ''workflow job lookup error: '' @ txt e"
| "submit_error_text txt (WorkflowJobNotFound i) = ''workflow job '' @ itoa i @ '' not found''"
| "submit_error_text txt (ServiceNotOnExecutor i) = ''service ID '' @ itoa i @ '' not found on executor peer''"
| "submit_error_text txt (CreateFailed e) = txt e"

definition new_job_row :: "JobExecutionRequest \<Rightarrow> JobExecution" where
  "new_job_row request =
     \<lparr>je_ID = 0, je_WorkflowJobID = rq_WorkflowJobID request, je_ServiceID = rq_ServiceID request,
      je_ExecutorPeerID = rq_ExecutorPeerID request, je_OrderingPeerID = rq_OrderingPeerID request,
      je_RemoteJobExecutionID = None, je_Status = ''IDLE'', je_Entrypoint = rq_Entrypoint request,
      je_Commands = rq_Commands request, je_ExecutionConstraint = rq_ExecutionConstraint request,
      je_ConstraintDetail = [], je_StartReceived = False, je_StartedAt = None, je_EndedAt = None,
      je_ErrorMessage = [], je_CreatedAt = 0, je_UpdatedAt = 0\<rparr>"

text \<open>The checks before the row is created: \<open>Panic\<close> where a log line slices a short peer id.\<close>

definition submit_checks :: "job_env \<Rightarrow> JobManager \<Rightarrow> JobExecutionRequest \<Rightarrow> (submit_error, unit) go_result" where
  "submit_checks env jm request =
     (let workflow =
            (if rq_OrderingPeerID request = peerID jm then
               (case GetWorkflowJobByID (e_conns env 0) (rq_WorkflowJobID request) (jm_db jm) of
                  Inl e \<Rightarrow> Err (WorkflowJobLookup e)
                | Inr None \<Rightarrow> Err (WorkflowJobNotFound (rq_WorkflowJobID request))
                | Inr (Some _) \<Rightarrow> Ok ())
             else if slice8 (rq_OrderingPeerID request) = None then Panic else Ok ())
      in if workflow \<noteq> Ok () then workflow
         else if rq_ExecutorPeerID request = peerID jm then
           (case GetService (e_conns env 1) (rq_ServiceID request) (jm_db jm) of
              Inr (Some service) \<Rightarrow> Ok ()
            | _ \<Rightarrow> Err (ServiceNotOnExecutor (rq_ServiceID request)))
         else if slice8 (rq_ExecutorPeerID request) = None then Panic else Ok ())"

definition SubmitJobWithOptions ::
  "job_env \<Rightarrow> JobExecutionRequest \<Rightarrow> (int \<rightharpoonup> int) \<Rightarrow> bool \<Rightarrow> JobManager
     \<Rightarrow> (submit_error, JobExecution) go_result \<times> JobManager" where
  "SubmitJobWithOptions env request nodeIDToJobIDMap skipInterfaces jm =
     (case submit_checks env jm request of
        Panic \<Rightarrow> (Panic, jm)
      | Err e \<Rightarrow> (Err e, jm)
      | Ok _ \<Rightarrow>
          (case CreateJobExecution (e_conns env 2) (e_now env) (new_job_row request) (jm_db jm) of
             (Inl e, db1) \<Rightarrow> (Err (CreateFailed e), jm\<lparr>jm_db := db1\<rparr>)
           | (Inr job, db1) \<Rightarrow>
               if skipInterfaces then (Ok job, jm\<lparr>jm_db := db1\<rparr>)
               else
                 let jm2 = jm\<lparr>jm_db := create_interfaces (e_ifaces env) (e_now env) (submit_ids nodeIDToJobIDMap)
                                 (je_ID job) 0 (rq_Interfaces request) db1\<rparr>;
                     initialStatus =
                       (if rq_ExecutionConstraint request = ''INPUTS_READY'' \<and> rq_ExecutorPeerID request = peerID jm
                        then (case checkInputsReady env (e_reads env 0) jm2 job of Inr True \<Rightarrow> ''READY'' | _ \<Rightarrow> ''IDLE'')
                        else ''READY'')
                 in (Ok (job\<lparr>je_Status := initialStatus\<rparr>),
                     set_job_status env (e_conns env 3) (je_ID job) initialStatus [] jm2)))"

definition SubmitJob ::
  "job_env \<Rightarrow> JobExecutionRequest \<Rightarrow> JobManager \<Rightarrow> (submit_error, JobExecution) go_result \<times> JobManager" where
  "SubmitJob env request = SubmitJobWithOptions env request Map.empty False"

section \<open>A job request from a peer\<close>

text \<open>The reply's text, by the case that writes it.\<close>

datatype job_message =
  ServiceNotFoundMsg | PaymentRequiredMsg float64 | InvalidSignatureMsg | NetworkNotAcceptedMsg string "string list"
| VerificationFailedMsg escrow_error | SubmitFailedMsg submit_error | AcceptedMsg

record JobExecutionResponse =
  rs_WorkflowJobID :: int
  rs_JobExecutionID :: int
  rs_Accepted :: bool
  rs_Message :: job_message

text \<open>The payment signature as the wire format has it: a JSON object, read member by member.\<close>

definition sig_of_json :: "go_float_lib \<Rightarrow> json_object \<Rightarrow> PaymentSignature" where
  "sig_of_json l sigMap =
     (let str = (\<lambda>key. case json_string sigMap key of Some s \<Rightarrow> s | None \<Rightarrow> [])
      in \<lparr>Version = [], Network = str ''network'', Sender = str ''sender'', Recipient = str ''recipient'',
          Amount = (case map_of sigMap ''amount'' of Some (JNum f) \<Rightarrow> f | _ \<Rightarrow> Fin 0),
          Currency = str ''currency'', Nonce = str ''nonce'', Signature = str ''signature'',
          Timestamp = (case map_of sigMap ''timestamp'' of Some (JNum f) \<Rightarrow> go_int64 (oor_int64 l) f | _ \<Rightarrow> 0),
          Metadata = (case map_of sigMap ''metadata'' of Some (JObj kvs) \<Rightarrow> kvs | _ \<Rightarrow> []),
          SigFormat = NoFormat, EIP712Domain = None\<rparr>)"

definition request_signature :: "go_float_lib \<Rightarrow> sig_field \<Rightarrow> PaymentSignature option option" where
  "request_signature l field =
     (case field of
        SigTyped sig \<Rightarrow> Some sig
      | SigJson (JObj sigMap) \<Rightarrow> Some (Some (sig_of_json l sigMap))
      | _ \<Rightarrow> None)"

definition job_refused :: "JobExecutionRequest \<Rightarrow> job_message \<Rightarrow> JobExecutionResponse" where
  "job_refused request m =
     \<lparr>rs_WorkflowJobID = rq_WorkflowJobID request, rs_JobExecutionID = 0, rs_Accepted = False, rs_Message = m\<rparr>"

text \<open>
  The payment part of the handler: a refusal, or the id of the escrow it created (\<open>0\<close> when the
  service is free or has no id), with the payment table.
\<close>

definition take_payment ::
  "job_env \<Rightarrow> JobManager \<Rightarrow> JobExecutionRequest \<Rightarrow> ((job_message \<times> bool) + int) \<times> payment_db" where
  "take_payment env jm request =
     (let db = jm_db jm; ps = payments db
      in if rq_ServiceID request \<le> 0 then (Inr 0, ps)
         else case GetService (e_conns env 4) (rq_ServiceID request) db of
           Inl e \<Rightarrow> (Inl (ServiceNotFoundMsg, True), ps)
         | Inr None \<Rightarrow> (Inr 0, ps)
         | Inr (Some service) \<Rightarrow>
             if \<not> flt (Fin 0) (PricingAmount service) then (Inr 0, ps)
             else if rq_PaymentSignature request = SigNil \<or> rq_PaymentSignature request = SigJson JNull
                  then (Inl (PaymentRequiredMsg (PricingAmount service), False), ps)
             else case request_signature (lib (escrowManager jm)) (rq_PaymentSignature request) of
               None \<Rightarrow> (Inl (InvalidSignatureMsg, False), ps)
             | Some paymentSig \<Rightarrow>
                 if AcceptedPaymentNetworks service \<noteq> []
                    \<and> (case paymentSig of None \<Rightarrow> False
                       | Some sig \<Rightarrow> \<not> isNetworkAccepted (Network sig) (AcceptedPaymentNetworks service))
                 then (Inl (NetworkNotAcceptedMsg (case paymentSig of Some sig \<Rightarrow> Network sig | None \<Rightarrow> [])
                              (AcceptedPaymentNetworks service), False), ps)
                 else case CreateEscrow (escrowManager jm) (e_conns env 5) (e_conns env 6) (e_verify env) (e_now env) 0
                             paymentSig (PricingAmount service) ps of
                   (Inl e, ps') \<Rightarrow> (Inl (VerificationFailedMsg e, False), ps')
                 | (Inr paymentID, ps') \<Rightarrow> (Inr paymentID, ps'))"

text \<open>
  The reply with whether an error is returned beside it, or \<open>Panic\<close>; the state; the facilitator
  calls that moved money.
\<close>

definition HandleJobRequest ::
  "job_env \<Rightarrow> JobExecutionRequest \<Rightarrow> string \<Rightarrow> JobManager
     \<Rightarrow> (unit, JobExecutionResponse \<times> bool) go_result \<times> JobManager \<times> fac_call list" where
  "HandleJobRequest env req sender jm =
     (if slice8 sender = None then (Panic, jm, [])
      else
        let request = req\<lparr>rq_OrderingPeerID := sender\<rparr>
        in case take_payment env jm request of
             (Inl (m, err), ps) \<Rightarrow>
               (Ok (job_refused request m, err), jm\<lparr>jm_db := (jm_db jm)\<lparr>payments := ps\<rparr>\<rparr>, [])
           | (Inr paymentID, ps) \<Rightarrow>
               let jm1 = jm\<lparr>jm_db := (jm_db jm)\<lparr>payments := ps\<rparr>\<rparr>
               in case SubmitJobWithOptions env request Map.empty True jm1 of
                    (Panic, jm2) \<Rightarrow> (Panic, jm2, [])
                  | (Err e, jm2) \<Rightarrow>
                      if paymentID > 0 then
                        (case RefundEscrow (escrowManager jm) (e_conns env 7) (e_conns env 8) (e_refund env) (e_now env)
                                paymentID (''Job submission failed: '' @ submit_error_text (e_text env) e) (payments (jm_db jm2)) of
                           (Panic, ps', calls) \<Rightarrow> (Panic, jm2\<lparr>jm_db := (jm_db jm2)\<lparr>payments := ps'\<rparr>\<rparr>, calls)
                         | (_, ps', calls) \<Rightarrow>
                             (Ok (job_refused request (SubmitFailedMsg e), True),
                              jm2\<lparr>jm_db := (jm_db jm2)\<lparr>payments := ps'\<rparr>\<rparr>, calls))
                      else (Ok (job_refused request (SubmitFailedMsg e), True), jm2, [])
                  | (Ok job, jm2) \<Rightarrow>
                      let ps' = (if paymentID > 0
                                 then snd (UpdateJobPaymentExecutionID (e_conns env 10) paymentID (je_ID job) (payments (jm_db jm2)))
                                 else payments (jm_db jm2))
                      in (Ok (\<lparr>rs_WorkflowJobID = rq_WorkflowJobID request, rs_JobExecutionID = je_ID job,
                               rs_Accepted = True, rs_Message = AcceptedMsg\<rparr>, False),
                          jm2\<lparr>jm_db := (jm_db jm2)\<lparr>payments := ps'\<rparr>\<rparr>, []))"

section \<open>Starting, watching and cancelling a job\<close>

text \<open>Lists of a start request may hold JSON \<open>null\<close>s, which Go decodes to nil pointers.\<close>

record StartInterface =
  st_Type :: string
  st_Path :: string
  st_Peers :: "InterfacePeer option list"

record JobStartRequest =
  sr_WorkflowJobID :: int
  sr_JobExecutionID :: int
  sr_Interfaces :: "StartInterface option list"

definition those_all :: "'a option list \<Rightarrow> 'a list option" where
  "those_all xs = (if None \<in> set xs then None else Some (map the xs))"

fun start_interfaces :: "StartInterface option list \<Rightarrow> ReqInterface list option" where
  "start_interfaces [] = Some []"
| "start_interfaces (None # fs) = None"
| "start_interfaces (Some f # fs) =
     (case (those_all (st_Peers f), start_interfaces fs) of
        (Some ps, Some rest) \<Rightarrow> Some (\<lparr>ri_Type = st_Type f, ri_Path = st_Path f, InterfacePeers = ps\<rparr> # rest)
      | _ \<Rightarrow> None)"

text \<open>The two maps built from the request: later interface peers overwrite earlier ones.\<close>

definition routed_peers :: "ReqInterface list \<Rightarrow> InterfacePeer list" where
  "routed_peers interfaces = concat (map InterfacePeers interfaces)"

definition workflow_job_map :: "ReqInterface list \<Rightarrow> (int \<rightharpoonup> int)" where
  "workflow_job_map interfaces =
     foldl (\<lambda>m p. case ip_PeerWorkflowJobID p of Some w \<Rightarrow> m(w \<mapsto> w) | None \<Rightarrow> m) Map.empty (routed_peers interfaces)"

definition job_execution_map :: "ReqInterface list \<Rightarrow> (int \<rightharpoonup> int)" where
  "job_execution_map interfaces =
     foldl (\<lambda>m p. case (ip_PeerJobExecutionID p, ip_PeerWorkflowJobID p) of
                    (Some j, Some w) \<Rightarrow> m(w \<mapsto> j) | _ \<Rightarrow> m) Map.empty (routed_peers interfaces)"

datatype start_message = GetJobFailed db_error | WaitingForInputs | ReadyForExecution

record JobStartResponse =
  ss_JobExecutionID :: int
  ss_WorkflowJobID :: int
  Started :: bool
  ss_Message :: start_message

definition HandleJobStart ::
  "job_env \<Rightarrow> JobStartRequest \<Rightarrow> string \<Rightarrow> JobManager \<Rightarrow> (unit, JobStartResponse \<times> bool) go_result \<times> JobManager" where
  "HandleJobStart env request sender jm =
     (let reply = (\<lambda>started m. \<lparr>ss_JobExecutionID = sr_JobExecutionID request, ss_WorkflowJobID = sr_WorkflowJobID request,
                                Started = started, ss_Message = m\<rparr>)
      in if slice8 sender = None then (Panic, jm)
         else case GetJobExecution (e_conns env 0) (sr_JobExecutionID request) (jm_db jm) of
           Inl e \<Rightarrow> (Ok (reply False (GetJobFailed e), True), jm)
         | Inr job \<Rightarrow>
             (case start_interfaces (sr_Interfaces request) of
                None \<Rightarrow> (Panic, jm)
              | Some interfaces \<Rightarrow>
                  let jm1 = CreateJobInterfaces env job interfaces (job_execution_map interfaces) (workflow_job_map interfaces) jm;
                      jm2 = jm1\<lparr>jm_db := snd (MarkJobStartReceived (e_conns env 1) (e_now env) (je_ID job) (jm_db jm1))\<rparr>;
                      waiting = je_ExecutionConstraint job = ''INPUTS_READY''
                                \<and> checkInputsReady env (e_recheck env) jm2 job \<noteq> Inr True;
                      newStatus = (if waiting then ''IDLE'' else ''READY'')
                  in (Ok (reply True (if waiting then WaitingForInputs else ReadyForExecution), False),
                      set_job_status env (e_conns env 2) (je_ID job) newStatus [] jm2)))"

text \<open>An update a peer reports for a job the node ordered; the broadcast to the browser is not modelled.\<close>

datatype update_error = InvalidWorkflowJob int | UpdateRejected wjob_error

definition HandleJobStatusUpdate ::
  "job_env \<Rightarrow> JobStatusUpdate \<Rightarrow> string \<Rightarrow> JobManager \<Rightarrow> (update_error, unit) go_result \<times> JobManager" where
  "HandleJobStatusUpdate env update sender jm =
     (if slice8 sender = None then (Panic, jm)
      else if su_WorkflowJobID update \<le> 0 then (Err (InvalidWorkflowJob (su_WorkflowJobID update)), jm)
      else case UpdateWorkflowJobStatus (e_conns env 0) (e_conns env 1) (e_now env) (su_WorkflowJobID update)
                  (su_Status update) None (su_ErrorMessage update) (jm_db jm) of
             (Some e, db') \<Rightarrow> (Err (UpdateRejected e), jm\<lparr>jm_db := db'\<rparr>)
           | (None, db') \<Rightarrow> (Ok (), jm\<lparr>jm_db := db'\<rparr>))"

record JobStatusResponse =
  sp_JobExecutionID :: int
  sp_WorkflowJobID :: int
  sp_Status :: string
  sp_ErrorMessage :: string
  sp_UpdatedAt :: int
  Found :: bool

definition HandleJobStatusRequest ::
  "job_env \<Rightarrow> int \<Rightarrow> int \<Rightarrow> string \<Rightarrow> JobManager \<Rightarrow> (unit, JobStatusResponse) go_result" where
  "HandleJobStatusRequest env jobExecutionID workflowJobID sender jm =
     (if slice8 sender = None then Panic
      else case GetJobExecution (e_conns env 0) jobExecutionID (jm_db jm) of
        Inl _ \<Rightarrow> Ok \<lparr>sp_JobExecutionID = jobExecutionID, sp_WorkflowJobID = workflowJobID, sp_Status = [],
                     sp_ErrorMessage = [], sp_UpdatedAt = 0, Found = False\<rparr>
      | Inr job \<Rightarrow> Ok \<lparr>sp_JobExecutionID = je_ID job, sp_WorkflowJobID = je_WorkflowJobID job, sp_Status = je_Status job,
                       sp_ErrorMessage = je_ErrorMessage job, sp_UpdatedAt = je_UpdatedAt job, Found = True\<rparr>)"

definition CancelJob :: "job_env \<Rightarrow> int \<Rightarrow> JobManager \<Rightarrow> (db_error, unit) go_result \<times> JobManager" where
  "CancelJob env jobExecutionID jm =
     (case UpdateJobStatus (e_conns env 0) (e_now env) jobExecutionID ''CANCELLED'' ''Cancelled by user'' (jm_db jm) of
        (Some e, db') \<Rightarrow> (Err e, jm\<lparr>jm_db := db'\<rparr>)
      | (None, db') \<Rightarrow> (Ok (), jm\<lparr>jm_db := db', runningJobs := runningJobs jm - {jobExecutionID}\<rparr>))"

definition GetJobStatus :: "job_env \<Rightarrow> int \<Rightarrow> JobManager \<Rightarrow> (db_error, string) go_result" where
  "GetJobStatus env jobExecutionID jm =
     (case GetJobExecution (e_conns env 0) jobExecutionID (jm_db jm) of Inl e \<Rightarrow> Err e | Inr job \<Rightarrow> Ok (je_Status job))"

text \<open>The reply is \<open>Cancelled\<close> when no error is returned.\<close>

definition HandleJobCancel :: "job_env \<Rightarrow> int \<Rightarrow> string \<Rightarrow> JobManager \<Rightarrow> (db_error, unit) go_result \<times> JobManager" where
  "HandleJobCancel env jobExecutionID sender jm =
     (if slice8 sender = None then (Panic, jm) else CancelJob env jobExecutionID jm)"

section \<open>Running a job\<close>

text \<open>The channel holds 100 updates; what does not fit is dropped.\<close>

definition sendStatusUpdate :: "job_env \<Rightarrow> int \<Rightarrow> int \<Rightarrow> string \<Rightarrow> string \<Rightarrow> JobManager \<Rightarrow> JobManager" where
  "sendStatusUpdate env jobExecutionID workflowJobID status errorMsg jm =
     (if length (statusUpdateChan jm) < 100 then
        jm\<lparr>statusUpdateChan := statusUpdateChan jm @
             [\<lparr>su_JobExecutionID = jobExecutionID, su_WorkflowJobID = workflowJobID, su_Status = status,
               su_ErrorMessage = errorMsg, su_UpdatedAt = e_now env\<rparr>]\<rparr>
      else jm)"

definition set_wjob_status :: "job_env \<Rightarrow> conn \<Rightarrow> conn \<Rightarrow> int \<Rightarrow> string \<Rightarrow> string \<Rightarrow> JobManager \<Rightarrow> JobManager" where
  "set_wjob_status env c c' workflowJobID status msg jm =
     jm\<lparr>jm_db := snd (UpdateWorkflowJobStatus c c' (e_now env) workflowJobID status None msg (jm_db jm))\<rparr>"

definition handleJobError :: "job_env \<Rightarrow> int \<Rightarrow> int \<Rightarrow> string \<Rightarrow> JobManager \<Rightarrow> JobManager" where
  "handleJobError env jobExecutionID workflowJobID errorMsg jm =
     sendStatusUpdate env jobExecutionID workflowJobID ''ERRORED'' errorMsg
       (set_wjob_status env (e_conns env 5) (e_conns env 6) workflowJobID ''ERRORED'' errorMsg
         (set_job_status env (e_conns env 4) jobExecutionID ''ERRORED'' errorMsg jm))"

datatype run_outcome = RunFails string | RunOk | RunPanics

text \<open>How each of the three executors ends, given what running the service came to.\<close>

definition complete_job :: "job_env \<Rightarrow> JobExecution \<Rightarrow> JobManager \<Rightarrow> JobManager" where
  "complete_job env job jm =
     (case UpdateJobStatus (e_conns env 4) (e_now env) (je_ID job) ''COMPLETED'' [] (jm_db jm) of
        (Some e, db') \<Rightarrow> jm\<lparr>jm_db := db'\<rparr>
      | (None, db') \<Rightarrow>
          sendStatusUpdate env (je_ID job) (je_WorkflowJobID job) ''COMPLETED'' []
            (set_wjob_status env (e_conns env 5) (e_conns env 6) (je_WorkflowJobID job) ''COMPLETED'' [] (jm\<lparr>jm_db := db'\<rparr>)))"

definition executeDataService :: "job_env \<Rightarrow> run_outcome \<Rightarrow> JobExecution \<Rightarrow> JobManager \<Rightarrow> (unit, unit) go_result \<times> JobManager" where
  "executeDataService env outcome job jm =
     (case outcome of
        RunPanics \<Rightarrow> (Panic, jm)
      | RunFails msg \<Rightarrow> (Ok (), handleJobError env (je_ID job) (je_WorkflowJobID job) (''DATA service execution failed: '' @ msg) jm)
      | RunOk \<Rightarrow> (Ok (), complete_job env job jm))"

text \<open>Containers and processes: \<open>RunFails\<close> carries the message their executor reports.\<close>

definition executeOtherService :: "job_env \<Rightarrow> run_outcome \<Rightarrow> JobExecution \<Rightarrow> JobManager \<Rightarrow> (unit, unit) go_result \<times> JobManager" where
  "executeOtherService env outcome job jm =
     (case outcome of
        RunPanics \<Rightarrow> (Panic, jm)
      | RunFails msg \<Rightarrow> (Ok (), handleJobError env (je_ID job) (je_WorkflowJobID job) msg jm)
      | RunOk \<Rightarrow> (Ok (), complete_job env job jm))"

text \<open>The body of \<open>executeJob\<close> up to its return or panic.  A service that is gone is a nil pointer.\<close>

definition execute_body :: "job_env \<Rightarrow> run_outcome \<Rightarrow> JobExecution \<Rightarrow> JobManager \<Rightarrow> (unit, unit) go_result \<times> JobManager" where
  "execute_body env outcome job jm =
     (case UpdateJobStatus (e_conns env 0) (e_now env) (je_ID job) ''RUNNING'' [] (jm_db jm) of
        (Some e, db') \<Rightarrow> (Ok (), jm\<lparr>jm_db := db'\<rparr>)
      | (None, db') \<Rightarrow>
          let jm1 = sendStatusUpdate env (je_ID job) (je_WorkflowJobID job) ''RUNNING'' []
                      (set_wjob_status env (e_conns env 1) (e_conns env 2) (je_WorkflowJobID job) ''RUNNING'' [] (jm\<lparr>jm_db := db'\<rparr>))
          in case GetService (e_conns env 3) (je_ServiceID job) (jm_db jm1) of
               Inl e \<Rightarrow> (Ok (), handleJobError env (je_ID job) (je_WorkflowJobID job) (''Service not found: '' @ e_text env e) jm1)
             | Inr None \<Rightarrow> (Panic, jm1)
             | Inr (Some service) \<Rightarrow>
                 if ServiceType service = ''DATA'' then executeDataService env outcome job jm1
                 else if ServiceType service = ''DOCKER'' \<or> ServiceType service = ''STANDALONE''
                      then executeOtherService env outcome job jm1
                 else (Ok (), handleJobError env (je_ID job) (je_WorkflowJobID job)
                                (''Unknown service type: '' @ ServiceType service) jm1))"

definition set_payments :: "payment_db \<Rightarrow> JobManager \<Rightarrow> JobManager" where
  "set_payments ps jm = jm\<lparr>jm_db := (jm_db jm)\<lparr>payments := ps\<rparr>\<rparr>"

text \<open>The deferred settlement: by the status the job row has when it runs.\<close>

definition settle_by_status ::
  "job_env \<Rightarrow> int \<Rightarrow> JobManager \<Rightarrow> (unit, unit) go_result \<times> JobManager \<times> fac_call list" where
  "settle_by_status env jobID jm =
     (case GetJobPaymentByJobID (e_conns env 7) jobID (payments (jm_db jm)) of
        Inr (Some payment) \<Rightarrow>
          (case GetJobExecution (e_conns env 8) jobID (jm_db jm) of
             Inl _ \<Rightarrow> (Ok (), jm, [])
           | Inr finalJob \<Rightarrow>
               if je_Status finalJob = ''COMPLETED'' then
                 let amount = (case GetService (e_conns env 9) (je_ServiceID finalJob) (jm_db jm) of
                                 Inr (Some service) \<Rightarrow>
                                   if flt (Fin 0) (PricingAmount service) then PricingAmount service else Fin 0
                               | _ \<Rightarrow> Fin 0)
                 in (case SettleEscrow (escrowManager jm) (e_conns env 10) (e_conns env 11) (e_settle env) (e_now env)
                            (p_id payment) amount (payments (jm_db jm)) of
                       (r, ps, calls) \<Rightarrow> (if r = Panic then Panic else Ok (), set_payments ps jm, calls))
               else if je_Status finalJob = ''ERRORED'' \<or> je_Status finalJob = ''CANCELLED'' then
                 (case RefundEscrow (escrowManager jm) (e_conns env 10) (e_conns env 11) (e_refund env) (e_now env)
                         (p_id payment) (''Job '' @ je_Status finalJob @ '': '' @ je_ErrorMessage finalJob) (payments (jm_db jm)) of
                    (r, ps, calls) \<Rightarrow> (if r = Panic then Panic else Ok (), set_payments ps jm, calls))
               else (Ok (), jm, []))
      | _ \<Rightarrow> (Ok (), jm, []))"

text \<open>What follows when the body panicked with \<open>msg\<close>: the job is errored and its payment refunded.\<close>

definition after_panic ::
  "job_env \<Rightarrow> string \<Rightarrow> JobExecution \<Rightarrow> JobManager \<Rightarrow> (unit, unit) go_result \<times> JobManager \<times> fac_call list" where
  "after_panic env msg job jm =
     (let jm1 = sendStatusUpdate env (je_ID job) (je_WorkflowJobID job) ''ERRORED'' (''Panic during execution: '' @ msg)
                  (set_job_status env (e_conns env 12) (je_ID job) ''ERRORED'' (''Panic during execution: '' @ msg) jm)
      in case GetJobPaymentByJobID (e_conns env 13) (je_ID job) (payments (jm_db jm1)) of
           Inr (Some payment) \<Rightarrow>
             (case RefundEscrow (escrowManager jm) (e_conns env 14) (e_conns env 15) (e_refund env) (e_now env)
                     (p_id payment) (''Job panicked: '' @ msg) (payments (jm_db jm1)) of
                (r, ps, calls) \<Rightarrow> (if r = Panic then Panic else Ok (), set_payments ps jm1, calls))
         | _ \<Rightarrow> (Ok (), jm1, []))"

definition execute_deferred ::
  "job_env \<Rightarrow> string \<Rightarrow> bool \<Rightarrow> JobExecution \<Rightarrow> JobManager \<Rightarrow> (unit, unit) go_result \<times> JobManager \<times> fac_call list" where
  "execute_deferred env msg panicked job jm =
     (let jm0 = jm\<lparr>runningJobs := runningJobs jm - {je_ID job}\<rparr>
      in case settle_by_status env (je_ID job) jm0 of
           (Panic, jm1, calls) \<Rightarrow> (Panic, jm1, calls)
         | (_, jm1, calls) \<Rightarrow>
             if panicked then
               (case after_panic env msg job jm1 of (r, jm2, calls') \<Rightarrow> (r, jm2, calls @ calls'))
             else (Ok (), jm1, calls))"

definition executeJob ::
  "job_env \<Rightarrow> string \<Rightarrow> run_outcome \<Rightarrow> JobExecution \<Rightarrow> JobManager \<Rightarrow> (unit, unit) go_result \<times> JobManager \<times> fac_call list" where
  "executeJob env msg outcome job jm =
     (case execute_body env outcome job jm of (r, jm1) \<Rightarrow> execute_deferred env msg (r = Panic) job jm1)"


section \<open>The periodic sweeps\<close>

definition destinations_ready :: "job_env \<Rightarrow> JobManager \<Rightarrow> JobExecution \<Rightarrow> bool" where
  "destinations_ready env jm job \<longleftrightarrow>
     checkOutputDestinationsReady (e_reads env 1) (\<lambda>k. e_reads env (k + 2)) jm job = Inr True"

text \<open>One idle job of the sweep over those the query returned; job number \<open>n\<close> meets environment \<open>envs n\<close>.\<close>

definition check_idle_job :: "job_env \<Rightarrow> JobExecution \<Rightarrow> JobManager \<Rightarrow> JobManager" where
  "check_idle_job env job jm =
     (if \<not> je_StartReceived job then jm
      else if je_ExecutionConstraint job = ''INPUTS_READY'' then
        if je_ExecutorPeerID job \<noteq> peerID jm then jm
        else if checkInputsReady env (e_reads env 0) jm job = Inr True \<and> destinations_ready env jm job
             then set_job_status env (e_conns env 0) (je_ID job) ''READY'' [] jm
        else jm
      else if destinations_ready env jm job then set_job_status env (e_conns env 0) (je_ID job) ''READY'' [] jm
      else jm)"

fun check_idle_jobs :: "(nat \<Rightarrow> job_env) \<Rightarrow> nat \<Rightarrow> JobExecution list \<Rightarrow> JobManager \<Rightarrow> JobManager" where
  "check_idle_jobs envs n [] jm = jm"
| "check_idle_jobs envs n (job # jobs) jm = check_idle_jobs envs (Suc n) jobs (check_idle_job (envs n) job jm)"

definition checkIdleJobsForReadiness :: "conn \<Rightarrow> (nat \<Rightarrow> job_env) \<Rightarrow> JobManager \<Rightarrow> JobManager" where
  "checkIdleJobsForReadiness c envs jm =
     (case GetJobsByStatus c ''IDLE'' (jm_db jm) of Inl _ \<Rightarrow> jm | Inr jobs \<Rightarrow> check_idle_jobs envs 0 jobs jm)"

text \<open>
  The queue: what it does with a ready job.  \<open>accepting\<close> says whether the worker pool still takes work.
  A job handed to the pool is marked as running after the hand-over; the worker calls \<open>executeJob\<close>.
\<close>

datatype queue_action = SendRemote JobExecution | RunLocal JobExecution

definition queue_job :: "job_env \<Rightarrow> bool \<Rightarrow> JobExecution \<Rightarrow> JobManager \<Rightarrow> queue_action option" where
  "queue_job env accepting job jm =
     (if je_ExecutorPeerID job \<noteq> peerID jm then Some (SendRemote job)
      else if je_ID job \<in> runningJobs jm then None
      else if je_ExecutionConstraint job = ''INPUTS_READY'' \<and> checkInputsReady env (e_reads env 0) jm job \<noteq> Inr True then None
      else if accepting then Some (RunLocal job)
      else None)"

definition mark_running :: "int \<Rightarrow> JobManager \<Rightarrow> JobManager" where
  "mark_running jobID jm = jm\<lparr>runningJobs := insert jobID (runningJobs jm)\<rparr>"

fun queue_jobs :: "(nat \<Rightarrow> job_env) \<Rightarrow> bool \<Rightarrow> nat \<Rightarrow> JobExecution list \<Rightarrow> JobManager \<Rightarrow> queue_action list \<times> JobManager" where
  "queue_jobs envs accepting n [] jm = ([], jm)"
| "queue_jobs envs accepting n (job # jobs) jm =
     (case queue_job (envs n) accepting job jm of
        None \<Rightarrow> queue_jobs envs accepting (Suc n) jobs jm
      | Some a \<Rightarrow>
          let (as, jm') = queue_jobs envs accepting (Suc n) jobs
                            (case a of RunLocal j \<Rightarrow> mark_running (je_ID j) jm | SendRemote _ \<Rightarrow> jm)
          in (a # as, jm'))"

definition processJobQueue :: "conn \<Rightarrow> (nat \<Rightarrow> job_env) \<Rightarrow> bool \<Rightarrow> JobManager \<Rightarrow> queue_action list \<times> JobManager" where
  "processJobQueue c envs accepting jm =
     (case GetReadyJobs c (jm_db jm) of Inl _ \<Rightarrow> ([], jm) | Inr jobs \<Rightarrow> queue_jobs envs accepting 0 jobs jm)"

text \<open>To whom a queued status update goes, if anyone.\<close>

definition processStatusUpdate :: "job_env \<Rightarrow> JobStatusUpdate \<Rightarrow> JobManager \<Rightarrow> (string \<times> JobStatusUpdate) option" where
  "processStatusUpdate env update jm =
     (case GetJobExecution (e_conns env 0) (su_JobExecutionID update) (jm_db jm) of
        Inl _ \<Rightarrow> None
      | Inr job \<Rightarrow> if je_OrderingPeerID job = peerID jm then None else Some (je_OrderingPeerID job, update))"

text \<open>
  Sending a job on to the peer that should run it.  \<open>connected\<close> is whether a connection was made,
  \<open>reply\<close> what the peer answered: nothing, a refusal with its text, or the id it gave the job.
\<close>

datatype remote_reply = SendError string | Refused string | AcceptedAs int

definition sendJobToRemotePeer :: "job_env \<Rightarrow> string option \<Rightarrow> bool \<Rightarrow> remote_reply \<Rightarrow> JobExecution \<Rightarrow> JobManager \<Rightarrow> JobManager" where
  "sendJobToRemotePeer env connect_error handler reply job jm =
     (let errored = (\<lambda>msg. set_job_status env (e_conns env 1) (je_ID job) ''ERRORED'' msg jm)
      in case connect_error of
           Some e \<Rightarrow> errored (''Failed to connect to executor peer: '' @ e)
         | None \<Rightarrow>
             if \<not> handler then errored ''Job handler not available''
             else case GetJobInterfaces (e_conns env 0) (je_ID job) (jm_db jm) of
               Inl e \<Rightarrow> errored (''Failed to get interfaces: '' @ e_text env e)
             | Inr interfaces \<Rightarrow>
                 (case reply of
                    SendError e \<Rightarrow> errored (''Failed to send to remote peer: '' @ e)
                  | Refused m \<Rightarrow> errored (''Rejected by remote peer: '' @ m)
                  | AcceptedAs remoteID \<Rightarrow>
                      set_job_status env (e_conns env 3) (je_ID job) ''RUNNING'' []
                        (jm\<lparr>jm_db := snd (UpdateRemoteJobExecutionID (e_conns env 2) (e_now env) (je_ID job) remoteID (jm_db jm))\<rparr>)))"

section \<open>Data for a job\<close>

record JobDataTransferRequest =
  tr_TransferID :: string
  tr_WorkflowJobID :: int
  tr_SourceJobExecutionID :: int
  tr_DestinationJobExecutionID :: int
  tr_InterfaceType :: string
  tr_SourcePeerID :: string
  tr_DestinationPeerID :: string
  tr_DestinationPath :: string
  tr_DestinationFileName :: string
  tr_DataHash :: string
  tr_SizeBytes :: int
  tr_Encrypted :: bool
  tr_EphemeralPubKey :: bytes
  tr_KeyExchangeSignature :: bytes
  tr_KeyExchangeTimestamp :: int

definition TrimPrefix :: "string \<Rightarrow> string \<Rightarrow> string" where
  "TrimPrefix s p = (if HasPrefix s p then drop (length p) s else s)"

definition destination_dir :: "string \<Rightarrow> string" where
  "destination_dir destPath =
     (if destPath = [] \<or> HasPrefix destPath ''input'' then ''input''
      else if HasPrefix destPath ''output'' then destPath
      else let mountPath = TrimPrefix destPath ''/''
           in if mountPath = [] then ''mounts'' else filepath_Join [''mounts'', mountPath])"

datatype transfer_error =
  DestinationJobLookup db_error | TransferWorkflowLookup db_error | TransferWorkflowMissing
| MissingRemoteJob | MissingSenderJob | WorkerFailed

text \<open>The directory the data goes to, with the job the transfer is recorded under.\<close>

definition transfer_target ::
  "job_env \<Rightarrow> JobManager \<Rightarrow> JobDataTransferRequest \<Rightarrow> (transfer_error, string \<times> int) go_result" where
  "transfer_target env jm request =
     (let dir = (\<lambda>orchestrator wfID receiver receiverJob.
            filepath_Join [DataDir jm, ''workflows'', orchestrator, itoa wfID, ''jobs'', tr_SourcePeerID request,
                  itoa (tr_SourceJobExecutionID request), receiver, receiverJob,
                  destination_dir (tr_DestinationPath request)] @ ''/'')
      in if tr_DestinationJobExecutionID request > 0 then
           (case GetJobExecution (e_conns env 0) (tr_DestinationJobExecutionID request) (jm_db jm) of
              Inl e \<Rightarrow> Err (DestinationJobLookup e)
            | Inr job \<Rightarrow>
                if slice8 (je_OrderingPeerID job) = None then Panic
                else Ok (dir (je_OrderingPeerID job) (je_WorkflowJobID job) (peerID jm)
                           (itoa (tr_DestinationJobExecutionID request)), tr_DestinationJobExecutionID request))
         else
           (case GetWorkflowJobByID (e_conns env 0) (tr_WorkflowJobID request) (jm_db jm) of
              Inl e \<Rightarrow> Err (TransferWorkflowLookup e)
            | Inr None \<Rightarrow> Err TransferWorkflowMissing
            | Inr (Some workflowJob) \<Rightarrow>
                if wj_RemoteJobExecutionID workflowJob = None then Err MissingRemoteJob
                else if tr_DestinationJobExecutionID request = 0 then
                  if tr_SourceJobExecutionID request = 0 then Err MissingSenderJob
                  else Ok (dir (peerID jm) (tr_WorkflowJobID request) (tr_DestinationPeerID request) ''0'',
                           tr_SourceJobExecutionID request)
                else Ok (dir (peerID jm) (tr_WorkflowJobID request) (peerID jm)
                           (itoa (tr_DestinationJobExecutionID request)), tr_DestinationJobExecutionID request)))"

text \<open>
  The handler: resolve the directory, record the sender's job on the interface that waits for it, and
  start the transfer in the data worker, whose answer is \<open>worker_ok\<close>.  The panics come from log lines
  that slice short peer ids.
\<close>

definition HandleJobDataTransferRequest ::
  "job_env \<Rightarrow> (string \<Rightarrow> int \<Rightarrow> bool) \<Rightarrow> JobDataTransferRequest \<Rightarrow> string \<Rightarrow> JobManager
     \<Rightarrow> (transfer_error, string) go_result \<times> JobManager" where
  "HandleJobDataTransferRequest env worker_ok request sender jm =
     (if slice8 sender = None then (Panic, jm)
      else case transfer_target env jm request of
        Panic \<Rightarrow> (Panic, jm)
      | Err e \<Rightarrow> (Err e, jm)
      | Ok (target, transferJobID) \<Rightarrow>
          let upd =
            (if tr_DestinationJobExecutionID request > 0 \<and> tr_SourceJobExecutionID request > 0 then
               (case UpdateJobInterfacePeerJobExecutionID (e_conns env 1) (tr_DestinationJobExecutionID request)
                       (tr_SourcePeerID request) (tr_SourceJobExecutionID request) (tr_WorkflowJobID request) (jm_db jm) of
                  (r, db') \<Rightarrow> (r = Panic \<or> slice8 (tr_SourcePeerID request) = None, jm\<lparr>jm_db := db'\<rparr>))
             else (False, jm))
          in if fst upd then (Panic, snd upd)
             else if worker_ok target transferJobID then (Ok target, snd upd) else (Err WorkerFailed, snd upd))"

end
