(* ===== verification/Job_Lifecycle.thy ===== *)
theory Job_Lifecycle
  imports Jobs
begin

text \<open>
  What the job manager guarantees over the life of a job: who pays for it, when it may start, what
  happens to the payment when it ends, and what other peers can do to it.
\<close>

section \<open>Accepting a job\<close>

lemma SubmitJob_Ok:
  assumes "SubmitJobWithOptions env request m True jm = (Ok job, jm')"
  obtains db1 where "submit_checks env jm request = Ok ()"
    "CreateJobExecution (e_conns env 2) (e_now env) (new_job_row request) (jm_db jm) = (Inr job, db1)"
    "jm' = jm\<lparr>jm_db := db1\<rparr>"
  using assms by (auto simp: SubmitJobWithOptions_def split: go_result.splits prod.splits sum.splits)

lemma CreateJobExecution_Inr:
  assumes "CreateJobExecution c now j db = (Inr job, db')"
  shows "je_ID job = job_seq db + 1
    \<and> job_executions db' = job_executions db @ [j\<lparr>je_ID := job_seq db + 1, je_RemoteJobExecutionID := None,
         je_StartReceived := False, je_StartedAt := None, je_EndedAt := None, je_ErrorMessage := [],
         je_CreatedAt := now, je_UpdatedAt := now\<rparr>]
    \<and> payments db' = (payments db)\<lparr>job_ids := (job_seq db + 1) # job_ids (payments db)\<rparr>
    \<and> services db' = services db"
  using assms by (auto simp: CreateJobExecution_def Let_def split: if_splits)

lemma take_payment_Inr:
  assumes "take_payment env jm request = (Inr i, ps)" and "GetService (e_conns env 1) (rq_ServiceID request) (jm_db jm) = Inr (Some service)"
    and "0 < rq_ServiceID request" and "flt (Fin 0) (PricingAmount service)"
  shows "\<exists>sig. request_signature (lib (escrowManager jm)) (rq_PaymentSignature request) = Some sig
    \<and> (AcceptedPaymentNetworks service \<noteq> [] \<longrightarrow>
         (case sig of None \<Rightarrow> True | Some s \<Rightarrow> isNetworkAccepted (Network s) (AcceptedPaymentNetworks service)))
    \<and> CreateEscrow (escrowManager jm) (e_conns env 5) (e_conns env 6) (e_verify env) (e_now env) 0 sig
        (PricingAmount service) (payments (jm_db jm)) = (Inr i, ps)"
proof -
  have "GetService (e_conns env 4) (rq_ServiceID request) (jm_db jm) \<in> {Inr (Some service), Inl DriverError}"
    using assms(2) by (auto simp: GetService_def split: option.splits if_splits)
  then have g: "GetService (e_conns env 4) (rq_ServiceID request) (jm_db jm) = Inr (Some service)"
    using assms(1,3) by (auto simp: take_payment_def Let_def)
  show ?thesis
    using assms(1,3,4) unfolding take_payment_def Let_def g
    by (auto split: if_splits option.splits prod.splits sum.splits)
qed

text \<open>The local executor has the service the request names.\<close>

lemma submit_checks_service:
  assumes "submit_checks env jm request = Ok ()" and "rq_ExecutorPeerID request = peerID jm"
  shows "\<exists>service. GetService (e_conns env 1) (rq_ServiceID request) (jm_db jm) = Inr (Some service)"
  using assms by (auto simp: submit_checks_def Let_def split: if_splits sum.splits option.splits)

lemma GetService_Some:
  assumes "GetService c i db = Inr (Some s)" and "wf_jobs db"
  shows "row_at sv_ID i (services db) = Some s \<and> 0 < i \<and> PricingAmount s \<noteq> NaN"
  using assms row_at_SomeD [of sv_ID i "services db" s]
  by (auto simp: GetService_def service_readable_def wf_jobs_def table_ok_def list_all_iff split: if_splits option.splits)

lemma GetService_payments [simp]: "GetService c i (db\<lparr>payments := ps\<rparr>) = GetService c i db"
  by (simp add: GetService_def)

text \<open>The row a payment becomes when its job is known.\<close>

lemma link_payment:
  assumes "row_at p_id i (job_payments ps) = Some row"
  shows "\<exists>row'. row_at p_id i (job_payments (snd (UpdateJobPaymentExecutionID c i j ps))) = Some row'
    \<and> PaymentNonce row' = PaymentNonce row \<and> PaymentAmount row' = PaymentAmount row \<and> p_Status row' = p_Status row
    \<and> (fault c \<noteq> ExecFails \<and> j \<in> set (job_ids ps) \<longrightarrow> JobExecutionID row' = Some j)"
proof -
  have "row_at p_id i (sql_update (\<lambda>p. p_id p = i) (\<lambda>p. p\<lparr>JobExecutionID := Some j\<rparr>) (job_payments ps))
      = Some (row\<lparr>JobExecutionID := Some j\<rparr>)"
    using assms by (induction "job_payments ps") (auto simp: row_at_def sql_first_update dest: sql_first_SomeD)
  then show ?thesis using assms by (auto simp: UpdateJobPaymentExecutionID_def)
qed


lemma CreateEscrow_wf_payments:
  assumes "CreateEscrow em ci cu net now j sg req db = (r, db')" and "wf_payments db"
  shows "wf_payments db'"
  using assms(1)
proof (cases rule: CreateEscrow_cases)
  case (created sig i db1)
  then show ?thesis
    using wf_payments_step [OF payment_step.create [OF created(3)] assms(2)] by (simp add: wf_payments_UpdateStatus)
next
  case (lost sig)
  show ?thesis by (rule wf_payments_step [OF payment_step.create [OF lost(2)] assms(2)])
qed (use assms in simp)

text \<open>The payment behind a priced request, after it was bound to job \<open>j\<close>.\<close>

lemma job_payment_taken:
  assumes "take_payment env jm request = (Inr i, ps)"
    and "GetService (e_conns env 1) (rq_ServiceID request) (jm_db jm) = Inr (Some service)"
    and "0 < rq_ServiceID request \<and> PricingAmount service \<noteq> NaN" and "flt (Fin 0) (PricingAmount service)"
    and "wf_payments (payments (jm_db jm))"
  shows "0 < i \<and> (\<exists>sig row. request_signature (lib (escrowManager jm)) (rq_PaymentSignature request) = Some (Some sig)
     \<and> Nonce sig \<notin> PaymentNonce ` set (job_payments (payments (jm_db jm)))
     \<and> (AcceptedPaymentNetworks service \<noteq> [] \<longrightarrow> isNetworkAccepted (Network sig) (AcceptedPaymentNetworks service))
     \<and> row_at p_id i (job_payments (snd (UpdateJobPaymentExecutionID c i j (ps\<lparr>job_ids := j # job_ids ps\<rparr>)))) = Some row
     \<and> PaymentNonce row = Nonce sig \<and> fle (PricingAmount service) (PaymentAmount row) \<and> p_Status row = ''verified''
     \<and> (fault c \<noteq> ExecFails \<longrightarrow> JobExecutionID row = Some j))"
proof -
  obtain sig' where sg: "request_signature (lib (escrowManager jm)) (rq_PaymentSignature request) = Some sig'"
    and net: "AcceptedPaymentNetworks service \<noteq> [] \<longrightarrow>
       (case sig' of None \<Rightarrow> True | Some s \<Rightarrow> isNetworkAccepted (Network s) (AcceptedPaymentNetworks service))"
    and esc: "CreateEscrow (escrowManager jm) (e_conns env 5) (e_conns env 6) (e_verify env) (e_now env) 0 sig'
      (PricingAmount service) (payments (jm_db jm)) = (Inr i, ps)"
    using take_payment_Inr [OF assms(1,2)] assms(3,4) by auto
  obtain sig prow where c: "sig' = Some sig" "fle (PricingAmount service) (Amount sig)"
    "Nonce sig \<notin> PaymentNonce ` set (job_payments (payments (jm_db jm)))"
    "row_at p_id i (job_payments ps) = Some prow" "PaymentNonce prow = Nonce sig" "PaymentAmount prow = Amount sig"
    "p_Status prow = ''verified''"
    using CreateEscrow_created [OF esc assms(5)] assms(3) by blast
  have "0 < i" using row_at_SomeD [OF c(4)] CreateEscrow_wf_payments [OF esc assms(5)] by (auto simp: wf_payments_def)
  then show ?thesis
    using sg net c link_payment [of i "ps\<lparr>job_ids := j # job_ids ps\<rparr>" prow c j] by auto
qed

lemma HandleJobRequest_accepted:
  assumes "HandleJobRequest env req sender jm = (Ok (resp, err), jm', calls)" and "rs_Accepted resp"
  obtains i ps job jm2 where "take_payment env jm (req\<lparr>rq_OrderingPeerID := sender\<rparr>) = (Inr i, ps)"
    "SubmitJobWithOptions env (req\<lparr>rq_OrderingPeerID := sender\<rparr>) Map.empty True (jm\<lparr>jm_db := (jm_db jm)\<lparr>payments := ps\<rparr>\<rparr>)
       = (Ok job, jm2)"
    "rs_JobExecutionID resp = je_ID job" "calls = []" "err = False"
    "jm' = jm2\<lparr>jm_db := (jm_db jm2)\<lparr>payments :=
       (if i > 0 then snd (UpdateJobPaymentExecutionID (e_conns env 10) i (je_ID job) (payments (jm_db jm2)))
        else payments (jm_db jm2))\<rparr>\<rparr>"
  using assms
  by (auto simp: HandleJobRequest_def Let_def job_refused_def split: if_splits prod.splits sum.splits go_result.splits)

text \<open>
  C22. A node runs a priced service only for a payment that covers it.  When a job request for this
  node is accepted, its service exists, the new job is idle, has not been started and is ordered by
  the peer that sent the request.  If the service has a price, the request carried a signature with a
  nonce never used before, on a network the service accepts, and the payment table holds a verified
  payment of at least the price under that nonce, bound to the new job unless the statement that
  binds it failed.
\<close>

theorem paid_job_request:
  assumes "HandleJobRequest env req sender jm = (Ok (resp, err), jm', calls)" and "rs_Accepted resp"
    and "rq_ExecutorPeerID req = peerID jm" and "wf_jobs (jm_db jm)" and "wf_payments (payments (jm_db jm))"
  shows "\<exists>service job. row_at sv_ID (rq_ServiceID req) (services (jm_db jm)) = Some service
    \<and> row_at je_ID (rs_JobExecutionID resp) (job_executions (jm_db jm')) = Some job
    \<and> je_Status job = ''IDLE'' \<and> \<not> je_StartReceived job \<and> je_OrderingPeerID job = sender
    \<and> je_ServiceID job = rq_ServiceID req \<and> calls = []
    \<and> (flt (Fin 0) (PricingAmount service) \<longrightarrow>
        (\<exists>sig row. request_signature (lib (escrowManager jm)) (rq_PaymentSignature req) = Some (Some sig)
          \<and> Nonce sig \<notin> PaymentNonce ` set (job_payments (payments (jm_db jm)))
          \<and> (AcceptedPaymentNetworks service \<noteq> [] \<longrightarrow> isNetworkAccepted (Network sig) (AcceptedPaymentNetworks service))
          \<and> row \<in> set (job_payments (payments (jm_db jm'))) \<and> PaymentNonce row = Nonce sig
          \<and> fle (PricingAmount service) (PaymentAmount row) \<and> p_Status row = ''verified''
          \<and> (fault (e_conns env 10) \<noteq> ExecFails \<longrightarrow> JobExecutionID row = Some (rs_JobExecutionID resp))))"
  using assms(1,2)
proof (rule HandleJobRequest_accepted)
  let ?req = "req\<lparr>rq_OrderingPeerID := sender\<rparr>"
  fix i ps job jm2
  let ?jm1 = "jm\<lparr>jm_db := (jm_db jm)\<lparr>payments := ps\<rparr>\<rparr>"
  assume pay: "take_payment env jm ?req = (Inr i, ps)"
    and sub: "SubmitJobWithOptions env ?req Map.empty True ?jm1 = (Ok job, jm2)"
    and id: "rs_JobExecutionID resp = je_ID job" and calls: "calls = []" "err = False"
    and jm': "jm' = jm2\<lparr>jm_db := (jm_db jm2)\<lparr>payments :=
       (if i > 0 then snd (UpdateJobPaymentExecutionID (e_conns env 10) i (je_ID job) (payments (jm_db jm2)))
        else payments (jm_db jm2))\<rparr>\<rparr>"
  from sub obtain db1 where chk: "submit_checks env ?jm1 ?req = Ok ()"
    and cr: "CreateJobExecution (e_conns env 2) (e_now env) (new_job_row ?req) (jm_db ?jm1) = (Inr job, db1)"
    and jm2: "jm2 = ?jm1\<lparr>jm_db := db1\<rparr>" by (rule SubmitJob_Ok)
  obtain service where sv: "GetService (e_conns env 1) (rq_ServiceID req) (jm_db jm) = Inr (Some service)"
    using submit_checks_service [OF chk] assms(3) by auto
  note svw = GetService_Some [OF sv assms(4)]
  note row = CreateJobExecution_Inr [OF cr]
  have fresh: "job_seq (jm_db jm) + 1 \<notin> je_ID ` set (job_executions (jm_db jm))"
    using assms(4) by (force simp: wf_jobs_def table_ok_def list_all_iff)
  have job: "\<exists>job'. row_at je_ID (je_ID job) (job_executions db1) = Some job' \<and> je_Status job' = ''IDLE''
      \<and> \<not> je_StartReceived job' \<and> je_OrderingPeerID job' = sender \<and> je_ServiceID job' = rq_ServiceID req"
    using row fresh by (simp add: row_at_append_new new_job_row_def)
  have "payments db1 = ps\<lparr>job_ids := je_ID job # job_ids ps\<rparr>" using row by simp
  with job_payment_taken [OF pay _ _ _ assms(5), of service "e_conns env 10" "je_ID job"] sv svw
  have paid: "\<exists>sig row. request_signature (lib (escrowManager jm)) (rq_PaymentSignature req) = Some (Some sig)
          \<and> Nonce sig \<notin> PaymentNonce ` set (job_payments (payments (jm_db jm)))
          \<and> (AcceptedPaymentNetworks service \<noteq> [] \<longrightarrow> isNetworkAccepted (Network sig) (AcceptedPaymentNetworks service))
          \<and> row \<in> set (job_payments (payments (jm_db jm'))) \<and> PaymentNonce row = Nonce sig
          \<and> fle (PricingAmount service) (PaymentAmount row) \<and> p_Status row = ''verified''
          \<and> (fault (e_conns env 10) \<noteq> ExecFails \<longrightarrow> JobExecutionID row = Some (je_ID job))"
    if "flt (Fin 0) (PricingAmount service)"
    using that by (auto simp: jm' jm2 dest!: row_at_SomeD)
  have "job_executions (jm_db jm') = job_executions db1" by (simp add: jm' jm2)
  with job paid svw id calls show ?thesis by auto
qed


section \<open>A concrete node\<close>

definition sample_service :: OfferedService where
  "sample_service =
     \<lparr>sv_ID = 1, ServiceType = ''DATA'', sv_Type = ''storage'', sv_Name = ''data'', sv_Description = [], Endpoint = [],
      Capabilities = JNull, sv_Status = ''ACTIVE'', PricingAmount = Fin 5, PricingType = ''ONE_TIME'', PricingInterval = 1,
      PricingUnit = ''MONTHS'', Pricing = Fin 0, AcceptedPaymentNetworks = [''eip155:8453''], sv_CreatedAt = 1, sv_UpdatedAt = 1\<rparr>"

definition sample_jm :: JobManager where
  "sample_jm =
     \<lparr>peerID = ''executor'', escrowManager = sample_em, DataDir = ''/data'',
      jm_db = empty_job_db\<lparr>services := [sample_service], service_seq := 1, payments := empty_payments []\<rparr>,
      runningJobs = {}, statusUpdateChan = []\<rparr>"

definition sample_job_env :: job_env where
  "sample_job_env =
     \<lparr>e_now = 1000, e_conns = \<lambda>_. good_conn, e_ifaces = \<lambda>_ _. good_conn, e_reads = \<lambda>_ _. good_conn, e_recheck = \<lambda>_. good_conn,
      e_verify = yes_net, e_settle = settle_net, e_refund = yes_net, e_files = \<lambda>_. NotExist, e_text = \<lambda>_. []\<rparr>"

definition sample_request :: JobExecutionRequest where
  "sample_request =
     \<lparr>rq_WorkflowJobID = 7, rq_ServiceID = 1, rq_ExecutorPeerID = ''executor'', rq_Entrypoint = None, rq_Commands = None,
      rq_ExecutionConstraint = ''NONE'', rq_Interfaces = [], rq_OrderingPeerID = [], rq_PaymentSignature = SigTyped (Some sample_sig)\<rparr>"

lemma sample_wf: "wf_jobs (jm_db sample_jm)" "wf_payments (payments (jm_db sample_jm))"
  by (simp_all add: sample_jm_def empty_job_db_def wf_jobs_def table_ok_def sample_service_def service_check_def
      empty_payments_def wf_payments_def)

lemma sample_take_payment:
  "take_payment sample_job_env sample_jm (sample_request\<lparr>rq_OrderingPeerID := s\<rparr>) = (Inr 1, sample_db)"
proof -
  have n: "isNetworkAccepted (Network sample_sig) [''eip155:8453'']"
    by (simp add: isNetworkAccepted_def networkMatches_def sample_sig_def)
  have "CreateEscrow sample_em good_conn good_conn yes_net 1000 0 (Some sample_sig) (Fin 5) (payments (jm_db sample_jm)) = (Inr 1, sample_db)"
    using sample_create by (simp add: sample_jm_def)
  then show ?thesis using n
    by (simp add: take_payment_def sample_jm_def sample_job_env_def sample_request_def GetService_def good_conn_def
        row_at_def sample_service_def service_readable_def request_signature_def)
qed


lemma sample_accepted:
  "\<exists>jm'. HandleJobRequest sample_job_env sample_request ''customer'' sample_jm =
     (Ok (\<lparr>rs_WorkflowJobID = 7, rs_JobExecutionID = 1, rs_Accepted = True, rs_Message = AcceptedMsg\<rparr>, False), jm', [])"
proof -
  have "\<exists>job jm2. SubmitJobWithOptions sample_job_env (sample_request\<lparr>rq_OrderingPeerID := ''customer''\<rparr>) Map.empty True
      (sample_jm\<lparr>jm_db := (jm_db sample_jm)\<lparr>payments := sample_db\<rparr>\<rparr>) = (Ok job, jm2) \<and> je_ID job = 1"
    by (simp add: SubmitJobWithOptions_def submit_checks_def slice8_def
      CreateJobExecution_def new_job_row_def sample_request_def sample_job_env_def good_conn_def sample_jm_def
      GetService_def row_at_def sample_service_def service_readable_def empty_job_db_def job_statuses_def)
  then obtain job jm2 where "SubmitJobWithOptions sample_job_env (sample_request\<lparr>rq_OrderingPeerID := ''customer''\<rparr>) Map.empty True
      (sample_jm\<lparr>jm_db := (jm_db sample_jm)\<lparr>payments := sample_db\<rparr>\<rparr>) = (Ok job, jm2)" "je_ID job = 1" by blast
  moreover have "rq_WorkflowJobID sample_request = 7" by (simp add: sample_request_def)
  ultimately show ?thesis by (simp add: HandleJobRequest_def Let_def slice8_def sample_take_payment)
qed

theorem paid_job_request_witness:
  "\<exists>resp jm' row. HandleJobRequest sample_job_env sample_request ''customer'' sample_jm = (Ok (resp, False), jm', [])
     \<and> row \<in> set (job_payments (payments (jm_db jm'))) \<and> fle (Fin 5) (PaymentAmount row) \<and> JobExecutionID row = Some 1"
proof -
  obtain resp jm' where r: "HandleJobRequest sample_job_env sample_request ''customer'' sample_jm = (Ok (resp, False), jm', [])"
    "rs_Accepted resp" "rs_JobExecutionID resp = 1"
    using sample_accepted by fastforce
  have "rq_ExecutorPeerID sample_request = peerID sample_jm" "fault (e_conns sample_job_env 10) \<noteq> ExecFails"
    "row_at sv_ID (rq_ServiceID sample_request) (services (jm_db sample_jm)) = Some sample_service"
    "PricingAmount sample_service = Fin 5"
    by (simp_all add: sample_request_def sample_jm_def sample_job_env_def good_conn_def row_at_def sample_service_def)
  then show ?thesis using paid_job_request [OF r(1,2) _ sample_wf] r by auto
qed

section \<open>Running a job\<close>

definition job_status :: "JobManager \<Rightarrow> int \<Rightarrow> string option" where
  "job_status jm i = map_option je_Status (row_at je_ID i (job_executions (jm_db jm)))"

lemma job_status_cong: "job_executions (jm_db jm) = job_executions (jm_db jm') \<Longrightarrow> job_status jm i = job_status jm' i"
  by (simp add: job_status_def)

lemma UpdateJobStatus_ok:
  "fault c \<noteq> ExecFails \<Longrightarrow> s \<in> set job_statuses \<Longrightarrow> UpdateJobStatus c now i s m db
     = (None, db\<lparr>job_executions := set_status je_ID (mark_job m) i s now (job_executions db)\<rparr>)"
  by (simp add: UpdateJobStatus_def)

lemma job_statuses_mem [simp]:
  "''IDLE'' \<in> set job_statuses" "''READY'' \<in> set job_statuses" "''RUNNING'' \<in> set job_statuses"
  "''COMPLETED'' \<in> set job_statuses" "''ERRORED'' \<in> set job_statuses" "''CANCELLED'' \<in> set job_statuses"
  by (simp_all add: job_statuses_def)

lemma job_status_set:
  "job_status (jm\<lparr>jm_db := (jm_db jm)\<lparr>job_executions := set_status je_ID (mark_job m) i s now (job_executions (jm_db jm))\<rparr>\<rparr>) k
     = (if k = i then map_option (\<lambda>_. s) (job_status jm i) else job_status jm k)"
  using jobs.status_at_set [of k m i s now "job_executions (jm_db jm)"]
  by (auto simp: job_status_def option.map_comp o_def)

lemma job_status_set_job_status:
  "fault c \<noteq> ExecFails \<Longrightarrow> s \<in> set job_statuses \<Longrightarrow>
   job_status (set_job_status env c i s m jm) k = (if k = i then map_option (\<lambda>_. s) (job_status jm i) else job_status jm k)"
  by (simp add: set_job_status_def UpdateJobStatus_ok job_status_set)

text \<open>What the helpers leave alone.\<close>

lemma UpdateWorkflowJobStatus_frame [simp]:
  "job_executions (snd (UpdateWorkflowJobStatus c c' now i s r e db)) = job_executions db"
  "services (snd (UpdateWorkflowJobStatus c c' now i s r e db)) = services db"
  "payments (snd (UpdateWorkflowJobStatus c c' now i s r e db)) = payments db"
  by (auto simp: UpdateWorkflowJobStatus_def split: option.splits)

lemma UpdateJobStatus_frame [simp]:
  "services (snd (UpdateJobStatus c now i s m db)) = services db"
  "payments (snd (UpdateJobStatus c now i s m db)) = payments db"
  by (auto simp: UpdateJobStatus_def)

lemma helper_frames [simp]:
  "jm_db (sendStatusUpdate env i w s m jm) = jm_db jm"
  "escrowManager (sendStatusUpdate env i w s m jm) = escrowManager jm"
  "escrowManager (set_wjob_status env c c' w s m jm) = escrowManager jm"
  "escrowManager (set_job_status env c i s m jm) = escrowManager jm"
  "job_executions (jm_db (set_wjob_status env c c' w s m jm)) = job_executions (jm_db jm)"
  "services (jm_db (set_wjob_status env c c' w s m jm)) = services (jm_db jm)"
  "payments (jm_db (set_wjob_status env c c' w s m jm)) = payments (jm_db jm)"
  "services (jm_db (set_job_status env c i s m jm)) = services (jm_db jm)"
  "payments (jm_db (set_job_status env c i s m jm)) = payments (jm_db jm)"
  by (simp_all add: sendStatusUpdate_def set_wjob_status_def set_job_status_def)

lemma GetService_cong: "services db = services db' \<Longrightarrow> GetService c i db = GetService c i db'"
  by (simp add: GetService_def)

definition no_faults :: "job_env \<Rightarrow> bool" where
  "no_faults env \<longleftrightarrow> (\<forall>k. fault (e_conns env k) = NoFault)"

text \<open>How the body ends: the status it leaves, and that it does not touch payments.\<close>

definition service_at :: "JobManager \<Rightarrow> int \<Rightarrow> OfferedService option" where
  "service_at jm i = (case row_at sv_ID i (services (jm_db jm)) of
     Some s \<Rightarrow> if service_readable s then Some s else None | None \<Rightarrow> None)"


lemma GetService_at:
  "fault c = NoFault \<Longrightarrow> GetService c i (jm_db jm) =
     (case row_at sv_ID i (services (jm_db jm)) of None \<Rightarrow> Inr None
      | Some s \<Rightarrow> if service_readable s then Inr (Some s) else Inl DriverError)"
  by (simp add: GetService_def)

lemma service_at_type:
  assumes "service_at jm i = Some s" and "wf_jobs (jm_db jm)"
  shows "ServiceType s \<in> {''DATA'', ''DOCKER'', ''STANDALONE''}"
  using assms row_at_SomeD [of sv_ID i "services (jm_db jm)" s]
  by (auto simp: service_at_def wf_jobs_def table_ok_def list_all_iff service_check_def split: option.splits if_splits)

lemma job_status_handleJobError:
  assumes "no_faults env"
  shows "job_status (handleJobError env i w m jm) i = map_option (\<lambda>_. ''ERRORED'') (job_status jm i)"
proof -
  have "job_status (handleJobError env i w m jm) i = job_status (set_job_status env (e_conns env 4) i ''ERRORED'' m jm) i"
    unfolding handleJobError_def by (rule job_status_cong) simp
  then show ?thesis using assms by (simp add: job_status_set_job_status no_faults_def)
qed

lemma job_status_complete_job:
  assumes "no_faults env"
  shows "job_status (complete_job env job jm) (je_ID job) = map_option (\<lambda>_. ''COMPLETED'') (job_status jm (je_ID job))"
proof -
  let ?db = "(jm_db jm)\<lparr>job_executions := set_status je_ID (mark_job []) (je_ID job) ''COMPLETED'' (e_now env) (job_executions (jm_db jm))\<rparr>"
  have u: "UpdateJobStatus (e_conns env 4) (e_now env) (je_ID job) ''COMPLETED'' [] (jm_db jm) = (None, ?db)"
    using assms by (simp add: UpdateJobStatus_ok no_faults_def)
  have "job_status (complete_job env job jm) (je_ID job) = job_status (jm\<lparr>jm_db := ?db\<rparr>) (je_ID job)"
    unfolding complete_job_def u by (rule job_status_cong) simp
  then show ?thesis by (simp add: job_status_set)
qed

lemma executor_frames [simp]:
  "payments (jm_db (handleJobError env i w m jm)) = payments (jm_db jm)"
  "escrowManager (handleJobError env i w m jm) = escrowManager jm"
  "payments (jm_db (complete_job env job jm)) = payments (jm_db jm)"
  "escrowManager (complete_job env job jm) = escrowManager jm"
  by (auto simp: handleJobError_def complete_job_def UpdateJobStatus_def split: prod.splits option.splits)

lemma execute_body_result:
  assumes "execute_body env outcome job jm = (r, jm1)" and nf: "no_faults env"
    and row: "job_status jm (je_ID job) \<noteq> None" and wf: "wf_jobs (jm_db jm)"
  shows "payments (jm_db jm1) = payments (jm_db jm)" and "escrowManager jm1 = escrowManager jm"
    and "job_status jm1 (je_ID job) = Some (if r = Panic then ''RUNNING''
           else if outcome = RunOk \<and> service_at jm (je_ServiceID job) \<noteq> None then ''COMPLETED'' else ''ERRORED'')"
    and "r = Panic \<Longrightarrow> \<not> (outcome = RunOk \<and> service_at jm (je_ServiceID job) \<noteq> None)"
proof -
  let ?db = "(jm_db jm)\<lparr>job_executions := set_status je_ID (mark_job []) (je_ID job) ''RUNNING'' (e_now env) (job_executions (jm_db jm))\<rparr>"
  let ?jm = "sendStatusUpdate env (je_ID job) (je_WorkflowJobID job) ''RUNNING'' []
      (set_wjob_status env (e_conns env 1) (e_conns env 2) (je_WorkflowJobID job) ''RUNNING'' [] (jm\<lparr>jm_db := ?db\<rparr>))"
  have f: "fault (e_conns env k) = NoFault" for k using nf by (simp add: no_faults_def)
  have u: "UpdateJobStatus (e_conns env 0) (e_now env) (je_ID job) ''RUNNING'' [] (jm_db jm) = (None, ?db)"
    using f by (simp add: UpdateJobStatus_ok)
  have st: "job_status ?jm (je_ID job) = Some ''RUNNING''"
  proof -
    have "job_status ?jm (je_ID job) = job_status (jm\<lparr>jm_db := ?db\<rparr>) (je_ID job)" by (rule job_status_cong) simp
    then show ?thesis using row by (simp add: job_status_set)
  qed
  have fr: "payments (jm_db ?jm) = payments (jm_db jm)" "escrowManager ?jm = escrowManager jm" by simp_all
  have sv: "services (jm_db ?jm) = services (jm_db jm)" by simp
  note run = assms(1) [unfolded execute_body_def u prod.case option.case Let_def]
  have "payments (jm_db jm1) = payments (jm_db jm) \<and> escrowManager jm1 = escrowManager jm
     \<and> job_status jm1 (je_ID job) = Some (if r = Panic then ''RUNNING''
           else if outcome = RunOk \<and> service_at jm (je_ServiceID job) \<noteq> None then ''COMPLETED'' else ''ERRORED'')
     \<and> (r = Panic \<longrightarrow> \<not> (outcome = RunOk \<and> service_at jm (je_ServiceID job) \<noteq> None))"
  proof (cases "service_at jm (je_ServiceID job)")
    case None
    then show ?thesis
      using run st fr job_status_handleJobError [OF nf, of "je_ID job" _ _ ?jm]
      by (auto simp: GetService_at [OF f] sv service_at_def split: option.splits if_splits)
  next
    case (Some s)
    then have g: "GetService (e_conns env 3) (je_ServiceID job) (jm_db ?jm) = Inr (Some s)"
      by (auto simp: GetService_at [OF f] sv service_at_def split: option.splits if_splits)
    show ?thesis
      using run service_at_type [OF Some wf] st fr job_status_handleJobError [OF nf, of "je_ID job" _ _ ?jm]
        job_status_complete_job [OF nf, of job ?jm] Some
      unfolding g sum.case option.case
      by (auto simp: executeDataService_def executeOtherService_def split: run_outcome.splits if_splits)
  qed
  then show "payments (jm_db jm1) = payments (jm_db jm)" and "escrowManager jm1 = escrowManager jm"
    and "job_status jm1 (je_ID job) = Some (if r = Panic then ''RUNNING''
           else if outcome = RunOk \<and> service_at jm (je_ServiceID job) \<noteq> None then ''COMPLETED'' else ''ERRORED'')"
    and "r = Panic \<Longrightarrow> \<not> (outcome = RunOk \<and> service_at jm (je_ServiceID job) \<noteq> None)"
    by auto
qed


text \<open>What a settlement and a refund attempt do to the calls and to the payment's status.\<close>

lemma SettleEscrow_calls:
  assumes "SettleEscrow em cg cu net now i a db = (r, db', calls)"
  shows "length calls \<le> 1" and "k \<in> set calls \<Longrightarrow> \<exists>req b. k = SettleCall req b"
    and "k \<in> set calls \<Longrightarrow> moved k \<Longrightarrow> fault cu \<noteq> ExecFails \<Longrightarrow> status_of db' i = Some ''settled''"
proof -
  have "length calls \<le> 1 \<and> (\<forall>k\<in>set calls. \<exists>req b. k = SettleCall req b)"
    using assms by (auto simp: SettleEscrow_def settle_send_def Let_def split: sum.splits prod.splits option.splits)
  then show "length calls \<le> 1" and "k \<in> set calls \<Longrightarrow> \<exists>req b. k = SettleCall req b" by auto
  show "status_of db' i = Some ''settled''" if "k \<in> set calls" "moved k" "fault cu \<noteq> ExecFails"
    using assms
  proof (cases rule: SettleEscrow_cases)
    case (settled p)
    then show ?thesis by (simp add: status_of_set) (simp add: status_of_def)
  qed (use that in auto)
qed

lemma RefundEscrow_calls:
  assumes "RefundEscrow em cg cu net now i reason db = (r, db', calls)"
  shows "length calls \<le> 1"
    and "row_at p_id i (job_payments db) = Some p \<Longrightarrow> k \<in> set calls \<Longrightarrow> \<exists>t b. k = RefundCall t (PaymentAmount p) b"
    and "k \<in> set calls \<Longrightarrow> moved k \<Longrightarrow> fault cu \<noteq> ExecFails \<Longrightarrow> status_of db' i = Some ''refunded''"
proof -
  show "length calls \<le> 1"
    using assms by (auto simp: RefundEscrow_def split: sum.splits prod.splits option.splits if_splits)
  show "row_at p_id i (job_payments db) = Some p \<Longrightarrow> k \<in> set calls \<Longrightarrow> \<exists>t b. k = RefundCall t (PaymentAmount p) b"
    using assms by (auto simp: RefundEscrow_def GetJobPayment_def split: sum.splits prod.splits option.splits if_splits)
  show "status_of db' i = Some ''refunded''" if "k \<in> set calls" "moved k" "fault cu \<noteq> ExecFails"
    using assms
  proof (cases rule: RefundEscrow_cases)
    case (refunded p)
    then show ?thesis by (simp add: status_of_set) (simp add: status_of_def)
  qed (use that in auto)
qed

lemma set_payments_simps [simp]:
  "payments (jm_db (set_payments ps jm)) = ps" "job_status (set_payments ps jm) i = job_status jm i"
  by (simp_all add: set_payments_def job_status_def)

text \<open>The deferred settlement by the status it finds.\<close>

lemma settle_by_status_result:
  assumes "settle_by_status env i jm = (r, jm', calls)" and nf: "no_faults env"
    and pay: "row_at JobExecutionID (Some i) (job_payments (payments (jm_db jm))) = Some p"
    and key: "row_at p_id (p_id p) (job_payments (payments (jm_db jm))) = Some p"
  shows "job_status jm' k = job_status jm k" and "length calls \<le> 1"
    and "job_status jm i = Some ''RUNNING'' \<Longrightarrow> jm' = jm \<and> calls = [] \<and> r = Ok ()"
    and "job_status jm i = Some ''COMPLETED'' \<Longrightarrow> c \<in> set calls \<Longrightarrow>
           (\<exists>req b. c = SettleCall req b) \<and> (moved c \<longrightarrow> status_of (payments (jm_db jm')) (p_id p) = Some ''settled'')"
    and "job_status jm i = Some ''ERRORED'' \<Longrightarrow> c \<in> set calls \<Longrightarrow>
           (\<exists>t b. c = RefundCall t (PaymentAmount p) b) \<and> (moved c \<longrightarrow> status_of (payments (jm_db jm')) (p_id p) = Some ''refunded'')"
proof -
  have f: "fault (e_conns env k) = NoFault" for k using nf by (simp add: no_faults_def)
  have g: "GetJobPaymentByJobID (e_conns env 7) i (payments (jm_db jm)) = Inr (Some p)"
    using f pay by (simp add: GetJobPaymentByJobID_def)
  note run = assms(1) [unfolded settle_by_status_def g sum.case option.case]
  show "job_status jm' k = job_status jm k"
    using run by (auto simp: Let_def split: sum.splits if_splits prod.splits)
  show "length calls \<le> 1"
    using run by (auto simp: Let_def split: sum.splits if_splits prod.splits
        dest: SettleEscrow_calls(1) RefundEscrow_calls(1))
  show "job_status jm i = Some ''RUNNING'' \<Longrightarrow> jm' = jm \<and> calls = [] \<and> r = Ok ()"
    using run by (auto simp: job_status_def GetJobExecution_def split: sum.splits if_splits option.splits)
  show "(\<exists>req b. c = SettleCall req b) \<and> (moved c \<longrightarrow> status_of (payments (jm_db jm')) (p_id p) = Some ''settled'')"
    if "job_status jm i = Some ''COMPLETED''" "c \<in> set calls"
    using run that f by (auto simp: job_status_def GetJobExecution_def Let_def split: sum.splits if_splits option.splits prod.splits
        dest: SettleEscrow_calls(2) intro: SettleEscrow_calls(3))
  show "(\<exists>t b. c = RefundCall t (PaymentAmount p) b) \<and> (moved c \<longrightarrow> status_of (payments (jm_db jm')) (p_id p) = Some ''refunded'')"
    if "job_status jm i = Some ''ERRORED''" "c \<in> set calls"
    using run that f key by (auto simp: job_status_def GetJobExecution_def Let_def split: sum.splits if_splits option.splits prod.splits
        dest: RefundEscrow_calls(2) intro: RefundEscrow_calls(3))
qed

lemma after_panic_result:
  assumes "after_panic env msg job jm = (r, jm', calls)" and nf: "no_faults env"
    and row: "job_status jm (je_ID job) \<noteq> None"
    and pay: "row_at JobExecutionID (Some (je_ID job)) (job_payments (payments (jm_db jm))) = Some p"
    and key: "row_at p_id (p_id p) (job_payments (payments (jm_db jm))) = Some p"
  shows "job_status jm' (je_ID job) = Some ''ERRORED''" and "length calls \<le> 1"
    and "c \<in> set calls \<Longrightarrow> (\<exists>t b. c = RefundCall t (PaymentAmount p) b)
           \<and> (moved c \<longrightarrow> status_of (payments (jm_db jm')) (p_id p) = Some ''refunded'')"
proof -
  let ?jm = "sendStatusUpdate env (je_ID job) (je_WorkflowJobID job) ''ERRORED'' (''Panic during execution: '' @ msg)
      (set_job_status env (e_conns env 12) (je_ID job) ''ERRORED'' (''Panic during execution: '' @ msg) jm)"
  have f: "fault (e_conns env k) = NoFault" for k using nf by (simp add: no_faults_def)
  have g: "GetJobPaymentByJobID (e_conns env 13) (je_ID job) (payments (jm_db ?jm)) = Inr (Some p)"
    using f pay by (simp add: GetJobPaymentByJobID_def)
  obtain r' ps where ref: "RefundEscrow (escrowManager jm) (e_conns env 14) (e_conns env 15) (e_refund env) (e_now env)
      (p_id p) (''Job panicked: '' @ msg) (payments (jm_db jm)) = (r', ps, calls)" "jm' = set_payments ps ?jm"
    using assms(1) [unfolded after_panic_def Let_def g sum.case option.case] by (auto split: prod.splits)
  have "job_status ?jm (je_ID job) = job_status (set_job_status env (e_conns env 12) (je_ID job) ''ERRORED'' (''Panic during execution: '' @ msg) jm) (je_ID job)"
    by (rule job_status_cong) simp
  then show "job_status jm' (je_ID job) = Some ''ERRORED''"
    using row f by (simp add: ref(2) job_status_set_job_status)
  show "length calls \<le> 1" by (rule RefundEscrow_calls(1) [OF ref(1)])
  show "(\<exists>t b. c = RefundCall t (PaymentAmount p) b)
           \<and> (moved c \<longrightarrow> status_of (payments (jm_db jm')) (p_id p) = Some ''refunded'')" if "c \<in> set calls"
    using that f RefundEscrow_calls(2) [OF ref(1) key] RefundEscrow_calls(3) [OF ref(1) that] by (auto simp: ref(2))
qed

lemma job_status_running [simp]: "job_status (jm\<lparr>runningJobs := x\<rparr>) i = job_status jm i"
  by (simp add: job_status_def)

text \<open>
  C23. The payment follows the outcome.  Running a job with a payment, with no database failure in
  between: if the service exists and ran to its end, the job is \<open>COMPLETED\<close> and the only call that can
  move money is one settlement of its payment; in every other case (the service failed, panicked, or
  is gone) the job is \<open>ERRORED\<close> and the only such call is one refund of the full amount paid.  A call
  the facilitator confirmed is recorded in the payment's status.
\<close>

theorem payment_follows_outcome:
  assumes "executeJob env msg outcome job jm = (r, jm', calls)" and "no_faults env"
    and "job_status jm (je_ID job) \<noteq> None" and "wf_jobs (jm_db jm)"
    and "row_at JobExecutionID (Some (je_ID job)) (job_payments (payments (jm_db jm))) = Some p"
    and "row_at p_id (p_id p) (job_payments (payments (jm_db jm))) = Some p"
  shows "length calls \<le> 1 \<and>
    (if outcome = RunOk \<and> service_at jm (je_ServiceID job) \<noteq> None then
       job_status jm' (je_ID job) = Some ''COMPLETED''
       \<and> (\<forall>c\<in>set calls. (\<exists>req b. c = SettleCall req b)
            \<and> (moved c \<longrightarrow> status_of (payments (jm_db jm')) (p_id p) = Some ''settled''))
     else
       job_status jm' (je_ID job) = Some ''ERRORED''
       \<and> (\<forall>c\<in>set calls. (\<exists>t b. c = RefundCall t (PaymentAmount p) b)
            \<and> (moved c \<longrightarrow> status_of (payments (jm_db jm')) (p_id p) = Some ''refunded'')))"
proof -
  obtain rb jm1 where b: "execute_body env outcome job jm = (rb, jm1)" by fastforce
  note body = execute_body_result [OF b assms(2,3,4)]
  let ?jm0 = "jm1\<lparr>runningJobs := runningJobs jm1 - {je_ID job}\<rparr>"
  obtain rs jm2 cs where s: "settle_by_status env (je_ID job) ?jm0 = (rs, jm2, cs)" by (metis prod_cases3)
  have pay: "row_at JobExecutionID (Some (je_ID job)) (job_payments (payments (jm_db ?jm0))) = Some p"
    and key: "row_at p_id (p_id p) (job_payments (payments (jm_db ?jm0))) = Some p" using assms(5,6) body(1) by simp_all
  note st = settle_by_status_result [OF s assms(2) pay key]
  note run = assms(1) [unfolded executeJob_def b prod.case execute_deferred_def Let_def s]
  show ?thesis
  proof (cases "rb = Panic")
    case True
    then have q: "jm2 = ?jm0" "cs = []" "rs = Ok ()" using st(3) body(3) by simp_all
    then have ap: "after_panic env msg job ?jm0 = (r, jm', calls)" using run True by (auto split: prod.splits)
    have "job_status ?jm0 (je_ID job) \<noteq> None" using body(3) by simp
    from after_panic_result [OF ap assms(2) this pay key] show ?thesis using body(4) True by auto
  next
    case False
    then have "jm' = jm2" "calls = cs" using run by (auto split: go_result.splits)
    then show ?thesis using st body(3) False by (auto split: if_splits)
  qed
qed


definition sample_job :: JobExecution where
  "sample_job = (new_job_row sample_request)\<lparr>je_ID := 1, je_OrderingPeerID := ''customer'', je_Status := ''READY''\<rparr>"

definition sample_paid_jm :: JobManager where
  "sample_paid_jm = sample_jm\<lparr>jm_db := (jm_db sample_jm)\<lparr>job_executions := [sample_job], job_seq := 1,
     payments := sample_db\<lparr>job_payments := map (\<lambda>p. p\<lparr>JobExecutionID := Some 1\<rparr>) (job_payments sample_db), job_ids := [1]\<rparr>\<rparr>\<rparr>"

lemma sample_paid_wf: "wf_jobs (jm_db sample_paid_jm)"
  using sample_wf(1) by (simp add: sample_paid_jm_def wf_jobs_def sample_jm_def empty_job_db_def table_ok_def sample_job_def
      new_job_row_def job_row_ok_def sample_request_def)

theorem payment_follows_outcome_witness:
  "\<exists>r jm' calls. executeJob sample_job_env [] (RunFails ''disk full'') sample_job sample_paid_jm = (r, jm', calls)
     \<and> job_status jm' 1 = Some ''ERRORED'' \<and> length calls \<le> 1"
proof -
  let ?p = "hd (job_payments (payments (jm_db sample_paid_jm)))"
  obtain r jm' calls where run: "executeJob sample_job_env [] (RunFails ''disk full'') sample_job sample_paid_jm = (r, jm', calls)"
    by (metis prod_cases3)
  have "job_status sample_paid_jm (je_ID sample_job) \<noteq> None"
    "row_at JobExecutionID (Some (je_ID sample_job)) (job_payments (payments (jm_db sample_paid_jm))) = Some ?p"
    "row_at p_id (p_id ?p) (job_payments (payments (jm_db sample_paid_jm))) = Some ?p"
    by (simp_all add: sample_paid_jm_def sample_job_def job_status_def row_at_def sample_db_def)
  moreover have "no_faults sample_job_env" by (simp add: no_faults_def sample_job_env_def good_conn_def)
  ultimately have "job_status jm' (je_ID sample_job) = Some ''ERRORED''" "length calls \<le> 1"
    using payment_follows_outcome [OF run _ _ sample_paid_wf] by auto
  then show ?thesis using run by (simp add: sample_job_def)
qed

section \<open>Starting a job\<close>

lemma create_peers_frame [simp]:
  "job_executions (create_peers cs now ids f m ps db) = job_executions db"
  "payments (create_peers cs now ids f m ps db) = payments db"
  by (induction ps arbitrary: m db) (auto simp: CreateJobInterfacePeer_def Let_def)

lemma create_interfaces_frame [simp]:
  "job_executions (create_interfaces css now ids i k fs db) = job_executions db"
  "payments (create_interfaces css now ids i k fs db) = payments db"
proof -
  have "job_executions (create_interfaces css now ids i k fs db) = job_executions db
      \<and> payments (create_interfaces css now ids i k fs db) = payments db"
  proof (induction fs arbitrary: k db)
    case (Cons f fs)
    have "job_executions (snd (CreateJobInterface c now j db)) = job_executions db
        \<and> payments (snd (CreateJobInterface c now j db)) = payments db" for c j
      by (auto simp: CreateJobInterface_def Let_def)
    with Cons show ?case by (auto split: prod.splits sum.splits) (metis snd_conv)+
  qed simp
  then show "job_executions (create_interfaces css now ids i k fs db) = job_executions db"
    "payments (create_interfaces css now ids i k fs db) = payments db" by simp_all
qed

text \<open>Of the job table a start changes the rows of the started job only.\<close>

lemma CreateJobInterfaces_cases:
  "CreateJobInterfaces env job fs m w jm \<in> {jm1, set_job_status env (e_conns env 9) (je_ID job) ''READY'' [] jm1}"
  if "jm1 = jm\<lparr>jm_db := create_interfaces (e_ifaces env) (e_now env) (mapped_ids m w) (je_ID job) 0 fs (jm_db jm)\<rparr>"
  by (auto simp: CreateJobInterfaces_def that Let_def split: sum.splits bool.splits)

lemma CreateJobInterfaces_frame:
  "runningJobs (CreateJobInterfaces env job fs m w jm) = runningJobs jm"
  "peerID (CreateJobInterfaces env job fs m w jm) = peerID jm"
  "escrowManager (CreateJobInterfaces env job fs m w jm) = escrowManager jm"
  "payments (jm_db (CreateJobInterfaces env job fs m w jm)) = payments (jm_db jm)"
  "map (\<lambda>j. (je_ID j, je_ExecutorPeerID j, je_ExecutionConstraint j)) (job_executions (jm_db (CreateJobInterfaces env job fs m w jm)))
     = map (\<lambda>j. (je_ID j, je_ExecutorPeerID j, je_ExecutionConstraint j)) (job_executions (jm_db jm))"
  using CreateJobInterfaces_cases [OF refl, of env job fs m w jm]
  by (auto simp: set_job_status_def UpdateJobStatus_def set_status_def map_sql_update)

lemma row_at_map_key:
  assumes "map g xs = map g ys" and "\<And>r. key r = h (g r)"
  shows "map_option g (row_at key k xs) = map_option g (row_at key k ys)"
  using assms(1)
proof (induction xs arbitrary: ys)
  case (Cons x xs)
  then obtain y ys' where ys: "ys = y # ys'" "g x = g y" "map g xs = map g ys'" by auto
  then show ?case using Cons.IH [OF ys(3)] assms(2) by (simp add: row_at_def)
qed (simp add: row_at_def)

lemma queue_runs_ready:
  assumes "job \<in> set jobs" and "distinct (map je_ID jobs)" and "je_ExecutorPeerID job = peerID jm"
    and "je_ID job \<notin> runningJobs jm" and "je_ExecutionConstraint job \<noteq> ''INPUTS_READY''"
  shows "RunLocal job \<in> set (fst (queue_jobs envs True n jobs jm))"
  using assms
proof (induction jobs arbitrary: n jm)
  case (Cons j js)
  have "RunLocal job \<in> set (fst (queue_jobs envs True (Suc n) js jm'))"
    if "job \<in> set js" "peerID jm' = peerID jm" "runningJobs jm' \<subseteq> insert (je_ID j) (runningJobs jm)" for jm'
  proof (rule Cons.IH)
    have "je_ID job \<noteq> je_ID j" using Cons.prems(2) imageI [OF that(1), of je_ID] by auto
    then show "je_ID job \<notin> runningJobs jm'" using Cons.prems(4) that(3) by auto
  qed (use Cons.prems that in auto)
  then have rest: "job \<in> set js \<Longrightarrow> RunLocal job \<in> set (fst (queue_jobs envs True (Suc n) js jm))"
    "job \<in> set js \<Longrightarrow> RunLocal job \<in> set (fst (queue_jobs envs True (Suc n) js (mark_running (je_ID j) jm)))"
    by (auto simp: mark_running_def)
  have "job = j \<Longrightarrow> queue_job (envs n) True j jm = Some (RunLocal j)" using Cons.prems by (simp add: queue_job_def)
  moreover have "queue_job (envs n) True j jm \<in> {None, Some (RunLocal j), Some (SendRemote j)}" by (simp add: queue_job_def)
  ultimately show ?case
    using Cons.prems(1) rest by (auto split: prod.splits)
qed simp


text \<open>A payment that is settled or refunded sees no further call.\<close>

lemma closed_payment_no_calls:
  assumes "row_at p_id i (job_payments db) = Some p" and "p_Status p \<in> {''settled'', ''refunded''}"
  shows "SettleEscrow em cg cu net now i a db = (r, db', calls) \<Longrightarrow> db' = db \<and> calls = []"
    and "RefundEscrow em cg cu net' now i reason db = (r, db', calls) \<Longrightarrow> db' = db \<and> calls = []"
  using assms
  by (auto simp: SettleEscrow_def settle_read_def RefundEscrow_def GetJobPayment_def split: sum.splits option.splits if_splits)

lemma execute_body_payments:
  "payments (jm_db (snd (execute_body env outcome job jm))) = payments (jm_db jm)"
proof -
  have [simp]: "payments (jm_db (snd (executeDataService env outcome job jm))) = payments (jm_db jm)"
    "payments (jm_db (snd (executeOtherService env outcome job jm))) = payments (jm_db jm)" for jm
    by (simp_all add: executeDataService_def executeOtherService_def split: run_outcome.splits)
  have "UpdateJobStatus c now i s m db = (e, db') \<Longrightarrow> payments db' = payments db" for c now i s m db e db'
    by (auto simp: UpdateJobStatus_def split: if_splits)
  then show ?thesis
    by (auto simp: execute_body_def Let_def split: prod.splits option.splits sum.splits)
qed

lemma closed_payment_execute:
  assumes "executeJob env msg outcome job jm = (r, jm', calls)"
    and p: "row_at JobExecutionID (Some (je_ID job)) (job_payments (payments (jm_db jm))) = Some p"
      "row_at p_id (p_id p) (job_payments (payments (jm_db jm))) = Some p" "p_Status p \<in> {''settled'', ''refunded''}"
  shows "calls = []"
proof -
  obtain rb jm1 where b: "execute_body env outcome job jm = (rb, jm1)" by fastforce
  have pm: "payments (jm_db jm1) = payments (jm_db jm)" using execute_body_payments [of env outcome job jm] b by simp
  have settle: "payments (jm_db jm2) = payments (jm_db jm) \<and> cs = []"
    if jx: "payments (jm_db jmx) = payments (jm_db jm)" and run: "settle_by_status env (je_ID job) jmx = (rs, jm2, cs)" for jmx rs jm2 cs
  proof (cases "fault (e_conns env 7) = ExecFails")
    case False
    then have g: "GetJobPaymentByJobID (e_conns env 7) (je_ID job) (payments (jm_db jmx)) = Inr (Some p)"
      using jx p by (simp add: GetJobPaymentByJobID_def)
    show ?thesis
    proof (cases "GetJobExecution (e_conns env 8) (je_ID job) (jm_db jmx)")
      case (Inr finalJob)
      note r = run [unfolded settle_by_status_def g sum.case option.case Inr Let_def]
      show ?thesis using r jx closed_payment_no_calls [OF p(2,3)] by (auto split: if_splits prod.splits)
    qed (use run g jx in \<open>simp add: settle_by_status_def\<close>)
  qed (use run jx in \<open>simp add: settle_by_status_def GetJobPaymentByJobID_def\<close>)
  have panic: "after_panic env msg job jmx = (rs, jm2, cs) \<Longrightarrow> cs = []"
    if "payments (jm_db jmx) = payments (jm_db jm)" for jmx rs jm2 cs
    using that p closed_payment_no_calls [OF p(2,3)]
    by (auto simp: after_panic_def GetJobPaymentByJobID_def Let_def split: sum.splits option.splits prod.splits if_splits)
  let ?jm0 = "jm1\<lparr>runningJobs := runningJobs jm1 - {je_ID job}\<rparr>"
  obtain rs jm2 cs where st: "settle_by_status env (je_ID job) ?jm0 = (rs, jm2, cs)" by (metis prod_cases3)
  have q: "payments (jm_db jm2) = payments (jm_db jm)" "cs = []" using settle [OF _ st] pm by simp_all
  obtain rp jm3 cs' where ap: "after_panic env msg job jm2 = (rp, jm3, cs')" by (metis prod_cases3)
  have "cs' = []" by (rule panic [OF q(1) ap])
  then show ?thesis
    using assms(1) [unfolded executeJob_def b prod.case execute_deferred_def Let_def st] ap q(2)
    by (auto split: go_result.splits if_splits)
qed

text \<open>A start without an input constraint: what is answered and which row the job has afterwards.\<close>

lemma HandleJobStart_ready:
  assumes row: "row_at je_ID i (job_executions (jm_db jm)) = Some job" and con: "je_ExecutionConstraint job \<noteq> ''INPUTS_READY''"
    and "8 \<le> length sender" and nf: "no_faults env"
    and sr: "sr_JobExecutionID request = i" "start_interfaces (sr_Interfaces request) = Some fs"
  obtains reply jm' job' where "HandleJobStart env request sender jm = (Ok (reply, False), jm')" and "Started reply"
    and "row_at je_ID i (job_executions (jm_db jm')) = Some job'" and "je_Status job' = ''READY''"
    and "je_ExecutorPeerID job' = je_ExecutorPeerID job" and "je_ExecutionConstraint job' = je_ExecutionConstraint job"
    and "map je_ID (job_executions (jm_db jm')) = map je_ID (job_executions (jm_db jm))"
    and "runningJobs jm' = runningJobs jm" and "peerID jm' = peerID jm" and "payments (jm_db jm') = payments (jm_db jm)"
proof -
  have f: "fault (e_conns env k) = NoFault" for k using nf by (simp add: no_faults_def)
  have id: "je_ID job = i" using row row_at_SomeD [of je_ID i] by blast
  let ?g = "\<lambda>j. (je_ID j, je_ExecutorPeerID j, je_ExecutionConstraint j)"
  let ?jm1 = "CreateJobInterfaces env job fs (job_execution_map fs) (workflow_job_map fs) jm"
  let ?jm2 = "?jm1\<lparr>jm_db := snd (MarkJobStartReceived (e_conns env 1) (e_now env) i (jm_db ?jm1))\<rparr>"
  let ?jm3 = "set_job_status env (e_conns env 2) i ''READY'' [] ?jm2"
  have run: "HandleJobStart env request sender jm
      = (Ok (\<lparr>ss_JobExecutionID = i, ss_WorkflowJobID = sr_WorkflowJobID request, Started = True, ss_Message = ReadyForExecution\<rparr>, False), ?jm3)"
    using assms f by (simp add: HandleJobStart_def slice8_def GetJobExecution_def Let_def id)
  have g: "map ?g (job_executions (jm_db ?jm3)) = map ?g (job_executions (jm_db jm))"
    by (simp add: set_job_status_def UpdateJobStatus_def MarkJobStartReceived_def f set_status_def map_sql_update
        mark_job_fields CreateJobInterfaces_frame(5) del: list.map_comp)
  have "map_option ?g (row_at je_ID i (job_executions (jm_db ?jm3))) = Some (?g job)"
    using row_at_map_key [OF g, of je_ID fst i] row by simp
  then obtain job' where job': "row_at je_ID i (job_executions (jm_db ?jm3)) = Some job'" "?g job' = ?g job" by auto
  have st: "job_status ?jm3 i = map_option (\<lambda>_. ''READY'') (job_status ?jm2 i)"
    using f by (simp add: job_status_set_job_status)
  have "je_Status job' = ''READY''" using st job'(1) by (auto simp: job_status_def dest!: sym [of "Some _"])
  moreover have "map je_ID (job_executions (jm_db ?jm3)) = map je_ID (job_executions (jm_db jm))"
    using arg_cong [OF g, of "map fst"] by (simp add: o_def)
  moreover have "runningJobs ?jm3 = runningJobs jm" "peerID ?jm3 = peerID jm" "payments (jm_db ?jm3) = payments (jm_db jm)"
    by (simp_all add: set_job_status_def CreateJobInterfaces_frame MarkJobStartReceived_def)
  ultimately show thesis using that [OF run _ job'(1)] job'(2) by simp
qed

text \<open>
  C24. A peer that knows a job's number can run the job again, whoever ordered it and whatever became of
  it: a start request for a job without input constraint that is not running is answered with success
  and makes the job READY, and the queue hands it to a worker; when its payment was settled or refunded
  before, the further run ends without any call to the payment facilitator.
\<close>

theorem any_peer_restarts_job:
  assumes "row_at je_ID i (job_executions (jm_db jm)) = Some job" and "je_ExecutionConstraint job \<noteq> ''INPUTS_READY''"
    and "je_ExecutorPeerID job = peerID jm" and "i \<notin> runningJobs jm" and "distinct (map je_ID (job_executions (jm_db jm)))"
    and "8 \<le> length sender" and "no_faults env"
    and "sr_JobExecutionID request = i" and "start_interfaces (sr_Interfaces request) = Some fs"
    and "row_at JobExecutionID (Some i) (job_payments (payments (jm_db jm))) = Some p"
    and "row_at p_id (p_id p) (job_payments (payments (jm_db jm))) = Some p" and "p_Status p \<in> {''settled'', ''refunded''}"
  shows "\<exists>reply jm' job'. HandleJobStart env request sender jm = (Ok (reply, False), jm') \<and> Started reply
     \<and> row_at je_ID i (job_executions (jm_db jm')) = Some job' \<and> je_Status job' = ''READY''
     \<and> RunLocal job' \<in> set (fst (processJobQueue good_conn envs True jm'))
     \<and> snd (snd (executeJob env' msg outcome job' (mark_running i jm'))) = []"
proof -
  obtain reply jm' job' where r: "HandleJobStart env request sender jm = (Ok (reply, False), jm')" "Started reply"
    "row_at je_ID i (job_executions (jm_db jm')) = Some job'" "je_Status job' = ''READY''"
    "je_ExecutorPeerID job' = je_ExecutorPeerID job" "je_ExecutionConstraint job' = je_ExecutionConstraint job"
    "map je_ID (job_executions (jm_db jm')) = map je_ID (job_executions (jm_db jm))"
    "runningJobs jm' = runningJobs jm" "peerID jm' = peerID jm" "payments (jm_db jm') = payments (jm_db jm)"
    by (rule HandleJobStart_ready [OF assms(1,2,6-9)])
  have id: "je_ID job' = i" "job' \<in> set (job_executions (jm_db jm'))" using row_at_SomeD [OF r(3)] by auto
  let ?ready = "sort_key je_CreatedAt (filter (\<lambda>j. je_Status j = ''READY'') (job_executions (jm_db jm')))"
  have "distinct (map je_ID (job_executions (jm_db jm')))" using r(7) assms(5) by simp
  then have "distinct (map je_ID ?ready)" by (auto simp: distinct_map inj_on_def)
  then have "RunLocal job' \<in> set (fst (queue_jobs envs True 0 ?ready jm'))"
    by (rule queue_runs_ready [rotated]) (use r id assms in auto)
  then have q: "RunLocal job' \<in> set (fst (processJobQueue good_conn envs True jm'))"
    by (simp add: processJobQueue_def GetReadyJobs_def good_conn_def)
  obtain rr jm3 calls where e: "executeJob env' msg outcome job' (mark_running i jm') = (rr, jm3, calls)" by (metis prod_cases3)
  have "calls = []"
    by (rule closed_payment_execute [OF e]) (use assms(10-12) r(10) id in \<open>simp_all add: mark_running_def\<close>)
  then show ?thesis using r q e by auto
qed

definition sample_done_jm :: JobManager where
  "sample_done_jm = sample_paid_jm\<lparr>jm_db := (jm_db sample_paid_jm)\<lparr>job_executions := [sample_job\<lparr>je_Status := ''COMPLETED''\<rparr>],
     payments := sample_db\<lparr>job_payments := map (\<lambda>p. p\<lparr>JobExecutionID := Some 1, p_Status := ''settled''\<rparr>) (job_payments sample_db), job_ids := [1]\<rparr>\<rparr>\<rparr>"

theorem any_peer_restarts_job_witness:
  "\<exists>reply jm' job'. HandleJobStart sample_job_env \<lparr>sr_WorkflowJobID = 7, sr_JobExecutionID = 1, sr_Interfaces = []\<rparr> ''stranger'' sample_done_jm
       = (Ok (reply, False), jm') \<and> Started reply \<and> row_at je_ID 1 (job_executions (jm_db jm')) = Some job'
     \<and> RunLocal job' \<in> set (fst (processJobQueue good_conn (\<lambda>_. sample_job_env) True jm'))
     \<and> snd (snd (executeJob sample_job_env [] RunOk job' (mark_running 1 jm'))) = []"
proof -
  let ?p = "hd (job_payments (payments (jm_db sample_done_jm)))"
  have "row_at je_ID 1 (job_executions (jm_db sample_done_jm)) = Some (sample_job\<lparr>je_Status := ''COMPLETED''\<rparr>)"
    "row_at JobExecutionID (Some 1) (job_payments (payments (jm_db sample_done_jm))) = Some ?p"
    "row_at p_id (p_id ?p) (job_payments (payments (jm_db sample_done_jm))) = Some ?p"
    "p_Status ?p = ''settled''" "1 \<notin> runningJobs sample_done_jm" "distinct (map je_ID (job_executions (jm_db sample_done_jm)))"
    "je_ExecutorPeerID sample_job = peerID sample_done_jm" "je_ExecutionConstraint sample_job = ''NONE''"
    by (simp_all add: sample_done_jm_def sample_paid_jm_def sample_job_def row_at_def sample_db_def sample_jm_def
        new_job_row_def sample_request_def)
  moreover have "no_faults sample_job_env" by (simp add: no_faults_def sample_job_env_def good_conn_def)
  ultimately show ?thesis
    using any_peer_restarts_job [of 1 sample_done_jm "sample_job\<lparr>je_Status := ''COMPLETED''\<rparr>" "''stranger''" sample_job_env
        "\<lparr>sr_WorkflowJobID = 7, sr_JobExecutionID = 1, sr_Interfaces = []\<rparr>" "[]" ?p "\<lambda>_. sample_job_env" sample_job_env "[]" RunOk]
    by simp blast
qed

end
