(* ===== verification/File_Cipher.thy ===== *)
theory File_Cipher
  imports RN_Prelude
begin

text \<open>
  The streaming file cipher of the node: \<open>encryptFileStreaming\<close> and \<open>decryptFileStreaming\<close> of
  \<open>internal/workers/data_worker.go\<close>; \<open>internal/core/job_manager.go\<close> and
  \<open>internal/services/file_processor.go\<close> have the same encryption.  A file is a nonce of twelve bytes
  followed by blocks of 64 KiB, each sealed with AES-GCM under the nonce XORed with the block's number.
  AES-GCM is a parameter; a read of a regular file fills the buffer unless the file ends.
\<close>

section \<open>Blocks of a file\<close>

text \<open>What a loop of reads into a buffer of \<open>n\<close> bytes sees.\<close>

function blocks :: "nat \<Rightarrow> 'a list \<Rightarrow> 'a list list" where
  "blocks n xs = (if n = 0 \<or> xs = [] then [] else take n xs # blocks n (drop n xs))"
  by pat_completeness auto
termination by (relation "measure (length \<circ> snd)") auto

declare blocks.simps [simp del]

definition full_blocks :: "nat \<Rightarrow> 'a list list \<Rightarrow> bool" where
  "full_blocks n bs \<longleftrightarrow> (\<forall>b\<in>set bs. b \<noteq> [] \<and> length b \<le> n) \<and> (\<forall>b\<in>set (butlast bs). length b = n)"

lemma blocks_Nil [simp]: "blocks n [] = []" by (simp add: blocks.simps)

lemma concat_blocks [simp]: "n > 0 \<Longrightarrow> concat (blocks n xs) = xs"
proof (induction n xs rule: blocks.induct)
  case (1 n xs)
  then show ?case by (subst blocks.simps) auto
qed

lemma full_blocks_Nil [simp]: "full_blocks n []" by (simp add: full_blocks_def)

lemma full_blocks_Cons:
  "full_blocks n (b # bs) \<longleftrightarrow> b \<noteq> [] \<and> length b \<le> n \<and> (bs \<noteq> [] \<longrightarrow> length b = n) \<and> full_blocks n bs"
  by (auto simp: full_blocks_def)

lemma full_blocks_blocks: "n > 0 \<Longrightarrow> full_blocks n (blocks n xs)"
proof (induction n xs rule: blocks.induct)
  case (1 n xs)
  show ?case
  proof (cases "xs = []")
    case False
    with 1 have "full_blocks n (blocks n (drop n xs))" by simp
    moreover have "blocks n (drop n xs) \<noteq> [] \<Longrightarrow> length (take n xs) = n" by (cases "length xs \<le> n") auto
    ultimately show ?thesis using False 1(2) by (subst blocks.simps) (auto simp: full_blocks_Cons)
  qed (simp add: full_blocks_def)
qed

lemma blocks_concat: "full_blocks n bs \<Longrightarrow> n > 0 \<Longrightarrow> blocks n (concat bs) = bs"
proof (induction bs)
  case (Cons b bs)
  then have IH: "blocks n (concat bs) = bs" and b: "b \<noteq> []" "length b \<le> n" "bs \<noteq> [] \<Longrightarrow> length b = n"
    by (auto simp: full_blocks_Cons)
  have "take n (b @ concat bs) = b" "drop n (b @ concat bs) = concat bs" using b by (cases bs; auto)+
  then show ?case using IH b Cons.prems(2) by (subst blocks.simps) auto
qed simp

lemma length_blocks: "n > 0 \<Longrightarrow> length (blocks n xs) = (length xs + n - 1) div n"
proof (induction n xs rule: blocks.induct)
  case (1 n xs)
  show ?case
  proof (cases "xs = []")
    case False
    have "length (blocks n xs) = Suc ((length (drop n xs) + n - 1) div n)"
      using 1 False by (subst blocks.simps) simp
    also have "\<dots> = (length xs + n - 1) div n"
    proof (cases "length xs \<le> n")
      case True
      have "(length xs + n - 1) div n = 1"
        using True False 1(2) by (intro div_nat_eqI; cases xs) auto
      then show ?thesis using True 1(2) by simp
    next
      case le: False
      then have "length xs + n - 1 = (length xs - n + n - 1) + n" by simp
      then show ?thesis using 1(2) le by (metis add.commute div_add_self2 length_drop less_numeral_extra(3) plus_1_eq_Suc)
    qed
    finally show ?thesis .
  qed (use 1(2) in simp)
qed

lemma nth_blocks:
  assumes "n > 0" and "i < length (blocks n xs)"
  shows "blocks n xs ! i = take n (drop (i * n) xs)"
  using assms
proof (induction i arbitrary: xs)
  case 0
  then show ?case by (subst blocks.simps) (auto simp: blocks.simps split: if_splits)
next
  case (Suc i)
  then have ne: "xs \<noteq> []" by (cases xs) auto
  then have "blocks n xs = take n xs # blocks n (drop n xs)" using Suc.prems(1) by (subst blocks.simps) simp
  with Suc show ?case by (simp add: add.commute)
qed

section \<open>The cipher\<close>

record gcm =
  seal :: "bytes \<Rightarrow> bytes \<Rightarrow> bytes \<Rightarrow> bytes"
  gcm_open :: "bytes \<Rightarrow> bytes \<Rightarrow> bytes \<Rightarrow> bytes option"

text \<open>What is relied on of AES-GCM: opening inverts sealing, and a sealed text is 16 bytes longer.\<close>

definition gcm_correct :: "gcm \<Rightarrow> bool" where
  "gcm_correct G \<longleftrightarrow> (\<forall>k n p. gcm_open G k n (seal G k n p) = Some p \<and> length (seal G k n p) = length p + 16)"

definition chunk_nonce :: "bytes \<Rightarrow> nat \<Rightarrow> bytes" where
  "chunk_nonce baseNonce counter =
     map (\<lambda>i. if i < 8 then baseNonce ! i XOR of_nat (counter div 256 ^ i) else baseNonce ! i) [0 ..< length baseNonce]"

datatype file_error =
  OpenInputFailed | CreateOutputFailed | CipherKeyFailed | NonceFailed | NonceIoFailed | BlockIoFailed nat | BlockOpenFailed nat

text \<open>How the file operations of a run go: which open, and at which block a read or write fails.\<close>

record stream_io =
  can_open :: bool
  can_create :: bool
  nonce_io :: bool
  bad_block :: "nat option"

fun seal_blocks :: "gcm \<Rightarrow> nat option \<Rightarrow> bytes \<Rightarrow> bytes \<Rightarrow> nat \<Rightarrow> bytes list \<Rightarrow> file_error option \<times> bytes" where
  "seal_blocks G bad key nonce counter [] = (None, [])"
| "seal_blocks G bad key nonce counter (b # bs) =
     (if bad = Some counter then (Some (BlockIoFailed counter), [])
      else let (e, out) = seal_blocks G bad key nonce (Suc counter) bs
           in (e, seal G key (chunk_nonce nonce counter) b @ out))"

text \<open>The result with what stands in the output file, if there is one.\<close>

definition encryptFileStreaming ::
  "gcm \<Rightarrow> stream_io \<Rightarrow> bytes option \<Rightarrow> bytes \<Rightarrow> bytes \<Rightarrow> file_error option \<times> bytes option" where
  "encryptFileStreaming G io rnd key content =
     (if \<not> can_open io then (Some OpenInputFailed, None)
      else if \<not> can_create io then (Some CreateOutputFailed, None)
      else if length key \<notin> {16, 24, 32} then (Some CipherKeyFailed, Some [])
      else case rnd of
        None \<Rightarrow> (Some NonceFailed, Some [])
      | Some r \<Rightarrow>
          let nonce = copy_arr 12 r
          in if \<not> nonce_io io then (Some NonceIoFailed, Some [])
             else let (e, out) = seal_blocks G (bad_block io) key nonce 0 (blocks 65536 content)
                  in (e, Some (nonce @ out)))"

fun open_blocks :: "gcm \<Rightarrow> nat option \<Rightarrow> bytes \<Rightarrow> bytes \<Rightarrow> nat \<Rightarrow> bytes list \<Rightarrow> file_error option \<times> bytes" where
  "open_blocks G bad key nonce counter [] = (None, [])"
| "open_blocks G bad key nonce counter (b # bs) =
     (if bad = Some counter then (Some (BlockIoFailed counter), [])
      else case gcm_open G key (chunk_nonce nonce counter) b of
             None \<Rightarrow> (Some (BlockOpenFailed counter), [])
           | Some plain \<Rightarrow>
               let (e, out) = open_blocks G bad key nonce (Suc counter) bs in (e, plain @ out))"

definition decryptFileStreaming ::
  "gcm \<Rightarrow> stream_io \<Rightarrow> bytes \<Rightarrow> bytes \<Rightarrow> file_error option \<times> bytes option" where
  "decryptFileStreaming G io key content =
     (if \<not> can_open io then (Some OpenInputFailed, None)
      else if \<not> can_create io then (Some CreateOutputFailed, None)
      else if length key \<notin> {16, 24, 32} then (Some CipherKeyFailed, Some [])
      else if \<not> nonce_io io \<or> length content < 12 then (Some NonceIoFailed, Some [])
      else let (e, out) = open_blocks G (bad_block io) key (take 12 content) 0 (blocks (65536 + 16) (drop 12 content))
           in (e, Some out))"

definition good_io :: stream_io where
  "good_io = \<lparr>can_open = True, can_create = True, nonce_io = True, bad_block = None\<rparr>"

text \<open>The stored key of a legacy file: what stands before the first \<open>|\<close>, and what follows it.\<close>

fun splitKeyData :: "string \<Rightarrow> string list" where
  "splitKeyData [] = [[]]"
| "splitKeyData (c # cs) =
     (if c = CHR ''|'' then [[], cs]
      else case splitKeyData cs of [p] \<Rightarrow> [c # p] | [p, k] \<Rightarrow> [c # p, k] | r \<Rightarrow> r)"

section \<open>Round trip\<close>

definition sealed :: "gcm \<Rightarrow> bytes \<Rightarrow> bytes \<Rightarrow> nat \<Rightarrow> bytes list \<Rightarrow> bytes list" where
  "sealed G key nonce c bs = map (\<lambda>(i, b). seal G key (chunk_nonce nonce i) b) (zip [c ..< c + length bs] bs)"

lemma sealed_Nil [simp]: "sealed G key nonce c [] = []" by (simp add: sealed_def)

lemma sealed_Cons [simp]:
  "sealed G key nonce c (b # bs) = seal G key (chunk_nonce nonce c) b # sealed G key nonce (Suc c) bs"
  by (simp add: sealed_def upt_rec)

lemma seal_blocks_sealed: "seal_blocks G None key nonce c bs = (None, concat (sealed G key nonce c bs))"
  by (induction bs arbitrary: c) simp_all

lemma sealed_full:
  assumes "gcm_correct G" and "full_blocks n bs"
  shows "full_blocks (n + 16) (sealed G key nonce c bs)"
  using assms(2)
proof (induction bs arbitrary: c)
  case (Cons b bs)
  have "length (seal G key (chunk_nonce nonce c) b) = length b + 16" using assms(1) by (simp add: gcm_correct_def)
  then have "seal G key (chunk_nonce nonce c) b \<noteq> []" by (metis add_is_0 list.size(3) zero_neq_numeral)
  moreover have "sealed G key nonce (Suc c) bs \<noteq> [] \<Longrightarrow> bs \<noteq> []" by auto
  ultimately show ?case
    using Cons \<open>length (seal G key (chunk_nonce nonce c) b) = length b + 16\<close> by (auto simp: full_blocks_Cons)
qed (simp add: full_blocks_def)

lemma open_sealed: "gcm_correct G \<Longrightarrow> open_blocks G None key nonce c (sealed G key nonce c bs) = (None, concat bs)"
  by (induction bs arbitrary: c) (simp_all add: gcm_correct_def)

lemma full_blocks_take: "full_blocks n bs \<Longrightarrow> full_blocks n (take k bs)"
proof (induction bs arbitrary: k)
  case (Cons b bs)
  then show ?case by (cases k) (auto simp: full_blocks_Cons)
qed simp

lemma take_concat: "full_blocks n bs \<Longrightarrow> take (m * n) (concat bs) = concat (take m bs)"
proof (induction m arbitrary: bs)
  case (Suc m)
  show ?case
  proof (cases bs)
    case (Cons b bs')
    show ?thesis
    proof (cases "bs' = []")
      case False
      with Cons Suc.prems have "length b = n" "full_blocks n bs'" by (simp_all add: full_blocks_Cons)
      then show ?thesis using Suc.IH Cons by simp
    qed (use Cons Suc.prems in \<open>simp add: full_blocks_Cons\<close>)
  qed simp
qed simp

lemma sealed_take: "sealed G key nonce c (take k bs) = take k (sealed G key nonce c bs)"
  by (induction bs arbitrary: c k) (auto simp: take_Cons split: nat.splits)

lemma encrypt_shape:
  "length key \<in> {16, 24, 32} \<Longrightarrow> encryptFileStreaming G good_io (Some r) key content
     = (None, Some (copy_arr 12 r @ concat (sealed G key (copy_arr 12 r) 0 (blocks 65536 content))))"
  by (simp add: encryptFileStreaming_def good_io_def seal_blocks_sealed Let_def)

lemma decrypt_sealed:
  assumes "gcm_correct G" and "length key \<in> {16, 24, 32}" and "length nonce = 12" and "full_blocks 65536 bs"
  shows "decryptFileStreaming G good_io key (nonce @ concat (sealed G key nonce 0 bs)) = (None, Some (concat bs))"
  using assms sealed_full [OF assms(1,4), of key nonce 0]
  by (simp add: decryptFileStreaming_def good_io_def blocks_concat open_sealed)

lemma encrypt_decrypt:
  assumes "gcm_correct G" and "length key \<in> {16, 24, 32}" and "encryptFileStreaming G good_io (Some r) key content = (None, Some out)"
  shows "decryptFileStreaming G good_io key out = (None, Some content)"
  using assms encrypt_shape [OF assms(2), of G r content]
    decrypt_sealed [OF assms(1,2) length_copy_arr full_blocks_blocks, of r content] by auto

lemma encrypt_total: "length key \<in> {16, 24, 32} \<Longrightarrow> \<exists>out. encryptFileStreaming G good_io (Some r) key content = (None, Some out)"
  using encrypt_shape by blast

lemma length_concat_sealed: "gcm_correct G \<Longrightarrow> length (concat (sealed G key nonce c bs)) = length (concat bs) + 16 * length bs"
  by (induction bs arbitrary: c) (auto simp: gcm_correct_def)

lemma encrypt_length:
  assumes "gcm_correct G" and "length key \<in> {16, 24, 32}" and "encryptFileStreaming G good_io (Some r) key content = (None, Some c)"
  shows "length c = 12 + length content + 16 * ((length content + 65535) div 65536)"
  using assms encrypt_shape [OF assms(2), of G r content] by (auto simp: length_concat_sealed length_blocks)

text \<open>The nonces of different blocks differ: the counter's bytes can be read back from them.\<close>

lemma of_nat_byte_eq: "(of_nat a :: byte) = of_nat b \<longleftrightarrow> a mod 256 = b mod 256"
  by (simp add: word_of_nat_eq_iff take_bit_eq_mod)

lemma digits_eq:
  "(\<And>i. i < k \<Longrightarrow> (a div 256 ^ i) mod 256 = (b div 256 ^ i) mod 256) \<Longrightarrow> (a :: nat) mod 256 ^ k = b mod 256 ^ k"
proof (induction k)
  case (Suc k)
  have "a mod 256 ^ k = b mod 256 ^ k" by (rule Suc.IH) (use Suc.prems in simp)
  moreover have "x mod 256 ^ Suc k = 256 ^ k * (x div 256 ^ k mod 256) + x mod 256 ^ k" for x :: nat
    by (simp add: mod_mult2_eq mult.commute [of 256])
  ultimately show ?case using Suc.prems [of k] by simp
qed simp

lemma xor_byte_cancel: "x XOR a = x XOR b \<Longrightarrow> a = (b :: byte)"
proof -
  assume "x XOR a = x XOR b"
  moreover have "x XOR (x XOR y) = y" for y by (simp flip: xor.assoc)
  ultimately show ?thesis by metis
qed

lemma chunk_nonce_inj:
  assumes "chunk_nonce base c = chunk_nonce base c'" and "8 \<le> length base" and "c < 2 ^ 64" "c' < 2 ^ 64"
  shows "c = c'"
proof -
  have "(c div 256 ^ i) mod 256 = (c' div 256 ^ i) mod 256" if "i < 8" for i
  proof -
    have "chunk_nonce base c ! i = chunk_nonce base c' ! i" using assms(1) by simp
    then have "base ! i XOR of_nat (c div 256 ^ i) = base ! i XOR of_nat (c' div 256 ^ i)"
      using that assms(2) by (simp add: chunk_nonce_def)
    then have "(of_nat (c div 256 ^ i) :: byte) = of_nat (c' div 256 ^ i)"
      by (rule xor_byte_cancel)
    then show ?thesis by (simp add: of_nat_byte_eq)
  qed
  then have "c mod 256 ^ 8 = c' mod 256 ^ 8" by (rule digits_eq)
  then show ?thesis using assms(3,4) by simp
qed

section \<open>Properties\<close>


definition toy_gcm :: gcm where
  "toy_gcm = \<lparr>seal = (\<lambda>k n p. p @ copy_arr 16 n),
     gcm_open = (\<lambda>k n c. if length c \<ge> 16 \<and> drop (length c - 16) c = copy_arr 16 n then Some (take (length c - 16) c) else None)\<rparr>"

lemma toy_gcm_correct: "gcm_correct toy_gcm"
  by (simp add: gcm_correct_def toy_gcm_def)


text \<open>
   The cipher does not protect the end of a file: cut off after any whole number of blocks, an
  encrypted file still decrypts without error, to the corresponding beginning of the plaintext; cut to its nonce
  it decrypts to the empty file.
\<close>

theorem truncated_file_decrypts:
  assumes "gcm_correct G" and "length key = 32" and "encryptFileStreaming G good_io (Some r) key content = (None, Some c)"
  shows "decryptFileStreaming G good_io key (take (12 + m * 65552) c) = (None, Some (take (m * 65536) content))"
proof -
  let ?n = "copy_arr 12 r" and ?bs = "blocks 65536 content"
  have k: "length key \<in> {16, 24, 32}" using assms(2) by simp
  have c: "c = ?n @ concat (sealed G key ?n 0 ?bs)" using assms(3) encrypt_shape [OF k] by auto
  have "full_blocks 65552 (sealed G key ?n 0 ?bs)" using sealed_full [OF assms(1) full_blocks_blocks [of 65536 content]] by simp
  from take_concat [OF this]
  have "take (m * 65552) (concat (sealed G key ?n 0 ?bs)) = concat (take m (sealed G key ?n 0 ?bs))" .
  then have "take (12 + m * 65552) c = ?n @ concat (sealed G key ?n 0 (take m ?bs))"
    by (simp add: c sealed_take)
  moreover have "concat (take m ?bs) = take (m * 65536) content" using take_concat [OF full_blocks_blocks [of 65536 content]] by simp
  ultimately show ?thesis
    using decrypt_sealed [OF assms(1) k length_copy_arr full_blocks_take [OF full_blocks_blocks], of r m content] by simp
qed

theorem truncated_file_decrypts_witness:
  "\<exists>c. encryptFileStreaming toy_gcm good_io (Some [7]) (replicate 32 1) [1, 2, 3] = (None, Some c)
     \<and> decryptFileStreaming toy_gcm good_io (replicate 32 1) (take 12 c) = (None, Some [])"
proof -
  have k: "length (replicate 32 (1 :: byte)) = 32" by simp
  then have "length (replicate 32 (1 :: byte)) \<in> {16, 24, 32}" by simp
  then obtain c where c: "encryptFileStreaming toy_gcm good_io (Some [7]) (replicate 32 1) [1, 2, 3] = (None, Some c)"
    using encrypt_total by blast
  with truncated_file_decrypts [OF toy_gcm_correct k c, of 0] show ?thesis by simp
qed

end
