(* ===== verification/Data_Transfer.thy ===== *)
theory Data_Transfer
  imports Jobs One_Shot_Crypto File_Cipher "HOL-Library.AList"
begin

text \<open>
  The data worker (\<open>internal/workers/data_worker.go\<close>), which moves the files of jobs between nodes: it
  offers a file to a peer, encrypts it and sends it in chunks; on the other side it collects the chunks of a
  transfer, checks the hash, decrypts and unpacks.  The state has the worker's fields, the database, the
  contents of the files it works on (a path names one file while a transfer has it open), the archives it
  unpacked and the messages it sent.  BLAKE3, AES-GCM and unpacking an archive enter through the environment.
\<close>

section \<open>State and environment\<close>

record IncomingTransfer =
  it_TransferID :: string
  it_JobExecutionID :: int
  it_SourcePeerID :: string
  TargetPath :: string
  ExpectedHash :: string
  ExpectedSize :: int
  it_TotalChunks :: int
  ReceivedChunks :: "int list"
  BytesReceived :: int
  it_Encrypted :: bool
  it_Offer :: key_offer
  DerivedKey :: "bytes option"
  it_InterfaceType :: string
  it_DestinationFileName :: string
  it_StartedAt :: int
  LastChunkAt :: int

record JobDataChunk =
  dc_TransferID :: string
  dc_ChunkIndex :: int
  dc_TotalChunks :: int
  dc_Data :: bytes
  dc_IsLast :: bool

record DataServiceDetails =
  dd_ServiceID :: int
  dd_FilePath :: string
  dd_EncryptedPath :: string
  dd_Hash :: string
  dd_EncryptionKeyID :: "int option"

record EncryptionKey =
  ek_ServiceID :: int
  ek_KeyData :: string

datatype out_message =
  SendRequest string JobDataTransferRequest
| SendChunk string JobDataChunk
| SendAck string string "int list"
| SendComplete string string int int
| SendResume string string "int list" int

text \<open>An archive that was unpacked into a directory (under a new name), or placed by its manifest.\<close>

datatype placement = Unpacked bytes string string | Placed bytes string

record DataServiceWorker =
  dw_peerID :: string
  dw_dataDir :: string
  chunkSize :: int
  incomingTransfers :: "(string \<times> IncomingTransfer) list"
  dw_handler :: bool
  dw_keys :: "bytes option"
  dw_db :: job_db
  details :: "DataServiceDetails list"
  encryption_keys :: "EncryptionKey list"
  disk :: "string \<Rightarrow> bytes option"
  placements :: "placement list"
  dw_sent :: "out_message list"

datatype request_reply = RequestFails | RequestRejected | RequestAccepted

text \<open>
  \<open>d_io\<close> says which file operations of a call succeed, by their number in the call; \<open>d_write\<close> is
  how much of a chunk a failing write still wrote, \<open>d_read\<close> the error of reading a block of the file, if any.  The replies of the peer and the success of each
  attempt to send a chunk belong to the environment too.
\<close>

record dw_env =
  d_now :: int
  d_nano :: int
  d_conns :: "nat \<Rightarrow> conn"
  d_loop :: "nat \<Rightarrow> nat \<Rightarrow> conn"
  d_io :: "nat \<Rightarrow> bool"
  d_write :: "nat option"
  d_read :: "nat \<Rightarrow> string option"
  d_stream :: stream_io
  d_pubkey :: "string \<Rightarrow> bytes option"
  d_rnd :: "bytes option"
  d_nonce :: "bytes option"
  d_prims :: prims
  d_gcm :: gcm
  d_hash :: "bytes \<Rightarrow> string"
  d_unpack :: "bytes \<Rightarrow> string \<Rightarrow> string \<Rightarrow> bool"
  d_place :: "bytes \<Rightarrow> string \<Rightarrow> bool"
  d_manifest :: bool
  d_reply :: request_reply
  d_send :: "nat \<Rightarrow> nat \<Rightarrow> bool"

datatype worker_error =
  DetailsFailed db_error | NoDetails | DataFileMissing | InterfacesUnread db_error | NoStdout | PeersUnread db_error | NoPeers
| EmptyPeerID | OpenSourceFailed | KeyExchangeFailed one_shot_error | TempDirFailed | EncryptFailed file_error | HashUnreadable
| RequestNotSent | TransferRejected | RecordFailed db_error | ReadChunkFailed nat | SendChunkFailed nat
| CreateDirFailed | OpenTargetFailed | NoSenderKey | KeyDerivationFailed one_shot_error
| WriteChunkFailed int | TransferUnknown | HashValidationFailed | KeyMissing | DecryptionFailed "file_error option"
| ExtractDirFailed | BadTargetPath | PackageFailed | DecompressionFailed
| LocalJobFailed db_error | LocalWorkflowFailed db_error | LocalWorkflowMissing | CopyFailed | LegacyKeyFailed | SourceFileGone

section \<open>Files\<close>

text \<open>\<open>WriteAt\<close>: a gap before the offset is filled with zeros; writing nothing changes nothing.\<close>

definition write_at :: "bytes \<Rightarrow> nat \<Rightarrow> bytes \<Rightarrow> bytes" where
  "write_at f off xs =
     (if xs = [] then f else take off (f @ replicate (off - length f) 0) @ xs @ drop (off + length xs) f)"

definition filepath_Dir :: "string \<Rightarrow> string" where
  "filepath_Dir p = Clean (rev (dropWhile (\<lambda>c. c \<noteq> CHR ''/'') (rev p)))"

definition remove_file :: "string \<Rightarrow> DataServiceWorker \<Rightarrow> DataServiceWorker" where
  "remove_file path w = w\<lparr>disk := (disk w)(path := None)\<rparr>"

definition remove_all :: "string \<Rightarrow> DataServiceWorker \<Rightarrow> DataServiceWorker" where
  "remove_all dir w = w\<lparr>disk := (\<lambda>p. if p = dir \<or> HasPrefix p (dir @ ''/'') then None else disk w p)\<rparr>"

definition forget :: "string \<Rightarrow> DataServiceWorker \<Rightarrow> DataServiceWorker" where
  "forget transferID w = w\<lparr>incomingTransfers := AList.delete transferID (incomingTransfers w)\<rparr>"

fun index_of :: "string \<Rightarrow> string \<Rightarrow> nat option" where
  "index_of sub [] = (if sub = [] then Some 0 else None)"
| "index_of sub (c # cs) = (if HasPrefix (c # cs) sub then Some 0 else map_option Suc (index_of sub cs))"

section \<open>The tables of data services\<close>

definition AddDataServiceDetails :: "conn \<Rightarrow> DataServiceDetails \<Rightarrow> DataServiceWorker \<Rightarrow> db_error option \<times> DataServiceWorker" where
  "AddDataServiceDetails c d w = (if fault c = ExecFails then (Some DriverError, w) else (None, w\<lparr>details := details w @ [d]\<rparr>))"

definition GetDataServiceDetails :: "conn \<Rightarrow> int \<Rightarrow> DataServiceWorker \<Rightarrow> db_error + DataServiceDetails option" where
  "GetDataServiceDetails c serviceID w =
     (if fault c = ExecFails then Inl DriverError else Inr (row_at dd_ServiceID serviceID (details w)))"

definition GetEncryptionKey :: "conn \<Rightarrow> int \<Rightarrow> DataServiceWorker \<Rightarrow> db_error + EncryptionKey option" where
  "GetEncryptionKey c serviceID w =
     (if fault c = ExecFails then Inl DriverError else Inr (row_at ek_ServiceID serviceID (encryption_keys w)))"

section \<open>Receiving\<close>

text \<open>The arguments come as a transfer whose path is the requested one; the call fills in the rest.\<close>

definition InitializeIncomingTransferFull ::
  "dw_env \<Rightarrow> IncomingTransfer \<Rightarrow> DataServiceWorker \<Rightarrow> (worker_error, unit) go_result \<times> DataServiceWorker" where
  "InitializeIncomingTransferFull env a w =
     (if map_of (incomingTransfers w) (it_TransferID a) \<noteq> None then (Ok (), w)
      else if \<not> d_io env 0 then (Err CreateDirFailed, w)
      else
        let actualFilePath = (if HasSuffix (TargetPath a) ''/'' then filepath_Join [TargetPath a, it_TransferID a @ ''.dat'']
                              else TargetPath a)
        in if \<not> d_io env 1 then (Err OpenTargetFailed, w)
           else
             let w1 = w\<lparr>disk := (disk w)(actualFilePath \<mapsto> [])\<rparr>;
                 transfer = a\<lparr>TargetPath := actualFilePath, ReceivedChunks := [], BytesReceived := 0, DerivedKey := None,
                              it_StartedAt := d_now env, LastChunkAt := d_now env\<rparr>;
                 add = (\<lambda>t. w1\<lparr>incomingTransfers := (it_TransferID a, t) # incomingTransfers w1\<rparr>)
             in case dw_keys w of
                  Some privateKey \<Rightarrow>
                    if it_Encrypted a \<and> length (off_ephemeral (it_Offer a)) = 32 then
                      (case d_pubkey env (it_SourcePeerID a) of
                         None \<Rightarrow> (Err NoSenderKey, w1)
                       | Some senderPubKey \<Rightarrow>
                           (case DeriveDecryptionKey (d_prims env) (d_now env) privateKey (it_Offer a) senderPubKey of
                              Panic \<Rightarrow> (Panic, w1)
                            | Err e \<Rightarrow> (Err (KeyDerivationFailed e), w1)
                            | Ok derivedKey \<Rightarrow> (Ok (), add (transfer\<lparr>DerivedKey := Some derivedKey\<rparr>))))
                    else (Ok (), add transfer)
                | None \<Rightarrow> (Ok (), add transfer))"

definition no_offer :: key_offer where
  "no_offer = \<lparr>off_ephemeral = [], off_signature = [], off_timestamp = 0\<rparr>"

definition InitializeIncomingTransfer ::
  "dw_env \<Rightarrow> string \<Rightarrow> int \<Rightarrow> string \<Rightarrow> string \<Rightarrow> string \<Rightarrow> int \<Rightarrow> int \<Rightarrow> DataServiceWorker
     \<Rightarrow> (worker_error, unit) go_result \<times> DataServiceWorker" where
  "InitializeIncomingTransfer env transferID jobExecutionID sourcePeerID targetPath expectedHash expectedSize totalChunks =
     InitializeIncomingTransferFull env
       \<lparr>it_TransferID = transferID, it_JobExecutionID = jobExecutionID, it_SourcePeerID = sourcePeerID, TargetPath = targetPath,
        ExpectedHash = expectedHash, ExpectedSize = expectedSize, it_TotalChunks = totalChunks, ReceivedChunks = [],
        BytesReceived = 0, it_Encrypted = False, it_Offer = no_offer, DerivedKey = None, it_InterfaceType = [],
        it_DestinationFileName = [], it_StartedAt = 0, LastChunkAt = 0\<rparr>"

text \<open>How the job manager starts the transfer a peer requested; the division truncates.\<close>

definition incoming_args :: "JobDataTransferRequest \<Rightarrow> string \<Rightarrow> string \<Rightarrow> int \<Rightarrow> int \<Rightarrow> IncomingTransfer" where
  "incoming_args request sender target transferJobID csize =
     (let x = to_int64 (tr_SizeBytes request + csize - 1)
      in \<lparr>it_TransferID = tr_TransferID request, it_JobExecutionID = transferJobID, it_SourcePeerID = sender, TargetPath = target,
          ExpectedHash = tr_DataHash request, ExpectedSize = tr_SizeBytes request,
          it_TotalChunks = (if x < 0 then - (- x div csize) else x div csize), ReceivedChunks = [], BytesReceived = 0,
          it_Encrypted = tr_Encrypted request,
          it_Offer = \<lparr>off_ephemeral = tr_EphemeralPubKey request, off_signature = tr_KeyExchangeSignature request,
                      off_timestamp = tr_KeyExchangeTimestamp request\<rparr>,
          DerivedKey = None, it_InterfaceType = tr_InterfaceType request, it_DestinationFileName = tr_DestinationFileName request,
          it_StartedAt = 0, LastChunkAt = 0\<rparr>)"

definition start_incoming ::
  "job_env \<Rightarrow> dw_env \<Rightarrow> JobDataTransferRequest \<Rightarrow> string \<Rightarrow> JobManager \<Rightarrow> DataServiceWorker
     \<Rightarrow> (transfer_error, string) go_result \<times> JobManager \<times> DataServiceWorker" where
  "start_incoming jenv env request sender jm w =
     (let run = (\<lambda>target jobID. InitializeIncomingTransferFull env (incoming_args request sender target jobID (chunkSize w)) w)
      in case HandleJobDataTransferRequest jenv (\<lambda>target jobID. is_ok (fst (run target jobID))) request sender jm of
           (r, jm') \<Rightarrow>
             (case transfer_target jenv jm request of
                Ok (target, jobID) \<Rightarrow>
                  if r = Panic then (r, jm', w)
                  else (if fst (run target jobID) = Panic then Panic else r, jm', snd (run target jobID))
              | _ \<Rightarrow> (r, jm', w)))"

definition GetJobExecutionIDForTransfer :: "string \<Rightarrow> DataServiceWorker \<Rightarrow> int option" where
  "GetJobExecutionIDForTransfer transferID w = map_option it_JobExecutionID (map_of (incomingTransfers w) transferID)"

subsection \<open>Finishing a transfer\<close>

definition validateFileHash :: "dw_env \<Rightarrow> string \<Rightarrow> string \<Rightarrow> DataServiceWorker \<Rightarrow> bool" where
  "validateFileHash env path expected w \<longleftrightarrow>
     d_io env 2 \<and> (case disk w path of None \<Rightarrow> False | Some f \<Rightarrow> d_hash env f = expected)"

text \<open>The decrypted file replaces the encrypted one; what a failed run leaves in the temporary file stays there.\<close>

definition decryptFile ::
  "dw_env \<Rightarrow> string \<Rightarrow> bytes \<Rightarrow> DataServiceWorker \<Rightarrow> file_error option option \<times> DataServiceWorker" where
  "decryptFile env path key w =
     (let temp = path @ ''.decrypted'';
          io = (if disk w path = None then (d_stream env)\<lparr>can_open := False\<rparr> else d_stream env)
      in case decryptFileStreaming (d_gcm env) io key (case disk w path of Some f \<Rightarrow> f | None \<Rightarrow> []) of
           (Some e, out) \<Rightarrow> (Some (Some e), if out = None then w else w\<lparr>disk := (disk w)(temp := out)\<rparr>)
         | (None, out) \<Rightarrow>
             if \<not> d_io env 3 then (Some None, remove_file temp w)
             else if \<not> d_io env 4 then (Some None, w\<lparr>disk := (disk w)(path := None, temp := out)\<rparr>)
             else (None, w\<lparr>disk := (disk w)(path := out)\<rparr>))"

definition package_base :: "string \<Rightarrow> string option" where
  "package_base targetPath =
     (case index_of ''/jobs/'' targetPath of
        None \<Rightarrow> None
      | Some i \<Rightarrow>
          let components = Split (drop (i + 6) targetPath) CHR ''/''
          in if length components < 4 then None
             else Some (filepath_Join ([take i targetPath, ''jobs''] @ take 4 components)))"

definition manifest_base :: "string \<Rightarrow> JobExecution \<Rightarrow> string" where
  "manifest_base dataDir job =
     filepath_Join [dataDir, ''workflows'', je_OrderingPeerID job, itoa (je_WorkflowJobID job), ''jobs'', itoa (je_ID job)]"

text \<open>Unpacking: an archive that is gone cannot be opened.\<close>

definition unpack_transfer ::
  "dw_env \<Rightarrow> IncomingTransfer \<Rightarrow> DataServiceWorker \<Rightarrow> (worker_error, unit) go_result \<times> DataServiceWorker" where
  "unpack_transfer env t w =
     (let path = TargetPath t; extractDir = filepath_Dir path; drop_it = forget (it_TransferID t) (remove_file path w)
      in if \<not> d_io env 5 then (Err ExtractDirFailed, drop_it)
         else if it_InterfaceType t = ''PACKAGE'' then
           (case package_base path of
              None \<Rightarrow> (Err BadTargetPath, w)
            | Some baseDir \<Rightarrow>
                (case disk w path of
                   Some archive \<Rightarrow>
                     if d_place env archive baseDir
                     then (Ok (), remove_file path (w\<lparr>placements := placements w @ [Placed archive baseDir]\<rparr>))
                     else (Err PackageFailed, drop_it)
                 | None \<Rightarrow> (Err PackageFailed, drop_it)))
         else
           (case disk w path of
              Some archive \<Rightarrow>
                if d_unpack env archive extractDir (it_DestinationFileName t) then
                  let w1 = w\<lparr>placements := placements w @ [Unpacked archive extractDir (it_DestinationFileName t)]\<rparr>;
                      w2 = (if d_manifest env then
                              (case GetJobExecution (d_conns env 5) (it_JobExecutionID t) (dw_db w1) of
                                 Inr job \<Rightarrow>
                                   if d_place env archive (manifest_base (dw_dataDir w) job)
                                   then w1\<lparr>placements := placements w1 @ [Placed archive (manifest_base (dw_dataDir w) job)]\<rparr>
                                   else w1
                               | Inl _ \<Rightarrow> w1)
                            else w1)
                  in (Ok (), remove_file path w2)
                else (Err DecompressionFailed, forget (it_TransferID t) (remove_all extractDir (remove_file path w)))
            | None \<Rightarrow> (Err DecompressionFailed, forget (it_TransferID t) (remove_all extractDir (remove_file path w)))))"

definition mark_transfer_done :: "dw_env \<Rightarrow> IncomingTransfer \<Rightarrow> DataServiceWorker \<Rightarrow> DataServiceWorker" where
  "mark_transfer_done env t w =
     (let db1 =
        (if it_JobExecutionID t > 0 then
           (case GetJobExecution (d_conns env 2) (it_JobExecutionID t) (dw_db w) of
              Inr job \<Rightarrow>
                if je_Status job = ''RUNNING''
                then snd (UpdateJobStatus (d_conns env 3) (d_now env) (it_JobExecutionID t) ''COMPLETED'' [] (dw_db w))
                else dw_db w
            | Inl _ \<Rightarrow> dw_db w)
         else dw_db w)
      in forget (it_TransferID t) (w\<lparr>dw_db := snd (CompleteTransfer (d_conns env 4) (d_now env) (it_TransferID t) db1)\<rparr>))"

definition finalizeTransfer ::
  "dw_env \<Rightarrow> string \<Rightarrow> DataServiceWorker \<Rightarrow> (worker_error, unit) go_result \<times> DataServiceWorker" where
  "finalizeTransfer env transferID w =
     (case map_of (incomingTransfers w) transferID of
        None \<Rightarrow> (Err TransferUnknown, w)
      | Some t \<Rightarrow>
          let path = TargetPath t
          in if ExpectedHash t \<noteq> [] \<and> \<not> validateFileHash env path (ExpectedHash t) w
             then (Err HashValidationFailed, forget transferID (remove_file path w))
             else
               let decrypted =
                 (if \<not> it_Encrypted t then (None, w)
                  else case DerivedKey t of
                    None \<Rightarrow> (Some KeyMissing, forget transferID (remove_file path w))
                  | Some key \<Rightarrow>
                      (case decryptFile env path key w of
                         (Some e, w1) \<Rightarrow> (Some (DecryptionFailed e), forget transferID (remove_file path w1))
                       | (None, w1) \<Rightarrow> (None, w1)))
               in case decrypted of
                    (Some e, w1) \<Rightarrow> (Err e, w1)
                  | (None, w1) \<Rightarrow>
                      (case unpack_transfer env t w1 of
                         (Ok _, w2) \<Rightarrow> (Ok (), mark_transfer_done env t w2)
                       | r \<Rightarrow> r))"

subsection \<open>Chunks\<close>

definition record_progress :: "dw_env \<Rightarrow> IncomingTransfer \<Rightarrow> DataServiceWorker \<Rightarrow> DataServiceWorker" where
  "record_progress env t w =
     w\<lparr>dw_db :=
        (case GetTransferByID (d_conns env 0) (it_TransferID t) (dw_db w) of
           Inl _ \<Rightarrow>
             snd (CreateDataTransfer (d_conns env 1) (d_now env)
                    \<lparr>dt_ID = 0, dt_TransferID = it_TransferID t, dt_JobExecutionID = it_JobExecutionID t,
                     dt_SourcePeerID = it_SourcePeerID t, dt_DestinationPeerID = dw_peerID w, dt_FilePath = TargetPath t,
                     dt_TotalChunks = it_TotalChunks t, dt_ChunkSize = chunkSize w, dt_TotalBytes = ExpectedSize t,
                     dt_FileHash = ExpectedHash t, dt_Encrypted = it_Encrypted t, ChunksSent = [],
                     ChunksReceived = ReceivedChunks t, ChunksAcked = [], BytesTransferred = BytesReceived t,
                     dt_Status = ''active'', Direction = ''receiver'', LastActivity = d_now env, LastCheckpoint = d_now env,
                     dt_ErrorMessage = [], dt_CreatedAt = 0, dt_UpdatedAt = 0\<rparr> (dw_db w))
         | Inr _ \<Rightarrow>
             snd (UpdateTransferProgress (d_conns env 1) (d_now env) (it_TransferID t) [] (ReceivedChunks t) []
                    (BytesReceived t) (dw_db w)))\<rparr>"

definition put_transfer :: "IncomingTransfer \<Rightarrow> DataServiceWorker \<Rightarrow> DataServiceWorker" where
  "put_transfer t w = w\<lparr>incomingTransfers := AList.update (it_TransferID t) t (incomingTransfers w)\<rparr>"

text \<open>A chunk of a transfer that is known.\<close>

definition receive_chunk ::
  "dw_env \<Rightarrow> JobDataChunk \<Rightarrow> string \<Rightarrow> IncomingTransfer \<Rightarrow> DataServiceWorker \<Rightarrow> (worker_error, unit) go_result \<times> DataServiceWorker" where
  "receive_chunk env chunk sender t0 w0 =
     (let t1 = t0\<lparr>it_TotalChunks := dc_TotalChunks chunk\<rparr>; w1 = put_transfer t1 w0;
          offset = to_int64 (dc_ChunkIndex chunk * chunkSize w0);
          wr = (\<lambda>xs. case disk w1 (TargetPath t1) of
                        Some f \<Rightarrow> w1\<lparr>disk := (disk w1)(TargetPath t1 \<mapsto> write_at f (nat offset) xs)\<rparr>
                      | None \<Rightarrow> w1)
      in if dc_ChunkIndex chunk \<in> set (ReceivedChunks t1) then (Ok (), w1)
         else if offset < 0 then (Err (WriteChunkFailed (dc_ChunkIndex chunk)), w1)
         else case d_write env of
           Some k \<Rightarrow> (Err (WriteChunkFailed (dc_ChunkIndex chunk)), wr (take k (dc_Data chunk)))
         | None \<Rightarrow>
             let t2 = t1\<lparr>ReceivedChunks := ReceivedChunks t1 @ [dc_ChunkIndex chunk],
                         BytesReceived := BytesReceived t1 + int (length (dc_Data chunk)), LastChunkAt := d_now env\<rparr>;
                 w2 = record_progress env t2 (put_transfer t2 (wr (dc_Data chunk)));
                 count = length (ReceivedChunks t2);
                 isComplete = int count = it_TotalChunks t2;
                 w3 = (if (count mod 15 = 0 \<or> isComplete) \<and> dw_handler w2
                       then w2\<lparr>dw_sent := dw_sent w2 @ [SendAck sender (dc_TransferID chunk) (ReceivedChunks t2)]\<rparr>
                       else w2)
             in if isComplete then finalizeTransfer env (dc_TransferID chunk) w3 else (Ok (), w3))"

text \<open>A chunk of an unknown transfer starts one, below \<open>/tmp\<close>, without a hash or a job.\<close>

definition HandleDataChunk ::
  "dw_env \<Rightarrow> JobDataChunk \<Rightarrow> string \<Rightarrow> DataServiceWorker \<Rightarrow> (worker_error, unit) go_result \<times> DataServiceWorker" where
  "HandleDataChunk env chunk sender w =
     (if slice8 sender = None then (Panic, w)
      else case map_of (incomingTransfers w) (dc_TransferID chunk) of
        Some t \<Rightarrow> receive_chunk env chunk sender t w
      | None \<Rightarrow>
          (case InitializeIncomingTransfer env (dc_TransferID chunk) 0 sender
                  (filepath_Join [''/tmp'', ''remote-network-transfers'', dc_TransferID chunk]) [] (- 1) (dc_TotalChunks chunk) w of
             (Ok _, w1) \<Rightarrow>
               (case map_of (incomingTransfers w1) (dc_TransferID chunk) of
                  Some t \<Rightarrow> receive_chunk env chunk sender t w1
                | None \<Rightarrow> (Panic, w1))
           | r \<Rightarrow> r))"

section \<open>Watching transfers\<close>

definition abandon :: "dw_env \<Rightarrow> nat \<Rightarrow> string \<times> IncomingTransfer \<Rightarrow> DataServiceWorker \<Rightarrow> DataServiceWorker" where
  "abandon env k = (\<lambda>(transferID, t) w.
     let w1 = (if TargetPath t \<noteq> [] then remove_file (TargetPath t) w else w)
     in forget transferID (w1\<lparr>dw_db := snd (FailTransfer (d_loop env 0 k) (d_now env) transferID
                                (''Transfer abandoned - no activity for 5m0s'') (dw_db w1))\<rparr>))"

fun abandon_all :: "dw_env \<Rightarrow> nat \<Rightarrow> (string \<times> IncomingTransfer) list \<Rightarrow> DataServiceWorker \<Rightarrow> DataServiceWorker" where
  "abandon_all env k [] w = w"
| "abandon_all env k (x # xs) w = abandon_all env (Suc k) xs (abandon env k x w)"

text \<open>With the timeout of five minutes the monitor passes.\<close>

definition cleanupAbandonedTransfers :: "dw_env \<Rightarrow> DataServiceWorker \<Rightarrow> DataServiceWorker" where
  "cleanupAbandonedTransfers env w =
     abandon_all env 0 (filter (\<lambda>(i, t). d_now env - LastChunkAt t > 300) (incomingTransfers w)) w"

definition CleanupStalledTransfers :: "int \<Rightarrow> int \<Rightarrow> DataServiceWorker \<Rightarrow> DataServiceWorker" where
  "CleanupStalledTransfers now maxIdle w =
     foldr (\<lambda>(i, t). forget i \<circ> remove_file (TargetPath t))
       (filter (\<lambda>(i, t). now - LastChunkAt t > maxIdle) (incomingTransfers w)) w"

definition sendResumeRequest :: "DataTransfer \<Rightarrow> DataServiceWorker \<Rightarrow> DataServiceWorker" where
  "sendResumeRequest transfer w =
     (if dw_handler w then
        w\<lparr>dw_sent := dw_sent w @ [SendResume (dt_SourcePeerID transfer) (dt_TransferID transfer) (ChunksReceived transfer)
                                    (int (length (ChunksReceived transfer)) - 1)]\<rparr>
      else w)"

definition monitor_tick :: "dw_env \<Rightarrow> DataServiceWorker \<Rightarrow> DataServiceWorker" where
  "monitor_tick env w =
     (let w1 = cleanupAbandonedTransfers env w
      in case GetStalledTransfers (d_conns env 0) (d_now env) 30 (dw_db w1) of
           Inl _ \<Rightarrow> w1
         | Inr stalled \<Rightarrow>
             fold sendResumeRequest
               (filter (\<lambda>t. Direction t = ''receiver'' \<and> dt_Status t \<noteq> ''paused'' \<and> dt_Status t \<noteq> ''failed'') stalled) w1)"

section \<open>Sending\<close>

definition GenerateTransferID :: "dw_env \<Rightarrow> int \<Rightarrow> string \<Rightarrow> string" where
  "GenerateTransferID env jobExecutionID destPeerID =
     take 16 (d_hash env (map of_char (itoa jobExecutionID @ ''-'' @ destPeerID @ ''-'' @ itoa (d_nano env))))"

definition interface_type :: "JobInterfacePeer \<Rightarrow> string" where
  "interface_type peer =
     (let peerPath = (if HasSuffix (jip_PeerPath peer) ''/'' then butlast (jip_PeerPath peer) else jip_PeerPath peer)
      in if peerPath \<noteq> [] \<and> peerPath \<noteq> ''input'' then ''MOUNT'' else ''STDIN'')"

definition destination_job :: "dw_env \<Rightarrow> JobExecution \<Rightarrow> JobInterfacePeer \<Rightarrow> job_db \<Rightarrow> int" where
  "destination_job env job peer db =
     (case jip_PeerWorkflowJobID peer of
        None \<Rightarrow> 0
      | Some wj \<Rightarrow>
          (case jip_PeerJobExecutionID peer of
             Some j \<Rightarrow> j
           | None \<Rightarrow>
               (case GetJobExecutionByWorkflowJobAndOrderingPeer (d_conns env 0) wj (je_OrderingPeerID job) db of
                  Inr j \<Rightarrow> je_ID j | Inl _ \<Rightarrow> 0)))"

text \<open>The chunks of a file, and what is sent of them: each is tried up to three times.\<close>

definition file_chunks :: "string \<Rightarrow> nat \<Rightarrow> bytes \<Rightarrow> JobDataChunk list" where
  "file_chunks transferID n content =
     map (\<lambda>(i, b). \<lparr>dc_TransferID = transferID, dc_ChunkIndex = int i,
                    dc_TotalChunks = int (length (blocks n content)), dc_Data = b,
                    dc_IsLast = (Suc i = length (blocks n content))\<rparr>)
       (zip [0 ..< length (blocks n content)] (blocks n content))"

definition chunk_sent :: "dw_env \<Rightarrow> nat \<Rightarrow> bool" where
  "chunk_sent env i \<longleftrightarrow> (\<exists>a\<in>set [0 ..< 3]. d_send env i a)"

definition checkpoint :: "dw_env \<Rightarrow> nat \<Rightarrow> string \<Rightarrow> int list \<Rightarrow> int \<Rightarrow> DataServiceWorker \<Rightarrow> DataServiceWorker" where
  "checkpoint env i transferID sent n w =
     w\<lparr>dw_db := snd (UpdateTransferCheckpoint (d_loop env i 1) (d_now env) transferID
               (snd (UpdateTransferProgress (d_loop env i 0) (d_now env) transferID sent [] [] n (dw_db w))))\<rparr>"

fun send_chunks ::
  "dw_env \<Rightarrow> string \<Rightarrow> nat \<Rightarrow> int \<Rightarrow> JobDataChunk list \<Rightarrow> DataServiceWorker \<Rightarrow> worker_error option \<times> int \<times> DataServiceWorker" where
  "send_chunks env destPeerID i n [] w = (None, n, w)"
| "send_chunks env destPeerID i n (c # cs) w =
     (let fail = (\<lambda>msg e. (Some e, n, w\<lparr>dw_db := snd (FailTransfer (d_loop env i 2) (d_now env) (dc_TransferID c) msg (dw_db w))\<rparr>))
      in case d_read env i of
           Some msg \<Rightarrow> fail (''failed to read file chunk: '' @ msg) (ReadChunkFailed i)
         | None \<Rightarrow>
         if dw_handler w \<and> \<not> chunk_sent env i
              then fail (''failed to send chunk '' @ itoa (int i) @ '' after 3 attempts'') (SendChunkFailed i)
         else
           let n' = n + int (length (dc_Data c));
               w1 = (if dw_handler w then w\<lparr>dw_sent := dw_sent w @ [SendChunk destPeerID c]\<rparr> else w);
               w2 = (if Suc i mod 20 = 0 \<or> dc_IsLast c
                     then checkpoint env i (dc_TransferID c) (if dw_handler w then map int [0 ..< Suc i] else []) n' w1
                     else w1)
           in send_chunks env destPeerID (Suc i) n' cs w2)"

text \<open>
  What is sent instead of the file: the file itself when the peer's key is not known, otherwise its
  encryption, with the offer that lets the peer derive the key.
\<close>

definition prepare_content ::
  "dw_env \<Rightarrow> string \<Rightarrow> DataServiceDetails \<Rightarrow> bytes \<Rightarrow> DataServiceWorker
     \<Rightarrow> (worker_error, bytes \<times> string \<times> bool \<times> key_offer) go_result" where
  "prepare_content env destPeerID d content w =
     (case dw_keys w of
        None \<Rightarrow> Panic
      | Some privateKey \<Rightarrow>
          (case d_pubkey env destPeerID of
             None \<Rightarrow> Ok (content, dd_Hash d, False, \<lparr>off_ephemeral = replicate 32 0, off_signature = [], off_timestamp = 0\<rparr>)
           | Some recipientPubKey \<Rightarrow>
               (case GenerateKeyExchange (d_prims env) (d_rnd env) (d_now env) privateKey recipientPubKey of
                  Inl e \<Rightarrow> Err (KeyExchangeFailed e)
                | Inr (off, encryptionKey) \<Rightarrow>
                    if \<not> d_io env 1 then Err TempDirFailed
                    else case encryptFileStreaming (d_gcm env) (d_stream env) (d_nonce env) encryptionKey content of
                      (Some e, _) \<Rightarrow> Err (EncryptFailed e)
                    | (None, None) \<Rightarrow> Err HashUnreadable
                    | (None, Some out) \<Rightarrow>
                        if \<not> d_io env 2 then Err HashUnreadable else Ok (out, d_hash env out, True, off))))"

definition sender_record ::
  "dw_env \<Rightarrow> string \<Rightarrow> JobExecution \<Rightarrow> string \<Rightarrow> string \<Rightarrow> bytes \<Rightarrow> string \<Rightarrow> bool \<Rightarrow> DataServiceWorker \<Rightarrow> DataTransfer" where
  "sender_record env transferID job destPeerID filePath content hash encrypted w =
     \<lparr>dt_ID = 0, dt_TransferID = transferID, dt_JobExecutionID = je_ID job, dt_SourcePeerID = dw_peerID w,
      dt_DestinationPeerID = destPeerID, dt_FilePath = filePath,
      dt_TotalChunks = int (length (blocks (nat (chunkSize w)) content)), dt_ChunkSize = chunkSize w,
      dt_TotalBytes = int (length content), dt_FileHash = hash, dt_Encrypted = encrypted, ChunksSent = [], ChunksReceived = [],
      ChunksAcked = [], BytesTransferred = 0, dt_Status = ''active'', Direction = ''sender'', LastActivity = d_now env,
      LastCheckpoint = d_now env, dt_ErrorMessage = [], dt_CreatedAt = 0, dt_UpdatedAt = 0\<rparr>"

definition transfer_request ::
  "dw_env \<Rightarrow> string \<Rightarrow> JobExecution \<Rightarrow> JobInterfacePeer \<Rightarrow> bytes \<Rightarrow> string \<Rightarrow> bool \<Rightarrow> key_offer \<Rightarrow> DataServiceWorker
     \<Rightarrow> JobDataTransferRequest" where
  "transfer_request env transferID job peer content hash encrypted off w =
     \<lparr>tr_TransferID = transferID,
      tr_WorkflowJobID = (case jip_PeerWorkflowJobID peer of Some wj \<Rightarrow> wj | None \<Rightarrow> je_WorkflowJobID job),
      tr_SourceJobExecutionID = je_ID job, tr_DestinationJobExecutionID = destination_job env job peer (dw_db w),
      tr_InterfaceType = interface_type peer, tr_SourcePeerID = dw_peerID w, tr_DestinationPeerID = jip_PeerID peer,
      tr_DestinationPath = jip_PeerPath peer,
      tr_DestinationFileName = (case jip_PeerFileName peer of Some f \<Rightarrow> f | None \<Rightarrow> []), tr_DataHash = hash,
      tr_SizeBytes = int (length content), tr_Encrypted = encrypted, tr_EphemeralPubKey = off_ephemeral off,
      tr_KeyExchangeSignature = off_signature off, tr_KeyExchangeTimestamp = off_timestamp off\<rparr>"

text \<open>Sending to another peer, after the file was read.\<close>

definition send_to_peer ::
  "dw_env \<Rightarrow> JobExecution \<Rightarrow> string \<Rightarrow> JobInterfacePeer \<Rightarrow> bytes \<times> string \<times> bool \<times> key_offer \<Rightarrow> DataServiceWorker
     \<Rightarrow> (worker_error, unit) go_result \<times> DataServiceWorker" where
  "send_to_peer env job filePath peer = (\<lambda>(content, hash, encrypted, off) w.
     let transferID = GenerateTransferID env (je_ID job) (jip_PeerID peer);
         w1 = (if dw_handler w
               then w\<lparr>dw_sent := dw_sent w @ [SendRequest (jip_PeerID peer)
                       (transfer_request env transferID job peer content hash encrypted off w)]\<rparr>
               else w)
     in if dw_handler w \<and> d_reply env = RequestFails then (Err RequestNotSent, w1)
        else if dw_handler w \<and> d_reply env = RequestRejected then (Err TransferRejected, w1)
        else case CreateDataTransfer (d_conns env 1) (d_now env)
                    (sender_record env transferID job (jip_PeerID peer) filePath content hash encrypted w) (dw_db w1) of
          (Inl e, db) \<Rightarrow> (Err (RecordFailed e), w1\<lparr>dw_db := db\<rparr>)
        | (Inr _, db) \<Rightarrow>
            (case send_chunks env (jip_PeerID peer) 0 0 (file_chunks transferID (nat (chunkSize w)) content) (w1\<lparr>dw_db := db\<rparr>) of
               (Some e, n, w2) \<Rightarrow> (Err e, w2)
             | (None, n, w2) \<Rightarrow>
                 let w3 = (if dw_handler w2
                           then w2\<lparr>dw_sent := dw_sent w2 @ [SendComplete (jip_PeerID peer) transferID (je_ID job) n]\<rparr> else w2)
                 in (Ok (), w3\<lparr>dw_db := snd (CompleteTransfer (d_conns env 2) (d_now env) transferID (dw_db w3))\<rparr>)))"

subsection \<open>To a job of the same node\<close>

fun hex_val :: "char \<Rightarrow> nat option" where
  "hex_val c =
     (let n = (of_char c :: nat)
      in if 48 \<le> n \<and> n \<le> 57 then Some (n - 48) else if 97 \<le> n \<and> n \<le> 102 then Some (n - 87)
         else if 65 \<le> n \<and> n \<le> 70 then Some (n - 55) else None)"

fun hex_decode :: "string \<Rightarrow> bytes option" where
  "hex_decode [] = Some []"
| "hex_decode [_] = None"
| "hex_decode (a # b # cs) =
     (case (hex_val a, hex_val b, hex_decode cs) of (Some h, Some l, Some bs) \<Rightarrow> Some (of_nat (16 * h + l) # bs) | _ \<Rightarrow> None)"

text \<open>The key of a file that was stored encrypted: bytes 16 to 48 of the stored key data.\<close>

definition legacy_key :: "string \<Rightarrow> bytes option" where
  "legacy_key keyData =
     (case splitKeyData keyData of
        [_, hexKeyData] \<Rightarrow>
          (case hex_decode hexKeyData of Some k \<Rightarrow> if length k < 48 then None else Some (take 32 (drop 16 k)) | None \<Rightarrow> None)
      | _ \<Rightarrow> None)"

text \<open>Where the data goes: the directory of the receiving job, or of the node that ordered the workflow.\<close>

definition local_target ::
  "dw_env \<Rightarrow> int \<Rightarrow> JobInterfacePeer \<Rightarrow> string \<Rightarrow> DataServiceWorker \<Rightarrow> worker_error + string" where
  "local_target env jobExecutionID peer interfaceType w =
     (case GetJobExecution (d_conns env 0) jobExecutionID (dw_db w) of
        Inl e \<Rightarrow> Inl (LocalJobFailed e)
      | Inr job \<Rightarrow>
          let path = (\<lambda>wj receiver receiverJob. BuildTransferDestinationPath (dw_dataDir w)
                  \<lparr>OrchestratorPeerID = je_OrderingPeerID job, pi_WorkflowJobID = wj, pi_ExecutorPeerID = je_ExecutorPeerID job,
                   pi_JobExecutionID = je_ID job, ReceiverPeerID = receiver, ReceiverJobExecID = receiverJob\<rparr>
                  interfaceType (jip_PeerPath peer) @ ''/'')
          in case jip_PeerJobExecutionID peer of
               Some dest \<Rightarrow>
                 if dest = 0 then
                   (case GetWorkflowJobByID (d_conns env 1) (je_WorkflowJobID job) (dw_db w) of
                      Inl e \<Rightarrow> Inl (LocalWorkflowFailed e) | Inr None \<Rightarrow> Inl LocalWorkflowMissing
                    | Inr (Some wj) \<Rightarrow> Inr (path (wj_ID wj) (je_OrderingPeerID job) 0))
                 else
                   (case GetJobExecution (d_conns env 1) dest (dw_db w) of
                      Inl e \<Rightarrow> Inl (LocalJobFailed e)
                    | Inr destJob \<Rightarrow> Inr (path (je_WorkflowJobID destJob) (je_ExecutorPeerID destJob) dest))
             | None \<Rightarrow>
                 (case GetWorkflowJobByID (d_conns env 1) (je_WorkflowJobID job) (dw_db w) of
                    Inl e \<Rightarrow> Inl (LocalWorkflowFailed e) | Inr None \<Rightarrow> Inl LocalWorkflowMissing
                  | Inr (Some wj) \<Rightarrow> Inr (path (wj_ID wj) (je_OrderingPeerID job) 0)))"

text \<open>The copy the archive is processed in is removed whatever happens, so only the unpacked archive remains.\<close>

definition handleLocalDataTransfer ::
  "dw_env \<Rightarrow> int \<Rightarrow> string \<Rightarrow> JobInterfacePeer \<Rightarrow> DataServiceDetails \<Rightarrow> string \<Rightarrow> DataServiceWorker
     \<Rightarrow> (worker_error, unit) go_result \<times> DataServiceWorker" where
  "handleLocalDataTransfer env jobExecutionID filePath peer d interfaceType w =
     (case local_target env jobExecutionID peer interfaceType w of
        Inl e \<Rightarrow> (Err e, w)
      | Inr dir \<Rightarrow>
          if \<not> d_io env 1 then (Err CreateDirFailed, w)
          else case disk w filePath of
            None \<Rightarrow> (Err CopyFailed, w)
          | Some content \<Rightarrow>
              if \<not> d_io env 0 then (Err CopyFailed, w)
              else if dd_Hash d \<noteq> [] \<and> (\<not> d_io env 2 \<or> d_hash env content \<noteq> dd_Hash d) then (Err HashValidationFailed, w)
              else
                let plain =
                  (case dd_EncryptionKeyID d of
                     None \<Rightarrow> Inr content
                   | Some _ \<Rightarrow>
                       (case GetEncryptionKey (d_conns env 2) (dd_ServiceID d) w of
                          Inr (Some key) \<Rightarrow>
                            (case legacy_key (ek_KeyData key) of
                               None \<Rightarrow> Inl LegacyKeyFailed
                             | Some k \<Rightarrow>
                                 (case decryptFileStreaming (d_gcm env) (d_stream env) k content of
                                    (Some e, _) \<Rightarrow> Inl (DecryptionFailed (Some e))
                                  | (None, out) \<Rightarrow>
                                      if d_io env 3 \<and> d_io env 4 then Inr (the out) else Inl (DecryptionFailed None)))
                        | _ \<Rightarrow> Inl LegacyKeyFailed))
                in case plain of
                     Inl e \<Rightarrow> (Err e, w)
                   | Inr archive \<Rightarrow>
                       let name = (case jip_PeerFileName peer of Some f \<Rightarrow> f | None \<Rightarrow> [])
                       in if d_unpack env archive dir name
                          then (Ok (), w\<lparr>placements := placements w @ [Unpacked archive dir name]\<rparr>)
                          else (Err DecompressionFailed, w))"

definition transferDataToPeer ::
  "dw_env \<Rightarrow> JobExecution \<Rightarrow> string \<Rightarrow> JobInterfacePeer \<Rightarrow> DataServiceDetails \<Rightarrow> DataServiceWorker
     \<Rightarrow> (worker_error, unit) go_result \<times> DataServiceWorker" where
  "transferDataToPeer env job filePath peer d w =
     (if jip_PeerID peer = [] then (Err EmptyPeerID, w)
      else if jip_PeerID peer = dw_peerID w then handleLocalDataTransfer env (je_ID job) filePath peer d (interface_type peer) w
      else case disk w filePath of
        None \<Rightarrow> (Err OpenSourceFailed, w)
      | Some content \<Rightarrow>
          if \<not> d_io env 0 then (Err OpenSourceFailed, w)
          else case prepare_content env (jip_PeerID peer) d content w of
            Panic \<Rightarrow> (Panic, w)
          | Err e \<Rightarrow> (Err e, w)
          | Ok prepared \<Rightarrow> send_to_peer env job filePath peer prepared w)"

subsection \<open>A job of a data service\<close>

fun transfer_all ::
  "(nat \<Rightarrow> dw_env) \<Rightarrow> nat \<Rightarrow> JobExecution \<Rightarrow> string \<Rightarrow> DataServiceDetails \<Rightarrow> JobInterfacePeer list \<Rightarrow> DataServiceWorker
     \<Rightarrow> (worker_error, unit) go_result \<times> DataServiceWorker" where
  "transfer_all envs k job filePath d [] w = (Ok (), w)"
| "transfer_all envs k job filePath d (peer # peers) w =
     (if jip_PeerMountFunction peer \<noteq> ''INPUT'' then transfer_all envs (Suc k) job filePath d peers w
      else case transferDataToPeer (envs k) job filePath peer d w of
        (Ok _, w1) \<Rightarrow> transfer_all envs (Suc k) job filePath d peers w1
      | r \<Rightarrow> r)"

definition ExecuteDataService ::
  "dw_env \<Rightarrow> (nat \<Rightarrow> dw_env) \<Rightarrow> JobExecution \<Rightarrow> OfferedService \<Rightarrow> DataServiceWorker
     \<Rightarrow> (worker_error, unit) go_result \<times> DataServiceWorker" where
  "ExecuteDataService env envs job service w =
     (case GetDataServiceDetails (d_conns env 0) (sv_ID service) w of
        Inl e \<Rightarrow> (Err (DetailsFailed e), w)
      | Inr None \<Rightarrow> (Err NoDetails, w)
      | Inr (Some d) \<Rightarrow>
          let filePath = (if dd_EncryptedPath d = [] then dd_FilePath d else dd_EncryptedPath d)
          in if disk w filePath = None then (Err DataFileMissing, w)
             else case GetJobInterfaces (d_conns env 1) (je_ID job) (dw_db w) of
               Inl e \<Rightarrow> (Err (InterfacesUnread e), w)
             | Inr interfaces \<Rightarrow>
                 (case sql_first (\<lambda>f. ji_InterfaceType f = ''STDOUT'') interfaces of
                    None \<Rightarrow> (Err NoStdout, w)
                  | Some stdout \<Rightarrow>
                      (case GetJobInterfacePeers (d_conns env 2) (ji_ID stdout) (dw_db w) of
                         Inl e \<Rightarrow> (Err (PeersUnread e), w)
                       | Inr [] \<Rightarrow> (Err NoPeers, w)
                       | Inr peers \<Rightarrow> transfer_all envs 0 job filePath d peers w)))"

section \<open>Acknowledging and resuming\<close>

text \<open>The sender's side of acknowledgements and resume requests (\<open>internal/p2p/job_handler.go\<close>).\<close>

definition handleJobDataChunkAck ::
  "conn \<Rightarrow> conn \<Rightarrow> int \<Rightarrow> string \<Rightarrow> int list \<Rightarrow> job_db \<Rightarrow> db_error option \<times> job_db" where
  "handleJobDataChunkAck c c' now transferID chunkIndexes db =
     (case GetTransferByID c transferID db of
        Inl e \<Rightarrow> (Some e, db)
      | Inr t \<Rightarrow> UpdateTransferProgress c' now transferID (ChunksSent t) (ChunksReceived t)
                   (remdups (ChunksAcked t @ chunkIndexes)) (BytesTransferred t) db)"

definition missing_chunks :: "int list \<Rightarrow> int \<Rightarrow> int list" where
  "missing_chunks received chunks = filter (\<lambda>i. i \<notin> set received) (map int [0 ..< nat chunks])"

definition handleJobDataTransferResume ::
  "conn \<Rightarrow> conn \<Rightarrow> int \<Rightarrow> string \<Rightarrow> string \<Rightarrow> int list \<Rightarrow> job_db \<Rightarrow> bool \<times> job_db" where
  "handleJobDataTransferResume c c' now ourPeerID transferID receivedChunks db =
     (case GetTransferByID c transferID db of
        Inl e \<Rightarrow> (False, db)
      | Inr t \<Rightarrow>
          if Direction t \<noteq> ''sender'' \<or> dt_SourcePeerID t \<noteq> ourPeerID then (False, db)
          else if missing_chunks receivedChunks (dt_TotalChunks t) = [] then (True, db)
          else (True, snd (UpdateTransferProgress c' now transferID (ChunksSent t) receivedChunks (ChunksAcked t)
                             (BytesTransferred t) db)))"

text \<open>Resending the chunks of a stalled transfer that were not acknowledged, from the file the record names.\<close>

fun resend_chunks ::
  "dw_env \<Rightarrow> DataTransfer \<Rightarrow> bytes \<Rightarrow> nat \<Rightarrow> int list \<Rightarrow> int list \<Rightarrow> DataServiceWorker
     \<Rightarrow> worker_error option \<times> int list \<times> DataServiceWorker" where
  "resend_chunks env t content n sent [] w = (None, sent, w)"
| "resend_chunks env t content n sent (i # is) w =
     (let part = take (nat (chunkSize w)) (drop (nat (i * chunkSize w)) content)
      in if d_read env (nat i) \<noteq> None then (Some (ReadChunkFailed (nat i)), sent, w)
         else if part = [] then (None, sent, w)
         else if dw_handler w \<and> \<not> chunk_sent env (nat i) then (Some (SendChunkFailed (nat i)), sent, w)
         else
           let c = \<lparr>dc_TransferID = dt_TransferID t, dc_ChunkIndex = i, dc_TotalChunks = dt_TotalChunks t, dc_Data = part,
                    dc_IsLast = (i = dt_TotalChunks t - 1)\<rparr>;
               w1 = (if dw_handler w then w\<lparr>dw_sent := dw_sent w @ [SendChunk (dt_DestinationPeerID t) c]\<rparr> else w);
               sent' = (if dw_handler w then remdups (sent @ [i]) else sent);
               n' = (if dw_handler w then Suc n else n);
               w2 = (if n' mod 20 = 0 then
                       w1\<lparr>dw_db := snd (UpdateTransferCheckpoint (d_loop env (nat i) 1) (d_now env) (dt_TransferID t)
                          (snd (UpdateTransferProgress (d_loop env (nat i) 0) (d_now env) (dt_TransferID t) sent' []
                                  (ChunksAcked t) (BytesTransferred t) (dw_db w1))))\<rparr>
                     else w1)
           in resend_chunks env t content n' sent' is w2)"

definition dsw_ResumeTransfer ::
  "dw_env \<Rightarrow> DataTransfer \<Rightarrow> DataServiceWorker \<Rightarrow> (worker_error, unit) go_result \<times> DataServiceWorker" where
  "dsw_ResumeTransfer env t w =
     (case disk w (dt_FilePath t) of
        None \<Rightarrow> (Err SourceFileGone, w)
      | Some content \<Rightarrow>
          if \<not> d_io env 0 then (Err OpenSourceFailed, w)
          else
            let missing = missing_chunks (ChunksAcked t) (dt_TotalChunks t)
            in if missing = [] then
                 (case CompleteTransfer (d_conns env 0) (d_now env) (dt_TransferID t) (dw_db w) of
                    (Some e, db) \<Rightarrow> (Err (RecordFailed e), w\<lparr>dw_db := db\<rparr>) | (None, db) \<Rightarrow> (Ok (), w\<lparr>dw_db := db\<rparr>))
               else
                 let w1 = w\<lparr>dw_db := snd (ResumeTransfer (d_conns env 0) (d_now env) (dt_TransferID t) (dw_db w))\<rparr>
                 in case resend_chunks env t content 0 (ChunksSent t) missing w1 of
                      (Some e, _, w2) \<Rightarrow> (Err e, w2)
                    | (None, sent, w2) \<Rightarrow>
                        (Ok (), w2\<lparr>dw_db := snd (UpdateTransferProgress (d_conns env 1) (d_now env) (dt_TransferID t) sent []
                                    (ChunksAcked t) (BytesTransferred t) (dw_db w2))\<rparr>))"

end
