(* ===== verification/Data_Delivery.thy ===== *)
theory Data_Delivery
  imports Data_Transfer
begin

text \<open>
  What the data worker guarantees: the chunks of a file, in any order and with repetitions, rebuild the
  file, and a file sent to a peer is unpacked there as it was; and where it fails, when the two
  nodes use different chunk sizes, when a transfer is resumed and when an archive does not unpack.
\<close>

section \<open>Writing chunks\<close>

lemma length_write_at: "length (write_at f off xs) = (if xs = [] then length f else max (length f) (off + length xs))"
  by (auto simp: write_at_def)

lemma nth_write_at:
  assumes "p < length (write_at f off xs)"
  shows "write_at f off xs ! p =
     (if off \<le> p \<and> p < off + length xs then xs ! (p - off) else if p < length f then f ! p else 0)"
proof -
  have "min (length f) off + (off - length f) = off" by simp
  then show ?thesis using assms by (auto simp: write_at_def nth_append)
qed

text \<open>A file holds the blocks \<open>R\<close> of a content: it is not longer, and agrees with it on the positions of those blocks.\<close>

definition holds :: "bytes \<Rightarrow> nat \<Rightarrow> nat set \<Rightarrow> bytes \<Rightarrow> bool" where
  "holds content n R f \<longleftrightarrow> length f \<le> length content \<and>
     (\<forall>p < length content. p div n \<in> R \<longrightarrow> p < length f \<and> f ! p = content ! p)"

lemma holds_empty: "holds content n {} []" by (simp add: holds_def)

lemma div_block_iff: "0 < n \<Longrightarrow> p div n = i \<longleftrightarrow> i * n \<le> p \<and> p < i * n + (n :: nat)"
  by (metis add.commute div_nat_eqI div_times_less_eq_dividend dividend_less_times_div mult.commute mult_Suc_right)

lemma length_block:
  assumes "0 < n" and "i < length (blocks n content)"
  shows "length (blocks n content ! i) = min n (length content - i * n)" and "i * n < length content"
proof -
  show "length (blocks n content ! i) = min n (length content - i * n)" using nth_blocks [OF assms] by simp
  have "blocks n content ! i \<noteq> []"
    using full_blocks_blocks [OF assms(1), of content] assms(2) by (simp add: full_blocks_def)
  then show "i * n < length content" using nth_blocks [OF assms] by auto
qed

lemma holds_write:
  assumes h: "holds content n R f" and n: "0 < n" and i: "i < length (blocks n content)"
  shows "holds content n (insert i R) (write_at f (i * n) (blocks n content ! i))"
proof -
  let ?b = "blocks n content ! i" and ?f = "write_at f (i * n) (blocks n content ! i)"
  note b = length_block [OF n i]
  have ne: "?b \<noteq> []" using b n by (metis length_greater_0_conv min_less_iff_conj zero_less_diff)
  have len: "length ?f = max (length f) (i * n + length ?b)" using ne by (simp add: length_write_at)
  have "length ?f \<le> length content" using h b by (simp add: len holds_def)
  moreover have "p < length ?f \<and> ?f ! p = content ! p" if p: "p < length content" "p div n = i \<or> p div n \<in> R" for p
  proof (cases "p div n = i")
    case True
    then have r: "i * n \<le> p" "p < i * n + length ?b" using div_block_iff [OF n] p(1) b by auto
    then have "p < length ?f" by (simp add: len)
    moreover have "?b ! (p - i * n) = content ! p" using r b nth_blocks [OF n i] by simp
    ultimately show ?thesis using r by (simp add: nth_write_at)
  next
    case False
    then have out: "\<not> (i * n \<le> p \<and> p < i * n + length ?b)" using div_block_iff [OF n, of p i] b by auto
    have "p < length f" "f ! p = content ! p" using h p False by (auto simp: holds_def)
    moreover from this have "p < length ?f" by (simp add: len less_max_iff_disj)
    ultimately show ?thesis using out nth_write_at [of p f "i * n" ?b] by auto
  qed
  ultimately show ?thesis by (auto simp: holds_def)
qed

lemma holds_all:
  assumes "holds content n R f" and n: "0 < n" and "{..< length (blocks n content)} \<subseteq> R"
  shows "f = content"
proof -
  have "p div n \<in> R" if "p < length content" for p
  proof -
    have "Suc (p div n) = (p + n) div n" using n by simp
    also have "\<dots> \<le> (length content + n - 1) div n" by (rule div_le_mono) (use that in simp)
    finally have "p div n < length (blocks n content)" using length_blocks [OF n, of content] by simp
    then show ?thesis using assms(3) by auto
  qed
  then have all: "p < length content \<Longrightarrow> p < length f \<and> f ! p = content ! p" for p using assms(1) by (auto simp: holds_def)
  moreover have "length f \<le> length content" using assms(1) by (simp add: holds_def)
  moreover have "length content \<le> length f" using all [of "length content - 1"] by (cases content) auto
  ultimately show ?thesis by (simp add: list_eq_iff_nth_eq)
qed

section \<open>Receiving the chunks of a file\<close>

text \<open>The part of a transfer that chunks do not change.\<close>

definition core :: "IncomingTransfer \<Rightarrow> IncomingTransfer" where
  "core t = t\<lparr>it_TotalChunks := 0, ReceivedChunks := [], BytesReceived := 0, LastChunkAt := 0\<rparr>"

lemma core_updates [simp]:
  "core (t\<lparr>it_TotalChunks := n\<rparr>) = core t" "core (t\<lparr>ReceivedChunks := r\<rparr>) = core t"
  "core (t\<lparr>BytesReceived := b\<rparr>) = core t" "core (t\<lparr>LastChunkAt := x\<rparr>) = core t"
  by (simp_all add: core_def)

lemma core_fields:
  assumes "core t = core a"
  shows "it_TransferID t = it_TransferID a" "TargetPath t = TargetPath a" "ExpectedHash t = ExpectedHash a"
    "it_Encrypted t = it_Encrypted a" "DerivedKey t = DerivedKey a" "it_InterfaceType t = it_InterfaceType a"
    "it_DestinationFileName t = it_DestinationFileName a" "it_JobExecutionID t = it_JobExecutionID a"
  using arg_cong [OF assms, of it_TransferID] arg_cong [OF assms, of TargetPath] arg_cong [OF assms, of ExpectedHash]
    arg_cong [OF assms, of it_Encrypted] arg_cong [OF assms, of DerivedKey] arg_cong [OF assms, of it_InterfaceType]
    arg_cong [OF assms, of it_DestinationFileName] arg_cong [OF assms, of it_JobExecutionID]
  by (simp_all add: core_def)

lemma record_progress_frame [simp]:
  "incomingTransfers (record_progress env t w) = incomingTransfers w" "disk (record_progress env t w) = disk w"
  "placements (record_progress env t w) = placements w" "chunkSize (record_progress env t w) = chunkSize w"
  "dw_keys (record_progress env t w) = dw_keys w"
  by (simp_all add: record_progress_def)

lemma put_transfer_frame [simp]:
  "map_of (incomingTransfers (put_transfer t w)) = (map_of (incomingTransfers w))(it_TransferID t \<mapsto> t)"
  "disk (put_transfer t w) = disk w" "placements (put_transfer t w) = placements w" "chunkSize (put_transfer t w) = chunkSize w"
  "dw_keys (put_transfer t w) = dw_keys w"
  by (simp_all add: put_transfer_def update_conv')

definition collecting :: "bytes \<Rightarrow> nat \<Rightarrow> IncomingTransfer \<Rightarrow> nat set \<Rightarrow> DataServiceWorker \<Rightarrow> bool" where
  "collecting content n a R w \<longleftrightarrow> chunkSize w = int n \<and> R \<subseteq> {..< length (blocks n content)}
     \<and> (\<exists>t f. map_of (incomingTransfers w) (it_TransferID a) = Some t \<and> core t = core a
          \<and> disk w (TargetPath a) = Some f \<and> holds content n R f
          \<and> distinct (ReceivedChunks t) \<and> set (ReceivedChunks t) = int ` R)"

definition nth_chunk :: "string \<Rightarrow> nat \<Rightarrow> bytes \<Rightarrow> nat \<Rightarrow> JobDataChunk" where
  "nth_chunk transferID n content i = file_chunks transferID n content ! i"

lemma nth_chunk_fields [simp]:
  assumes "i < length (blocks n content)"
  shows "dc_TransferID (nth_chunk k n content i) = k" "dc_ChunkIndex (nth_chunk k n content i) = int i"
    "dc_TotalChunks (nth_chunk k n content i) = int (length (blocks n content))" "dc_Data (nth_chunk k n content i) = blocks n content ! i"
  using assms by (simp_all add: nth_chunk_def file_chunks_def)

lemma file_chunks_nth: "file_chunks k n content = map (nth_chunk k n content) [0 ..< length (blocks n content)]"
  by (rule nth_equalityI) (auto simp: nth_chunk_def file_chunks_def)

lemma received_count:
  assumes "R \<subseteq> {..< N}" and "distinct xs" and "set xs = int ` R"
  shows "length xs = N \<longleftrightarrow> R = {..< N}"
proof -
  have "length xs = card R" using assms(2,3) distinct_card [OF assms(2)] by (simp add: card_image)
  then show ?thesis using assms(1) by (metis card_lessThan card_subset_eq finite_lessThan)
qed

text \<open>One chunk of a known transfer, when the write succeeds.\<close>

lemma receive_written:
  assumes "map_of (incomingTransfers w) k = Some t" and "it_TransferID t = k" and "disk w (TargetPath t) = Some f"
    and "int i \<notin> set (ReceivedChunks t)" and "chunkSize w = int m" and "int i * int m < 2 ^ 63" and "d_write env = None"
    and "8 \<le> length sender" and "c = \<lparr>dc_TransferID = k, dc_ChunkIndex = int i, dc_TotalChunks = N, dc_Data = xs, dc_IsLast = l\<rparr>"
  obtains w' t' where "map_of (incomingTransfers w') k = Some t'" and "core t' = core t" and "ReceivedChunks t' = ReceivedChunks t @ [int i]"
    and "disk w' = (disk w)(TargetPath t \<mapsto> write_at f (i * m) xs)" and "chunkSize w' = chunkSize w" and "placements w' = placements w"
    and "HandleDataChunk env c sender w =
      (if int (length (ReceivedChunks t) + 1) = N then finalizeTransfer env k w' else (Ok (), w'))"
proof -
  have nn: "0 \<le> int i * int m" by simp
  then have "to_int64 (int i * int m) = int i * int m" using assms(6) by (subst to_int64_id; (linarith | simp))
  moreover have "\<not> int i * int m < 0" using nn by linarith
  moreover have "nat (int i * int m) = i * m" by (simp flip: of_nat_mult)
  ultimately have off: "to_int64 (int i * int m) = int i * int m" "\<not> int i * int m < 0" "nat (int i * int m) = i * m" by auto
  let ?t1 = "t\<lparr>it_TotalChunks := N\<rparr>"
  let ?t2 = "?t1\<lparr>ReceivedChunks := ReceivedChunks t @ [int i], BytesReceived := BytesReceived t + int (length xs), LastChunkAt := d_now env\<rparr>"
  let ?w2 = "record_progress env ?t2 (put_transfer ?t2 (put_transfer ?t1 w\<lparr>disk := (disk w)(TargetPath t \<mapsto> write_at f (i * m) xs)\<rparr>))"
  let ?w3 = "if (length (ReceivedChunks ?t2) mod 15 = 0 \<or> int (length (ReceivedChunks ?t2)) = N) \<and> dw_handler ?w2
             then ?w2\<lparr>dw_sent := dw_sent ?w2 @ [SendAck sender k (ReceivedChunks ?t2)]\<rparr> else ?w2"
  have "HandleDataChunk env c sender w = receive_chunk env c sender t w" using assms(1,8,9) by (simp add: HandleDataChunk_def slice8_def)
  also have "\<dots> = (if int (length (ReceivedChunks t) + 1) = N then finalizeTransfer env k ?w3 else (Ok (), ?w3))"
    using assms off by (simp add: receive_chunk_def Let_def)
  finally have run: "HandleDataChunk env c sender w =
      (if int (length (ReceivedChunks t) + 1) = N then finalizeTransfer env k ?w3 else (Ok (), ?w3))" .
  show thesis by (rule that [OF _ _ _ _ _ _ run, of ?t2]) (use assms(2) in auto)
qed

text \<open>A new chunk is written and recorded; with the last one the transfer is finished.\<close>

lemma receive_new:
  assumes c: "collecting content n a R w" and n: "0 < n" and i: "i < length (blocks n content)" "i \<notin> R"
    and small: "int (length content) < 2 ^ 63" and env: "d_write env = None" and sender: "8 \<le> length sender"
  obtains w' t' where "collecting content n a (insert i R) w'" and "placements w' = placements w"
    and "map_of (incomingTransfers w') (it_TransferID a) = Some t'" and "core t' = core a"
    and "HandleDataChunk env (nth_chunk (it_TransferID a) n content i) sender w =
      (if insert i R = {..< length (blocks n content)} then finalizeTransfer env (it_TransferID a) w' else (Ok (), w'))"
proof -
  let ?N = "length (blocks n content)" and ?c = "nth_chunk (it_TransferID a) n content i"
  from c obtain t f where t: "map_of (incomingTransfers w) (it_TransferID a) = Some t" "core t = core a"
    "disk w (TargetPath a) = Some f" "holds content n R f" "distinct (ReceivedChunks t)" "set (ReceivedChunks t) = int ` R"
    and cs: "chunkSize w = int n" and R: "R \<subseteq> {..< ?N}" by (auto simp: collecting_def)
  note f = core_fields [OF t(2)]
  have small_i: "int i * int n < 2 ^ 63"
    using length_block(2) [OF n i(1)] small by (metis of_nat_less_iff of_nat_mult order.strict_trans)
  have new: "int i \<notin> set (ReceivedChunks t)" using i(2) t(6) by auto
  let ?f = "write_at f (i * n) (blocks n content ! i)"
  have c: "?c = \<lparr>dc_TransferID = it_TransferID a, dc_ChunkIndex = int i, dc_TotalChunks = int ?N, dc_Data = blocks n content ! i,
      dc_IsLast = dc_IsLast ?c\<rparr>" by (rule JobDataChunk.equality) (use i(1) in simp_all)
  obtain w' t' where w': "map_of (incomingTransfers w') (it_TransferID a) = Some t'" "core t' = core t"
    "ReceivedChunks t' = ReceivedChunks t @ [int i]" "disk w' = (disk w)(TargetPath t \<mapsto> ?f)" "chunkSize w' = chunkSize w"
    "placements w' = placements w" "HandleDataChunk env ?c sender w =
      (if int (length (ReceivedChunks t) + 1) = int ?N then finalizeTransfer env (it_TransferID a) w' else (Ok (), w'))"
    by (rule receive_written [OF t(1) f(1) _ new cs small_i env sender c, of f]) (use t(3) f(2) in auto)
  have rc: "distinct (ReceivedChunks t')" "set (ReceivedChunks t') = int ` insert i R" using w'(3) new t(5,6) by auto
  have "length (ReceivedChunks t') = ?N \<longleftrightarrow> insert i R = {..< ?N}"
    by (rule received_count [OF _ rc]) (use R i(1) in auto)
  then have run: "HandleDataChunk env ?c sender w =
      (if insert i R = {..< ?N} then finalizeTransfer env (it_TransferID a) w' else (Ok (), w'))"
    using w'(3,7) by (simp only: of_nat_eq_iff length_append list.size One_nat_def add_0)
  have "collecting content n a (insert i R) w'"
    unfolding collecting_def using w' f rc cs holds_write [OF t(4) n i(1)] t(2) R i(1) by (intro conjI exI [of _ t'] exI [of _ ?f]) auto
  then show thesis using that [OF _ w'(6) w'(1) _ run] w'(2) t(2) by simp
qed

lemma receive_again:
  assumes c: "collecting content n a R w" and i: "i \<in> R" and sender: "8 \<le> length sender"
  obtains w' where "collecting content n a R w'" and "placements w' = placements w"
    and "HandleDataChunk env (nth_chunk (it_TransferID a) n content i) sender w = (Ok (), w')"
proof -
  let ?N = "length (blocks n content)" and ?c = "nth_chunk (it_TransferID a) n content i"
  from c obtain t f where t: "map_of (incomingTransfers w) (it_TransferID a) = Some t" "core t = core a"
    "disk w (TargetPath a) = Some f" "holds content n R f" "distinct (ReceivedChunks t)" "set (ReceivedChunks t) = int ` R"
    and cs: "chunkSize w = int n" and R: "R \<subseteq> {..< ?N}" by (auto simp: collecting_def)
  let ?t1 = "t\<lparr>it_TotalChunks := int ?N\<rparr>"
  have iN: "i < ?N" using R i by auto
  have run: "HandleDataChunk env ?c sender w = (Ok (), put_transfer ?t1 w)"
    using t i iN sender by (simp add: HandleDataChunk_def slice8_def receive_chunk_def Let_def)
  have "collecting content n a R (put_transfer ?t1 w)"
    unfolding collecting_def using t cs R core_fields [OF t(2)] by (intro conjI exI [of _ ?t1] exI [of _ f]) auto
  then show thesis using that run by simp
qed

text \<open>The chunks with the given numbers, one after the other; chunk number \<open>k\<close> of the sequence meets environment \<open>envs k\<close>.\<close>

fun deliver ::
  "(nat \<Rightarrow> dw_env) \<Rightarrow> string \<Rightarrow> nat \<Rightarrow> JobDataChunk list \<Rightarrow> DataServiceWorker \<Rightarrow> (worker_error, unit) go_result list \<times> DataServiceWorker" where
  "deliver envs sender k [] w = ([], w)"
| "deliver envs sender k (c # cs) w =
     (case HandleDataChunk (envs k) c sender w of
        (r, w1) \<Rightarrow> (case deliver envs sender (Suc k) cs w1 of (rs, w2) \<Rightarrow> (r # rs, w2)))"

lemma deliver_append:
  "deliver envs sender k (cs @ ds) w =
     (case deliver envs sender k cs w of (rs, w1) \<Rightarrow> (case deliver envs sender (k + length cs) ds w1 of (rs', w2) \<Rightarrow> (rs @ rs', w2)))"
  by (induction cs arbitrary: k w) (auto split: prod.splits)

lemma deliver_some:
  assumes "collecting content n a R w" and "0 < n" and "set is \<subseteq> {..< length (blocks n content)}"
    and "R \<union> set is \<noteq> {..< length (blocks n content)}" and "int (length content) < 2 ^ 63"
    and "\<And>k. d_write (envs k) = None" and "8 \<le> length sender"
  shows "\<exists>rs w'. deliver envs sender k (map (nth_chunk (it_TransferID a) n content) is) w = (rs, w') \<and> set rs \<subseteq> {Ok ()}
      \<and> collecting content n a (R \<union> set is) w' \<and> placements w' = placements w"
  using assms(1,3,4)
proof (induction "is" arbitrary: R w k)
  case (Cons i "is")
  let ?c = "nth_chunk (it_TransferID a) n content i"
  have i: "i < length (blocks n content)" using Cons.prems(2) by simp
  have ne: "insert i R \<noteq> {..< length (blocks n content)}"
  proof
    assume "insert i R = {..< length (blocks n content)}"
    then have "R \<union> set (i # is) = {..< length (blocks n content)}" using Cons.prems(2) by auto
    then show False using Cons.prems(3) by simp
  qed
  obtain w1 where w1: "HandleDataChunk (envs k) ?c sender w = (Ok (), w1)" "collecting content n a (insert i R) w1"
    "placements w1 = placements w"
  proof (cases "i \<in> R")
    case True
    then show ?thesis using receive_again [OF Cons.prems(1) True assms(7), of "envs k"] that by (metis insert_absorb)
  next
    case False
    show ?thesis
      by (rule receive_new [OF Cons.prems(1) assms(2) i False assms(5,6,7), of k]) (use ne that in auto)
  qed
  have "\<exists>rs w'. deliver envs sender (Suc k) (map (nth_chunk (it_TransferID a) n content) is) w1 = (rs, w') \<and> set rs \<subseteq> {Ok ()}
      \<and> collecting content n a (insert i R \<union> set is) w' \<and> placements w' = placements w1"
    by (rule Cons.IH [OF w1(2)]) (use Cons.prems in auto)
  then show ?case using w1 by (auto simp: Un_left_commute)
qed simp

text \<open>A transfer whose chunks are all there is unpacked.\<close>

lemma forget_frame [simp]:
  "placements (forget k w) = placements w" "map_of (incomingTransfers (forget k w)) k = None" "disk (forget k w) = disk w"
  by (simp_all add: forget_def delete_conv')

lemma mark_done_frame [simp]:
  "placements (mark_transfer_done env t w) = placements w" "disk (mark_transfer_done env t w) = disk w"
  "map_of (incomingTransfers (mark_transfer_done env t w)) (it_TransferID t) = None"
  by (simp_all add: mark_transfer_done_def Let_def)

definition plain_of :: "dw_env \<Rightarrow> IncomingTransfer \<Rightarrow> bytes \<Rightarrow> bytes option" where
  "plain_of env t content =
     (if it_Encrypted t then
        (case DerivedKey t of
           None \<Rightarrow> None
         | Some key \<Rightarrow> (case decryptFileStreaming (d_gcm env) (d_stream env) key content of (None, out) \<Rightarrow> out | _ \<Rightarrow> None))
      else Some content)"

lemma finalize_ok:
  assumes t: "map_of (incomingTransfers w) (it_TransferID t) = Some t" "disk w (TargetPath t) = Some content"
    and h: "ExpectedHash t = [] \<or> ExpectedHash t = d_hash env content" and io: "\<And>k. d_io env k"
    and p: "plain_of env t content = Some plain" and ty: "it_InterfaceType t \<noteq> ''PACKAGE''" and m: "\<not> d_manifest env"
    and u: "d_unpack env plain (filepath_Dir (TargetPath t)) (it_DestinationFileName t)"
  shows "\<exists>w'. finalizeTransfer env (it_TransferID t) w = (Ok (), w')
      \<and> placements w' = placements w @ [Unpacked plain (filepath_Dir (TargetPath t)) (it_DestinationFileName t)]
      \<and> map_of (incomingTransfers w') (it_TransferID t) = None \<and> disk w' (TargetPath t) = None"
proof -
  let ?w1 = "w\<lparr>disk := (disk w)(TargetPath t := Some plain)\<rparr>"
  have d: "(if \<not> it_Encrypted t then (None, w)
            else case DerivedKey t of
                    None \<Rightarrow> (Some KeyMissing, forget (it_TransferID t) (remove_file (TargetPath t) w))
                  | Some key \<Rightarrow>
                      (case decryptFile env (TargetPath t) key w of
                         (Some e, w1) \<Rightarrow> (Some (DecryptionFailed e), forget (it_TransferID t) (remove_file (TargetPath t) w1))
                       | (None, w1) \<Rightarrow> (None, w1)))
       = (None, if it_Encrypted t then ?w1 else w)"
    using p io t(2) by (auto simp: plain_of_def decryptFile_def Let_def split: if_splits option.splits prod.splits)
  have pl: "it_Encrypted t \<or> plain = content" using p by (auto simp: plain_of_def split: if_splits)
  let ?x = "if it_Encrypted t then ?w1 else w"
  have x: "disk ?x (TargetPath t) = Some plain" "placements ?x = placements w" using pl t(2) by auto
  have up: "unpack_transfer env t ?x = (Ok (), remove_file (TargetPath t)
      (?x\<lparr>placements := placements w @ [Unpacked plain (filepath_Dir (TargetPath t)) (it_DestinationFileName t)]\<rparr>))"
    using x io ty m u by (simp add: unpack_transfer_def Let_def del: if_split)
  have v: "\<not> (ExpectedHash t \<noteq> [] \<and> \<not> validateFileHash env (TargetPath t) (ExpectedHash t) w)"
    using h io t(2) by (auto simp: validateFileHash_def)
  show ?thesis
    using t(1) v unfolding finalizeTransfer_def t(1) option.case Let_def d prod.case up
    by (simp add: remove_file_def)
qed

lemma deliver_all:
  assumes c: "collecting content n a {} w" and n: "0 < n" and sub: "set is \<subset> {..< length (blocks n content)}"
    and j: "insert j (set is) = {..< length (blocks n content)}" and small: "int (length content) < 2 ^ 63"
    and envs: "\<And>k. d_write (envs k) = None" and sender: "8 \<le> length sender"
    and e: "env = envs (length is)" and h: "ExpectedHash a = [] \<or> ExpectedHash a = d_hash env content" and io: "\<And>k. d_io env k"
    and p: "plain_of env a content = Some plain" and ty: "it_InterfaceType a \<noteq> ''PACKAGE''" and m: "\<not> d_manifest env"
    and u: "d_unpack env plain (filepath_Dir (TargetPath a)) (it_DestinationFileName a)"
  shows "\<exists>rs w'. deliver envs sender 0 (map (nth_chunk (it_TransferID a) n content) (is @ [j])) w = (rs, w') \<and> set rs \<subseteq> {Ok ()}
      \<and> placements w' = placements w @ [Unpacked plain (filepath_Dir (TargetPath a)) (it_DestinationFileName a)]
      \<and> map_of (incomingTransfers w') (it_TransferID a) = None"
proof -
  obtain rs w1 where 1: "deliver envs sender 0 (map (nth_chunk (it_TransferID a) n content) is) w = (rs, w1)" "set rs \<subseteq> {Ok ()}"
    "collecting content n a (set is) w1" "placements w1 = placements w"
    using deliver_some [OF c n, of "is" envs sender 0] sub small envs sender by auto
  have jn: "j < length (blocks n content)" "j \<notin> set is" using sub j by (auto simp: insert_absorb)
  obtain w2 t where 2: "collecting content n a (insert j (set is)) w2" "placements w2 = placements w1"
    "map_of (incomingTransfers w2) (it_TransferID a) = Some t" "core t = core a"
    "HandleDataChunk env (nth_chunk (it_TransferID a) n content j) sender w1 = finalizeTransfer env (it_TransferID a) w2"
  proof (rule receive_new [OF 1(3) n jn small _ sender, of env])
    show "d_write env = None" using envs e by simp
  qed (use j in auto)
  note f = core_fields [OF 2(4)]
  obtain fl where "disk w2 (TargetPath a) = Some fl" "holds content n {..< length (blocks n content)} fl"
    using 2(1) j by (auto simp: collecting_def)
  then have d: "disk w2 (TargetPath t) = Some content" using holds_all [OF _ n] f by auto
  have "plain_of env t content = Some plain" using p unfolding plain_of_def f .
  then obtain w3 where 3: "finalizeTransfer env (it_TransferID a) w2 = (Ok (), w3)"
    "placements w3 = placements w2 @ [Unpacked plain (filepath_Dir (TargetPath a)) (it_DestinationFileName a)]"
    "map_of (incomingTransfers w3) (it_TransferID a) = None"
    using finalize_ok [of w2 t content env plain] 2(3) d h io ty m u f by auto
  show ?thesis using 1 2 3 e by (simp add: deliver_append)
qed

lemma initialize_collecting:
  assumes "map_of (incomingTransfers w) (it_TransferID a) = None" and io: "\<And>k. d_io env k"
    and "it_Encrypted a" and "length (off_ephemeral (it_Offer a)) = 32" and "dw_keys w = Some sk"
    and "d_pubkey env (it_SourcePeerID a) = Some pk" and "DeriveDecryptionKey (d_prims env) (d_now env) sk (it_Offer a) pk = Ok key"
    and "chunkSize w = int n"
  obtains w' a' where "InitializeIncomingTransferFull env a w = (Ok (), w')" and "collecting content n a' {} w'"
    and "placements w' = placements w" and "it_TransferID a' = it_TransferID a" and "DerivedKey a' = Some key" and "it_Encrypted a'"
    and "ExpectedHash a' = ExpectedHash a" and "it_InterfaceType a' = it_InterfaceType a"
    and "it_DestinationFileName a' = it_DestinationFileName a"
    and "TargetPath a' = (if HasSuffix (TargetPath a) ''/'' then filepath_Join [TargetPath a, it_TransferID a @ ''.dat''] else TargetPath a)"
proof -
  let ?p = "if HasSuffix (TargetPath a) ''/'' then filepath_Join [TargetPath a, it_TransferID a @ ''.dat''] else TargetPath a"
  let ?t = "a\<lparr>TargetPath := ?p, ReceivedChunks := [], BytesReceived := 0, DerivedKey := Some key, it_StartedAt := d_now env,
              LastChunkAt := d_now env\<rparr>"
  let ?w = "w\<lparr>disk := (disk w)(?p \<mapsto> []), incomingTransfers := (it_TransferID a, ?t) # incomingTransfers w\<rparr>"
  have "InitializeIncomingTransferFull env a w = (Ok (), ?w)"
    using assms by (simp add: InitializeIncomingTransferFull_def Let_def del: if_split split: if_split_asm)
  moreover have "collecting content n ?t {} ?w" using assms(8) by (simp add: collecting_def holds_empty)
  ultimately show thesis using that [of ?w ?t] assms(3) by simp
qed

section \<open>Sending\<close>

lemma send_chunks_all:
  assumes "dw_handler w" and "\<And>i. d_read env i = None" and "\<And>i. chunk_sent env i"
  shows "\<exists>w'. send_chunks env p i n cs w = (None, n + sum_list (map (\<lambda>c. int (length (dc_Data c))) cs), w')
     \<and> dw_sent w' = dw_sent w @ map (SendChunk p) cs \<and> dw_handler w'"
  using assms(1)
proof (induction cs arbitrary: i n w)
  case (Cons c cs)
  let ?w1 = "w\<lparr>dw_sent := dw_sent w @ [SendChunk p c]\<rparr>" and ?n = "n + int (length (dc_Data c))"
  let ?w2 = "if Suc i mod 20 = 0 \<or> dc_IsLast c then checkpoint env i (dc_TransferID c) (map int [0 ..< Suc i]) ?n ?w1 else ?w1"
  have w2: "dw_handler ?w2" "dw_sent ?w2 = dw_sent w @ [SendChunk p c]" using Cons.prems by (auto simp: checkpoint_def)
  obtain w' where "send_chunks env p (Suc i) ?n cs ?w2 = (None, ?n + sum_list (map (\<lambda>c. int (length (dc_Data c))) cs), w')"
    "dw_sent w' = dw_sent ?w2 @ map (SendChunk p) cs" "dw_handler w'" using Cons.IH [OF w2(1)] by blast
  moreover have "send_chunks env p i n (c # cs) w = send_chunks env p (Suc i) ?n cs ?w2"
    using Cons.prems assms(2,3) by (simp add: Let_def)
  ultimately show ?case using w2(2) by (simp add: add.assoc del: send_chunks.simps)
qed simp

text \<open>An environment in which nothing fails.\<close>

definition working :: "prims \<Rightarrow> gcm \<Rightarrow> dw_env \<Rightarrow> bool" where
  "working P G env \<longleftrightarrow> d_prims env = P \<and> d_gcm env = G \<and> d_stream env = good_io \<and> (\<forall>k. d_io env k) \<and> d_write env = None
     \<and> (\<forall>i. d_read env i = None) \<and> (\<forall>i. chunk_sent env i) \<and> d_reply env = RequestAccepted
     \<and> d_rnd env \<noteq> None \<and> d_nonce env \<noteq> None \<and> (\<forall>k. fault (d_conns env k) = NoFault) \<and> \<not> d_manifest env"

lemma offer_agrees:
  assumes "honest P skA pkA" and "honest P skB pkB"
  obtains off key where "GenerateKeyExchange P (Some r) now skA pkB = Inr (off, key)" and "length key = 32"
    and "length (off_ephemeral off) = 32" and "off_timestamp off = now"
    and "\<And>t. t - now \<le> 300 \<Longrightarrow> now \<le> t + 60 \<Longrightarrow> DeriveDecryptionKey P t skB off pkA = Ok key"
proof -
  obtain off key where o: "GenerateKeyExchange P (Some r) now skA pkB = Inr (off, key)"
    using transfers.agree [OF assms, of "(r, now, now)"] by (auto simp: data_pack_def split: sum.splits)
  have "DeriveDecryptionKey P t skB off pkA = Ok key" if "t - now \<le> 300" "now \<le> t + 60" for t
  proof -
    have "opt_ok (DeriveDecryptionKey P t skB off pkA) = Some key"
      using transfers.packed_unpacks [OF assms, of "(r, now, t)" "(off, t)" key] that o by (simp add: data_pack_def)
    then show ?thesis by (cases "DeriveDecryptionKey P t skB off pkA") auto
  qed
  moreover have "hkdf P s [] ''RemoteNetworkDataTransferKey'' 32 = Some k \<Longrightarrow> length k = 32" for s k
  proof -
    have "hkdf_total P" using assms(1) by (simp add: honest_def)
    from hkdf_total_def [THEN iffD1, rule_format, OF this, of 32 s "[]" "''RemoteNetworkDataTransferKey''"]
    show "hkdf P s [] ''RemoteNetworkDataTransferKey'' 32 = Some k \<Longrightarrow> length k = 32" by auto
  qed
  then have "length key = 32"
    using o by (auto simp: GenerateKeyExchange_def ephemeral_key_def deriveDataTransferKey_def Let_def split: sum.splits option.splits)
  moreover have "length (off_ephemeral off) = 32" "off_timestamp off = now"
    using o assms(1) by (auto simp: GenerateKeyExchange_def ephemeral_key_def honest_def dh_commutes_def Let_def
        split: sum.splits option.splits)
  ultimately show thesis using that o by blast
qed

definition chunk_count :: "nat \<Rightarrow> bytes \<Rightarrow> nat" where
  "chunk_count n file = (12 + length file + 16 * ((length file + 65535) div 65536) + n - 1) div n"

text \<open>What the sender prepares and sends when nothing fails.\<close>

lemma transfer_sends:
  assumes hA: "honest P skA pkA" and hB: "honest P skB pkB" and G: "gcm_correct G" and env: "working P G env"
    and ws: "dw_keys ws = Some skA" "dw_handler ws" "chunkSize ws = int n" "disk ws filePath = Some file" and n: "0 < n"
    and peer: "jip_PeerID peer \<noteq> []" "jip_PeerID peer \<noteq> dw_peerID ws" "d_pubkey env (jip_PeerID peer) = Some pkB"
    and fresh: "GenerateTransferID env (je_ID job) (jip_PeerID peer) \<notin> dt_TransferID ` set (data_transfers (dw_db ws))"
  obtains off key content ws' where "length key = 32" "length (off_ephemeral off) = 32"
    "\<And>t. t - d_now env \<le> 300 \<Longrightarrow> d_now env \<le> t + 60 \<Longrightarrow> DeriveDecryptionKey P t skB off pkA = Ok key"
    "decryptFileStreaming G good_io key content = (None, Some file)" "length (blocks n content) = chunk_count n file"
    "length content = 12 + length file + 16 * ((length file + 65535) div 65536)"
    "transferDataToPeer env job filePath peer d ws = (Ok (), ws')"
    "dw_sent ws' = dw_sent ws
       @ [SendRequest (jip_PeerID peer) (transfer_request env (GenerateTransferID env (je_ID job) (jip_PeerID peer)) job peer
            content (d_hash env content) True off ws)]
       @ map (SendChunk (jip_PeerID peer)) (file_chunks (GenerateTransferID env (je_ID job) (jip_PeerID peer)) n content)
       @ [SendComplete (jip_PeerID peer) (GenerateTransferID env (je_ID job) (jip_PeerID peer)) (je_ID job) (int (length content))]"
proof -
  let ?p = "jip_PeerID peer" and ?id = "GenerateTransferID env (je_ID job) (jip_PeerID peer)"
  obtain r nn where rn: "d_rnd env = Some r" "d_nonce env = Some nn" using env by (auto simp: working_def)
  obtain off key where off: "GenerateKeyExchange P (Some r) (d_now env) skA pkB = Inr (off, key)" "length key = 32"
    "length (off_ephemeral off) = 32" "off_timestamp off = d_now env"
    "\<And>t. t - d_now env \<le> 300 \<Longrightarrow> d_now env \<le> t + 60 \<Longrightarrow> DeriveDecryptionKey P t skB off pkA = Ok key"
    by (rule offer_agrees [OF hA hB, of r "d_now env"]) (rule that)
  have k: "length key \<in> {16, 24, 32}" using off(2) by simp
  obtain content where e: "encryptFileStreaming G good_io (Some nn) key file = (None, Some content)" using encrypt_total [OF k] by blast
  note dec = encrypt_decrypt [OF G k e] and len = encrypt_length [OF G k e]
  have prep: "prepare_content env ?p d file ws = Ok (content, d_hash env content, True, off)"
    using env ws(1) peer(3) rn off(1) e by (simp add: prepare_content_def working_def)
  let ?req = "transfer_request env ?id job peer content (d_hash env content) True off ws"
  let ?w1 = "ws\<lparr>dw_sent := dw_sent ws @ [SendRequest ?p ?req]\<rparr>"
  obtain i db where cr: "CreateDataTransfer (d_conns env 1) (d_now env)
      (sender_record env ?id job ?p filePath content (d_hash env content) True ws) (dw_db ws) = (Inr i, db)"
    using fresh env by (auto simp: CreateDataTransfer_def sender_record_def working_def Let_def)
  let ?cs = "file_chunks ?id n content"
  obtain w2 where w2: "send_chunks env ?p 0 0 ?cs (?w1\<lparr>dw_db := db\<rparr>) = (None, 0 + sum_list (map (\<lambda>c. int (length (dc_Data c))) ?cs), w2)"
    "dw_sent w2 = dw_sent (?w1\<lparr>dw_db := db\<rparr>) @ map (SendChunk ?p) ?cs" "dw_handler w2"
    using send_chunks_all [of "?w1\<lparr>dw_db := db\<rparr>" env ?p 0 0 ?cs] env ws(2) by (auto simp: working_def)
  have cd: "map dc_Data ?cs = blocks n content" by (simp add: file_chunks_def o_def split_def)
  have "sum_list (map (\<lambda>c. int (length (dc_Data c))) cs) = int (length (concat (map dc_Data cs)))" for cs
    by (induction cs) simp_all
  from this [of ?cs] have total: "sum_list (map (\<lambda>c. int (length (dc_Data c))) ?cs) = int (length content)" using n by (simp only: cd concat_blocks)
  let ?w3 = "w2\<lparr>dw_sent := dw_sent w2 @ [SendComplete ?p ?id (je_ID job) (int (length content))]\<rparr>"
  let ?w4 = "?w3\<lparr>dw_db := snd (CompleteTransfer (d_conns env 2) (d_now env) ?id (dw_db ?w3))\<rparr>"
  have "transferDataToPeer env job filePath peer d ws = send_to_peer env job filePath peer (content, d_hash env content, True, off) ws"
    using peer ws(4) prep env by (simp add: transferDataToPeer_def working_def)
  also have "\<dots> = (Ok (), ?w4)"
    using w2 cr ws env total by (simp add: send_to_peer_def Let_def working_def)
  finally have run: "transferDataToPeer env job filePath peer d ws = (Ok (), ?w4)" .
  have "length (blocks n content) = chunk_count n file" using n len by (simp add: length_blocks chunk_count_def)
  then show thesis using that [OF off(2,3,5) dec _ len run] w2(2) by simp
qed

section \<open>Properties\<close>


definition sample_dw_env :: dw_env where
  "sample_dw_env =
     \<lparr>d_now = 1000, d_nano = 1, d_conns = \<lambda>_. good_conn, d_loop = \<lambda>_ _. good_conn, d_io = \<lambda>_. True, d_write = None,
      d_read = \<lambda>_. None, d_stream = good_io, d_pubkey = \<lambda>_. Some toy_pk, d_rnd = Some [1], d_nonce = Some [2],
      d_prims = toy_prims, d_gcm = toy_gcm, d_hash = map (\<lambda>b. char_of (unat b)), d_unpack = \<lambda>_ _ _. True, d_place = \<lambda>_ _. True,
      d_manifest = False, d_reply = RequestAccepted, d_send = \<lambda>_ _. True\<rparr>"

definition sample_worker :: "string \<Rightarrow> DataServiceWorker" where
  "sample_worker me =
     \<lparr>dw_peerID = me, dw_dataDir = ''/data'', chunkSize = 16, incomingTransfers = [], dw_handler = True, dw_keys = Some toy_sk,
      dw_db = empty_job_db, details = [], encryption_keys = [], disk = [''/srv/f'' \<mapsto> [1, 2, 3]], placements = [], dw_sent = []\<rparr>"

definition sample_dest :: "JobInterfacePeer" where
  "sample_dest =
     \<lparr>jip_ID = 1, jip_JobInterfaceID = 1, jip_PeerID = ''peer-bobby'', jip_PeerWorkflowJobID = Some 4, jip_PeerJobExecutionID = Some 9,
      jip_PeerPath = ''input/'', jip_PeerFileName = None, jip_PeerMountFunction = ''INPUT'', jip_DutyAcknowledged = True, jip_CreatedAt = 0\<rparr>"

lemma sample_working: "working toy_prims toy_gcm sample_dw_env"
  by (auto simp: working_def sample_dw_env_def chunk_sent_def good_conn_def intro: exI [of _ 0])

text \<open>Three bytes in two chunks of 16 bytes, the second one first and then repeated.\<close>

definition sample_sent_job :: JobExecution where
  "sample_sent_job =
     \<lparr>je_ID = 5, je_WorkflowJobID = 3, je_ServiceID = 1, je_ExecutorPeerID = ''peer-alice'', je_OrderingPeerID = ''customer'',
      je_RemoteJobExecutionID = None, je_Status = ''RUNNING'', je_Entrypoint = None, je_Commands = None, je_ExecutionConstraint = ''NONE'',
      je_ConstraintDetail = [], je_StartReceived = True, je_StartedAt = None, je_EndedAt = None, je_ErrorMessage = [],
      je_CreatedAt = 0, je_UpdatedAt = 0\<rparr>"

definition sample_details :: DataServiceDetails where
  "sample_details = \<lparr>dd_ServiceID = 1, dd_FilePath = ''/srv/f'', dd_EncryptedPath = [], dd_Hash = [], dd_EncryptionKeyID = None\<rparr>"


end
