(* ===== verification/Data_Faults.thy ===== *)
theory Data_Faults
  imports Data_Delivery
begin

text \<open>
  Where the data worker does not do what it is meant to: chunk sizes that differ, resumed transfers of
  encrypted files, and archives that do not unpack.
\<close>

section \<open>Different chunk sizes\<close>

lemma two_blocks:
  assumes "n < length content" and "length content \<le> 2 * n"
  shows "blocks n content = [take n content, drop n content]"
proof -
  have "0 < n" "content \<noteq> []" "drop n content \<noteq> []" "length (drop n content) \<le> n" using assms by auto
  then show ?thesis by (simp add: blocks.simps)
qed

lemma length_misplaced:
  assumes "n < length content" and "length content \<le> 2 * n" and "m \<noteq> n"
  shows "length (write_at (write_at [] 0 (take n content)) m (drop n content)) \<noteq> length content"
  using assms by (auto simp: length_write_at)

lemma finalize_bad_hash:
  assumes "map_of (incomingTransfers w) k = Some t" and "ExpectedHash t \<noteq> []" and "disk w (TargetPath t) = Some f"
    and "d_hash env f \<noteq> ExpectedHash t"
  shows "finalizeTransfer env k w = (Err HashValidationFailed, forget k (remove_file (TargetPath t) w))"
  using assms by (simp add: finalizeTransfer_def validateFileHash_def Let_def)

text \<open>
   The receiver places chunk number i at i times its own chunk size.  For a file of two chunks of the
  sender's size, a receiver that is configured with any other chunk size rebuilds a different file; it refuses the transfer when
  the second chunk arrives (the hash not agreeing with that of any other file) and nothing is unpacked, although the
  code adopts the sender's number of chunks to handle different chunk sizes.
\<close>

theorem chunk_sizes_must_agree:
  assumes "n < length content" and "length content \<le> 2 * n" and "m \<noteq> n" and "int m < 2 ^ 63"
    and "map_of (incomingTransfers w) k = Some t" and "it_TransferID t = k" and "ReceivedChunks t = []" and "disk w (TargetPath t) = Some []"
    and "chunkSize w = int m" and "ExpectedHash t = d_hash env content" and "ExpectedHash t \<noteq> []"
    and "\<forall>f. f \<noteq> content \<longrightarrow> d_hash env f \<noteq> d_hash env content" and "d_write env = None" and "8 \<le> length sender"
  shows "\<exists>w'. deliver (\<lambda>_. env) sender 0 (file_chunks k n content) w = ([Ok (), Err HashValidationFailed], w')
     \<and> map_of (incomingTransfers w') k = None \<and> disk w' (TargetPath t) = None \<and> placements w' = placements w"
proof -
  let ?c0 = "\<lparr>dc_TransferID = k, dc_ChunkIndex = int 0, dc_TotalChunks = 2, dc_Data = take n content, dc_IsLast = False\<rparr>"
  let ?c1 = "\<lparr>dc_TransferID = k, dc_ChunkIndex = int 1, dc_TotalChunks = 2, dc_Data = drop n content, dc_IsLast = True\<rparr>"
  have cs: "file_chunks k n content = [?c0, ?c1]" using two_blocks [OF assms(1,2)] by (simp add: file_chunks_def)
  obtain w1 t1 where w1: "map_of (incomingTransfers w1) k = Some t1" "core t1 = core t" "ReceivedChunks t1 = ReceivedChunks t @ [int 0]"
    "disk w1 = (disk w)(TargetPath t \<mapsto> write_at [] (0 * m) (take n content))" "chunkSize w1 = chunkSize w" "placements w1 = placements w"
    "HandleDataChunk env ?c0 sender w = (Ok (), w1)"
    by (rule receive_written [where i = 0 and N = 2 and xs = "take n content" and l = False,
          OF assms(5,6,8) _ assms(9) _ assms(13,14) refl]) (use assms(7) in auto)
  note f1 = core_fields [OF w1(2)]
  let ?f = "write_at (write_at [] 0 (take n content)) m (drop n content)"
  obtain w2 t2 where w2: "map_of (incomingTransfers w2) k = Some t2" "core t2 = core t1"
    "disk w2 = (disk w1)(TargetPath t1 \<mapsto> write_at (write_at [] 0 (take n content)) (1 * m) (drop n content))" "placements w2 = placements w1"
    "HandleDataChunk env ?c1 sender w1 = finalizeTransfer env k w2"
    by (rule receive_written [where i = 1 and m = m and N = 2 and xs = "drop n content" and l = True,
          OF w1(1) _ _ _ _ _ assms(13,14) refl])
      (use w1 f1 assms(4,6,7,9) in auto)
  note f2 = core_fields [OF w2(2)]
  have "?f \<noteq> content" using length_misplaced [OF assms(1-3)] by auto
  then have "d_hash env ?f \<noteq> ExpectedHash t2" using assms(10,12) f1 f2 by simp
  moreover have "disk w2 (TargetPath t2) = Some ?f" using w2(3) f2 by simp
  ultimately have "finalizeTransfer env k w2 = (Err HashValidationFailed, forget k (remove_file (TargetPath t2) w2))"
    using w2(1) assms(11) f1 f2 by (intro finalize_bad_hash) auto
  then show ?thesis using w1 w2 f1 f2 by (simp add: cs remove_file_def)
qed

definition sample_transfer :: IncomingTransfer where
  "sample_transfer =
     \<lparr>it_TransferID = ''t1'', it_JobExecutionID = 0, it_SourcePeerID = ''peer-alice'', TargetPath = ''/data/t1.dat'', ExpectedHash = ''abc'',
      ExpectedSize = 3, it_TotalChunks = 1, ReceivedChunks = [], BytesReceived = 0, it_Encrypted = False, it_Offer = no_offer,
      DerivedKey = None, it_InterfaceType = ''STDIN'', it_DestinationFileName = [], it_StartedAt = 0, LastChunkAt = 0\<rparr>"

definition sample_receiver :: DataServiceWorker where
  "sample_receiver = (sample_worker ''peer-bobby'')\<lparr>incomingTransfers := [(''t1'', sample_transfer)], disk := [''/data/t1.dat'' \<mapsto> []]\<rparr>"

theorem chunk_sizes_must_agree_witness:
  "\<exists>w'. deliver (\<lambda>_. sample_dw_env) ''peer-alice'' 0 (file_chunks ''t1'' 2 [97, 98, 99]) sample_receiver
       = ([Ok (), Err HashValidationFailed], w') \<and> map_of (incomingTransfers w') ''t1'' = None \<and> placements w' = []"
proof -
  have inj: "d_hash sample_dw_env f \<noteq> d_hash sample_dw_env [97, 98, 99]" if "f \<noteq> [97, 98, 99]" for f
  proof -
    have "inj (\<lambda>b :: byte. char_of (unat b) :: char)"
    proof (rule injI)
      fix a b :: byte
      assume "(char_of (unat a) :: char) = char_of (unat b)"
      then have "unat a mod 256 = unat b mod 256" by (metis of_char_of)
      moreover have "unat x < 256" for x :: byte using unsigned_less [of x] by simp
      ultimately show "a = b" by (simp add: word_unat_eq_iff)
    qed
    then have "inj (map (\<lambda>b :: byte. char_of (unat b) :: char))" by (rule inj_mapI)
    from inj_eq [OF this, of f "[97, 98, 99]"] that show ?thesis by (simp only: sample_dw_env_def dw_env.select_convs) simp
  qed
  have "d_hash sample_dw_env [97, 98, 99] = ''abc''" "d_write sample_dw_env = None"
    by (simp_all add: sample_dw_env_def char_of_def bit_0)
  then show ?thesis
    using chunk_sizes_must_agree [of 2 "[97, 98, 99]" 16 sample_receiver "''t1''" sample_transfer sample_dw_env "''peer-alice''"] inj
    by (simp add: sample_receiver_def sample_transfer_def sample_worker_def) blast
qed

section \<open>Resuming an encrypted transfer\<close>

lemma resend_keeps_sent:
  "resend_chunks env t content n sent is w = (e, s, w') \<Longrightarrow> set (dw_sent w) \<subseteq> set (dw_sent w')"
proof (induction "is" arbitrary: n sent w)
  case (Cons i "is")
  then show ?case by (auto simp: Let_def split: if_splits dest!: Cons.IH)
qed simp


definition sample_stalled :: DataTransfer where
  "sample_stalled = (sender_record sample_dw_env ''t1'' sample_sent_job ''peer-bobby'' ''/srv/f'' [9, 8, 7] ''h'' True
     (sample_worker ''peer-alice''))\<lparr>ChunksSent := [], ChunksAcked := []\<rparr>"


section \<open>An archive that does not unpack\<close>

lemma plain_itoa: "plain_elem (itoa i)"
proof -
  have "set (itoa_nat n) \<subseteq> digit_char ` {..< 10}" for n
    by (induction n rule: itoa_nat.induct) (auto simp: itoa_nat.simps)
  moreover have "CHR ''/'' \<notin> digit_char ` {..< 10}" "CHR ''.'' \<notin> digit_char ` {..< 10}"
    by (auto simp: digit_char_def dest!: arg_cong [where f = "of_char :: char \<Rightarrow> nat"])
  moreover have "itoa_nat n \<noteq> []" for n by (subst itoa_nat.simps) simp
  ultimately have "CHR ''/'' \<notin> set (itoa i)" "CHR ''.'' \<notin> set (itoa i)" "itoa i \<noteq> []" by (auto simp: itoa_def)
  then show ?thesis by (auto simp: plain_elem_def)
qed

text \<open>A path that climbs as far as it descended.\<close>

definition climb :: "nat \<Rightarrow> string" where
  "climb k = Join_strings (''output'' # replicate k ''..'')"

lemma Join_climb:
  assumes es: "list_all plain_elem es" and mids: "list_all plain_elem mids"
  shows "filepath_Join ((CHR ''/'' # Join_strings es) # mids @ [climb (Suc (length mids))]) = CHR ''/'' # Join_strings es"
proof -
  let ?b = "CHR ''/'' # Join_strings es"
  have sp: "Split (climb k) CHR ''/'' = ''output'' # replicate k ''..''" for k
    unfolding climb_def by (rule Split_Join_strings) auto
  have pl: "concat (map (\<lambda>x. Split x CHR ''/'') mids) = mids"
    using mids by (induction mids) (auto simp: plain_elem_def Split_no_sep)
  have "foldl (clean_step True) [] (Split (Join_strings (?b # mids @ [climb (Suc (length mids))])) CHR ''/'')
      = foldl (clean_step True) (rev es) (mids @ ''output'' # replicate (Suc (length mids)) ''..'')"
    using elems_of_clean [OF es] pl by (simp add: Join_strings_Split sp)
  also have "\<dots> = drop (Suc (length mids)) (''output'' # rev mids @ rev es)"
  proof -
    have p: "list_all plain_elem (''output'' # rev mids @ rev es)" using es mids by (simp add: plain_elem_def)
    have "foldl (clean_step True) (rev es) (mids @ [''output'']) = ''output'' # rev mids @ rev es"
      using foldl_plain [of "mids @ [''output'']" "rev es"] mids by (simp add: plain_elem_def)
    then show ?thesis using foldl_clean_pop [OF p, of "Suc (length mids)"] by simp
  qed
  finally have "clean_elems True (Join_strings (?b # mids @ [climb (Suc (length mids))])) = es" by (simp add: clean_elems_def)
  then show ?thesis using Join_rooted [of ?b "mids @ [climb (Suc (length mids))]"] by simp
qed

lemma Dir_of_file:
  assumes "list_all plain_elem es" and "plain_elem x"
  shows "filepath_Dir (filepath_Join [CHR ''/'' # Join_strings es @ ''/'', x]) = CHR ''/'' # Join_strings es"
    and "HasPrefix (filepath_Join [CHR ''/'' # Join_strings es @ ''/'', x]) ''/''"
proof -
  let ?b = "CHR ''/'' # Join_strings es @ ''/''"
  have "Join_strings [?b, x] = (CHR ''/'' # Join_strings es) @ CHR ''/'' # CHR ''/'' # x" by simp
  then have "foldl (clean_step True) [] (Split (Join_strings [?b, x]) CHR ''/'') = x # rev es"
    using elems_of_clean [OF assms(1)] assms(2)
    by (simp only: Split_sep_snoc) (simp add: plain_elem_def Split_no_sep clean_step_def)
  then have j: "filepath_Join [?b, x] = CHR ''/'' # Join_strings (es @ [x])"
    using Join_rooted [of ?b "[x]"] by (simp add: clean_elems_def)
  then show "HasPrefix (filepath_Join [?b, x]) ''/''" by simp
  have snoc: "Join_strings (es @ [x]) = (if es = [] then x else Join_strings es @ CHR ''/'' # x)"
    by (induction es rule: Join_strings.induct) auto
  have "CHR ''/'' \<notin> set x" using assms(2) by (simp add: plain_elem_def)
  then have "dropWhile (\<lambda>c. c \<noteq> CHR ''/'') (rev x @ CHR ''/'' # ys) = CHR ''/'' # ys" for ys
    by (subst dropWhile_append2) auto
  then have "rev (dropWhile (\<lambda>c. c \<noteq> CHR ''/'') (rev (CHR ''/'' # Join_strings (es @ [x]))))
      = CHR ''/'' # (if es = [] then [] else Join_strings es @ ''/'')"
    by (simp add: snoc)
  moreover have "foldl (clean_step True) [] (Split ((CHR ''/'' # Join_strings es) @ CHR ''/'' # []) CHR ''/'') = rev es"
    using elems_of_clean [OF assms(1)] by (simp only: Split_sep_snoc) (simp add: clean_step_def)
  moreover have "foldl (clean_step True) [] (Split ''/'' CHR ''/'') = []" by (simp add: clean_step_def)
  ultimately show "filepath_Dir (filepath_Join [?b, x]) = CHR ''/'' # Join_strings es"
    by (auto simp: filepath_Dir_def j Clean_def clean_elems_def)
qed

lemma finalize_no_unpack:
  assumes "map_of (incomingTransfers w) k = Some t" and "ExpectedHash t = []" and "\<not> it_Encrypted t" and "d_io env 5"
    and "it_InterfaceType t \<noteq> ''PACKAGE''" and "disk w (TargetPath t) = Some f"
    and "\<not> d_unpack env f (filepath_Dir (TargetPath t)) (it_DestinationFileName t)" and "it_TransferID t = k"
  shows "finalizeTransfer env k w = (Err DecompressionFailed,
      forget k (remove_all (filepath_Dir (TargetPath t)) (remove_file (TargetPath t) w)))"
  using assms by (simp add: finalizeTransfer_def unpack_transfer_def Let_def)

text \<open>
  C28. Two messages of any peer delete the data directory of a node.  A transfer request for any existing job,
  with a destination path below \<open>output\<close> that climbs back up, is accepted and directed to the data directory itself;
  when the only chunk of the transfer is not an archive, the worker reports the failure and removes everything below that directory.
\<close>

theorem peer_deletes_data_directory:
  assumes "DataDir jm = CHR ''/'' # Join_strings es" and "list_all plain_elem es"
    and "row_at je_ID i (job_executions (jm_db jm)) = Some job" and "0 < i"
    and "plain_elem (je_OrderingPeerID job)" and "8 \<le> length (je_OrderingPeerID job)" and "plain_elem (peerID jm)"
    and "plain_elem sender" and "8 \<le> length sender" and "fault (e_conns jenv 0) = NoFault"
    and "request = \<lparr>tr_TransferID = k, tr_WorkflowJobID = 0, tr_SourceJobExecutionID = 0, tr_DestinationJobExecutionID = i,
       tr_InterfaceType = ''STDIN'', tr_SourcePeerID = sender, tr_DestinationPeerID = peerID jm, tr_DestinationPath = climb 9,
       tr_DestinationFileName = [], tr_DataHash = [], tr_SizeBytes = 1, tr_Encrypted = False, tr_EphemeralPubKey = [],
       tr_KeyExchangeSignature = [], tr_KeyExchangeTimestamp = 0\<rparr>"
    and "plain_elem (k @ ''.dat'')" and "map_of (incomingTransfers w) k = None" and "chunkSize w = int m" and "\<forall>n. d_io env n" and "d_write env = None"
    and "\<forall>f name. \<not> d_unpack env f (DataDir jm) name"
  shows "\<exists>jm' w1 w2. start_incoming jenv env request sender jm w = (Ok (DataDir jm @ ''/''), jm', w1)
     \<and> HandleDataChunk env \<lparr>dc_TransferID = k, dc_ChunkIndex = int 0, dc_TotalChunks = 1, dc_Data = junk, dc_IsLast = True\<rparr> sender w1
         = (Err DecompressionFailed, w2)
     \<and> (\<forall>p. HasPrefix p (DataDir jm @ ''/'') \<longrightarrow> disk w2 p = None)"
proof -
  let ?mids = "[''workflows'', je_OrderingPeerID job, itoa (je_WorkflowJobID job), ''jobs'', sender, itoa 0, peerID jm, itoa i]"
  have mids: "list_all plain_elem ?mids" using assms(5,7,8) by (auto simp: plain_itoa) (auto simp: plain_elem_def)
  have "destination_dir (climb 9) = climb 9" by (simp add: destination_dir_def climb_def numeral_eq_Suc)
  moreover have "filepath_Join (DataDir jm # ?mids @ [climb 9]) = DataDir jm"
  proof -
    have nine: "9 = Suc (length ?mids)" by simp
    show ?thesis using Join_climb [OF assms(2) mids] assms(1) by (simp only: nine)
  qed
  ultimately have tgt: "transfer_target jenv jm request = Ok (DataDir jm @ ''/'', i)"
    using assms(3,4,6,10,11) by (simp add: transfer_target_def GetJobExecution_def slice8_def Let_def)
  let ?a = "incoming_args request sender (DataDir jm @ ''/'') i (chunkSize w)"
  let ?path = "filepath_Join [DataDir jm @ ''/'', k @ ''.dat'']"
  let ?t = "?a\<lparr>TargetPath := ?path, ReceivedChunks := [], BytesReceived := 0, DerivedKey := None, it_StartedAt := d_now env, LastChunkAt := d_now env\<rparr>"
  let ?w1 = "w\<lparr>disk := (disk w)(?path \<mapsto> []), incomingTransfers := (k, ?t) # incomingTransfers w\<rparr>"
  have suffix: "HasSuffix (DataDir jm @ ''/'') ''/''" by (rule HasSuffix_append)
  have af: "it_TransferID ?a = k" "TargetPath ?a = DataDir jm @ ''/''" "\<not> it_Encrypted ?a" "ExpectedHash ?a = []" "it_InterfaceType ?a = ''STDIN''"
    using assms(11) by (simp_all add: incoming_args_def Let_def)
  have init: "InitializeIncomingTransferFull env ?a w = (Ok (), ?w1)"
    using assms(13,15) af suffix by (simp add: InitializeIncomingTransferFull_def Let_def split: option.splits)
  have st: "start_incoming jenv env request sender jm w = (Ok (DataDir jm @ ''/''), jm, ?w1)"
    using assms(9,11) tgt init by (simp add: start_incoming_def HandleJobDataTransferRequest_def slice8_def Let_def)
  obtain w2 t2 where w2: "map_of (incomingTransfers w2) k = Some t2" "core t2 = core ?t"
    "disk w2 = (disk ?w1)(TargetPath ?t \<mapsto> write_at [] (0 * m) junk)"
    "HandleDataChunk env \<lparr>dc_TransferID = k, dc_ChunkIndex = int 0, dc_TotalChunks = 1, dc_Data = junk, dc_IsLast = True\<rparr> sender ?w1
       = finalizeTransfer env k w2"
    by (rule receive_written [where i = 0 and m = m and N = 1 and xs = junk and l = True and w = ?w1 and t = ?t and k = k and f = "[]"
          and sender = sender and env = env, OF _ _ _ _ _ _ _ _ refl]) (use af assms(9,14,16) in auto)
  note f = core_fields [OF w2(2)]
  have dir: "filepath_Dir (TargetPath t2) = DataDir jm"
    using Dir_of_file(1) [OF assms(2,12)] f(2) assms(1) by simp
  have "finalizeTransfer env k w2 = (Err DecompressionFailed, forget k (remove_all (DataDir jm) (remove_file (TargetPath t2) w2)))"
    using finalize_no_unpack [OF w2(1), of env] f af w2(3) dir assms(15,17) by simp
  then show ?thesis using st w2(4) by (auto simp: remove_all_def)
qed

definition sample_victim :: JobManager where
  "sample_victim =
     \<lparr>peerID = ''peer-bobby'', escrowManager = sample_em, DataDir = ''/home/node'',
      jm_db = empty_job_db\<lparr>job_executions := [sample_sent_job], job_seq := 5\<rparr>, runningJobs = {}, statusUpdateChan = []\<rparr>"

definition sample_calm_env :: job_env where
  "sample_calm_env =
     \<lparr>e_now = 1000, e_conns = \<lambda>_. good_conn, e_ifaces = \<lambda>_ _. good_conn, e_reads = \<lambda>_ _. good_conn, e_recheck = \<lambda>_. good_conn,
      e_verify = yes_net, e_settle = settle_net, e_refund = yes_net, e_files = \<lambda>_. NotExist, e_text = \<lambda>_. []\<rparr>"

definition sample_attack :: JobDataTransferRequest where
  "sample_attack =
     \<lparr>tr_TransferID = ''t1'', tr_WorkflowJobID = 0, tr_SourceJobExecutionID = 0, tr_DestinationJobExecutionID = 5,
      tr_InterfaceType = ''STDIN'', tr_SourcePeerID = ''mallory1'', tr_DestinationPeerID = ''peer-bobby'', tr_DestinationPath = climb 9,
      tr_DestinationFileName = [], tr_DataHash = [], tr_SizeBytes = 1, tr_Encrypted = False, tr_EphemeralPubKey = [],
      tr_KeyExchangeSignature = [], tr_KeyExchangeTimestamp = 0\<rparr>"

theorem peer_deletes_data_directory_witness:
  "\<exists>jm' w1 w2. start_incoming sample_calm_env (sample_dw_env\<lparr>d_unpack := \<lambda>_ _ _. False\<rparr>) sample_attack ''mallory1'' sample_victim
        ((sample_worker ''peer-bobby'')\<lparr>disk := [''/home/node/db'' \<mapsto> [1]]\<rparr>) = (Ok ''/home/node/'', jm', w1)
     \<and> HandleDataChunk (sample_dw_env\<lparr>d_unpack := \<lambda>_ _ _. False\<rparr>)
         \<lparr>dc_TransferID = ''t1'', dc_ChunkIndex = int 0, dc_TotalChunks = 1, dc_Data = [0], dc_IsLast = True\<rparr> ''mallory1'' w1
         = (Err DecompressionFailed, w2)
     \<and> disk w2 ''/home/node/db'' = None"
proof -
  let ?env = "sample_dw_env\<lparr>d_unpack := \<lambda>_ _ _. False\<rparr>" and ?w = "(sample_worker ''peer-bobby'')\<lparr>disk := [''/home/node/db'' \<mapsto> [1]]\<rparr>"
  have jm: "DataDir sample_victim = CHR ''/'' # Join_strings [''home'', ''node'']" "peerID sample_victim = ''peer-bobby''"
    "row_at je_ID 5 (job_executions (jm_db sample_victim)) = Some sample_sent_job" "je_OrderingPeerID sample_sent_job = ''customer''"
    by (simp_all add: sample_victim_def row_at_def sample_sent_job_def)
  have pl: "list_all plain_elem [''home'', ''node'']" "plain_elem ''customer''" "plain_elem ''peer-bobby''" "plain_elem ''mallory1''"
    "plain_elem (''t1'' @ ''.dat'')" by (simp_all add: plain_elem_def)
  have env: "fault (e_conns sample_calm_env 0) = NoFault" "\<forall>n. d_io ?env n" "d_write ?env = None"
    "\<forall>f name. \<not> d_unpack ?env f (DataDir sample_victim) name" "map_of (incomingTransfers ?w) ''t1'' = None" "chunkSize ?w = int 16"
    by (simp_all add: sample_calm_env_def good_conn_def sample_dw_env_def sample_worker_def)
  from peer_deletes_data_directory [OF jm(1) pl(1) jm(3) _ _ _ _ pl(4) _ env(1) _ pl(5) env(5,6,2,3,4), of sample_attack "[0]"]
  obtain jm' w1 w2 where "start_incoming sample_calm_env ?env sample_attack ''mallory1'' sample_victim ?w = (Ok (DataDir sample_victim @ ''/''), jm', w1)"
    "HandleDataChunk ?env \<lparr>dc_TransferID = ''t1'', dc_ChunkIndex = int 0, dc_TotalChunks = 1, dc_Data = [0], dc_IsLast = True\<rparr> ''mallory1'' w1
         = (Err DecompressionFailed, w2)"
    "\<forall>p. HasPrefix p (DataDir sample_victim @ ''/'') \<longrightarrow> disk w2 p = None"
    using jm pl by (auto simp: sample_attack_def)
  then show ?thesis using jm(1) by auto
qed

end
