(* ===== verification/Workflow_Design.thy ===== *)
theory Workflow_Design
  imports Job_Store "HOL-Library.Multiset"
begin

text \<open>
  Workflows as the user draws them: the tables of workflows, their nodes and the connections between
  nodes (\<open>internal/database/workflows.go\<close>, \<open>workflow_nodes.go\<close>), and \<open>BuildWorkflowDefinition\<close>, which
  turns a drawing into the list of jobs the workflow manager executes.  A JSON column is the value it
  encodes; the definition of a workflow is what the manager's \<open>json.Unmarshal\<close> makes of it, \<open>None\<close> when it
  fails.  Paths are those of Unix.  The state of the editor (positions, zoom) is kept with the nodes
  but the table \<open>workflow_ui_state\<close> is not modelled.
\<close>

section \<open>Rows\<close>

record PeerDef =
  pd_PeerID :: string
  PeerWorkflowNodeID :: "int option"
  pd_PeerPath :: string
  pd_PeerFileName :: "string option"
  pd_PeerMountFunction :: string
  pd_DutyAcknowledged :: bool

record InterfaceDef =
  fd_Type :: string
  fd_Path :: string
  fd_InterfacePeers :: "PeerDef list"

record JobDef =
  jd_NodeID :: int
  jd_Name :: string
  jd_ServiceID :: int
  jd_ServiceType :: string
  jd_ExecutorPeerID :: string
  jd_Entrypoint :: "string list option"
  jd_Commands :: "string list option"
  jd_ExecutionConstraint :: string
  jd_Interfaces :: "InterfaceDef list"

record Workflow =
  w_ID :: int
  w_Name :: string
  w_Description :: string
  w_Definition :: "JobDef list option"
  w_CreatedAt :: int
  w_UpdatedAt :: int

record WorkflowNode =
  wn_ID :: int
  wn_WorkflowID :: int
  wn_ServiceID :: int
  wn_PeerID :: string
  wn_ServiceName :: string
  wn_ServiceType :: string
  wn_Order :: int
  GUIX :: int
  GUIY :: int
  InputMapping :: "json_object option"
  OutputMapping :: "json_object option"
  wn_Interfaces :: "json list"
  wn_Entrypoint :: "string list option"
  wn_Cmd :: "string list option"
  wn_PricingAmount :: float64
  wn_PricingType :: string
  wn_PricingInterval :: int
  wn_PricingUnit :: string
  wn_CreatedAt :: int
  wn_UpdatedAt :: int

record WorkflowConnection =
  wc_ID :: int
  wc_WorkflowID :: int
  FromNodeID :: "int option"
  FromInterfaceType :: string
  ToNodeID :: "int option"
  ToInterfaceType :: string
  DestinationFileName :: "string option"
  wc_CreatedAt :: int

record design_db =
  workflows :: "Workflow list"
  workflow_seq :: int
  workflow_nodes :: "WorkflowNode list"
  node_seq :: int
  workflow_connections :: "WorkflowConnection list"
  connection_seq :: int

section \<open>Workflows\<close>

text \<open>The workflow ids the job tables refer to are those of this table; \<open>DeleteWorkflow\<close> cascades to both.\<close>

definition AddWorkflow ::
  "conn \<Rightarrow> int \<Rightarrow> Workflow \<Rightarrow> design_db \<times> job_db \<Rightarrow> (db_error + Workflow) \<times> design_db \<times> job_db" where
  "AddWorkflow c now w s =
     (let (d, db) = s
      in if fault c = ExecFails then (Inl DriverError, d, db)
         else
           let i = workflow_seq d + 1;
               row = w\<lparr>w_ID := i, w_CreatedAt := now, w_UpdatedAt := now\<rparr>;
               d' = d\<lparr>workflows := workflows d @ [row], workflow_seq := i\<rparr>;
               db' = db\<lparr>workflow_ids := workflow_ids db @ [i]\<rparr>
           in if fault c = LastInsertIdFails then (Inl LastIdError, d', db') else (Inr row, d', db'))"

definition GetAllWorkflows :: "conn \<Rightarrow> design_db \<Rightarrow> db_error + Workflow list" where
  "GetAllWorkflows c d =
     (if fault c = ExecFails then Inl DriverError
      else Inr (sort_key (\<lambda>w. - w_CreatedAt w) (workflows d)))"

definition GetWorkflowByID :: "conn \<Rightarrow> int \<Rightarrow> design_db \<Rightarrow> db_error + Workflow" where
  "GetWorkflowByID c i d =
     (if fault c = ExecFails then Inl DriverError
      else case row_at w_ID i (workflows d) of None \<Rightarrow> Inl NoRows | Some w \<Rightarrow> Inr w)"

definition UpdateWorkflow :: "conn \<Rightarrow> int \<Rightarrow> int \<Rightarrow> Workflow \<Rightarrow> design_db \<Rightarrow> db_error option \<times> design_db" where
  "UpdateWorkflow c now i w d =
     (if fault c = ExecFails then (Some DriverError, d)
      else if i \<notin> w_ID ` set (workflows d) then (Some NoRows, d)
      else (None, d\<lparr>workflows := sql_update (\<lambda>r. w_ID r = i)
              (\<lambda>r. r\<lparr>w_Name := w_Name w, w_Description := w_Description w, w_Definition := w_Definition w,
                     w_UpdatedAt := now\<rparr>) (workflows d)\<rparr>))"

definition DeleteWorkflow :: "conn \<Rightarrow> int \<Rightarrow> design_db \<times> job_db \<Rightarrow> db_error option \<times> design_db \<times> job_db" where
  "DeleteWorkflow c i s =
     (let (d, db) = s; cascade = fk_on c
      in if fault c = ExecFails then (Some DriverError, d, db)
         else if i \<notin> w_ID ` set (workflows d) then (Some NoRows, d, db)
         else
           (None,
            d\<lparr>workflows := sql_delete (\<lambda>w. w_ID w = i) (workflows d),
              workflow_nodes := sql_delete (\<lambda>n. cascade \<and> wn_WorkflowID n = i) (workflow_nodes d),
              workflow_connections := sql_delete (\<lambda>x. cascade \<and> wc_WorkflowID x = i) (workflow_connections d)\<rparr>,
            db\<lparr>workflow_ids := sql_delete (\<lambda>k. k = i) (workflow_ids db),
               workflow_executions := sql_delete (\<lambda>e. cascade \<and> we_WorkflowID e = i) (workflow_executions db),
               workflow_jobs := sql_delete (\<lambda>w. cascade \<and> wj_WorkflowID w = i) (workflow_jobs db)\<rparr>))"

section \<open>Nodes and connections\<close>

datatype design_error = DesignMarshal | DesignDb db_error

definition node_encodable :: "WorkflowNode \<Rightarrow> bool" where
  "node_encodable node \<longleftrightarrow>
     (case InputMapping node of None \<Rightarrow> True | Some m \<Rightarrow> json_encodable (JObj m))
     \<and> (case OutputMapping node of None \<Rightarrow> True | Some m \<Rightarrow> json_encodable (JObj m))
     \<and> list_all json_encodable (wn_Interfaces node)"

definition AddWorkflowNode :: "conn \<Rightarrow> int \<Rightarrow> WorkflowNode \<Rightarrow> design_db \<Rightarrow> (design_error + WorkflowNode) \<times> design_db" where
  "AddWorkflowNode c now node d =
     (if \<not> node_encodable node then (Inl DesignMarshal, d)
      else if fault c = ExecFails then (Inl (DesignDb DriverError), d)
      else if fk_on c \<and> wn_WorkflowID node \<notin> w_ID ` set (workflows d) then (Inl (DesignDb ForeignKeyViolation), d)
      else
        let i = node_seq d + 1;
            mapping = (\<lambda>m. Some (case m of None \<Rightarrow> [] | Some kvs \<Rightarrow> kvs));
            row = node\<lparr>wn_ID := i, wn_CreatedAt := now, wn_UpdatedAt := now\<rparr>;
            stored = row\<lparr>InputMapping := mapping (InputMapping node), OutputMapping := mapping (OutputMapping node)\<rparr>;
            d' = d\<lparr>workflow_nodes := workflow_nodes d @ [stored], node_seq := i\<rparr>
        in if fault c = LastInsertIdFails then (Inl (DesignDb LastIdError), d') else (Inr row, d'))"

text \<open>A price that is not a number is stored as \<open>NULL\<close>, which the readers cannot scan: they skip the row.\<close>

definition node_readable :: "WorkflowNode \<Rightarrow> bool" where
  "node_readable node \<longleftrightarrow> wn_PricingAmount node \<noteq> NaN"

definition GetWorkflowNodes :: "conn \<Rightarrow> int \<Rightarrow> design_db \<Rightarrow> db_error + WorkflowNode list" where
  "GetWorkflowNodes c workflowID d =
     (if fault c = ExecFails then Inl DriverError
      else Inr (filter node_readable
                 (sort_key wn_Order (filter (\<lambda>n. wn_WorkflowID n = workflowID) (workflow_nodes d)))))"

definition GetWorkflowNodeByID :: "conn \<Rightarrow> int \<Rightarrow> design_db \<Rightarrow> db_error + WorkflowNode" where
  "GetWorkflowNodeByID c i d =
     (if fault c = ExecFails then Inl DriverError
      else case row_at wn_ID i (workflow_nodes d) of
             None \<Rightarrow> Inl NoRows
           | Some n \<Rightarrow> if node_readable n then Inr n else Inl DriverError)"

definition UpdateWorkflowNodeGUIProps :: "conn \<Rightarrow> int \<Rightarrow> int \<Rightarrow> int \<Rightarrow> int \<Rightarrow> design_db \<Rightarrow> db_error option \<times> design_db" where
  "UpdateWorkflowNodeGUIProps c now i x y d =
     (if fault c = ExecFails then (Some DriverError, d)
      else (None, d\<lparr>workflow_nodes := sql_update (\<lambda>n. wn_ID n = i)
              (\<lambda>n. n\<lparr>GUIX := x, GUIY := y, wn_UpdatedAt := now\<rparr>) (workflow_nodes d)\<rparr>))"

definition UpdateWorkflowNodeConfig ::
  "conn \<Rightarrow> int \<Rightarrow> int \<Rightarrow> string list \<Rightarrow> string list \<Rightarrow> design_db \<Rightarrow> db_error option \<times> design_db" where
  "UpdateWorkflowNodeConfig c now i entrypoint cmd d =
     (let some = (\<lambda>xs. if xs = [] then None else Some xs)
      in if fault c = ExecFails then (Some DriverError, d)
         else (None, d\<lparr>workflow_nodes := sql_update (\<lambda>n. wn_ID n = i)
                 (\<lambda>n. n\<lparr>wn_Entrypoint := some entrypoint, wn_Cmd := some cmd, wn_UpdatedAt := now\<rparr>) (workflow_nodes d)\<rparr>))"

definition DeleteWorkflowNode :: "conn \<Rightarrow> int \<Rightarrow> design_db \<Rightarrow> db_error option \<times> design_db" where
  "DeleteWorkflowNode c i d =
     (if fault c = ExecFails then (Some DriverError, d)
      else (None, d\<lparr>workflow_nodes := sql_delete (\<lambda>n. wn_ID n = i) (workflow_nodes d),
                    workflow_connections :=
                      sql_delete (\<lambda>x. fk_on c \<and> i \<in> wn_ID ` set (workflow_nodes d)
                                      \<and> (FromNodeID x = Some i \<or> ToNodeID x = Some i)) (workflow_connections d)\<rparr>))"

definition AddWorkflowConnection ::
  "conn \<Rightarrow> int \<Rightarrow> WorkflowConnection \<Rightarrow> design_db \<Rightarrow> (db_error + int) \<times> design_db" where
  "AddWorkflowConnection c now x d =
     (let known = (\<lambda>n. case n of None \<Rightarrow> True | Some i \<Rightarrow> i \<in> wn_ID ` set (workflow_nodes d))
      in if fault c = ExecFails then (Inl DriverError, d)
         else if FromInterfaceType x \<notin> set interface_types \<or> ToInterfaceType x \<notin> set interface_types
              then (Inl CheckViolation, d)
         else if fk_on c \<and> \<not> (wc_WorkflowID x \<in> w_ID ` set (workflows d) \<and> known (FromNodeID x) \<and> known (ToNodeID x))
              then (Inl ForeignKeyViolation, d)
         else
           let i = connection_seq d + 1;
               d' = d\<lparr>workflow_connections := workflow_connections d @ [x\<lparr>wc_ID := i, wc_CreatedAt := now\<rparr>],
                      connection_seq := i\<rparr>
           in if fault c = LastInsertIdFails then (Inl LastIdError, d') else (Inr i, d'))"

definition GetWorkflowConnections :: "conn \<Rightarrow> int \<Rightarrow> design_db \<Rightarrow> db_error + WorkflowConnection list" where
  "GetWorkflowConnections c workflowID d =
     (if fault c = ExecFails then Inl DriverError
      else Inr (filter (\<lambda>x. wc_WorkflowID x = workflowID) (workflow_connections d)))"

definition DeleteWorkflowConnection :: "conn \<Rightarrow> int \<Rightarrow> design_db \<Rightarrow> db_error option \<times> design_db" where
  "DeleteWorkflowConnection c i d =
     (if fault c = ExecFails then (Some DriverError, d)
      else (None, d\<lparr>workflow_connections := sql_delete (\<lambda>x. wc_ID x = i) (workflow_connections d)\<rparr>))"

definition UpdateWorkflowConnection :: "conn \<Rightarrow> int \<Rightarrow> string option \<Rightarrow> design_db \<Rightarrow> db_error option \<times> design_db" where
  "UpdateWorkflowConnection c i destinationFileName d =
     (if fault c = ExecFails then (Some DriverError, d)
      else (None, d\<lparr>workflow_connections := sql_update (\<lambda>x. wc_ID x = i)
              (\<lambda>x. x\<lparr>DestinationFileName := destinationFileName\<rparr>) (workflow_connections d)\<rparr>))"

definition DeleteAllWorkflowConnections :: "conn \<Rightarrow> int \<Rightarrow> design_db \<Rightarrow> db_error option \<times> design_db" where
  "DeleteAllWorkflowConnections c workflowID d =
     (if fault c = ExecFails then (Some DriverError, d)
      else (None, d\<lparr>workflow_connections := sql_delete (\<lambda>x. wc_WorkflowID x = workflowID) (workflow_connections d)\<rparr>))"

section \<open>From the drawing to the jobs\<close>

fun findInterfacePath :: "json list \<Rightarrow> string \<Rightarrow> string" where
  "findInterfacePath [] interfaceType = []"
| "findInterfacePath (JObj kvs # ifaces) interfaceType =
     (if json_string kvs ''interface_type'' = Some interfaceType
      then (case json_string kvs ''path'' of Some path \<Rightarrow> path | None \<Rightarrow> findInterfacePath ifaces interfaceType)
      else findInterfacePath ifaces interfaceType)"
| "findInterfacePath (_ # ifaces) interfaceType = findInterfacePath ifaces interfaceType"

definition path_or :: "string \<Rightarrow> WorkflowNode \<Rightarrow> string \<Rightarrow> string" where
  "path_or dflt node interfaceType =
     (let path = findInterfacePath (wn_Interfaces node) interfaceType in if path = [] then dflt else path)"

text \<open>The interfaces of a job by the key \<open>type:path\<close>, in the order they were created.\<close>

type_synonym interface_map = "(string \<times> InterfaceDef) list"

definition interface_key :: "string \<Rightarrow> string \<Rightarrow> string" where
  "interface_key interfaceType path = interfaceType @ '':'' @ path"

definition ensure_interface :: "string \<Rightarrow> string \<Rightarrow> interface_map \<Rightarrow> interface_map" where
  "ensure_interface interfaceType path m =
     (if interface_key interfaceType path \<in> fst ` set m then m
      else m @ [(interface_key interfaceType path, \<lparr>fd_Type = interfaceType, fd_Path = path, fd_InterfacePeers = []\<rparr>)])"

definition append_peer :: "string \<Rightarrow> PeerDef \<Rightarrow> interface_map \<Rightarrow> interface_map" where
  "append_peer key peer m =
     map (\<lambda>(k, f). if k = key then (k, f\<lparr>fd_InterfacePeers := fd_InterfacePeers f @ [peer]\<rparr>) else (k, f)) m"

definition node_at :: "WorkflowNode list \<Rightarrow> int \<Rightarrow> WorkflowNode option" where
  "node_at nodes i = row_at wn_ID i (rev nodes)"

text \<open>The other end of a connection: the local peer, a node, or a node that is not there.\<close>

definition peer_def :: "string \<Rightarrow> int option \<Rightarrow> string \<Rightarrow> string option \<Rightarrow> string \<Rightarrow> PeerDef" where
  "peer_def peer node path fileName mountFunction =
     \<lparr>pd_PeerID = peer, PeerWorkflowNodeID = node, pd_PeerPath = path, pd_PeerFileName = fileName,
      pd_PeerMountFunction = mountFunction, pd_DutyAcknowledged = False\<rparr>"

definition destination_peer :: "string \<Rightarrow> WorkflowNode list \<Rightarrow> WorkflowConnection \<Rightarrow> PeerDef option" where
  "destination_peer localPeerID nodes x =
     (case ToNodeID x of
        None \<Rightarrow> Some (peer_def localPeerID None ''input/'' (DestinationFileName x) ''INPUT'')
      | Some i \<Rightarrow>
          map_option (\<lambda>n. peer_def (wn_PeerID n) (Some i) (path_or ''input/'' n (ToInterfaceType x))
                            (DestinationFileName x) ''INPUT'') (node_at nodes i))"

definition source_peer :: "string \<Rightarrow> WorkflowNode list \<Rightarrow> WorkflowConnection \<Rightarrow> PeerDef option" where
  "source_peer localPeerID nodes x =
     (case FromNodeID x of
        None \<Rightarrow> Some (peer_def localPeerID None ''output/'' (DestinationFileName x) ''OUTPUT'')
      | Some i \<Rightarrow>
          map_option (\<lambda>n. peer_def (wn_PeerID n) (Some i) (path_or ''output/'' n (FromInterfaceType x))
                            (DestinationFileName x) ''OUTPUT'') (node_at nodes i))"

definition add_route :: "string \<Rightarrow> string \<Rightarrow> PeerDef option \<Rightarrow> interface_map \<Rightarrow> interface_map" where
  "add_route interfaceType path peer m =
     (let m1 = ensure_interface interfaceType path m
      in case peer of None \<Rightarrow> m1 | Some p \<Rightarrow> append_peer (interface_key interfaceType path) p m1)"

fun outgoing_connections ::
  "string \<Rightarrow> WorkflowNode list \<Rightarrow> WorkflowNode \<Rightarrow> WorkflowConnection list \<Rightarrow> interface_map \<Rightarrow> interface_map" where
  "outgoing_connections localPeerID nodes node [] m = m"
| "outgoing_connections localPeerID nodes node (x # xs) m =
     outgoing_connections localPeerID nodes node xs
       (if FromNodeID x = Some (wn_ID node)
        then add_route (FromInterfaceType x) (path_or ''output/'' node (FromInterfaceType x))
               (destination_peer localPeerID nodes x) m
        else m)"

fun incoming_connections ::
  "string \<Rightarrow> WorkflowNode list \<Rightarrow> WorkflowNode \<Rightarrow> WorkflowConnection list \<Rightarrow> interface_map \<Rightarrow> interface_map" where
  "incoming_connections localPeerID nodes node [] m = m"
| "incoming_connections localPeerID nodes node (x # xs) m =
     incoming_connections localPeerID nodes node xs
       (if ToNodeID x = Some (wn_ID node)
        then add_route (ToInterfaceType x) (path_or ''input/'' node (ToInterfaceType x))
               (source_peer localPeerID nodes x) m
        else m)"

text \<open>Go iterates the interface map in any order: \<open>order\<close> is the one it takes for the node.\<close>

definition build_job ::
  "(int \<Rightarrow> InterfaceDef list \<Rightarrow> InterfaceDef list) \<Rightarrow> string \<Rightarrow> WorkflowNode list \<Rightarrow> WorkflowConnection list \<Rightarrow> WorkflowNode \<Rightarrow> JobDef" where
  "build_job order localPeerID nodes connections node =
     (let m1 = outgoing_connections localPeerID nodes node connections [];
          m2 = incoming_connections localPeerID nodes node connections m1;
          m3 = (if wn_ServiceType node = ''DATA'' then ensure_interface ''STDOUT'' ''output/'' m2 else m2);
          docker = (\<lambda>xs. if wn_ServiceType node = ''DOCKER'' \<and> xs \<noteq> Some [] then xs else None)
      in \<lparr>jd_NodeID = wn_ID node, jd_Name = wn_ServiceName node, jd_ServiceID = wn_ServiceID node,
          jd_ServiceType = wn_ServiceType node, jd_ExecutorPeerID = wn_PeerID node,
          jd_Entrypoint = docker (wn_Entrypoint node), jd_Commands = docker (wn_Cmd node),
          jd_ExecutionConstraint =
            (if list_ex (\<lambda>x. ToNodeID x = Some (wn_ID node)) connections then ''INPUTS_READY'' else ''NONE''),
          jd_Interfaces = order (wn_ID node) (map snd m3)\<rparr>)"

text \<open>
  The definition is stored as JSON, read back as a map of \<open>float64\<close> numbers and written again before it
  is decoded: \<open>reread n\<close> is the integer this makes of \<open>n\<close>, or \<open>None\<close> when it no longer is an \<open>int64\<close>.
\<close>

definition reread_peer :: "(int \<Rightarrow> int option) \<Rightarrow> PeerDef \<Rightarrow> PeerDef option" where
  "reread_peer reread p =
     (case PeerWorkflowNodeID p of
        None \<Rightarrow> Some p
      | Some i \<Rightarrow> map_option (\<lambda>k. p\<lparr>PeerWorkflowNodeID := Some k\<rparr>) (reread i))"

definition those_of :: "('a \<Rightarrow> 'b option) \<Rightarrow> 'a list \<Rightarrow> 'b list option" where
  "those_of f xs = those (map f xs)"

definition reread_job :: "(int \<Rightarrow> int option) \<Rightarrow> JobDef \<Rightarrow> JobDef option" where
  "reread_job reread j =
     (case (reread (jd_NodeID j), reread (jd_ServiceID j),
            those_of (\<lambda>f. map_option (\<lambda>ps. f\<lparr>fd_InterfacePeers := ps\<rparr>) (those_of (reread_peer reread) (fd_InterfacePeers f)))
              (jd_Interfaces j)) of
        (Some n, Some s, Some fs) \<Rightarrow> Some (j\<lparr>jd_NodeID := n, jd_ServiceID := s, jd_Interfaces := fs\<rparr>)
      | _ \<Rightarrow> None)"

datatype build_error = NodesFailed db_error | NoNodes | ConnectionsFailed db_error | WorkflowFailed db_error | StoreFailed db_error

definition BuildWorkflowDefinition ::
  "(int \<Rightarrow> InterfaceDef list \<Rightarrow> InterfaceDef list) \<Rightarrow> (int \<Rightarrow> int option) \<Rightarrow> (nat \<Rightarrow> conn) \<Rightarrow> int \<Rightarrow> int \<Rightarrow> string
     \<Rightarrow> design_db \<Rightarrow> build_error option \<times> design_db" where
  "BuildWorkflowDefinition order reread cs now workflowID localPeerID d =
     (case GetWorkflowNodes (cs 0) workflowID d of
        Inl e \<Rightarrow> (Some (NodesFailed e), d)
      | Inr [] \<Rightarrow> (Some NoNodes, d)
      | Inr nodes \<Rightarrow>
          (case GetWorkflowConnections (cs 1) workflowID d of
             Inl e \<Rightarrow> (Some (ConnectionsFailed e), d)
           | Inr connections \<Rightarrow>
               let jobs = map (build_job order localPeerID nodes connections) nodes
               in case GetWorkflowByID (cs 2) workflowID d of
                    Inl e \<Rightarrow> (Some (WorkflowFailed e), d)
                  | Inr workflow \<Rightarrow>
                      (case UpdateWorkflow (cs 3) now workflowID
                              (workflow\<lparr>w_Definition := those_of (reread_job reread) jobs\<rparr>) d of
                         (Some e, d') \<Rightarrow> (Some (StoreFailed e), d')
                       | (None, d') \<Rightarrow> (None, d'))))"

section \<open>Well-formed designs\<close>

lemma row_at_sql_update:
  "(\<And>r. key (f r) = key r) \<Longrightarrow> row_at key k (sql_update (\<lambda>r. key r = k) f rows) = map_option f (row_at key k rows)"
  by (induction rows) (auto simp: row_at_def)

definition wf_design :: "design_db \<Rightarrow> bool" where
  "wf_design d \<longleftrightarrow>
     table_ok w_ID (workflow_seq d) (\<lambda>_. True) (workflows d)
     \<and> table_ok wn_ID (node_seq d) (\<lambda>_. True) (workflow_nodes d)
     \<and> table_ok wc_ID (connection_seq d)
         (\<lambda>x. FromInterfaceType x \<in> set interface_types \<and> ToInterfaceType x \<in> set interface_types) (workflow_connections d)"

inductive design_step :: "design_db \<Rightarrow> design_db \<Rightarrow> bool" where
  add_workflow: "design_step d (fst (snd (AddWorkflow c now w (d, db))))"
| update_workflow: "design_step d (snd (UpdateWorkflow c now i w d))"
| delete_workflow: "design_step d (fst (snd (DeleteWorkflow c i (d, db))))"
| add_node: "design_step d (snd (AddWorkflowNode c now n d))"
| gui_props: "design_step d (snd (UpdateWorkflowNodeGUIProps c now i x y d))"
| node_config: "design_step d (snd (UpdateWorkflowNodeConfig c now i e cmd d))"
| delete_node: "design_step d (snd (DeleteWorkflowNode c i d))"
| add_connection: "design_step d (snd (AddWorkflowConnection c now x d))"
| delete_connection: "design_step d (snd (DeleteWorkflowConnection c i d))"
| update_connection: "design_step d (snd (UpdateWorkflowConnection c i f d))"
| delete_connections: "design_step d (snd (DeleteAllWorkflowConnections c i d))"

lemma design_step_wf: "design_step d d' \<Longrightarrow> wf_design d \<Longrightarrow> wf_design d'"
proof (induction rule: design_step.induct)
  case (add_node d c now n)
  then show ?case by (auto simp: AddWorkflowNode_def wf_design_def Let_def intro!: table_ok_insert)
next
  case (add_connection d c now x)
  then show ?case by (auto simp: AddWorkflowConnection_def wf_design_def Let_def intro!: table_ok_insert)
qed (auto simp: wf_design_def AddWorkflow_def UpdateWorkflow_def DeleteWorkflow_def UpdateWorkflowNodeGUIProps_def
      UpdateWorkflowNodeConfig_def DeleteWorkflowNode_def DeleteWorkflowConnection_def UpdateWorkflowConnection_def
      DeleteAllWorkflowConnections_def Let_def intro!: table_ok_insert table_ok_update table_ok_delete)

lemma BuildWorkflowDefinition_wf:
  "wf_design d \<Longrightarrow> wf_design (snd (BuildWorkflowDefinition order reread cs now i me d))"
  by (auto simp: BuildWorkflowDefinition_def wf_design_def UpdateWorkflow_def Let_def
      split: sum.splits list.splits prod.splits option.splits intro!: table_ok_update)

text \<open>Deleting a workflow with its executions and jobs leaves the job tables well formed.\<close>

lemma DeleteWorkflow_jobs_wf: "wf_jobs db \<Longrightarrow> wf_jobs (snd (snd (DeleteWorkflow c i (d, db))))"
  by (auto simp: DeleteWorkflow_def wf_jobs_def Let_def intro!: table_ok_delete)

section \<open>The jobs of a drawing\<close>

text \<open>What a job exchanges, one entry for every peer of every interface, and what the drawing asks for.\<close>

definition routes :: "InterfaceDef list \<Rightarrow> (string \<times> string \<times> PeerDef) list" where
  "routes fs = concat (map (\<lambda>f. map (\<lambda>p. (fd_Type f, fd_Path f, p)) (fd_InterfacePeers f)) fs)"

definition design_routes :: "string \<Rightarrow> WorkflowNode list \<Rightarrow> WorkflowConnection list \<Rightarrow> WorkflowNode \<Rightarrow> (string \<times> string \<times> PeerDef) list" where
  "design_routes me nodes connections node =
     concat (map (\<lambda>x. if FromNodeID x = Some (wn_ID node)
                      then (case destination_peer me nodes x of None \<Rightarrow> []
                            | Some p \<Rightarrow> [(FromInterfaceType x, path_or ''output/'' node (FromInterfaceType x), p)]) else []) connections)
     @ concat (map (\<lambda>x. if ToNodeID x = Some (wn_ID node)
                        then (case source_peer me nodes x of None \<Rightarrow> []
                              | Some p \<Rightarrow> [(ToInterfaceType x, path_or ''input/'' node (ToInterfaceType x), p)]) else []) connections)"

definition good_map :: "interface_map \<Rightarrow> bool" where
  "good_map m \<longleftrightarrow> distinct (map fst m)
     \<and> (\<forall>(k, f)\<in>set m. k = interface_key (fd_Type f) (fd_Path f) \<and> fd_Type f \<in> set interface_types)"

lemma routes_simps [simp]:
  "routes [] = []" "routes (f # fs) = map (\<lambda>p. (fd_Type f, fd_Path f, p)) (fd_InterfacePeers f) @ routes fs"
  "routes (fs @ gs) = routes fs @ routes gs"
  by (simp_all add: routes_def)

lemma routes_perm: "mset fs = mset gs \<Longrightarrow> mset (routes fs) = mset (routes gs)"
proof -
  have sum: "mset (routes fs) = sum_mset (image_mset (\<lambda>f. mset (map (\<lambda>p. (fd_Type f, fd_Path f, p)) (fd_InterfacePeers f))) (mset fs))"
    for fs by (induction fs) simp_all
  show "mset fs = mset gs \<Longrightarrow> ?thesis" by (simp only: sum)
qed

lemma interface_key_inj:
  "t \<in> set interface_types \<Longrightarrow> t' \<in> set interface_types \<Longrightarrow> interface_key t p = interface_key t' p' \<longleftrightarrow> t = t' \<and> p = p'"
  by (auto simp: interface_types_def interface_key_def)

lemma ensure_interface_routes:
  assumes "good_map m" and "t \<in> set interface_types"
  shows "good_map (ensure_interface t p m)" "interface_key t p \<in> fst ` set (ensure_interface t p m)"
    "routes (map snd (ensure_interface t p m)) = routes (map snd m)"
  using assms by (auto simp: ensure_interface_def good_map_def)

lemma append_peer_map [simp]: "map fst (append_peer key d m) = map fst m"
  by (induction m) (auto simp: append_peer_def)

lemma append_peer_other: "key \<notin> fst ` set m \<Longrightarrow> append_peer key d m = m"
  unfolding append_peer_def by (induction m) auto

lemma append_peer_good: "good_map m \<Longrightarrow> good_map (append_peer key d m)"
  unfolding good_map_def append_peer_map by (fastforce simp: append_peer_def split: if_splits)

lemma append_peer_routes:
  "good_map m \<Longrightarrow> t \<in> set interface_types \<Longrightarrow> interface_key t p \<in> fst ` set m \<Longrightarrow>
     mset (routes (map snd (append_peer (interface_key t p) d m))) = add_mset (t, p, d) (mset (routes (map snd m)))"
proof (induction m)
  case (Cons kf m)
  obtain k f where kf: "kf = (k, f)" by (cases kf)
  have f: "k = interface_key (fd_Type f) (fd_Path f)" "fd_Type f \<in> set interface_types" "k \<notin> fst ` set m" "good_map m"
    using Cons.prems(1) by (auto simp: kf good_map_def)
  show ?case
  proof (cases "k = interface_key t p")
    case True
    then have "fd_Type f = t" "fd_Path f = p" using f(1,2) Cons.prems(2) interface_key_inj by metis+
    moreover have "append_peer k d m = m" using f(3) by (rule append_peer_other)
    ultimately show ?thesis by (simp add: kf append_peer_def True)
  next
    case False
    then have "mset (routes (map snd (append_peer (interface_key t p) d m))) = add_mset (t, p, d) (mset (routes (map snd m)))"
      using Cons f(4) by (auto simp: kf)
    then show ?thesis using False by (simp add: kf append_peer_def)
  qed
qed simp

lemma add_route_routes:
  assumes "good_map m" and "t \<in> set interface_types"
  shows "good_map (add_route t p peer m)"
    "mset (routes (map snd (add_route t p peer m)))
       = mset (routes (map snd m)) + mset (case peer of None \<Rightarrow> [] | Some d \<Rightarrow> [(t, p, d)])"
proof -
  note e = ensure_interface_routes [OF assms, of p]
  show "good_map (add_route t p peer m)"
    using append_peer_good [OF e(1)] e(1) by (simp add: add_route_def Let_def split: option.splits)
  show "mset (routes (map snd (add_route t p peer m)))
       = mset (routes (map snd m)) + mset (case peer of None \<Rightarrow> [] | Some d \<Rightarrow> [(t, p, d)])"
    using append_peer_routes [OF e(1) assms(2) e(2)] e(3) by (simp add: add_route_def Let_def split: option.splits)
qed

lemma outgoing_routes:
  "good_map m \<Longrightarrow> list_all (\<lambda>x. FromInterfaceType x \<in> set interface_types) xs \<Longrightarrow>
     good_map (outgoing_connections me nodes node xs m)
     \<and> mset (routes (map snd (outgoing_connections me nodes node xs m))) = mset (routes (map snd m))
        + mset (concat (map (\<lambda>x. if FromNodeID x = Some (wn_ID node)
                      then (case destination_peer me nodes x of None \<Rightarrow> []
                            | Some p \<Rightarrow> [(FromInterfaceType x, path_or ''output/'' node (FromInterfaceType x), p)]) else []) xs))"
  by (induction xs arbitrary: m) (auto simp: add_route_routes split: option.splits)

lemma incoming_routes:
  "good_map m \<Longrightarrow> list_all (\<lambda>x. ToInterfaceType x \<in> set interface_types) xs \<Longrightarrow>
     good_map (incoming_connections me nodes node xs m)
     \<and> mset (routes (map snd (incoming_connections me nodes node xs m))) = mset (routes (map snd m))
        + mset (concat (map (\<lambda>x. if ToNodeID x = Some (wn_ID node)
                        then (case source_peer me nodes x of None \<Rightarrow> []
                              | Some p \<Rightarrow> [(ToInterfaceType x, path_or ''input/'' node (ToInterfaceType x), p)]) else []) xs))"
  by (induction xs arbitrary: m) (auto simp: add_route_routes split: option.splits)

lemma build_job_routes:
  assumes "\<And>i fs. mset (order i fs) = mset fs"
    and "list_all (\<lambda>x. FromInterfaceType x \<in> set interface_types \<and> ToInterfaceType x \<in> set interface_types) connections"
  shows "mset (routes (jd_Interfaces (build_job order me nodes connections node))) = mset (design_routes me nodes connections node)"
proof -
  define m1 where "m1 = outgoing_connections me nodes node connections []"
  define m2 where "m2 = incoming_connections me nodes node connections m1"
  define m3 where "m3 = (if wn_ServiceType node = ''DATA'' then ensure_interface ''STDOUT'' ''output/'' m2 else m2)"
  have c: "list_all (\<lambda>x. FromInterfaceType x \<in> set interface_types) connections"
    "list_all (\<lambda>x. ToInterfaceType x \<in> set interface_types) connections"
    using assms(2) by (simp_all add: list_all_iff)
  have g: "good_map []" by (simp add: good_map_def)
  note o = outgoing_routes [OF g c(1), of me nodes node, folded m1_def]
  note i = incoming_routes [OF conjunct1 [OF o] c(2), of me nodes node, folded m2_def]
  have "routes (map snd m3) = routes (map snd m2)"
    using ensure_interface_routes(3) [OF conjunct1 [OF i], of "''STDOUT''"] by (simp add: m3_def interface_types_def)
  then have "mset (routes (map snd m3)) = mset (design_routes me nodes connections node)"
    using i o by (simp add: design_routes_def)
  moreover have "jd_Interfaces (build_job order me nodes connections node) = order (wn_ID node) (map snd m3)"
    by (simp add: build_job_def Let_def m1_def m2_def m3_def)
  ultimately show ?thesis using routes_perm [OF assms(1)] by metis
qed

lemma build_job_fields [simp]:
  "jd_NodeID (build_job order me nodes xs node) = wn_ID node"
  "jd_Name (build_job order me nodes xs node) = wn_ServiceName node"
  "jd_ServiceID (build_job order me nodes xs node) = wn_ServiceID node"
  "jd_ServiceType (build_job order me nodes xs node) = wn_ServiceType node"
  "jd_ExecutorPeerID (build_job order me nodes xs node) = wn_PeerID node"
  "jd_ExecutionConstraint (build_job order me nodes xs node) =
     (if \<exists>x\<in>set xs. ToNodeID x = Some (wn_ID node) then ''INPUTS_READY'' else ''NONE'')"
  by (simp_all add: build_job_def Let_def list_ex_iff)

text \<open>Numbers up to \<open>2 ^ 53\<close> survive the detour over \<open>float64\<close>.\<close>

definition rereads_exactly :: "(int \<Rightarrow> int option) \<Rightarrow> bool" where
  "rereads_exactly reread \<longleftrightarrow> (\<forall>n. \<bar>n\<bar> \<le> 2 ^ 53 \<longrightarrow> reread n = Some n)"

lemma those_of_id: "(\<And>x. x \<in> set xs \<Longrightarrow> f x = Some x) \<Longrightarrow> those_of f xs = Some xs"
  unfolding those_of_def by (induction xs) auto

lemma reread_job_id:
  assumes "rereads_exactly reread" and "\<bar>jd_NodeID j\<bar> \<le> 2 ^ 53" and "\<bar>jd_ServiceID j\<bar> \<le> 2 ^ 53"
    and "\<And>t q p i. (t, q, p) \<in> set (routes (jd_Interfaces j)) \<Longrightarrow> PeerWorkflowNodeID p = Some i \<Longrightarrow> \<bar>i\<bar> \<le> 2 ^ 53"
  shows "reread_job reread j = Some j"
proof -
  have "reread_peer reread p = Some p" if "f \<in> set (jd_Interfaces j)" "p \<in> set (fd_InterfacePeers f)" for f p
  proof -
    have "(fd_Type f, fd_Path f, p) \<in> set (routes (jd_Interfaces j))" using that by (auto simp: routes_def)
    then show ?thesis using assms(1,4) by (auto simp: reread_peer_def rereads_exactly_def split: option.split)
  qed
  then have "those_of (\<lambda>f. map_option (\<lambda>ps. f\<lparr>fd_InterfacePeers := ps\<rparr>) (those_of (reread_peer reread) (fd_InterfacePeers f)))
      (jd_Interfaces j) = Some (jd_Interfaces j)"
    by (intro those_of_id) (simp add: those_of_id)
  then show ?thesis using assms(1-3) by (simp add: reread_job_def rereads_exactly_def)
qed

lemma node_at_mem: "node_at nodes i = Some n \<Longrightarrow> n \<in> set nodes \<and> wn_ID n = i"
  by (auto simp: node_at_def dest: row_at_SomeD)

lemma node_at_distinct:
  assumes "distinct (map wn_ID nodes)" and "n \<in> set nodes"
  shows "node_at nodes (wn_ID n) = Some n"
proof (cases "node_at nodes (wn_ID n)")
  case None
  then show ?thesis using assms(2) by (auto simp: node_at_def row_at_None_iff)
next
  case (Some n')
  then have "n' \<in> set nodes" "wn_ID n' = wn_ID n" using node_at_mem by blast+
  then show ?thesis using assms Some by (metis distinct_map inj_onD)
qed

lemma design_routes_nodes:
  "(t, q, p) \<in> set (design_routes me nodes xs node) \<Longrightarrow> PeerWorkflowNodeID p = Some i \<Longrightarrow> i \<in> wn_ID ` set nodes"
  by (auto simp: design_routes_def destination_peer_def source_peer_def peer_def_def eq_commute [of "Some _" "map_option _ _"]
      dest!: node_at_mem split: if_splits option.splits)

text \<open>Both ends of a connection between two nodes name each other.\<close>

lemma design_routes_mirror:
  assumes "distinct (map wn_ID nodes)" and "x \<in> set xs" and "a \<in> set nodes" and "b \<in> set nodes"
    and "FromNodeID x = Some (wn_ID a)" and "ToNodeID x = Some (wn_ID b)"
  shows "(FromInterfaceType x, path_or ''output/'' a (FromInterfaceType x),
            peer_def (wn_PeerID b) (Some (wn_ID b)) (path_or ''input/'' b (ToInterfaceType x)) (DestinationFileName x) ''INPUT'')
         \<in> set (design_routes me nodes xs a)"
    and "(ToInterfaceType x, path_or ''input/'' b (ToInterfaceType x),
            peer_def (wn_PeerID a) (Some (wn_ID a)) (path_or ''output/'' a (FromInterfaceType x)) (DestinationFileName x) ''OUTPUT'')
         \<in> set (design_routes me nodes xs b)"
proof -
  have "destination_peer me nodes x = Some (peer_def (wn_PeerID b) (Some (wn_ID b)) (path_or ''input/'' b (ToInterfaceType x))
      (DestinationFileName x) ''INPUT'')"
    "source_peer me nodes x = Some (peer_def (wn_PeerID a) (Some (wn_ID a)) (path_or ''output/'' a (FromInterfaceType x))
      (DestinationFileName x) ''OUTPUT'')"
    using assms(3-) node_at_distinct [OF assms(1)] by (simp_all add: destination_peer_def source_peer_def)
  note p = this
  show "(FromInterfaceType x, path_or ''output/'' a (FromInterfaceType x),
            peer_def (wn_PeerID b) (Some (wn_ID b)) (path_or ''input/'' b (ToInterfaceType x)) (DestinationFileName x) ''INPUT'')
         \<in> set (design_routes me nodes xs a)"
    unfolding design_routes_def set_append by (rule UnI1) (use assms(2,5) p(1) in \<open>auto intro!: bexI [of _ x]\<close>)
  show "(ToInterfaceType x, path_or ''input/'' b (ToInterfaceType x),
            peer_def (wn_PeerID a) (Some (wn_ID a)) (path_or ''output/'' a (FromInterfaceType x)) (DestinationFileName x) ''OUTPUT'')
         \<in> set (design_routes me nodes xs b)"
    unfolding design_routes_def set_append by (rule UnI2) (use assms(2,6) p(2) in \<open>auto intro!: bexI [of _ x]\<close>)
qed

lemma built_jobs_reread:
  assumes "rereads_exactly reread" and "\<And>i fs. mset (order i fs) = mset fs"
    and "list_all (\<lambda>x. FromInterfaceType x \<in> set interface_types \<and> ToInterfaceType x \<in> set interface_types) connections"
    and "\<And>n. n \<in> set nodes \<Longrightarrow> \<bar>wn_ID n\<bar> \<le> 2 ^ 53 \<and> \<bar>wn_ServiceID n\<bar> \<le> 2 ^ 53"
  shows "those_of (reread_job reread) (map (build_job order me nodes connections) nodes)
    = Some (map (build_job order me nodes connections) nodes)"
proof (rule those_of_id)
  fix j assume "j \<in> set (map (build_job order me nodes connections) nodes)"
  then obtain n where n: "n \<in> set nodes" "j = build_job order me nodes connections n" by auto
  have "set (routes (jd_Interfaces j)) = set (design_routes me nodes connections n)"
    unfolding n(2) by (rule mset_eq_setD, rule build_job_routes [OF _ assms(3)]) (rule assms(2))
  then have "\<bar>i\<bar> \<le> 2 ^ 53" if "(t, q, p) \<in> set (routes (jd_Interfaces j))" "PeerWorkflowNodeID p = Some i" for t q p i
    using design_routes_nodes [of t q p me nodes connections n i] that assms(4) by auto
  then show "reread_job reread j = Some j"
    using assms(4) [OF n(1)] n(2) by (intro reread_job_id [OF assms(1)]) auto
qed

lemma BuildWorkflowDefinition_stores:
  assumes "\<And>k. fault (cs k) = NoFault" and "i \<in> w_ID ` set (workflows d)"
    and "nodes = filter node_readable (sort_key wn_Order (filter (\<lambda>n. wn_WorkflowID n = i) (workflow_nodes d)))" and "nodes \<noteq> []"
    and "jobs = map (build_job order me nodes (filter (\<lambda>x. wc_WorkflowID x = i) (workflow_connections d))) nodes"
  shows "\<exists>d' w. BuildWorkflowDefinition order reread cs now i me d = (None, d')
     \<and> row_at w_ID i (workflows d') = Some w \<and> w_Definition w = those_of (reread_job reread) jobs
     \<and> workflow_seq d' = workflow_seq d \<and> map w_ID (workflows d') = map w_ID (workflows d)"
proof -
  obtain w where w: "row_at w_ID i (workflows d) = Some w"
    using assms(2) by (cases "row_at w_ID i (workflows d)") (auto simp: row_at_None_iff)
  obtain n ns where n: "nodes = n # ns" using assms(4) by (cases nodes) auto
  have nodes: "GetWorkflowNodes (cs 0) i d = Inr (n # ns)" using assms(1,3) n by (simp add: GetWorkflowNodes_def)
  define upd where "upd = (\<lambda>r. r\<lparr>w_Name := w_Name w, w_Description := w_Description w,
    w_Definition := those_of (reread_job reread) jobs, w_UpdatedAt := now\<rparr> :: Workflow)"
  define d' where "d' = d\<lparr>workflows := sql_update (\<lambda>r. w_ID r = i) upd (workflows d)\<rparr>"
  have "BuildWorkflowDefinition order reread cs now i me d = (None, d')"
    unfolding BuildWorkflowDefinition_def nodes sum.case list.case
    using assms(1,2,5) w by (simp add: GetWorkflowConnections_def GetWorkflowByID_def UpdateWorkflow_def Let_def d'_def upd_def n)
  moreover have "row_at w_ID i (workflows d') = Some (upd w)"
    using w by (simp add: d'_def upd_def row_at_sql_update)
  moreover have "map w_ID (workflows d') = map w_ID (workflows d)"
    by (simp add: d'_def upd_def map_sql_update)
  ultimately show ?thesis by (auto simp: upd_def d'_def)
qed

lemma compiled_jobs:
  assumes "wf_design d" and "\<And>k. fault (cs k) = NoFault" and "node_seq d \<le> 2 ^ 53" and "rereads_exactly reread"
    and "\<And>i fs. mset (order i fs) = mset fs" and "i \<in> w_ID ` set (workflows d)"
    and "nodes = filter node_readable (sort_key wn_Order (filter (\<lambda>n. wn_WorkflowID n = i) (workflow_nodes d)))" and "nodes \<noteq> []"
    and "connections = filter (\<lambda>x. wc_WorkflowID x = i) (workflow_connections d)"
    and "list_all (\<lambda>n. \<bar>wn_ServiceID n\<bar> \<le> 2 ^ 53) nodes"
    and "jobs = map (build_job order me nodes connections) nodes"
  shows "\<exists>d' w. BuildWorkflowDefinition order reread cs now i me d = (None, d')
     \<and> row_at w_ID i (workflows d') = Some w \<and> w_Definition w = Some jobs"
    and "mset (routes (jd_Interfaces (build_job order me nodes connections n))) = mset (design_routes me nodes connections n)"
    and "distinct (map wn_ID nodes)"
proof -
  have types: "list_all (\<lambda>x. FromInterfaceType x \<in> set interface_types \<and> ToInterfaceType x \<in> set interface_types) connections"
    using assms(1) by (simp add: assms(9) wf_design_def table_ok_def list_all_iff)
  have "distinct (map wn_ID (workflow_nodes d))" using assms(1) by (simp add: wf_design_def table_ok_def)
  then show "distinct (map wn_ID nodes)"
    by (simp add: assms(7) distinct_map distinct_sort inj_on_def)
  have "\<bar>wn_ID n\<bar> \<le> 2 ^ 53 \<and> \<bar>wn_ServiceID n\<bar> \<le> 2 ^ 53" if "n \<in> set nodes" for n
    using that assms(1,3,10) by (fastforce simp: assms(7) wf_design_def table_ok_def list_all_iff)
  then have store: "those_of (reread_job reread) jobs = Some jobs"
    unfolding assms(11) by (rule built_jobs_reread [OF assms(4,5) types])
  show "mset (routes (jd_Interfaces (build_job order me nodes connections n))) = mset (design_routes me nodes connections n)"
    by (rule build_job_routes [OF _ types]) (rule assms(5))
  show "\<exists>d' w. BuildWorkflowDefinition order reread cs now i me d = (None, d')
     \<and> row_at w_ID i (workflows d') = Some w \<and> w_Definition w = Some jobs"
    using BuildWorkflowDefinition_stores [OF _ assms(6,7,8), of cs jobs order me reread now] assms(2) store
    by (auto simp: assms(11) assms(9))
qed

text \<open>
  C30. A drawing is compiled faithfully.  On a working database \<open>BuildWorkflowDefinition\<close> stores, for every
  drawing with a node, one job per node in the order of the nodes.  A job runs the service of its node
  on the peer of its node, waits for inputs exactly when a connection leads to the node, and its
  interface peers are exactly the connections of the node, each as often as it is drawn, whatever order Go iterates its maps in.
  In particular both ends of a connection between two nodes name each other: the source's job sends
  to the path at which the destination's job expects the data from the source's path.
\<close>

theorem drawing_is_compiled:
  assumes "wf_design d" and "\<And>k. fault (cs k) = NoFault" and "node_seq d \<le> 2 ^ 53" and "rereads_exactly reread"
    and "\<And>i fs. mset (order i fs) = mset fs"
    and "i \<in> w_ID ` set (workflows d)"
    and "nodes = filter node_readable (sort_key wn_Order (filter (\<lambda>n. wn_WorkflowID n = i) (workflow_nodes d)))" and "nodes \<noteq> []"
    and "connections = filter (\<lambda>x. wc_WorkflowID x = i) (workflow_connections d)"
    and "list_all (\<lambda>n. \<bar>wn_ServiceID n\<bar> \<le> 2 ^ 53) nodes"
  shows "\<exists>d' w jobs. BuildWorkflowDefinition order reread cs now i me d = (None, d')
     \<and> row_at w_ID i (workflows d') = Some w \<and> w_Definition w = Some jobs
     \<and> list_all2 (\<lambda>node job. jd_NodeID job = wn_ID node \<and> jd_ServiceID job = wn_ServiceID node
          \<and> jd_ServiceType job = wn_ServiceType node \<and> jd_ExecutorPeerID job = wn_PeerID node
          \<and> jd_ExecutionConstraint job = (if \<exists>x\<in>set connections. ToNodeID x = Some (wn_ID node) then ''INPUTS_READY'' else ''NONE'')
          \<and> mset (routes (jd_Interfaces job)) = mset (design_routes me nodes connections node)) nodes jobs
     \<and> (\<forall>x\<in>set connections. \<forall>a\<in>set nodes. \<forall>b\<in>set nodes. FromNodeID x = Some (wn_ID a) \<and> ToNodeID x = Some (wn_ID b) \<longrightarrow>
          (let from = path_or ''output/'' a (FromInterfaceType x); to = path_or ''input/'' b (ToInterfaceType x)
           in (\<exists>job\<in>set jobs. jd_NodeID job = wn_ID a \<and> (FromInterfaceType x, from,
                  peer_def (wn_PeerID b) (Some (wn_ID b)) to (DestinationFileName x) ''INPUT'') \<in> set (routes (jd_Interfaces job)))
            \<and> (\<exists>job\<in>set jobs. jd_NodeID job = wn_ID b \<and> (ToInterfaceType x, to,
                  peer_def (wn_PeerID a) (Some (wn_ID a)) from (DestinationFileName x) ''OUTPUT'') \<in> set (routes (jd_Interfaces job)))))"
proof -
  define jobs where "jobs = map (build_job order me nodes connections) nodes"
  note c = compiled_jobs [OF assms(1) _ assms(3,4) _ assms(6-10) jobs_def]
  have routes: "mset (routes (jd_Interfaces (build_job order me nodes connections n))) = mset (design_routes me nodes connections n)" for n
    using c(2) assms(2,5) .
  have dist: "distinct (map wn_ID nodes)" using c(3) assms(2,5) .
  note rt = mset_eq_setD [OF routes]
  obtain d' w where d': "BuildWorkflowDefinition order reread cs now i me d = (None, d')"
    "row_at w_ID i (workflows d') = Some w" "w_Definition w = Some jobs"
    using c(1) assms(2,5) by blast
  moreover have "list_all2 (\<lambda>node job. jd_NodeID job = wn_ID node \<and> jd_ServiceID job = wn_ServiceID node
          \<and> jd_ServiceType job = wn_ServiceType node \<and> jd_ExecutorPeerID job = wn_PeerID node
          \<and> jd_ExecutionConstraint job = (if \<exists>x\<in>set connections. ToNodeID x = Some (wn_ID node) then ''INPUTS_READY'' else ''NONE'')
          \<and> mset (routes (jd_Interfaces job)) = mset (design_routes me nodes connections node)) nodes jobs"
    by (simp add: jobs_def list_all2_conv_all_nth routes)
  moreover have "\<exists>job\<in>set jobs. jd_NodeID job = wn_ID n \<and> r \<in> set (routes (jd_Interfaces job))"
    if "n \<in> set nodes" "r \<in> set (design_routes me nodes connections n)" for n r
    using that by (intro bexI [of _ "build_job order me nodes connections n"]) (auto simp: jobs_def rt)
  ultimately show ?thesis using design_routes_mirror [OF dist] unfolding Let_def by blast
qed

text \<open>A drawing of two nodes: the data of node 1 on this peer is the standard input of node 2 on another.\<close>

definition drawn_node :: "int \<Rightarrow> string \<Rightarrow> string \<Rightarrow> WorkflowNode" where
  "drawn_node i type peer =
     \<lparr>wn_ID = i, wn_WorkflowID = 1, wn_ServiceID = i, wn_PeerID = peer, wn_ServiceName = type, wn_ServiceType = type,
      wn_Order = i, GUIX = 0, GUIY = 0, InputMapping = None, OutputMapping = None, wn_Interfaces = [], wn_Entrypoint = None,
      wn_Cmd = None, wn_PricingAmount = Fin 0, wn_PricingType = ''ONE_TIME'', wn_PricingInterval = 0, wn_PricingUnit = ''NONE'',
      wn_CreatedAt = 0, wn_UpdatedAt = 0\<rparr>"

definition drawn_connection :: WorkflowConnection where
  "drawn_connection =
     \<lparr>wc_ID = 1, wc_WorkflowID = 1, FromNodeID = Some 1, FromInterfaceType = ''STDOUT'', ToNodeID = Some 2,
      ToInterfaceType = ''STDIN'', DestinationFileName = None, wc_CreatedAt = 0\<rparr>"

definition drawing :: design_db where
  "drawing =
     \<lparr>workflows = [\<lparr>w_ID = 1, w_Name = ''w'', w_Description = [], w_Definition = None, w_CreatedAt = 0, w_UpdatedAt = 0\<rparr>],
      workflow_seq = 1, workflow_nodes = [drawn_node 1 ''DATA'' ''executor'', drawn_node 2 ''DOCKER'' ''provider''], node_seq = 2,
      workflow_connections = [drawn_connection], connection_seq = 1\<rparr>"

lemma good_conn_faultless: "fault good_conn = NoFault"
  by (simp add: good_conn_def)

lemmas drawing_defs = drawing_def drawn_node_def drawn_connection_def node_readable_def

theorem drawing_is_compiled_witness:
  "\<exists>d' w jobs. BuildWorkflowDefinition (\<lambda>_. rev) Some (\<lambda>_. good_conn) 1000 1 ''executor'' drawing = (None, d')
     \<and> row_at w_ID 1 (workflows d') = Some w \<and> w_Definition w = Some jobs
     \<and> map jd_ExecutionConstraint jobs = [''NONE'', ''INPUTS_READY'']
     \<and> (\<exists>job\<in>set jobs. jd_NodeID job = 2
          \<and> (''STDIN'', ''input/'', peer_def ''executor'' (Some 1) ''output/'' None ''OUTPUT'') \<in> set (routes (jd_Interfaces job)))"
proof -
  let ?nodes = "[drawn_node 1 ''DATA'' ''executor'', drawn_node 2 ''DOCKER'' ''provider'']"
  have nodes: "?nodes = filter node_readable (sort_key wn_Order (filter (\<lambda>n. wn_WorkflowID n = 1) (workflow_nodes drawing)))"
    and connections: "[drawn_connection] = filter (\<lambda>x. wc_WorkflowID x = 1) (workflow_connections drawing)"
    by (simp_all add: drawing_defs)
  have "wf_design drawing" "1 \<in> w_ID ` set (workflows drawing)" "node_seq drawing \<le> 2 ^ 53" "rereads_exactly Some"
    "list_all (\<lambda>n. \<bar>wn_ServiceID n\<bar> \<le> 2 ^ 53) ?nodes"
    by (simp_all add: wf_design_def table_ok_def drawing_defs interface_types_def rereads_exactly_def)
  then obtain d' w jobs where built: "BuildWorkflowDefinition (\<lambda>_. rev) Some (\<lambda>_. good_conn) 1000 1 ''executor'' drawing = (None, d')"
    "row_at w_ID 1 (workflows d') = Some w" "w_Definition w = Some jobs"
    and jobs: "list_all2 (\<lambda>node job. jd_NodeID job = wn_ID node \<and> jd_ServiceID job = wn_ServiceID node
          \<and> jd_ServiceType job = wn_ServiceType node \<and> jd_ExecutorPeerID job = wn_PeerID node
          \<and> jd_ExecutionConstraint job = (if \<exists>x\<in>set [drawn_connection]. ToNodeID x = Some (wn_ID node) then ''INPUTS_READY'' else ''NONE'')
          \<and> mset (routes (jd_Interfaces job)) = mset (design_routes ''executor'' ?nodes [drawn_connection] node)) ?nodes jobs"
    using drawing_is_compiled [where cs = "\<lambda>_. good_conn" and reread = Some and order = "\<lambda>_. rev" and now = 1000 and me = "''executor''",
        OF _ _ _ _ _ _ nodes _ connections]
    by (simp only: mset_rev good_conn_faultless list.distinct simp_thms triv_forall_equality True_implies_equals) (elim exE conjE, rule that)
  obtain a b where ab: "jobs = [a, b]" using jobs by (auto simp: list_all2_Cons1)
  have "set (routes (jd_Interfaces b)) = set (design_routes ''executor'' ?nodes [drawn_connection] (drawn_node 2 ''DOCKER'' ''provider''))"
    using jobs by (intro mset_eq_setD) (simp add: ab)
  then have "(''STDIN'', ''input/'', peer_def ''executor'' (Some 1) ''output/'' None ''OUTPUT'') \<in> set (routes (jd_Interfaces b))"
    by (simp add: design_routes_def source_peer_def node_at_def row_at_def path_or_def drawing_defs)
  then show ?thesis using built jobs by (auto simp: ab drawing_defs)
qed

end
