(* ===== verification/Workflows.thy ===== *)
theory Workflows
  imports Workflow_Design Jobs "HOL-Library.AList"
begin

text \<open>
  The workflow manager (\<open>internal/core/workflow_manager.go\<close>): parsing and validating the definition of a
  workflow, creating its jobs, ordering them locally or from other peers, starting them with the
  interfaces that connect them, polling their status, finishing and cancelling the workflow, and
  recovering workflows after a restart.  The state is the design tables, the job manager with its
  tables, and the workflows being executed.  A call takes an environment: the clock, the connections
  of its statements, the environments of the job manager's calls, the answers of the peers, and the
  order in which Go iterates its maps.  The messages sent to peers are part of the result.
\<close>

section \<open>State and environment\<close>

record ParsedJob =
  pj_NodeID :: int
  pj_JobName :: string
  pj_ServiceID :: int
  pj_ServiceType :: string
  pj_ExecutorPeerID :: string
  pj_Entrypoint :: "string list option"
  pj_Commands :: "string list option"
  pj_ExecutionConstraint :: string
  pj_Interfaces :: "ReqInterface list"
  pj_Status :: string

record WorkflowDefinition =
  wd_ID :: int
  wd_Name :: string
  wd_Description :: string
  wd_Jobs :: "ParsedJob list"

record ActiveWorkflow =
  aw_WorkflowExecutionID :: int
  aw_WorkflowID :: int
  aw_Definition :: WorkflowDefinition
  aw_WorkflowJobs :: "WorkflowJob list"
  aw_JobExecutions :: "(string \<times> JobExecution) list"
  aw_CompletedJobs :: int
  aw_Status :: string
  aw_StartedAt :: int
  aw_CompletedAt :: "int option"
  aw_ErrorMessage :: string

record WorkflowManager =
  wm_jobs :: JobManager
  wm_design :: design_db
  activeWorkflows :: "(int \<times> ActiveWorkflow) list"

datatype job_reply = ReplyError string | Reply bool int string

datatype wf_message =
  AskJob string JobExecutionRequest | StartJob string JobStartRequest | AskStatus string int int

record wf_env =
  f_now :: int
  f_conns :: "nat \<Rightarrow> conn"
  f_services :: "nat \<Rightarrow> conn"
  f_create :: "nat \<Rightarrow> conn"
  f_submit :: "nat \<Rightarrow> job_env"
  f_store :: "nat \<Rightarrow> nat \<Rightarrow> conn"
  f_start :: "nat \<Rightarrow> job_env"
  f_handler :: bool
  f_reply :: "nat \<Rightarrow> string \<Rightarrow> JobExecutionRequest \<Rightarrow> job_reply"
  f_order :: "WorkflowJob list \<Rightarrow> WorkflowJob list"
  f_text :: "db_error \<Rightarrow> string"

section \<open>Parsing\<close>

datatype wf_error =
  WorkflowLookup db_error | DefinitionInvalid | NoJobs | ServiceNotLocal int string | ServiceMismatch string string string
| BadInterfaceType string string | BadMountFunction string string | NoStdout string | NoComputation string string
| NotComputation string string string | ExecutionFailed db_error

text \<open>An empty peer id stands for the local peer; the log line of the replacement prints its first eight bytes.\<close>

definition parse_peer :: "string \<Rightarrow> PeerDef \<Rightarrow> InterfacePeer" where
  "parse_peer localPeerID p =
     \<lparr>ip_PeerID = (if pd_PeerID p = [] then localPeerID else pd_PeerID p),
      ip_PeerWorkflowJobID = PeerWorkflowNodeID p, ip_PeerJobExecutionID = None, ip_PeerPath = pd_PeerPath p,
      ip_PeerFileName = pd_PeerFileName p, ip_PeerMountFunction = pd_PeerMountFunction p,
      ip_DutyAcknowledged = pd_DutyAcknowledged p\<rparr>"

definition parse_interface :: "string \<Rightarrow> InterfaceDef \<Rightarrow> ReqInterface" where
  "parse_interface localPeerID f =
     \<lparr>ri_Type = fd_Type f, ri_Path = fd_Path f, InterfacePeers = map (parse_peer localPeerID) (fd_InterfacePeers f)\<rparr>"

definition parse_job :: "string \<Rightarrow> JobDef \<Rightarrow> ParsedJob" where
  "parse_job localPeerID j =
     \<lparr>pj_NodeID = jd_NodeID j, pj_JobName = jd_Name j, pj_ServiceID = jd_ServiceID j, pj_ServiceType = jd_ServiceType j,
      pj_ExecutorPeerID = jd_ExecutorPeerID j, pj_Entrypoint = jd_Entrypoint j, pj_Commands = jd_Commands j,
      pj_ExecutionConstraint = jd_ExecutionConstraint j, pj_Interfaces = map (parse_interface localPeerID) (jd_Interfaces j),
      pj_Status = ''PENDING''\<rparr>"

definition parseWorkflowDefinition :: "string \<Rightarrow> Workflow \<Rightarrow> (wf_error, WorkflowDefinition) go_result" where
  "parseWorkflowDefinition localPeerID w =
     (case w_Definition w of
        None \<Rightarrow> Err DefinitionInvalid
      | Some jobs \<Rightarrow>
          if slice8 localPeerID = None
             \<and> list_ex (\<lambda>j. list_ex (\<lambda>f. list_ex (\<lambda>p. pd_PeerID p = []) (fd_InterfacePeers f)) (jd_Interfaces j)) jobs
          then Panic
          else Ok \<lparr>wd_ID = w_ID w, wd_Name = w_Name w, wd_Description = w_Description w,
                   wd_Jobs = map (parse_job localPeerID) jobs\<rparr>)"

section \<open>Validation\<close>

fun first_problem :: "('a \<Rightarrow> ('e, unit) go_result) \<Rightarrow> 'a list \<Rightarrow> ('e, unit) go_result" where
  "first_problem f [] = Ok ()"
| "first_problem f (x # xs) = (if is_ok (f x) then first_problem f xs else f x)"

definition provides_input :: "string \<Rightarrow> ReqInterface \<Rightarrow> bool" where
  "provides_input inputPath iface \<longleftrightarrow>
     (ri_Type iface = ''STDIN'' \<or> ri_Type iface = ''MOUNT'')
     \<and> (list_ex (\<lambda>p. ip_PeerPath p = inputPath \<and> ip_PeerMountFunction p = ''OUTPUT'') (InterfacePeers iface)
        \<or> ri_Type iface = ''MOUNT'' \<and> ri_Path iface = inputPath
          \<and> list_ex (\<lambda>p. ip_PeerMountFunction p = ''OUTPUT'') (InterfacePeers iface))"

definition findJobByPeerAndInputPath :: "ParsedJob list \<Rightarrow> string \<Rightarrow> string \<Rightarrow> ParsedJob option" where
  "findJobByPeerAndInputPath jobs peer inputPath =
     List.find (\<lambda>job. pj_ExecutorPeerID job = peer \<and> list_ex (provides_input inputPath) (pj_Interfaces job)) jobs"

definition check_destination :: "string \<Rightarrow> ParsedJob list \<Rightarrow> ParsedJob \<Rightarrow> InterfacePeer \<Rightarrow> (wf_error, unit) go_result" where
  "check_destination requester jobs job peer =
     (if ip_PeerMountFunction peer \<noteq> ''INPUT'' \<or> ip_PeerID peer = requester then Ok ()
      else case findJobByPeerAndInputPath jobs (ip_PeerID peer) (ip_PeerPath peer) of
             None \<Rightarrow> Err (NoComputation (pj_JobName job) (take 8 (ip_PeerID peer)))
           | Some dest \<Rightarrow>
               if pj_ServiceType dest = ''DOCKER'' \<or> pj_ServiceType dest = ''STANDALONE'' then Ok ()
               else if slice8 (ip_PeerID peer) = None then Panic
               else Err (NotComputation (pj_JobName job) (take 8 (ip_PeerID peer)) (pj_JobName dest)))"

definition check_data_job :: "string \<Rightarrow> ParsedJob list \<Rightarrow> ParsedJob \<Rightarrow> (wf_error, unit) go_result" where
  "check_data_job requester jobs job =
     (let stdouts = filter (\<lambda>f. ri_Type f = ''STDOUT'') (pj_Interfaces job)
      in if pj_ServiceType job \<noteq> ''DATA'' then Ok ()
         else if stdouts = [] then Err (NoStdout (pj_JobName job))
         else first_problem (\<lambda>f. first_problem (check_destination requester jobs job) (InterfacePeers f)) stdouts)"

definition validateDataTransferConstraints :: "string \<Rightarrow> ParsedJob list \<Rightarrow> (wf_error, unit) go_result" where
  "validateDataTransferConstraints requester jobs = first_problem (check_data_job requester jobs) jobs"

definition check_service :: "string \<Rightarrow> conn \<Rightarrow> job_db \<Rightarrow> ParsedJob \<Rightarrow> (wf_error, unit) go_result" where
  "check_service localPeerID c db job =
     (if pj_ExecutorPeerID job \<noteq> localPeerID then Ok ()
      else case GetService c (pj_ServiceID job) db of
             Inr (Some service) \<Rightarrow>
               if ServiceType service = pj_ServiceType job then Ok ()
               else Err (ServiceMismatch (pj_JobName job) (pj_ServiceType job) (ServiceType service))
           | _ \<Rightarrow> Err (ServiceNotLocal (pj_ServiceID job) (pj_JobName job)))"

definition check_interface :: "ParsedJob \<Rightarrow> ReqInterface \<Rightarrow> (wf_error, unit) go_result" where
  "check_interface job iface =
     (if ri_Type iface \<notin> {''STDIN'', ''STDOUT'', ''STDERR'', ''LOGS'', ''MOUNT''}
      then Err (BadInterfaceType (ri_Type iface) (pj_JobName job))
      else first_problem
             (\<lambda>peer. if ip_PeerMountFunction peer \<in> {''INPUT'', ''OUTPUT'', ''BOTH''} then Ok ()
                     else Err (BadMountFunction (ip_PeerMountFunction peer) (pj_JobName job)))
             (InterfacePeers iface))"

fun check_jobs :: "string \<Rightarrow> (nat \<Rightarrow> conn) \<Rightarrow> job_db \<Rightarrow> nat \<Rightarrow> ParsedJob list \<Rightarrow> (wf_error, unit) go_result" where
  "check_jobs localPeerID cs db k [] = Ok ()"
| "check_jobs localPeerID cs db k (job # jobs) =
     (if \<not> is_ok (check_service localPeerID (cs k) db job) then check_service localPeerID (cs k) db job
      else if \<not> is_ok (first_problem (check_interface job) (pj_Interfaces job))
           then first_problem (check_interface job) (pj_Interfaces job)
      else check_jobs localPeerID cs db (Suc k) jobs)"

definition validateWorkflow :: "string \<Rightarrow> (nat \<Rightarrow> conn) \<Rightarrow> job_db \<Rightarrow> WorkflowDefinition \<Rightarrow> (wf_error, unit) go_result" where
  "validateWorkflow localPeerID cs db w =
     (if wd_Jobs w = [] then Err NoJobs
      else if \<not> is_ok (check_jobs localPeerID cs db 0 (wd_Jobs w)) then check_jobs localPeerID cs db 0 (wd_Jobs w)
      else validateDataTransferConstraints localPeerID (wd_Jobs w))"

section \<open>Executing a workflow\<close>

text \<open>Phase 1: one workflow job per definition.  The flag is set when a log line slices a short peer id and panics.\<close>

fun create_workflow_jobs ::
  "wf_env \<Rightarrow> nat \<Rightarrow> ParsedJob list \<Rightarrow> ActiveWorkflow \<Rightarrow> job_db \<Rightarrow> bool \<times> ActiveWorkflow \<times> job_db" where
  "create_workflow_jobs env k [] execution db = (False, execution, db)"
| "create_workflow_jobs env k (job # jobs) execution db =
     (if slice8 (pj_ExecutorPeerID job) = None then (True, execution, db)
      else case CreateWorkflowJob (f_create env k) (f_now env) (aw_WorkflowExecutionID execution) (aw_WorkflowID execution)
                  (pj_NodeID job) (pj_JobName job) (pj_ServiceID job) (pj_ExecutorPeerID job) db of
             (Inl e, db1) \<Rightarrow> create_workflow_jobs env (Suc k) jobs execution db1
           | (Inr w, db1) \<Rightarrow>
               create_workflow_jobs env (Suc k) jobs
                 (execution\<lparr>aw_WorkflowJobs := aw_WorkflowJobs execution @ [w]\<rparr>) db1)"

definition node_map :: "wf_env \<Rightarrow> ActiveWorkflow \<Rightarrow> (int \<rightharpoonup> int)" where
  "node_map env execution =
     foldl (\<lambda>m w. m(wj_NodeID w \<mapsto> wj_ID w)) Map.empty (f_order env (aw_WorkflowJobs execution))"

definition workflow_job_of :: "(int \<rightharpoonup> int) \<Rightarrow> ActiveWorkflow \<Rightarrow> ParsedJob \<Rightarrow> WorkflowJob option" where
  "workflow_job_of nodes execution job =
     (case nodes (pj_NodeID job) of None \<Rightarrow> None | Some i \<Rightarrow> row_at wj_ID i (aw_WorkflowJobs execution))"

definition job_request :: "string \<Rightarrow> WorkflowJob \<Rightarrow> ParsedJob \<Rightarrow> JobExecutionRequest" where
  "job_request localPeerID w job =
     \<lparr>rq_WorkflowJobID = wj_ID w, rq_ServiceID = wj_ServiceID w, rq_ExecutorPeerID = wj_ExecutorPeerID w,
      rq_Entrypoint = pj_Entrypoint job, rq_Commands = pj_Commands job,
      rq_ExecutionConstraint = pj_ExecutionConstraint job, rq_Interfaces = [], rq_OrderingPeerID = localPeerID,
      rq_PaymentSignature = SigNil\<rparr>"

definition createLocalJobExecution ::
  "job_env \<Rightarrow> WorkflowJob \<Rightarrow> ParsedJob \<Rightarrow> JobManager \<Rightarrow> (submit_error, JobExecution) go_result \<times> JobManager" where
  "createLocalJobExecution env w job jm =
     SubmitJobWithOptions env (job_request (peerID jm) w job) Map.empty True jm"

text \<open>The error is the text the caller stores with the workflow job.\<close>

definition sendRemoteJobRequest ::
  "wf_env \<Rightarrow> nat \<Rightarrow> WorkflowJob \<Rightarrow> ParsedJob \<Rightarrow> JobManager \<Rightarrow> (string, int) go_result \<times> JobManager \<times> wf_message list" where
  "sendRemoteJobRequest env k w job jm =
     (if \<not> f_handler env then (Err ''job handler not available'', jm, [])
      else if slice8 (wj_ExecutorPeerID w) = None then (Panic, jm, [])
      else
        let request = job_request (peerID jm) w job;
            sent = [AskJob (wj_ExecutorPeerID w) request]
        in case f_reply env k (wj_ExecutorPeerID w) request of
             ReplyError e \<Rightarrow> (Err (''failed to send job request: '' @ e), jm, sent)
           | Reply accepted remoteID message \<Rightarrow>
               if \<not> accepted then (Err (''job rejected by remote peer: '' @ message), jm, sent)
               else case UpdateWorkflowJobRemoteExecutionID (f_store env k 0) (f_now env) (wj_ID w) remoteID (jm_db jm) of
                      (Some e, db1) \<Rightarrow>
                        (Err (''failed to store remote job_execution_id: '' @ f_text env e), jm\<lparr>jm_db := db1\<rparr>, sent)
                    | (None, db1) \<Rightarrow> (Ok remoteID, jm\<lparr>jm_db := db1\<rparr>, sent))"

definition put_workflow_job :: "WorkflowJob \<Rightarrow> ActiveWorkflow \<Rightarrow> ActiveWorkflow" where
  "put_workflow_job w execution =
     execution\<lparr>aw_WorkflowJobs := sql_update (\<lambda>x. wj_ID x = wj_ID w) (\<lambda>_. w) (aw_WorkflowJobs execution)\<rparr>"

text \<open>Phase 2: order the jobs.\<close>

definition initiate_job ::
  "wf_env \<Rightarrow> (int \<rightharpoonup> int) \<Rightarrow> nat \<Rightarrow> ParsedJob \<Rightarrow> ActiveWorkflow \<Rightarrow> JobManager
     \<Rightarrow> bool \<times> ActiveWorkflow \<times> JobManager \<times> wf_message list" where
  "initiate_job env nodes k job execution jm =
     (case workflow_job_of nodes execution job of
        None \<Rightarrow> (False, execution, jm, [])
      | Some w \<Rightarrow>
          if pj_ExecutorPeerID job = peerID jm then
            (case createLocalJobExecution (f_submit env k) w job jm of
               (Panic, jm1) \<Rightarrow> (True, execution, jm1, [])
             | (Err e, jm1) \<Rightarrow> (False, execution, jm1, [])
             | (Ok jobExec, jm1) \<Rightarrow>
                 (False,
                  (put_workflow_job (w\<lparr>wj_RemoteJobExecutionID := Some (je_ID jobExec)\<rparr>) execution)
                    \<lparr>aw_JobExecutions := AList.update (pj_JobName job) jobExec (aw_JobExecutions execution)\<rparr>,
                  jm1\<lparr>jm_db := snd (UpdateWorkflowJobRemoteExecutionID (f_store env k 0) (f_now env) (wj_ID w) (je_ID jobExec)
                                     (jm_db jm1))\<rparr>, []))
          else if slice8 (pj_ExecutorPeerID job) = None then (True, execution, jm, [])
          else
            (case sendRemoteJobRequest env k w job jm of
               (Panic, jm1, sent) \<Rightarrow> (True, execution, jm1, sent)
             | (Ok remoteID, jm1, sent) \<Rightarrow>
                 (False, put_workflow_job (w\<lparr>wj_RemoteJobExecutionID := Some remoteID\<rparr>) execution, jm1, sent)
             | (Err e, jm1, sent) \<Rightarrow>
                 let msg = ''Remote job request failed: '' @ e
                 in case UpdateWorkflowJobStatus (f_store env k 1) (f_store env k 2) (f_now env) (wj_ID w) ''ERRORED'' None msg (jm_db jm1) of
                      (Some e', db2) \<Rightarrow> (False, execution, jm1\<lparr>jm_db := db2\<rparr>, sent)
                    | (None, db2) \<Rightarrow>
                        (False, put_workflow_job (w\<lparr>wj_Status := ''ERRORED'', wj_Error := msg\<rparr>) execution, jm1\<lparr>jm_db := db2\<rparr>, sent)))"

fun initiate_jobs ::
  "wf_env \<Rightarrow> (int \<rightharpoonup> int) \<Rightarrow> nat \<Rightarrow> ParsedJob list \<Rightarrow> ActiveWorkflow \<Rightarrow> JobManager
     \<Rightarrow> bool \<times> ActiveWorkflow \<times> JobManager \<times> wf_message list" where
  "initiate_jobs env nodes k [] execution jm = (False, execution, jm, [])"
| "initiate_jobs env nodes k (job # jobs) execution jm =
     (case initiate_job env nodes k job execution jm of
        (True, execution1, jm1, sent) \<Rightarrow> (True, execution1, jm1, sent)
      | (False, execution1, jm1, sent) \<Rightarrow>
          (case initiate_jobs env nodes (Suc k) jobs execution1 jm1 of
             (p, execution2, jm2, sent2) \<Rightarrow> (p, execution2, jm2, sent @ sent2)))"

text \<open>Phase 3: the ids of the job executions, the interfaces that name them, and the start commands.\<close>

definition execution_map :: "(int \<rightharpoonup> int) \<Rightarrow> ActiveWorkflow \<Rightarrow> (int \<rightharpoonup> int)" where
  "execution_map nodes execution =
     (\<lambda>n. case nodes n of None \<Rightarrow> None
          | Some i \<Rightarrow> (case row_at wj_ID i (aw_WorkflowJobs execution) of None \<Rightarrow> None | Some w \<Rightarrow> wj_RemoteJobExecutionID w))"

definition complete_peer :: "(int \<rightharpoonup> int) \<Rightarrow> (int \<rightharpoonup> int) \<Rightarrow> InterfacePeer \<Rightarrow> InterfacePeer" where
  "complete_peer nodes jobs peer =
     (case ip_PeerWorkflowJobID peer of
        None \<Rightarrow> peer
      | Some n \<Rightarrow>
          peer\<lparr>ip_PeerWorkflowJobID := (case nodes n of Some i \<Rightarrow> Some i | None \<Rightarrow> Some n),
               ip_PeerJobExecutionID := (case jobs n of Some j \<Rightarrow> Some j | None \<Rightarrow> ip_PeerJobExecutionID peer)\<rparr>)"

definition buildCompleteInterfaces :: "(int \<rightharpoonup> int) \<Rightarrow> (int \<rightharpoonup> int) \<Rightarrow> ReqInterface list \<Rightarrow> ReqInterface list" where
  "buildCompleteInterfaces nodes jobs interfaces =
     map (\<lambda>iface. iface\<lparr>InterfacePeers := map (complete_peer nodes jobs) (InterfacePeers iface)\<rparr>) interfaces"

definition start_request :: "WorkflowJob \<Rightarrow> int \<Rightarrow> ReqInterface list \<Rightarrow> JobStartRequest" where
  "start_request w jobExecutionID interfaces =
     \<lparr>sr_WorkflowJobID = wj_ID w, sr_JobExecutionID = jobExecutionID,
      sr_Interfaces = map (\<lambda>f. Some \<lparr>st_Type = ri_Type f, st_Path = ri_Path f, st_Peers = map Some (InterfacePeers f)\<rparr>) interfaces\<rparr>"

fun sendStartCommands ::
  "wf_env \<Rightarrow> (int \<rightharpoonup> int) \<Rightarrow> (int \<rightharpoonup> int) \<Rightarrow> ActiveWorkflow \<Rightarrow> nat \<Rightarrow> ParsedJob list \<Rightarrow> JobManager
     \<Rightarrow> bool \<times> JobManager \<times> wf_message list" where
  "sendStartCommands env nodes jobs execution k [] jm = (False, jm, [])"
| "sendStartCommands env nodes jobs execution k (job # rest) jm =
     (case (case workflow_job_of nodes execution job of None \<Rightarrow> None
            | Some w \<Rightarrow> (case wj_RemoteJobExecutionID w of None \<Rightarrow> None | Some j \<Rightarrow> Some (w, j))) of
        None \<Rightarrow> sendStartCommands env nodes jobs execution (Suc k) rest jm
      | Some (w, j) \<Rightarrow>
          let request = start_request w j (buildCompleteInterfaces nodes jobs (pj_Interfaces job))
          in if pj_ExecutorPeerID job = peerID jm then
               (case HandleJobStart (f_start env k) request (peerID jm) jm of
                  (Panic, jm1) \<Rightarrow> (True, jm1, [])
                | (_, jm1) \<Rightarrow> sendStartCommands env nodes jobs execution (Suc k) rest jm1)
             else if slice8 (pj_ExecutorPeerID job) = None then (True, jm, [])
             else if \<not> f_handler env then sendStartCommands env nodes jobs execution (Suc k) rest jm
             else
               (case sendStartCommands env nodes jobs execution (Suc k) rest jm of
                  (p, jm1, sent) \<Rightarrow> (p, jm1, StartJob (pj_ExecutorPeerID job) request # sent)))"

definition executeWorkflowJobs ::
  "wf_env \<Rightarrow> ActiveWorkflow \<Rightarrow> JobManager \<Rightarrow> bool \<times> ActiveWorkflow \<times> JobManager \<times> wf_message list" where
  "executeWorkflowJobs env execution jm =
     (let jobs = wd_Jobs (aw_Definition execution)
      in case create_workflow_jobs env 0 jobs (execution\<lparr>aw_Status := ''RUNNING''\<rparr>) (jm_db jm) of
           (True, execution1, db1) \<Rightarrow> (True, execution1, jm\<lparr>jm_db := db1\<rparr>, [])
         | (False, execution1, db1) \<Rightarrow>
             let nodes = node_map env execution1
             in case initiate_jobs env nodes 0 jobs execution1 (jm\<lparr>jm_db := db1\<rparr>) of
                  (True, execution2, jm2, sent) \<Rightarrow> (True, execution2, jm2, sent)
                | (False, execution2, jm2, sent) \<Rightarrow>
                    (case sendStartCommands env nodes (execution_map nodes execution2) execution2 0 jobs jm2 of
                       (p, jm3, started) \<Rightarrow> (p, execution2, jm3, sent @ started)))"

text \<open>The execution is registered before its jobs are created, and stays registered when a job panics.\<close>

definition ExecuteWorkflow ::
  "wf_env \<Rightarrow> int \<Rightarrow> WorkflowManager \<Rightarrow> (wf_error, int) go_result \<times> WorkflowManager \<times> wf_message list" where
  "ExecuteWorkflow env workflowID wm =
     (let jm = wm_jobs wm
      in case GetWorkflowByID (f_conns env 0) workflowID (wm_design wm) of
           Inl e \<Rightarrow> (Err (WorkflowLookup e), wm, [])
         | Inr workflow \<Rightarrow>
             (case parseWorkflowDefinition (peerID jm) workflow of
                Panic \<Rightarrow> (Panic, wm, [])
              | Err e \<Rightarrow> (Err e, wm, [])
              | Ok def \<Rightarrow>
                  (case validateWorkflow (peerID jm) (f_services env) (jm_db jm) def of
                     Panic \<Rightarrow> (Panic, wm, [])
                   | Err e \<Rightarrow> (Err e, wm, [])
                   | Ok _ \<Rightarrow>
                       (case CreateWorkflowExecution (f_conns env 1) (f_now env) workflowID (jm_db jm) of
                          (Inl e, db1) \<Rightarrow> (Err (ExecutionFailed e), wm\<lparr>wm_jobs := jm\<lparr>jm_db := db1\<rparr>\<rparr>, [])
                        | (Inr row, db1) \<Rightarrow>
                            let execution =
                                  \<lparr>aw_WorkflowExecutionID = we_ID row, aw_WorkflowID = workflowID, aw_Definition = def,
                                   aw_WorkflowJobs = [], aw_JobExecutions = [], aw_CompletedJobs = 0, aw_Status = ''PENDING'',
                                   aw_StartedAt = f_now env, aw_CompletedAt = None, aw_ErrorMessage = []\<rparr>;
                                db2 = snd (UpdateWorkflowExecutionStatus (f_conns env 2) (f_now env) (we_ID row) ''RUNNING'' [] db1)
                            in case executeWorkflowJobs env execution (jm\<lparr>jm_db := db2\<rparr>) of
                                 (panic, execution', jm', sent) \<Rightarrow>
                                   (if panic then Panic else Ok (we_ID row),
                                    wm\<lparr>wm_jobs := jm',
                                       activeWorkflows := AList.update (we_ID row) execution' (activeWorkflows wm)\<rparr>, sent)))))"

section \<open>Watching a workflow\<close>

text \<open>Cancelling goes through the cached job executions of local jobs, in the order \<open>order\<close>.\<close>

fun cancel_jobs :: "(nat \<Rightarrow> job_env) \<Rightarrow> nat \<Rightarrow> JobExecution list \<Rightarrow> JobManager \<Rightarrow> JobManager" where
  "cancel_jobs envs k [] jm = jm"
| "cancel_jobs envs k (job # jobs) jm =
     cancel_jobs envs (Suc k) jobs
       (if je_Status job = ''RUNNING'' \<or> je_Status job = ''READY'' then snd (CancelJob (envs k) (je_ID job) jm) else jm)"

definition CancelWorkflow ::
  "(nat \<Rightarrow> job_env) \<Rightarrow> (JobExecution list \<Rightarrow> JobExecution list) \<Rightarrow> int \<Rightarrow> WorkflowManager \<Rightarrow> bool \<times> WorkflowManager" where
  "CancelWorkflow envs order i wm =
     (case map_of (activeWorkflows wm) i of
        None \<Rightarrow> (False, wm)
      | Some execution \<Rightarrow>
          (True, wm\<lparr>wm_jobs := cancel_jobs envs 0 (order (map snd (aw_JobExecutions execution))) (wm_jobs wm)\<rparr>))"

record WorkflowStatus =
  ws_WorkflowID :: int
  ws_Status :: string
  ws_CompletedJobs :: int
  ws_TotalJobs :: int
  ws_ErrorMessage :: string

definition GetWorkflowStatus :: "conn \<Rightarrow> int \<Rightarrow> WorkflowManager \<Rightarrow> WorkflowStatus option" where
  "GetWorkflowStatus c i wm =
     (case map_of (activeWorkflows wm) i of
        Some execution \<Rightarrow>
          Some \<lparr>ws_WorkflowID = aw_WorkflowID execution, ws_Status = aw_Status execution,
                ws_CompletedJobs = aw_CompletedJobs execution, ws_TotalJobs = int (length (wd_Jobs (aw_Definition execution))),
                ws_ErrorMessage = aw_ErrorMessage execution\<rparr>
      | None \<Rightarrow>
          (case GetWorkflowJobsByExecution c i (jm_db (wm_jobs wm)) of
             Inr (w # ws) \<Rightarrow>
               Some \<lparr>ws_WorkflowID = wj_WorkflowID w, ws_Status = wj_Status w,
                     ws_CompletedJobs = int (length (filter (\<lambda>w. wj_Status w = ''COMPLETED'') (w # ws))),
                     ws_TotalJobs = int (length (w # ws)),
                     ws_ErrorMessage = foldl (\<lambda>e w. if wj_Error w \<noteq> [] then wj_Error w else e) [] (w # ws)\<rparr>
           | _ \<Rightarrow> None))"

datatype status_reply = StatusFails | StatusAnswer JobStatusResponse

text \<open>Asking a peer for the status of a job: the flag is a panic.  Connection 0 refreshes the job, 1 updates it.\<close>

definition requestJobStatus ::
  "bool \<Rightarrow> int \<Rightarrow> (nat \<Rightarrow> conn) \<Rightarrow> (string \<Rightarrow> int \<Rightarrow> int \<Rightarrow> status_reply) \<Rightarrow> string \<Rightarrow> JobExecution \<Rightarrow> ActiveWorkflow \<Rightarrow> job_db
     \<Rightarrow> bool \<times> ActiveWorkflow \<times> job_db \<times> wf_message list" where
  "requestJobStatus handler now cs reply jobName jobExec execution db =
     (if je_Status jobExec \<in> {''COMPLETED'', ''ERRORED'', ''CANCELLED''} \<or> \<not> handler then (False, execution, db, [])
      else
        let fresh = (case GetJobExecution (cs 0) (je_ID jobExec) db of Inr j \<Rightarrow> j | Inl _ \<Rightarrow> jobExec);
            query = (case je_RemoteJobExecutionID fresh of Some r \<Rightarrow> r | None \<Rightarrow> je_ID fresh);
            sent = [AskStatus (je_ExecutorPeerID jobExec) query (je_WorkflowJobID jobExec)];
            short = slice8 (je_ExecutorPeerID jobExec) = None
        in case reply (je_ExecutorPeerID jobExec) query (je_WorkflowJobID jobExec) of
             StatusFails \<Rightarrow> (short, execution, db, sent)
           | StatusAnswer r \<Rightarrow>
               if \<not> Found r then (short, execution, db, sent)
               else if sp_Status r = je_Status jobExec then (False, execution, db, sent)
               else case UpdateJobStatus (cs 1) now (je_ID jobExec) (sp_Status r) (sp_ErrorMessage r) db of
                      (Some e, db1) \<Rightarrow> (False, execution, db1, sent)
                    | (None, db1) \<Rightarrow>
                        (False,
                         execution\<lparr>aw_JobExecutions :=
                           AList.update jobName (jobExec\<lparr>je_Status := sp_Status r, je_ErrorMessage := sp_ErrorMessage r\<rparr>)
                             (aw_JobExecutions execution)\<rparr>, db1, sent))"

definition checkWorkflowCompletion ::
  "conn \<Rightarrow> conn \<Rightarrow> int \<Rightarrow> ActiveWorkflow \<Rightarrow> WorkflowManager \<Rightarrow> WorkflowManager" where
  "checkWorkflowCompletion c_get c_upd now execution wm =
     (let i = aw_WorkflowExecutionID execution; jm = wm_jobs wm
      in case GetWorkflowJobsByExecution c_get i (jm_db jm) of
           Inl e \<Rightarrow> wm
         | Inr ws \<Rightarrow>
             let count = (\<lambda>statuses. length (filter (\<lambda>w. wj_Status w \<in> statuses) ws));
                 completed = count {''COMPLETED''};
                 errored = count {''ERRORED'', ''CANCELLED'', ''FAILED''};
                 pending = count {''PENDING'', ''RUNNING'', ''WAITING''};
                 total = length ws
             in if completed + errored = total \<and> pending = 0 then
                  let finalStatus = (if errored > 0 then ''FAILED'' else ''COMPLETED'');
                      errorMsg = (if errored > 0 then itoa (int errored) @ '' of '' @ itoa (int total) @ '' jobs failed'' else [])
                  in wm\<lparr>wm_jobs := jm\<lparr>jm_db := snd (UpdateWorkflowExecutionStatus c_upd now i finalStatus errorMsg (jm_db jm))\<rparr>,
                        activeWorkflows := AList.delete i (activeWorkflows wm)\<rparr>
                else wm)"

record poll_env =
  p_now :: int
  p_handler :: bool
  p_conns :: "int \<Rightarrow> string \<Rightarrow> nat \<Rightarrow> conn"
  p_check :: "int \<Rightarrow> nat \<Rightarrow> conn"
  p_reply :: "string \<Rightarrow> int \<Rightarrow> int \<Rightarrow> status_reply"
  p_jobs :: "(string \<times> JobExecution) list \<Rightarrow> (string \<times> JobExecution) list"
  p_active :: "(int \<times> ActiveWorkflow) list \<Rightarrow> (int \<times> ActiveWorkflow) list"

fun poll_jobs ::
  "poll_env \<Rightarrow> (string \<times> JobExecution) list \<Rightarrow> ActiveWorkflow \<Rightarrow> job_db \<Rightarrow> bool \<times> ActiveWorkflow \<times> job_db \<times> wf_message list" where
  "poll_jobs env [] execution db = (False, execution, db, [])"
| "poll_jobs env ((name, job) # jobs) execution db =
     (case requestJobStatus (p_handler env) (p_now env) (p_conns env (aw_WorkflowExecutionID execution) name) (p_reply env)
             name job execution db of
        (True, execution1, db1, sent) \<Rightarrow> (True, execution1, db1, sent)
      | (False, execution1, db1, sent) \<Rightarrow>
          (case poll_jobs env jobs execution1 db1 of
             (p, execution2, db2, sent2) \<Rightarrow> (p, execution2, db2, sent @ sent2)))"

text \<open>One tick of the status updater.\<close>

fun poll_workflows ::
  "poll_env \<Rightarrow> (int \<times> ActiveWorkflow) list \<Rightarrow> WorkflowManager \<Rightarrow> bool \<times> WorkflowManager \<times> wf_message list" where
  "poll_workflows env [] wm = (False, wm, [])"
| "poll_workflows env ((i, execution) # rest) wm =
     (case poll_jobs env (p_jobs env (aw_JobExecutions execution)) execution (jm_db (wm_jobs wm)) of
        (panic, execution1, db1, sent) \<Rightarrow>
          let wm1 = wm\<lparr>wm_jobs := (wm_jobs wm)\<lparr>jm_db := db1\<rparr>,
                       activeWorkflows := AList.update i execution1 (activeWorkflows wm)\<rparr>
          in if panic then (True, wm1, sent)
             else
               (case poll_workflows env rest
                       (checkWorkflowCompletion (p_check env i 0) (p_check env i 1) (p_now env) execution1 wm1) of
                  (p, wm2, sent2) \<Rightarrow> (p, wm2, sent @ sent2)))"

definition updateActiveWorkflowStatuses :: "poll_env \<Rightarrow> WorkflowManager \<Rightarrow> bool \<times> WorkflowManager \<times> wf_message list" where
  "updateActiveWorkflowStatuses env wm = poll_workflows env (p_active env (activeWorkflows wm)) wm"

section \<open>Recovery after a restart\<close>

text \<open>
  The rows the manager takes up again, with the id of the row as the id of the execution.  \<open>scans\<close>
  says which job rows the scan into Go's types accepts.
\<close>

fun recover_rows ::
  "(nat \<Rightarrow> nat \<Rightarrow> conn) \<Rightarrow> int \<Rightarrow> (JobExecution \<Rightarrow> bool) \<Rightarrow> nat \<Rightarrow> WorkflowJob list \<Rightarrow> WorkflowManager \<Rightarrow> bool \<times> WorkflowManager" where
  "recover_rows cs now scans k [] wm = (False, wm)"
| "recover_rows cs now scans k (row # rows) wm =
     (case GetWorkflowByID (cs k 0) (wj_WorkflowID row) (wm_design wm) of
        Inl e \<Rightarrow> recover_rows cs now scans (Suc k) rows wm
      | Inr workflow \<Rightarrow>
          (case parseWorkflowDefinition (peerID (wm_jobs wm)) workflow of
             Panic \<Rightarrow> (True, wm)
           | Err e \<Rightarrow> recover_rows cs now scans (Suc k) rows wm
           | Ok def \<Rightarrow>
               if fault (cs k 1) = ExecFails then recover_rows cs now scans (Suc k) rows wm
               else
                 let jobs = filter (\<lambda>j. je_WorkflowJobID j = wj_ID row \<and> scans j) (job_executions (jm_db (wm_jobs wm)));
                     execution =
                       \<lparr>aw_WorkflowExecutionID = wj_ID row, aw_WorkflowID = wj_WorkflowID row, aw_Definition = def,
                        aw_WorkflowJobs = [], aw_JobExecutions = map (\<lambda>j. (''job_'' @ itoa (je_ID j), j)) jobs,
                        aw_CompletedJobs = 0, aw_Status = wj_Status row, aw_StartedAt = now, aw_CompletedAt = None, aw_ErrorMessage = []\<rparr>
                 in recover_rows cs now scans (Suc k) rows
                      (wm\<lparr>activeWorkflows := AList.update (wj_ID row) execution (activeWorkflows wm)\<rparr>)))"

definition recoverRunningWorkflows ::
  "conn \<Rightarrow> (nat \<Rightarrow> nat \<Rightarrow> conn) \<Rightarrow> int \<Rightarrow> (JobExecution \<Rightarrow> bool) \<Rightarrow> WorkflowManager \<Rightarrow> bool \<times> WorkflowManager" where
  "recoverRunningWorkflows c cs now scans wm =
     (if fault c = ExecFails then (False, wm)
      else recover_rows cs now scans 0
             (filter (\<lambda>w. wj_Status w = ''running'') (workflow_jobs (jm_db (wm_jobs wm)))) wm)"

end
