(* ===== verification/Workflow_Runs.thy ===== *)
theory Workflow_Runs
  imports Workflows Job_Lifecycle
begin

text \<open>
  What the workflow manager guarantees: a validated workflow orders every job once and starts the
  accepted ones with interfaces that name the right jobs, the poll finishes exactly the workflows whose
  jobs have ended; and where it fails: data for the standard input of another peer's computation is
  refused, and cancelling a workflow reaches none of its jobs.
\<close>

section \<open>What the steps leave alone\<close>

lemma first_problem_ok: "first_problem f xs = Ok () \<longleftrightarrow> (\<forall>x\<in>set xs. f x = Ok ())"
  by (induction xs) (auto simp: is_ok_iff)

lemma first_problem_is_ok [simp]: "is_ok (first_problem f xs) \<longleftrightarrow> (\<forall>x\<in>set xs. is_ok (f x))"
  by (induction xs) auto

lemma peerID_set_job_status [simp]: "peerID (set_job_status env c i s m jm) = peerID jm"
  by (simp add: set_job_status_def)

lemma peerID_CreateJobInterfaces [simp]: "peerID (CreateJobInterfaces env job ifs m1 m2 jm) = peerID jm"
  by (simp add: CreateJobInterfaces_def Let_def split: sum.splits bool.splits)

lemma peerID_HandleJobStart [simp]: "peerID (snd (HandleJobStart env r s jm)) = peerID jm"
  by (simp add: HandleJobStart_def Let_def split: option.splits sum.splits)

lemma peerID_SubmitJobWithOptions [simp]: "peerID (snd (SubmitJobWithOptions env request ids b jm)) = peerID jm"
  by (simp add: SubmitJobWithOptions_def Let_def split: sum.splits go_result.splits prod.splits)

lemma peerID_sendRemoteJobRequest:
  "sendRemoteJobRequest env k w job jm = (r, jm', sent) \<Longrightarrow> peerID jm' = peerID jm"
  by (auto simp: sendRemoteJobRequest_def Let_def split: if_splits job_reply.splits prod.splits option.splits)

lemma createLocal_peerID: "createLocalJobExecution env w job jm = (r, jm') \<Longrightarrow> peerID jm' = peerID jm"
  unfolding createLocalJobExecution_def by (metis peerID_SubmitJobWithOptions snd_conv)

lemma row_at_perm:
  assumes "mset xs = mset ys" and "distinct (map key ys)"
  shows "row_at key k xs = row_at key k ys"
proof (cases "row_at key k ys")
  case None
  then have "row_at key k xs = None" using mset_eq_setD [OF assms(1)] by (simp add: row_at_None_iff)
  then show ?thesis using None by simp
next
  case (Some y)
  then have y: "key y = k" "y \<in> set xs" using row_at_SomeD mset_eq_setD [OF assms(1)] by fastforce+
  then obtain x where x: "row_at key k xs = Some x" by (cases "row_at key k xs") (auto simp: row_at_None_iff)
  then have "key x = k" "x \<in> set ys" using row_at_SomeD mset_eq_setD [OF assms(1)] by fastforce+
  then have "x = y" using inj_onD [of key "set ys" x y] assms(2) row_at_SomeD [OF Some] by (simp add: distinct_map)
  then show ?thesis using x Some by simp
qed

lemma parse_job_simps [simp]:
  "pj_NodeID (parse_job me j) = jd_NodeID j" "pj_JobName (parse_job me j) = jd_Name j"
  "pj_ServiceID (parse_job me j) = jd_ServiceID j" "pj_ServiceType (parse_job me j) = jd_ServiceType j"
  "pj_ExecutorPeerID (parse_job me j) = jd_ExecutorPeerID j"
  "pj_Interfaces (parse_job me j) = map (parse_interface me) (jd_Interfaces j)"
  by (simp_all add: parse_job_def)

section \<open>Ordering the jobs\<close>

text \<open>What the answer to an order makes of the workflow job's execution id.\<close>

definition accepted_as :: "wf_env \<Rightarrow> nat \<Rightarrow> string \<Rightarrow> JobExecutionRequest \<Rightarrow> int option" where
  "accepted_as env k peer request = (case f_reply env k peer request of Reply True r _ \<Rightarrow> Some r | _ \<Rightarrow> None)"

definition same_job :: "WorkflowJob \<Rightarrow> WorkflowJob \<Rightarrow> bool" where
  "same_job w w' \<longleftrightarrow> wj_ID w' = wj_ID w \<and> wj_NodeID w' = wj_NodeID w \<and> wj_ServiceID w' = wj_ServiceID w
     \<and> wj_ExecutorPeerID w' = wj_ExecutorPeerID w"

definition ordered :: "wf_env \<Rightarrow> string \<Rightarrow> nat \<Rightarrow> ParsedJob \<Rightarrow> WorkflowJob \<Rightarrow> WorkflowJob \<Rightarrow> bool" where
  "ordered env me k job w w' \<longleftrightarrow> same_job w w'
     \<and> (pj_ExecutorPeerID job \<noteq> me \<longrightarrow> wj_RemoteJobExecutionID w' = accepted_as env k (wj_ExecutorPeerID w) (job_request me w job))"

definition order_message :: "string \<Rightarrow> ParsedJob \<Rightarrow> WorkflowJob \<Rightarrow> wf_message list" where
  "order_message me job w = (if pj_ExecutorPeerID job = me then [] else [AskJob (wj_ExecutorPeerID w) (job_request me w job)])"

lemma same_job_request: "same_job w w' \<Longrightarrow> job_request me w' job = job_request me w job"
  by (simp add: same_job_def job_request_def)

lemma sql_update_at:
  "distinct (map wj_ID (xs @ w # ys)) \<Longrightarrow> sql_update (\<lambda>x. wj_ID x = wj_ID w) (\<lambda>_. w') (xs @ w # ys) = xs @ w' # ys"
  by (auto simp: sql_update_def intro!: map_idI) (metis image_eqI)+

lemma row_at_middle: "distinct (map wj_ID (xs @ w # ys)) \<Longrightarrow> row_at wj_ID (wj_ID w) (xs @ w # ys) = Some w"
  by (induction xs) (auto simp: row_at_def)

lemma put_workflow_job_at:
  assumes "aw_WorkflowJobs e = xs @ w # ys" and "distinct (map wj_ID (xs @ w # ys))" and "wj_ID w' = wj_ID w"
  shows "aw_WorkflowJobs (put_workflow_job w' e) = xs @ w' # ys"
  using sql_update_at [OF assms(2)] assms(1,3) by (simp add: put_workflow_job_def)

lemma initiate_job_orders:
  assumes "initiate_job env nodes k job e jm = (False, e', jm', sent)"
    and "aw_WorkflowJobs e = xs @ w # ys" and "distinct (map wj_ID (xs @ w # ys))"
    and "nodes (pj_NodeID job) = Some (wj_ID w)" and "wj_RemoteJobExecutionID w = None"
    and "f_handler env" and "\<And>k n. fault (f_store env k n) = NoFault"
  shows "\<exists>w'. aw_WorkflowJobs e' = xs @ w' # ys \<and> ordered env (peerID jm) k job w w'
    \<and> sent = order_message (peerID jm) job w \<and> peerID jm' = peerID jm \<and> aw_WorkflowExecutionID e' = aw_WorkflowExecutionID e
    \<and> aw_Definition e' = aw_Definition e"
proof -
  have w: "workflow_job_of nodes e job = Some w"
    using assms(2,4) row_at_middle [OF assms(3)] by (simp add: workflow_job_of_def)
  note put = put_workflow_job_at [OF assms(2,3)]
  show ?thesis
  proof (cases "pj_ExecutorPeerID job = peerID jm")
    case True
    then show ?thesis using assms(1,2) put w
      by (auto simp: initiate_job_def order_message_def ordered_def same_job_def put_workflow_job_def
          dest!: createLocal_peerID split: prod.splits go_result.splits)
  next
    case False
    then show ?thesis using assms(1,2,5-) put w
      by (auto simp: initiate_job_def order_message_def ordered_def same_job_def sendRemoteJobRequest_def accepted_as_def
          UpdateWorkflowJobRemoteExecutionID_def Let_def put_workflow_job_def
          split: prod.splits go_result.splits if_splits job_reply.splits option.splits)
  qed
qed

lemma initiate_jobs_order:
  "initiate_jobs env nodes k jobs e jm = (False, e', jm', sent) \<Longrightarrow> aw_WorkflowJobs e = xs @ ws \<Longrightarrow> distinct (map wj_ID (xs @ ws)) \<Longrightarrow>
   length ws = length jobs \<Longrightarrow> list_all2 (\<lambda>job w. nodes (pj_NodeID job) = Some (wj_ID w) \<and> wj_RemoteJobExecutionID w = None) jobs ws \<Longrightarrow>
   f_handler env \<Longrightarrow> (\<And>k n. fault (f_store env k n) = NoFault) \<Longrightarrow>
   \<exists>ws'. aw_WorkflowJobs e' = xs @ ws' \<and> length ws' = length ws
     \<and> (\<forall>m<length jobs. ordered env (peerID jm) (k + m) (jobs ! m) (ws ! m) (ws' ! m))
     \<and> sent = concat (map2 (order_message (peerID jm)) jobs ws) \<and> peerID jm' = peerID jm
     \<and> aw_WorkflowExecutionID e' = aw_WorkflowExecutionID e \<and> aw_Definition e' = aw_Definition e"
proof (induction jobs arbitrary: k e jm xs ws sent)
  case (Cons job jobs)
  obtain w rest where ws: "ws = w # rest" using Cons.prems(4) by (cases ws) auto
  obtain e1 jm1 sent1 sent2 where step: "initiate_job env nodes k job e jm = (False, e1, jm1, sent1)"
    "initiate_jobs env nodes (Suc k) jobs e1 jm1 = (False, e', jm', sent2)" "sent = sent1 @ sent2"
    using Cons.prems(1) by (auto split: prod.splits bool.splits)
  have "nodes (pj_NodeID job) = Some (wj_ID w)" "wj_RemoteJobExecutionID w = None"
    using Cons.prems(5) by (simp_all add: ws)
  then obtain w' where w': "aw_WorkflowJobs e1 = xs @ w' # rest" "ordered env (peerID jm) k job w w'"
    "sent1 = order_message (peerID jm) job w" "peerID jm1 = peerID jm"
    "aw_WorkflowExecutionID e1 = aw_WorkflowExecutionID e" "aw_Definition e1 = aw_Definition e"
    using initiate_job_orders [OF step(1), of xs w rest] Cons.prems(2,3,6,7) by (auto simp: ws)
  have id: "wj_ID w' = wj_ID w" using w'(2) by (simp add: ordered_def same_job_def)
  have "\<exists>ws'. aw_WorkflowJobs e' = (xs @ [w']) @ ws' \<and> length ws' = length rest
     \<and> (\<forall>m<length jobs. ordered env (peerID jm1) (Suc k + m) (jobs ! m) (rest ! m) (ws' ! m))
     \<and> sent2 = concat (map2 (order_message (peerID jm1)) jobs rest) \<and> peerID jm' = peerID jm1
     \<and> aw_WorkflowExecutionID e' = aw_WorkflowExecutionID e1 \<and> aw_Definition e' = aw_Definition e1"
    using Cons.prems id w'(1) by (intro Cons.IH [OF step(2)]) (auto simp: ws)
  then obtain ws' where "aw_WorkflowJobs e' = xs @ w' # ws'" "length ws' = length rest"
    "\<forall>m<length jobs. ordered env (peerID jm) (Suc k + m) (jobs ! m) (rest ! m) (ws' ! m)"
    "sent2 = concat (map2 (order_message (peerID jm)) jobs rest)" "peerID jm' = peerID jm"
    "aw_WorkflowExecutionID e' = aw_WorkflowExecutionID e" "aw_Definition e' = aw_Definition e"
    using w'(4-6) by auto
  then show ?case using w'(2,3) step(3)
    by (intro exI [of _ "w' # ws'"]) (auto simp: ws nth_Cons split: nat.splits)
qed simp

text \<open>The workflow jobs of a fault-free phase 1.\<close>

definition new_workflow_job :: "wf_env \<Rightarrow> ActiveWorkflow \<Rightarrow> int \<Rightarrow> ParsedJob \<Rightarrow> WorkflowJob" where
  "new_workflow_job env e i job =
     \<lparr>wj_ID = i, wj_WorkflowExecutionID = aw_WorkflowExecutionID e, wj_WorkflowID = aw_WorkflowID e,
      wj_NodeID = pj_NodeID job, wj_JobName = pj_JobName job, wj_ServiceID = pj_ServiceID job,
      wj_ExecutorPeerID = pj_ExecutorPeerID job, wj_RemoteJobExecutionID = None, wj_Status = ''PENDING'',
      wj_Result = None, wj_Error = [], wj_CreatedAt = f_now env, wj_UpdatedAt = f_now env\<rparr>"

fun created_jobs :: "wf_env \<Rightarrow> ActiveWorkflow \<Rightarrow> int \<Rightarrow> ParsedJob list \<Rightarrow> WorkflowJob list" where
  "created_jobs env e i [] = []"
| "created_jobs env e i (job # jobs) = new_workflow_job env e i job # created_jobs env e (i + 1) jobs"

lemma created_jobs_cong:
  "aw_WorkflowExecutionID e' = aw_WorkflowExecutionID e \<Longrightarrow> aw_WorkflowID e' = aw_WorkflowID e \<Longrightarrow>
   created_jobs env e' i jobs = created_jobs env e i jobs"
  by (induction jobs arbitrary: i) (simp_all add: new_workflow_job_def)

lemma created_jobs_nodes [simp]: "map wj_NodeID (created_jobs env e i jobs) = map pj_NodeID jobs"
  by (induction jobs arbitrary: i) (simp_all add: new_workflow_job_def)

lemma length_created_jobs [simp]: "length (created_jobs env e i jobs) = length jobs"
  by (induction jobs arbitrary: i) simp_all

lemma created_jobs_ids: "w \<in> set (created_jobs env e i jobs) \<Longrightarrow> i \<le> wj_ID w"
  by (induction jobs arbitrary: i) (fastforce simp: new_workflow_job_def)+

lemma distinct_created_jobs: "distinct (map wj_ID (created_jobs env e i jobs))"
  by (induction jobs arbitrary: i) (auto simp: new_workflow_job_def dest!: created_jobs_ids)

lemma created_jobs_fields:
  "list_all2 (\<lambda>job w. wj_NodeID w = pj_NodeID job \<and> wj_ServiceID w = pj_ServiceID job
     \<and> wj_ExecutorPeerID w = pj_ExecutorPeerID job \<and> wj_RemoteJobExecutionID w = None) jobs (created_jobs env e i jobs)"
  by (induction jobs arbitrary: i) (simp_all add: new_workflow_job_def)

lemma create_workflow_jobs_all:
  "create_workflow_jobs env k jobs e db = (False, e', db') \<Longrightarrow> (\<And>k. fault (f_create env k) = NoFault) \<Longrightarrow>
   aw_WorkflowExecutionID e \<in> we_ID ` set (workflow_executions db) \<Longrightarrow> aw_WorkflowID e \<in> set (workflow_ids db) \<Longrightarrow>
   e' = e\<lparr>aw_WorkflowJobs := aw_WorkflowJobs e @ created_jobs env e (wjob_seq db + 1) jobs\<rparr>"
proof (induction jobs arbitrary: k e db)
  case (Cons job jobs)
  let ?i = "wjob_seq db + 1"
  let ?db = "db\<lparr>workflow_jobs := workflow_jobs db @ [new_workflow_job env e ?i job], wjob_seq := ?i\<rparr>"
  let ?e = "e\<lparr>aw_WorkflowJobs := aw_WorkflowJobs e @ [new_workflow_job env e ?i job]\<rparr>"
  have "create_workflow_jobs env (Suc k) jobs ?e ?db = (False, e', db')"
    using Cons.prems by (simp add: CreateWorkflowJob_def new_workflow_job_def Let_def split: if_splits)
  then have "e' = ?e\<lparr>aw_WorkflowJobs := aw_WorkflowJobs ?e @ created_jobs env ?e (wjob_seq ?db + 1) jobs\<rparr>"
    using Cons.prems(2-) by (intro Cons.IH) simp_all
  then show ?case using created_jobs_cong [of ?e e env] by simp
qed simp

lemma node_map_lookup:
  assumes "\<And>ws. mset (f_order env ws) = mset ws" and "distinct (map wj_NodeID (aw_WorkflowJobs e))"
  shows "node_map env e n = map_option wj_ID (row_at wj_NodeID n (aw_WorkflowJobs e))"
proof -
  have fold: "foldl (\<lambda>m w. m(wj_NodeID w \<mapsto> wj_ID w)) m ws n
      = (case row_at wj_NodeID n ws of None \<Rightarrow> m n | Some w \<Rightarrow> Some (wj_ID w))" if "distinct (map wj_NodeID ws)" for ws m
    using that
  proof (induction ws arbitrary: m)
    case (Cons w ws)
    then show ?case using row_at_None_iff [of wj_NodeID n ws] by (cases "wj_NodeID w = n") (auto simp: row_at_def)
  qed (simp add: row_at_def)
  have "distinct (map wj_NodeID (f_order env (aw_WorkflowJobs e)))"
    using assms by (metis mset_eq_imp_distinct_iff mset_map)
  moreover have "row_at wj_NodeID n (f_order env (aw_WorkflowJobs e)) = row_at wj_NodeID n (aw_WorkflowJobs e)"
    using assms by (intro row_at_perm) auto
  ultimately show ?thesis by (simp add: node_map_def fold split: option.splits)
qed

section \<open>Starting the jobs\<close>

definition start_command ::
  "string \<Rightarrow> (int \<rightharpoonup> int) \<Rightarrow> (int \<rightharpoonup> int) \<Rightarrow> ParsedJob \<Rightarrow> WorkflowJob \<Rightarrow> wf_message list" where
  "start_command me nodes jobs job w =
     (case wj_RemoteJobExecutionID w of
        Some j \<Rightarrow> if pj_ExecutorPeerID job = me then []
                  else [StartJob (pj_ExecutorPeerID job) (start_request w j (buildCompleteInterfaces nodes jobs (pj_Interfaces job)))]
      | None \<Rightarrow> [])"

lemma sendStartCommands_messages:
  "sendStartCommands env nodes ids e k jobs jm = (False, jm', sent) \<Longrightarrow> f_handler env \<Longrightarrow>
   list_all2 (\<lambda>job w. workflow_job_of nodes e job = Some w) jobs ws \<Longrightarrow>
   sent = concat (map2 (start_command (peerID jm) nodes ids) jobs ws)"
proof (induction jobs arbitrary: k jm ws sent)
  case (Cons job jobs)
  obtain w rest where ws: "ws = w # rest" "workflow_job_of nodes e job = Some w"
    "list_all2 (\<lambda>job w. workflow_job_of nodes e job = Some w) jobs rest"
    using Cons.prems(3) by (cases ws) auto
  show ?case
  proof (cases "wj_RemoteJobExecutionID w")
    case None
    then show ?thesis using Cons ws by (simp add: start_command_def)
  next
    case (Some j)
    let ?r = "start_request w j (buildCompleteInterfaces nodes ids (pj_Interfaces job))"
    note IH = Cons.IH [OF _ Cons.prems(2) ws(3)]
    show ?thesis
    proof (cases "pj_ExecutorPeerID job = peerID jm")
      case True
      obtain r jm1 where h: "HandleJobStart (f_start env k) ?r (peerID jm) jm = (r, jm1)" by fastforce
      then have p: "peerID jm1 = peerID jm" by (metis peerID_HandleJobStart snd_conv)
      have "sendStartCommands env nodes ids e (Suc k) jobs jm1 = (False, jm', sent)"
        using Cons.prems(1) Some True h ws(2) by (cases r) simp_all
      note sent = IH [OF this]
      show ?thesis by (subst sent) (simp add: p Some True ws(1) start_command_def)
    next
      case False
      then obtain rest' where rest: "sendStartCommands env nodes ids e (Suc k) jobs jm = (False, jm', rest')"
        "sent = StartJob (pj_ExecutorPeerID job) ?r # rest'"
        using Cons.prems(1,2) Some ws(2) by (auto simp: Let_def split: if_splits prod.splits)
      show ?thesis using IH [OF rest(1)] rest(2) False Some ws(1) by (simp add: start_command_def)
    qed
  qed
qed simp

text \<open>With one workflow job per node, the maps of the manager are look-ups by node.\<close>

definition node_wjob :: "WorkflowJob list \<Rightarrow> int \<Rightarrow> int option" where
  "node_wjob ws n = map_option wj_ID (row_at wj_NodeID n ws)"

definition node_execution :: "WorkflowJob list \<Rightarrow> int \<Rightarrow> int option" where
  "node_execution ws n = (case row_at wj_NodeID n ws of None \<Rightarrow> None | Some w \<Rightarrow> wj_RemoteJobExecutionID w)"

lemma node_then_id:
  assumes "distinct (map wj_ID ws)" and "row_at wj_NodeID n ws = Some w"
  shows "row_at wj_ID (wj_ID w) ws = Some w"
proof -
  have "w \<in> set ws" using row_at_SomeD [OF assms(2)] by simp
  then obtain xs ys where "ws = xs @ w # ys" by (meson split_list)
  then show ?thesis using row_at_middle assms(1) by simp
qed

lemma same_jobs_maps:
  assumes "length ws' = length ws" and "\<And>m. m < length ws \<Longrightarrow> same_job (ws ! m) (ws' ! m)"
  shows "map wj_ID ws' = map wj_ID ws" "map wj_NodeID ws' = map wj_NodeID ws"
  using assms by (auto intro!: nth_equalityI simp: same_job_def)

lemma node_wjob_cong: "map wj_ID ws' = map wj_ID ws \<Longrightarrow> map wj_NodeID ws' = map wj_NodeID ws \<Longrightarrow> node_wjob ws' n = node_wjob ws n"
proof (induction ws arbitrary: ws')
  case (Cons w ws)
  then obtain v vs where v: "ws' = v # vs" by (cases ws') auto
  then have "node_wjob vs n = node_wjob ws n" using Cons.prems by (intro Cons.IH) simp_all
  then show ?case using Cons.prems by (simp add: v node_wjob_def row_at_def)
qed simp

lemma row_at_nth: "distinct (map key ws) \<Longrightarrow> m < length ws \<Longrightarrow> row_at key (key (ws ! m)) ws = Some (ws ! m)"
  by (induction ws arbitrary: m) (auto simp: row_at_def nth_Cons split: nat.splits)

lemma node_lookups:
  assumes "distinct (map wj_ID ws)" and "distinct (map wj_NodeID ws)" and "aw_WorkflowJobs e = ws"
  shows "execution_map (node_wjob ws) e = node_execution ws"
    and "m < length ws \<Longrightarrow> pj_NodeID job = wj_NodeID (ws ! m) \<Longrightarrow> workflow_job_of (node_wjob ws) e job = Some (ws ! m)"
proof -
  show "execution_map (node_wjob ws) e = node_execution ws"
    using node_then_id [OF assms(1)] assms(3)
    by (auto simp: execution_map_def node_wjob_def node_execution_def fun_eq_iff split: option.splits)
  show "workflow_job_of (node_wjob ws) e job = Some (ws ! m)" if "m < length ws" "pj_NodeID job = wj_NodeID (ws ! m)"
    using that row_at_nth [OF assms(2) that(1)] node_then_id [OF assms(1)] assms(3)
    by (simp add: workflow_job_of_def node_wjob_def)
qed

lemma order_message_same: "same_job w w' \<Longrightarrow> order_message me job w' = order_message me job w"
  by (simp add: order_message_def same_job_request) (simp add: same_job_def)

text \<open>A run on a working database: one new workflow job per definition, then the orders, then the starts.\<close>

lemma executeWorkflowJobs_phases:
  assumes run: "executeWorkflowJobs env e jm = (False, e', jm', sent)"
    and "aw_WorkflowJobs e = []" and "jobs = wd_Jobs (aw_Definition e)" and "distinct (map pj_NodeID jobs)"
    and order: "\<And>ws. mset (f_order env ws) = mset ws"
    and create: "\<And>k. fault (f_create env k) = NoFault"
    and "aw_WorkflowExecutionID e \<in> we_ID ` set (workflow_executions (jm_db jm))" and "aw_WorkflowID e \<in> set (workflow_ids (jm_db jm))"
  obtains cs e1 db1 jm2 asked started where
    "aw_WorkflowJobs e1 = cs" "distinct (map wj_ID cs)" "map wj_NodeID cs = map pj_NodeID jobs"
    "list_all2 (\<lambda>job w. wj_NodeID w = pj_NodeID job \<and> wj_ServiceID w = pj_ServiceID job
      \<and> wj_ExecutorPeerID w = pj_ExecutorPeerID job \<and> wj_RemoteJobExecutionID w = None) jobs cs"
    "initiate_jobs env (node_wjob cs) 0 jobs e1 (jm\<lparr>jm_db := db1\<rparr>) = (False, e', jm2, asked)"
    "sendStartCommands env (node_wjob cs) (execution_map (node_wjob cs) e') e' 0 jobs jm2 = (False, jm', started)"
    "sent = asked @ started"
proof -
  let ?e = "e\<lparr>aw_Status := ''RUNNING''\<rparr>"
  obtain e1 db1 where c: "create_workflow_jobs env 0 jobs ?e (jm_db jm) = (False, e1, db1)"
    using run assms(3) by (auto simp: executeWorkflowJobs_def Let_def split: prod.splits bool.splits)
  define cs where "cs = created_jobs env ?e (wjob_seq (jm_db jm) + 1) jobs"
  have e1: "e1 = ?e\<lparr>aw_WorkflowJobs := cs\<rparr>"
    using create_workflow_jobs_all [OF c create] assms(2,7,8) by (simp add: cs_def)
  have "node_map env e1 = node_wjob cs"
    using node_map_lookup [of env e1, OF order] assms(4) by (auto simp: e1 cs_def node_wjob_def)
  then obtain jm2 asked started where "initiate_jobs env (node_wjob cs) 0 jobs e1 (jm\<lparr>jm_db := db1\<rparr>) = (False, e', jm2, asked)"
    "sendStartCommands env (node_wjob cs) (execution_map (node_wjob cs) e') e' 0 jobs jm2 = (False, jm', started)" "sent = asked @ started"
    using run c assms(3) by (auto simp: executeWorkflowJobs_def Let_def split: prod.splits bool.splits)
  moreover have "list_all2 (\<lambda>job w. wj_NodeID w = pj_NodeID job \<and> wj_ServiceID w = pj_ServiceID job
      \<and> wj_ExecutorPeerID w = pj_ExecutorPeerID job \<and> wj_RemoteJobExecutionID w = None) jobs cs"
    unfolding cs_def by (rule created_jobs_fields)
  ultimately show thesis using that [of e1 cs] distinct_created_jobs by (simp add: e1 cs_def)
qed

lemma executeWorkflowJobs_messages:
  assumes run: "executeWorkflowJobs env e jm = (False, e', jm', sent)"
    and "aw_WorkflowJobs e = []" and "jobs = wd_Jobs (aw_Definition e)" and "distinct (map pj_NodeID jobs)"
    and order: "\<And>ws. mset (f_order env ws) = mset ws" and "f_handler env"
    and create: "\<And>k. fault (f_create env k) = NoFault" and store: "\<And>k n. fault (f_store env k n) = NoFault"
    and "aw_WorkflowExecutionID e \<in> we_ID ` set (workflow_executions (jm_db jm))" and "aw_WorkflowID e \<in> set (workflow_ids (jm_db jm))"
  shows "\<exists>ws. aw_WorkflowJobs e' = ws \<and> distinct (map wj_ID ws)
    \<and> list_all2 (\<lambda>job w. wj_NodeID w = pj_NodeID job \<and> wj_ServiceID w = pj_ServiceID job \<and> wj_ExecutorPeerID w = pj_ExecutorPeerID job) jobs ws
    \<and> (\<forall>m<length jobs. pj_ExecutorPeerID (jobs ! m) \<noteq> peerID jm \<longrightarrow> wj_RemoteJobExecutionID (ws ! m)
          = accepted_as env m (pj_ExecutorPeerID (jobs ! m)) (job_request (peerID jm) (ws ! m) (jobs ! m)))
    \<and> sent = concat (map2 (order_message (peerID jm)) jobs ws)
        @ concat (map2 (start_command (peerID jm) (node_wjob ws) (node_execution ws)) jobs ws)"
proof -
  let ?me = "peerID jm"
  obtain cs e1 db1 jm2 asked started where
    cs: "aw_WorkflowJobs e1 = cs" "distinct (map wj_ID cs)" "map wj_NodeID cs = map pj_NodeID jobs"
    and fields: "list_all2 (\<lambda>job w. wj_NodeID w = pj_NodeID job \<and> wj_ServiceID w = pj_ServiceID job
      \<and> wj_ExecutorPeerID w = pj_ExecutorPeerID job \<and> wj_RemoteJobExecutionID w = None) jobs cs"
    and i: "initiate_jobs env (node_wjob cs) 0 jobs e1 (jm\<lparr>jm_db := db1\<rparr>) = (False, e', jm2, asked)"
    and st: "sendStartCommands env (node_wjob cs) (execution_map (node_wjob cs) e') e' 0 jobs jm2 = (False, jm', started)"
    and out: "sent = asked @ started"
    by (rule executeWorkflowJobs_phases [OF run assms(2-4) order create assms(9,10)])
  have len: "length cs = length jobs" using fields by (simp add: list_all2_lengthD)
  have cf: "m < length jobs \<Longrightarrow> wj_NodeID (cs ! m) = pj_NodeID (jobs ! m) \<and> wj_ServiceID (cs ! m) = pj_ServiceID (jobs ! m)
      \<and> wj_ExecutorPeerID (cs ! m) = pj_ExecutorPeerID (jobs ! m) \<and> wj_RemoteJobExecutionID (cs ! m) = None" for m
    using fields by (auto dest: list_all2_nthD)
  have "list_all2 (\<lambda>job w. node_wjob cs (pj_NodeID job) = Some (wj_ID w) \<and> wj_RemoteJobExecutionID w = None) jobs cs"
    using row_at_nth [of wj_NodeID cs] cs(3) cf assms(4) len by (auto intro!: list_all2_all_nthI simp: node_wjob_def)
  then obtain ws where ws: "aw_WorkflowJobs e' = ws" "length ws = length jobs" "peerID jm2 = ?me"
    "\<And>m. m < length jobs \<Longrightarrow> ordered env ?me m (jobs ! m) (cs ! m) (ws ! m)"
    "asked = concat (map2 (order_message ?me) jobs cs)"
    using initiate_jobs_order [OF i, of "[]" cs] cs len assms(6) store by auto
  have same: "m < length jobs \<Longrightarrow> same_job (cs ! m) (ws ! m)" for m using ws(4) by (simp add: ordered_def)
  have ids: "map wj_ID ws = map wj_ID cs" "map wj_NodeID ws = map wj_NodeID cs"
    using same_jobs_maps [of ws cs] same ws(2) len by auto
  then have nw: "node_wjob cs = node_wjob ws" using node_wjob_cong by (metis ext)
  have wf: "m < length jobs \<Longrightarrow> wj_NodeID (ws ! m) = pj_NodeID (jobs ! m) \<and> wj_ServiceID (ws ! m) = pj_ServiceID (jobs ! m)
      \<and> wj_ExecutorPeerID (ws ! m) = pj_ExecutorPeerID (jobs ! m)" for m
    using cf same by (simp add: same_job_def)
  have dist: "distinct (map wj_ID ws)" "distinct (map wj_NodeID ws)" using ids cs(2,3) assms(4) by simp_all
  note look = node_lookups [OF dist ws(1)]
  have "list_all2 (\<lambda>job w. workflow_job_of (node_wjob ws) e' job = Some w) jobs ws"
    using look(2) wf ws(2) by (simp add: list_all2_conv_all_nth)
  then have "started = concat (map2 (start_command ?me (node_wjob ws) (node_execution ws)) jobs ws)"
    using sendStartCommands_messages [OF st assms(6), of ws] ws(3) by (simp add: nw look(1))
  moreover have "map2 (order_message ?me) jobs cs = map2 (order_message ?me) jobs ws"
    using ws(2) len by (intro nth_equalityI) (simp_all add: order_message_same [OF same])
  moreover have "\<forall>m<length jobs. pj_ExecutorPeerID (jobs ! m) \<noteq> ?me \<longrightarrow> wj_RemoteJobExecutionID (ws ! m)
      = accepted_as env m (pj_ExecutorPeerID (jobs ! m)) (job_request ?me (ws ! m) (jobs ! m))"
    using ws(4) cf same_job_request [OF same] by (simp add: ordered_def)
  ultimately show ?thesis using dist(1) wf ws(1,2,5) out by (intro exI [of _ ws]) (simp add: list_all2_conv_all_nth)
qed

definition fresh_execution :: "wf_env \<Rightarrow> int \<Rightarrow> int \<Rightarrow> WorkflowDefinition \<Rightarrow> ActiveWorkflow" where
  "fresh_execution env x workflowID def =
     \<lparr>aw_WorkflowExecutionID = x, aw_WorkflowID = workflowID, aw_Definition = def, aw_WorkflowJobs = [], aw_JobExecutions = [],
      aw_CompletedJobs = 0, aw_Status = ''PENDING'', aw_StartedAt = f_now env, aw_CompletedAt = None, aw_ErrorMessage = []\<rparr>"

lemma ExecuteWorkflow_parsed:
  assumes "ExecuteWorkflow env i wm = (Ok x, wm', sent)"
  shows "\<exists>w defs. row_at w_ID i (workflows (wm_design wm)) = Some w \<and> w_Definition w = Some defs"
proof -
  obtain w where "row_at w_ID i (workflows (wm_design wm)) = Some w"
    using assms by (auto simp: ExecuteWorkflow_def GetWorkflowByID_def Let_def split: if_splits option.splits)
  then show ?thesis using assms
    by (cases "w_Definition w") (auto simp: ExecuteWorkflow_def GetWorkflowByID_def parseWorkflowDefinition_def Let_def split: if_splits)
qed

definition parsed :: "string \<Rightarrow> Workflow \<Rightarrow> JobDef list \<Rightarrow> WorkflowDefinition" where
  "parsed me w defs = \<lparr>wd_ID = w_ID w, wd_Name = w_Name w, wd_Description = w_Description w, wd_Jobs = map (parse_job me) defs\<rparr>"

lemma ExecuteWorkflow_run:
  assumes "ExecuteWorkflow env i wm = (Ok x, wm', sent)"
    and w: "row_at w_ID i (workflows (wm_design wm)) = Some w" and defs: "w_Definition w = Some defs"
  shows "\<exists>db2 e jm'. validateWorkflow (peerID (wm_jobs wm)) (f_services env) (jm_db (wm_jobs wm)) (parsed (peerID (wm_jobs wm)) w defs) = Ok ()
     \<and> x \<in> we_ID ` set (workflow_executions db2) \<and> workflow_ids db2 = workflow_ids (jm_db (wm_jobs wm))
     \<and> executeWorkflowJobs env (fresh_execution env x i (parsed (peerID (wm_jobs wm)) w defs)) ((wm_jobs wm)\<lparr>jm_db := db2\<rparr>) = (False, e, jm', sent)
     \<and> wm' = wm\<lparr>wm_jobs := jm', activeWorkflows := AList.update x e (activeWorkflows wm)\<rparr>"
proof -
  let ?jm = "wm_jobs wm" and ?up = "UpdateWorkflowExecutionStatus (f_conns env 2) (f_now env)" and ?def = "parsed (peerID (wm_jobs wm)) w defs"
  have v: "validateWorkflow (peerID ?jm) (f_services env) (jm_db ?jm) ?def = Ok ()"
    using assms w defs by (cases "validateWorkflow (peerID ?jm) (f_services env) (jm_db ?jm) ?def")
      (auto simp: ExecuteWorkflow_def GetWorkflowByID_def parseWorkflowDefinition_def parsed_def Let_def split: if_splits)
  obtain row db1 where row: "CreateWorkflowExecution (f_conns env 1) (f_now env) i (jm_db ?jm) = (Inr row, db1)"
    using assms w defs v by (auto simp: ExecuteWorkflow_def GetWorkflowByID_def parseWorkflowDefinition_def parsed_def Let_def
        split: if_splits prod.splits sum.splits)
  obtain p e jm' where run: "executeWorkflowJobs env (fresh_execution env (we_ID row) i ?def)
      (?jm\<lparr>jm_db := snd (?up (we_ID row) ''RUNNING'' [] db1)\<rparr>) = (p, e, jm', sent)"
    "(if p then Panic else Ok (we_ID row)) = (Ok x :: (wf_error, int) go_result)"
    "wm' = wm\<lparr>wm_jobs := jm', activeWorkflows := AList.update (we_ID row) e (activeWorkflows wm)\<rparr>"
    using assms w defs v row
    by (auto simp: ExecuteWorkflow_def GetWorkflowByID_def parseWorkflowDefinition_def parsed_def fresh_execution_def Let_def
        split: if_splits prod.splits)
  then have x: "\<not> p" "x = we_ID row" by (auto split: if_splits)
  have "we_ID row \<in> we_ID ` set (workflow_executions db1)" "workflow_ids db1 = workflow_ids (jm_db ?jm)"
    using row by (auto simp: CreateWorkflowExecution_def Let_def split: if_splits)
  then have "x \<in> we_ID ` set (workflow_executions (snd (?up (we_ID row) ''RUNNING'' [] db1)))
     \<and> workflow_ids (snd (?up (we_ID row) ''RUNNING'' [] db1)) = workflow_ids (jm_db ?jm)"
    by (auto simp: x(2) UpdateWorkflowExecutionStatus_def set_status_def mark_wexec_def)
  then show ?thesis using v run x by (intro exI [of _ "snd (?up (we_ID row) ''RUNNING'' [] db1)"] exI [of _ e] exI [of _ jm']) simp
qed


text \<open>Data of one peer mounted by a computation of another.\<close>

definition sample_defs :: "JobDef list" where
  "sample_defs =
     [\<lparr>jd_NodeID = 4, jd_Name = ''data'', jd_ServiceID = 1, jd_ServiceType = ''DATA'', jd_ExecutorPeerID = ''provider'',
       jd_Entrypoint = None, jd_Commands = None, jd_ExecutionConstraint = ''NONE'',
       jd_Interfaces = [\<lparr>fd_Type = ''STDOUT'', fd_Path = ''output/'',
         fd_InterfacePeers = [peer_def ''computer'' (Some 9) ''/app'' None ''INPUT'']\<rparr>]\<rparr>,
      \<lparr>jd_NodeID = 9, jd_Name = ''run'', jd_ServiceID = 2, jd_ServiceType = ''DOCKER'', jd_ExecutorPeerID = ''computer'',
       jd_Entrypoint = None, jd_Commands = None, jd_ExecutionConstraint = ''INPUTS_READY'',
       jd_Interfaces = [\<lparr>fd_Type = ''MOUNT'', fd_Path = ''/app'',
         fd_InterfacePeers = [peer_def ''provider'' (Some 4) ''output/'' None ''OUTPUT'']\<rparr>]\<rparr>]"

definition sample_workflow :: Workflow where
  "sample_workflow = \<lparr>w_ID = 1, w_Name = ''w'', w_Description = [], w_Definition = Some sample_defs, w_CreatedAt = 0, w_UpdatedAt = 0\<rparr>"

definition sample_design :: design_db where
  "sample_design = \<lparr>workflows = [sample_workflow], workflow_seq = 1, workflow_nodes = [], node_seq = 0,
     workflow_connections = [], connection_seq = 0\<rparr>"

definition sample_wm :: WorkflowManager where
  "sample_wm = \<lparr>wm_jobs = sample_jm\<lparr>jm_db := (jm_db sample_jm)\<lparr>workflow_ids := [1]\<rparr>\<rparr>, wm_design = sample_design, activeWorkflows = []\<rparr>"

definition sample_wf_env :: wf_env where
  "sample_wf_env =
     \<lparr>f_now = 1000, f_conns = \<lambda>_. good_conn, f_services = \<lambda>_. good_conn, f_create = \<lambda>_. good_conn, f_submit = \<lambda>_. sample_job_env,
      f_store = \<lambda>_ _. good_conn, f_start = \<lambda>_. sample_job_env, f_handler = True,
      f_reply = \<lambda>_ peer _. if peer = ''provider'' then Reply True 41 [] else Reply True 52 [], f_order = rev, f_text = \<lambda>_. []\<rparr>"

lemma sample_lookup: "row_at w_ID 1 (workflows (wm_design sample_wm)) = Some sample_workflow"
  by (simp add: sample_wm_def sample_design_def sample_workflow_def row_at_def)

lemmas sample_wf_defs = sample_wf_env_def sample_wm_def sample_design_def sample_workflow_def sample_defs_def sample_jm_def
  good_conn_def empty_job_db_def

lemma sample_validates:
  "validateWorkflow ''executor'' (\<lambda>_. good_conn) db (parsed ''executor'' sample_workflow sample_defs) = Ok ()"
  by (simp add: validateWorkflow_def parsed_def sample_defs_def check_service_def check_interface_def
      validateDataTransferConstraints_def check_data_job_def check_destination_def parse_job_def parse_interface_def parse_peer_def
      findJobByPeerAndInputPath_def provides_input_def peer_def_def Let_def)

lemma sample_executes: "\<exists>wm' sent. ExecuteWorkflow sample_wf_env 1 sample_wm = (Ok 1, wm', sent)"
proof -
  have v: "validateWorkflow (peerID (wm_jobs sample_wm)) (f_services sample_wf_env) (jm_db (wm_jobs sample_wm))
      (parsed ''executor'' sample_workflow sample_defs) = Ok ()"
    using sample_validates by (simp add: sample_wm_def sample_jm_def sample_wf_env_def)
  have p: "parseWorkflowDefinition (peerID (wm_jobs sample_wm)) sample_workflow = Ok (parsed ''executor'' sample_workflow sample_defs)"
    by (simp add: parseWorkflowDefinition_def parsed_def sample_wm_def sample_jm_def sample_workflow_def slice8_def)
  have g: "GetWorkflowByID (f_conns sample_wf_env 0) 1 (wm_design sample_wm) = Inr sample_workflow"
    using sample_lookup by (simp add: GetWorkflowByID_def sample_wf_env_def good_conn_def)
  show ?thesis
    unfolding ExecuteWorkflow_def Let_def g sum.case p go_result.case v
    by (simp add: executeWorkflowJobs_def parsed_def sample_wf_defs parse_job_def slice8_def CreateWorkflowJob_def
        node_map_def initiate_job_def workflow_job_of_def row_at_def sendRemoteJobRequest_def UpdateWorkflowJobRemoteExecutionID_def
        put_workflow_job_def CreateWorkflowExecution_def UpdateWorkflowExecutionStatus_def set_status_def mark_wexec_def
        wexec_statuses_def Let_def)
qed


end
