(* ===== verification/Workflow_Watch.thy ===== *)
theory Workflow_Watch
  imports Workflow_Runs
begin

text \<open>
  How workflows end: a tick of the status updater finishes exactly the workflows whose jobs have ended,
  with the status their jobs give them.  And how they do not: cancelling a workflow reaches none of its
  jobs, nothing is recovered after a restart, and data for the standard input of a computation on
  another peer is refused.
\<close>

section \<open>Finishing\<close>

definition ended :: "job_db \<Rightarrow> int \<Rightarrow> bool" where
  "ended db i \<longleftrightarrow> (\<forall>w\<in>set (workflow_jobs db). wj_WorkflowExecutionID w = i \<longrightarrow> wj_Status w \<notin> {''PENDING'', ''RUNNING''})"

definition outcome :: "job_db \<Rightarrow> int \<Rightarrow> string" where
  "outcome db i =
     (if \<forall>w\<in>set (workflow_jobs db). wj_WorkflowExecutionID w = i \<longrightarrow> wj_Status w = ''COMPLETED'' then ''COMPLETED'' else ''FAILED'')"

definition wexec_status :: "WorkflowManager \<Rightarrow> int \<Rightarrow> string option" where
  "wexec_status wm i = map_option we_Status (row_at we_ID i (workflow_executions (jm_db (wm_jobs wm))))"

abbreviation wm_db :: "WorkflowManager \<Rightarrow> job_db" where
  "wm_db wm \<equiv> jm_db (wm_jobs wm)"

lemma count_two:
  assumes "\<And>x. x \<in> set xs \<Longrightarrow> \<not> (p x \<and> q x)"
  shows "length (filter p xs) + length (filter q xs) = length xs \<longleftrightarrow> (\<forall>x\<in>set xs. p x \<or> q x)"
proof -
  have "length (filter p xs) + length (filter q xs) = length (filter (\<lambda>x. p x \<or> q x) xs)"
    using assms by (induction xs) auto
  moreover have "length (filter r xs) = length xs \<longleftrightarrow> (\<forall>x\<in>set xs. r x)" for r
    using length_filter_less [of _ xs r] by fastforce
  ultimately show ?thesis by simp
qed

lemma checkWorkflowCompletion_cases:
  assumes "wf_jobs (wm_db wm)" and "fault c_get = NoFault" and "fault c_upd = NoFault" and "aw_WorkflowExecutionID e = i"
  shows "workflow_jobs (wm_db (checkWorkflowCompletion c_get c_upd now e wm)) = workflow_jobs (wm_db wm)"
    and "fst ` set (activeWorkflows (checkWorkflowCompletion c_get c_upd now e wm))
      = (if ended (wm_db wm) i then fst ` set (activeWorkflows wm) - {i} else fst ` set (activeWorkflows wm))"
    and "wexec_status (checkWorkflowCompletion c_get c_upd now e wm) k
      = (if k = i \<and> ended (wm_db wm) i then map_option (\<lambda>_. outcome (wm_db wm) i) (wexec_status wm i) else wexec_status wm k)"
proof -
  let ?ws = "filter (\<lambda>w. wj_WorkflowExecutionID w = i) (workflow_jobs (wm_db wm))"
  define ws where "ws = sort_key wj_CreatedAt ?ws"
  have set: "set ws = {w \<in> set (workflow_jobs (wm_db wm)). wj_WorkflowExecutionID w = i}" by (simp add: ws_def)
  let ?done = "{''ERRORED'', ''CANCELLED'', ''FAILED''}" and ?busy = "{''PENDING'', ''RUNNING'', ''WAITING''}"
  let ?count = "\<lambda>S. length (filter (\<lambda>w. wj_Status w \<in> S) ws)"
  have st: "wj_Status w \<in> set wjob_statuses" if "w \<in> set ws" for w
    using that assms(1) by (auto simp: set wf_jobs_def table_ok_def list_all_iff)
  have "?count {''COMPLETED''} + ?count ?done = length ws \<longleftrightarrow> (\<forall>w\<in>set ws. wj_Status w \<in> {''COMPLETED''} \<or> wj_Status w \<in> ?done)"
    by (rule count_two) auto
  also have "\<dots> \<longleftrightarrow> ended (wm_db wm) i"
    using st by (fastforce simp: ended_def set wjob_statuses_def)
  finally have fin: "?count {''COMPLETED''} + ?count ?done = length ws \<longleftrightarrow> ended (wm_db wm) i" .
  have busy: "?count ?busy = 0" if "ended (wm_db wm) i"
    using that st by (fastforce simp: ended_def set wjob_statuses_def filter_empty_conv)
  have out: "(if 0 < ?count ?done then ''FAILED'' else ''COMPLETED'') = outcome (wm_db wm) i" if "ended (wm_db wm) i"
    using that st by (fastforce simp: outcome_def ended_def set wjob_statuses_def filter_empty_conv)
  have get: "GetWorkflowJobsByExecution c_get i (wm_db wm) = Inr ws"
    using assms(2) by (simp add: GetWorkflowJobsByExecution_def ws_def)
  have res: "checkWorkflowCompletion c_get c_upd now e wm =
      (if ended (wm_db wm) i then
         wm\<lparr>wm_jobs := (wm_jobs wm)\<lparr>jm_db := snd (UpdateWorkflowExecutionStatus c_upd now i (outcome (wm_db wm) i)
              (if 0 < ?count ?done then itoa (int (?count ?done)) @ '' of '' @ itoa (int (length ws)) @ '' jobs failed'' else []) (wm_db wm))\<rparr>,
            activeWorkflows := AList.delete i (activeWorkflows wm)\<rparr>
       else wm)"
    using fin busy out by (simp only: checkWorkflowCompletion_def Let_def assms(4) get sum.case) auto
  have ok: "outcome (wm_db wm) i \<in> set wexec_statuses" by (simp add: outcome_def wexec_statuses_def)
  show "workflow_jobs (wm_db (checkWorkflowCompletion c_get c_upd now e wm)) = workflow_jobs (wm_db wm)"
    by (simp add: res UpdateWorkflowExecutionStatus_def)
  show "fst ` set (activeWorkflows (checkWorkflowCompletion c_get c_upd now e wm))
      = (if ended (wm_db wm) i then fst ` set (activeWorkflows wm) - {i} else fst ` set (activeWorkflows wm))"
    by (auto simp: res AList.delete_eq)
  show "wexec_status (checkWorkflowCompletion c_get c_upd now e wm) k
      = (if k = i \<and> ended (wm_db wm) i then map_option (\<lambda>_. outcome (wm_db wm) i) (wexec_status wm i) else wexec_status wm k)"
    using ok assms(3) by (simp add: res UpdateWorkflowExecutionStatus_def wexec_status_def wexecs.status_at_set option.map_comp o_def)
qed

text \<open>Polling the jobs writes job executions only.\<close>

lemma requestJobStatus_frame:
  assumes "requestJobStatus h now cs reply name job e db = (p, e', db', sent)"
  shows "workflow_jobs db' = workflow_jobs db" "workflow_executions db' = workflow_executions db"
    "aw_WorkflowExecutionID e' = aw_WorkflowExecutionID e"
  using assms by (auto simp: requestJobStatus_def UpdateJobStatus_def Let_def
      split: if_splits sum.splits option.splits status_reply.splits)

lemma requestJobStatus_wf: "requestJobStatus h now cs reply name job e db = (p, e', db', sent) \<Longrightarrow> wf_jobs db \<Longrightarrow> wf_jobs db'"
  using wf_job_step [OF job_step.job_status]
  by (auto simp: requestJobStatus_def Let_def split: if_splits sum.splits option.splits status_reply.splits prod.splits)
    (metis snd_conv)+

lemma poll_jobs_frame:
  "poll_jobs env jobs e db = (p, e', db', sent) \<Longrightarrow> wf_jobs db \<Longrightarrow>
   wf_jobs db' \<and> workflow_jobs db' = workflow_jobs db \<and> workflow_executions db' = workflow_executions db
   \<and> aw_WorkflowExecutionID e' = aw_WorkflowExecutionID e"
proof (induction env jobs e db arbitrary: p e' db' sent rule: poll_jobs.induct)
  case (2 env name job jobs e db)
  obtain q e1 db1 sent1 where r: "requestJobStatus (p_handler env) (p_now env) (p_conns env (aw_WorkflowExecutionID e) name)
      (p_reply env) name job e db = (q, e1, db1, sent1)" by (metis prod_cases4)
  note f = requestJobStatus_frame [OF r] and w = requestJobStatus_wf [OF r "2.prems"(2)]
  show ?case
  proof (cases q)
    case True
    then show ?thesis using "2.prems"(1) r f w by simp
  next
    case False
    then obtain sent2 where "poll_jobs env jobs e1 db1 = (p, e', db', sent2)"
      using "2.prems"(1) r by (auto split: prod.splits)
    then show ?thesis using "2.IH" r False f w by fastforce
  qed
qed simp

lemma checkWorkflowCompletion_wf: "wf_jobs (wm_db wm) \<Longrightarrow> wf_jobs (wm_db (checkWorkflowCompletion c c' now e wm))"
  using wf_job_step [OF job_step.wexec_status]
  by (auto simp: checkWorkflowCompletion_def Let_def split: sum.splits)

lemma poll_workflows_ends:
  "poll_workflows env es wm = (False, wm', sent) \<Longrightarrow> wf_jobs (wm_db wm) \<Longrightarrow> (\<And>i n. fault (p_check env i n) = NoFault) \<Longrightarrow>
   distinct (map fst es) \<Longrightarrow> fst ` set es \<subseteq> fst ` set (activeWorkflows wm) \<Longrightarrow> (\<forall>(i, e)\<in>set es. aw_WorkflowExecutionID e = i) \<Longrightarrow>
   workflow_jobs (wm_db wm') = workflow_jobs (wm_db wm)
   \<and> fst ` set (activeWorkflows wm') = fst ` set (activeWorkflows wm) - {i \<in> fst ` set es. ended (wm_db wm) i}
   \<and> (\<forall>k. wexec_status wm' k = (if k \<in> fst ` set es \<and> ended (wm_db wm) k
        then map_option (\<lambda>_. outcome (wm_db wm) k) (wexec_status wm k) else wexec_status wm k))"
proof (induction es arbitrary: wm sent)
  case (Cons ie es)
  obtain i e where ie: "ie = (i, e)" by (cases ie)
  obtain q e1 db1 sent1 where poll: "poll_jobs env (p_jobs env (aw_JobExecutions e)) e (wm_db wm) = (q, e1, db1, sent1)"
    by (metis prod_cases4)
  note f = poll_jobs_frame [OF poll Cons.prems(2)]
  define wm1 where "wm1 = wm\<lparr>wm_jobs := (wm_jobs wm)\<lparr>jm_db := db1\<rparr>, activeWorkflows := AList.update i e1 (activeWorkflows wm)\<rparr>"
  define wm2 where "wm2 = checkWorkflowCompletion (p_check env i 0) (p_check env i 1) (p_now env) e1 wm1"
  obtain sent2 where rest: "poll_workflows env es wm2 = (False, wm', sent2)"
    using Cons.prems(1) poll by (auto simp: ie wm1_def wm2_def Let_def split: if_splits prod.splits)
  have wm1: "wf_jobs (wm_db wm1)" "workflow_jobs (wm_db wm1) = workflow_jobs (wm_db wm)"
    "fst ` set (activeWorkflows wm1) = fst ` set (activeWorkflows wm)" "wexec_status wm1 = wexec_status wm"
    using f Cons.prems(5) by (auto simp: wm1_def ie AList.dom_update wexec_status_def)
  have "aw_WorkflowExecutionID e1 = i" using f Cons.prems(6) by (simp add: ie)
  note c = checkWorkflowCompletion_cases [OF wm1(1) Cons.prems(3) Cons.prems(3) this, of i 0 i 1 "p_now env", folded wm2_def]
  have e: "ended (wm_db wm2) = ended (wm_db wm)" "outcome (wm_db wm2) = outcome (wm_db wm)"
    "ended (wm_db wm1) = ended (wm_db wm)" "outcome (wm_db wm1) = outcome (wm_db wm)"
    using c(1) wm1(2) by (simp_all add: fun_eq_iff ended_def outcome_def)
  have "workflow_jobs (wm_db wm') = workflow_jobs (wm_db wm2)
   \<and> fst ` set (activeWorkflows wm') = fst ` set (activeWorkflows wm2) - {i \<in> fst ` set es. ended (wm_db wm2) i}
   \<and> (\<forall>k. wexec_status wm' k = (if k \<in> fst ` set es \<and> ended (wm_db wm2) k
        then map_option (\<lambda>_. outcome (wm_db wm2) k) (wexec_status wm2 k) else wexec_status wm2 k))"
  proof (rule Cons.IH [OF rest])
    show "wf_jobs (wm_db wm2)" unfolding wm2_def by (rule checkWorkflowCompletion_wf [OF wm1(1)])
    have "fst ` set es \<subseteq> fst ` set (activeWorkflows wm) - {i}"
      using Cons.prems(4,5) by (simp add: ie) blast
    then show "fst ` set es \<subseteq> fst ` set (activeWorkflows wm2)" using c(2) wm1(3) by auto
  qed (use Cons.prems(3,4,6) in \<open>auto simp: ie\<close>)
  moreover have "i \<notin> fst ` set es" using Cons.prems(4) by (simp add: ie)
  ultimately show ?case using c wm1 unfolding e by (auto simp: ie)
qed simp

text \<open>
  C32. Workflows end with their jobs.  One tick of the status updater on a working database removes from the
  active workflows exactly those none of whose workflow jobs is pending or running any more, and records
  them as completed when all of their jobs completed and as failed otherwise; all others stay active and keep
  their status.  In particular a workflow whose jobs have ended is finished by the next tick, whatever the peers answer.
\<close>

theorem workflows_end_with_their_jobs:
  assumes "updateActiveWorkflowStatuses env wm = (False, wm', sent)" and "wf_jobs (jm_db (wm_jobs wm))"
    and "\<And>i n. fault (p_check env i n) = NoFault" and "\<And>es. mset (p_active env es) = mset es"
    and "distinct (map fst (activeWorkflows wm))" and "list_all (\<lambda>(i, e). aw_WorkflowExecutionID e = i) (activeWorkflows wm)"
    and "jobs = (\<lambda>i. filter (\<lambda>w. wj_WorkflowExecutionID w = i) (workflow_jobs (jm_db (wm_jobs wm))))"
  shows "fst ` set (activeWorkflows wm')
      = {i \<in> fst ` set (activeWorkflows wm). \<exists>w\<in>set (jobs i). wj_Status w \<in> {''PENDING'', ''RUNNING''}}
    \<and> workflow_jobs (jm_db (wm_jobs wm')) = workflow_jobs (jm_db (wm_jobs wm))
    \<and> (\<forall>i. wexec_status wm' i =
        (if i \<in> fst ` set (activeWorkflows wm) \<and> (\<forall>w\<in>set (jobs i). wj_Status w \<notin> {''PENDING'', ''RUNNING''})
         then map_option (\<lambda>_. if \<forall>w\<in>set (jobs i). wj_Status w = ''COMPLETED'' then ''COMPLETED'' else ''FAILED'') (wexec_status wm i)
         else wexec_status wm i))"
proof -
  let ?es = "p_active env (activeWorkflows wm)"
  have es: "set ?es = set (activeWorkflows wm)" "distinct (map fst ?es)"
    using assms(4) [of "activeWorkflows wm"] assms(5) by (metis mset_eq_setD, metis mset_eq_imp_distinct_iff mset_map)
  have "workflow_jobs (wm_db wm') = workflow_jobs (wm_db wm)
   \<and> fst ` set (activeWorkflows wm') = fst ` set (activeWorkflows wm) - {i \<in> fst ` set ?es. ended (wm_db wm) i}
   \<and> (\<forall>k. wexec_status wm' k = (if k \<in> fst ` set ?es \<and> ended (wm_db wm) k
        then map_option (\<lambda>_. outcome (wm_db wm) k) (wexec_status wm k) else wexec_status wm k))"
    by (rule poll_workflows_ends [OF _ assms(2,3)])
      (use assms(1,6) es in \<open>auto simp: updateActiveWorkflowStatuses_def list_all_iff\<close>)
  moreover have "ended (wm_db wm) i \<longleftrightarrow> (\<forall>w\<in>set (jobs i). wj_Status w \<notin> {''PENDING'', ''RUNNING''})"
    "outcome (wm_db wm) i = (if \<forall>w\<in>set (jobs i). wj_Status w = ''COMPLETED'' then ''COMPLETED'' else ''FAILED'')" for i
    by (auto simp: ended_def outcome_def assms(7))
  ultimately show ?thesis unfolding es(1) by auto
qed

text \<open>A workflow one of whose two jobs failed.\<close>

definition sample_ended :: WorkflowManager where
  "sample_ended =
     (let e = fresh_execution sample_wf_env 1 1 (parsed ''executor'' sample_workflow sample_defs);
          job = (\<lambda>i s. (new_workflow_job sample_wf_env e i (parse_job ''executor'' (sample_defs ! 0)))\<lparr>wj_Status := s\<rparr>)
      in sample_wm\<lparr>wm_jobs := sample_jm\<lparr>jm_db := (jm_db sample_jm)
            \<lparr>workflow_ids := [1], wexec_seq := 1, wjob_seq := 2,
             workflow_executions := [\<lparr>we_ID = 1, we_WorkflowID = 1, we_Status = ''RUNNING'', we_Error = [], we_StartedAt = 0,
                we_CompletedAt = None, we_CreatedAt = 0, we_UpdatedAt = 0\<rparr>],
             workflow_jobs := [job 1 ''COMPLETED'', job 2 ''ERRORED'']\<rparr>\<rparr>,
          activeWorkflows := [(1, e)]\<rparr>)"

definition quiet_poll :: poll_env where
  "quiet_poll = \<lparr>p_now = 2000, p_handler = True, p_conns = \<lambda>_ _ _. good_conn, p_check = \<lambda>_ _. good_conn,
     p_reply = \<lambda>_ _ _. StatusFails, p_jobs = rev, p_active = rev\<rparr>"

theorem workflows_end_with_their_jobs_witness:
  "\<exists>wm' sent. updateActiveWorkflowStatuses quiet_poll sample_ended = (False, wm', sent)
     \<and> fst ` set (activeWorkflows wm') = {} \<and> wexec_status wm' 1 = Some ''FAILED''"
proof -
  let ?jobs = "\<lambda>i. filter (\<lambda>w. wj_WorkflowExecutionID w = i) (workflow_jobs (jm_db (wm_jobs sample_ended)))"
  obtain wm' sent where run: "updateActiveWorkflowStatuses quiet_poll sample_ended = (False, wm', sent)"
    by (simp add: updateActiveWorkflowStatuses_def quiet_poll_def sample_ended_def fresh_execution_def Let_def)
  have wf: "wf_jobs (jm_db (wm_jobs sample_ended))"
    using sample_wf(1) by (simp add: sample_ended_def wf_jobs_def Let_def table_ok_def new_workflow_job_def wjob_statuses_def wexec_statuses_def)
  have h: "\<And>i n. fault (p_check quiet_poll i n) = NoFault" "\<And>es. mset (p_active quiet_poll es) = mset es"
    "distinct (map fst (activeWorkflows sample_ended))" "list_all (\<lambda>(i, e). aw_WorkflowExecutionID e = i) (activeWorkflows sample_ended)"
    by (simp_all add: quiet_poll_def good_conn_def sample_ended_def fresh_execution_def Let_def)
  have jobs: "\<forall>w\<in>set (?jobs 1). wj_Status w \<notin> {''PENDING'', ''RUNNING''}" "\<not> (\<forall>w\<in>set (?jobs 1). wj_Status w = ''COMPLETED'')"
    "wexec_status sample_ended 1 = Some ''RUNNING''" "fst ` set (activeWorkflows sample_ended) = {1}"
    by (simp_all add: sample_ended_def fresh_execution_def new_workflow_job_def wexec_status_def row_at_def Let_def)
  note r = workflows_end_with_their_jobs [OF run wf h refl]
  have "fst ` set (activeWorkflows wm') = {}" by (subst conjunct1 [OF r], unfold jobs(4)) (use jobs(1) in auto)
  moreover have "wexec_status wm' 1 = Some ''FAILED''"
    using spec [OF conjunct2 [OF conjunct2 [OF r]], of 1] jobs(2)
    by (simp only: jobs(3,4) if_P [OF jobs(1)] simp_thms insertI1 if_True if_False option.map)
  ultimately show ?thesis using run by blast
qed

section \<open>Cancelling\<close>

definition cached_idle :: "ActiveWorkflow \<Rightarrow> bool" where
  "cached_idle e \<longleftrightarrow> list_all (\<lambda>(_, j). je_Status j = ''IDLE'') (aw_JobExecutions e)"

lemma list_all_update: "list_all (\<lambda>(_, x). P x) al \<Longrightarrow> P v \<Longrightarrow> list_all (\<lambda>(_, x). P x) (AList.update k v al)"
  by (induction al) auto

lemma submitted_idle: "createLocalJobExecution env w job jm = (Ok j, jm') \<Longrightarrow> je_Status j = ''IDLE''"
  by (auto simp: createLocalJobExecution_def SubmitJobWithOptions_def CreateJobExecution_def new_job_row_def Let_def
      split: go_result.splits sum.splits prod.splits if_splits)

lemma initiate_job_idle: "initiate_job env nodes k job e jm = (p, e', r) \<Longrightarrow> cached_idle e \<Longrightarrow> cached_idle e'"
  by (auto simp: initiate_job_def cached_idle_def put_workflow_job_def Let_def intro!: list_all_update dest: submitted_idle
      split: option.splits if_splits prod.splits go_result.splits)

lemma initiate_jobs_idle: "initiate_jobs env nodes k jobs e jm = (p, e', r) \<Longrightarrow> cached_idle e \<Longrightarrow> cached_idle e'"
proof (induction jobs arbitrary: k e jm r)
  case (Cons job jobs)
  obtain q e1 jm1 s where i: "initiate_job env nodes k job e jm = (q, e1, jm1, s)" by (metis prod_cases4)
  show ?case
    using Cons.prems i Cons.IH initiate_job_idle [OF i Cons.prems(2)] by (cases q) (fastforce split: prod.splits)+
qed simp

lemma create_workflow_jobs_cache: "create_workflow_jobs env k jobs e db = (p, e', db') \<Longrightarrow> aw_JobExecutions e' = aw_JobExecutions e"
  by (induction jobs arbitrary: k e db) (fastforce split: if_splits prod.splits sum.splits)+

lemma executeWorkflowJobs_idle: "executeWorkflowJobs env e jm = (p, e', r) \<Longrightarrow> cached_idle e \<Longrightarrow> cached_idle e'"
  by (auto simp: executeWorkflowJobs_def cached_idle_def Let_def split: prod.splits bool.splits
      dest!: create_workflow_jobs_cache initiate_jobs_idle)

lemma cancel_idle: "list_all (\<lambda>j. je_Status j = ''IDLE'') js \<Longrightarrow> cancel_jobs envs k js jm = jm"
  by (induction js arbitrary: k) simp_all

text \<open>Ticks of the status updater in which no executor answers.\<close>

inductive unanswered :: "WorkflowManager \<Rightarrow> WorkflowManager \<Rightarrow> bool" where
  none: "unanswered wm wm"
| tick: "unanswered wm wm1 \<Longrightarrow> (\<forall>p q w. p_reply env p q w = StatusFails) \<Longrightarrow>
    (\<forall>es. set (p_active env es) = set es) \<Longrightarrow> updateActiveWorkflowStatuses env wm1 = (False, wm2, sent) \<Longrightarrow> unanswered wm wm2"

lemma poll_jobs_unanswered:
  "poll_jobs env jobs e db = (p, e', db', sent) \<Longrightarrow> (\<forall>p q w. p_reply env p q w = StatusFails) \<Longrightarrow> e' = e \<and> db' = db"
proof (induction env jobs e db arbitrary: p e' db' sent rule: poll_jobs.induct)
  case (2 env name job jobs e db)
  obtain q e1 db1 s where r: "requestJobStatus (p_handler env) (p_now env) (p_conns env (aw_WorkflowExecutionID e) name)
      (p_reply env) name job e db = (q, e1, db1, s)" by (metis prod_cases4)
  then have "e1 = e" "db1 = db" using "2.prems"(2) by (auto simp: requestJobStatus_def Let_def split: if_splits)
  note same = this
  show ?case
  proof (cases q)
    case True
    then show ?thesis using "2.prems"(1) r same by simp
  next
    case False
    then obtain s2 where "poll_jobs env jobs e1 db1 = (p, e', db', s2)" using "2.prems"(1) r by (auto split: prod.splits)
    then show ?thesis using "2.IH" r False same "2.prems"(2) by fastforce
  qed
qed simp

definition idle_workflow :: "WorkflowManager \<Rightarrow> int \<Rightarrow> bool" where
  "idle_workflow wm x \<longleftrightarrow> (\<forall>e. map_of (activeWorkflows wm) x = Some e \<longrightarrow> cached_idle e)"

lemma check_active:
  "map_of (activeWorkflows (checkWorkflowCompletion c c' now e wm)) x = Some e' \<Longrightarrow> map_of (activeWorkflows wm) x = Some e'"
  by (auto simp: checkWorkflowCompletion_def AList.delete_conv' Let_def split: sum.splits if_splits)

lemma poll_workflows_idle:
  "poll_workflows env es wm = (False, wm', sent) \<Longrightarrow> (\<forall>p q w. p_reply env p q w = StatusFails) \<Longrightarrow>
   \<forall>(i, e)\<in>set es. i = x \<longrightarrow> cached_idle e \<Longrightarrow> idle_workflow wm x \<Longrightarrow> idle_workflow wm' x"
proof (induction es arbitrary: wm sent)
  case (Cons ie es)
  obtain i e where ie: "ie = (i, e)" by (cases ie)
  obtain q e1 db1 s where poll: "poll_jobs env (p_jobs env (aw_JobExecutions e)) e (wm_db wm) = (q, e1, db1, s)" by (metis prod_cases4)
  have same: "e1 = e" "db1 = wm_db wm" using poll_jobs_unanswered [OF poll Cons.prems(2)] by simp_all
  let ?wm1 = "wm\<lparr>wm_jobs := (wm_jobs wm)\<lparr>jm_db := db1\<rparr>, activeWorkflows := AList.update i e (activeWorkflows wm)\<rparr>"
  obtain s2 where rest: "poll_workflows env es (checkWorkflowCompletion (p_check env i 0) (p_check env i 1) (p_now env) e ?wm1) = (False, wm', s2)"
    using Cons.prems(1) poll by (auto simp: ie same Let_def split: if_splits prod.splits)
  have "idle_workflow ?wm1 x" using Cons.prems(3,4) by (auto simp: idle_workflow_def AList.update_conv' ie)
  then have "idle_workflow (checkWorkflowCompletion (p_check env i 0) (p_check env i 1) (p_now env) e ?wm1) x"
    unfolding idle_workflow_def using check_active by blast
  then show ?case using Cons.IH [OF rest Cons.prems(2)] Cons.prems(3) by simp
qed simp

lemma poll_workflows_distinct:
  "poll_workflows env es wm = (p, wm', sent) \<Longrightarrow> distinct (map fst (activeWorkflows wm)) \<Longrightarrow> distinct (map fst (activeWorkflows wm'))"
proof (induction es arbitrary: wm sent)
  case (Cons ie es)
  obtain i e where ie: "ie = (i, e)" by (cases ie)
  have "distinct (map fst (activeWorkflows (checkWorkflowCompletion c c' now e' wm)))"
    if "distinct (map fst (activeWorkflows wm))" for c c' now e' wm
    using that by (auto simp: checkWorkflowCompletion_def AList.distinct_delete Let_def split: sum.splits)
  then show ?case using Cons by (auto simp: ie Let_def AList.distinct_update split: if_splits prod.splits)
qed simp

text \<open>
  C34. Cancelling a workflow reaches none of its jobs.  The manager remembers the local jobs of a workflow as
  they were created, idle, and refreshes them only from answers to status requests; it cancels those remembered as ready or running.
  As long as no status request is answered, cancelling an executed workflow therefore reports
  success and changes nothing: no job is cancelled, local or remote, and the workflow stays active.
\<close>

theorem cancel_reaches_no_job:
  assumes "ExecuteWorkflow env i wm = (Ok x, wm1, sent)" and "unanswered wm1 wm2" and "distinct (map fst (activeWorkflows wm1))" and "\<And>js. set (order js) = set js"
  shows "CancelWorkflow envs order x wm2 = (x \<in> fst ` set (activeWorkflows wm2), wm2)"
proof -
  obtain e where e: "map_of (activeWorkflows wm1) x = Some e" "cached_idle e"
  proof -
    obtain w defs where w: "row_at w_ID i (workflows (wm_design wm)) = Some w" "w_Definition w = Some defs"
      using ExecuteWorkflow_parsed [OF assms(1)] by blast
    obtain db2 e jm' where run: "executeWorkflowJobs env (fresh_execution env x i (parsed (peerID (wm_jobs wm)) w defs))
        ((wm_jobs wm)\<lparr>jm_db := db2\<rparr>) = (False, e, jm', sent)"
      "wm1 = wm\<lparr>wm_jobs := jm', activeWorkflows := AList.update x e (activeWorkflows wm)\<rparr>"
      using ExecuteWorkflow_run [OF assms(1) w] by blast
    show thesis using that [of e] executeWorkflowJobs_idle [OF run(1)] run(2)
      by (simp add: fresh_execution_def cached_idle_def AList.update_conv')
  qed
  have "distinct (map fst (activeWorkflows wm2)) \<and> idle_workflow wm2 x"
    using assms(2,3) e
  proof (induction rule: unanswered.induct)
    case (none wm)
    then show ?case by (simp add: idle_workflow_def)
  next
    case (tick wm wm1 env wm2 sent)
    then have d: "distinct (map fst (activeWorkflows wm1))" "idle_workflow wm1 x" by auto
    have "distinct (map fst (activeWorkflows wm2))"
      using tick.hyps(4) d(1) poll_workflows_distinct unfolding updateActiveWorkflowStatuses_def by blast
    moreover have "idle_workflow wm2 x"
      using tick.hyps(2-4) d
      by (intro poll_workflows_idle [of env "p_active env (activeWorkflows wm1)" wm1 wm2 sent])
        (auto simp: updateActiveWorkflowStatuses_def idle_workflow_def)
    ultimately show ?case by simp
  qed
  then have untouched: "cancel_jobs envs 0 (order (map snd (aw_JobExecutions e'))) jm = jm" if "map_of (activeWorkflows wm2) x = Some e'" for e' jm
    using that assms(4) by (intro cancel_idle) (auto simp: idle_workflow_def cached_idle_def list_all_iff)
  show ?thesis
  proof (cases "map_of (activeWorkflows wm2) x")
    case None
    then have "x \<notin> fst ` set (activeWorkflows wm2)" by (simp add: map_of_eq_None_iff)
    then show ?thesis by (simp add: CancelWorkflow_def None)
  next
    case (Some e')
    then have "x \<in> fst ` set (activeWorkflows wm2)" by (force dest: map_of_SomeD)
    moreover have "cancel_jobs envs 0 (order (map snd (aw_JobExecutions e'))) (wm_jobs wm2) = wm_jobs wm2" by (rule untouched [OF Some])
    ultimately show ?thesis by (simp add: CancelWorkflow_def Some)
  qed
qed

text \<open>A workflow with one local job: it is ready to run, and cancelling leaves it so.\<close>

definition local_workflow :: Workflow where
  "local_workflow = sample_workflow\<lparr>w_Definition := Some [(sample_defs ! 0)\<lparr>jd_ExecutorPeerID := ''executor'',
     jd_Interfaces := [\<lparr>fd_Type = ''STDOUT'', fd_Path = ''output/'', fd_InterfacePeers = []\<rparr>]\<rparr>]\<rparr>"

definition local_wm :: WorkflowManager where
  "local_wm = sample_wm\<lparr>wm_design := sample_design\<lparr>workflows := [local_workflow]\<rparr>\<rparr>"

lemma local_executes:
  "\<exists>wm1. ExecuteWorkflow sample_wf_env 1 local_wm = (Ok 1, wm1, []) \<and> job_status (wm_jobs wm1) 1 = Some ''READY''
     \<and> map fst (activeWorkflows wm1) = [1]"
  by (simp add: ExecuteWorkflow_def local_wm_def local_workflow_def sample_wf_defs GetWorkflowByID_def row_at_def
      parseWorkflowDefinition_def validateWorkflow_def check_service_def check_interface_def GetService_def sample_service_def
      service_readable_def validateDataTransferConstraints_def check_data_job_def parse_job_def parse_interface_def slice8_def
      CreateWorkflowExecution_def UpdateWorkflowExecutionStatus_def set_status_def mark_wexec_def wexec_statuses_def
      executeWorkflowJobs_def CreateWorkflowJob_def node_map_def initiate_job_def workflow_job_of_def createLocalJobExecution_def
      job_request_def SubmitJobWithOptions_def submit_checks_def GetWorkflowJobByID_def sample_job_env_def CreateJobExecution_def
      new_job_row_def job_statuses_def UpdateWorkflowJobRemoteExecutionID_def put_workflow_job_def execution_map_def
      start_request_def buildCompleteInterfaces_def HandleJobStart_def GetJobExecution_def those_all_def CreateJobInterfaces_def
      CreateJobInterface_def interface_types_def checkOutputDestinationsReady_def GetJobInterfaces_def GetJobInterfacePeers_def
      set_job_status_def UpdateJobStatus_def mark_job_def MarkJobStartReceived_def job_status_def Let_def)

theorem cancel_reaches_no_job_witness:
  "\<exists>wm1. ExecuteWorkflow sample_wf_env 1 local_wm = (Ok 1, wm1, []) \<and> job_status (wm_jobs wm1) 1 = Some ''READY''
     \<and> CancelWorkflow (\<lambda>_. sample_job_env) rev 1 wm1 = (True, wm1)"
proof -
  obtain wm1 where run: "ExecuteWorkflow sample_wf_env 1 local_wm = (Ok 1, wm1, [])" "job_status (wm_jobs wm1) 1 = Some ''READY''"
    "map fst (activeWorkflows wm1) = [1]" using local_executes by (elim exE conjE) (rule that)
  have "fst ` set (activeWorkflows wm1) = {1}" using arg_cong [OF run(3), of set] by simp
  then have "distinct (map fst (activeWorkflows wm1))" "1 \<in> fst ` set (activeWorkflows wm1)" using run(3) by (simp_all del: set_map)
  then show ?thesis using cancel_reaches_no_job [OF run(1) unanswered.none, of rev "\<lambda>_. sample_job_env"] run(1,2) by auto
qed

section \<open>Recovery\<close>

text \<open>The statuses of workflow jobs are written in capitals, the recovery asks for \<open>running\<close>: it finds nothing.\<close>

lemma nothing_is_recovered:
  "wf_jobs (wm_db wm) \<Longrightarrow> recoverRunningWorkflows c cs now scans wm = (False, wm)"
proof -
  assume wf: "wf_jobs (wm_db wm)"
  have "wj_Status w \<noteq> ''running''" if "w \<in> set (workflow_jobs (wm_db wm))" for w
    using wf that by (auto simp: wf_jobs_def table_ok_def list_all_iff wjob_statuses_def)
  then have "filter (\<lambda>w. wj_Status w = ''running'') (workflow_jobs (wm_db wm)) = []" by (simp add: filter_empty_conv)
  then show ?thesis by (simp add: recoverRunningWorkflows_def)
qed

section \<open>Data for a computation elsewhere\<close>

lemma validated_destinations:
  assumes "validateWorkflow me cs db def = Ok ()" and "job \<in> set (wd_Jobs def)" and "pj_ServiceType job = ''DATA''"
    and "f \<in> set (pj_Interfaces job)" and "ri_Type f = ''STDOUT''" and "p \<in> set (InterfacePeers f)"
    and "ip_PeerMountFunction p = ''INPUT''" and "ip_PeerID p \<noteq> me"
  shows "\<exists>dest\<in>set (wd_Jobs def). pj_ExecutorPeerID dest = ip_PeerID p
    \<and> (\<exists>g\<in>set (pj_Interfaces dest). provides_input (ip_PeerPath p) g) \<and> pj_ServiceType dest \<in> {''DOCKER'', ''STANDALONE''}"
proof -
  have "check_data_job me (wd_Jobs def) job = Ok ()"
    using assms(1,2) by (auto simp: validateWorkflow_def validateDataTransferConstraints_def first_problem_ok split: if_splits)
  then have "check_destination me (wd_Jobs def) job p = Ok ()"
    using assms(3-6) by (auto simp: check_data_job_def first_problem_ok Let_def filter_empty_conv split: if_splits)
  then obtain dest where d: "findJobByPeerAndInputPath (wd_Jobs def) (ip_PeerID p) (ip_PeerPath p) = Some dest"
    "pj_ServiceType dest \<in> {''DOCKER'', ''STANDALONE''}"
    using assms(7,8) by (auto simp: check_destination_def split: option.splits if_splits)
  then show ?thesis by (auto simp: findJobByPeerAndInputPath_def find_Some_iff list_ex_iff)
qed

text \<open>The peers a parsed interface waits for are those of the definition.\<close>

lemma provided_by_route:
  assumes "g \<in> set (pj_Interfaces (parse_job me j))" and "provides_input path g"
  shows "\<exists>q p. (ri_Type g, q, p) \<in> set (routes (jd_Interfaces j)) \<and> ri_Path g = q \<and> pd_PeerMountFunction p = ''OUTPUT''
    \<and> (pd_PeerPath p = path \<or> ri_Type g = ''MOUNT'' \<and> q = path)"
proof -
  obtain f where f: "f \<in> set (jd_Interfaces j)" "g = parse_interface me f" using assms(1) by auto
  obtain p where p: "p \<in> set (fd_InterfacePeers f)" "pd_PeerMountFunction p = ''OUTPUT''"
    "pd_PeerPath p = path \<or> fd_Type f = ''MOUNT'' \<and> fd_Path f = path"
    using assms(2) by (auto simp: f(2) provides_input_def list_ex_iff parse_interface_def parse_peer_def)
  have "(fd_Type f, fd_Path f, p) \<in> set (routes (jd_Interfaces j))" using f(1) p(1) by (auto simp: routes_def)
  then show ?thesis using p(2,3) by (auto simp: f(2) parse_interface_def)
qed

lemma output_routes:
  assumes "(t, q, p) \<in> set (design_routes me nodes xs node)" and "pd_PeerMountFunction p = ''OUTPUT''"
  shows "q = path_or ''input/'' node t \<and> (pd_PeerPath p = ''output/'' \<or> (\<exists>n\<in>set nodes. \<exists>s. pd_PeerPath p = path_or ''output/'' n s))"
  using assms by (auto simp: design_routes_def destination_peer_def source_peer_def peer_def_def
      eq_commute [of "Some _" "map_option _ _"] dest!: node_at_mem split: if_splits option.splits) blast

lemma output_routes_enter:
  assumes "(t, q, p) \<in> set (design_routes me nodes xs node)" and "pd_PeerMountFunction p = ''OUTPUT''"
  shows "t \<in> ToInterfaceType ` set xs"
  using assms by (auto simp: design_routes_def destination_peer_def peer_def_def eq_commute [of "Some _" "map_option _ _"]
      split: if_splits option.splits)

lemma route_is_parsed:
  assumes "(t, q, p) \<in> set (routes (jd_Interfaces j))"
  shows "\<exists>f\<in>set (pj_Interfaces (parse_job me j)). ri_Type f = t \<and> ri_Path f = q \<and> parse_peer me p \<in> set (InterfacePeers f)"
  using assms by (auto simp: routes_def parse_job_def parse_interface_def)


text \<open>The drawing with a data node here and a container on another peer.\<close>

definition drawing_wm :: WorkflowManager where
  "drawing_wm = sample_wm\<lparr>wm_design := drawing\<rparr>"


end
