(* ===== verification/Relay_Store.thy ===== *)
theory Relay_Store
  imports Payment_Store
begin

text \<open>
  The tables of the relay (\<open>internal/database/relay.go\<close>): the log of relayed traffic, the relays a peer
  prefers, the messages kept for peers that are offline, and how much is kept for each of them.  The
  columns for limits of a single peer are never written and read as 0.  Sums stay within \<open>int64\<close>.
\<close>

section \<open>Rows\<close>

record TrafficRow =
  tr_SessionID :: string
  tr_PeerID :: string
  tr_RelayNodeID :: string
  tr_TrafficType :: string
  tr_IngressBytes :: int
  tr_EgressBytes :: int
  tr_StartTime :: int
  tr_EndTime :: "int option"
  BillingStatus :: string

record PeerPreference =
  pp_PeerID :: string
  PreferredRelayPeerID :: "string option"
  LastUsedRelayPeerID :: "string option"
  pp_UpdatedAt :: int

record PendingMessage =
  pm_ID :: int
  pm_MessageID :: string
  pm_CorrelationID :: string
  pm_SourcePeerID :: string
  pm_TargetPeerID :: string
  pm_RelayNodeID :: string
  pm_MessageType :: string
  pm_Payload :: bytes
  pm_PayloadSize :: int
  pm_CreatedAt :: int
  pm_ExpiresAt :: int
  pm_DeliveryAttempts :: int
  pm_LastDeliveryAttempt :: "int option"
  pm_Status :: string
  pm_DeliveredAt :: "int option"
  pm_Priority :: int

record StorageUsage =
  su_PeerID :: string
  su_MessageCount :: int
  su_TotalBytes :: int
  su_UpdatedAt :: int

record relay_db =
  relay_traffic :: "TrafficRow list"
  peer_preferences :: "PeerPreference list"
  relay_pending_messages :: "PendingMessage list"
  pending_seq :: int
  relay_storage_limits :: "StorageUsage list"

definition empty_relay_db :: relay_db where
  "empty_relay_db = \<lparr>relay_traffic = [], peer_preferences = [], relay_pending_messages = [], pending_seq = 0, relay_storage_limits = []\<rparr>"

section \<open>Traffic\<close>

definition rdb_RecordTraffic ::
  "conn \<Rightarrow> string \<Rightarrow> string \<Rightarrow> string \<Rightarrow> string \<Rightarrow> int \<Rightarrow> int \<Rightarrow> int \<Rightarrow> int option \<Rightarrow> relay_db \<Rightarrow> db_error option \<times> relay_db" where
  "rdb_RecordTraffic c sessionID peerID relayNodeID trafficType ingressBytes egressBytes startTime endTime db =
     (if fault c = ExecFails then (Some DriverError, db)
      else if trafficType \<notin> {''coordination'', ''relay''} then (Some CheckViolation, db)
      else (None, db\<lparr>relay_traffic := relay_traffic db @
             [\<lparr>tr_SessionID = sessionID, tr_PeerID = peerID, tr_RelayNodeID = relayNodeID, tr_TrafficType = trafficType,
               tr_IngressBytes = ingressBytes, tr_EgressBytes = egressBytes, tr_StartTime = startTime, tr_EndTime = endTime,
               BillingStatus = (if trafficType = ''coordination'' then ''free'' else ''unpaid'')\<rparr>]\<rparr>))"

record TrafficSummary =
  ts_coordination_bytes :: int
  ts_relay_bytes :: int
  ts_session_count :: nat

definition bytes_of_type :: "string \<Rightarrow> TrafficRow list \<Rightarrow> int" where
  "bytes_of_type t rows = sum_list (map (\<lambda>r. if tr_TrafficType r = t then tr_IngressBytes r + tr_EgressBytes r else 0) rows)"

definition GetPeerTrafficSummary :: "conn \<Rightarrow> string \<Rightarrow> int \<Rightarrow> relay_db \<Rightarrow> db_error + TrafficSummary" where
  "GetPeerTrafficSummary c peerID since db =
     (if fault c = ExecFails then Inl DriverError
      else let rows = filter (\<lambda>r. tr_PeerID r = peerID \<and> tr_StartTime r \<ge> since) (relay_traffic db)
           in Inr \<lparr>ts_coordination_bytes = bytes_of_type ''coordination'' rows, ts_relay_bytes = bytes_of_type ''relay'' rows,
                   ts_session_count = card (tr_SessionID ` set rows)\<rparr>)"

definition rdb_GetStats :: "conn \<Rightarrow> relay_db \<Rightarrow> int \<times> int" where
  "rdb_GetStats c db =
     (if fault c = ExecFails then (0, 0)
      else (sum_list (map tr_IngressBytes (relay_traffic db)), sum_list (map tr_EgressBytes (relay_traffic db))))"

section \<open>Preferred relays\<close>

text \<open>An attempt succeeds, finds the database busy, or fails in another way; a busy database is tried three times in all.\<close>

datatype attempt = Done | Busy | Failed

fun retry_busy :: "nat \<Rightarrow> (nat \<Rightarrow> attempt) \<Rightarrow> nat \<Rightarrow> bool" where
  "retry_busy 0 outcome k = False"
| "retry_busy (Suc n) outcome k =
     (case outcome k of
        Done \<Rightarrow> True
      | Busy \<Rightarrow> if n > 0 then retry_busy n outcome (Suc k) else False
      | Failed \<Rightarrow> False)"

definition set_preference ::
  "string \<Rightarrow> int \<Rightarrow> (PeerPreference \<Rightarrow> PeerPreference) \<Rightarrow> relay_db \<Rightarrow> relay_db" where
  "set_preference peerID now f db =
     (let old = (case row_at pp_PeerID peerID (peer_preferences db) of
                   Some r \<Rightarrow> r
                 | None \<Rightarrow> \<lparr>pp_PeerID = peerID, PreferredRelayPeerID = None, LastUsedRelayPeerID = None, pp_UpdatedAt = now\<rparr>)
      in db\<lparr>peer_preferences := sql_upsert pp_PeerID ((f old)\<lparr>pp_UpdatedAt := now\<rparr>) (peer_preferences db)\<rparr>)"

definition SetPreferredRelay :: "(nat \<Rightarrow> attempt) \<Rightarrow> int \<Rightarrow> string \<Rightarrow> string \<Rightarrow> relay_db \<Rightarrow> bool \<times> relay_db" where
  "SetPreferredRelay outcome now peerID preferredRelayPeerID db =
     (if retry_busy 3 outcome 0
      then (True, set_preference peerID now (\<lambda>r. r\<lparr>PreferredRelayPeerID := Some preferredRelayPeerID\<rparr>) db)
      else (False, db))"

definition SetLastUsedRelay :: "(nat \<Rightarrow> attempt) \<Rightarrow> int \<Rightarrow> string \<Rightarrow> string \<Rightarrow> relay_db \<Rightarrow> bool \<times> relay_db" where
  "SetLastUsedRelay outcome now peerID lastUsedRelayPeerID db =
     (if retry_busy 3 outcome 0
      then (True, set_preference peerID now (\<lambda>r. r\<lparr>LastUsedRelayPeerID := Some lastUsedRelayPeerID\<rparr>) db)
      else (False, db))"

definition GetPreferredRelay :: "conn \<Rightarrow> string \<Rightarrow> relay_db \<Rightarrow> db_error + string" where
  "GetPreferredRelay c peerID db =
     (if fault c = ExecFails then Inl DriverError
      else Inr (case row_at pp_PeerID peerID (peer_preferences db) of
                  None \<Rightarrow> []
                | Some r \<Rightarrow> (case PreferredRelayPeerID r of None \<Rightarrow> [] | Some p \<Rightarrow> p)))"

definition GetLastUsedRelay :: "conn \<Rightarrow> string \<Rightarrow> relay_db \<Rightarrow> db_error + string" where
  "GetLastUsedRelay c peerID db =
     (if fault c = ExecFails then Inl DriverError
      else Inr (case row_at pp_PeerID peerID (peer_preferences db) of
                  None \<Rightarrow> []
                | Some r \<Rightarrow> (case LastUsedRelayPeerID r of None \<Rightarrow> [] | Some p \<Rightarrow> p)))"

definition ClearPreferredRelay :: "conn \<Rightarrow> string \<Rightarrow> relay_db \<Rightarrow> db_error option \<times> relay_db" where
  "ClearPreferredRelay c peerID db =
     (if fault c = ExecFails then (Some DriverError, db)
      else (None, db\<lparr>peer_preferences := sql_delete (\<lambda>r. pp_PeerID r = peerID) (peer_preferences db)\<rparr>))"

section \<open>Messages for peers that are offline\<close>

definition kept_statuses :: "string list" where
  "kept_statuses = [''pending'', ''delivered'', ''expired'', ''failed'']"

definition StorePendingMessage :: "conn \<Rightarrow> PendingMessage \<Rightarrow> relay_db \<Rightarrow> db_error option \<times> relay_db" where
  "StorePendingMessage c msg db =
     (if fault c = ExecFails then (Some DriverError, db)
      else if pm_MessageID msg \<in> pm_MessageID ` set (relay_pending_messages db) then (Some UniqueViolation, db)
      else if pm_Status msg \<notin> set kept_statuses then (Some CheckViolation, db)
      else (None, db\<lparr>relay_pending_messages := relay_pending_messages db @
                [msg\<lparr>pm_ID := pending_seq db + 1, pm_DeliveryAttempts := 0, pm_LastDeliveryAttempt := None, pm_DeliveredAt := None\<rparr>],
              pending_seq := pending_seq db + 1\<rparr>))"

text \<open>Rows with the same priority and second of creation come in the order \<open>scan\<close> in which SQLite visits them.\<close>

definition GetPendingMessagesForPeer ::
  "conn \<Rightarrow> (PendingMessage list \<Rightarrow> PendingMessage list) \<Rightarrow> int \<Rightarrow> string \<Rightarrow> relay_db \<Rightarrow> db_error + PendingMessage list" where
  "GetPendingMessagesForPeer c scan now targetPeerID db =
     (if fault c = ExecFails then Inl DriverError
      else Inr (take 100 (sort_key (\<lambda>m. - pm_Priority m) (sort_key pm_CreatedAt (scan
             (filter (\<lambda>m. pm_TargetPeerID m = targetPeerID \<and> pm_Status m = ''pending'' \<and> pm_ExpiresAt m > now)
                (relay_pending_messages db)))))))"

definition update_message :: "conn \<Rightarrow> string \<Rightarrow> (PendingMessage \<Rightarrow> PendingMessage) \<Rightarrow> relay_db \<Rightarrow> db_error option \<times> relay_db" where
  "update_message c messageID f db =
     (if fault c = ExecFails then (Some DriverError, db)
      else (None, db\<lparr>relay_pending_messages := sql_update (\<lambda>m. pm_MessageID m = messageID) f (relay_pending_messages db)\<rparr>))"

definition MarkMessageDelivered :: "conn \<Rightarrow> int \<Rightarrow> string \<Rightarrow> relay_db \<Rightarrow> db_error option \<times> relay_db" where
  "MarkMessageDelivered c now messageID =
     update_message c messageID (\<lambda>m. m\<lparr>pm_Status := ''delivered'', pm_DeliveredAt := Some now\<rparr>)"

definition MarkMessageExpired :: "conn \<Rightarrow> string \<Rightarrow> relay_db \<Rightarrow> db_error option \<times> relay_db" where
  "MarkMessageExpired c messageID = update_message c messageID (\<lambda>m. m\<lparr>pm_Status := ''expired''\<rparr>)"

definition IncrementDeliveryAttempt :: "conn \<Rightarrow> int \<Rightarrow> string \<Rightarrow> relay_db \<Rightarrow> db_error option \<times> relay_db" where
  "IncrementDeliveryAttempt c now messageID =
     update_message c messageID (\<lambda>m. m\<lparr>pm_DeliveryAttempts := pm_DeliveryAttempts m + 1, pm_LastDeliveryAttempt := Some now\<rparr>)"

text \<open>Three statements, the first that fails ends the clean-up; rows without a delivery time never compare as older.\<close>

definition delete_messages :: "(PendingMessage \<Rightarrow> bool) \<Rightarrow> relay_db \<Rightarrow> nat \<times> relay_db" where
  "delete_messages p db =
     (length (filter p (relay_pending_messages db)), db\<lparr>relay_pending_messages := sql_delete p (relay_pending_messages db)\<rparr>)"

definition DeleteExpiredMessages ::
  "(nat \<Rightarrow> conn) \<Rightarrow> int \<Rightarrow> int \<Rightarrow> relay_db \<Rightarrow> (db_error + nat \<times> nat \<times> nat) \<times> relay_db" where
  "DeleteExpiredMessages cs now deliveredRetention db =
     (let cutoff = now - deliveredRetention
      in if fault (cs 0) = ExecFails then (Inl DriverError, db)
         else let (n1, db1) = delete_messages (\<lambda>m. pm_Status m = ''pending'' \<and> pm_ExpiresAt m < now) db
              in if fault (cs 1) = ExecFails then (Inl DriverError, db1)
                 else let (n2, db2) = delete_messages (\<lambda>m. pm_Status m = ''delivered'' \<and>
                              (case pm_DeliveredAt m of Some t \<Rightarrow> t < cutoff | None \<Rightarrow> False)) db1
                      in if fault (cs 2) = ExecFails then (Inl DriverError, db2)
                         else let (n3, db3) = delete_messages (\<lambda>m. pm_Status m = ''expired'' \<and> pm_ExpiresAt m < cutoff) db2
                              in (Inr (n1, n2, n3), db3))"

definition GetMessageStatus :: "conn \<Rightarrow> string \<Rightarrow> relay_db \<Rightarrow> db_error + PendingMessage" where
  "GetMessageStatus c messageID db =
     (if fault c = ExecFails then Inl DriverError
      else case row_at pm_MessageID messageID (relay_pending_messages db) of None \<Rightarrow> Inl NoRows | Some m \<Rightarrow> Inr m)"

section \<open>How much is kept for a peer\<close>

definition GetStorageUsage :: "conn \<Rightarrow> string \<Rightarrow> relay_db \<Rightarrow> db_error + StorageUsage" where
  "GetStorageUsage c peerID db =
     (if fault c = ExecFails then Inl DriverError
      else Inr (case row_at su_PeerID peerID (relay_storage_limits db) of
                  Some u \<Rightarrow> u
                | None \<Rightarrow> \<lparr>su_PeerID = peerID, su_MessageCount = 0, su_TotalBytes = 0, su_UpdatedAt = 0\<rparr>))"

definition IncrementStorageUsage :: "conn \<Rightarrow> int \<Rightarrow> string \<Rightarrow> int \<Rightarrow> int \<Rightarrow> relay_db \<Rightarrow> db_error option \<times> relay_db" where
  "IncrementStorageUsage c now peerID messageCount n db =
     (if fault c = ExecFails then (Some DriverError, db)
      else let row = (case row_at su_PeerID peerID (relay_storage_limits db) of
                        Some u \<Rightarrow> u\<lparr>su_MessageCount := su_MessageCount u + messageCount, su_TotalBytes := su_TotalBytes u + n, su_UpdatedAt := now\<rparr>
                      | None \<Rightarrow> \<lparr>su_PeerID = peerID, su_MessageCount = messageCount, su_TotalBytes = n, su_UpdatedAt = now\<rparr>)
           in (None, db\<lparr>relay_storage_limits := sql_upsert su_PeerID row (relay_storage_limits db)\<rparr>))"

definition DecrementStorageUsage :: "conn \<Rightarrow> int \<Rightarrow> string \<Rightarrow> int \<Rightarrow> int \<Rightarrow> relay_db \<Rightarrow> db_error option \<times> relay_db" where
  "DecrementStorageUsage c now peerID messageCount n db =
     (if fault c = ExecFails then (Some DriverError, db)
      else (None, db\<lparr>relay_storage_limits := sql_update (\<lambda>u. su_PeerID u = peerID)
              (\<lambda>u. u\<lparr>su_MessageCount := max 0 (su_MessageCount u - messageCount), su_TotalBytes := max 0 (su_TotalBytes u - n),
                     su_UpdatedAt := now\<rparr>) (relay_storage_limits db)\<rparr>))"

end
