(* ===== verification/Relay.thy ===== *)
theory Relay
  imports Jobs Relay_Store "HOL-Library.AList"
begin

text \<open>
  The relay (\<open>internal/p2p/relay.go\<close>): peers behind NAT register a session and open a stream on which the
  relay forwards them messages; messages for a peer that cannot be reached are kept in the database and
  delivered when its stream is ready.  A session is one object that three tables point to, so the tables hold
  indices into \<open>session_objs\<close>.  A message is bytes; \<open>quic_codec\<close> is what \<open>encoding/json\<close> makes of
  them.  Times and durations are seconds; \<open>v_duration\<close> is \<open>GetConfigDuration\<close>.  A handler gets the
  data of its message decoded; \<open>None\<close> stands for data that does not decode, and the fields that \<open>encoding/json\<close> filled in
  before it failed, which a refusal echoes, are left out.
\<close>

section \<open>State and environment\<close>

type_synonym stream_id = nat

record QUICMessage =
  qm_Type :: string
  qm_Version :: int
  qm_Timestamp :: string
  qm_RequestID :: string
  qm_SourcePeerID :: string
  qm_Data :: "json option"

record quic_codec =
  UnmarshalQUICMessage :: "bytes \<Rightarrow> QUICMessage option"
  Marshal :: "QUICMessage \<Rightarrow> bytes option"

record RelaySession =
  se_SessionID :: string
  ClientPeerID :: string
  ClientNodeID :: string
  RelayNodeID :: string
  SessionType :: string
  se_Connection :: nat
  ReceiveStream :: "stream_id option"
  se_StartTime :: int
  LastKeepalive :: int
  KeepaliveInterval :: int
  IngressBytes :: int
  EgressBytes :: int
  PaymentID :: int
  EstimatedBytes :: int

record PendingRelayRequest =
  pr_Stream :: "stream_id option"
  pr_RequestTime :: int
  pr_SourcePeerID :: string
  pr_TargetPeerID :: string

record RelayPeer =
  rp_config :: ConfigManager
  isRelayMode :: bool
  maxConnections :: int
  pricingPerGB :: float64
  freeCoordination :: bool
  maxCoordMsgSize :: int
  session_objs :: "RelaySession list"
  rp_sessions :: "(string \<times> nat) list"
  clientSessions :: "(string \<times> nat list) list"
  registeredClients :: "(string \<times> nat) list"
  pendingRequests :: "(string \<times> PendingRelayRequest) list"
  rp_db :: relay_db
  rp_escrow :: EscrowManager
  rp_payments :: payment_db

record relay_env =
  v_now :: int
  v_uuid :: string
  v_conns :: "nat \<Rightarrow> conn"
  v_writes :: "nat \<Rightarrow> bool"
  v_duration :: "string \<Rightarrow> int \<Rightarrow> int"
  v_codec :: quic_codec
  v_lib :: go_float_lib
  v_verify :: "FacilitatorResponse network"
  v_settle :: "FacilitatorSettleResponse network"
  v_refund :: "FacilitatorResponse network"

datatype relay_error =
  ParseFailed | NoSession string | SessionMismatch string | TargetNotRegistered string | NoReceiveStream string
| PrefixNotWritten string | DataNotWritten string | CoordinationTooLarge int | ForwardFailed relay_error
| NoPendingRequest string | ResponseNotWritten | HolePunchMarshal | ClientUnknown

text \<open>What goes onto a stream: bytes, or the text that answers a request (\<open>success\<close>, or \<open>error: \<close> and the error).\<close>

datatype relay_write = Raw stream_id bytes | Answer stream_id "relay_error option"

type_synonym writes = "relay_write list"

definition NewRelayPeer :: "go_float_lib \<Rightarrow> conn \<Rightarrow> ConfigManager \<Rightarrow> EscrowManager \<Rightarrow> job_db \<Rightarrow> relay_db \<Rightarrow> payment_db \<Rightarrow> RelayPeer" where
  "NewRelayPeer l c cfg em jdb rdb pdb =
     (let offered = (case GetAllServices c jdb of
                       Inl e \<Rightarrow> Fin 0
                     | Inr offers \<Rightarrow> (case sql_first (\<lambda>s. sv_Type s = ''relay'') offers of Some s \<Rightarrow> Pricing s | None \<Rightarrow> Fin 0))
      in \<lparr>rp_config = cfg, isRelayMode = GetConfigBool cfg ''relay_mode'' False,
          maxConnections = GetConfigInt cfg ''relay_max_connections'' 100 1 1000,
          pricingPerGB = (if feq offered (Fin 0) then GetConfigFloat64 l cfg ''relay_pricing_per_gb'' (round64 (1 / 1000)) (Fin 0) (Fin 1) else offered),
          freeCoordination = GetConfigBool cfg ''relay_free_coordination'' True,
          maxCoordMsgSize = GetConfigInt64 cfg ''relay_max_coordination_msg_size'' 10240 1024 1048576,
          session_objs = [], rp_sessions = [], clientSessions = [], registeredClients = [], pendingRequests = [],
          rp_db = rdb, rp_escrow = em, rp_payments = pdb\<rparr>)"

definition obj :: "RelayPeer \<Rightarrow> nat \<Rightarrow> RelaySession" where
  "obj rp i = session_objs rp ! i"

definition upd_obj :: "nat \<Rightarrow> (RelaySession \<Rightarrow> RelaySession) \<Rightarrow> RelayPeer \<Rightarrow> RelayPeer" where
  "upd_obj i f rp = rp\<lparr>session_objs := (session_objs rp)[i := f (session_objs rp ! i)]\<rparr>"

definition gigabytes :: "int \<Rightarrow> float64" where
  "gigabytes n = (case round64 (of_int n) of Fin r \<Rightarrow> round64 (r / 2 ^ 30) | f \<Rightarrow> f)"

section \<open>Registration\<close>

record RelayRegisterData =
  rg_PeerID :: string
  rg_NodeID :: string
  rg_EstimatedBytes :: int
  rg_PaymentSignature :: "json option"

datatype reject_reason =
  ModeDisabled | InvalidRegistration | AtCapacity | SignatureRequired float64 | BadSignatureFormat | VerificationFailed escrow_error

datatype register_reply = RelayAccept string string int float64 | RelayReject string reject_reason

text \<open>The payment for the announced traffic: a reason to refuse, or the id of the escrow (0 when nothing is due).\<close>

definition take_relay_payment :: "relay_env \<Rightarrow> RelayRegisterData \<Rightarrow> RelayPeer \<Rightarrow> (reject_reason + int) \<times> RelayPeer" where
  "take_relay_payment env data rp =
     (let requiredAmount = fmul (gigabytes (rg_EstimatedBytes data)) (pricingPerGB rp)
      in if \<not> flt (Fin 0) requiredAmount then (Inr 0, rp)
         else case rg_PaymentSignature data of
                None \<Rightarrow> (Inl (SignatureRequired requiredAmount), rp)
              | Some (JObj sigMap) \<Rightarrow>
                  (case CreateEscrow (rp_escrow rp) (v_conns env 0) (v_conns env 1) (v_verify env) (v_now env) 0
                          (Some (sig_of_json (v_lib env) sigMap)) requiredAmount (rp_payments rp) of
                     (Inl e, pdb) \<Rightarrow> (Inl (VerificationFailed e), rp\<lparr>rp_payments := pdb\<rparr>)
                   | (Inr paymentID, pdb) \<Rightarrow> (Inr paymentID, rp\<lparr>rp_payments := pdb\<rparr>))
              | Some _ \<Rightarrow> (Inl BadSignatureFormat, rp))"

definition add_session :: "RelaySession \<Rightarrow> RelayPeer \<Rightarrow> RelayPeer" where
  "add_session session rp =
     (let p = length (session_objs rp); peer = ClientPeerID session;
          old = (case map_of (clientSessions rp) peer of Some ps \<Rightarrow> ps | None \<Rightarrow> [])
      in rp\<lparr>session_objs := session_objs rp @ [session],
            rp_sessions := AList.update (se_SessionID session) p (rp_sessions rp),
            clientSessions := AList.update peer (old @ [p]) (clientSessions rp),
            registeredClients := AList.update peer p (registeredClients rp)\<rparr>)"

definition HandleRelayRegister :: "relay_env \<Rightarrow> RelayRegisterData option \<Rightarrow> nat \<Rightarrow> RelayPeer \<Rightarrow> register_reply \<times> RelayPeer" where
  "HandleRelayRegister env msg connection rp =
     (if \<not> isRelayMode rp then (RelayReject [] ModeDisabled, rp)
      else case msg of
        None \<Rightarrow> (RelayReject [] InvalidRegistration, rp)
      | Some data \<Rightarrow>
          if int (length (rp_sessions rp)) \<ge> maxConnections rp then (RelayReject (rg_NodeID data) AtCapacity, rp)
          else case take_relay_payment env data rp of
                 (Inl reason, rp1) \<Rightarrow> (RelayReject (rg_NodeID data) reason, rp1)
               | (Inr paymentID, rp1) \<Rightarrow>
                   let interval = v_duration env ''relay_connection_keepalive'' 30;
                       session = \<lparr>se_SessionID = v_uuid env, ClientPeerID = rg_PeerID data, ClientNodeID = rg_NodeID data,
                         RelayNodeID = [], SessionType = ''full_relay'', se_Connection = connection, ReceiveStream = None,
                         se_StartTime = v_now env, LastKeepalive = v_now env, KeepaliveInterval = interval, IngressBytes = 0,
                         EgressBytes = 0, PaymentID = paymentID, EstimatedBytes = rg_EstimatedBytes data\<rparr>
                   in (RelayAccept (rg_NodeID data) (v_uuid env) interval (pricingPerGB rp), add_session session rp1))"

text \<open>On success the caller delivers the messages kept for the peer, in a goroutine of its own.\<close>

definition HandleRelayReceiveStreamReady ::
  "(string \<times> string) option \<Rightarrow> stream_id \<Rightarrow> RelayPeer \<Rightarrow> relay_error option \<times> RelayPeer" where
  "HandleRelayReceiveStreamReady msg stream rp =
     (case msg of
        None \<Rightarrow> (Some ParseFailed, rp)
      | Some (sessionID, peer) \<Rightarrow>
          (case map_of (registeredClients rp) peer of
             None \<Rightarrow> (Some (NoSession peer), rp)
           | Some p \<Rightarrow>
               if se_SessionID (obj rp p) \<noteq> sessionID then (Some (SessionMismatch sessionID), rp)
               else (None, upd_obj p (\<lambda>s. s\<lparr>ReceiveStream := Some stream\<rparr>) rp)))"

section \<open>Keeping messages\<close>

definition days :: "int \<Rightarrow> int" where
  "days n = n * 24 * 3600"

definition MessageTypeTTLs :: "(string \<times> int) list" where
  "MessageTypeTTLs =
     [(''invoice_request'', days 7), (''invoice_response'', days 7), (''invoice_notify'', days 7),
      (''chat_message'', days 7), (''chat_group_message'', days 7),
      (''chat_group_create'', days 3), (''chat_group_invite'', days 3), (''chat_sender_key_distribution'', days 3),
      (''chat_delivery_confirmation'', days 1), (''chat_read_receipt'', days 1),
      (''chat_key_exchange'', 3600), (''chat_key_exchange_ack'', 3600),
      (''job_status_update'', days 1),
      (''job_response'', days 2), (''service_response'', days 2), (''capabilities_response'', days 2)]"

definition getMessageTTL :: "relay_env \<Rightarrow> string \<Rightarrow> int" where
  "getMessageTTL env messageType =
     (let ttl = v_duration env (''relay_ttl_'' @ messageType) 0
      in if ttl > 0 then ttl
         else case map_of MessageTypeTTLs messageType of Some t \<Rightarrow> t | None \<Rightarrow> days 1)"

definition eligibleTypes :: "string list" where
  "eligibleTypes =
     [''invoice_request'', ''invoice_response'', ''invoice_notify'', ''job_status_update'', ''job_response'',
      ''service_response'', ''capabilities_response'', ''chat_key_exchange'', ''chat_key_exchange_ack'', ''chat_message'',
      ''chat_delivery_confirmation'', ''chat_read_receipt'', ''chat_group_create'', ''chat_group_invite'',
      ''chat_group_message'', ''chat_sender_key_distribution'']"

definition isEligibleForStore :: "string \<Rightarrow> bool" where
  "isEligibleForStore messageType \<longleftrightarrow> messageType \<in> set eligibleTypes"

definition canStoreMessage :: "conn \<Rightarrow> RelayPeer \<Rightarrow> string \<Rightarrow> int \<Rightarrow> bool" where
  "canStoreMessage c rp targetPeerID messageSize \<longleftrightarrow>
     (let maxMessages = GetConfigInt64 (rp_config rp) ''relay_store_max_messages'' 1000 0 1000000;
          maxBytes = GetConfigInt64 (rp_config rp) ''relay_store_max_bytes'' (100 * 1024 * 1024) 0 (10 * 1024 * 1024 * 1024);
          maxMessageSize = GetConfigInt64 (rp_config rp) ''relay_store_max_message_size'' (10 * 1024 * 1024) 0 (100 * 1024 * 1024)
      in messageSize \<le> maxMessageSize
         \<and> (case GetStorageUsage c targetPeerID (rp_db rp) of
              Inl e \<Rightarrow> False
            | Inr usage \<Rightarrow>
                \<not> (maxMessages > 0 \<and> su_MessageCount usage \<ge> maxMessages)
                \<and> \<not> (maxBytes > 0 \<and> su_TotalBytes usage + messageSize > maxBytes)))"

text \<open>Storing ends with a log line that slices the target's id; \<open>None\<close> is the panic of an id below eight characters.\<close>

definition storeMessage :: "relay_env \<Rightarrow> string \<Rightarrow> QUICMessage \<Rightarrow> bytes \<Rightarrow> RelayPeer \<Rightarrow> bool option \<times> RelayPeer" where
  "storeMessage env targetPeerID msg payload rp =
     (if \<not> GetConfigBool (rp_config rp) ''relay_store_enabled'' True \<or> \<not> canStoreMessage (v_conns env 0) rp targetPeerID (int (length payload))
      then (Some False, rp)
      else
        let row = \<lparr>pm_ID = 0, pm_MessageID = v_uuid env, pm_CorrelationID = [], pm_SourcePeerID = qm_SourcePeerID msg,
               pm_TargetPeerID = targetPeerID, pm_RelayNodeID = ''relay-node'', pm_MessageType = qm_Type msg, pm_Payload = payload,
               pm_PayloadSize = int (length payload), pm_CreatedAt = v_now env, pm_ExpiresAt = v_now env + getMessageTTL env (qm_Type msg),
               pm_DeliveryAttempts = 0, pm_LastDeliveryAttempt = None, pm_Status = ''pending'', pm_DeliveredAt = None, pm_Priority = 0\<rparr>
        in case StorePendingMessage (v_conns env 1) row (rp_db rp) of
             (Some e, db1) \<Rightarrow> (Some False, rp\<lparr>rp_db := db1\<rparr>)
           | (None, db1) \<Rightarrow>
               let db2 = snd (IncrementStorageUsage (v_conns env 2) (v_now env) targetPeerID 1 (int (length payload)) db1)
               in (if slice8 targetPeerID = None then None else Some True, rp\<lparr>rp_db := db2\<rparr>))"

definition tryStoreAndForward ::
  "relay_env \<Rightarrow> string \<Rightarrow> bytes \<Rightarrow> relay_error \<Rightarrow> RelayPeer \<Rightarrow> (relay_error, unit) go_result \<times> RelayPeer" where
  "tryStoreAndForward env targetPeerID data originalErr rp =
     (case UnmarshalQUICMessage (v_codec env) data of
        None \<Rightarrow> (Err originalErr, rp)
      | Some msg \<Rightarrow>
          if \<not> isEligibleForStore (qm_Type msg) then (Err originalErr, rp)
          else case storeMessage env targetPeerID msg data rp of
                 (None, rp1) \<Rightarrow> (Panic, rp1)
               | (Some stored, rp1) \<Rightarrow>
                   if slice8 targetPeerID = None then (Panic, rp1)
                   else (if stored then Ok () else Err originalErr, rp1))"

section \<open>Forwarding\<close>

definition lengthPrefix :: "nat \<Rightarrow> bytes" where
  "lengthPrefix n = [word_of_nat (n div 2 ^ 24), word_of_nat (n div 2 ^ 16), word_of_nat (n div 2 ^ 8), word_of_nat n]"

definition forwardDataToTarget ::
  "relay_env \<Rightarrow> string \<Rightarrow> bytes \<Rightarrow> RelayPeer \<Rightarrow> (relay_error, unit) go_result \<times> RelayPeer \<times> writes" where
  "forwardDataToTarget env targetPeerID data rp =
     (case map_of (registeredClients rp) targetPeerID of
        None \<Rightarrow> (let (r, rp1) = tryStoreAndForward env targetPeerID data (TargetNotRegistered targetPeerID) rp in (r, rp1, []))
      | Some p \<Rightarrow>
          (case ReceiveStream (obj rp p) of
             None \<Rightarrow> (let (r, rp1) = tryStoreAndForward env targetPeerID data (NoReceiveStream targetPeerID) rp in (r, rp1, []))
           | Some stream \<Rightarrow>
               let closed = upd_obj p (\<lambda>s. s\<lparr>ReceiveStream := None\<rparr>) rp; prefix = lengthPrefix (length data)
               in if \<not> v_writes env 0 then
                    (let (r, rp1) = tryStoreAndForward env targetPeerID data (PrefixNotWritten targetPeerID) closed in (r, rp1, []))
                  else if \<not> v_writes env 1 then
                    (let (r, rp1) = tryStoreAndForward env targetPeerID data (DataNotWritten targetPeerID) closed in (r, rp1, [Raw stream prefix]))
                  else (Ok (), upd_obj p (\<lambda>s. s\<lparr>EgressBytes := to_int64 (EgressBytes s + int (length data))\<rparr>) rp,
                        [Raw stream prefix, Raw stream data])))"

section \<open>Handlers of forwarding requests\<close>

record RelayForwardData =
  rf_SessionID :: string
  rf_SourcePeerID :: string
  rf_TargetPeerID :: string
  rf_MessageType :: string
  rf_Payload :: bytes
  rf_PayloadSize :: int

definition responseTypes :: "string list" where
  "responseTypes =
     [''service_response'', ''capabilities_response'', ''chat_key_exchange_ack'', ''job_response'',
      ''job_data_transfer_response'', ''job_start_response'']"

definition attributedTypes :: "string list" where
  "attributedTypes =
     [''job_status_request'', ''job_request'', ''job_status_update'', ''job_data_transfer_request'', ''capabilities_request'',
      ''invoice_request'', ''invoice_response'', ''invoice_notify'', ''chat_key_exchange'', ''chat_key_exchange_ack'', ''chat_message'',
      ''chat_delivery_confirmation'', ''chat_read_receipt'', ''chat_group_create'', ''chat_group_invite'', ''chat_group_message'',
      ''chat_sender_key_distribution'']"

definition requestResponseTypes :: "string list" where
  "requestResponseTypes =
     [''service_search'', ''capabilities_request'', ''job_status_request'', ''job_request'', ''job_data_transfer_request'',
      ''job_start'', ''chat_key_exchange'']"

text \<open>Writing the source into the envelope of a message: the new payload when both codec steps succeed.\<close>

definition inject_source :: "quic_codec \<Rightarrow> RelayForwardData \<Rightarrow> bytes option" where
  "inject_source codec data =
     (case UnmarshalQUICMessage codec (rf_Payload data) of
        None \<Rightarrow> None
      | Some msg \<Rightarrow> Marshal codec (msg\<lparr>qm_SourcePeerID := rf_SourcePeerID data\<rparr>))"

text \<open>A service search carries the source in its data, which is decoded into \<open>ServiceSearchRequest\<close> and encoded again.\<close>

definition field_text :: "json_object \<Rightarrow> string \<Rightarrow> string option" where
  "field_text kvs key = (case map_of kvs key of None \<Rightarrow> Some [] | Some JNull \<Rightarrow> Some [] | Some (JStr s) \<Rightarrow> Some s | _ \<Rightarrow> None)"

definition field_flag :: "json_object \<Rightarrow> string \<Rightarrow> bool option" where
  "field_flag kvs key = (case map_of kvs key of None \<Rightarrow> Some False | Some JNull \<Rightarrow> Some False | Some (JBool b) \<Rightarrow> Some b | _ \<Rightarrow> None)"

definition attribute_search :: "json \<Rightarrow> string \<Rightarrow> json option" where
  "attribute_search data source =
     (case data of
        JObj kvs \<Rightarrow>
          (case (field_text kvs ''phrases'', field_text kvs ''service_type'', field_flag kvs ''active_only'', field_text kvs ''source_peer_id'') of
             (Some ph, Some ty, Some act, Some _) \<Rightarrow>
               Some (JObj [(''phrases'', JStr ph), (''service_type'', JStr ty), (''active_only'', JBool act), (''source_peer_id'', JStr source)])
           | _ \<Rightarrow> None)
      | _ \<Rightarrow> None)"

definition inject_search :: "quic_codec \<Rightarrow> RelayForwardData \<Rightarrow> bytes option" where
  "inject_search codec data =
     (case UnmarshalQUICMessage codec (rf_Payload data) of
        None \<Rightarrow> None
      | Some msg \<Rightarrow>
          if qm_Type msg \<noteq> ''service_request'' then None
          else case qm_Data msg of
                 None \<Rightarrow> None
               | Some d \<Rightarrow> (case attribute_search d (rf_SourcePeerID data) of
                               None \<Rightarrow> None
                             | Some d' \<Rightarrow> Marshal codec (msg\<lparr>qm_Data := Some d'\<rparr>)))"

text \<open>Messages of an unknown session are forwarded all the same, unbilled.\<close>

definition forward_without_session ::
  "relay_env \<Rightarrow> RelayForwardData \<Rightarrow> stream_id option \<Rightarrow> RelayPeer \<Rightarrow> (relay_error, unit) go_result \<times> RelayPeer \<times> writes" where
  "forward_without_session env data stream rp =
     (if slice8 (rf_SessionID data) = None \<or> slice8 (rf_TargetPeerID data) = None then (Panic, rp, [])
      else
        let attributed = (if rf_MessageType data \<in> set attributedTypes \<or> rf_MessageType data = ''service_search''
                          then inject_source (v_codec env) data else None);
            payload = (case attributed of Some p \<Rightarrow> p | None \<Rightarrow> rf_Payload data);
            answer = (\<lambda>e. case stream of None \<Rightarrow> [] | Some st \<Rightarrow> [Answer st e])
        in case forwardDataToTarget env (rf_TargetPeerID data) payload rp of
             (Panic, rp1, w) \<Rightarrow> (Panic, rp1, w)
           | (Err e, rp1, w) \<Rightarrow> (Err (ForwardFailed e), rp1, w @ answer (Some e))
           | (Ok _, rp1, w) \<Rightarrow> (Ok (), rp1, w @ answer None))"

definition is_coordination :: "string \<Rightarrow> bool" where
  "is_coordination t \<longleftrightarrow> t \<in> {''hole_punch'', ''service_search'', ''service_response''}"

text \<open>The payload with its source, unless the log line behind an injection panics.\<close>

definition attributed_payload :: "relay_env \<Rightarrow> RelayForwardData \<Rightarrow> bytes option" where
  "attributed_payload env data =
     (let injected = (if rf_MessageType data = ''service_search'' then inject_search (v_codec env) data
                      else if rf_MessageType data \<in> set attributedTypes then inject_source (v_codec env) data
                      else None)
      in case injected of
           None \<Rightarrow> Some (rf_Payload data)
         | Some p \<Rightarrow> if slice8 (rf_SourcePeerID data) = None then None else Some p)"

definition add_traffic :: "relay_env \<Rightarrow> nat \<Rightarrow> string \<Rightarrow> string \<Rightarrow> string \<Rightarrow> int \<Rightarrow> RelayPeer \<Rightarrow> RelayPeer" where
  "add_traffic env p sessionID source trafficType n rp =
     (let rp1 = upd_obj p (\<lambda>s. s\<lparr>IngressBytes := to_int64 (IngressBytes s + n), LastKeepalive := v_now env\<rparr>) rp
      in rp1\<lparr>rp_db := snd (rdb_RecordTraffic (v_conns env 3) sessionID source (RelayNodeID (obj rp1 p)) trafficType n 0 (v_now env) None (rp_db rp1))\<rparr>)"

definition handleRelayRequest ::
  "relay_env \<Rightarrow> RelayForwardData \<Rightarrow> stream_id option \<Rightarrow> RelayPeer \<Rightarrow> (relay_error, unit) go_result \<times> RelayPeer \<times> writes" where
  "handleRelayRequest env data stream rp =
     (case map_of (rp_sessions rp) (rf_SessionID data) of
        None \<Rightarrow> forward_without_session env data stream rp
      | Some p \<Rightarrow>
          let correlationID = rf_SourcePeerID data @ '':'' @ rf_TargetPeerID data;
              rp1 = rp\<lparr>pendingRequests := AList.update correlationID
                      \<lparr>pr_Stream = stream, pr_RequestTime = v_now env, pr_SourcePeerID = rf_SourcePeerID data, pr_TargetPeerID = rf_TargetPeerID data\<rparr>
                      (pendingRequests rp)\<rparr>;
              coordination = is_coordination (rf_MessageType data);
              answer = (\<lambda>e. case stream of None \<Rightarrow> [] | Some st \<Rightarrow> [Answer st e])
          in if coordination \<and> freeCoordination rp \<and> rf_PayloadSize data > maxCoordMsgSize rp
             then (Err (CoordinationTooLarge (rf_PayloadSize data)), rp1, [])
             else
               let rp2 = add_traffic env p (rf_SessionID data) (rf_SourcePeerID data)
                           (if coordination then ''coordination'' else ''relay'') (rf_PayloadSize data) rp1
               in case attributed_payload env data of
                    None \<Rightarrow> (Panic, rp2, [])
                  | Some payload \<Rightarrow>
                      (case forwardDataToTarget env (rf_TargetPeerID data) payload rp2 of
                         (Panic, rp3, w) \<Rightarrow> (Panic, rp3, w)
                       | (Err e, rp3, w) \<Rightarrow> (Err (ForwardFailed e), rp3, w @ answer (Some (ForwardFailed e)))
                       | (Ok _, rp3, w) \<Rightarrow>
                           (Ok (), upd_obj p (\<lambda>s. s\<lparr>EgressBytes := to_int64 (EgressBytes s + rf_PayloadSize data)\<rparr>) rp3,
                            w @ (if rf_MessageType data \<in> set requestResponseTypes then [] else answer None))))"

definition handleRelayResponse ::
  "relay_env \<Rightarrow> RelayForwardData \<Rightarrow> RelayPeer \<Rightarrow> (relay_error, unit) go_result \<times> RelayPeer \<times> writes" where
  "handleRelayResponse env data rp =
     (let correlationID = rf_TargetPeerID data @ '':'' @ rf_SourcePeerID data
      in case map_of (pendingRequests rp) correlationID of
           None \<Rightarrow> (Err (NoPendingRequest correlationID), rp, [])
         | Some pending \<Rightarrow>
             let rp1 = rp\<lparr>pendingRequests := AList.delete correlationID (pendingRequests rp)\<rparr>
             in case pr_Stream pending of
                  None \<Rightarrow> (Panic, rp1, [])
                | Some st \<Rightarrow>
                    if \<not> v_writes env 0 then (Err ResponseNotWritten, rp1, [])
                    else (if slice8 (rf_SourcePeerID data) = None \<or> slice8 (rf_TargetPeerID data) = None then Panic else Ok (),
                          rp1, [Raw st (rf_Payload data)]))"

definition HandleRelayForward ::
  "relay_env \<Rightarrow> RelayForwardData option \<Rightarrow> stream_id option \<Rightarrow> RelayPeer \<Rightarrow> (relay_error, unit) go_result \<times> RelayPeer \<times> writes" where
  "HandleRelayForward env msg stream rp =
     (case msg of
        None \<Rightarrow> (Err ParseFailed, rp, [])
      | Some data \<Rightarrow>
          if rf_MessageType data \<in> set responseTypes then handleRelayResponse env data rp
          else handleRelayRequest env data stream rp)"

section \<open>Other messages\<close>

record RelayDataData =
  rd_SessionID :: string
  rd_SourcePeerID :: string
  rd_TargetPeerID :: string
  rd_Data :: bytes
  rd_DataSize :: int

definition HandleRelayData :: "relay_env \<Rightarrow> RelayDataData option \<Rightarrow> RelayPeer \<Rightarrow> (relay_error, unit) go_result \<times> RelayPeer \<times> writes" where
  "HandleRelayData env msg rp =
     (case msg of
        None \<Rightarrow> (Err ParseFailed, rp, [])
      | Some data \<Rightarrow>
          (case map_of (rp_sessions rp) (rd_SessionID data) of
             None \<Rightarrow> (Err (NoSession (rd_SessionID data)), rp, [])
           | Some p \<Rightarrow>
               forwardDataToTarget env (rd_TargetPeerID data) (rd_Data data)
                 (add_traffic env p (rd_SessionID data) (rd_SourcePeerID data) ''relay'' (rd_DataSize data) rp)))"

record RelayHolePunchData =
  hp_SessionID :: string
  hp_InitiatorPeerID :: string
  hp_TargetPeerID :: string
  hp_InitiatorEndpoint :: string
  hp_TargetEndpoint :: string
  hp_CoordinationTime :: string
  hp_Strategy :: string

definition hole_punch_json :: "RelayHolePunchData \<Rightarrow> json" where
  "hole_punch_json data =
     JObj [(''session_id'', JStr (hp_SessionID data)), (''initiator_peer_id'', JStr (hp_InitiatorPeerID data)),
           (''target_peer_id'', JStr (hp_TargetPeerID data)), (''initiator_endpoint'', JStr (hp_InitiatorEndpoint data)),
           (''target_endpoint'', JStr (hp_TargetEndpoint data)), (''coordination_time'', JStr (hp_CoordinationTime data)),
           (''strategy'', JStr (hp_Strategy data))]"

definition forwardHolePunchToTarget ::
  "relay_env \<Rightarrow> string \<Rightarrow> RelayHolePunchData \<Rightarrow> RelayPeer \<Rightarrow> (relay_error, unit) go_result \<times> RelayPeer \<times> writes" where
  "forwardHolePunchToTarget env timestamp data rp =
     (case Marshal (v_codec env) \<lparr>qm_Type = ''relay_hole_punch'', qm_Version = 1, qm_Timestamp = timestamp, qm_RequestID = [],
             qm_SourcePeerID = [], qm_Data = Some (hole_punch_json data)\<rparr> of
        None \<Rightarrow> (Err HolePunchMarshal, rp, [])
      | Some bs \<Rightarrow>
          (case forwardDataToTarget env (hp_TargetPeerID data) bs rp of
             (Err e, rp1, w) \<Rightarrow> (Err (ForwardFailed e), rp1, w)
           | res \<Rightarrow> res))"

definition HandleRelayHolePunch ::
  "relay_env \<Rightarrow> string \<Rightarrow> RelayHolePunchData option \<Rightarrow> RelayPeer \<Rightarrow> (relay_error, unit) go_result \<times> RelayPeer \<times> writes" where
  "HandleRelayHolePunch env timestamp msg rp =
     (case msg of
        None \<Rightarrow> (Err ParseFailed, rp, [])
      | Some data \<Rightarrow>
          (case map_of (rp_sessions rp) (hp_SessionID data) of
             None \<Rightarrow> (Err (NoSession (hp_SessionID data)), rp, [])
           | Some p \<Rightarrow>
               forwardHolePunchToTarget env timestamp data
                 (add_traffic env p (hp_SessionID data) (hp_InitiatorPeerID data) ''coordination''
                    (int (length (hp_InitiatorEndpoint data) + length (hp_TargetEndpoint data) + 100)) rp)))"

section \<open>The end of a session\<close>

text \<open>Both ways to end a session look its client up under the node id; registration stored it under the peer id.\<close>

definition drop_client_session :: "string \<Rightarrow> string \<Rightarrow> RelayPeer \<Rightarrow> RelayPeer" where
  "drop_client_session key sessionID rp =
     (case map_of (clientSessions rp) key of
        None \<Rightarrow> rp
      | Some ps \<Rightarrow>
          let p = (\<lambda>i. se_SessionID (obj rp i) \<noteq> sessionID)
          in if list_ex (\<lambda>i. se_SessionID (obj rp i) = sessionID) ps
             then rp\<lparr>clientSessions := AList.update key (takeWhile p ps @ tl (dropWhile p ps)) (clientSessions rp)\<rparr>
             else rp)"

definition terminateSession :: "string \<Rightarrow> RelayPeer \<Rightarrow> RelayPeer" where
  "terminateSession sessionID rp =
     (case map_of (rp_sessions rp) sessionID of
        None \<Rightarrow> rp
      | Some p \<Rightarrow>
          let rp1 = drop_client_session (ClientNodeID (obj rp p)) sessionID (rp\<lparr>rp_sessions := AList.delete sessionID (rp_sessions rp)\<rparr>)
          in rp1\<lparr>registeredClients := AList.delete (ClientNodeID (obj rp p)) (registeredClients rp1)\<rparr>)"

text \<open>One tick of the monitor of the session \<open>p\<close>; the flag says whether it goes on.\<close>

definition monitorSession :: "int \<Rightarrow> nat \<Rightarrow> RelayPeer \<Rightarrow> bool \<times> RelayPeer" where
  "monitorSession now p rp =
     (if now - LastKeepalive (obj rp p) > KeepaliveInterval (obj rp p) * 4
      then (False, terminateSession (se_SessionID (obj rp p)) rp) else (True, rp))"

definition UpdateSessionKeepalive :: "int \<Rightarrow> string \<Rightarrow> RelayPeer \<Rightarrow> RelayPeer" where
  "UpdateSessionKeepalive now sessionID rp =
     (case map_of (rp_sessions rp) sessionID of None \<Rightarrow> rp | Some p \<Rightarrow> upd_obj p (\<lambda>s. s\<lparr>LastKeepalive := now\<rparr>) rp)"

record RelayDisconnectData =
  rx_SessionID :: string
  rx_NodeID :: string
  rx_Reason :: string
  rx_BytesIngress :: int
  rx_BytesEgress :: int

text \<open>The amounts are the client's own figures.\<close>

definition settle_relay :: "relay_env \<Rightarrow> RelayDisconnectData \<Rightarrow> RelaySession \<Rightarrow> RelayPeer \<Rightarrow> RelayPeer \<times> fac_call list" where
  "settle_relay env data session rp =
     (let actualBytes = to_int64 (rx_BytesIngress data + rx_BytesEgress data);
          actualAmount = fmul (gigabytes actualBytes) (pricingPerGB rp);
          transferSuccess = (actualBytes > 0 \<or> rx_Reason data = ''client_disconnect'' \<or> rx_Reason data = ''graceful'');
          (_, pdb, calls) =
            (if transferSuccess
             then SettleEscrow (rp_escrow rp) (v_conns env 4) (v_conns env 5) (v_settle env) (v_now env) (PaymentID session) actualAmount (rp_payments rp)
             else RefundEscrow (rp_escrow rp) (v_conns env 4) (v_conns env 5) (v_refund env) (v_now env) (PaymentID session)
                    (''Relay transfer failed: '' @ rx_Reason data) (rp_payments rp))
      in (rp\<lparr>rp_payments := pdb\<rparr>, calls))"

definition HandleRelayDisconnect :: "relay_env \<Rightarrow> RelayDisconnectData option \<Rightarrow> RelayPeer \<Rightarrow> relay_error option \<times> RelayPeer \<times> fac_call list" where
  "HandleRelayDisconnect env msg rp =
     (case msg of
        None \<Rightarrow> (Some ParseFailed, rp, [])
      | Some data \<Rightarrow>
          let found = map_of (rp_sessions rp) (rx_SessionID data);
              rp1 = (case found of
                       None \<Rightarrow> rp
                     | Some p \<Rightarrow> drop_client_session (rx_NodeID data) (rx_SessionID data)
                                   (rp\<lparr>rp_sessions := AList.delete (rx_SessionID data) (rp_sessions rp)\<rparr>));
              rp2 = rp1\<lparr>registeredClients := AList.delete (rx_NodeID data) (registeredClients rp1)\<rparr>
          in case found of
               None \<Rightarrow> (None, rp2, [])
             | Some p \<Rightarrow>
                 let session = obj rp p;
                     rp3 = rp2\<lparr>rp_db := snd (rdb_RecordTraffic (v_conns env 3) (rx_SessionID data) (rx_NodeID data) (RelayNodeID session) ''relay''
                             (rx_BytesIngress data) (rx_BytesEgress data) (se_StartTime session) (Some (v_now env)) (rp_db rp2))\<rparr>
                 in if PaymentID session > 0
                    then (let (rp4, calls) = settle_relay env data session rp3 in (None, rp4, calls))
                    else (None, rp3, []))"

text \<open>\<open>DisconnectSession\<close> and \<open>Stop\<close> (\<open>rp_Stop\<close>) hold the mutex that \<open>terminateSession\<close> takes: with a session to end they never return (\<open>None\<close>).\<close>

definition DisconnectSession :: "string \<Rightarrow> RelayPeer \<Rightarrow> (relay_error option \<times> RelayPeer) option" where
  "DisconnectSession sessionID rp =
     (case map_of (rp_sessions rp) sessionID of None \<Rightarrow> Some (Some (NoSession sessionID), rp) | Some p \<Rightarrow> None)"

definition rp_Stop :: "RelayPeer \<Rightarrow> RelayPeer option" where
  "rp_Stop rp = (if rp_sessions rp = [] then Some rp else None)"

section \<open>Queries\<close>

record RelaySessionStatusData =
  sq_ClientNodeID :: string
  sq_HasSession :: bool
  sq_SessionID :: string
  sq_SessionActive :: bool
  sq_LastKeepalive :: int

definition HandleRelaySessionQuery :: "string option \<Rightarrow> RelayPeer \<Rightarrow> RelaySessionStatusData" where
  "HandleRelaySessionQuery msg rp =
     (case msg of
        None \<Rightarrow> \<lparr>sq_ClientNodeID = [], sq_HasSession = False, sq_SessionID = [], sq_SessionActive = False, sq_LastKeepalive = 0\<rparr>
      | Some client \<Rightarrow>
          (case map_of (clientSessions rp) client of
             Some (p # _) \<Rightarrow> \<lparr>sq_ClientNodeID = client, sq_HasSession = True, sq_SessionID = se_SessionID (obj rp p), sq_SessionActive = True,
                               sq_LastKeepalive = LastKeepalive (obj rp p)\<rparr>
           | _ \<Rightarrow> \<lparr>sq_ClientNodeID = client, sq_HasSession = False, sq_SessionID = [], sq_SessionActive = False, sq_LastKeepalive = 0\<rparr>))"

definition isPeerConnected :: "RelayPeer \<Rightarrow> string \<Rightarrow> bool" where
  "isPeerConnected rp peer \<longleftrightarrow> map_of (registeredClients rp) peer \<noteq> None"

definition GetClientConnection :: "string \<Rightarrow> RelayPeer \<Rightarrow> relay_error + nat" where
  "GetClientConnection peer rp =
     (case map_of (registeredClients rp) peer of None \<Rightarrow> Inl ClientUnknown | Some p \<Rightarrow> Inr (se_Connection (obj rp p)))"

definition GetStats :: "RelayPeer \<Rightarrow> nat \<times> nat \<times> int \<times> int" where
  "GetStats rp =
     (let traffic = (\<lambda>f. fold (\<lambda>(_, p) n. to_int64 (n + f (obj rp p))) (rp_sessions rp) 0)
      in (length (rp_sessions rp), length (registeredClients rp), traffic IngressBytes, traffic EgressBytes))"

definition session_earnings :: "RelayPeer \<Rightarrow> RelaySession \<Rightarrow> float64" where
  "session_earnings rp s =
     (if SessionType s = ''full_relay'' then fmul (gigabytes (to_int64 (IngressBytes s + EgressBytes s))) (pricingPerGB rp) else Fin 0)"

definition HandleDeliveryStatusQuery :: "(nat \<Rightarrow> conn) \<Rightarrow> string list option \<Rightarrow> RelayPeer \<Rightarrow> (string \<times> string) list option" where
  "HandleDeliveryStatusQuery cs msg rp =
     map_option (\<lambda>ids. map (\<lambda>(k, i). case GetMessageStatus (cs k) i (rp_db rp) of
                                        Inl e \<Rightarrow> (i, ''not_found'')
                                      | Inr m \<Rightarrow> (i, pm_Status m)) (enumerate 0 ids)) msg"

section \<open>Delivering what was kept\<close>

text \<open>
  One message: the payload is forwarded, which stores it again when the stream fails.  The results: panic,
  stop (the peer is gone), and how many messages and bytes count as delivered.
\<close>

datatype delivery = Crash | StopDelivery | Continue nat int

definition deliver_one :: "relay_env \<Rightarrow> string \<Rightarrow> PendingMessage \<Rightarrow> RelayPeer \<Rightarrow> delivery \<times> RelayPeer \<times> writes" where
  "deliver_one env targetPeerID msg rp =
     (if v_now env > pm_ExpiresAt msg
      then (Continue 0 0, rp\<lparr>rp_db := snd (MarkMessageExpired (v_conns env 4) (pm_MessageID msg) (rp_db rp))\<rparr>, [])
      else case forwardDataToTarget env targetPeerID (pm_Payload msg) rp of
             (Panic, rp1, w) \<Rightarrow> (Crash, rp1, w)
           | (Err e, rp1, w) \<Rightarrow>
               let rp2 = rp1\<lparr>rp_db := snd (IncrementDeliveryAttempt (v_conns env 4) (v_now env) (pm_MessageID msg) (rp_db rp1))\<rparr>
               in (if isPeerConnected rp2 targetPeerID then Continue 0 0 else StopDelivery, rp2, w)
           | (Ok _, rp1, w) \<Rightarrow>
               (Continue 1 (pm_PayloadSize msg),
                rp1\<lparr>rp_db := snd (MarkMessageDelivered (v_conns env 4) (v_now env) (pm_MessageID msg) (rp_db rp1))\<rparr>, w))"

fun deliver_messages ::
  "(nat \<Rightarrow> relay_env) \<Rightarrow> nat \<Rightarrow> string \<Rightarrow> PendingMessage list \<Rightarrow> RelayPeer \<Rightarrow> (nat \<times> int) option \<times> RelayPeer \<times> writes" where
  "deliver_messages envs k targetPeerID [] rp = (Some (0, 0), rp, [])"
| "deliver_messages envs k targetPeerID (msg # msgs) rp =
     (case deliver_one (envs k) targetPeerID msg rp of
        (Crash, rp1, w) \<Rightarrow> (None, rp1, w)
      | (StopDelivery, rp1, w) \<Rightarrow> (Some (0, 0), rp1, w)
      | (Continue d n, rp1, w) \<Rightarrow>
          (let (r, rp2, w2) = deliver_messages envs (Suc k) targetPeerID msgs rp1
           in (map_option (\<lambda>(d2, n2). (d + d2, n + n2)) r, rp2, w @ w2)))"

definition deliverPendingMessages ::
  "(nat \<Rightarrow> relay_env) \<Rightarrow> (PendingMessage list \<Rightarrow> PendingMessage list) \<Rightarrow> string \<Rightarrow> RelayPeer \<Rightarrow> bool \<times> RelayPeer \<times> writes" where
  "deliverPendingMessages envs scan targetPeerID rp =
     (if slice8 targetPeerID = None then (True, rp, [])
      else case GetPendingMessagesForPeer (v_conns (envs 0) 5) scan (v_now (envs 0)) targetPeerID (rp_db rp) of
             Inl e \<Rightarrow> (False, rp, [])
           | Inr messages \<Rightarrow>
               (case deliver_messages envs 0 targetPeerID messages rp of
                  (None, rp1, w) \<Rightarrow> (True, rp1, w)
                | (Some (delivered, totalBytes), rp1, w) \<Rightarrow>
                    (False,
                     (if delivered > 0
                      then rp1\<lparr>rp_db := snd (DecrementStorageUsage (v_conns (envs 0) 6) (v_now (envs 0)) targetPeerID
                                               (int delivered) totalBytes (rp_db rp1))\<rparr>
                      else rp1), w)))"

definition cleanupExpiredMessages :: "(nat \<Rightarrow> conn) \<Rightarrow> int \<Rightarrow> RelayPeer \<Rightarrow> RelayPeer" where
  "cleanupExpiredMessages cs now rp =
     (let retention = GetConfigInt (rp_config rp) ''relay_delivered_retention_hours'' 24 1 720 * 3600
      in rp\<lparr>rp_db := snd (DeleteExpiredMessages cs now retention (rp_db rp))\<rparr>)"

section \<open>Dispatch\<close>

text \<open>
  The messages \<open>quic.go\<close> hands to the relay, already decoded, with the stream or connection they came on.
  \<open>relay_data\<close> is handled as \<open>relay_forward\<close>; \<open>relay_disconnect\<close>, \<open>relay_hole_punch\<close> and delivery status
  queries reach no handler.
\<close>

datatype relay_message =
  RelayRegisterMsg "RelayRegisterData option" nat
| ReceiveStreamReadyMsg "(string \<times> string) option" stream_id
| RelayForwardMsg "RelayForwardData option" stream_id
| KeepaliveMsg string
| SessionQueryMsg "string option"
| UnhandledRelayMsg

definition relay_dispatch :: "relay_env \<Rightarrow> relay_message \<Rightarrow> RelayPeer \<Rightarrow> bool \<times> RelayPeer \<times> writes" where
  "relay_dispatch env m rp =
     (case m of
        RelayRegisterMsg data c \<Rightarrow> (False, snd (HandleRelayRegister env data c rp), [])
      | ReceiveStreamReadyMsg data st \<Rightarrow> (False, snd (HandleRelayReceiveStreamReady data st rp), [])
      | RelayForwardMsg data st \<Rightarrow> (let (r, rp1, w) = HandleRelayForward env data (Some st) rp in (r = Panic, rp1, w))
      | KeepaliveMsg sessionID \<Rightarrow> (False, UpdateSessionKeepalive (v_now env) sessionID rp, [])
      | SessionQueryMsg q \<Rightarrow> (False, rp, [])
      | UnhandledRelayMsg \<Rightarrow> (False, rp, []))"

end
