(* ===== verification/Relay_Keeping.thy ===== *)
theory Relay_Keeping
  imports Relay
begin

text \<open>
  What the relay has acknowledged: a message whose forwarding was answered with success has been written to its
  target's stream or is kept for it until it expires.  The history interleaves any number of forwarding requests and
  deliveries, message by message, with changes of the sessions and clean-ups.
\<close>

section \<open>Forwarding either writes or keeps\<close>

definition good_env :: "(string \<Rightarrow> int \<Rightarrow> int) \<Rightarrow> quic_codec \<Rightarrow> relay_env \<Rightarrow> bool" where
  "good_env durations codec env \<longleftrightarrow> v_duration env = durations \<and> v_codec env = codec \<and> (\<forall>n. fault (v_conns env n) = NoFault)"

definition ttl_of :: "(string \<Rightarrow> int \<Rightarrow> int) \<Rightarrow> quic_codec \<Rightarrow> bytes \<Rightarrow> int" where
  "ttl_of durations codec data =
     (case UnmarshalQUICMessage codec data of
        None \<Rightarrow> 0
      | Some m \<Rightarrow>
          let ttl = durations (''relay_ttl_'' @ qm_Type m) 0
          in if ttl > 0 then ttl else case map_of MessageTypeTTLs (qm_Type m) of Some t \<Rightarrow> t | None \<Rightarrow> days 1)"

abbreviation kept_messages :: "RelayPeer \<Rightarrow> PendingMessage list" where
  "kept_messages rp \<equiv> relay_pending_messages (rp_db rp)"

text \<open>The row a message is kept as.\<close>

definition keeps :: "string \<Rightarrow> bytes \<Rightarrow> int \<Rightarrow> PendingMessage \<Rightarrow> bool" where
  "keeps target data until m \<longleftrightarrow> pm_TargetPeerID m = target \<and> pm_Payload m = data \<and> pm_Status m = ''pending'' \<and> until \<le> pm_ExpiresAt m"

lemma kept_upd_obj [simp]: "rp_db (upd_obj p f rp) = rp_db rp" "rp_config (upd_obj p f rp) = rp_config rp"
  by (simp_all add: upd_obj_def)

lemma StorePendingMessage_cases:
  assumes "StorePendingMessage c msg db = (e, db')"
  shows "e \<noteq> None \<and> db' = db \<or> (e = None \<and> pm_MessageID msg \<notin> pm_MessageID ` set (relay_pending_messages db)
    \<and> db' = db\<lparr>relay_pending_messages := relay_pending_messages db @
        [msg\<lparr>pm_ID := pending_seq db + 1, pm_DeliveryAttempts := 0, pm_LastDeliveryAttempt := None, pm_DeliveredAt := None\<rparr>],
        pending_seq := pending_seq db + 1\<rparr>)"
  using assms by (auto simp: StorePendingMessage_def split: if_splits)

lemma usage_keeps_messages [simp]:
  "relay_pending_messages (snd (IncrementStorageUsage c now peer k n db)) = relay_pending_messages db"
  "relay_pending_messages (snd (DecrementStorageUsage c now peer k n db)) = relay_pending_messages db"
  by (simp_all add: IncrementStorageUsage_def DecrementStorageUsage_def Let_def)

lemma storeMessage_rows:
  assumes "storeMessage env target msg data rp = (r, rp')" and "good_env durations codec env" and "UnmarshalQUICMessage codec data = Some msg"
  shows "kept_messages rp' = kept_messages rp \<and> r = Some False
    \<or> (\<exists>m. kept_messages rp' = kept_messages rp @ [m] \<and> pm_MessageID m = v_uuid env \<and> v_uuid env \<notin> pm_MessageID ` set (kept_messages rp)
          \<and> keeps target data (v_now env + ttl_of durations codec data) m \<and> r \<noteq> Some False)"
proof -
  have ttl: "ttl_of durations codec data = getMessageTTL env (qm_Type msg)"
    using assms(2,3) by (simp add: ttl_of_def getMessageTTL_def good_env_def Let_def)
  show ?thesis
    using assms(1) by (auto simp: storeMessage_def Let_def keeps_def ttl split: if_splits prod.splits option.splits dest!: StorePendingMessage_cases)
qed

lemma tryStoreAndForward_rows:
  assumes "tryStoreAndForward env target data err rp = (r, rp')" and "good_env durations codec env"
  shows "kept_messages rp' = kept_messages rp \<and> r \<noteq> Ok ()
    \<or> (\<exists>m. kept_messages rp' = kept_messages rp @ [m] \<and> pm_MessageID m = v_uuid env \<and> v_uuid env \<notin> pm_MessageID ` set (kept_messages rp)
          \<and> keeps target data (v_now env + ttl_of durations codec data) m)"
proof -
  have codec: "v_codec env = codec" using assms(2) by (simp add: good_env_def)
  show ?thesis
  proof (cases "UnmarshalQUICMessage codec data")
    case None
    then show ?thesis using assms(1) codec by (auto simp: tryStoreAndForward_def)
  next
    case (Some msg)
    obtain q rp1 where st: "storeMessage env target msg data rp = (q, rp1)" by (metis surj_pair)
    show ?thesis
      using assms(1) codec Some st storeMessage_rows [OF st assms(2) Some]
      by (auto simp: tryStoreAndForward_def split: if_splits option.splits)
  qed
qed

definition frame :: "stream_id \<Rightarrow> bytes \<Rightarrow> writes" where
  "frame st data = [Raw st (lengthPrefix (length data)), Raw st data]"

text \<open>A success is a complete frame on the stream of the registered target, or a new row.\<close>

lemma forward_writes_or_keeps:
  assumes "forwardDataToTarget env target data rp = (r, rp', w)" and "good_env durations codec env"
  shows "kept_messages rp' = kept_messages rp \<and> (r = Ok () \<longrightarrow> (\<exists>st. w = frame st data))
    \<or> (\<exists>m. kept_messages rp' = kept_messages rp @ [m] \<and> pm_MessageID m = v_uuid env \<and> v_uuid env \<notin> pm_MessageID ` set (kept_messages rp)
          \<and> keeps target data (v_now env + ttl_of durations codec data) m)"
proof -
  have "?thesis" if "tryStoreAndForward env target data err rp0 = (r, rp')" "rp_db rp0 = rp_db rp" for err rp0
    using tryStoreAndForward_rows [OF that(1) assms(2)] that(2) by auto
  note kept = this
  show ?thesis
  proof (cases "map_of (registeredClients rp) target")
    case None
    then show ?thesis using assms(1) kept by (auto simp: forwardDataToTarget_def split: prod.splits)
  next
    case (Some p)
    show ?thesis
    proof (cases "ReceiveStream (obj rp p)")
      case None
      then show ?thesis using assms(1) Some kept by (auto simp: forwardDataToTarget_def split: prod.splits)
    next
      case st: (Some st)
      show ?thesis
      proof (cases "v_writes env 0 \<and> v_writes env 1")
        case True
        then show ?thesis using assms(1) Some st by (auto simp: forwardDataToTarget_def frame_def Let_def)
      next
        case False
        then obtain err where "tryStoreAndForward env target data err (upd_obj p (\<lambda>s. s\<lparr>ReceiveStream := None\<rparr>) rp) = (r, rp')"
          using assms(1) Some st by (auto simp: forwardDataToTarget_def Let_def split: if_splits prod.splits)
        then show ?thesis using kept by simp
      qed
    qed
  qed
qed

section \<open>Histories\<close>

text \<open>
  The state of a history: the clock, the message ids used, the rows some delivery has read, the messages
  acknowledged (with the time) and those written in full, and the relay.  Everything that leaves the kept messages
  alone may happen in between: registrations, time-outs, keep-alives, answers, restarts.
\<close>

inductive relay_history ::
  "(string \<Rightarrow> int \<Rightarrow> int) \<Rightarrow> quic_codec \<Rightarrow> int \<Rightarrow> string set \<Rightarrow> PendingMessage set \<Rightarrow> (string \<times> bytes \<times> int) set \<Rightarrow> (string \<times> bytes) set
     \<Rightarrow> RelayPeer \<Rightarrow> bool"
  for durations codec where
  start: "kept_messages rp = [] \<Longrightarrow> relay_history durations codec t {} {} {} {} rp"
| other: "relay_history durations codec t ids read acked written rp \<Longrightarrow> kept_messages rp' = kept_messages rp \<Longrightarrow> t \<le> t' \<Longrightarrow>
    relay_history durations codec t' ids read acked written rp'"
| forward: "relay_history durations codec t ids read acked written rp \<Longrightarrow> good_env durations codec env \<Longrightarrow> t \<le> v_now env \<Longrightarrow> v_uuid env \<notin> ids \<Longrightarrow>
    forwardDataToTarget env target data rp = (r, rp', w) \<Longrightarrow>
    relay_history durations codec (v_now env) (insert (v_uuid env) ids) read
      (if r = Ok () then insert (target, data, v_now env) acked else acked)
      (if \<exists>st. w = frame st data then insert (target, data) written else written) rp'"
| fetch: "relay_history durations codec t ids read acked written rp \<Longrightarrow>
    GetPendingMessagesForPeer c scan now target (rp_db rp) = Inr ms \<Longrightarrow> (\<And>rows. set (scan rows) = set rows) \<Longrightarrow>
    relay_history durations codec t ids (read \<union> set ms) acked written rp"
| deliver: "relay_history durations codec t ids read acked written rp \<Longrightarrow> good_env durations codec env \<Longrightarrow> t \<le> v_now env \<Longrightarrow> v_uuid env \<notin> ids \<Longrightarrow>
    m \<in> read \<Longrightarrow> deliver_one env (pm_TargetPeerID m) m rp = (d, rp', w) \<Longrightarrow>
    relay_history durations codec (v_now env) (insert (v_uuid env) ids) read acked
      (if \<exists>st. w = frame st (pm_Payload m) then insert (pm_TargetPeerID m, pm_Payload m) written else written) rp'"
| cleanup: "relay_history durations codec t ids read acked written rp \<Longrightarrow> t \<le> now \<Longrightarrow> (\<And>n. fault (cs n) = NoFault) \<Longrightarrow>
    relay_history durations codec now ids read acked written (cleanupExpiredMessages cs now rp)"

text \<open>What identifies a row never changes.\<close>

definition same_message :: "PendingMessage \<Rightarrow> PendingMessage \<Rightarrow> bool" where
  "same_message m r \<longleftrightarrow> pm_MessageID m = pm_MessageID r \<and> pm_TargetPeerID m = pm_TargetPeerID r \<and> pm_Payload m = pm_Payload r
     \<and> pm_ExpiresAt m = pm_ExpiresAt r"

definition ids_ok :: "string set \<Rightarrow> PendingMessage set \<Rightarrow> RelayPeer \<Rightarrow> bool" where
  "ids_ok ids read rp \<longleftrightarrow>
     distinct (map pm_MessageID (kept_messages rp)) \<and> pm_MessageID ` (set (kept_messages rp) \<union> read) \<subseteq> ids
     \<and> (\<forall>m\<in>read. \<forall>r\<in>set (kept_messages rp). pm_MessageID m = pm_MessageID r \<longrightarrow> same_message m r)"

definition accounted ::
  "(string \<Rightarrow> int \<Rightarrow> int) \<Rightarrow> quic_codec \<Rightarrow> int \<Rightarrow> (string \<times> bytes \<times> int) set \<Rightarrow> (string \<times> bytes) set \<Rightarrow> RelayPeer \<Rightarrow> bool" where
  "accounted durations codec t acked written rp \<longleftrightarrow>
     (\<forall>(target, data, t0)\<in>acked. t0 \<le> t \<and>
        ((target, data) \<in> written \<or> t > t0 + ttl_of durations codec data
         \<or> (\<exists>m\<in>set (kept_messages rp). keeps target data (t0 + ttl_of durations codec data) m)))"

lemma accounted_step:
  assumes "accounted durations codec t acked written rp" and "t \<le> t'" and "written \<subseteq> written'"
    and "\<And>m t0. m \<in> set (kept_messages rp) \<Longrightarrow> t0 \<le> t \<Longrightarrow> pm_Status m = ''pending'' \<Longrightarrow> t0 + ttl_of durations codec (pm_Payload m) \<le> pm_ExpiresAt m \<Longrightarrow>
      (pm_TargetPeerID m, pm_Payload m) \<in> written' \<or> t' > t0 + ttl_of durations codec (pm_Payload m)
      \<or> (\<exists>m'\<in>set (kept_messages rp'). keeps (pm_TargetPeerID m) (pm_Payload m) (t0 + ttl_of durations codec (pm_Payload m)) m')"
  shows "accounted durations codec t' acked written' rp'"
  unfolding accounted_def
proof (clarify, intro conjI)
  fix target data t0 assume "(target, data, t0) \<in> acked"
  then have a: "t0 \<le> t" "(target, data) \<in> written \<or> t > t0 + ttl_of durations codec data
      \<or> (\<exists>m\<in>set (kept_messages rp). keeps target data (t0 + ttl_of durations codec data) m)"
    using assms(1) by (auto simp: accounted_def)
  show "t0 \<le> t'" using a(1) assms(2) by simp
  show "(target, data) \<in> written' \<or> t0 + ttl_of durations codec data < t'
      \<or> (\<exists>m\<in>set (kept_messages rp'). keeps target data (t0 + ttl_of durations codec data) m)"
    using a assms(2,3) assms(4) [OF _ a(1)] by (fastforce simp: keeps_def)
qed

lemma ids_ok_append:
  assumes "ids_ok ids read rp" and "u \<notin> ids" and "kept_messages rp' = kept_messages rp @ [m]" and "pm_MessageID m = u"
  shows "ids_ok (insert u ids) read rp'"
  using assms by (auto simp: ids_ok_def)

lemma ids_ok_same: "ids_ok ids read rp \<Longrightarrow> kept_messages rp' = kept_messages rp \<Longrightarrow> ids \<subseteq> ids' \<Longrightarrow> ids_ok ids' read rp'"
  by (auto simp: ids_ok_def)

lemma forward_accounted:
  assumes "accounted durations codec t acked written rp" and "good_env durations codec env" and "t \<le> v_now env"
    and "forwardDataToTarget env target data rp = (r, rp', w)"
  shows "accounted durations codec (v_now env) (if r = Ok () then insert (target, data, v_now env) acked else acked)
      (if \<exists>st. w = frame st data then insert (target, data) written else written) rp'"
proof -
  note f = forward_writes_or_keeps [OF assms(4,2)]
  let ?W = "if \<exists>st. w = frame st data then insert (target, data) written else written"
  have "accounted durations codec (v_now env) acked ?W rp'"
    by (rule accounted_step [OF assms(1,3)]) (use f in \<open>auto simp: keeps_def\<close>)
  moreover have "r = Ok () \<Longrightarrow> (target, data) \<in> ?W \<or> (\<exists>m\<in>set (kept_messages rp'). keeps target data (v_now env + ttl_of durations codec data) m)"
    using f by auto
  ultimately show ?thesis by (auto simp: accounted_def)
qed

lemma forward_ids:
  assumes "ids_ok ids read rp" and "good_env durations codec env" and "v_uuid env \<notin> ids" and "forwardDataToTarget env target data rp = (r, rp', w)"
  shows "ids_ok (insert (v_uuid env) ids) read rp'"
  using forward_writes_or_keeps [OF assms(4,2)] ids_ok_append [OF assms(1,3)] ids_ok_same [OF assms(1), of rp' "insert (v_uuid env) ids"] by auto

text \<open>Marking a row leaves what identifies rows alone.\<close>

lemma update_message_rows:
  "good_env durations codec env \<Longrightarrow>
   relay_pending_messages (snd (update_message (v_conns env n) i f db)) = sql_update (\<lambda>m. pm_MessageID m = i) f (relay_pending_messages db)"
  by (simp add: update_message_def good_env_def)

lemma marked_ids:
  assumes "good_env durations codec env" and "ids_ok ids read rp" and "\<And>m. same_message m (f m)"
  shows "ids_ok ids read (rp\<lparr>rp_db := snd (update_message (v_conns env n) i f (rp_db rp))\<rparr>)"
proof -
  have f: "pm_MessageID (f m) = pm_MessageID m" for m using assms(3) [of m] by (simp add: same_message_def)
  have "map pm_MessageID (sql_update (\<lambda>m. pm_MessageID m = i) f (kept_messages rp)) = map pm_MessageID (kept_messages rp)"
    by (rule map_sql_update) (rule f)
  moreover have "same_message m (f r)" if "same_message m r" for m r using that assms(3) [of r] by (simp add: same_message_def)
  ultimately show ?thesis
    using assms(2) by (auto simp: ids_ok_def update_message_rows [OF assms(1)] set_sql_update f image_Un image_image)
qed

text \<open>A row that is marked is unaffected, or the message it keeps is accounted for otherwise.\<close>

lemma marked_accounted:
  assumes "accounted durations codec t acked written rp" and "good_env durations codec env" and "t \<le> t'"
    and "\<And>r t0. r \<in> set (kept_messages rp) \<Longrightarrow> pm_MessageID r = i \<Longrightarrow> t0 \<le> t \<Longrightarrow> pm_Status r = ''pending'' \<Longrightarrow>
      t0 + ttl_of durations codec (pm_Payload r) \<le> pm_ExpiresAt r \<Longrightarrow>
      (pm_TargetPeerID r, pm_Payload r) \<in> written \<or> t' > t0 + ttl_of durations codec (pm_Payload r)
      \<or> keeps (pm_TargetPeerID r) (pm_Payload r) (t0 + ttl_of durations codec (pm_Payload r)) (f r)
      \<or> (\<exists>r'\<in>set (kept_messages rp). pm_MessageID r' \<noteq> i
           \<and> keeps (pm_TargetPeerID r) (pm_Payload r) (t0 + ttl_of durations codec (pm_Payload r)) r')"
  shows "accounted durations codec t' acked written (rp\<lparr>rp_db := snd (update_message (v_conns env n) i f (rp_db rp))\<rparr>)"
proof (rule accounted_step [OF assms(1,3) order_refl])
  fix r t0 assume r: "r \<in> set (kept_messages rp)" "t0 \<le> t" "pm_Status r = ''pending''" "t0 + ttl_of durations codec (pm_Payload r) \<le> pm_ExpiresAt r"
  let ?K = "keeps (pm_TargetPeerID r) (pm_Payload r) (t0 + ttl_of durations codec (pm_Payload r))"
  have rows: "set (kept_messages (rp\<lparr>rp_db := snd (update_message (v_conns env n) i f (rp_db rp))\<rparr>))
      = (\<lambda>m. if pm_MessageID m = i then f m else m) ` set (kept_messages rp)"
    by (simp add: update_message_rows [OF assms(2)] set_sql_update)
  have stays: "r' \<in> (\<lambda>m. if pm_MessageID m = i then f m else m) ` set (kept_messages rp)" if "r' \<in> set (kept_messages rp)" "pm_MessageID r' \<noteq> i" for r'
    using that by force
  show "(pm_TargetPeerID r, pm_Payload r) \<in> written \<or> t' > t0 + ttl_of durations codec (pm_Payload r)
      \<or> (\<exists>m'\<in>set (kept_messages (rp\<lparr>rp_db := snd (update_message (v_conns env n) i f (rp_db rp))\<rparr>)). ?K m')"
  proof (cases "pm_MessageID r = i")
    case True
    then have "f r \<in> (\<lambda>m. if pm_MessageID m = i then f m else m) ` set (kept_messages rp)" using r(1) by force
    then show ?thesis unfolding rows using assms(4) [OF r(1) True r(2-4)] stays by blast
  next
    case False
    have "?K r" using r(3,4) by (simp add: keeps_def)
    then show ?thesis unfolding rows using stays [OF r(1) False] by blast
  qed
qed

lemma deliver_keeps:
  assumes "accounted durations codec t acked written rp" and "ids_ok ids read rp" and "good_env durations codec env" and "t \<le> v_now env"
    and "v_uuid env \<notin> ids" and "m \<in> read" and "deliver_one env (pm_TargetPeerID m) m rp = (d, rp', w)"
  shows "ids_ok (insert (v_uuid env) ids) read rp'
    \<and> accounted durations codec (v_now env) acked
        (if \<exists>st. w = frame st (pm_Payload m) then insert (pm_TargetPeerID m, pm_Payload m) written else written) rp'"
proof (cases "v_now env > pm_ExpiresAt m")
  case True
  let ?rp = "rp\<lparr>rp_db := snd (update_message (v_conns env 4) (pm_MessageID m) (\<lambda>m. m\<lparr>pm_Status := ''expired''\<rparr>) (rp_db rp))\<rparr>"
  have rp': "rp' = ?rp" "w = []" using assms(7) True by (auto simp: deliver_one_def MarkMessageExpired_def)
  have same: "same_message m r" if "r \<in> set (kept_messages rp)" "pm_MessageID r = pm_MessageID m" for r
    using assms(2,6) that by (auto simp: ids_ok_def)
  have "accounted durations codec (v_now env) acked written rp'" unfolding rp'
    by (rule marked_accounted [OF assms(1,3,4)]) (use same True in \<open>auto simp: same_message_def\<close>)
  moreover have "ids_ok ids read rp'" unfolding rp' by (rule marked_ids [OF assms(3,2)]) (simp add: same_message_def)
  ultimately show ?thesis using ids_ok_same [of ids read rp' rp'] by (auto simp: rp' frame_def)
next
  case False
  obtain r rp1 w1 where fw: "forwardDataToTarget env (pm_TargetPeerID m) (pm_Payload m) rp = (r, rp1, w1)" by (metis prod_cases3)
  have w: "w = w1" using assms(7) False fw by (auto simp: deliver_one_def Let_def split: go_result.splits)
  define W where "W = (if \<exists>st. w = frame st (pm_Payload m) then insert (pm_TargetPeerID m, pm_Payload m) written else written)"
  note ids = forward_ids [OF assms(2,3,5) fw]
  have acc: "accounted durations codec (v_now env) acked W rp1"
    using forward_accounted [OF assms(1,3,4) fw] unfolding W_def w by (auto simp: accounted_def split: if_splits)
  show ?thesis
  proof (cases r)
    case (Ok u)
    let ?f = "\<lambda>m. m\<lparr>pm_Status := ''delivered'', pm_DeliveredAt := Some (v_now env)\<rparr>"
    have rp': "rp' = rp1\<lparr>rp_db := snd (update_message (v_conns env 4) (pm_MessageID m) ?f (rp_db rp1))\<rparr>"
      using assms(7) False fw Ok by (auto simp: deliver_one_def MarkMessageDelivered_def)
    have same: "same_message m r" if "r \<in> set (kept_messages rp1)" "pm_MessageID r = pm_MessageID m" for r
      using ids assms(6) that by (auto simp: ids_ok_def)
    have new: "(pm_TargetPeerID m, pm_Payload m) \<in> W \<or>
        (\<exists>m'\<in>set (kept_messages rp1). pm_MessageID m' = v_uuid env \<and> keeps (pm_TargetPeerID m) (pm_Payload m) (v_now env + ttl_of durations codec (pm_Payload m)) m')"
      using forward_writes_or_keeps [OF fw assms(3)] Ok by (auto simp: W_def w)
    have fresh: "v_uuid env \<noteq> pm_MessageID m" using assms(2,5,6) by (auto simp: ids_ok_def)
    have "accounted durations codec (v_now env) acked W rp'" unfolding rp'
      by (rule marked_accounted [OF acc assms(3) order_refl]) (use new same fresh in \<open>fastforce simp: same_message_def keeps_def\<close>)
    moreover have "ids_ok (insert (v_uuid env) ids) read rp'" unfolding rp' by (rule marked_ids [OF assms(3) ids]) (simp add: same_message_def)
    ultimately show ?thesis by (simp add: W_def)
  next
    case (Err e)
    let ?f = "\<lambda>m. m\<lparr>pm_DeliveryAttempts := pm_DeliveryAttempts m + 1, pm_LastDeliveryAttempt := Some (v_now env)\<rparr>"
    have rp': "rp' = rp1\<lparr>rp_db := snd (update_message (v_conns env 4) (pm_MessageID m) ?f (rp_db rp1))\<rparr>"
      using assms(7) False fw Err by (auto simp: deliver_one_def IncrementDeliveryAttempt_def Let_def)
    have "accounted durations codec (v_now env) acked W rp'" unfolding rp'
      by (rule marked_accounted [OF acc assms(3) order_refl]) (auto simp: keeps_def)
    moreover have "ids_ok (insert (v_uuid env) ids) read rp'" unfolding rp' by (rule marked_ids [OF assms(3) ids]) (simp add: same_message_def)
    ultimately show ?thesis by (simp add: W_def)
  next
    case Panic
    then have "rp' = rp1" using assms(7) False fw by (auto simp: deliver_one_def)
    then show ?thesis using ids acc by (simp add: W_def)
  qed
qed

lemma cleanup_rows:
  assumes "\<And>n. fault (cs n) = NoFault" and "m \<in> set (kept_messages (cleanupExpiredMessages cs now rp))"
  shows "m \<in> set (kept_messages rp)"
  using assms by (auto simp: cleanupExpiredMessages_def DeleteExpiredMessages_def delete_messages_def sql_delete_def Let_def)

lemma cleanup_survivors:
  assumes "\<And>n. fault (cs n) = NoFault" and "m \<in> set (kept_messages rp)" and "pm_Status m = ''pending''" and "now \<le> pm_ExpiresAt m"
  shows "m \<in> set (kept_messages (cleanupExpiredMessages cs now rp))"
  using assms by (auto simp: cleanupExpiredMessages_def DeleteExpiredMessages_def delete_messages_def sql_delete_def Let_def)

lemma cleanup_distinct:
  "distinct (map pm_MessageID (kept_messages rp)) \<Longrightarrow> distinct (map pm_MessageID (kept_messages (cleanupExpiredMessages cs now rp)))"
  by (auto simp: cleanupExpiredMessages_def DeleteExpiredMessages_def delete_messages_def Let_def)

lemma history_invariant:
  "relay_history durations codec t ids read acked written rp \<Longrightarrow> ids_ok ids read rp \<and> accounted durations codec t acked written rp"
proof (induction rule: relay_history.induct)
  case (start rp t)
  then show ?case by (simp add: ids_ok_def accounted_def)
next
  case (other t ids read acked written rp rp' t')
  then have acc: "accounted durations codec t acked written rp" by simp
  have "accounted durations codec t' acked written rp'"
    by (rule accounted_step [OF acc other.hyps(3) order_refl]) (use other.hyps(2) in \<open>auto simp: keeps_def\<close>)
  then show ?case using other ids_ok_same [of ids read rp rp' ids] by simp
next
  case (forward t ids read acked written rp env target data r rp' w)
  then show ?case
    using forward_ids [OF _ forward.hyps(2,4,5)] forward_accounted [OF _ forward.hyps(2,3,5)] by blast
next
  case (fetch t ids read acked written rp c scan now target ms)
  have "set ms \<subseteq> set (kept_messages rp)"
    using fetch.hyps(2,3) by (auto simp: GetPendingMessagesForPeer_def split: if_splits dest!: in_set_takeD)
  moreover have "same_message m r" if "m \<in> set (kept_messages rp)" "r \<in> set (kept_messages rp)" "pm_MessageID m = pm_MessageID r"
    "distinct (map pm_MessageID (kept_messages rp))" for m r
    using that by (auto simp: same_message_def distinct_map inj_on_def)
  ultimately show ?case using fetch.IH by (auto simp: ids_ok_def subset_iff)
next
  case (deliver t ids read acked written rp env m d rp' w)
  then show ?case using deliver_keeps [OF _ _ deliver.hyps(2-6)] by blast
next
  case (cleanup t ids read acked written rp now cs)
  have "accounted durations codec now acked written (cleanupExpiredMessages cs now rp)"
  proof (rule accounted_step [of _ _ t _ _ rp])
    fix m t0 assume m: "m \<in> set (kept_messages rp)" "pm_Status m = ''pending''" "t0 + ttl_of durations codec (pm_Payload m) \<le> pm_ExpiresAt m"
    show "(pm_TargetPeerID m, pm_Payload m) \<in> written \<or> now > t0 + ttl_of durations codec (pm_Payload m)
      \<or> (\<exists>m'\<in>set (kept_messages (cleanupExpiredMessages cs now rp)). keeps (pm_TargetPeerID m) (pm_Payload m) (t0 + ttl_of durations codec (pm_Payload m)) m')"
    proof (cases "now \<le> pm_ExpiresAt m")
      case True
      then have "m \<in> set (kept_messages (cleanupExpiredMessages cs now rp))" using m(1,2) cleanup.hyps(3) by (intro cleanup_survivors)
      then show ?thesis using m(2,3) by (auto simp: keeps_def)
    qed (use m(3) in auto)
  qed (use cleanup.IH cleanup.hyps(2) in auto)
  moreover have "set (kept_messages (cleanupExpiredMessages cs now rp)) \<subseteq> set (kept_messages rp)"
    using cleanup_rows [of cs _ now rp] cleanup.hyps(3) by blast
  then have "ids_ok ids read (cleanupExpiredMessages cs now rp)"
    using cleanup.IH cleanup_distinct [of rp cs now] unfolding ids_ok_def by (auto simp: image_subset_iff subset_iff)
  ultimately show ?case by simp
qed


text \<open>
  The operations of the relay are such histories: delivering all messages of a peer is a sequence of deliveries, and a
  forwarding request changes the sessions and forwards its payload.
\<close>

lemma deliver_messages_history:
  assumes "relay_history durations codec t ids read acked written rp" and "deliver_messages envs k target ms rp = (res, rp', w)"
    and "set ms \<subseteq> read" and "\<And>m. m \<in> set ms \<Longrightarrow> pm_TargetPeerID m = target" and "\<And>i. good_env durations codec (envs i)"
    and "mono (\<lambda>i. v_now (envs i))" and "t \<le> v_now (envs k)" and "inj (\<lambda>i. v_uuid (envs i))" and "\<And>i. k \<le> i \<Longrightarrow> v_uuid (envs i) \<notin> ids"
  shows "\<exists>t' ids' written'. relay_history durations codec t' ids' read acked written' rp'"
  using assms(1,2,3,4,7,9)
proof (induction ms arbitrary: k t ids written rp res w)
  case Nil
  then show ?case by auto
next
  case (Cons m ms)
  obtain d rp1 w1 where d: "deliver_one (envs k) target m rp = (d, rp1, w1)" by (metis prod_cases3)
  have target: "pm_TargetPeerID m = target" using Cons.prems(4) by simp
  have h: "relay_history durations codec (v_now (envs k)) (insert (v_uuid (envs k)) ids) read acked
      (if \<exists>st. w1 = frame st (pm_Payload m) then insert (pm_TargetPeerID m, pm_Payload m) written else written) rp1"
    by (rule relay_history.deliver [OF Cons.prems(1) assms(5) Cons.prems(5)]) (use Cons.prems(3,6) d target in auto)
  show ?case
  proof (cases d)
    case (Continue n b)
    obtain r2 w2 where rest: "deliver_messages envs (Suc k) target ms rp1 = (r2, rp', w2)"
      using Cons.prems(2) d Continue by (auto split: prod.splits)
    have "v_now (envs k) \<le> v_now (envs (Suc k))" using assms(6) by (simp add: mono_def)
    moreover have "v_uuid (envs i) \<notin> insert (v_uuid (envs k)) ids" if "Suc k \<le> i" for i
      using that Cons.prems(6) [of i] injD [OF assms(8), of i k] by auto
    ultimately show ?thesis using Cons.IH [OF h rest] Cons.prems(3,4) by auto
  qed (use Cons.prems(2) d h in auto)
qed

lemma traffic_keeps_messages [simp]: "kept_messages (add_traffic env p i src ty n rp) = kept_messages rp"
  by (auto simp: add_traffic_def rdb_RecordTraffic_def Let_def)

lemma request_cases:
  assumes "HandleRelayForward env (Some data) st rp = (r, rp', w)" and "rf_MessageType data \<notin> set responseTypes"
  shows "kept_messages rp' = kept_messages rp \<and> r \<noteq> Ok ()
    \<or> (\<exists>payload rp0 q rp1 w1. forwardDataToTarget env (rf_TargetPeerID data) payload rp0 = (q, rp1, w1)
         \<and> kept_messages rp0 = kept_messages rp \<and> kept_messages rp' = kept_messages rp1 \<and> (r = Ok () \<longrightarrow> q = Ok ()))"
proof (cases "map_of (rp_sessions rp) (rf_SessionID data)")
  case None
  define payload where "payload = (case (if rf_MessageType data \<in> set attributedTypes \<or> rf_MessageType data = ''service_search''
      then inject_source (v_codec env) data else None) of Some p \<Rightarrow> p | None \<Rightarrow> rf_Payload data)"
  obtain q rp1 w1 where fw: "forwardDataToTarget env (rf_TargetPeerID data) payload rp = (q, rp1, w1)" by (metis prod_cases3)
  have run: "forward_without_session env data st rp = (r, rp', w)"
    using assms None by (simp add: HandleRelayForward_def handleRelayRequest_def)
  show ?thesis
  proof (cases "slice8 (rf_SessionID data) = None \<or> slice8 (rf_TargetPeerID data) = None")
    case True
    then show ?thesis using run by (auto simp: forward_without_session_def)
  next
    case False
    then have "rp' = rp1 \<and> (r = Ok () \<longrightarrow> q = Ok ())"
      using run fw unfolding forward_without_session_def payload_def [symmetric] Let_def by (cases q) auto
    then show ?thesis using fw by blast
  qed
next
  case (Some p)
  let ?rp1 = "rp\<lparr>pendingRequests := AList.update (rf_SourcePeerID data @ '':'' @ rf_TargetPeerID data)
      \<lparr>pr_Stream = st, pr_RequestTime = v_now env, pr_SourcePeerID = rf_SourcePeerID data, pr_TargetPeerID = rf_TargetPeerID data\<rparr> (pendingRequests rp)\<rparr>"
  define rp2 where "rp2 = add_traffic env p (rf_SessionID data) (rf_SourcePeerID data)
      (if is_coordination (rf_MessageType data) then ''coordination'' else ''relay'') (rf_PayloadSize data) ?rp1"
  have rp2: "kept_messages rp2 = kept_messages rp" by (simp add: rp2_def)
  have run: "handleRelayRequest env data st rp = (r, rp', w)" using assms by (simp add: HandleRelayForward_def)
  note run' = run [unfolded handleRelayRequest_def Some option.case Let_def, folded rp2_def]
  show ?thesis
  proof (cases "is_coordination (rf_MessageType data) \<and> freeCoordination rp \<and> rf_PayloadSize data > maxCoordMsgSize rp")
    case True
    then show ?thesis using run' by auto
  next
    case False
    show ?thesis
    proof (cases "attributed_payload env data")
      case None
      then show ?thesis using run' False rp2 by auto
    next
      case (Some payload)
      obtain q rp3 w1 where fw: "forwardDataToTarget env (rf_TargetPeerID data) payload rp2 = (q, rp3, w1)" by (metis prod_cases3)
      have "kept_messages rp' = kept_messages rp3 \<and> (r = Ok () \<longrightarrow> q = Ok ())" using run' False Some fw by (cases q) auto
      then show ?thesis using fw rp2 by blast
    qed
  qed
qed

lemma request_history:
  assumes "relay_history durations codec t ids read acked written rp" and "good_env durations codec env" and "t \<le> v_now env" and "v_uuid env \<notin> ids"
    and "HandleRelayForward env (Some data) st rp = (r, rp', w)" and "rf_MessageType data \<notin> set responseTypes"
  shows "\<exists>ids' acked' written'. relay_history durations codec (v_now env) ids' read acked' written' rp' \<and> acked \<subseteq> acked'
    \<and> (r = Ok () \<longrightarrow> (\<exists>payload. (rf_TargetPeerID data, payload, v_now env) \<in> acked'))"
proof -
  have step: "?thesis" if fw: "forwardDataToTarget env (rf_TargetPeerID data) payload rp0 = (q, rp1, w1)"
    and rp0: "kept_messages rp0 = kept_messages rp" and rp1: "kept_messages rp' = kept_messages rp1" and ok: "r = Ok () \<Longrightarrow> q = Ok ()" for payload rp0 q rp1 w1
  proof -
    have h0: "relay_history durations codec t ids read acked written rp0" by (rule relay_history.other [OF assms(1) rp0]) simp
    let ?A = "if q = Ok () then insert (rf_TargetPeerID data, payload, v_now env) acked else acked"
    have "acked \<subseteq> ?A" "r = Ok () \<longrightarrow> (rf_TargetPeerID data, payload, v_now env) \<in> ?A" using ok by auto
    then show ?thesis using relay_history.other [OF relay_history.forward [OF h0 assms(2-4) fw] rp1 order_refl] by blast
  qed
  show ?thesis
    using request_cases [OF assms(5,6)]
  proof (elim disjE exE conjE)
    assume "kept_messages rp' = kept_messages rp" "r \<noteq> Ok ()"
    then show ?thesis using relay_history.other [OF assms(1) _ assms(3)] by blast
  qed (rule step, assumption+, blast)
qed

text \<open>A relay with the default configuration and one client, whose stream is 7; every message is a chat message.\<close>

definition sample_codec :: quic_codec where
  "sample_codec = \<lparr>UnmarshalQUICMessage = (\<lambda>bs. Some \<lparr>qm_Type = ''chat_message'', qm_Version = 1, qm_Timestamp = [], qm_RequestID = [],
     qm_SourcePeerID = [], qm_Data = None\<rparr>), Marshal = (\<lambda>_. None)\<rparr>"

definition sample_relay_env :: "int \<Rightarrow> string \<Rightarrow> (nat \<Rightarrow> bool) \<Rightarrow> relay_env" where
  "sample_relay_env now uuid ok = \<lparr>v_now = now, v_uuid = uuid, v_conns = \<lambda>_. good_conn, v_writes = ok, v_duration = \<lambda>_ d. d,
     v_codec = sample_codec, v_lib = decimal_lib, v_verify = yes_net, v_settle = settle_net, v_refund = yes_net\<rparr>"

definition sample_session :: RelaySession where
  "sample_session = \<lparr>se_SessionID = ''session-1'', ClientPeerID = ''provider'', ClientNodeID = ''node-1'', RelayNodeID = [],
     SessionType = ''full_relay'', se_Connection = 0, ReceiveStream = Some 7, se_StartTime = 0, LastKeepalive = 0, KeepaliveInterval = 30,
     IngressBytes = 0, EgressBytes = 0, PaymentID = 0, EstimatedBytes = 0\<rparr>"

definition sample_relay :: RelayPeer where
  "sample_relay = \<lparr>rp_config = \<lparr>configsPath = [], configs = Map.empty\<rparr>, isRelayMode = True, maxConnections = 100, pricingPerGB = Fin 1,
     freeCoordination = True, maxCoordMsgSize = 10240, session_objs = [sample_session], rp_sessions = [(''session-1'', 0)],
     clientSessions = [(''provider'', [0])], registeredClients = [(''provider'', 0)], pendingRequests = [],
     rp_db = empty_relay_db, rp_escrow = sample_em, rp_payments = empty_payments []\<rparr>"

lemmas sample_relay_defs = sample_relay_def sample_session_def sample_relay_env_def sample_codec_def empty_relay_db_def good_conn_def

lemma sample_limits:
  "GetConfigBool \<lparr>configsPath = [], configs = Map.empty\<rparr> ''relay_store_enabled'' True"
  "GetConfigInt64 \<lparr>configsPath = [], configs = Map.empty\<rparr> ''relay_store_max_messages'' 1000 0 1000000 = 1000"
  "GetConfigInt64 \<lparr>configsPath = [], configs = Map.empty\<rparr> ''relay_store_max_bytes'' 104857600 0 10737418240 = 104857600"
  "GetConfigInt64 \<lparr>configsPath = [], configs = Map.empty\<rparr> ''relay_store_max_message_size'' 10485760 0 104857600 = 10485760"
proof -
  show "GetConfigBool \<lparr>configsPath = [], configs = Map.empty\<rparr> ''relay_store_enabled'' True" by code_simp
qed (simp_all add: GetConfigInt64_def GetConfigWithDefault_def GetConfig_def ParseInt64_def)


end
