(* ===== verification/Relay_Client.thy ===== *)
theory Relay_Client
  imports Relay_Keeping
begin

text \<open>
  The other end of a receive stream: \<open>listenForRelayedMessages\<close> of \<open>internal/p2p/relay_manager.go\<close> cuts the bytes of the
  stream into messages.  A \<open>Read\<close> returns at least one byte and as many as are there, up to the size of its
  buffer: \<open>heads n\<close> and \<open>parts n\<close> say how many the \<open>n\<close>-th one offers, for lengths and for bodies.  The bytes of a stream are finite: the listener
  ends with the error of the read behind them.
\<close>

section \<open>The listener\<close>

definition read_some :: "nat \<Rightarrow> nat \<Rightarrow> bytes \<Rightarrow> bytes \<times> bytes" where
  "read_some offered cap bs = (let n = max 1 (min cap offered) in (take n bs, drop n bs))"

text \<open>The loop that fills the buffer of a message; \<open>None\<close> when the stream ends before.\<close>

function read_body :: "(nat \<Rightarrow> nat) \<Rightarrow> nat \<Rightarrow> nat \<Rightarrow> bytes \<Rightarrow> (bytes \<times> bytes \<times> nat) option" where
  "read_body parts k need bs =
     (if need = 0 then Some ([], bs, k)
      else if bs = [] then None
      else let (got, rest) = read_some (parts k) need bs
           in map_option (\<lambda>(body, rest', k'). (got @ body, rest', k')) (read_body parts (Suc k) (need - length got) rest))"
  by pat_completeness auto
termination
  by (relation "measure (\<lambda>(_, _, need, _). need)") (auto simp: read_some_def Let_def)

declare read_body.simps [simp del]

definition parse_length :: "bytes \<Rightarrow> nat" where
  "parse_length buf = unat (buf ! 0) * 2 ^ 24 + unat (buf ! 1) * 2 ^ 16 + unat (buf ! 2) * 2 ^ 8 + unat (buf ! 3)"

lemma read_body_shrinks: "read_body parts k need bs = Some (body, rest, k') \<Longrightarrow> length rest \<le> length bs"
proof (induction parts k need bs arbitrary: body rest k' rule: read_body.induct)
  case (1 parts k need bs)
  show ?case using "1.prems" "1.IH" by (subst (asm) read_body.simps) (fastforce simp: read_some_def Let_def split: if_splits)
qed

function listenForRelayedMessages :: "(nat \<Rightarrow> nat) \<Rightarrow> (nat \<Rightarrow> nat) \<Rightarrow> nat \<Rightarrow> nat \<Rightarrow> bytes \<Rightarrow> bytes list" where
  "listenForRelayedMessages heads parts h k bs =
     (if bs = [] then []
      else let (got, rest) = read_some (heads h) 4 bs; messageLength = parse_length (copy_arr 4 got)
           in if messageLength = 0 \<or> messageLength > 10 * 1024 * 1024 then listenForRelayedMessages heads parts (Suc h) k rest
              else case read_body parts k messageLength rest of
                     None \<Rightarrow> []
                   | Some (body, rest', k') \<Rightarrow> body # listenForRelayedMessages heads parts (Suc h) k' rest')"
  by pat_completeness auto
termination
  by (relation "measure (\<lambda>(_, _, _, _, bs). length bs)") (auto simp: read_some_def Let_def le_eq_less_or_eq dest!: read_body_shrinks)

declare listenForRelayedMessages.simps [simp del]

section \<open>What the relay writes is what the client reads\<close>

definition stream_bytes :: "stream_id \<Rightarrow> writes \<Rightarrow> bytes" where
  "stream_bytes st w = concat (map (\<lambda>x. case x of Raw s b \<Rightarrow> if s = st then b else [] | Answer s e \<Rightarrow> []) w)"

lemma stream_bytes_simps [simp]:
  "stream_bytes st [] = []" "stream_bytes st (v @ w) = stream_bytes st v @ stream_bytes st w"
  "stream_bytes st (frame st data) = lengthPrefix (length data) @ data"
  by (simp_all add: stream_bytes_def frame_def)

lemma length_lengthPrefix [simp]: "length (lengthPrefix n) = 4"
  by (simp add: lengthPrefix_def)

lemma parse_lengthPrefix:
  assumes "n < 2 ^ 32"
  shows "parse_length (lengthPrefix n) = n"
proof -
  define a b c where "a = n div 256" and "b = a div 256" and "c = b div 256"
  note defs = this
  have d: "n div 65536 = b" "n div 16777216 = c" by (simp_all add: defs div_mult2_eq [symmetric])
  have "c < 256" using assms by (simp add: defs div_mult2_eq [symmetric])
  then have "c mod 256 = c" by simp
  moreover have "n = a * 256 + n mod 256" "a = b * 256 + a mod 256" "b = c * 256 + b mod 256" unfolding defs by (simp_all only: div_mult_mod_eq)
  ultimately have "c mod 256 * 16777216 + b mod 256 * 65536 + a mod 256 * 256 + n mod 256 = n" by linarith
  then show ?thesis by (simp add: parse_length_def lengthPrefix_def unat_of_nat d a_def)
qed

lemma read_body_exact: "\<exists>k'. read_body parts k (length data) (data @ rest) = Some (data, rest, k')"
proof (induction "length data" arbitrary: data k rule: less_induct)
  case less
  show ?case
  proof (cases "data = []")
    case True
    then show ?thesis by (simp add: read_body.simps)
  next
    case False
    let ?n = "max 1 (min (length data) (parts k))"
    have n: "0 < ?n" "?n \<le> length data" using False by (auto simp: Suc_le_eq)
    then have "length (drop ?n data) < length data" by simp
    then obtain k' where "read_body parts (Suc k) (length (drop ?n data)) (drop ?n data @ rest) = Some (drop ?n data, rest, k')"
      using less by blast
    then show ?thesis using n False by (subst read_body.simps) (auto simp: read_some_def Let_def)
  qed
qed

lemma listen_frames:
  assumes "\<And>n. heads n \<ge> 4" and "list_all (\<lambda>d. 0 < length d \<and> length d \<le> 10 * 1024 * 1024) ds"
  shows "listenForRelayedMessages heads parts h k (concat (map (\<lambda>d. lengthPrefix (length d) @ d) ds)) = ds"
  using assms(2)
proof (induction ds arbitrary: h k)
  case Nil
  then show ?case by (simp add: listenForRelayedMessages.simps)
next
  case (Cons d ds)
  let ?rest = "concat (map (\<lambda>d. lengthPrefix (length d) @ d) ds)"
  have len: "parse_length (copy_arr 4 (lengthPrefix (length d))) = length d"
    using Cons.prems by (simp add: parse_lengthPrefix)
  have head: "read_some (heads h) 4 (lengthPrefix (length d) @ d @ ?rest) = (lengthPrefix (length d), d @ ?rest)"
    using assms(1) [of h] by (simp add: read_some_def Let_def min_absorb1)
  obtain k' where "read_body parts k (length d) (d @ ?rest) = Some (d, ?rest, k')" using read_body_exact by blast
  moreover have "lengthPrefix (length d) @ d @ ?rest \<noteq> []" by (simp add: lengthPrefix_def)
  moreover have "\<not> (length d = 0 \<or> length d > 10 * 1024 * 1024)" using Cons.prems by auto
  ultimately have "listenForRelayedMessages heads parts h k (lengthPrefix (length d) @ d @ ?rest)
      = d # listenForRelayedMessages heads parts (Suc h) k' ?rest"
    by (subst listenForRelayedMessages.simps) (simp only: head len Let_def prod.case option.case if_False)
  then show ?case using Cons by simp
qed

text \<open>
  C37. Frames arrive as they were written.  Whatever sequence of messages the relay writes to a receive stream, each of at
  least one byte and at most 10 MiB, the client's listener cuts the bytes into exactly that sequence, however the bodies are split into
  reads, as long as no read splits one of the length prefixes.
\<close>

theorem relayed_frames_roundtrip:
  assumes "\<And>n. heads n \<ge> 4" and "list_all (\<lambda>d. 0 < length d \<and> length d \<le> 10 * 1024 * 1024) ds"
  shows "listenForRelayedMessages heads parts 0 0 (stream_bytes st (concat (map (frame st) ds))) = ds"
proof -
  have "stream_bytes st (concat (map (frame st) ds)) = concat (map (\<lambda>d. lengthPrefix (length d) @ d) ds)"
    by (induction ds) simp_all
  then show ?thesis using listen_frames [of heads ds parts 0 0] assms by simp
qed

theorem relayed_frames_roundtrip_witness:
  "listenForRelayedMessages (\<lambda>_. 4) (\<lambda>_. 1) 0 0 (stream_bytes 7 (concat (map (frame 7) [[1, 2, 3], [4]]))) = [[1, 2, 3], [4]]"
  by (rule relayed_frames_roundtrip) simp_all

end
