(* ===== verification/Relay_Delivery.thy ===== *)
theory Relay_Delivery
  imports Relay_Client "HOL-Library.Multiset"
begin

text \<open>
  Delivery of what the relay kept: a peer whose stream works gets everything that waits for it, a hundred messages with each
  notification; and the account of what is kept for a peer, which expiry never reduces.
\<close>

section \<open>A working stream\<close>

definition listening :: "RelayPeer \<Rightarrow> string \<Rightarrow> stream_id \<Rightarrow> bool" where
  "listening rp target st \<longleftrightarrow>
     (case map_of (registeredClients rp) target of
        None \<Rightarrow> False
      | Some p \<Rightarrow> p < length (session_objs rp) \<and> ReceiveStream (session_objs rp ! p) = Some st)"

definition waiting :: "string \<Rightarrow> RelayPeer \<Rightarrow> PendingMessage list" where
  "waiting target rp = filter (\<lambda>m. pm_TargetPeerID m = target \<and> pm_Status m = ''pending'') (kept_messages rp)"

lemma listening_db [simp]: "listening (rp\<lparr>rp_db := db\<rparr>) target st = listening rp target st"
  by (simp add: listening_def split: option.split)

lemma forward_works:
  assumes "listening rp target st" and "v_writes env 0" and "v_writes env 1"
  shows "\<exists>rp'. forwardDataToTarget env target data rp = (Ok (), rp', frame st data) \<and> listening rp' target st \<and> rp_db rp' = rp_db rp"
  using assms by (auto simp: listening_def forwardDataToTarget_def obj_def frame_def upd_obj_def Let_def split: option.splits)

definition mark_delivered :: "int \<Rightarrow> PendingMessage \<Rightarrow> PendingMessage" where
  "mark_delivered now m = m\<lparr>pm_Status := ''delivered'', pm_DeliveredAt := Some now\<rparr>"

lemma deliver_one_works:
  assumes "listening rp target st" and "good_env durations codec env" and "\<And>n. v_writes env n" and "v_now env \<le> pm_ExpiresAt m"
  shows "\<exists>rp'. deliver_one env target m rp = (Continue 1 (pm_PayloadSize m), rp', frame st (pm_Payload m)) \<and> listening rp' target st
    \<and> kept_messages rp' = sql_update (\<lambda>r. pm_MessageID r = pm_MessageID m) (mark_delivered (v_now env)) (kept_messages rp)"
proof -
  obtain rp1 where f: "forwardDataToTarget env target (pm_Payload m) rp = (Ok (), rp1, frame st (pm_Payload m))"
    "listening rp1 target st" "rp_db rp1 = rp_db rp" using forward_works [OF assms(1)] assms(3) by blast
  have "mark_delivered (v_now env) = (\<lambda>m. m\<lparr>pm_Status := ''delivered'', pm_DeliveredAt := Some (v_now env)\<rparr>)"
    by (simp add: mark_delivered_def fun_eq_iff)
  then show ?thesis using f assms(4)
    by (auto simp: deliver_one_def MarkMessageDelivered_def update_message_rows [OF assms(2)])
qed

lemma waiting_marked:
  assumes "kept_messages rp' = sql_update (\<lambda>r. pm_MessageID r = i) (mark_delivered now) (kept_messages rp)"
  shows "waiting target rp' = filter (\<lambda>m. pm_MessageID m \<noteq> i) (waiting target rp)"
proof -
  have "filter (\<lambda>m. pm_TargetPeerID m = target \<and> pm_Status m = ''pending'') (sql_update (\<lambda>r. pm_MessageID r = i) (mark_delivered now) rows)
      = filter (\<lambda>m. pm_MessageID m \<noteq> i) (filter (\<lambda>m. pm_TargetPeerID m = target \<and> pm_Status m = ''pending'') rows)" for rows
    by (induction rows) (auto simp: mark_delivered_def)
  then show ?thesis by (simp add: waiting_def assms)
qed

lemma marked_distinct:
  assumes "kept_messages rp' = sql_update (\<lambda>r. pm_MessageID r = i) (mark_delivered now) (kept_messages rp)"
  shows "map pm_MessageID (kept_messages rp') = map pm_MessageID (kept_messages rp)"
  unfolding assms by (rule map_sql_update) (simp add: mark_delivered_def)

lemma deliver_messages_works:
  assumes "listening rp target st" and "\<And>i. good_env durations codec (envs i)" and "\<And>i n. v_writes (envs i) n"
    and "\<And>i m. m \<in> set ms \<Longrightarrow> v_now (envs i) \<le> pm_ExpiresAt m"
  shows "\<exists>rp'. deliver_messages envs k target ms rp = (Some (length ms, sum_list (map pm_PayloadSize ms)), rp', concat (map (\<lambda>m. frame st (pm_Payload m)) ms))
    \<and> listening rp' target st \<and> waiting target rp' = filter (\<lambda>m. pm_MessageID m \<notin> pm_MessageID ` set ms) (waiting target rp)
    \<and> map pm_MessageID (kept_messages rp') = map pm_MessageID (kept_messages rp)"
  using assms(1,4)
proof (induction ms arbitrary: k rp)
  case (Cons m ms)
  obtain rp1 where one: "deliver_one (envs k) target m rp = (Continue 1 (pm_PayloadSize m), rp1, frame st (pm_Payload m))" "listening rp1 target st"
    and rows: "kept_messages rp1 = sql_update (\<lambda>r. pm_MessageID r = pm_MessageID m) (mark_delivered (v_now (envs k))) (kept_messages rp)"
    using deliver_one_works [OF Cons.prems(1) assms(2) assms(3)] Cons.prems(2) [of m k] by auto
  obtain rp' where rest: "deliver_messages envs (Suc k) target ms rp1
      = (Some (length ms, sum_list (map pm_PayloadSize ms)), rp', concat (map (\<lambda>m. frame st (pm_Payload m)) ms))"
    "listening rp' target st" "waiting target rp' = filter (\<lambda>m. pm_MessageID m \<notin> pm_MessageID ` set ms) (waiting target rp1)"
    "map pm_MessageID (kept_messages rp') = map pm_MessageID (kept_messages rp1)"
    using Cons.IH [OF one(2)] Cons.prems(2) by (metis list.set_intros(2))
  show ?case using one(1) rest waiting_marked [OF rows, of target] marked_distinct [OF rows] by (auto intro: filter_cong)
qed simp

section \<open>One notification\<close>

lemma filter_rest: "distinct (map f (xs @ ys)) \<Longrightarrow> filter (\<lambda>m. f m \<notin> f ` set xs) (xs @ ys) = ys"
  by (auto simp: filter_id_conv filter_empty_conv)

lemma deliver_round:
  assumes "listening rp target st" and "slice8 target \<noteq> None" and "\<And>i. good_env durations codec (envs i)" and "\<And>i n. v_writes (envs i) n"
    and "\<And>i m. m \<in> set (waiting target rp) \<Longrightarrow> v_now (envs i) < pm_ExpiresAt m" and "\<And>rows. mset (scan rows) = mset rows"
    and "distinct (map pm_MessageID (kept_messages rp))"
  shows "\<exists>rp' ms. deliverPendingMessages envs scan target rp = (False, rp', concat (map (\<lambda>m. frame st (pm_Payload m)) ms))
    \<and> listening rp' target st \<and> mset (waiting target rp) = mset ms + mset (waiting target rp') \<and> length ms = min 100 (length (waiting target rp))
    \<and> distinct (map pm_MessageID (kept_messages rp'))"
proof -
  let ?W = "waiting target rp"
  define all where "all = sort_key (\<lambda>m. - pm_Priority m) (sort_key pm_CreatedAt (scan ?W))"
  have all: "mset all = mset ?W" by (simp add: all_def assms(6))
  have "filter (\<lambda>m. pm_TargetPeerID m = target \<and> pm_Status m = ''pending'' \<and> pm_ExpiresAt m > v_now (envs 0)) (kept_messages rp) = ?W"
    unfolding waiting_def by (rule filter_cong) (use assms(5) [of _ 0] in \<open>auto simp: waiting_def\<close>)
  then have get: "GetPendingMessagesForPeer (v_conns (envs 0) 5) scan (v_now (envs 0)) target (rp_db rp) = Inr (take 100 all)"
    using assms(3) [of 0] by (simp add: GetPendingMessagesForPeer_def all_def good_env_def)
  have live: "v_now (envs i) \<le> pm_ExpiresAt m" if "m \<in> set (take 100 all)" for i m
    using assms(5) [of m i] in_set_takeD [OF that] mset_eq_setD [OF all] by auto
  obtain rp1 where run: "deliver_messages envs 0 target (take 100 all) rp = (Some (length (take 100 all), sum_list (map pm_PayloadSize (take 100 all))), rp1,
      concat (map (\<lambda>m. frame st (pm_Payload m)) (take 100 all)))" "listening rp1 target st"
    and left: "waiting target rp1 = filter (\<lambda>m. pm_MessageID m \<notin> pm_MessageID ` set (take 100 all)) ?W"
    and ids: "map pm_MessageID (kept_messages rp1) = map pm_MessageID (kept_messages rp)"
    using deliver_messages_works [of rp target st durations codec envs "take 100 all" 0] assms(1,3,4) live by blast
  let ?rp' = "if length (take 100 all) > 0 then rp1\<lparr>rp_db := snd (DecrementStorageUsage (v_conns (envs 0) 6) (v_now (envs 0)) target
      (int (length (take 100 all))) (sum_list (map pm_PayloadSize (take 100 all))) (rp_db rp1))\<rparr> else rp1"
  have "distinct (map pm_MessageID ?W)" using assms(7) by (simp add: waiting_def distinct_map_filter)
  then have d: "distinct (map pm_MessageID all)" using all by (metis mset_eq_imp_distinct_iff mset_map)
  have "mset (drop 100 all) = mset (filter (\<lambda>m. pm_MessageID m \<notin> pm_MessageID ` set (take 100 all)) all)"
    using filter_rest [of pm_MessageID "take 100 all" "drop 100 all"] d by (simp only: append_take_drop_id)
  also have "\<dots> = mset (waiting target rp1)" unfolding left by (simp only: mset_filter all)
  finally have "mset ?W = mset (take 100 all) + mset (waiting target rp1)"
    by (metis all append_take_drop_id mset_append)
  moreover have "waiting target ?rp' = waiting target rp1" "listening ?rp' target st" "kept_messages ?rp' = kept_messages rp1"
    using run(2) by (simp_all add: waiting_def)
  moreover have "deliverPendingMessages envs scan target rp = (False, ?rp', concat (map (\<lambda>m. frame st (pm_Payload m)) (take 100 all)))"
    using assms(2) get run(1) by (simp add: deliverPendingMessages_def)
  moreover have "length (take 100 all) = min 100 (length ?W)" using mset_eq_length [OF all] by simp
  ultimately show ?thesis using ids assms(7) by metis
qed

section \<open>Draining the store\<close>

text \<open>The peer announces its stream \<open>k\<close> times; each announcement delivers what waits, up to the limit of the query.\<close>

fun deliver_rounds ::
  "(nat \<Rightarrow> nat \<Rightarrow> relay_env) \<Rightarrow> (nat \<Rightarrow> PendingMessage list \<Rightarrow> PendingMessage list) \<Rightarrow> nat \<Rightarrow> string \<Rightarrow> RelayPeer \<Rightarrow> RelayPeer \<times> writes" where
  "deliver_rounds envs scans 0 target rp = (rp, [])"
| "deliver_rounds envs scans (Suc k) target rp =
     (let (crash, rp1, w) = deliverPendingMessages (envs k) (scans k) target rp; (rp2, w2) = deliver_rounds envs scans k target rp1
      in (rp2, w @ w2))"

text \<open>
  C36. A peer whose stream works gets everything that waits for it.  After \<open>k\<close> announcements of its stream, where at most
  \<open>100 k\<close> unexpired messages wait, none waits any more, and what went onto the stream are complete frames of exactly
  those messages, each once, whatever order the database visits the rows in.
\<close>

theorem relay_store_drains:
  assumes "listening rp target st" and "slice8 target \<noteq> None" and "\<And>i j. good_env durations codec (envs i j)" and "\<And>i j n. v_writes (envs i j) n"
    and "\<And>i j m. m \<in> set (waiting target rp) \<Longrightarrow> v_now (envs i j) < pm_ExpiresAt m" and "\<And>i rows. mset (scans i rows) = mset rows"
    and "distinct (map pm_MessageID (relay_pending_messages (rp_db rp)))" and "length (waiting target rp) \<le> 100 * k"
  shows "\<exists>rp' ds. deliver_rounds envs scans k target rp = (rp', concat (map (frame st) ds)) \<and> waiting target rp' = []
    \<and> mset ds = mset (map pm_Payload (waiting target rp))"
  using assms(1,5,7,8)
proof (induction k arbitrary: rp)
  case 0
  then show ?case by (intro exI [of _ rp] exI [of _ "[]"]) simp
next
  case (Suc k)
  obtain rp1 ms where round: "deliverPendingMessages (envs k) (scans k) target rp = (False, rp1, concat (map (\<lambda>m. frame st (pm_Payload m)) ms))"
    "listening rp1 target st" "mset (waiting target rp) = mset ms + mset (waiting target rp1)" "length ms = min 100 (length (waiting target rp))"
    "distinct (map pm_MessageID (kept_messages rp1))"
    using deliver_round [of rp target st durations codec "envs k" "scans k"] Suc.prems assms(2-4,6) by blast
  have "set (waiting target rp1) \<subseteq> set (waiting target rp)"
    using arg_cong [OF round(3), of set_mset] by simp
  moreover have "length (waiting target rp1) \<le> 100 * k"
    using Suc.prems(4) round(4) arg_cong [OF round(3), of "size"] by simp
  ultimately obtain rp' ds where rest: "deliver_rounds envs scans k target rp1 = (rp', concat (map (frame st) ds))" "waiting target rp' = []"
    "mset ds = mset (map pm_Payload (waiting target rp1))"
    using Suc.IH [OF round(2) _ round(5)] Suc.prems(2) by blast
  have "deliver_rounds envs scans (Suc k) target rp = (rp', concat (map (frame st) (map pm_Payload ms @ ds)))"
    using round(1) rest(1) by (simp add: comp_def)
  moreover have "mset (map pm_Payload ms @ ds) = mset (map pm_Payload (waiting target rp))"
    using rest(3) arg_cong [OF round(3), of "image_mset pm_Payload"] by simp
  ultimately show ?case using rest(2) by blast
qed

section \<open>The account of a peer\<close>

definition usage_count :: "RelayPeer \<Rightarrow> string \<Rightarrow> int" where
  "usage_count rp target = (case row_at su_PeerID target (relay_storage_limits (rp_db rp)) of Some u \<Rightarrow> su_MessageCount u | None \<Rightarrow> 0)"

abbreviation message_limit :: "RelayPeer \<Rightarrow> int" where
  "message_limit rp \<equiv> GetConfigInt64 (rp_config rp) ''relay_store_max_messages'' 1000 0 1000000"

lemma Increment_count:
  assumes "fault c = NoFault"
  shows "usage_count (rp\<lparr>rp_db := snd (IncrementStorageUsage c now target 1 n (rp_db rp))\<rparr>) target = usage_count rp target + 1"
proof (cases "row_at su_PeerID target (relay_storage_limits (rp_db rp))")
  case None
  then show ?thesis using assms by (simp add: usage_count_def IncrementStorageUsage_def Let_def row_at_upsert)
next
  case (Some u)
  then have "su_PeerID u = target" by (auto dest: row_at_SomeD)
  then show ?thesis using assms Some by (simp add: usage_count_def IncrementStorageUsage_def Let_def row_at_upsert)
qed

lemma offline_store_counts:
  assumes "forwardDataToTarget env target data rp = (Ok (), rp', w)" and "good_env durations codec env" and "map_of (registeredClients rp) target = None"
  shows "usage_count rp' target = usage_count rp target + 1 \<and> registeredClients rp' = registeredClients rp \<and> rp_config rp' = rp_config rp"
proof -
  have c: "fault (v_conns env n) = NoFault" for n using assms(2) by (simp add: good_env_def)
  have "tryStoreAndForward env target data (TargetNotRegistered target) rp = (Ok (), rp')"
    using assms(1,3) by (auto simp: forwardDataToTarget_def split: prod.splits)
  then obtain msg where "storeMessage env target msg data rp = (Some True, rp')"
    by (auto simp: tryStoreAndForward_def split: option.splits if_splits prod.splits)
  then obtain db1 where db1: "rp' = rp\<lparr>rp_db := snd (IncrementStorageUsage (v_conns env 2) (v_now env) target 1 (int (length data)) db1)\<rparr>"
    "relay_storage_limits db1 = relay_storage_limits (rp_db rp)"
    by (auto simp: storeMessage_def Let_def split: if_splits prod.splits option.splits dest!: StorePendingMessage_cases)
  have "usage_count rp' target = usage_count (rp\<lparr>rp_db := db1\<rparr>) target + 1"
    using Increment_count [where rp = "rp\<lparr>rp_db := db1\<rparr>", OF c [of 2], of "v_now env" target "int (length data)"] by (simp add: db1(1))
  then show ?thesis using db1 by (simp add: usage_count_def)
qed

lemma full_account_refuses:
  assumes "good_env durations codec env" and "map_of (registeredClients rp) target = None" and "message_limit rp > 0" and "usage_count rp target \<ge> message_limit rp"
  shows "fst (forwardDataToTarget env target data rp) \<noteq> Ok ()"
proof -
  have "\<not> canStoreMessage (v_conns env 0) rp target n" for n
    using assms by (auto simp: canStoreMessage_def GetStorageUsage_def usage_count_def good_env_def Let_def split: option.splits)
  then have "storeMessage env target msg data rp = (Some False, rp)" for msg by (simp add: storeMessage_def)
  then show ?thesis using assms(2) by (auto simp: forwardDataToTarget_def tryStoreAndForward_def split: option.splits if_splits)
qed

fun forward_all :: "(nat \<Rightarrow> relay_env) \<Rightarrow> nat \<Rightarrow> string \<Rightarrow> bytes list \<Rightarrow> RelayPeer \<Rightarrow> bool \<times> RelayPeer" where
  "forward_all envs k target [] rp = (True, rp)"
| "forward_all envs k target (d # ds) rp =
     (let (r, rp1, w) = forwardDataToTarget (envs k) target d rp; (ok, rp2) = forward_all envs (Suc k) target ds rp1
      in (r = Ok () \<and> ok, rp2))"

lemma forward_all_counts:
  assumes "forward_all envs k target ds rp = (True, rp')" and "\<And>i. good_env durations codec (envs i)" and "map_of (registeredClients rp) target = None"
  shows "usage_count rp' target = usage_count rp target + int (length ds) \<and> registeredClients rp' = registeredClients rp \<and> rp_config rp' = rp_config rp"
  using assms(1,3)
proof (induction ds arbitrary: k rp)
  case (Cons d ds)
  obtain rp1 w where one: "forwardDataToTarget (envs k) target d rp = (Ok (), rp1, w)" "forward_all envs (Suc k) target ds rp1 = (True, rp')"
    using Cons.prems(1) by (auto split: prod.splits)
  show ?case using offline_store_counts [OF one(1) assms(2) Cons.prems(2)] Cons.IH [OF one(2)] Cons.prems(2) by simp
qed simp

lemma cleanup_removes_expired:
  assumes "\<And>n. fault (cs n) = NoFault" and "m \<in> set (kept_messages (cleanupExpiredMessages cs now rp))" and "pm_Status m = ''pending''"
  shows "now \<le> pm_ExpiresAt m"
  using assms by (auto simp: cleanupExpiredMessages_def DeleteExpiredMessages_def delete_messages_def sql_delete_def Let_def)

text \<open>
  C39. Expired messages fill a peer's account for ever.  Once as many messages were kept for an absent peer as the limit
  allows, cleaning them up after they expired leaves nothing waiting for the peer, but the account is not
  reduced: every further message for the peer is refused.
\<close>

theorem expired_messages_block_peer:
  assumes "forward_all envs 0 target ds rp = (True, rp1)" and "\<And>i. good_env durations codec (envs i)" and "map_of (registeredClients rp) target = None"
    and "0 \<le> usage_count rp target" and "0 < message_limit rp" and "message_limit rp \<le> int (length ds)"
    and "\<And>n. fault (cs n) = NoFault" and "\<forall>m\<in>set (waiting target rp1). pm_ExpiresAt m < now"
  shows "waiting target (cleanupExpiredMessages cs now rp1) = []
    \<and> (\<forall>env data. good_env durations codec env \<longrightarrow> fst (forwardDataToTarget env target data (cleanupExpiredMessages cs now rp1)) \<noteq> Ok ())"
proof -
  let ?rp = "cleanupExpiredMessages cs now rp1"
  have same: "registeredClients ?rp = registeredClients rp1" "rp_config ?rp = rp_config rp1" "usage_count ?rp target = usage_count rp1 target"
    using assms(7) by (simp_all add: cleanupExpiredMessages_def DeleteExpiredMessages_def delete_messages_def usage_count_def Let_def)
  note counts = forward_all_counts [OF assms(1) _ assms(3)]
  have "usage_count rp1 target = usage_count rp target + int (length ds) \<and> registeredClients rp1 = registeredClients rp \<and> rp_config rp1 = rp_config rp"
    using counts assms(2) by blast
  then have full: "map_of (registeredClients ?rp) target = None" "message_limit ?rp > 0" "usage_count ?rp target \<ge> message_limit ?rp"
    using same assms(3-6) by simp_all
  have "False" if m: "m \<in> set (kept_messages ?rp)" "pm_TargetPeerID m = target" "pm_Status m = ''pending''" for m
  proof -
    have "m \<in> set (kept_messages rp1)" using assms(7) m(1) by (rule cleanup_rows)
    then have "pm_ExpiresAt m < now" using assms(8) m(2,3) by (simp add: waiting_def)
    moreover have "now \<le> pm_ExpiresAt m" using assms(7) m(1,3) by (rule cleanup_removes_expired)
    ultimately show False by simp
  qed
  then have "waiting target ?rp = []" by (auto simp: waiting_def filter_empty_conv)
  then show ?thesis using full_account_refuses [OF _ full] by blast
qed

section \<open>Concrete relays\<close>

definition kept_row :: "string \<Rightarrow> bytes \<Rightarrow> PendingMessage" where
  "kept_row i data = \<lparr>pm_ID = 1, pm_MessageID = i, pm_CorrelationID = [], pm_SourcePeerID = [], pm_TargetPeerID = ''provider'',
     pm_RelayNodeID = ''relay-node'', pm_MessageType = ''chat_message'', pm_Payload = data, pm_PayloadSize = int (length data),
     pm_CreatedAt = 1000, pm_ExpiresAt = 605800, pm_DeliveryAttempts = 0, pm_LastDeliveryAttempt = None, pm_Status = ''pending'',
     pm_DeliveredAt = None, pm_Priority = 0\<rparr>"

definition stocked_relay :: RelayPeer where
  "stocked_relay = sample_relay\<lparr>rp_db := empty_relay_db\<lparr>relay_pending_messages := [kept_row ''m1'' [1], kept_row ''m2'' [2, 3]], pending_seq := 2\<rparr>\<rparr>"

theorem relay_store_drains_witness:
  "\<exists>rp' ds. deliver_rounds (\<lambda>i j. sample_relay_env 2000 ''u'' (\<lambda>_. True)) (\<lambda>_. rev) 1 ''provider'' stocked_relay = (rp', concat (map (frame 7) ds))
     \<and> waiting ''provider'' rp' = [] \<and> mset ds = {#[1], [2, 3]#}"
proof -
  have w: "waiting ''provider'' stocked_relay = [kept_row ''m1'' [1], kept_row ''m2'' [2, 3]]"
    by (simp add: waiting_def stocked_relay_def kept_row_def)
  have "listening stocked_relay ''provider'' 7" "slice8 ''provider'' \<noteq> None" "distinct (map pm_MessageID (relay_pending_messages (rp_db stocked_relay)))"
    by (simp_all add: listening_def stocked_relay_def sample_relay_defs slice8_def kept_row_def)
  moreover have "good_env (\<lambda>_ d. d) sample_codec (sample_relay_env 2000 ''u'' (\<lambda>_. True))" by (simp add: good_env_def sample_relay_defs)
  moreover have "\<And>m. m \<in> set (waiting ''provider'' stocked_relay) \<Longrightarrow> v_now (sample_relay_env 2000 ''u'' (\<lambda>_. True)) < pm_ExpiresAt m"
    by (auto simp: w kept_row_def sample_relay_env_def)
  moreover have "\<And>n. v_writes (sample_relay_env 2000 ''u'' (\<lambda>_. True)) n" by (simp add: sample_relay_env_def)
  moreover have "length (waiting ''provider'' stocked_relay) \<le> 100 * 1" by (simp add: w)
  ultimately have "\<exists>rp' ds. deliver_rounds (\<lambda>i j. sample_relay_env 2000 ''u'' (\<lambda>_. True)) (\<lambda>_. rev) 1 ''provider'' stocked_relay = (rp', concat (map (frame 7) ds))
     \<and> waiting ''provider'' rp' = [] \<and> mset ds = mset (map pm_Payload (waiting ''provider'' stocked_relay))"
    by (intro relay_store_drains) auto
  then show ?thesis unfolding w by (simp add: kept_row_def)
qed

text \<open>A relay that keeps one message per peer, and a peer that never comes.\<close>

definition small_relay :: RelayPeer where
  "small_relay = sample_relay\<lparr>rp_config := \<lparr>configsPath = [], configs = [''relay_store_max_messages'' \<mapsto> ''1'']\<rparr>\<rparr>"

lemma small_limits:
  "GetConfigBool \<lparr>configsPath = [], configs = [''relay_store_max_messages'' \<mapsto> ''1'']\<rparr> ''relay_store_enabled'' True"
  "GetConfigInt64 \<lparr>configsPath = [], configs = [''relay_store_max_messages'' \<mapsto> ''1'']\<rparr> ''relay_store_max_messages'' 1000 0 1000000 = 1"
  "GetConfigInt64 \<lparr>configsPath = [], configs = [''relay_store_max_messages'' \<mapsto> ''1'']\<rparr> ''relay_store_max_bytes'' 104857600 0 10737418240 = 104857600"
  "GetConfigInt64 \<lparr>configsPath = [], configs = [''relay_store_max_messages'' \<mapsto> ''1'']\<rparr> ''relay_store_max_message_size'' 10485760 0 104857600 = 10485760"
proof -
  show "GetConfigBool \<lparr>configsPath = [], configs = [''relay_store_max_messages'' \<mapsto> ''1'']\<rparr> ''relay_store_enabled'' True" by code_simp
  show "GetConfigInt64 \<lparr>configsPath = [], configs = [''relay_store_max_messages'' \<mapsto> ''1'']\<rparr> ''relay_store_max_messages'' 1000 0 1000000 = 1" by code_simp
qed (simp_all add: GetConfigInt64_def GetConfigWithDefault_def GetConfig_def ParseInt64_def)

theorem expired_messages_block_peer_witness:
  "\<exists>rp1. forward_all (\<lambda>_. sample_relay_env 1000 ''message-1'' (\<lambda>_. True)) 0 ''absentee'' [[1]] small_relay = (True, rp1)
     \<and> waiting ''absentee'' (cleanupExpiredMessages (\<lambda>_. good_conn) 1000000 rp1) = []
     \<and> fst (forwardDataToTarget (sample_relay_env 1000000 ''message-2'' (\<lambda>_. True)) ''absentee'' [2]
              (cleanupExpiredMessages (\<lambda>_. good_conn) 1000000 rp1)) \<noteq> Ok ()"
proof -
  let ?e = "sample_relay_env 1000 ''message-1'' (\<lambda>_. True)"
  have good: "good_env (\<lambda>_ d. d) sample_codec (sample_relay_env t u ok)" for t u ok by (simp add: good_env_def sample_relay_defs)
  obtain rp1 where run: "forward_all (\<lambda>_. ?e) 0 ''absentee'' [[1]] small_relay = (True, rp1)"
    and live: "\<forall>m\<in>set (waiting ''absentee'' rp1). pm_ExpiresAt m < 1000000"
    by (simp add: forwardDataToTarget_def tryStoreAndForward_def storeMessage_def isEligibleForStore_def eligibleTypes_def canStoreMessage_def
        small_limits StorePendingMessage_def kept_statuses_def GetStorageUsage_def slice8_def row_at_def small_relay_def sample_relay_defs Let_def
        waiting_def getMessageTTL_def MessageTypeTTLs_def days_def)
  have "map_of (registeredClients small_relay) ''absentee'' = None" "0 \<le> usage_count small_relay ''absentee''" "0 < message_limit small_relay"
    "message_limit small_relay \<le> int (length [[1 :: byte]])"
    by (simp_all add: small_relay_def usage_count_def row_at_def sample_relay_defs small_limits)
  note pre = this
  have "waiting ''absentee'' (cleanupExpiredMessages (\<lambda>_. good_conn) 1000000 rp1) = []
    \<and> (\<forall>env data. good_env (\<lambda>_ d. d) sample_codec env \<longrightarrow>
         fst (forwardDataToTarget env ''absentee'' data (cleanupExpiredMessages (\<lambda>_. good_conn) 1000000 rp1)) \<noteq> Ok ())"
    by (rule expired_messages_block_peer [OF run _ pre _ live]) (simp_all add: good good_conn_def)
  then show ?thesis using run good by blast
qed

end
