(* ===== verification/Relay_Sessions.thy ===== *)
theory Relay_Sessions
  imports Relay_Delivery
begin

text \<open>
  The sessions of a relay over all runs: the three tables stay consistent with the session objects and within the
  capacity of the relay, and what becomes of the payments for sessions.
\<close>

section \<open>Runs\<close>

text \<open>Messages as they are dispatched, ticks of the session monitors, deliveries in the background and clean-ups.\<close>

inductive relay_run :: "RelayPeer \<Rightarrow> RelayPeer \<Rightarrow> bool" where
  none: "relay_run rp rp"
| message: "relay_run rp rp1 \<Longrightarrow> relay_dispatch env m rp1 = (crash, rp2, w) \<Longrightarrow> relay_run rp rp2"
| monitor: "relay_run rp rp1 \<Longrightarrow> p < length (session_objs rp1) \<Longrightarrow> monitorSession now p rp1 = (go, rp2) \<Longrightarrow> relay_run rp rp2"
| delivery: "relay_run rp rp1 \<Longrightarrow> deliverPendingMessages envs scan target rp1 = (crash, rp2, w) \<Longrightarrow> relay_run rp rp2"
| cleanup: "relay_run rp rp1 \<Longrightarrow> relay_run rp (cleanupExpiredMessages cs now rp1)"

section \<open>Consistent tables\<close>

definition relay_wf :: "RelayPeer \<Rightarrow> bool" where
  "relay_wf rp \<longleftrightarrow>
     distinct (map fst (rp_sessions rp)) \<and> distinct (map fst (clientSessions rp)) \<and> distinct (map fst (registeredClients rp))
     \<and> int (length (rp_sessions rp)) \<le> maxConnections rp
     \<and> (\<forall>(i, p)\<in>set (rp_sessions rp). p < length (session_objs rp) \<and> se_SessionID (session_objs rp ! p) = i)
     \<and> (\<forall>(c, ps)\<in>set (clientSessions rp). \<forall>p\<in>set ps. p < length (session_objs rp) \<and> ClientPeerID (session_objs rp ! p) = c)
     \<and> (\<forall>(c, p)\<in>set (registeredClients rp). p < length (session_objs rp) \<and> ClientPeerID (session_objs rp ! p) = c)"

text \<open>What the tables depend on.\<close>

definition same_sessions :: "RelayPeer \<Rightarrow> RelayPeer \<Rightarrow> bool" where
  "same_sessions rp rp' \<longleftrightarrow>
     rp_sessions rp' = rp_sessions rp \<and> clientSessions rp' = clientSessions rp \<and> registeredClients rp' = registeredClients rp
     \<and> maxConnections rp' = maxConnections rp \<and> rp_payments rp' = rp_payments rp
     \<and> map (\<lambda>s. (se_SessionID s, ClientPeerID s)) (session_objs rp') = map (\<lambda>s. (se_SessionID s, ClientPeerID s)) (session_objs rp)"

lemma same_sessions_refl [simp]: "same_sessions rp rp"
  by (simp add: same_sessions_def)

lemma same_sessions_trans: "same_sessions rp rp1 \<Longrightarrow> same_sessions rp1 rp2 \<Longrightarrow> same_sessions rp rp2"
  by (simp add: same_sessions_def)

lemma same_sessions_db [simp]: "same_sessions rp (rp'\<lparr>rp_db := db\<rparr>) = same_sessions rp rp'"
  by (simp add: same_sessions_def)

lemma same_sessions_pending [simp]: "same_sessions rp (rp'\<lparr>pendingRequests := ps\<rparr>) = same_sessions rp rp'"
  by (simp add: same_sessions_def)

lemma same_sessions_upd:
  assumes "\<And>s. se_SessionID (f s) = se_SessionID s" and "\<And>s. ClientPeerID (f s) = ClientPeerID s"
  shows "same_sessions rp (upd_obj p f rp')  = same_sessions rp rp'"
proof -
  have "map (\<lambda>s. (se_SessionID s, ClientPeerID s)) ((session_objs rp')[p := f (session_objs rp' ! p)])
      = map (\<lambda>s. (se_SessionID s, ClientPeerID s)) (session_objs rp')"
    by (cases "p < length (session_objs rp')") (auto simp: map_update assms list_update_same_conv list_update_beyond)
  then show ?thesis by (simp add: same_sessions_def upd_obj_def)
qed

lemma wf_same_sessions: "relay_wf rp \<Longrightarrow> same_sessions rp rp' \<Longrightarrow> relay_wf rp'"
proof -
  assume wf: "relay_wf rp" and same: "same_sessions rp rp'"
  have objs: "map (\<lambda>s. (se_SessionID s, ClientPeerID s)) (session_objs rp') = map (\<lambda>s. (se_SessionID s, ClientPeerID s)) (session_objs rp)"
    using same by (simp add: same_sessions_def)
  have "length (session_objs rp') = length (session_objs rp)" using map_eq_imp_length_eq [OF objs] .
  moreover have "se_SessionID (session_objs rp' ! p) = se_SessionID (session_objs rp ! p) \<and> ClientPeerID (session_objs rp' ! p) = ClientPeerID (session_objs rp ! p)"
    if "p < length (session_objs rp)" for p
    using arg_cong [OF objs, of "\<lambda>xs. xs ! p"] that calculation by simp
  ultimately show ?thesis using wf same unfolding relay_wf_def same_sessions_def by fastforce
qed

section \<open>The operations\<close>

lemma store_same: "same_sessions rp (snd (storeMessage env target msg data rp))"
  by (auto simp: storeMessage_def Let_def split: prod.splits option.splits)

lemma try_same: "same_sessions rp (snd (tryStoreAndForward env target data e rp))"
  using store_same by (auto simp: tryStoreAndForward_def split: option.splits prod.splits) (metis snd_conv)+

lemma forward_same: "same_sessions rp (fst (snd (forwardDataToTarget env target data rp)))"
proof -
  have "same_sessions rp rp1" if "tryStoreAndForward env target data e rp0 = (r, rp1)" "same_sessions rp rp0" for e r rp0 rp1
    using try_same [of rp0 env target data e] that same_sessions_trans by fastforce
  then show ?thesis
    by (auto simp: forwardDataToTarget_def Let_def same_sessions_upd split: option.splits prod.splits)
qed

lemma traffic_same: "same_sessions rp (add_traffic env p i src ty n rp') = same_sessions rp rp'"
  by (simp add: add_traffic_def Let_def same_sessions_upd)

lemma request_same: "same_sessions rp (fst (snd (handleRelayRequest env data st rp)))"
proof -
  have fwd: "same_sessions rp rp1" if "forwardDataToTarget env target payload rp0 = (r, rp1, w)" "same_sessions rp rp0" for target payload r rp0 rp1 w
    using forward_same [of rp0 env target payload] that same_sessions_trans by fastforce
  show ?thesis
  proof (cases "map_of (rp_sessions rp) (rf_SessionID data)")
    case None
    then show ?thesis
      by (auto simp: handleRelayRequest_def forward_without_session_def Let_def intro: fwd split: prod.splits go_result.splits)
  next
    case (Some p)
    then show ?thesis
      by (auto simp: handleRelayRequest_def Let_def traffic_same same_sessions_upd split: prod.splits go_result.splits option.splits
          elim!: fwd)
  qed
qed

lemma relay_forward_same: "same_sessions rp (fst (snd (HandleRelayForward env msg st rp)))"
  using request_same by (auto simp: HandleRelayForward_def handleRelayResponse_def Let_def split: option.splits)

lemma ready_same: "same_sessions rp (snd (HandleRelayReceiveStreamReady msg st rp))"
  by (auto simp: HandleRelayReceiveStreamReady_def same_sessions_upd split: option.splits prod.splits)

lemma keepalive_same: "same_sessions rp (UpdateSessionKeepalive now i rp)"
  by (auto simp: UpdateSessionKeepalive_def same_sessions_upd split: option.splits)

lemma cleanup_same: "same_sessions rp (cleanupExpiredMessages cs now rp)"
  by (simp add: cleanupExpiredMessages_def Let_def)

lemma deliver_one_same: "same_sessions rp (fst (snd (deliver_one env target m rp)))"
proof (cases "v_now env > pm_ExpiresAt m")
  case True
  then show ?thesis by (simp add: deliver_one_def)
next
  case False
  obtain r rp1 w where "forwardDataToTarget env target (pm_Payload m) rp = (r, rp1, w)" by (metis prod_cases3)
  then show ?thesis using forward_same [of rp env target "pm_Payload m"] False by (cases r) (auto simp: deliver_one_def Let_def)
qed

lemma deliver_messages_same: "same_sessions rp (fst (snd (deliver_messages envs k target ms rp)))"
proof (induction ms arbitrary: k rp)
  case (Cons m ms)
  obtain d rp1 w where d: "deliver_one (envs k) target m rp = (d, rp1, w)" by (metis prod_cases3)
  have one: "same_sessions rp rp1" using deliver_one_same [of rp "envs k" target m] d by simp
  obtain r2 rp2 w2 where rest: "deliver_messages envs (Suc k) target ms rp1 = (r2, rp2, w2)" by (metis prod_cases3)
  have "same_sessions rp1 rp2" using Cons.IH [of rp1 "Suc k"] rest by simp
  then show ?case using one d rest same_sessions_trans by (cases d) auto
qed simp

lemma deliver_same: "same_sessions rp (fst (snd (deliverPendingMessages envs scan target rp)))"
proof -
  have "same_sessions rp rp1" if "deliver_messages envs 0 target ms rp = (r, rp1, w)" for ms r rp1 w
    using deliver_messages_same [of rp envs 0 target ms] that by simp
  then show ?thesis by (auto simp: deliverPendingMessages_def split: sum.splits prod.splits option.splits)
qed

text \<open>Registering adds one object; ending a session only removes entries.\<close>

lemma payment_same:
  assumes "take_relay_payment env data rp = (r, rp')"
  shows "session_objs rp' = session_objs rp \<and> rp_sessions rp' = rp_sessions rp \<and> clientSessions rp' = clientSessions rp
    \<and> registeredClients rp' = registeredClients rp \<and> maxConnections rp' = maxConnections rp"
  using assms by (auto simp: take_relay_payment_def Let_def split: if_splits option.splits json.splits prod.splits sum.splits)

lemma update_entries: "x \<in> set (AList.update k v xs) \<Longrightarrow> x = (k, v) \<or> x \<in> set xs"
  by (induction xs) (auto split: if_splits)

lemma length_update: "length (AList.update k v xs) \<le> Suc (length xs)"
  by (induction xs) auto

lemma delete_entries: "x \<in> set (AList.delete k xs) \<Longrightarrow> x \<in> set xs"
  by (simp add: AList.delete_eq)

lemma add_session_wf:
  assumes "relay_wf rp" and "int (length (rp_sessions rp)) < maxConnections rp"
  shows "relay_wf (add_session session rp)"
proof -
  let ?c = "ClientPeerID session" and ?n = "length (session_objs rp)" and ?objs = "session_objs rp @ [session]"
  define old where "old = (case map_of (clientSessions rp) ?c of Some ps \<Rightarrow> ps | None \<Rightarrow> [])"
  have old: "p < ?n \<and> ClientPeerID (session_objs rp ! p) = ?c" if "p \<in> set old" for p
    using that assms(1) by (auto simp: old_def relay_wf_def split: option.splits dest!: map_of_SomeD)
  have objs: "p < ?n \<Longrightarrow> ?objs ! p = session_objs rp ! p" for p by (simp add: nth_append)
  have new: "?objs ! ?n = session" by simp
  have "int (length (AList.update (se_SessionID session) ?n (rp_sessions rp))) \<le> maxConnections rp"
    using assms(2) length_update [of "se_SessionID session" ?n "rp_sessions rp"] by linarith
  moreover have "\<forall>(i, p)\<in>set (AList.update (se_SessionID session) ?n (rp_sessions rp)). p < Suc ?n \<and> se_SessionID (?objs ! p) = i"
    using assms(1) by (auto simp: relay_wf_def objs new dest!: update_entries)
  moreover have "\<forall>(c, ps)\<in>set (AList.update ?c (old @ [?n]) (clientSessions rp)). \<forall>p\<in>set ps. p < Suc ?n \<and> ClientPeerID (?objs ! p) = c"
    using assms(1) old by (auto simp: relay_wf_def objs new dest!: update_entries) (fastforce simp: less_Suc_eq)+
  moreover have "\<forall>(c, p)\<in>set (AList.update ?c ?n (registeredClients rp)). p < Suc ?n \<and> ClientPeerID (?objs ! p) = c"
    using assms(1) by (auto simp: relay_wf_def objs new dest!: update_entries)
  ultimately show ?thesis using assms(1)
    by (simp add: relay_wf_def add_session_def Let_def old_def [symmetric] AList.distinct_update)
qed

lemma drop_client_wf: "relay_wf rp \<Longrightarrow> relay_wf (drop_client_session key i rp)"
proof -
  assume wf: "relay_wf rp"
  have "\<forall>(c, ps)\<in>set (AList.update key (takeWhile P ps0 @ tl (dropWhile P ps0)) (clientSessions rp)).
      \<forall>p\<in>set ps. p < length (session_objs rp) \<and> ClientPeerID (session_objs rp ! p) = c"
    if "map_of (clientSessions rp) key = Some ps0" for P ps0
  proof -
    have "set (tl xs) \<subseteq> set xs" for xs :: "nat list" by (cases xs) auto
    then have "set (takeWhile P ps0 @ tl (dropWhile P ps0)) \<subseteq> set ps0" by (fastforce dest: set_takeWhileD set_dropWhileD)
    moreover have "p < length (session_objs rp) \<and> ClientPeerID (session_objs rp ! p) = c" if "(c, ps) \<in> set (clientSessions rp)" "p \<in> set ps" for c ps p
      using wf that unfolding relay_wf_def by blast
    ultimately show ?thesis using map_of_SomeD [OF that] by (blast dest!: update_entries)
  qed
  then have updated: "relay_wf (rp\<lparr>clientSessions := AList.update key (takeWhile P ps0 @ tl (dropWhile P ps0)) (clientSessions rp)\<rparr>)"
    if "map_of (clientSessions rp) key = Some ps0" for P ps0
    using wf that by (simp add: relay_wf_def AList.distinct_update)
  show ?thesis using wf by (auto simp: drop_client_session_def Let_def intro: updated split: option.splits)
qed

lemma terminate_wf: "relay_wf rp \<Longrightarrow> relay_wf (terminateSession i rp)"
proof (cases "map_of (rp_sessions rp) i")
  case (Some p)
  assume wf: "relay_wf rp"
  let ?rp = "rp\<lparr>rp_sessions := AList.delete i (rp_sessions rp)\<rparr>"
  have "length (AList.delete i (rp_sessions rp)) \<le> length (rp_sessions rp)" by (simp add: AList.delete_eq)
  then have "relay_wf ?rp" using wf by (auto simp: relay_wf_def AList.distinct_delete dest!: delete_entries)
  then have "relay_wf (drop_client_session (ClientNodeID (obj rp p)) i ?rp)" by (rule drop_client_wf)
  then show ?thesis using Some by (auto simp: terminateSession_def Let_def relay_wf_def AList.distinct_delete dest!: delete_entries)
qed (simp add: terminateSession_def)

lemma register_wf: "relay_wf rp \<Longrightarrow> relay_wf (snd (HandleRelayRegister env msg c rp))"
proof -
  assume wf: "relay_wf rp"
  have "relay_wf rp1 \<and> (int (length (rp_sessions rp)) < maxConnections rp \<longrightarrow> relay_wf (add_session session rp1))"
    if "take_relay_payment env data rp = (r, rp1)" for data r rp1 session
  proof -
    note same = payment_same [OF that]
    have "relay_wf rp1" using wf same by (simp add: relay_wf_def)
    then show ?thesis using add_session_wf [of rp1 session] same by simp
  qed
  then show ?thesis using wf
    by (auto simp: HandleRelayRegister_def Let_def split: option.splits prod.splits sum.splits)
qed

lemma dispatch_wf: "relay_wf rp \<Longrightarrow> relay_wf (fst (snd (relay_dispatch env m rp)))"
  using register_wf [of rp] ready_same relay_forward_same keepalive_same wf_same_sessions [of rp]
  by (cases m) (auto simp: relay_dispatch_def split: prod.splits, metis fst_conv snd_conv)

lemma run_wf: "relay_run rp rp' \<Longrightarrow> relay_wf rp \<Longrightarrow> relay_wf rp'"
proof (induction rule: relay_run.induct)
  case (message rp rp1 env m crash rp2 w)
  then show ?case using dispatch_wf [of rp1 env m] by simp
next
  case (monitor rp rp1 p now go rp2)
  then show ?case using terminate_wf [of rp1] by (auto simp: monitorSession_def split: if_splits)
next
  case (delivery rp rp1 envs scan target crash rp2 w)
  then show ?case using deliver_same [of rp1 envs scan target] wf_same_sessions [of rp1 rp2] by simp
next
  case (cleanup rp rp1 cs now)
  then show ?case using cleanup_same wf_same_sessions by blast
qed

lemma new_wf: "relay_wf (NewRelayPeer l c cfg em jdb rdb pdb)"
proof -
  have "1 \<le> GetConfigInt cfg ''relay_max_connections'' 100 1 1000" by (auto simp: GetConfigInt_def split: option.splits)
  then show ?thesis by (simp add: relay_wf_def NewRelayPeer_def Let_def)
qed


definition registration :: "int \<Rightarrow> RelayRegisterData" where
  "registration n = \<lparr>rg_PeerID = ''provider'', rg_NodeID = ''node-1'', rg_EstimatedBytes = n, rg_PaymentSignature = None\<rparr>"

definition fresh_relay :: RelayPeer where
  "fresh_relay = NewRelayPeer decimal_lib good_conn \<lparr>configsPath = [], configs = [''relay_mode'' \<mapsto> ''true'']\<rparr> sample_em empty_job_db empty_relay_db (empty_payments [])"


section \<open>Payments\<close>

lemma drop_client_payments [simp]: "rp_payments (drop_client_session key i rp) = rp_payments rp"
  by (simp add: drop_client_session_def Let_def split: option.split)

lemma terminate_payments [simp]: "rp_payments (terminateSession i rp) = rp_payments rp"
  by (simp add: terminateSession_def Let_def split: option.split)

lemma take_payment_keeps:
  assumes "take_relay_payment env data rp = (r, rp')" and "wf_payments (rp_payments rp)" and "all_tracked (rp_payments rp)"
  shows "wf_payments (rp_payments rp') \<and> all_tracked (rp_payments rp')
    \<and> (\<forall>k s. status_of (rp_payments rp) k = Some s \<longrightarrow> status_of (rp_payments rp') k = Some s)"
proof -
  have "?thesis" if "CreateEscrow (rp_escrow rp) c1 c2 net now 0 sig req (rp_payments rp) = (q, pdb)" "rp_payments rp' = pdb" for c1 c2 net now sig req q pdb
    using CreateEscrow_wf [OF that(1) assms(2,3)] CreateEscrow_keeps_status [OF that(1) assms(2)] that(2) by simp
  then show ?thesis using assms
    by (auto simp: take_relay_payment_def Let_def split: if_splits option.splits json.splits prod.splits sum.splits)
qed

lemma register_keeps_payments:
  assumes "wf_payments (rp_payments rp)" and "all_tracked (rp_payments rp)"
  shows "wf_payments (rp_payments (snd (HandleRelayRegister env msg c rp))) \<and> all_tracked (rp_payments (snd (HandleRelayRegister env msg c rp)))
    \<and> (\<forall>k s. status_of (rp_payments rp) k = Some s \<longrightarrow> status_of (rp_payments (snd (HandleRelayRegister env msg c rp))) k = Some s)"
proof -
  have "rp_payments (snd (HandleRelayRegister env msg c rp)) = rp_payments rp
    \<or> (\<exists>data r rp1. take_relay_payment env data rp = (r, rp1) \<and> rp_payments (snd (HandleRelayRegister env msg c rp)) = rp_payments rp1)"
    by (auto simp: HandleRelayRegister_def add_session_def Let_def split: option.splits prod.splits sum.splits)
  then show ?thesis using assms take_payment_keeps [OF _ assms] by auto
qed

lemma dispatch_same:
  "\<nexists>data c. m = RelayRegisterMsg data c \<Longrightarrow> same_sessions rp (fst (snd (relay_dispatch env m rp)))"
  by (cases m) (auto simp: relay_dispatch_def Let_def split_def ready_same relay_forward_same keepalive_same)

lemma run_keeps_payments:
  "relay_run rp rp' \<Longrightarrow> wf_payments (rp_payments rp) \<and> all_tracked (rp_payments rp) \<Longrightarrow>
   wf_payments (rp_payments rp') \<and> all_tracked (rp_payments rp')
   \<and> (\<forall>k s. status_of (rp_payments rp) k = Some s \<longrightarrow> status_of (rp_payments rp') k = Some s)"
proof (induction rule: relay_run.induct)
  case (message rp rp1 env m crash rp2 w)
  show ?case
  proof (cases "\<exists>data c. m = RelayRegisterMsg data c")
    case True
    then show ?thesis using message register_keeps_payments [of rp1 env] by (auto simp: relay_dispatch_def)
  next
    case False
    then have "same_sessions rp1 rp2" using dispatch_same [of m rp1 env] message.hyps(2) by simp
    then show ?thesis using message by (simp add: same_sessions_def)
  qed
next
  case (monitor rp rp1 p now go rp2)
  then show ?case by (auto simp: monitorSession_def split: if_splits)
next
  case (delivery rp rp1 envs scan target crash rp2 w)
  then show ?case using deliver_same [of rp1 envs scan target] by (simp add: same_sessions_def)
next
  case (cleanup rp rp1 cs now)
  then show ?case by (simp add: cleanupExpiredMessages_def Let_def)
qed simp

text \<open>
  C40. A relay is never paid.  A client that announces no traffic is registered without a payment, whatever it sends
  afterwards; and a payment that was taken for a session stays as it is in every run of the relay: no message that reaches a
  handler, no time-out and no background task settles or refunds it, because nothing dispatches \<open>relay_disconnect\<close>.
\<close>

theorem relay_is_never_paid:
  assumes "relay_run rp rp'" and "wf_payments (rp_payments rp)" and "all_tracked (rp_payments rp)" and "pricingPerGB rp \<notin> {PInf, NInf}"
  shows "(\<forall>k s. status_of (rp_payments rp) k = Some s \<longrightarrow> status_of (rp_payments rp') k = Some s)
    \<and> (\<forall>env data c. isRelayMode rp \<and> int (length (rp_sessions rp)) < maxConnections rp \<and> rg_EstimatedBytes data = 0 \<longrightarrow>
         (\<exists>i price. fst (HandleRelayRegister env (Some data) c rp) = RelayAccept (rg_NodeID data) (v_uuid env) i price)
         \<and> rp_payments (snd (HandleRelayRegister env (Some data) c rp)) = rp_payments rp)"
proof -
  have z: "gigabytes 0 = Fin 0" by (simp add: gigabytes_def round64_def round_val_def overflow_bound_def)
  have "\<not> flt (Fin 0) (fmul (gigabytes 0) (pricingPerGB rp))"
    unfolding z using assms(4) by (cases "pricingPerGB rp") (auto simp: round64_def round_val_def overflow_bound_def)
  then have "take_relay_payment env data rp = (Inr 0, rp)" if "rg_EstimatedBytes data = 0" for env data
    using that by (simp add: take_relay_payment_def Let_def)
  then show ?thesis using run_keeps_payments [OF assms(1)] assms(2,3)
    by (auto simp: HandleRelayRegister_def add_session_def Let_def)
qed

definition paid_relay :: RelayPeer where
  "paid_relay = sample_relay\<lparr>rp_payments := sample_db\<rparr>"

lemma sample_db_wf: "wf_payments sample_db" "all_tracked sample_db" "status_of sample_db 1 = Some ''verified''"
proof -
  have "all_tracked (empty_payments [])" by (simp add: all_tracked_def empty_payments_def)
  from CreateEscrow_wf [OF sample_create wf_payments_empty this] show "wf_payments sample_db" "all_tracked sample_db" by blast+
  show "status_of sample_db 1 = Some ''verified''" by (simp add: sample_db_def escrow_row_def status_of_def row_at_def)
qed

theorem relay_is_never_paid_witness:
  "rp_sessions (snd (monitorSession 1000 0 paid_relay)) = []
   \<and> status_of (rp_payments (snd (monitorSession 1000 0 paid_relay))) 1 = Some ''verified''
   \<and> rp_payments (snd (HandleRelayRegister (sample_relay_env 0 ''session-2'' (\<lambda>_. True)) (Some (registration 0)) 3 paid_relay)) = sample_db"
proof -
  have gone: "rp_sessions (snd (monitorSession 1000 0 paid_relay)) = []"
    by (simp add: monitorSession_def terminateSession_def drop_client_session_def paid_relay_def sample_relay_def sample_session_def obj_def Let_def)
  have run: "relay_run paid_relay (snd (monitorSession 1000 0 paid_relay))"
    by (rule relay_run.monitor [OF relay_run.none, of 0 paid_relay 1000 "fst (monitorSession 1000 0 paid_relay)"])
      (simp_all add: paid_relay_def sample_relay_def)
  have ok: "wf_payments (rp_payments paid_relay)" "all_tracked (rp_payments paid_relay)" "pricingPerGB paid_relay \<notin> {PInf, NInf}"
    "isRelayMode paid_relay \<and> int (length (rp_sessions paid_relay)) < maxConnections paid_relay" "status_of (rp_payments paid_relay) 1 = Some ''verified''"
    "rp_payments paid_relay = sample_db" "rg_EstimatedBytes (registration 0) = 0"
    using sample_db_wf by (simp_all add: paid_relay_def sample_relay_def registration_def)
  show ?thesis using relay_is_never_paid [OF run ok(1,2,3)] ok(4-7) gone by metis
qed

end
