(* ===== verification/Spec2Isabelle.thy ===== *)
theory Spec2Isabelle
  imports Group_Delivery Invoices Job_Lifecycle Data_Faults Workflow_Watch Relay_Sessions
begin

text \<open>
  \<^bold>\<open>remote.network: a model of the node.\<close>

  A node of remote.network offers services (data sets, containers, programs) to other nodes, orders
  services from them, pays for them, moves the files involved and lets the operators chat.  The
  development models that core of the Go program under \<open>src/internal\<close>: payments, chat, invoices, jobs,
  data transfers, workflows and relays, with the tables of the database they work on.  Every definition is a function
  that can be evaluated; nothing is axiomatised.

  \<^bold>\<open>Conventions.\<close>  A Go struct is a \<open>record\<close> with the fields of the source, a table of the database a
  list of such records with the counter of its \<open>AUTOINCREMENT\<close> key.  An operation takes the state it
  changes and returns it with its result; a result is \<open>Inl error\<close> or \<open>Inr value\<close>, and the state is
  returned on error paths as well, because the code keeps what it changed before it failed.  A panic
  of Go (a nil pointer, a slice out of range) is an explicit error.  What one call of the operating
  system, the network or the database decides is an argument: \<open>conn\<close> says which statements fail and
  whether foreign keys are enforced, \<open>job_env\<close> and \<open>dw_env\<close> collect the clock, the network, the disk
  and the random numbers for the job manager and the data worker; randomness is a value that may be
  missing (the reader failed).  Times are seconds.  Third-party code is a parameter: the
  cryptographic primitives are the record \<open>prims\<close> with the laws \<open>box_correct\<close>, \<open>dh_commutes\<close>, \<open>dh_total\<close> and the like
  as hypotheses, AES-GCM the record \<open>gcm\<close> with \<open>gcm_correct\<close>, the facilitator and the peers functions
  from requests to answers.  Witnesses instantiate them with \<open>toy_prims\<close>, \<open>toy_gcm\<close> and scripted
  peers.  Integers are unbounded where the code cannot overflow and have the wrap-around of
  \<open>int64\<close> (\<open>RN_Prelude\<close>) or are \<open>word\<close>s where it can.

  \<^bold>\<open>Shared theories.\<close>
  \<^item> \<open>RN_Prelude\<close>: the simplification sets, Go's strings, conversions and result types, and lemmas on
    lists, maps and tables used by all components.
  \<^item> \<open>Go_Float\<close>: \<open>float64\<close> as the payment code uses it (comparison, conversion, formatting).
  \<^item> \<open>Crypto_Prims\<close>: \<open>crypto/key_derivation.go\<close>, the primitives and the conversion of Ed25519 keys.
  \<^item> \<open>Secure_Channel\<close>: the interface between the chat and its ciphers as locales (a lossy channel, and
    the reordering channel that extends it); \<open>Double_Ratchet\<close> and \<open>Sender_Keys\<close> interpret them.

  \<^bold>\<open>Configuration and payments.\<close>
  \<^item> \<open>Configs\<close> (\<open>utils/configs.go\<close>): the file, the typed accessors and the writer; what is saved is read
    back, and bounded settings stay in their bounds.
  \<^item> \<open>Payment_Networks\<close> (\<open>payment/eip712.go\<close>, \<open>solana_spl.go\<close>, \<open>wallet_manager.go\<close>): network names,
    token tables and the choice of a wallet.
  \<^item> \<open>Payment_Store\<close> (\<open>database/job_executions.go\<close>, \<open>payment_invoices.go\<close>): the payment and invoice
    tables; identifiers and nonces stay unique.
  \<^item> \<open>Payment_Signing\<close> (\<open>payment/types.go\<close>, \<open>eip712.go\<close>, \<open>eip191.go\<close>) and \<open>X402_Client\<close>
    (\<open>payment/x402_client.go\<close>): what is signed, what is sent to the facilitator, and the retry loop,
    which is bounded by the configured number of attempts.
  \<^item> \<open>Escrow\<close> (\<open>payment/escrow.go\<close>): creating, settling and refunding an escrow.  The theorems say that
    money moves at most once in every history of operations that do not interleave, that the amount
    asked for is covered, and exhibit the interleaving and the failed update under which a payment is
    settled twice.
  \<^item> \<open>One_Shot_Crypto\<close> (\<open>crypto/invoice_crypto.go\<close>, \<open>data_crypto.go\<close>) and \<open>Invoices\<close>
    (\<open>p2p/invoice_handler.go\<close>, \<open>invoice_message_handler.go\<close>, \<open>payment/invoice_manager.go\<close>): invoices
    between peers; an accepted invoice is paid as it was sent, and the encrypted form of a request has
    the effect of the plain one.

  \<^bold>\<open>Chat.\<close>
  \<^item> \<open>Double_Ratchet\<close>, \<open>Sender_Keys\<close>, \<open>Chat_Crypto\<close> (\<open>crypto/double_ratchet.go\<close>, \<open>sender_keys.go\<close>,
    \<open>chat_crypto_manager.go\<close>): the ciphers of conversations and groups.  Conversations
    survive loss and reordering within the limit of skipped keys, and messages are accepted once.
  \<^item> \<open>Chat_Store\<close> (\<open>database/chat_*.go\<close>): the chat tables and their invariant.
  \<^item> \<open>Chat_Handlers\<close>, \<open>Chat_Groups\<close>, \<open>Group_Delivery\<close> (\<open>p2p/chat_handler.go\<close>,
    \<open>chat_message_handler.go\<close>, \<open>chat/chat_manager.go\<close>): handlers and senders; a message sent is
    stored by the receiver, ratchets survive a restart, group traffic that arrives early is delivered
    later, and what a stranger can do.

  \<^bold>\<open>Jobs and data.\<close>
  \<^item> \<open>Job_Store\<close> (\<open>database/job_executions.go\<close>, \<open>workflows.go\<close>, \<open>services.go\<close>, \<open>data_transfers.go\<close>): the
    tables, their constraints and the invariant all statements keep.
  \<^item> \<open>Job_Paths\<close> (\<open>utils/path_builder.go\<close>, \<open>paths.go\<close>): where the files of a job lie.
  \<^item> \<open>Jobs\<close>, \<open>Job_Lifecycle\<close> (\<open>core/job_manager.go\<close>): requesting, paying, starting, running, settling
    and cancelling a job.  A priced service runs only for a verified payment, and the payment
    follows the outcome.
  \<^item> \<open>File_Cipher\<close>, \<open>Data_Transfer\<close>, \<open>Data_Delivery\<close>, \<open>Data_Faults\<close> (\<open>workers/data_worker.go\<close>): the
    encryption of files and their transfer in chunks.  A file arrives as it was sent, for every order
    and repetition of its chunks; the faults show what happens when the chunk sizes of the nodes differ,
    when an encrypted transfer is resumed, and when an archive does not unpack.

  \<^bold>\<open>Workflows.\<close>
  \<^item> \<open>Workflow_Design\<close> (\<open>database/workflows.go\<close>, \<open>workflow_nodes.go\<close>): drawings of workflows and
    \<open>BuildWorkflowDefinition\<close>, which compiles a drawing into jobs; the compiled jobs have exactly the routes of
    the drawing, whatever order Go iterates its maps in.
  \<^item> \<open>Workflows\<close>, \<open>Workflow_Runs\<close>, \<open>Workflow_Watch\<close> (\<open>core/workflow_manager.go\<close>): parsing, validating,
    executing, polling and cancelling a workflow.  The environment \<open>wf_env\<close> has the answers of executors,
    the faults of the statements and the map orders of an execution, \<open>poll_env\<close> those of one tick of the
    status updater.  Executing orders every job and starts it with complete routing; a tick ends exactly the workflows
    whose jobs have ended; cancelling and feeding data to a computation on another peer fail as shown.

  \<^bold>\<open>Relays.\<close>
  \<^item> \<open>Relay_Store\<close> (\<open>database/relay.go\<close>): traffic records, preferred relays, kept messages and the account of a peer.
  \<^item> \<open>Relay\<close> (\<open>p2p/relay.go\<close>, the dispatch of \<open>p2p/quic.go\<close>): registration and its payment, forwarding and the routing of
    responses, keeping messages for absent peers and delivering them, and the end of sessions.  A session is an object that three
    tables point to.  The environment \<open>relay_env\<close> has the clock, the new ids, the outcomes of writes and
    statements and the facilitator; \<open>quic_codec\<close> is \<open>encoding/json\<close> on messages.
  \<^item> \<open>Relay_Keeping\<close>: a message whose forwarding succeeded is written, kept or expired, over all interleavings of
    requests and deliveries.  \<open>Relay_Client\<close> (the listener of \<open>p2p/relay_manager.go\<close>): frames are read as they were
    written.  \<open>Relay_Delivery\<close>: what waits for a peer is delivered after finitely many announcements, and expired messages
    block its account.  \<open>Relay_Sessions\<close>: the tables stay well formed in every run, and payments are never settled.

  \<^bold>\<open>Bounds and fuel.\<close>  Loops of the code are structural recursions over the lists they range over, the
  retry loops recursions over the attempts left, and the chains of the ratchets recursions over the
  number of keys to skip; the listener of a relay recurses on the bytes left in the stream; no definition needs fuel that could run out.  Database and network loops that never end (tickers, readers) appear as one step each.

  \<^bold>\<open>Not modelled.\<close>  The transport (QUIC, hole punching, NAT detection), the choice of relays, the DHT and peer
  discovery, the execution of containers and programs, the HTTP and websocket interfaces, key files
  and wallets on disk, the command line, logging and the user interface: they are input and output,
  or thin layers over libraries, and appear in the model as arguments.  Mutexes are not modelled, apart from the two calls of the relay that block on a mutex they hold;
  where two operations of the code can interleave, the interleaving is a sequence of steps.
\<close>

end
